(* ===== verification/Py.thy ===== *)
theory Py
  imports Main "HOL-Library.Char_ord" "HOL-Library.List_Lexorder" "HOL-Library.Product_Lexorder"
    "HOL-Library.Multiset"
begin

text \<open>
  Prelude: the parts of Python's runtime that the modelled modules use, and the generic
  lemmas the components share.

  \<^item> Strings are \<^typ>\<open>string\<close>, one \<^typ>\<open>char\<close> per code point; the model covers the code
    points below 256. Comparison is Python's code point order (\<open>Char_ord\<close> and
    \<open>List_Lexorder\<close>).
  \<^item> A \<open>dict\<close> is an association list in insertion order with distinct keys. Lookup is
    \<^const>\<open>map_of\<close>; \<open>d[k] = v\<close> is \<open>dict_set\<close>; \<open>d.setdefault(k, []).append(v)\<close> is
    \<open>dict_push\<close>.
  \<^item> \<open>sorted(xs, key=f)\<close> is the stable \<^const>\<open>sort_key\<close>.
  \<^item> A raised exception is the \<open>Inl\<close> of a sum.
\<close>

named_theorems dict_simps "rewriting of dictionary operations"
named_theorems err_elims "inversion of sequenced fallible computations"

section \<open>Characters and strings\<close>

abbreviation code_point :: "char \<Rightarrow> nat" where
  "code_point c \<equiv> of_char c"

text \<open>\<open>str.isspace\<close> on one character, below code point 256.\<close>

definition is_space :: "char \<Rightarrow> bool" where
  "is_space c = (let n = code_point c in
     (9 \<le> n \<and> n \<le> 13) \<or> (28 \<le> n \<and> n \<le> 32) \<or> n = 133 \<or> n = 160)"

text \<open>\<open>not s.strip()\<close>: only whitespace.\<close>

definition blank :: "string \<Rightarrow> bool" where
  "blank s = list_all is_space s"

definition lstrip :: "string \<Rightarrow> string" where
  "lstrip s = dropWhile is_space s"

definition rstrip :: "string \<Rightarrow> string" where
  "rstrip s = rev (dropWhile is_space (rev s))"

definition strip :: "string \<Rightarrow> string" where
  "strip s = rstrip (lstrip s)"

text \<open>\<open>str.rstrip(chars)\<close>.\<close>

definition rstrip_of :: "char list \<Rightarrow> string \<Rightarrow> string" where
  "rstrip_of cs s = rev (dropWhile (\<lambda>c. c \<in> set cs) (rev s))"

definition lower_char :: "char \<Rightarrow> char" where
  "lower_char c = (let n = code_point c in
     if (65 \<le> n \<and> n \<le> 90) \<or> (192 \<le> n \<and> n \<le> 222 \<and> n \<noteq> 215)
     then char_of (n + 32) else c)"

definition lower :: "string \<Rightarrow> string" where
  "lower s = map lower_char s"

text \<open>\<open>str.upper\<close>; the letters whose capital lies above code point 255 are left alone.\<close>

definition upper_char :: "char \<Rightarrow> string" where
  "upper_char c = (let n = code_point c in
     if (97 \<le> n \<and> n \<le> 122) \<or> (224 \<le> n \<and> n \<le> 254 \<and> n \<noteq> 247)
     then [char_of (n - 32)] else if n = 223 then ''SS'' else [c])"

definition upper :: "string \<Rightarrow> string" where
  "upper s = concat (map upper_char s)"

text \<open>\<open>s.replace(a, b)\<close> for one-character \<open>a\<close> and \<open>b\<close>.\<close>

definition replace_char :: "char \<Rightarrow> char \<Rightarrow> string \<Rightarrow> string" where
  "replace_char a b s = map (\<lambda>c. if c = a then b else c) s"

fun starts_with :: "'a list \<Rightarrow> 'a list \<Rightarrow> bool" where
  "starts_with [] s = True"
| "starts_with (p # ps) [] = False"
| "starts_with (p # ps) (c # cs) = (p = c \<and> starts_with ps cs)"

fun join :: "'a list \<Rightarrow> 'a list list \<Rightarrow> 'a list" where
  "join sep [] = []"
| "join sep [x] = x"
| "join sep (x # y # xs) = x @ sep @ join sep (y # xs)"

text \<open>\<open>str(n)\<close> for integers.\<close>

definition digit :: "nat \<Rightarrow> char" where
  "digit d = char_of (48 + d)"

fun nat_str :: "nat \<Rightarrow> string" where
  "nat_str n = (if n < 10 then [digit n] else nat_str (n div 10) @ [digit (n mod 10)])"

declare nat_str.simps [simp del]

definition int_str :: "int \<Rightarrow> string" where
  "int_str i = (if i < 0 then CHR ''-'' # nat_str (nat (- i)) else nat_str (nat i))"

text \<open>
  \<open>fnmatch.fnmatchcase(name, pat)\<close> with the wildcards \<open>*\<close> and \<open>?\<close>; bracket
  classes do not occur in the patterns of the lane registry.
\<close>

fun fnmatch :: "string \<Rightarrow> string \<Rightarrow> bool" where
  "fnmatch [] s = (s = [])"
| "fnmatch (p # ps) [] = (p = CHR ''*'' \<and> fnmatch ps [])"
| "fnmatch (p # ps) (c # cs) =
     (if p = CHR ''*'' then fnmatch ps (c # cs) \<or> fnmatch (p # ps) cs
      else (p = CHR ''?'' \<or> p = c) \<and> fnmatch ps cs)"

lemma starts_with_iff: "starts_with p s \<longleftrightarrow> (\<exists>r. s = p @ r)"
  by (induction p s rule: starts_with.induct) auto

lemma fnmatch_literal:
  "CHR ''*'' \<notin> set p \<Longrightarrow> CHR ''?'' \<notin> set p \<Longrightarrow> fnmatch p s \<longleftrightarrow> s = p"
  by (induction p s rule: fnmatch.induct) auto

lemma lower_length [simp]: "length (lower s) = length s"
  by (simp add: lower_def)

lemma set_dropWhile_rev: "set (rev (dropWhile P (rev s))) \<subseteq> set s"
  using set_dropWhileD by fastforce

lemma rstrip_of_suffix: "\<exists>w. s = rstrip_of cs s @ w \<and> set w \<subseteq> set cs"
proof -
  have "rev s = takeWhile (\<lambda>c. c \<in> set cs) (rev s) @ dropWhile (\<lambda>c. c \<in> set cs) (rev s)"
    by simp
  then have "s = rev (dropWhile (\<lambda>c. c \<in> set cs) (rev s)) @ rev (takeWhile (\<lambda>c. c \<in> set cs) (rev s))"
    by (metis rev_append rev_rev_ident)
  moreover have "set (takeWhile (\<lambda>c. c \<in> set cs) (rev s)) \<subseteq> set cs"
    using set_takeWhileD by fastforce
  ultimately show ?thesis
    unfolding rstrip_of_def by (metis set_rev)
qed

section \<open>Dictionaries in insertion order\<close>

type_synonym ('k, 'v) dict = "('k \<times> 'v) list"

definition keys :: "('k, 'v) dict \<Rightarrow> 'k list" where
  "keys d = map fst d"

fun dict_set :: "'k \<Rightarrow> 'v \<Rightarrow> ('k, 'v) dict \<Rightarrow> ('k, 'v) dict" where
  "dict_set k v [] = [(k, v)]"
| "dict_set k v ((k', v') # d) = (if k = k' then (k', v) # d else (k', v') # dict_set k v d)"

fun dict_push :: "'k \<Rightarrow> 'v \<Rightarrow> ('k, 'v list) dict \<Rightarrow> ('k, 'v list) dict" where
  "dict_push k v [] = [(k, [v])]"
| "dict_push k v ((k', vs) # d) =
     (if k = k' then (k', vs @ [v]) # d else (k', vs) # dict_push k v d)"

text \<open>\<open>{f(x): g(x) for x in xs}\<close>: a later entry overwrites an earlier one in place.\<close>

definition dict_of :: "('a \<Rightarrow> 'k) \<Rightarrow> ('a \<Rightarrow> 'v) \<Rightarrow> 'a list \<Rightarrow> ('k, 'v) dict" where
  "dict_of f g xs = fold (\<lambda>x. dict_set (f x) (g x)) xs []"

text \<open>\<open>for x in xs: d.setdefault(f(x), []).append(x)\<close>.\<close>

definition group_by :: "('a \<Rightarrow> 'k) \<Rightarrow> 'a list \<Rightarrow> ('k, 'a list) dict" where
  "group_by f xs = fold (\<lambda>x. dict_push (f x) x) xs []"

text \<open>\<open>d.get(k, default)\<close>.\<close>

definition get_or :: "('k, 'v) dict \<Rightarrow> 'k \<Rightarrow> 'v \<Rightarrow> 'v" where
  "get_or d k v = (case map_of d k of None \<Rightarrow> v | Some w \<Rightarrow> w)"

lemma map_of_dict_set [dict_simps]: "map_of (dict_set k v d) = (map_of d)(k \<mapsto> v)"
  by (induction k v d rule: dict_set.induct) (auto simp: fun_eq_iff)

lemma map_of_dict_push [dict_simps]:
  "map_of (dict_push k v d) = (map_of d)(k \<mapsto> (case map_of d k of None \<Rightarrow> [] | Some vs \<Rightarrow> vs) @ [v])"
  by (induction k v d rule: dict_push.induct) (auto simp: fun_eq_iff)

lemma set_fst_dict_set: "fst ` set (dict_set k v d) = insert k (fst ` set d)"
  by (induction k v d rule: dict_set.induct) auto

lemma set_fst_dict_push: "fst ` set (dict_push k v d) = insert k (fst ` set d)"
  by (induction k v d rule: dict_push.induct) auto

lemma distinct_dict_set: "distinct (map fst d) \<Longrightarrow> distinct (map fst (dict_set k v d))"
  by (induction k v d rule: dict_set.induct) (auto simp: set_fst_dict_set)

lemma distinct_dict_push: "distinct (map fst d) \<Longrightarrow> distinct (map fst (dict_push k v d))"
  by (induction k v d rule: dict_push.induct) (auto simp: set_fst_dict_push)

subsection \<open>The grouping interface\<close>

text \<open>
  Several components build an index by pushing items under a key and then walk the index:
  the reconciliation slots, the alignment groups, the edge indexes of the LVS and DRC
  engines. What they rely on is the contract of a multimap.
\<close>

locale multimap =
  fixes empty :: "'d"
    and push :: "'k \<Rightarrow> 'v \<Rightarrow> 'd \<Rightarrow> 'd"
    and items :: "'d \<Rightarrow> ('k \<times> 'v list) list"
  assumes items_empty: "items empty = []"
    and push_distinct: "distinct (map fst (items d)) \<Longrightarrow> distinct (map fst (items (push k v d)))"
    and push_lookup: "map_of (items (push k v d)) =
      (map_of (items d))(k \<mapsto> (case map_of (items d) k of None \<Rightarrow> [] | Some vs \<Rightarrow> vs) @ [v])"
begin

lemma build_distinct:
  "distinct (map fst (items d)) \<Longrightarrow> distinct (map fst (items (fold (\<lambda>x. push (f x) (g x)) xs d)))"
  by (induction xs arbitrary: d) (auto intro: push_distinct)

lemma build_lookup:
  "map_of (items (fold (\<lambda>x. push (f x) (g x)) xs d)) k =
     (let vs = map g (filter (\<lambda>x. f x = k) xs) in
      if vs = [] then map_of (items d) k
      else Some ((case map_of (items d) k of None \<Rightarrow> [] | Some us \<Rightarrow> us) @ vs))"
proof (induction xs arbitrary: d)
  case Nil
  then show ?case by simp
next
  case (Cons x xs)
  show ?case
    by (simp add: Cons.IH Let_def push_lookup split: option.splits)
qed

lemma build_group:
  "map_of (items (fold (\<lambda>x. push (f x) (g x)) xs empty)) k =
     (let vs = map g (filter (\<lambda>x. f x = k) xs) in if vs = [] then None else Some vs)"
  by (simp add: build_lookup items_empty Let_def)

lemma build_member:
  assumes "(k, vs) \<in> set (items (fold (\<lambda>x. push (f x) (g x)) xs empty))"
  shows "vs = map g (filter (\<lambda>x. f x = k) xs) \<and> vs \<noteq> []"
proof -
  have "distinct (map fst (items (fold (\<lambda>x. push (f x) (g x)) xs empty)))"
    by (rule build_distinct) (simp add: items_empty)
  then have "map_of (items (fold (\<lambda>x. push (f x) (g x)) xs empty)) k = Some vs"
    using assms by simp
  then show ?thesis
    by (auto simp: build_group Let_def split: if_splits)
qed

lemma build_keys:
  "fst ` set (items (fold (\<lambda>x. push (f x) (g x)) xs empty)) = f ` set xs"
proof -
  have "k \<in> fst ` set (items (fold (\<lambda>x. push (f x) (g x)) xs empty)) \<longleftrightarrow> k \<in> f ` set xs" for k
  proof -
    have "k \<in> fst ` set (items (fold (\<lambda>x. push (f x) (g x)) xs empty)) \<longleftrightarrow>
        map_of (items (fold (\<lambda>x. push (f x) (g x)) xs empty)) k \<noteq> None"
      by (simp add: map_of_eq_None_iff)
    also have "\<dots> \<longleftrightarrow> k \<in> f ` set xs"
      by (auto simp: build_group Let_def filter_empty_conv)
    finally show ?thesis .
  qed
  then show ?thesis by blast
qed

end

interpretation dict_groups: multimap "[]" dict_push "\<lambda>d. d"
  by unfold_locales (simp_all add: distinct_dict_push map_of_dict_push)

lemma group_by_distinct: "distinct (map fst (group_by f xs))"
  unfolding group_by_def by (rule dict_groups.build_distinct) simp

lemma group_by_lookup:
  "map_of (group_by f xs) k =
     (if filter (\<lambda>x. f x = k) xs = [] then None else Some (filter (\<lambda>x. f x = k) xs))"
  unfolding group_by_def using dict_groups.build_group [where g = "\<lambda>x. x" and f = f]
  by (simp add: Let_def)

lemma group_by_member:
  "(k, vs) \<in> set (group_by f xs) \<Longrightarrow> vs = filter (\<lambda>x. f x = k) xs \<and> vs \<noteq> []"
  unfolding group_by_def using dict_groups.build_member [where g = "\<lambda>x. x" and f = f]
  by fastforce

lemma group_by_keys: "fst ` set (group_by f xs) = f ` set xs"
  unfolding group_by_def using dict_groups.build_keys [where g = "\<lambda>x. x" and f = f]
  by simp

lemma group_by_get: "get_or (group_by f xs) k [] = filter (\<lambda>x. f x = k) xs"
  by (simp add: get_or_def group_by_lookup)

lemma dict_push_mset: "mset (concat (map snd (dict_push k v d))) = add_mset v (mset (concat (map snd d)))"
  by (induction k v d rule: dict_push.induct) auto

text \<open>Grouping loses nothing and invents nothing.\<close>

lemma group_by_mset: "mset (concat (map snd (group_by f xs))) = mset xs"
proof -
  have "mset (concat (map snd (fold (\<lambda>x. dict_push (f x) x) xs d))) =
      mset xs + mset (concat (map snd d))" for d
    by (induction xs arbitrary: d) (auto simp: dict_push_mset)
  from this [of "[]"] show ?thesis
    by (simp add: group_by_def)
qed

lemma dict_of_distinct: "distinct (map fst (dict_of f g xs))"
proof -
  have "distinct (map fst d) \<Longrightarrow> distinct (map fst (fold (\<lambda>x. dict_set (f x) (g x)) xs d))" for d
    by (induction xs arbitrary: d) (auto intro: distinct_dict_set)
  then show ?thesis by (simp add: dict_of_def)
qed

lemma dict_of_keys: "fst ` set (dict_of f g xs) = f ` set xs"
proof -
  have "fst ` set (fold (\<lambda>x. dict_set (f x) (g x)) xs d) = f ` set xs \<union> fst ` set d" for d
    by (induction xs arbitrary: d) (auto simp: set_fst_dict_set)
  then show ?thesis by (simp add: dict_of_def)
qed

lemma dict_of_lookup_inj:
  assumes "distinct (map f xs)" and "x \<in> set xs"
  shows "map_of (dict_of f g xs) (f x) = Some (g x)"
proof -
  have "f y \<noteq> k \<Longrightarrow> map_of (dict_set (f y) (g y) d) k = map_of d k" for y k d
    by (simp add: map_of_dict_set)
  then have keep: "k \<notin> f ` set ys \<Longrightarrow>
      map_of (fold (\<lambda>x. dict_set (f x) (g x)) ys d) k = map_of d k" for ys d k
    by (induction ys arbitrary: d) auto
  have "distinct (map f ys) \<Longrightarrow> x \<in> set ys \<Longrightarrow>
      map_of (fold (\<lambda>x. dict_set (f x) (g x)) ys d) (f x) = Some (g x)" for ys d
  proof (induction ys arbitrary: d)
    case Nil
    then show ?case by simp
  next
    case (Cons y ys)
    then show ?case
      by (cases "x = y") (auto simp: keep map_of_dict_set)
  qed
  from this [OF assms] show ?thesis by (simp add: dict_of_def)
qed

lemma dict_set_subset: "set (dict_set k v d) \<subseteq> insert (k, v) (set d)"
  by (induction k v d rule: dict_set.induct) auto

lemma dict_of_member: "(k, v) \<in> set (dict_of f g xs) \<Longrightarrow> \<exists>x \<in> set xs. k = f x \<and> v = g x"
proof -
  have "set (fold (\<lambda>x. dict_set (f x) (g x)) ys d) \<subseteq> (\<lambda>x. (f x, g x)) ` set ys \<union> set d" for ys d
  proof (induction ys arbitrary: d)
    case Nil
    then show ?case by simp
  next
    case (Cons y ys)
    have "set (fold (\<lambda>x. dict_set (f x) (g x)) ys (dict_set (f y) (g y) d)) \<subseteq>
        (\<lambda>x. (f x, g x)) ` set ys \<union> set (dict_set (f y) (g y) d)"
      by (rule Cons.IH)
    also have "\<dots> \<subseteq> (\<lambda>x. (f x, g x)) ` set (y # ys) \<union> set d"
      using dict_set_subset [of "f y" "g y" d] by auto
    finally show ?case by simp
  qed
  from this [of xs "[]"] show "(k, v) \<in> set (dict_of f g xs) \<Longrightarrow> ?thesis"
    by (auto simp: dict_of_def)
qed

lemma find_SomeD: "find P xs = Some x \<Longrightarrow> P x \<and> x \<in> set xs"
  by (induction xs) (auto split: if_splits)

section \<open>Sequencing fallible computations\<close>

text \<open>\<open>bind\<close> on sums: the first raised error wins.\<close>

fun and_then :: "'e + 'a \<Rightarrow> ('a \<Rightarrow> 'e + 'b) \<Rightarrow> 'e + 'b" where
  "and_then (Inl e) f = Inl e"
| "and_then (Inr a) f = f a"

fun map_err :: "('a \<Rightarrow> 'e + 'b) \<Rightarrow> 'a list \<Rightarrow> 'e + 'b list" where
  "map_err f [] = Inr []"
| "map_err f (x # xs) =
     and_then (f x) (\<lambda>y. and_then (map_err f xs) (\<lambda>ys. Inr (y # ys)))"

text \<open>A computation that raised nothing.\<close>

fun is_ok :: "'e + 'a \<Rightarrow> bool" where
  "is_ok (Inl e) = False"
| "is_ok (Inr a) = True"

lemma is_okE: "is_ok m \<Longrightarrow> \<exists>a. m = Inr a"
  by (cases m) auto

lemma and_then_Inr [err_elims]: "and_then m f = Inr b \<longleftrightarrow> (\<exists>a. m = Inr a \<and> f a = Inr b)"
  by (cases m) auto

lemma and_then_Inl: "and_then m f = Inl e \<longleftrightarrow> m = Inl e \<or> (\<exists>a. m = Inr a \<and> f a = Inl e)"
  by (cases m) auto

lemma map_err_Inr: "map_err f xs = Inr ys \<longleftrightarrow> list_all2 (\<lambda>x y. f x = Inr y) xs ys"
proof (induction xs arbitrary: ys)
  case Nil
  then show ?case by auto
next
  case (Cons x xs)
  then show ?case
    by (cases ys) (auto simp: and_then_Inr)
qed

lemma map_err_Inl: "map_err f xs = Inl e \<Longrightarrow> \<exists>x \<in> set xs. f x = Inl e"
  by (induction xs) (auto simp: and_then_Inl)

lemma map_err_member: "map_err f xs = Inr ys \<Longrightarrow> y \<in> set ys \<Longrightarrow> \<exists>x \<in> set xs. f x = Inr y"
  unfolding map_err_Inr by (induction rule: list_all2_induct) auto

lemma map_err_source: "map_err f xs = Inr ys \<Longrightarrow> x \<in> set xs \<Longrightarrow> \<exists>y \<in> set ys. f x = Inr y"
  unfolding map_err_Inr by (induction rule: list_all2_induct) auto

lemma map_err_total: "(\<And>x. x \<in> set xs \<Longrightarrow> \<exists>y. f x = Inr y) \<Longrightarrow> \<exists>ys. map_err f xs = Inr ys"
  by (induction xs) (fastforce simp: and_then_Inr)+

section \<open>Sorting\<close>

lemma sort_key_Nil: "sort_key f xs = [] \<longleftrightarrow> xs = []"
  by (metis length_0_conv length_sort)

lemma list_ex_map: "list_ex P (map g xs) = list_ex (\<lambda>x. P (g x)) xs"
  by (induction xs) auto

lemma sort_key_map_fst:
  "sort_key fst (map (\<lambda>(k, v). (k, g v)) kvs) = map (\<lambda>(k, v). (k, g v)) (sort_key fst kvs)"
proof (induction kvs)
  case Nil
  then show ?case by simp
next
  case (Cons kv kvs)
  have "insort_key fst (k, g v) (map (\<lambda>(k, v). (k, g v)) xs) =
      map (\<lambda>(k, v). (k, g v)) (insort_key fst (k, v) xs)" for k v xs
    by (induction xs) auto
  with Cons show ?case
    by (cases kv) simp
qed

text \<open>Sorting dictionary items by an injective image of the key fixes the key order.\<close>

lemma sort_items_keys_unique:
  fixes h :: "'k \<Rightarrow> 'h::linorder"
  assumes d: "distinct (map fst d)" and d': "distinct (map fst d')"
    and keys: "fst ` set d = fst ` set d'" and inj: "inj_on h (fst ` set d)"
  shows "map fst (sort_key (\<lambda>(k, _). h k) d) = map fst (sort_key (\<lambda>(k, _). h k) d')"
proof -
  let ?a = "map fst (sort_key (\<lambda>(k, _). h k) d)" and ?b = "map fst (sort_key (\<lambda>(k, _). h k) d')"
  have keyed: "map (\<lambda>(k, _). h k) xs = map h (map fst xs)" for xs :: "('k \<times> 'v) list"
    by (simp add: case_prod_beta comp_def)
  have sorted: "sorted (map h ?a)" "sorted (map h ?b)"
    using sorted_sort_key [of "\<lambda>(k, _). h k" d] sorted_sort_key [of "\<lambda>(k, _). h k" d']
    unfolding keyed by simp_all
  have mset: "mset ?a = mset (map fst d)" "mset ?b = mset (map fst d')"
    by (simp_all only: mset_map mset_sort)
  have dist: "distinct ?a" "distinct ?b"
    using d d' mset_eq_imp_distinct_iff [OF mset(1)] mset_eq_imp_distinct_iff [OF mset(2)] by auto
  have sets: "set ?a = fst ` set d" "set ?b = fst ` set d" using keys by auto
  have "distinct (map h ?a)" "distinct (map h ?b)"
    using dist inj sets by (simp_all only: distinct_map)
  then have "map h ?a = map h ?b"
    using sorted sets by (intro sorted_distinct_set_unique) (simp_all only: set_map)
  then show ?thesis
    by (rule map_inj_on) (use sets inj in simp)
qed

lemma group_by_length: "length (group_by f xs) = card (f ` set xs)"
  using distinct_card [OF group_by_distinct [of f xs]] group_by_keys [of f xs] by simp

lemma set_map_filter: "x \<in> set (List.map_filter f xs) \<longleftrightarrow> (\<exists>y \<in> set xs. f y = Some x)"
  by (induction xs) (auto simp: List.map_filter_simps split: option.splits)

lemma mset_map_filter_cong:
  assumes "mset xs = mset ys"
  shows "mset (List.map_filter f xs) = mset (List.map_filter f ys)"
  using assms by (simp add: List.map_filter_def)

end
