(* ===== verification/Json.thy ===== *)
theory Json
  imports Py
begin

text \<open>
  JSON values and \<open>json.dumps\<close> as the repository calls it: \<open>sort_keys=True\<close>,
  \<open>separators=(",", ":")\<close>, with \<open>ensure_ascii\<close> on or off. Every digest and identity of the
  evidence kernel is a hash of such a text, so the theory proves what those identities rest
  on: the text determines the value up to the order of object keys.

  The type stands for the \<open>Any\<close> payloads of the source (claim objects, provenance,
  witnesses). A Python tuple serialises as a list. A float is carried as the text \<open>repr\<close>
  gives it.
\<close>

datatype json =
    JNull
  | JBool bool
  | JInt int
  | JFloat string
  | JStr string
  | JList "json list"
  | JObj "(string \<times> json) list"

section \<open>Serialisation\<close>

definition hexdigit :: "nat \<Rightarrow> char" where
  "hexdigit d = (if d < 10 then char_of (48 + d) else char_of (87 + d))"

text \<open>The escape of one character inside a JSON string.\<close>

definition esc_char :: "bool \<Rightarrow> char \<Rightarrow> string" where
  "esc_char ascii c = (let n = code_point c in
     if n = 34 then [CHR 0x5C, CHR 0x22]
     else if n = 92 then [CHR 0x5C, CHR 0x5C]
     else if n = 10 then [CHR 0x5C, CHR ''n'']
     else if n = 13 then [CHR 0x5C, CHR ''r'']
     else if n = 9 then [CHR 0x5C, CHR ''t'']
     else if n = 12 then [CHR 0x5C, CHR ''f'']
     else if n = 8 then [CHR 0x5C, CHR ''b'']
     else if n < 32 \<or> (ascii \<and> 127 \<le> n)
       then [CHR 0x5C, CHR ''u'', CHR ''0'', CHR ''0'', hexdigit (n div 16), hexdigit (n mod 16)]
     else [c])"

definition esc_str :: "bool \<Rightarrow> string \<Rightarrow> string" where
  "esc_str ascii s = CHR 0x22 # concat (map (esc_char ascii) s) @ [CHR 0x22]"

text \<open>\<open>json.dumps(v, separators=(",", ":"))\<close>, keys in the order given.\<close>

fun ser :: "bool \<Rightarrow> json \<Rightarrow> string" where
  "ser a JNull = ''null''"
| "ser a (JBool b) = (if b then ''true'' else ''false'')"
| "ser a (JInt i) = int_str i"
| "ser a (JFloat r) = r"
| "ser a (JStr s) = esc_str a s"
| "ser a (JList xs) = CHR ''['' # join '','' (map (ser a) xs) @ '']''"
| "ser a (JObj kvs) =
     CHR ''{'' # join '','' (map (\<lambda>(k, v). esc_str a k @ CHR '':'' # ser a v) kvs) @ ''}''"

text \<open>Objects with their keys in sorted order, at every depth.\<close>

fun canon :: "json \<Rightarrow> json" where
  "canon (JList xs) = JList (map canon xs)"
| "canon (JObj kvs) = JObj (sort_key fst (map (\<lambda>(k, v). (k, canon v)) kvs))"
| "canon j = j"

text \<open>\<open>json.dumps(v, sort_keys=True, separators=(",", ":"))\<close>.\<close>

definition dumps :: "bool \<Rightarrow> json \<Rightarrow> string" where
  "dumps a j = ser a (canon j)"

text \<open>Python truth value of a JSON value.\<close>

fun truthy :: "json \<Rightarrow> bool" where
  "truthy JNull = False"
| "truthy (JBool b) = b"
| "truthy (JInt i) = (i \<noteq> 0)"
| "truthy (JFloat r) = (r \<notin> {''0.0'', ''-0.0''})"
| "truthy (JStr s) = (s \<noteq> [])"
| "truthy (JList xs) = (xs \<noteq> [])"
| "truthy (JObj kvs) = (kvs \<noteq> [])"

text \<open>\<open>repr\<close> of a string: single quotes unless only they occur inside.\<close>

definition repr_char :: "char \<Rightarrow> char \<Rightarrow> string" where
  "repr_char q c = (let n = code_point c in
     if c = q \<or> n = 92 then [CHR 0x5C, c]
     else if n = 10 then [CHR 0x5C, CHR ''n'']
     else if n = 13 then [CHR 0x5C, CHR ''r'']
     else if n = 9 then [CHR 0x5C, CHR ''t'']
     else if n < 32 \<or> (127 \<le> n \<and> n \<le> 160) \<or> n = 173
       then [CHR 0x5C, CHR ''x'', hexdigit (n div 16), hexdigit (n mod 16)]
     else [c])"

definition repr_str :: "string \<Rightarrow> string" where
  "repr_str s =
     (let q = (if CHR 0x27 \<in> set s \<and> CHR 0x22 \<notin> set s then CHR 0x22 else CHR 0x27)
      in q # concat (map (repr_char q) s) @ [q])"

fun py_repr :: "json \<Rightarrow> string" where
  "py_repr JNull = ''None''"
| "py_repr (JBool b) = (if b then ''True'' else ''False'')"
| "py_repr (JInt i) = int_str i"
| "py_repr (JFloat r) = r"
| "py_repr (JStr s) = repr_str s"
| "py_repr (JList xs) = CHR ''['' # join '', '' (map py_repr xs) @ '']''"
| "py_repr (JObj kvs) =
     CHR ''{'' # join '', '' (map (\<lambda>(k, v). repr_str k @ '': '' @ py_repr v) kvs) @ ''}''"

text \<open>\<open>str(x)\<close>.\<close>

definition py_str :: "json \<Rightarrow> string" where
  "py_str j = (case j of JStr s \<Rightarrow> s | _ \<Rightarrow> py_repr j)"

type_synonym jdict = "(string, json) dict"

text \<open>\<open>d.get(key)\<close>.\<close>

definition jget :: "jdict \<Rightarrow> string \<Rightarrow> json" where
  "jget d k = get_or d k JNull"

text \<open>JSON views used by the serialisers.\<close>

definition jopt :: "('a \<Rightarrow> json) \<Rightarrow> 'a option \<Rightarrow> json" where
  "jopt f x = (case x of None \<Rightarrow> JNull | Some a \<Rightarrow> f a)"

definition jstrs :: "string list \<Rightarrow> json" where
  "jstrs xs = JList (map JStr xs)"

fun float_free :: "json \<Rightarrow> bool" where
  "float_free (JFloat r) = False"
| "float_free (JList xs) = list_all float_free xs"
| "float_free (JObj kvs) = list_all (\<lambda>(k, v). float_free v) kvs"
| "float_free j = True"

section \<open>The text determines the value\<close>

subsection \<open>Decimal numbers\<close>

definition is_digit :: "char \<Rightarrow> bool" where
  "is_digit c = (48 \<le> code_point c \<and> code_point c \<le> 57)"

lemma digit_code: "d < 10 \<Longrightarrow> code_point (digit d) = 48 + d"
  by (simp add: digit_def)

lemma digit_is_digit: "d < 10 \<Longrightarrow> is_digit (digit d)"
  by (simp add: is_digit_def digit_code)

lemma digit_inj: "d < 10 \<Longrightarrow> e < 10 \<Longrightarrow> digit d = digit e \<Longrightarrow> d = e"
  by (metis add_left_cancel digit_code)

lemma nat_str_digits: "list_all is_digit (nat_str n)"
proof (induction n rule: nat_str.induct)
  case (1 n)
  then show ?case
    by (subst nat_str.simps) (auto simp: digit_is_digit)
qed

lemma nat_str_nonempty: "nat_str n \<noteq> []"
  by (subst nat_str.simps) simp

lemma nat_str_length1: "length (nat_str n) = 1 \<longleftrightarrow> n < 10"
  using nat_str_nonempty [of "n div 10"]
  by (subst nat_str.simps) (cases "nat_str (n div 10)", auto)

lemma nat_str_inj: "nat_str m = nat_str n \<Longrightarrow> m = n"
proof (induction m arbitrary: n rule: nat_str.induct)
  case (1 m)
  have len: "m < 10 \<longleftrightarrow> n < 10"
    using "1.prems" nat_str_length1 by metis
  show ?case
  proof (cases "m < 10")
    case True
    with len "1.prems" have "digit m = digit n"
      by (simp add: nat_str.simps [of m] nat_str.simps [of n])
    with True len show ?thesis using digit_inj by blast
  next
    case False
    with len "1.prems" have "nat_str (m div 10) = nat_str (n div 10)"
      and "digit (m mod 10) = digit (n mod 10)"
      by (simp_all add: nat_str.simps [of m] nat_str.simps [of n])
    then have "m div 10 = n div 10" and "m mod 10 = n mod 10"
      using "1.IH" False digit_inj [of "m mod 10" "n mod 10"] by auto
    then show ?thesis by (metis div_mod_decomp)
  qed
qed

definition is_num_char :: "char \<Rightarrow> bool" where
  "is_num_char c = (is_digit c \<or> c = CHR ''-'')"

lemma int_str_chars: "list_all is_num_char (int_str i)"
  using nat_str_digits [of "nat i"] nat_str_digits [of "nat (- i)"]
  by (auto simp: int_str_def is_num_char_def list_all_iff)

lemma int_str_nonempty: "int_str i \<noteq> []"
  by (simp add: int_str_def nat_str_nonempty)

lemma nat_str_not_minus: "nat_str n \<noteq> CHR ''-'' # w"
  using nat_str_digits [of n] by (auto simp: is_digit_def)

lemma int_str_inj: "int_str i = int_str j \<Longrightarrow> i = j"
  using nat_str_not_minus nat_str_not_minus [symmetric]
  by (auto simp: int_str_def split: if_splits dest!: nat_str_inj)

subsection \<open>Strings\<close>

definition unhex :: "char \<Rightarrow> nat" where
  "unhex c = (let n = code_point c in if n < 58 then n - 48 else n - 87)"

lemma unhex_hexdigit: "d < 16 \<Longrightarrow> unhex (hexdigit d) = d"
  by (auto simp: unhex_def hexdigit_def Let_def)

text \<open>One character back out of an escaped text; the closing quote gives \<open>None\<close>.\<close>

fun unesc :: "string \<Rightarrow> (char \<times> string) option" where
  "unesc (c # r) =
     (if c = CHR 0x22 then None
      else if c = CHR 0x5C then
        (case r of
          [] \<Rightarrow> None
        | e # r' \<Rightarrow>
            if e = CHR ''n'' then Some (CHR 10, r')
            else if e = CHR ''r'' then Some (CHR 13, r')
            else if e = CHR ''t'' then Some (CHR 9, r')
            else if e = CHR ''f'' then Some (CHR 12, r')
            else if e = CHR ''b'' then Some (CHR 8, r')
            else if e = CHR ''u'' then
              Some (char_of (16 * unhex (r' ! 2) + unhex (r' ! 3)), drop 4 r')
            else Some (e, r'))
      else Some (c, r))"
| "unesc [] = None"

lemma char_eq_code: "c = d \<longleftrightarrow> code_point c = code_point d"
  by (metis char_of_char)

lemma unesc_esc: "unesc (esc_char a c @ r) = Some (c, r)"
proof -
  have hi: "code_point c div 16 < 16"
  proof -
    have "code_point c < 256" by (rule nat_of_char_less_256)
    then show ?thesis by linarith
  qed
  have "16 * (code_point c div 16) + code_point c mod 16 = code_point c" by simp
  then have "(char_of (16 * (code_point c div 16) + code_point c mod 16) :: char) = c"
    by (simp only: char_of_char)
  with hi show ?thesis
    by (simp add: esc_char_def Let_def char_eq_code unhex_hexdigit)
qed

lemma unesc_quote: "unesc (CHR 0x22 # r) = None"
  by simp

declare unesc.simps [simp del]

lemma esc_body_inj:
  "concat (map (esc_char a) s) @ CHR 0x22 # r = concat (map (esc_char a) t) @ CHR 0x22 # r' \<Longrightarrow>
   s = t \<and> r = r'"
proof (induction s arbitrary: t)
  case Nil
  show ?case
  proof (cases t)
    case Nil
    with Nil.prems show ?thesis by simp
  next
    case (Cons d t')
    with Nil.prems have "unesc (CHR 0x22 # r) = Some (d, concat (map (esc_char a) t') @ CHR 0x22 # r')"
      by (simp add: unesc_esc)
    then show ?thesis by (simp add: unesc_quote)
  qed
next
  case (Cons c s)
  show ?case
  proof (cases t)
    case Nil
    have "unesc (esc_char a c @ concat (map (esc_char a) s) @ CHR 0x22 # r) =
        Some (c, concat (map (esc_char a) s) @ CHR 0x22 # r)"
      by (rule unesc_esc)
    with Cons.prems Nil have "unesc (CHR 0x22 # r') = Some (c, concat (map (esc_char a) s) @ CHR 0x22 # r)"
      by simp
    then show ?thesis by (simp add: unesc_quote)
  next
    case (Cons d t')
    let ?x = "concat (map (esc_char a) s) @ CHR 0x22 # r"
    let ?y = "concat (map (esc_char a) t') @ CHR 0x22 # r'"
    from Cons.prems Cons have "esc_char a c @ ?x = esc_char a d @ ?y" by simp
    then have "Some (c, ?x) = Some (d, ?y)" by (metis unesc_esc)
    then have "c = d" and "?x = ?y" by simp_all
    with Cons.IH Cons show ?thesis by blast
  qed
qed

lemma esc_str_inj: "esc_str a s @ r = esc_str a t @ r' \<Longrightarrow> s = t \<and> r = r'"
  using esc_body_inj [of a s r t r'] by (simp add: esc_str_def)

subsection \<open>Compound values\<close>

definition delim :: "string \<Rightarrow> bool" where
  "delim r = (case r of [] \<Rightarrow> True | c # _ \<Rightarrow> c \<in> {CHR '','', CHR '']'', CHR ''}''})"

lemma delim_simps [simp]: "delim []" "delim (CHR '','' # r)" "delim (CHR '']'' # r)" "delim (CHR ''}'' # r)"
  by (simp_all add: delim_def)

lemma join_Cons: "join [sep] (map g (x # xs)) = g x @ concat (map (\<lambda>y. sep # g y) xs)"
  by (induction xs arbitrary: x) simp_all

lemma tail_inj:
  assumes "\<And>x y r s. x \<in> set xs \<Longrightarrow> y \<in> set ys \<Longrightarrow> delim r \<Longrightarrow> delim s \<Longrightarrow>
      g x @ r = g y @ s \<Longrightarrow> x = y \<and> r = s"
    and "cl \<in> {CHR '']'', CHR ''}''}"
    and "concat (map (\<lambda>x. CHR '','' # g x) xs) @ cl # r = concat (map (\<lambda>x. CHR '','' # g x) ys) @ cl # s"
  shows "xs = ys \<and> r = s"
  using assms
proof (induction xs arbitrary: ys)
  case Nil
  then show ?case by (cases ys) auto
next
  case (Cons x xs)
  note elem = Cons.prems(1) and cl = Cons.prems(2) and eq = Cons.prems(3)
  show ?case
  proof (cases ys)
    case Nil
    with eq cl show ?thesis by auto
  next
    case (Cons y ys')
    let ?x = "concat (map (\<lambda>x. CHR '','' # g x) xs) @ cl # r"
    let ?y = "concat (map (\<lambda>x. CHR '','' # g x) ys') @ cl # s"
    have "delim ?x" and "delim ?y" using cl by (cases xs; cases ys'; auto)+
    moreover have "g x @ ?x = g y @ ?y" using eq Cons by simp
    ultimately have xy: "x = y" and rest: "?x = ?y" using elem [of x y ?x ?y] Cons by auto
    have "xs = ys' \<and> r = s"
      by (rule Cons.IH [OF _ cl rest]) (use elem Cons in auto)
    with xy Cons show ?thesis by simp
  qed
qed

lemma join_inj:
  assumes elem: "\<And>x y r s. x \<in> set xs \<Longrightarrow> y \<in> set ys \<Longrightarrow> delim r \<Longrightarrow> delim s \<Longrightarrow>
      g x @ r = g y @ s \<Longrightarrow> x = y \<and> r = s"
    and ne: "\<And>x. x \<in> set xs \<union> set ys \<Longrightarrow> g x \<noteq> [] \<and> hd (g x) \<noteq> cl"
    and cl: "cl \<in> {CHR '']'', CHR ''}''}"
    and eq: "join '','' (map g xs) @ cl # r = join '','' (map g ys) @ cl # s"
  shows "xs = ys \<and> r = s"
proof (cases xs)
  case Nil
  show ?thesis
  proof (cases ys)
    case Nil
    with \<open>xs = []\<close> eq show ?thesis by simp
  next
    case (Cons y ys')
    then have "g y \<noteq> []" and "hd (g y) \<noteq> cl" using ne by auto
    moreover have "cl # r = g y @ concat (map (\<lambda>x. CHR '','' # g x) ys') @ cl # s"
      using eq unfolding \<open>xs = []\<close> Cons join_Cons by simp
    ultimately show ?thesis by (cases "g y") auto
  qed
next
  case (Cons x xs')
  note xs = Cons
  have x: "g x \<noteq> []" "hd (g x) \<noteq> cl" using ne xs by auto
  show ?thesis
  proof (cases ys)
    case Nil
    have "g x @ concat (map (\<lambda>x. CHR '','' # g x) xs') @ cl # r = cl # s"
      using eq unfolding Nil xs join_Cons by simp
    with x show ?thesis by (cases "g x") auto
  next
    case (Cons y ys')
    let ?x = "concat (map (\<lambda>x. CHR '','' # g x) xs') @ cl # r"
    let ?y = "concat (map (\<lambda>x. CHR '','' # g x) ys') @ cl # s"
    have d: "delim ?x" "delim ?y" using cl by (cases xs'; cases ys'; auto)+
    have "g x @ ?x = g y @ ?y" using eq unfolding Cons xs join_Cons by simp
    then have xy: "x = y" and rest: "?x = ?y" using elem [of x y ?x ?y] d Cons xs by auto
    have "xs' = ys' \<and> r = s"
      by (rule tail_inj [OF _ cl rest]) (use elem Cons xs in auto)
    with xy Cons xs show ?thesis by simp
  qed
qed

text \<open>The first character tells the constructor.\<close>

fun tag :: "json \<Rightarrow> nat" where
  "tag JNull = 0"
| "tag (JBool b) = (if b then 1 else 2)"
| "tag (JInt i) = 3"
| "tag (JStr s) = 4"
| "tag (JList xs) = 5"
| "tag (JObj kvs) = 6"
| "tag (JFloat r) = 7"

definition tag_char :: "char \<Rightarrow> nat" where
  "tag_char c = (if is_num_char c then 3 else if c = CHR ''n'' then 0 else if c = CHR ''t'' then 1
     else if c = CHR ''f'' then 2 else if c = CHR 0x22 then 4 else if c = CHR ''['' then 5
     else if c = CHR ''{'' then 6 else 8)"

lemma num_char_consts [simp]:
  "\<not> is_num_char (CHR ''n'')" "\<not> is_num_char (CHR ''t'')" "\<not> is_num_char (CHR ''f'')"
  "\<not> is_num_char (CHR 0x22)" "\<not> is_num_char (CHR ''['')" "\<not> is_num_char (CHR ''{'')"
  "\<not> is_num_char (CHR '']'')" "\<not> is_num_char (CHR ''}'')" "\<not> is_num_char (CHR '','')"
  by (simp_all add: is_num_char_def is_digit_def)

lemma esc_str_shape: "esc_str a s \<noteq> []" "hd (esc_str a s) = CHR 0x22"
  by (simp_all add: esc_str_def)

lemma ser_head: "float_free j \<Longrightarrow> ser a j \<noteq> [] \<and> tag_char (hd (ser a j)) = tag j"
proof (cases j)
  case (JInt i)
  moreover have "is_num_char (hd (int_str i))"
    using int_str_chars [of i] int_str_nonempty [of i] by (cases "int_str i") auto
  ultimately show ?thesis by (simp add: int_str_nonempty tag_char_def)
qed (auto simp: tag_char_def esc_str_shape)

lemma num_prefix:
  assumes "list_all is_num_char x" "list_all is_num_char y" "delim r" "delim s" "x @ r = y @ s"
  shows "x = y \<and> r = s"
proof -
  have stop: "takeWhile is_num_char (z @ t) = z" if "list_all is_num_char z" "delim t" for z t
    using that by (cases t) (auto simp: delim_def takeWhile_append list_all_iff)
  from assms have "x = y" using stop by metis
  with assms show ?thesis by simp
qed

lemma ser_prefix:
  "float_free j \<Longrightarrow> float_free k \<Longrightarrow> delim r \<Longrightarrow> delim s \<Longrightarrow> ser a j @ r = ser a k @ s \<Longrightarrow>
   j = k \<and> r = s"
proof (induction j arbitrary: k r s)
  case (JList xs)
  have tags: "tag k = 5"
    using ser_head [OF JList.prems(1), of a] ser_head [OF JList.prems(2), of a] JList.prems(5)
    by (metis hd_append2 tag.simps(5))
  then obtain ys where k: "k = JList ys"
    by (cases k) (auto split: if_splits)
  have eq: "join '','' (map (ser a) xs) @ CHR '']'' # r = join '','' (map (ser a) ys) @ CHR '']'' # s"
    using JList.prems(5) k by simp
  have "xs = ys \<and> r = s"
  proof (rule join_inj [OF _ _ _ eq])
    fix x y t u
    assume "x \<in> set xs" "y \<in> set ys" "delim t" "delim u" "ser a x @ t = ser a y @ u"
    then show "x = y \<and> t = u"
      using JList.IH [of x y t u] JList.prems k by (auto simp: list_all_iff)
  next
    fix x
    assume "x \<in> set xs \<union> set ys"
    then have "float_free x" using JList.prems k by (auto simp: list_all_iff)
    from ser_head [OF this, of a] show "ser a x \<noteq> [] \<and> hd (ser a x) \<noteq> CHR '']''"
      by (cases x) (auto simp: tag_char_def split: if_splits)
  qed simp
  with k show ?case by simp
next
  case (JObj kvs)
  have tags: "tag k = 6"
    using ser_head [OF JObj.prems(1), of a] ser_head [OF JObj.prems(2), of a] JObj.prems(5)
    by (metis hd_append2 tag.simps(6))
  then obtain kvs' where k: "k = JObj kvs'"
    by (cases k) (auto split: if_splits)
  let ?g = "\<lambda>(k, v). esc_str a k @ CHR '':'' # ser a v"
  have eq: "join '','' (map ?g kvs) @ CHR ''}'' # r = join '','' (map ?g kvs') @ CHR ''}'' # s"
    using JObj.prems(5) k by simp
  have "kvs = kvs' \<and> r = s"
  proof (rule join_inj [OF _ _ _ eq])
    fix x y t u
    assume x: "x \<in> set kvs" and y: "y \<in> set kvs'" and d: "delim t" "delim u"
      and g: "?g x @ t = ?g y @ u"
    obtain kx vx ky vy where xy: "x = (kx, vx)" "y = (ky, vy)" by (cases x, cases y) auto
    from g xy have "esc_str a kx @ (CHR '':'' # ser a vx @ t) = esc_str a ky @ (CHR '':'' # ser a vy @ u)"
      by simp
    then have kk: "kx = ky" and vv: "ser a vx @ t = ser a vy @ u"
      using esc_str_inj by blast+
    have "vx = vy \<and> t = u"
      by (rule JObj.IH [of x vx]) (use x y xy d vv JObj.prems k in \<open>auto simp: list_all_iff\<close>)
    with kk xy show "x = y \<and> t = u" by simp
  next
    fix x
    assume "x \<in> set kvs \<union> set kvs'"
    show "?g x \<noteq> [] \<and> hd (?g x) \<noteq> CHR ''}''"
      by (cases x) (auto simp: esc_str_def)
  qed simp
  with k show ?case by simp
next
  case (JInt i)
  have "tag k = 3"
    using ser_head [OF JInt.prems(1), of a] ser_head [OF JInt.prems(2), of a] JInt.prems(5)
    by (metis hd_append2 tag.simps(3))
  then obtain j where k: "k = JInt j" by (cases k) (auto split: if_splits)
  then show ?case
    using JInt.prems num_prefix [OF int_str_chars int_str_chars, of r s i j]
    by (auto dest: int_str_inj)
next
  case (JStr t)
  have "tag k = 4"
    using ser_head [OF JStr.prems(1), of a] ser_head [OF JStr.prems(2), of a] JStr.prems(5)
    by (metis hd_append2 tag.simps(4))
  then obtain t' where k: "k = JStr t'" by (cases k) (auto split: if_splits)
  then show ?case using JStr.prems esc_str_inj [of a t r t' s] by simp
next
  case JNull
  have "tag k = 0"
    using ser_head [OF JNull.prems(1), of a] ser_head [OF JNull.prems(2), of a] JNull.prems(5)
    by (metis hd_append2 tag.simps(1))
  then show ?case using JNull.prems by (cases k) (auto split: if_splits)
next
  case (JBool b)
  have "tag k = tag (JBool b)"
    using ser_head [OF JBool.prems(1), of a] ser_head [OF JBool.prems(2), of a] JBool.prems(5)
    by (metis hd_append2)
  then show ?case using JBool.prems by (cases k) (auto split: if_splits)
qed simp

lemma ser_inj: "float_free j \<Longrightarrow> float_free k \<Longrightarrow> ser a j = ser a k \<longleftrightarrow> j = k"
  using ser_prefix [of j k "[]" "[]" a] by auto

lemma float_free_canon: "float_free j \<Longrightarrow> float_free (canon j)"
  by (induction j) (fastforce simp: list_all_iff)+

lemma dumps_eq_iff:
  "float_free j \<Longrightarrow> float_free k \<Longrightarrow> dumps a j = dumps a k \<longleftrightarrow> canon j = canon k"
  by (simp add: dumps_def ser_inj float_free_canon)

text \<open>The text of an object is put together from the texts of its fields, in key order.\<close>

lemma dumps_obj:
  "dumps a (JObj kvs) = CHR ''{'' # join '',''
     (map (\<lambda>(k, v). esc_str a k @ CHR '':'' # dumps a v) (sort_key fst kvs)) @ ''}''"
proof -
  have "sort_key fst (map (\<lambda>(k, v). (k, canon v)) kvs) = map (\<lambda>(k, v). (k, canon v)) (sort_key fst kvs)"
    by (rule sort_key_map_fst)
  moreover have "(\<lambda>(k, v). esc_str a k @ CHR '':'' # ser a v) \<circ> (\<lambda>(k, v). (k, canon v)) =
      (\<lambda>(k, v). esc_str a k @ CHR '':'' # ser a (canon v))"
    by (rule ext) auto
  ultimately show ?thesis
    by (simp add: dumps_def)
qed

fun scalar :: "json \<Rightarrow> bool" where
  "scalar (JFloat r) = False"
| "scalar (JList xs) = False"
| "scalar (JObj kvs) = False"
| "scalar j = True"

lemma scalar_canon: "scalar j \<Longrightarrow> canon j = j \<and> float_free j"
  by (cases j) auto

end
