(* ===== verification/Contract.thy ===== *)
theory Contract
  imports Complex_Main Json
begin

text \<open>
  The frozen evidence contract: the four independent dimensions of a claim
  (\<open>analysis/contract.py\<close>), the provider-side candidate and result records
  (\<open>provider_arch/contract.py\<close>), and the errors the evidence kernel raises.
  \<open>..._value\<close> is the wire string of an enum member.
\<close>

section \<open>Dimensions of a claim\<close>

datatype truth_class = OBSERVED | RESOLVED | INFERRED | HEURISTIC

datatype execution_modality = MUST | MAY | UNKNOWN_MODALITY

datatype target_resolution = EXACT | CANDIDATE_SET | UNKNOWN_TARGET

datatype coverage = COMPLETE | PARTIAL | UNKNOWN_COVERAGE

fun truth_value :: "truth_class \<Rightarrow> string" where
  "truth_value OBSERVED = ''OBSERVED''"
| "truth_value RESOLVED = ''RESOLVED''"
| "truth_value INFERRED = ''INFERRED''"
| "truth_value HEURISTIC = ''HEURISTIC''"

fun modality_value :: "execution_modality \<Rightarrow> string" where
  "modality_value MUST = ''MUST''"
| "modality_value MAY = ''MAY''"
| "modality_value UNKNOWN_MODALITY = ''UNKNOWN''"

fun resolution_value :: "target_resolution \<Rightarrow> string" where
  "resolution_value EXACT = ''EXACT''"
| "resolution_value CANDIDATE_SET = ''CANDIDATE_SET''"
| "resolution_value UNKNOWN_TARGET = ''UNKNOWN''"

fun coverage_value :: "coverage \<Rightarrow> string" where
  "coverage_value COMPLETE = ''COMPLETE''"
| "coverage_value PARTIAL = ''PARTIAL''"
| "coverage_value UNKNOWN_COVERAGE = ''UNKNOWN''"

definition all_truth :: "truth_class list" where
  "all_truth = [OBSERVED, RESOLVED, INFERRED, HEURISTIC]"

definition all_modality :: "execution_modality list" where
  "all_modality = [MUST, MAY, UNKNOWN_MODALITY]"

definition all_resolution :: "target_resolution list" where
  "all_resolution = [EXACT, CANDIDATE_SET, UNKNOWN_TARGET]"

definition all_coverage :: "coverage list" where
  "all_coverage = [COMPLETE, PARTIAL, UNKNOWN_COVERAGE]"

text \<open>\<open>Enum(value)\<close>: the member with that wire string, or no member.\<close>

definition truth_of :: "string \<Rightarrow> truth_class option" where
  "truth_of s = find (\<lambda>t. truth_value t = s) all_truth"

definition modality_of :: "string \<Rightarrow> execution_modality option" where
  "modality_of s = find (\<lambda>t. modality_value t = s) all_modality"

definition resolution_of :: "string \<Rightarrow> target_resolution option" where
  "resolution_of s = find (\<lambda>t. resolution_value t = s) all_resolution"

definition coverage_of :: "string \<Rightarrow> coverage option" where
  "coverage_of s = find (\<lambda>t. coverage_value t = s) all_coverage"

definition high_confidence_classes :: "truth_class list" where
  "high_confidence_classes = [OBSERVED, RESOLVED]"

lemma truth_of_value [simp]: "truth_of (truth_value t) = Some t"
  by (cases t) (simp_all add: truth_of_def all_truth_def)

lemma modality_of_value [simp]: "modality_of (modality_value t) = Some t"
  by (cases t) (simp_all add: modality_of_def all_modality_def)

lemma resolution_of_value [simp]: "resolution_of (resolution_value t) = Some t"
  by (cases t) (simp_all add: resolution_of_def all_resolution_def)

lemma coverage_of_value [simp]: "coverage_of (coverage_value t) = Some t"
  by (cases t) (simp_all add: coverage_of_def all_coverage_def)

lemma truth_value_inj: "truth_value t = truth_value u \<longleftrightarrow> t = u"
  by (metis option.inject truth_of_value)

lemma modality_value_inj: "modality_value t = modality_value u \<longleftrightarrow> t = u"
  by (metis option.inject modality_of_value)

lemma resolution_value_inj: "resolution_value t = resolution_value u \<longleftrightarrow> t = u"
  by (metis option.inject resolution_of_value)

lemma coverage_value_inj: "coverage_value t = coverage_value u \<longleftrightarrow> t = u"
  by (metis option.inject coverage_of_value)

lemmas value_inj = truth_value_inj modality_value_inj resolution_value_inj coverage_value_inj

section \<open>Errors\<close>

text \<open>Where the kernel refuses an admission, by the place that raises \<open>AdmissionDenied\<close>.\<close>

datatype denial =
    ProducerNotRegistered
  | LaneNotCanonical
  | NoClaimPayload
  | TruthClassForbidden
  | ResolutionForbidden
  | RuntimeCannotBeMust
  | SupportNeedsCurrentAdmission
  | SupportLaneNotCanonical
  | SupportNeedsNodeOrEdge
  | NodeIdentityMismatch
  | EdgeIdentityMismatch
  | SupportLacksAdmission

datatype ev_error =
    EnvelopeValidationError
  | ValueError
  | KeyError
  | TypeError
  | UnknownLaneError
  | AdmissionDenied denial
  | IdentityAdmissionError
  | InsufficientBridgeEvidence
  | PublicationError

text \<open>\<open>d[key]\<close>.\<close>

definition jindex :: "jdict \<Rightarrow> string \<Rightarrow> ev_error + json" where
  "jindex d k = (case map_of d k of None \<Rightarrow> Inl KeyError | Some v \<Rightarrow> Inr v)"

section \<open>Provider evidence\<close>

text \<open>A Python float: its value and the text \<open>repr\<close> prints.\<close>

type_synonym pyfloat = "rat \<times> string"

record evidence_candidate =
  ec_provider_id :: string
  ec_provider_fact_id :: string
  ec_subject :: string
  ec_predicate :: string
  ec_object :: json
  ec_source_span :: "jdict option"
  ec_truth_class :: truth_class
  ec_coverage :: coverage
  ec_resolution :: target_resolution
  ec_revision_input :: string
  ec_execution_modality :: execution_modality
  ec_confidence :: "pyfloat option"
  ec_witness :: jdict
  ec_object_is_identity :: bool

text \<open>\<open>EvidenceCandidate.__post_init__\<close>: construction fails on a malformed candidate.\<close>

definition check_candidate :: "evidence_candidate \<Rightarrow> ev_error + evidence_candidate" where
  "check_candidate c =
     (if ec_provider_id c = [] \<or> ec_provider_fact_id c = [] then Inl ValueError
      else if ec_subject c = [] \<or> ec_predicate c = [] then Inl ValueError
      else if ec_revision_input c = [] then Inl ValueError
      else case ec_confidence c of
        Some (v, _) \<Rightarrow> if 0 \<le> v \<and> v \<le> 1 then Inr c else Inl ValueError
      | None \<Rightarrow> Inr c)"

lemma check_candidate_Inr: "check_candidate c = Inr c' \<Longrightarrow> c' = c"
  by (auto simp: check_candidate_def split: if_splits option.splits)

definition jfloat :: "pyfloat \<Rightarrow> json" where
  "jfloat x = JFloat (snd x)"

definition candidate_to_dict :: "evidence_candidate \<Rightarrow> json" where
  "candidate_to_dict c = JObj [
     (''provider_id'', JStr (ec_provider_id c)),
     (''provider_fact_id'', JStr (ec_provider_fact_id c)),
     (''subject'', JStr (ec_subject c)),
     (''predicate'', JStr (ec_predicate c)),
     (''object'', ec_object c),
     (''source_span'', jopt JObj (ec_source_span c)),
     (''truth_class'', JStr (truth_value (ec_truth_class c))),
     (''coverage'', JStr (coverage_value (ec_coverage c))),
     (''resolution'', JStr (resolution_value (ec_resolution c))),
     (''revision_input'', JStr (ec_revision_input c)),
     (''execution_modality'', JStr (modality_value (ec_execution_modality c))),
     (''confidence_if_applicable'', jopt jfloat (ec_confidence c)),
     (''witness'', JObj (ec_witness c)),
     (''object_is_identity'', JBool (ec_object_is_identity c))]"

record provider_result =
  pr_provider :: string
  pr_version :: string
  pr_input_revision :: string
  pr_facts :: "evidence_candidate list"
  pr_coverage :: jdict
  pr_warnings :: "string list"
  pr_errors :: "string list"

definition publishable :: "provider_result \<Rightarrow> bool" where
  "publishable r = (pr_errors r = [] \<and>
     list_all (\<lambda>f. ec_provider_id f = pr_provider r \<and> ec_revision_input f = pr_input_revision r)
       (pr_facts r))"

definition require_publishable :: "provider_result \<Rightarrow> ev_error + unit" where
  "require_publishable r =
     (if pr_errors r \<noteq> [] then Inl ValueError
      else if filter (\<lambda>f. ec_provider_id f \<noteq> pr_provider r \<or>
                          ec_revision_input f \<noteq> pr_input_revision r) (pr_facts r) \<noteq> []
        then Inl ValueError
      else Inr ())"

lemma require_publishable_iff: "require_publishable r = Inr () \<longleftrightarrow> publishable r"
  by (auto simp: require_publishable_def publishable_def filter_empty_conv list_all_iff)

end
