(* ===== verification/Evidence_Model.thy ===== *)
theory Evidence_Model
  imports Contract
begin

text \<open>
  Immutable evidence-authority records (\<open>evidence_authority/model.py\<close>), the versioned lane
  registry (\<open>registry.py\<close>) and the cross-language bridge receipts (\<open>bridge.py\<close>).

  The SHA-256 hex digest of a text is the parameter \<open>H\<close>: the code relies on it as a
  function of the text only.
\<close>

section \<open>Claims, annotations, envelopes\<close>

datatype authority_class = CANONICAL_CANDIDATE | REFERENCE_EVIDENCE | DESIGN_ANNOTATION

fun authority_value :: "authority_class \<Rightarrow> string" where
  "authority_value CANONICAL_CANDIDATE = ''CANONICAL_CANDIDATE''"
| "authority_value REFERENCE_EVIDENCE = ''REFERENCE_EVIDENCE''"
| "authority_value DESIGN_ANNOTATION = ''DESIGN_ANNOTATION''"

datatype annotation_kind = AS_IS_NOTE | INTERPRETATION | TO_BE_INTENT | RISK_NOTE | REVIEW_DECISION

fun annotation_value :: "annotation_kind \<Rightarrow> string" where
  "annotation_value AS_IS_NOTE = ''AS_IS_NOTE''"
| "annotation_value INTERPRETATION = ''INTERPRETATION''"
| "annotation_value TO_BE_INTENT = ''TO_BE_INTENT''"
| "annotation_value RISK_NOTE = ''RISK_NOTE''"
| "annotation_value REVIEW_DECISION = ''REVIEW_DECISION''"

record canonical_state =
  cs_revision_id :: string
  cs_state_hash :: string
  cs_fact_refs :: "string list"

definition mk_canonical_state ::
  "string \<Rightarrow> string \<Rightarrow> string list \<Rightarrow> ev_error + canonical_state" where
  "mk_canonical_state rid h refs =
     (if blank rid \<or> blank h then Inl ValueError
      else Inr \<lparr>cs_revision_id = rid, cs_state_hash = h, cs_fact_refs = refs\<rparr>)"

definition state_to_dict :: "canonical_state \<Rightarrow> json" where
  "state_to_dict s = JObj [
     (''revision_id'', JStr (cs_revision_id s)),
     (''state_hash'', JStr (cs_state_hash s)),
     (''fact_refs'', jstrs (cs_fact_refs s))]"

text \<open>\<open>_stable_digest\<close>: a hash of the sorted-key serialisation, non-ASCII kept.\<close>

definition stable_digest :: "(string \<Rightarrow> string) \<Rightarrow> json \<Rightarrow> string" where
  "stable_digest H v = ''sha256:'' @ H (dumps False v)"

record claim_payload =
  cl_claim_id :: string
  cl_subject :: string
  cl_predicate :: string
  cl_object :: json
  cl_source_span :: "jdict option"
  cl_truth_class :: truth_class
  cl_resolution :: target_resolution
  cl_coverage :: coverage
  cl_execution_modality :: execution_modality
  cl_revision_input :: string
  cl_object_is_identity :: bool
  cl_confidence :: "pyfloat option"
  cl_witness :: "jdict option"

definition check_claim :: "claim_payload \<Rightarrow> ev_error + claim_payload" where
  "check_claim c =
     (if blank (cl_claim_id c) \<or> blank (cl_subject c) \<or> blank (cl_predicate c) \<or>
         blank (cl_revision_input c)
      then Inl EnvelopeValidationError else Inr c)"

text \<open>\<open>dict(x) if x else None\<close> and \<open>dict(x or {})\<close>: an absent and an empty mapping agree.\<close>

definition nonempty :: "jdict option \<Rightarrow> jdict option" where
  "nonempty d = (case d of None \<Rightarrow> None | Some m \<Rightarrow> if m = [] then None else Some m)"

definition or_empty :: "jdict option \<Rightarrow> jdict" where
  "or_empty d = (case d of None \<Rightarrow> [] | Some m \<Rightarrow> m)"

definition claim_to_wire :: "claim_payload \<Rightarrow> json" where
  "claim_to_wire c = JObj [
     (''claim_id'', JStr (cl_claim_id c)),
     (''subject'', JStr (cl_subject c)),
     (''predicate'', JStr (cl_predicate c)),
     (''object'', cl_object c),
     (''source_span'', jopt JObj (nonempty (cl_source_span c))),
     (''truth_class'', JStr (truth_value (cl_truth_class c))),
     (''resolution'', JStr (resolution_value (cl_resolution c))),
     (''coverage'', JStr (coverage_value (cl_coverage c))),
     (''execution_modality'', JStr (modality_value (cl_execution_modality c))),
     (''revision_input'', JStr (cl_revision_input c)),
     (''object_is_identity'', JBool (cl_object_is_identity c)),
     (''confidence_if_applicable'', jopt jfloat (cl_confidence c)),
     (''witness'', JObj (or_empty (cl_witness c)))]"

record annotation_payload =
  an_kind :: annotation_kind
  an_design_state :: string
  an_text :: string
  an_source :: string
  an_metadata :: "jdict option"

definition check_annotation :: "annotation_payload \<Rightarrow> ev_error + annotation_payload" where
  "check_annotation a =
     (if blank (an_design_state a) \<or> blank (an_text a) \<or> blank (an_source a)
      then Inl EnvelopeValidationError else Inr a)"

definition annotation_to_wire :: "annotation_payload \<Rightarrow> json" where
  "annotation_to_wire a = JObj [
     (''annotation_kind'', JStr (annotation_value (an_kind a))),
     (''design_state'', JStr (an_design_state a)),
     (''text'', JStr (an_text a)),
     (''source'', JStr (an_source a)),
     (''metadata'', JObj (or_empty (an_metadata a)))]"

record evidence_envelope =
  en_lane_id :: string
  en_producer :: string
  en_producer_version :: string
  en_scope :: "string list"
  en_provenance :: jdict
  en_limitations :: "string list"
  en_claim :: "claim_payload option"
  en_annotation :: "annotation_payload option"

text \<open>\<open>EvidenceEnvelope.__post_init__\<close>: exactly one of claim and annotation.\<close>

definition check_envelope :: "evidence_envelope \<Rightarrow> ev_error + evidence_envelope" where
  "check_envelope e =
     (if blank (en_lane_id e) \<or> blank (en_producer e) \<or> blank (en_producer_version e)
        then Inl EnvelopeValidationError
      else if (en_claim e = None) = (en_annotation e = None) then Inl EnvelopeValidationError
      else Inr e)"

definition for_claim :: "string \<Rightarrow> string \<Rightarrow> string \<Rightarrow> string list \<Rightarrow> jdict \<Rightarrow> string list \<Rightarrow>
    claim_payload \<Rightarrow> ev_error + evidence_envelope" where
  "for_claim lane producer ver scope prov lims c = check_envelope
     \<lparr>en_lane_id = lane, en_producer = producer, en_producer_version = ver, en_scope = scope,
      en_provenance = prov, en_limitations = lims, en_claim = Some c, en_annotation = None\<rparr>"

definition for_annotation :: "string \<Rightarrow> string \<Rightarrow> string \<Rightarrow> string list \<Rightarrow> jdict \<Rightarrow> string list \<Rightarrow>
    annotation_payload \<Rightarrow> ev_error + evidence_envelope" where
  "for_annotation lane producer ver scope prov lims a = check_envelope
     \<lparr>en_lane_id = lane, en_producer = producer, en_producer_version = ver, en_scope = scope,
      en_provenance = prov, en_limitations = lims, en_claim = None, en_annotation = Some a\<rparr>"

definition envelope_to_wire :: "evidence_envelope \<Rightarrow> json" where
  "envelope_to_wire e = JObj [
     (''lane_id'', JStr (en_lane_id e)),
     (''producer'', JStr (en_producer e)),
     (''producer_version'', JStr (en_producer_version e)),
     (''scope'', jstrs (en_scope e)),
     (''provenance'', JObj (en_provenance e)),
     (''limitations'', jstrs (en_limitations e)),
     (''claim'', jopt claim_to_wire (en_claim e)),
     (''annotation'', jopt annotation_to_wire (en_annotation e))]"

definition envelope_digest :: "(string \<Rightarrow> string) \<Rightarrow> evidence_envelope \<Rightarrow> string" where
  "envelope_digest H e = stable_digest H (envelope_to_wire e)"

lemma check_envelope_Inr:
  "check_envelope e = Inr e' \<Longrightarrow> e' = e \<and> (en_claim e = None \<longleftrightarrow> en_annotation e \<noteq> None)"
  by (auto simp: check_envelope_def split: if_splits)

section \<open>Lane registry\<close>

record lane_definition =
  ln_lane_id :: string
  ln_producer :: string
  ln_status :: string
  ln_supported_languages :: "string list"
  ln_supported_scope :: "string list"
  ln_authority_class :: authority_class
  ln_truth_classes :: "truth_class list"
  ln_resolutions :: "target_resolution list"
  ln_coverage_semantics :: string
  ln_canonical_ingestion :: bool
  ln_allowed_uses :: "string list"
  ln_forbidden_uses :: "string list"
  ln_limitations :: "string list"

definition lane_to_dict :: "lane_definition \<Rightarrow> json" where
  "lane_to_dict l = JObj [
     (''lane_id'', JStr (ln_lane_id l)),
     (''producer'', JStr (ln_producer l)),
     (''status'', JStr (ln_status l)),
     (''supported_languages'', jstrs (ln_supported_languages l)),
     (''supported_scope'', jstrs (ln_supported_scope l)),
     (''authority_class'', JStr (authority_value (ln_authority_class l))),
     (''truth_classes_may_propose'', jstrs (map truth_value (ln_truth_classes l))),
     (''resolution_capabilities'', jstrs (map resolution_value (ln_resolutions l))),
     (''coverage_semantics'', JStr (ln_coverage_semantics l)),
     (''canonical_ingestion'', JBool (ln_canonical_ingestion l)),
     (''allowed_uses'', jstrs (ln_allowed_uses l)),
     (''forbidden_uses'', jstrs (ln_forbidden_uses l)),
     (''limitations'', jstrs (ln_limitations l))]"

record lane_registry =
  rg_version :: string
  rg_lanes :: "(string, lane_definition) dict"

definition mk_registry :: "string \<Rightarrow> lane_definition list \<Rightarrow> ev_error + lane_registry" where
  "mk_registry version lanes =
     (if blank version then Inl ValueError
      else let values = dict_of ln_lane_id (\<lambda>l. l) lanes in
        if length values \<noteq> length lanes then Inl ValueError
        else Inr \<lparr>rg_version = version, rg_lanes = values\<rparr>)"

definition lane_ids :: "lane_registry \<Rightarrow> string list" where
  "lane_ids r = sort (keys (rg_lanes r))"

definition require_lane :: "lane_registry \<Rightarrow> string \<Rightarrow> ev_error + lane_definition" where
  "require_lane r i = (case map_of (rg_lanes r) i of Some l \<Rightarrow> Inr l | None \<Rightarrow> Inl UnknownLaneError)"

definition registry_to_dict :: "lane_registry \<Rightarrow> json" where
  "registry_to_dict r = JObj [
     (''registry_version'', JStr (rg_version r)),
     (''lanes'', JList (map (\<lambda>(k, l). lane_to_dict l) (sort_key fst (rg_lanes r))))]"

definition canonical_forbidden :: "string list" where
  "canonical_forbidden = [''assign_canonical_id'', ''publish_revision'', ''promote_truth_without_rule'']"

definition reference_forbidden :: "string list" where
  "reference_forbidden = [''canonical_ingestion'', ''truth_promotion'', ''resolution_promotion'',
     ''delete_canonical_fact'', ''close_unknown'']"

definition design_forbidden :: "string list" where
  "design_forbidden = [''canonical_ingestion'', ''truth_promotion'', ''claim_observed_reality'',
     ''delete_canonical_fact'', ''close_unknown'']"

definition lane_legacy :: lane_definition where
  "lane_legacy = \<lparr>ln_lane_id = ''legacy_builtin'', ln_producer = ''legacy-builtin-*'',
     ln_status = ''PRODUCTION'', ln_supported_languages = [''c'', ''c++'', ''fortran'', ''python''],
     ln_supported_scope = [''configured legacy lanes''], ln_authority_class = CANONICAL_CANDIDATE,
     ln_truth_classes = all_truth, ln_resolutions = all_resolution,
     ln_coverage_semantics = ''provider run coverage; absence is not a negative fact'',
     ln_canonical_ingestion = True,
     ln_allowed_uses = [''canonical_candidate'', ''compare'', ''search'', ''audit''],
     ln_forbidden_uses = canonical_forbidden,
     ln_limitations = [''legacy extraction depth varies by language'']\<rparr>"

definition lane_clang :: lane_definition where
  "lane_clang = \<lparr>ln_lane_id = ''clang_provider'', ln_producer = ''rintel-clang'',
     ln_status = ''PILOT_ONLY'', ln_supported_languages = [''c'', ''c++''],
     ln_supported_scope = [''FAC configured C translation units''],
     ln_authority_class = CANONICAL_CANDIDATE,
     ln_truth_classes = all_truth, ln_resolutions = all_resolution,
     ln_coverage_semantics = ''run-specific COMPLETE/PARTIAL/UNKNOWN from RPP'',
     ln_canonical_ingestion = True,
     ln_allowed_uses = [''canonical_candidate'', ''compiler_semantics'', ''compare'', ''audit''],
     ln_forbidden_uses = canonical_forbidden,
     ln_limitations = [''AppleClang AST/SARIF interface is pilot-only'']\<rparr>"

definition lane_flang :: lane_definition where
  "lane_flang = \<lparr>ln_lane_id = ''flang_reference'', ln_producer = ''llvm-flang'',
     ln_status = ''REFERENCE_ONLY'', ln_supported_languages = [''fortran''],
     ln_supported_scope = [''bounded FAC HLFIR witnesses''], ln_authority_class = REFERENCE_EVIDENCE,
     ln_truth_classes = all_truth, ln_resolutions = all_resolution,
     ln_coverage_semantics = ''probe-scoped; no complete dependency manifest'',
     ln_canonical_ingestion = False,
     ln_allowed_uses = [''show'', ''search'', ''agent_reasoning'', ''manual_audit'', ''cross_check''],
     ln_forbidden_uses = reference_forbidden,
     ln_limitations = [''not an RPP Provider'', ''-fc1 unstable'',
       ''structured diagnostics unavailable'']\<rparr>"

definition lane_ripwire :: lane_definition where
  "lane_ripwire = \<lparr>ln_lane_id = ''ripwire_reference'', ln_producer = ''ripwire'',
     ln_status = ''REFERENCE_ONLY'', ln_supported_languages = [''multi-language''],
     ln_supported_scope = [''measured FAC/JPL feasibility scope''],
     ln_authority_class = REFERENCE_EVIDENCE,
     ln_truth_classes = [HEURISTIC, INFERRED], ln_resolutions = [CANDIDATE_SET, UNKNOWN_TARGET],
     ln_coverage_semantics = ''broad heuristic coverage; impact means transitive reachability'',
     ln_canonical_ingestion = False,
     ln_allowed_uses = [''show'', ''search'', ''candidate_discovery'', ''manual_audit'', ''cross_check''],
     ln_forbidden_uses = reference_forbidden,
     ln_limitations = [''not canonical'', ''name-based calls may be ambiguous'']\<rparr>"

definition lane_runtime_trace :: lane_definition where
  "lane_runtime_trace = \<lparr>ln_lane_id = ''runtime_trace'', ln_producer = ''rintel-runtime-trace'',
     ln_status = ''PRODUCTION_EVIDENCE'', ln_supported_languages = [''runtime''],
     ln_supported_scope = [''observed instrumented runs''], ln_authority_class = CANONICAL_CANDIDATE,
     ln_truth_classes = [OBSERVED], ln_resolutions = [EXACT, UNKNOWN_TARGET],
     ln_coverage_semantics = ''run-scoped PARTIAL; not observed is not impossible'',
     ln_canonical_ingestion = True,
     ln_allowed_uses = [''canonical_candidate'', ''observed_execution'', ''audit''],
     ln_forbidden_uses = canonical_forbidden @ [''promote_observed_to_static_must''],
     ln_limitations = []\<rparr>"

definition lane_runtime_data :: lane_definition where
  "lane_runtime_data = \<lparr>ln_lane_id = ''runtime_data'', ln_producer = ''rintel-runtime-data'',
     ln_status = ''PRODUCTION_EVIDENCE'', ln_supported_languages = [''runtime''],
     ln_supported_scope = [''observed runtime data probes''], ln_authority_class = CANONICAL_CANDIDATE,
     ln_truth_classes = [OBSERVED], ln_resolutions = [EXACT, UNKNOWN_TARGET],
     ln_coverage_semantics = ''run/probe-scoped PARTIAL; absence is not a negative fact'',
     ln_canonical_ingestion = True,
     ln_allowed_uses = [''canonical_candidate'', ''observed_data'', ''audit''],
     ln_forbidden_uses = canonical_forbidden @ [''promote_observed_to_static_must''],
     ln_limitations = []\<rparr>"

definition lane_human :: lane_definition where
  "lane_human = \<lparr>ln_lane_id = ''human_annotation'', ln_producer = ''human'',
     ln_status = ''DESIGN_ONLY_DEFAULT'', ln_supported_languages = [''all''],
     ln_supported_scope = [''review and interpretation''], ln_authority_class = DESIGN_ANNOTATION,
     ln_truth_classes = [], ln_resolutions = [],
     ln_coverage_semantics = ''not applicable; annotations are not coverage claims'',
     ln_canonical_ingestion = False,
     ln_allowed_uses = [''show'', ''search'', ''agent_reasoning'', ''review'', ''design''],
     ln_forbidden_uses = design_forbidden,
     ln_limitations = [''promotion requires a future explicit versioned audited rule'']\<rparr>"

definition lane_design :: lane_definition where
  "lane_design = \<lparr>ln_lane_id = ''design_plane'', ln_producer = ''rintel-design'',
     ln_status = ''DESIGN_ONLY'', ln_supported_languages = [''all''],
     ln_supported_scope = [''TO-BE architecture and planned relationships''],
     ln_authority_class = DESIGN_ANNOTATION,
     ln_truth_classes = [], ln_resolutions = [],
     ln_coverage_semantics = ''not applicable; design intent is not code coverage'',
     ln_canonical_ingestion = False,
     ln_allowed_uses = [''show'', ''search'', ''design'', ''review''],
     ln_forbidden_uses = design_forbidden,
     ln_limitations = [''planned relationship is not observed reality'']\<rparr>"

definition default_lanes :: "lane_definition list" where
  "default_lanes = [lane_legacy, lane_clang, lane_flang, lane_ripwire, lane_runtime_trace,
     lane_runtime_data, lane_human, lane_design]"

definition default_registry :: lane_registry where
  "default_registry = \<lparr>rg_version = ''evidence-authority-registry/1'',
     rg_lanes = map (\<lambda>l. (ln_lane_id l, l)) default_lanes\<rparr>"

lemma registry_lane_id:
  assumes "mk_registry v ls = Inr r" and "require_lane r i = Inr l"
  shows "l \<in> set ls \<and> ln_lane_id l = i"
proof -
  from assms(1) have r: "rg_lanes r = dict_of ln_lane_id (\<lambda>l. l) ls"
    by (auto simp: mk_registry_def Let_def split: if_splits)
  from assms(2) have "(i, l) \<in> set (rg_lanes r)"
    by (auto simp: require_lane_def split: option.splits dest: map_of_SomeD)
  with r show ?thesis using dict_of_member by fastforce
qed

section \<open>Cross-language bridges\<close>

datatype bridge_kind =
  BIND_C | EXPLICIT_WRAPPER | COMPILER_EXTERNAL_SYMBOL | OBJECT_LINK_SYMBOL | RUNTIME_OBSERVED_CALL

fun bridge_value :: "bridge_kind \<Rightarrow> string" where
  "bridge_value BIND_C = ''BIND_C''"
| "bridge_value EXPLICIT_WRAPPER = ''EXPLICIT_WRAPPER''"
| "bridge_value COMPILER_EXTERNAL_SYMBOL = ''COMPILER_EXTERNAL_SYMBOL''"
| "bridge_value OBJECT_LINK_SYMBOL = ''OBJECT_LINK_SYMBOL''"
| "bridge_value RUNTIME_OBSERVED_CALL = ''RUNTIME_OBSERVED_CALL''"

definition bridge_of :: "string \<Rightarrow> bridge_kind option" where
  "bridge_of s = find (\<lambda>k. bridge_value k = s)
     [BIND_C, EXPLICIT_WRAPPER, COMPILER_EXTERNAL_SYMBOL, OBJECT_LINK_SYMBOL, RUNTIME_OBSERVED_CALL]"

fun required_provenance :: "bridge_kind \<Rightarrow> string list" where
  "required_provenance BIND_C = [''bind_c_name'', ''fortran_symbol'', ''c_symbol'', ''source_artifact'']"
| "required_provenance EXPLICIT_WRAPPER = [''wrapper_ref'', ''wrapped_ref'', ''source_artifact'']"
| "required_provenance COMPILER_EXTERNAL_SYMBOL = [''compiler'', ''emitted_symbol'', ''source_artifact'']"
| "required_provenance OBJECT_LINK_SYMBOL = [''object_hash'', ''symbol'', ''source_artifact'']"
| "required_provenance RUNTIME_OBSERVED_CALL = [''run_id'', ''call_event'', ''source_artifact'']"

record bridge =
  br_source_ref :: string
  br_target_ref :: string
  br_basis :: bridge_kind
  br_provenance :: jdict
  br_relationship :: string
  br_identity_merged :: bool

definition bridge_to_dict :: "bridge \<Rightarrow> json" where
  "bridge_to_dict b = JObj [
     (''relationship'', JStr (br_relationship b)),
     (''source_ref'', JStr (br_source_ref b)),
     (''target_ref'', JStr (br_target_ref b)),
     (''basis'', JStr (bridge_value (br_basis b))),
     (''provenance'', JObj (br_provenance b)),
     (''identity_merged'', JBool (br_identity_merged b))]"

definition validate_bridge ::
  "string \<Rightarrow> string \<Rightarrow> string \<Rightarrow> jdict \<Rightarrow> ev_error + bridge" where
  "validate_bridge source_ref target_ref basis provenance =
     (case bridge_of basis of
        None \<Rightarrow> Inl InsufficientBridgeEvidence
      | Some kind \<Rightarrow>
          if source_ref = [] \<or> target_ref = [] \<or> source_ref = target_ref
            then Inl InsufficientBridgeEvidence
          else if filter (\<lambda>k. k \<notin> set (keys provenance)) (required_provenance kind) \<noteq> []
            then Inl InsufficientBridgeEvidence
          else if list_ex (\<lambda>k. \<not> truthy (jget provenance k)) (required_provenance kind)
            then Inl InsufficientBridgeEvidence
          else Inr \<lparr>br_source_ref = source_ref, br_target_ref = target_ref, br_basis = kind,
                    br_provenance = provenance, br_relationship = ''ABI_BRIDGE'',
                    br_identity_merged = False\<rparr>)"

lemma bridge_of_value: "bridge_of s = Some k \<Longrightarrow> bridge_value k = s"
  unfolding bridge_of_def using find_SomeD by fast


text \<open>A validated bridge joins two different symbols by a known kind of evidence, carries a
  non-empty value for every provenance key that kind requires, and never merges the identities of
  its ends.\<close>

lemma validate_bridge_sound:
  assumes "validate_bridge src dst basis prov = Inr b"
  shows "br_source_ref b = src \<and> br_target_ref b = dst \<and> src \<noteq> dst \<and> src \<noteq> [] \<and> dst \<noteq> [] \<and>
    bridge_value (br_basis b) = basis \<and> br_provenance b = prov \<and> \<not> br_identity_merged b \<and>
    br_relationship b = ''ABI_BRIDGE'' \<and>
    list_all (\<lambda>k. k \<in> set (keys prov) \<and> truthy (jget prov k)) (required_provenance (br_basis b))"
  using assms
  by (auto simp: validate_bridge_def list_all_iff list_ex_iff filter_empty_conv dest: bridge_of_value
      split: option.splits if_splits)

lemma validate_bridge_sound_witness:
  "\<exists>b. validate_bridge ''f'' ''c'' ''EXPLICIT_WRAPPER'' [(''wrapper_ref'', JStr ''w''),
     (''wrapped_ref'', JStr ''x''), (''source_artifact'', JStr ''a'')] = Inr b \<and> \<not> br_identity_merged b"
proof -
  have "is_ok (validate_bridge ''f'' ''c'' ''EXPLICIT_WRAPPER'' [(''wrapper_ref'', JStr ''w''),
     (''wrapped_ref'', JStr ''x''), (''source_artifact'', JStr ''a'')])" by code_simp
  then obtain b where b: "validate_bridge ''f'' ''c'' ''EXPLICIT_WRAPPER'' [(''wrapper_ref'', JStr ''w''),
     (''wrapped_ref'', JStr ''x''), (''source_artifact'', JStr ''a'')] = Inr b" using is_okE by blast
  from validate_bridge_sound [OF b] b show ?thesis by blast
qed

text \<open>The digest of an envelope identifies its content: with a collision-free hash, two
  envelopes without floating-point fields have the same digest exactly when their wire forms agree up
  to the order of mapping keys.\<close>

lemma envelope_digest_identity:
  assumes "inj H" and "float_free (envelope_to_wire e)" and "float_free (envelope_to_wire e')"
  shows "envelope_digest H e = envelope_digest H e' \<longleftrightarrow>
    canon (envelope_to_wire e) = canon (envelope_to_wire e')"
  using assms by (simp add: envelope_digest_def stable_digest_def dumps_eq_iff inj_eq)

definition sample_note :: "string \<Rightarrow> evidence_envelope" where
  "sample_note s = \<lparr>en_lane_id = ''human_annotation'', en_producer = ''human'',
     en_producer_version = ''1'', en_scope = [s], en_provenance = [], en_limitations = [],
     en_claim = None,
     en_annotation = Some \<lparr>an_kind = RISK_NOTE, an_design_state = ''d'', an_text = ''t'',
       an_source = ''s'', an_metadata = None\<rparr>\<rparr>"

lemma envelope_digest_identity_witness:
  "envelope_digest id (sample_note ''a'') \<noteq> envelope_digest id (sample_note ''b'')"
proof -
  have ff: "float_free (envelope_to_wire (sample_note s))" for s
    by (simp add: sample_note_def envelope_to_wire_def jopt_def jstrs_def annotation_to_wire_def or_empty_def)
  have "canon (envelope_to_wire (sample_note ''a'')) \<noteq> canon (envelope_to_wire (sample_note ''b''))"
    by code_simp
  then show ?thesis using envelope_digest_identity [OF inj_on_id ff ff] by blast
qed

end
