(* ===== verification/Canonical.thy ===== *)
theory Canonical
  imports Evidence_Model
begin

text \<open>
  Canonical identity (\<open>identity.py\<close>) and the reconciliation of provider candidates
  (\<open>provider_arch/canonical.py\<close>, \<open>differential.py\<close>).

  Reconciliation resolves the identities of each candidate, files it under a slot (subject,
  predicate, span anchor, revision) and settles each slot: one semantic variant gives one
  piece of canonical evidence, several give a recorded conflict with no winner.

  An \<open>identity_resolver\<close> gets the raw value, the candidate and the role, as in the code.
  \<open>ValueError\<close> and \<open>KeyError\<close> from it leave the candidate unresolved; every other error
  aborts the whole reconciliation.
\<close>

section \<open>Symbol identity\<close>

definition synthetic_kinds :: "string list" where
  "synthetic_kinds = [''REPOSITORY'', ''DIRECTORY'', ''FILE'', ''COMMIT'']"

definition symbol_identity_descriptor ::
  "string \<Rightarrow> string \<Rightarrow> string \<Rightarrow> string \<Rightarrow> jdict \<Rightarrow> ev_error + jdict" where
  "symbol_identity_descriptor kind qname language path meta =
     (if kind = [] \<or> qname = [] \<or> language = [] then Inl ValueError
      else
        let linkage = (if truthy (jget meta ''linkage'') then py_str (jget meta ''linkage'')
                       else if truthy (jget meta ''static'') then ''INTERNAL'' else ''EXTERNAL'');
            scoped = (jget meta ''definition_source_scoped'' = JBool True);
            local = (upper linkage \<in> {''INTERNAL'', ''LOCAL'', ''PRIVATE''} \<or> scoped);
            base = [(''identity_schema_version'', JStr ''symbol-identity/v2''),
                    (''language'', JStr (lower language)),
                    (''kind'', JStr kind),
                    (''qualified_name'', JStr qname),
                    (''linkage'', JStr (upper linkage))];
            extra = (if truthy (jget meta ''scope_identity'')
                     then [(''scope_identity'', JStr (py_str (jget meta ''scope_identity'')))] else [])
              @ (if truthy (jget meta ''semantic_signature'')
                 then [(''semantic_signature'', JStr (py_str (jget meta ''semantic_signature'')))]
                 else [])
        in if local then
             if path = [] then Inl ValueError
             else Inr (base
               @ [(''definition_source'', JStr (replace_char CHR 0x5C CHR ''/'' path))]
               @ (if scoped then [(''source_scope_reason'', JStr ''top_level_definition'')] else [])
               @ extra)
           else Inr (base @ extra))"

definition canonical_node_id ::
  "(string \<Rightarrow> string) \<Rightarrow> string \<Rightarrow> string \<Rightarrow> string \<Rightarrow> string \<Rightarrow> jdict \<Rightarrow> ev_error + string" where
  "canonical_node_id H kind qname language path meta =
     (if kind \<in> set synthetic_kinds then Inr (''node:'' @ kind @ '':'' @ qname)
      else and_then (symbol_identity_descriptor kind qname language path meta)
        (\<lambda>d. Inr (''node:'' @ kind @ '':v2:'' @ H (dumps False (JObj d)))))"

definition canonical_provider_entity_id :: "(string \<Rightarrow> string) \<Rightarrow> jdict \<Rightarrow> ev_error + string" where
  "canonical_provider_entity_id H entity =
     and_then (jindex entity ''kind'') (\<lambda>jkind.
     and_then (jindex entity ''name'') (\<lambda>jname.
     and_then (jindex entity ''qualified_name'') (\<lambda>jqname.
     and_then (jindex entity ''path'') (\<lambda>jpath.
     and_then (jindex entity ''language'') (\<lambda>jlang.
       let kind = upper (py_str jkind); name = py_str jname; qname = py_str jqname;
           path = py_str jpath; lang0 = lower (py_str jlang);
           language = (if lang0 \<in> {''fortran77'', ''fortran90'', ''fortran95'', ''f77'', ''f90'', ''f95''}
                       then ''fortran'' else lang0)
       in if language \<in> {''c++'', ''cpp'', ''cxx''} \<and> kind \<in> {''FUNCTION'', ''METHOD'', ''PROCEDURE''}
          then Inl ValueError
          else
            let static = (language = ''c'' \<and> qname = path @ ''::'' @ name);
                scoped = ((language = ''c'' \<and> kind = ''FUNCTION'' \<and> name = ''main'')
                  \<or> (language = ''fortran'' \<and>
                     kind \<in> {''FUNCTION'', ''SUBROUTINE'', ''PROCEDURE'', ''PROGRAM''} \<and>
                     lower qname = lower name)
                  \<or> kind \<in> {''CONTEXT'', ''EXPRESSION'', ''OPERATION''});
                meta = (if static then [(''static'', JBool True)] else [])
                  @ (if scoped then [(''definition_source_scoped'', JBool True)] else [])
            in canonical_node_id H kind qname language path meta)))))"

section \<open>Strict identity\<close>

type_synonym identity_resolver =
  "string \<Rightarrow> evidence_candidate \<Rightarrow> string \<Rightarrow> ev_error + string option"

definition canonical_prefixes :: "string list" where
  "canonical_prefixes = [
     ''arch:'', ''call_site:'', ''ctx:'', ''data:'', ''diagnostic:'', ''evidence:'',
     ''file:'', ''flow:'', ''loc:'', ''location:'', ''module:'', ''node:'', ''op:'',
     ''port:'', ''ref:'', ''repo:'', ''resource:'', ''runtime:'', ''stage:'',
     ''symbol:'', ''type:'', ''value:'']"

definition upper_or_underscore :: "char \<Rightarrow> bool" where
  "upper_or_underscore c = ((65 \<le> code_point c \<and> code_point c \<le> 90) \<or> c = CHR ''_'')"

definition hex_lower :: "char \<Rightarrow> bool" where
  "hex_lower c = (is_digit c \<or> (97 \<le> code_point c \<and> code_point c \<le> 102))"

text \<open>\<open>re.fullmatch(r"node:[A-Z_]+:v2:[0-9a-f]{64}", value)\<close>.\<close>

definition is_v2_node_id :: "string \<Rightarrow> bool" where
  "is_v2_node_id s = (starts_with ''node:'' s \<and>
     (let r = drop 5 s; k = takeWhile upper_or_underscore r; t = drop (length k) r in
      k \<noteq> [] \<and> starts_with '':v2:'' t \<and> length (drop 4 t) = 64 \<and> list_all hex_lower (drop 4 t)))"

text \<open>\<open>re.fullmatch(r"node:(?:REPOSITORY|DIRECTORY|FILE|COMMIT):.+", value)\<close>.\<close>

definition is_synthetic_node_id :: "string \<Rightarrow> bool" where
  "is_synthetic_node_id s = list_ex (\<lambda>k.
     (let p = ''node:'' @ k @ '':''; r = drop (length p) s in
      starts_with p s \<and> r \<noteq> [] \<and> CHR 10 \<notin> set r)) synthetic_kinds"

text \<open>The entities \<open>strict_identity\<close> compares a node identity with.\<close>

definition descriptor_entities :: "jdict \<Rightarrow> string \<Rightarrow> ev_error + json list" where
  "descriptor_entities raw role =
     (if role = ''subject'' then Inr [jget raw ''subject'']
      else case jget raw ''object'' of
        JObj obj \<Rightarrow>
          (case map_of obj ''entity'' of
             Some e \<Rightarrow> Inr [e]
           | None \<Rightarrow>
               (case get_or obj ''candidates'' (JList []) of
                  JList xs \<Rightarrow> Inr xs
                | JStr s \<Rightarrow> Inr (map (\<lambda>c. JStr [c]) s)
                | JObj kvs \<Rightarrow> Inr (map (\<lambda>(k, v). JStr k) kvs)
                | _ \<Rightarrow> Inl TypeError))
      | _ \<Rightarrow> Inr [])"

definition entity_dicts :: "json list \<Rightarrow> jdict list" where
  "entity_dicts es = List.map_filter (\<lambda>e. case e of JObj d \<Rightarrow> Some d | _ \<Rightarrow> None) es"

text \<open>A descriptor that cannot be bound is an identity admission error.\<close>

definition bound_ids :: "(string \<Rightarrow> string) \<Rightarrow> json list \<Rightarrow> ev_error + string list" where
  "bound_ids H es = (case map_err (canonical_provider_entity_id H) (entity_dicts es) of
     Inl e \<Rightarrow> Inl (if e = KeyError \<or> e = ValueError then IdentityAdmissionError else e)
   | Inr ids \<Rightarrow> Inr ids)"

definition bind_node_identity ::
  "(string \<Rightarrow> string) \<Rightarrow> string \<Rightarrow> jdict \<Rightarrow> string \<Rightarrow> ev_error + string option" where
  "bind_node_identity H value raw role =
     and_then (descriptor_entities raw role) (\<lambda>es.
     and_then (bound_ids H es) (\<lambda>expected.
       if value \<in> set expected then Inr (Some value) else Inl IdentityAdmissionError))"

definition strict_identity :: "(string \<Rightarrow> string) \<Rightarrow> identity_resolver" where
  "strict_identity H value candidate role =
     (let provider_prefix =
            replace_char CHR ''_'' CHR ''-'' (lower (ec_provider_id candidate)) @ '':'';
          lowered = lower value
      in if value = ec_provider_fact_id candidate \<or> starts_with provider_prefix lowered
           then Inl ValueError
         else if \<not> list_ex (\<lambda>p. starts_with p lowered) canonical_prefixes then Inl ValueError
         else if starts_with ''node:'' value then
           (if \<not> (is_v2_node_id value \<or> is_synthetic_node_id value) then Inl IdentityAdmissionError
            else case jget (ec_witness candidate) ''provider_local'' of
              JObj raw \<Rightarrow> bind_node_identity H value raw role
            | _ \<Rightarrow> Inl IdentityAdmissionError)
         else Inr (Some value))"

lemma bind_node_identity_Inr:
  "bind_node_identity H v raw role = Inr x \<Longrightarrow> x = Some v \<and>
     (\<exists>es ids. descriptor_entities raw role = Inr es \<and> bound_ids H es = Inr ids \<and> v \<in> set ids)"
  unfolding bind_node_identity_def by (auto simp: and_then_Inr split: if_splits)

text \<open>\<open>strict_identity\<close> never renames: what it accepts, it returns.\<close>

lemma strict_identity_same: "strict_identity H v c role = Inr x \<Longrightarrow> x = Some v"
  unfolding strict_identity_def Let_def
  by (simp split: if_splits json.splits) (blast dest: bind_node_identity_Inr)+

lemma strict_identity_prefix:
  "strict_identity H v c role = Inr x \<Longrightarrow>
   v \<noteq> ec_provider_fact_id c \<and> list_ex (\<lambda>p. starts_with p (lower v)) canonical_prefixes"
  unfolding strict_identity_def Let_def by (simp split: if_splits)

text \<open>A node identity passes only when the provider's own descriptor binds it: the witness of the
  candidate holds a descriptor whose entity, hashed by the canonical rule, is that very identity;
  and identities are never renamed.\<close>

lemma strict_identity_node:
  assumes "strict_identity H v c role = Inr x" and "starts_with ''node:'' v"
  shows "x = Some v \<and> (\<exists>raw es ids. jget (ec_witness c) ''provider_local'' = JObj raw \<and>
    descriptor_entities raw role = Inr es \<and> bound_ids H es = Inr ids \<and> v \<in> set ids)"
proof -
  from assms obtain raw where "jget (ec_witness c) ''provider_local'' = JObj raw"
    and "bind_node_identity H v raw role = Inr x"
    unfolding strict_identity_def Let_def
    by (simp del: starts_with.simps split: if_splits json.splits)
  then show ?thesis using bind_node_identity_Inr by blast
qed

definition sample_entity :: jdict where
  "sample_entity = [(''kind'', JStr ''FILE''), (''name'', JStr ''a.c''),
     (''qualified_name'', JStr ''src/a.c''), (''path'', JStr ''src/a.c''), (''language'', JStr ''c'')]"

definition sample_local :: evidence_candidate where
  "sample_local = \<lparr>
     ec_provider_id = ''rintel-clang'', ec_provider_fact_id = ''f1'',
     ec_subject = ''node:FILE:src/a.c'', ec_predicate = ''NODE'', ec_object = JNull,
     ec_source_span = None, ec_truth_class = OBSERVED, ec_coverage = COMPLETE,
     ec_resolution = EXACT, ec_revision_input = ''r1'', ec_execution_modality = MAY,
     ec_confidence = None,
     ec_witness = [(''provider_local'', JObj [(''subject'', JObj sample_entity)])],
     ec_object_is_identity = False\<rparr>"

lemma strict_identity_node_witness:
  "\<exists>raw es ids. jget (ec_witness sample_local) ''provider_local'' = JObj raw \<and>
     descriptor_entities raw ''subject'' = Inr es \<and> bound_ids (\<lambda>s. ''h'') es = Inr ids \<and>
     ''node:FILE:src/a.c'' \<in> set ids"
proof -
  have "strict_identity (\<lambda>s. ''h'') ''node:FILE:src/a.c'' sample_local ''subject'' =
      Inr (Some ''node:FILE:src/a.c'')" by code_simp
  from strict_identity_node [OF this] show ?thesis by simp
qed

section \<open>Resolution of a candidate\<close>

definition resolve_ids ::
  "identity_resolver \<Rightarrow> evidence_candidate \<Rightarrow> json list \<Rightarrow> ev_error + json list" where
  "resolve_ids res c xs =
     and_then (map_err (\<lambda>v. res (py_str v) c ''object'') xs)
       (\<lambda>ys. Inr (map JStr (List.map_filter (\<lambda>y. y) ys)))"

definition resolve_object :: "evidence_candidate \<Rightarrow> identity_resolver \<Rightarrow> ev_error + json" where
  "resolve_object c res =
     (if \<not> ec_object_is_identity c \<or> ec_object c = JNull then Inr (ec_object c)
      else case ec_object c of
        JStr v \<Rightarrow> and_then (res v c ''object'')
          (\<lambda>r. Inr (case r of None \<Rightarrow> JNull | Some s \<Rightarrow> JStr s))
      | JList xs \<Rightarrow> and_then (resolve_ids res c xs) (\<lambda>ys. Inr (JList ys))
      | _ \<Rightarrow> Inl ValueError)"

type_synonym resolved_item = "evidence_candidate \<times> string \<times> json"

text \<open>One turn of the resolution loop: \<open>None\<close> is \<open>unresolved.append(candidate)\<close>.\<close>

definition resolve_one ::
  "identity_resolver \<Rightarrow> evidence_candidate \<Rightarrow> ev_error + resolved_item option" where
  "resolve_one res c =
     (case and_then (res (ec_subject c) c ''subject'')
             (\<lambda>s. and_then (resolve_object c res) (\<lambda>obj. Inr (s, obj))) of
        Inl e \<Rightarrow> if e = KeyError \<or> e = ValueError then Inr None else Inl e
      | Inr (None, obj) \<Rightarrow> Inr None
      | Inr (Some subject, obj) \<Rightarrow>
          if ec_object_is_identity c \<and> ec_object c \<noteq> JNull \<and> obj = JNull then Inr None
          else if ec_object_is_identity c \<and> ec_resolution c = EXACT \<and> obj = JNull then Inr None
          else if ec_object_is_identity c \<and> ec_resolution c = CANDIDATE_SET \<and> \<not> truthy obj
            then Inr None
          else Inr (Some (c, subject, obj)))"

fun resolve_all :: "identity_resolver \<Rightarrow> evidence_candidate list \<Rightarrow>
    ev_error + (resolved_item list \<times> evidence_candidate list)" where
  "resolve_all res [] = Inr ([], [])"
| "resolve_all res (c # cs) =
     and_then (resolve_one res c) (\<lambda>r.
     and_then (resolve_all res cs) (\<lambda>(items, rest).
       Inr (case r of Some item \<Rightarrow> (item # items, rest) | None \<Rightarrow> (items, c # rest))))"

lemma resolve_one_Some:
  "resolve_one res c = Inr (Some item) \<Longrightarrow> \<exists>s obj. item = (c, s, obj) \<and>
     res (ec_subject c) c ''subject'' = Inr (Some s) \<and> resolve_object c res = Inr obj"
  by (auto simp: resolve_one_def and_then_Inr split: sum.splits option.splits if_splits)

lemma resolve_all_ConsE:
  assumes "resolve_all res (c # cs) = Inr (items, rest)"
  obtains (resolved) item items' where "resolve_one res c = Inr (Some item)" "fst item = c"
      "resolve_all res cs = Inr (items', rest)" "items = item # items'"
    | (unresolved) rest' where "resolve_one res c = Inr None"
      "resolve_all res cs = Inr (items, rest')" "rest = c # rest'"
proof -
  from assms obtain r p where r: "resolve_one res c = Inr r" and p: "resolve_all res cs = Inr p"
    and eq: "(case p of (is, us) \<Rightarrow> (case r of Some item \<Rightarrow> (item # is, us) | None \<Rightarrow> (is, c # us)))
      = (items, rest)"
    by (cases "resolve_one res c"; cases "resolve_all res cs") (auto split: prod.splits)
  show thesis
  proof (cases r)
    case None
    with r p eq unresolved show thesis by (cases p) auto
  next
    case (Some item)
    with r have "fst item = c" using resolve_one_Some by fastforce
    with Some r p eq resolved show thesis by (cases p) auto
  qed
qed

lemma resolve_all_items:
  "resolve_all res cs = Inr (items, rest) \<Longrightarrow> item \<in> set items \<Longrightarrow>
   resolve_one res (fst item) = Inr (Some item) \<and> fst item \<in> set cs"
proof (induction cs arbitrary: items rest)
  case Nil
  then show ?case by simp
next
  case (Cons c cs)
  from Cons.prems(1) show ?case
  proof (cases rule: resolve_all_ConsE)
    case (resolved i items')
    then show ?thesis using Cons.IH [of items' rest] Cons.prems(2) by auto
  next
    case (unresolved rest')
    then show ?thesis using Cons.IH [of items rest'] Cons.prems(2) by auto
  qed
qed

lemma resolve_all_conserves:
  "resolve_all res cs = Inr (items, rest) \<Longrightarrow> mset (map fst items) + mset rest = mset cs"
proof (induction cs arbitrary: items rest)
  case Nil
  then show ?case by simp
next
  case (Cons c cs)
  from Cons.prems show ?case
  proof (cases rule: resolve_all_ConsE)
    case (resolved i items')
    then show ?thesis using Cons.IH [of items' rest] by simp
  next
    case (unresolved rest')
    then show ?thesis using Cons.IH [of items rest'] by simp
  qed
qed

section \<open>Slots and variants\<close>

record provider_claim =
  pc_provider_id :: string
  pc_provider_fact_id :: string
  pc_object :: json
  pc_truth_class :: truth_class
  pc_coverage :: coverage
  pc_resolution :: target_resolution
  pc_source_span :: "jdict option"
  pc_witness :: jdict

definition claim_to_dict :: "provider_claim \<Rightarrow> json" where
  "claim_to_dict c = JObj [
     (''provider_id'', JStr (pc_provider_id c)),
     (''provider_fact_id'', JStr (pc_provider_fact_id c)),
     (''object'', pc_object c),
     (''truth_class'', JStr (truth_value (pc_truth_class c))),
     (''coverage'', JStr (coverage_value (pc_coverage c))),
     (''resolution'', JStr (resolution_value (pc_resolution c))),
     (''source_span'', jopt JObj (pc_source_span c)),
     (''witness'', JObj (pc_witness c))]"

record canonical_evidence =
  ce_evidence_id :: string
  ce_subject :: string
  ce_predicate :: string
  ce_object :: json
  ce_source_span :: "jdict option"
  ce_truth_class :: truth_class
  ce_coverage :: coverage
  ce_resolution :: target_resolution
  ce_execution_modality :: execution_modality
  ce_revision_input :: string
  ce_provider_claims :: "provider_claim list"

definition evidence_to_dict :: "canonical_evidence \<Rightarrow> json" where
  "evidence_to_dict e = JObj [
     (''evidence_id'', JStr (ce_evidence_id e)),
     (''subject'', JStr (ce_subject e)),
     (''predicate'', JStr (ce_predicate e)),
     (''object'', ce_object e),
     (''source_span'', jopt JObj (ce_source_span e)),
     (''truth_class'', JStr (truth_value (ce_truth_class e))),
     (''coverage'', JStr (coverage_value (ce_coverage e))),
     (''resolution'', JStr (resolution_value (ce_resolution e))),
     (''execution_modality'', JStr (modality_value (ce_execution_modality e))),
     (''revision_input'', JStr (ce_revision_input e)),
     (''provider_claims'', JList (map claim_to_dict (ce_provider_claims e)))]"

record provider_conflict =
  cf_subject :: string
  cf_relation :: string
  cf_provider_claims :: "provider_claim list"
  cf_canonical_decision :: string
  cf_reason :: string

definition conflict_to_dict :: "provider_conflict \<Rightarrow> json" where
  "conflict_to_dict c = JObj [
     (''subject'', JStr (cf_subject c)),
     (''relation'', JStr (cf_relation c)),
     (''provider_claims'', JList (map claim_to_dict (cf_provider_claims c))),
     (''canonical_decision'', JStr (cf_canonical_decision c)),
     (''reason'', JStr (cf_reason c))]"

record canonicalization_result =
  cr_evidence :: "canonical_evidence list"
  cr_conflicts :: "provider_conflict list"
  cr_unresolved :: "evidence_candidate list"

definition result_to_dict :: "canonicalization_result \<Rightarrow> json" where
  "result_to_dict r = JObj [
     (''evidence'', JList (map evidence_to_dict (cr_evidence r))),
     (''conflicts'', JList (map conflict_to_dict (cr_conflicts r))),
     (''unresolved'', JList (map candidate_to_dict (cr_unresolved r)))]"

definition span_anchor :: "jdict option \<Rightarrow> json list" where
  "span_anchor sp = (let s = or_empty sp in
     [jget s ''file'', jget s ''start_line'', jget s ''span_kind''])"

definition semantic_span :: "jdict option \<Rightarrow> jdict option" where
  "semantic_span sp = (case nonempty sp of None \<Rightarrow> None | Some s \<Rightarrow>
     Some (map (\<lambda>k. (k, jget s k))
       [''file'', ''start_line'', ''start_column'', ''end_line'', ''end_column'',
        ''span_kind'', ''precision'']))"

definition stable :: "json \<Rightarrow> string" where
  "stable v = dumps True v"

type_synonym slot_key = "string \<times> string \<times> json list \<times> string"

fun slot_of :: "resolved_item \<Rightarrow> slot_key" where
  "slot_of (c, subject, obj) =
     (subject, ec_predicate c, span_anchor (ec_source_span c), ec_revision_input c)"

fun slot_json :: "slot_key \<Rightarrow> json" where
  "slot_json (subject, predicate, anchor, revision) =
     JList [JStr subject, JStr predicate, JList anchor, JStr revision]"

fun variant_of :: "resolved_item \<Rightarrow> string list" where
  "variant_of (c, subject, obj) =
     [stable obj, truth_value (ec_truth_class c), coverage_value (ec_coverage c),
      resolution_value (ec_resolution c), modality_value (ec_execution_modality c),
      stable (jopt JObj (semantic_span (ec_source_span c)))]"

fun claim_of :: "resolved_item \<Rightarrow> provider_claim" where
  "claim_of (c, subject, obj) =
     \<lparr>pc_provider_id = ec_provider_id c, pc_provider_fact_id = ec_provider_fact_id c,
      pc_object = obj, pc_truth_class = ec_truth_class c, pc_coverage = ec_coverage c,
      pc_resolution = ec_resolution c, pc_source_span = semantic_span (ec_source_span c),
      pc_witness = ec_witness c\<rparr>"

definition evidence_id_of ::
  "(string \<Rightarrow> string) \<Rightarrow> string \<Rightarrow> string \<Rightarrow> json \<Rightarrow> jdict option \<Rightarrow> string \<Rightarrow> string" where
  "evidence_id_of H subject predicate obj sp revision = ''evidence:'' @ H (stable (JObj [
     (''subject'', JStr subject), (''predicate'', JStr predicate), (''object'', obj),
     (''source_span'', jopt JObj (semantic_span sp)), (''revision_input'', JStr revision)]))"

datatype settled = Agreed canonical_evidence | Disputed provider_conflict

text \<open>The body of the loop over the sorted slots.\<close>

fun settle :: "(string \<Rightarrow> string) \<Rightarrow> slot_key \<times> resolved_item list \<Rightarrow> settled" where
  "settle H ((subject, predicate, anchor, revision), claims) =
     (if length (group_by variant_of claims) \<noteq> 1 then
        Disputed \<lparr>cf_subject = subject, cf_relation = predicate,
          cf_provider_claims = map claim_of claims,
          cf_canonical_decision = ''PROVIDER_CONFLICT'',
          cf_reason = ''providers disagree on semantic payload or truth dimensions''\<rparr>
      else case hd claims of (c, s, obj) \<Rightarrow>
        Agreed \<lparr>ce_evidence_id = evidence_id_of H subject predicate obj (ec_source_span c) revision,
          ce_subject = subject, ce_predicate = predicate, ce_object = obj,
          ce_source_span = ec_source_span c, ce_truth_class = ec_truth_class c,
          ce_coverage = ec_coverage c, ce_resolution = ec_resolution c,
          ce_execution_modality = ec_execution_modality c, ce_revision_input = revision,
          ce_provider_claims = map claim_of claims\<rparr>)"

fun agreed :: "settled list \<Rightarrow> canonical_evidence list" where
  "agreed [] = []"
| "agreed (Agreed e # xs) = e # agreed xs"
| "agreed (Disputed c # xs) = agreed xs"

fun disputed :: "settled list \<Rightarrow> provider_conflict list" where
  "disputed [] = []"
| "disputed (Agreed e # xs) = disputed xs"
| "disputed (Disputed c # xs) = c # disputed xs"

definition sorted_slots :: "resolved_item list \<Rightarrow> (slot_key \<times> resolved_item list) list" where
  "sorted_slots items = sort_key (\<lambda>(k, _). stable (slot_json k)) (group_by slot_of items)"

declare settle.simps [simp del]

text \<open>\<open>_reconcile_raw_candidates\<close>.\<close>

definition reconcile_raw ::
  "(string \<Rightarrow> string) \<Rightarrow> identity_resolver \<Rightarrow> evidence_candidate list \<Rightarrow>
   ev_error + canonicalization_result" where
  "reconcile_raw H res cs =
     and_then (resolve_all res cs) (\<lambda>(items, rest).
       let outcomes = map (settle H) (sorted_slots items) in
       Inr \<lparr>cr_evidence = agreed outcomes, cr_conflicts = disputed outcomes,
            cr_unresolved = rest\<rparr>)"

end
