(* ===== verification/Reconcile.thy ===== *)
theory Reconcile
  imports Canonical
begin

text \<open>
  What reconciliation guarantees: it conserves the candidates, it settles a slot only by
  agreement, it reports a conflict only where two providers really differ, and its result
  does not depend on the order in which the providers reported. The differential view of two
  providers (\<open>provider_arch/differential.py\<close>) is built on it.
\<close>

section \<open>Settling one slot\<close>

lemma single_group:
  assumes "length (group_by f xs) = 1" and "x \<in> set xs" and "y \<in> set xs"
  shows "f x = f y"
proof -
  from assms(1) obtain k vs where "group_by f xs = [(k, vs)]"
    by (cases "group_by f xs") auto
  with group_by_keys [of f xs] have "f ` set xs = {k}" by simp
  with assms(2,3) show ?thesis by (metis imageI singletonD)
qed

lemma several_groups:
  assumes "length (group_by f xs) \<noteq> 1" and "xs \<noteq> []"
  shows "\<exists>x \<in> set xs. \<exists>y \<in> set xs. f x \<noteq> f y"
proof (rule ccontr)
  assume "\<not> ?thesis"
  then have same: "f x = f (hd xs)" if "x \<in> set xs" for x using hd_in_set [OF assms(2)] that by blast
  have "f ` set xs = {f (hd xs)}"
  proof (rule equalityI)
    show "f ` set xs \<subseteq> {f (hd xs)}" using same by blast
    show "{f (hd xs)} \<subseteq> f ` set xs" using hd_in_set [OF assms(2)] by blast
  qed
  then have "card (f ` set xs) = 1" by simp
  moreover have "card (fst ` set (group_by f xs)) = length (group_by f xs)"
    using distinct_card [OF group_by_distinct [of f xs]] by simp
  ultimately show False using assms(1) group_by_keys [of f xs] by simp
qed

lemma settle_Agreed:
  assumes "settle H ((s, p, a, r), claims) = Agreed e" and "i \<in> set claims" and "claims \<noteq> []"
  shows "variant_of i = variant_of (hd claims) \<and> ce_provider_claims e = map claim_of claims"
proof -
  have "length (group_by variant_of claims) = 1"
    using assms(1) by (simp add: settle.simps split: if_splits)
  moreover have "hd claims \<in> set claims" using assms(3) by simp
  ultimately have "variant_of i = variant_of (hd claims)"
    using single_group assms(2) by metis
  then show ?thesis using assms(1) by (auto simp: settle.simps split: if_splits prod.splits)
qed

lemma settle_claims:
  "settle H (k, claims) = Agreed e \<Longrightarrow> ce_provider_claims e = map claim_of claims"
  "settle H (k, claims) = Disputed c \<Longrightarrow> cf_provider_claims c = map claim_of claims"
  by (cases k; auto simp: settle.simps split: if_splits prod.splits)+

lemma agreed_iff: "e \<in> set (agreed xs) \<longleftrightarrow> Agreed e \<in> set xs"
  by (induction xs rule: agreed.induct) auto

lemma disputed_iff: "c \<in> set (disputed xs) \<longleftrightarrow> Disputed c \<in> set xs"
  by (induction xs rule: disputed.induct) auto

lemma slots_member:
  "(k, claims) \<in> set (sorted_slots items) \<Longrightarrow>
   claims = filter (\<lambda>i. slot_of i = k) items \<and> claims \<noteq> []"
  by (auto simp: sorted_slots_def dest: group_by_member)

lemma slots_distinct: "distinct (map fst (sorted_slots items))"
proof -
  have "mset (map fst (sorted_slots items)) = mset (map fst (group_by slot_of items))"
    by (simp only: sorted_slots_def mset_map mset_sort)
  then have "distinct (map fst (sorted_slots items)) = distinct (map fst (group_by slot_of items))"
    by (rule mset_eq_imp_distinct_iff)
  then show ?thesis by (simp add: group_by_distinct)
qed

section \<open>Unfolding a successful reconciliation\<close>

lemma reconcile_rawE:
  assumes "reconcile_raw H res cs = Inr r"
  obtains items where "resolve_all res cs = Inr (items, cr_unresolved r)"
    "cr_evidence r = agreed (map (settle H) (sorted_slots items))"
    "cr_conflicts r = disputed (map (settle H) (sorted_slots items))"
proof (cases "resolve_all res cs")
  case (Inl e)
  with assms show thesis by (simp add: reconcile_raw_def)
next
  case (Inr p)
  obtain items rest where "p = (items, rest)" by (cases p)
  with Inr assms that [of items] show thesis by (auto simp: reconcile_raw_def Let_def)
qed

lemma evidence_origin:
  assumes "reconcile_raw H res cs = Inr r" and "e \<in> set (cr_evidence r)"
  obtains items k claims where "resolve_all res cs = Inr (items, cr_unresolved r)"
    "(k, claims) \<in> set (sorted_slots items)" "settle H (k, claims) = Agreed e"
    "claims = filter (\<lambda>i. slot_of i = k) items" "claims \<noteq> []"
proof -
  obtain items where items: "resolve_all res cs = Inr (items, cr_unresolved r)"
    "cr_evidence r = agreed (map (settle H) (sorted_slots items))"
    using assms(1) by (blast elim: reconcile_rawE)
  with assms(2) obtain k claims where "(k, claims) \<in> set (sorted_slots items)"
    "settle H (k, claims) = Agreed e"
    by (auto simp: agreed_iff)
  with items that slots_member show thesis by blast
qed

lemma conflict_origin:
  assumes "reconcile_raw H res cs = Inr r" and "c \<in> set (cr_conflicts r)"
  obtains items k claims where "resolve_all res cs = Inr (items, cr_unresolved r)"
    "(k, claims) \<in> set (sorted_slots items)" "settle H (k, claims) = Disputed c"
    "claims = filter (\<lambda>i. slot_of i = k) items" "claims \<noteq> []"
proof -
  obtain items where items: "resolve_all res cs = Inr (items, cr_unresolved r)"
    "cr_conflicts r = disputed (map (settle H) (sorted_slots items))"
    using assms(1) by (blast elim: reconcile_rawE)
  with assms(2) obtain k claims where "(k, claims) \<in> set (sorted_slots items)"
    "settle H (k, claims) = Disputed c"
    by (auto simp: disputed_iff)
  with items that slots_member show thesis by blast
qed

definition evidence_slot :: "canonical_evidence \<Rightarrow> slot_key" where
  "evidence_slot e = (ce_subject e, ce_predicate e, span_anchor (ce_source_span e), ce_revision_input e)"

lemma settle_slot:
  assumes "settle H (k, claims) = Agreed e" and "claims = filter (\<lambda>i. slot_of i = k) items"
    and "claims \<noteq> []"
  shows "evidence_slot e = k"
proof -
  obtain s p a r where k: "k = (s, p, a, r)" by (cases k) auto
  obtain c s' obj where hd: "hd claims = (c, s', obj)" by (cases "hd claims") auto
  have "hd claims \<in> set claims" using assms(3) by simp
  then have "slot_of (hd claims) = k" using assms(2) by auto
  with hd k assms(1) show ?thesis by (auto simp: settle.simps evidence_slot_def split: if_splits)
qed

section \<open>Agreement, conflict, conservation\<close>

text \<open>Every provider claim recorded under a piece of canonical evidence is an input candidate
  with the truth class, coverage, resolution and modality the evidence states, so that
  reconciliation never escalates a claim.\<close>

lemma evidence_agreement:
  assumes r: "reconcile_raw H res cs = Inr r" and e: "e \<in> set (cr_evidence r)"
    and p: "p \<in> set (ce_provider_claims e)"
  shows "\<exists>c \<in> set cs. pc_provider_id p = ec_provider_id c \<and>
      pc_provider_fact_id p = ec_provider_fact_id c \<and>
      ec_truth_class c = ce_truth_class e \<and> ec_coverage c = ce_coverage e \<and>
      ec_resolution c = ce_resolution e \<and> ec_execution_modality c = ce_execution_modality e \<and>
      ec_predicate c = ce_predicate e \<and> ec_revision_input c = ce_revision_input e \<and>
      stable (pc_object p) = stable (ce_object e)"
proof -
  from r e obtain items k claims where items: "resolve_all res cs = Inr (items, cr_unresolved r)"
    and s: "settle H (k, claims) = Agreed e" and cl: "claims = filter (\<lambda>i. slot_of i = k) items"
    and ne: "claims \<noteq> []"
    by (rule evidence_origin)
  obtain su pr an re where k: "k = (su, pr, an, re)" by (cases k) auto
  from p settle_claims(1) [OF s] obtain i where i: "i \<in> set claims" and pi: "p = claim_of i"
    by auto
  obtain c su' obj where ic: "i = (c, su', obj)" by (cases i) auto
  have "c \<in> set cs" using resolve_all_items [OF items, of i] i cl ic by auto
  moreover have var: "variant_of i = variant_of (hd claims)"
    using settle_Agreed [OF s [unfolded k] i ne] by simp
  obtain c' su'' obj' where hd: "hd claims = (c', su'', obj')" by (cases "hd claims") auto
  have "slot_of i = k" using i cl by auto
  moreover have "ce_truth_class e = ec_truth_class c'" "ce_coverage e = ec_coverage c'"
    "ce_resolution e = ec_resolution c'" "ce_execution_modality e = ec_execution_modality c'"
    "ce_predicate e = pr" "ce_revision_input e = re" "ce_object e = obj'"
    using s k hd by (auto simp: settle.simps split: if_splits)
  ultimately show ?thesis
    using var pi ic hd k by (auto simp: value_inj intro!: bexI [of _ c])
qed

text \<open>A recorded conflict holds two input candidates of the same slot that differ in payload or
  truth dimensions, and no canonical evidence exists for that slot: no winner is selected.\<close>

lemma conflict_is_real:
  assumes r: "reconcile_raw H res cs = Inr r" and c: "c \<in> set (cr_conflicts r)"
  shows "\<exists>i j. claim_of i \<in> set (cf_provider_claims c) \<and> claim_of j \<in> set (cf_provider_claims c) \<and>
      fst i \<in> set cs \<and> fst j \<in> set cs \<and> slot_of i = slot_of j \<and> variant_of i \<noteq> variant_of j \<and>
      (\<forall>e \<in> set (cr_evidence r). evidence_slot e \<noteq> slot_of i)"
proof -
  from r c obtain items k claims where items: "resolve_all res cs = Inr (items, cr_unresolved r)"
    and mem: "(k, claims) \<in> set (sorted_slots items)"
    and s: "settle H (k, claims) = Disputed c" and cl: "claims = filter (\<lambda>i. slot_of i = k) items"
    and ne: "claims \<noteq> []"
    by (rule conflict_origin)
  have "length (group_by variant_of claims) \<noteq> 1"
    using s by (cases k) (auto simp: settle.simps split: if_splits prod.splits)
  from several_groups [OF this ne] obtain i j where ij: "i \<in> set claims" "j \<in> set claims"
    "variant_of i \<noteq> variant_of j" by blast
  have "evidence_slot e \<noteq> k" if "e \<in> set (cr_evidence r)" for e
  proof
    assume "evidence_slot e = k"
    from r that obtain items' k' claims' where
      items': "resolve_all res cs = Inr (items', cr_unresolved r)"
      and mem': "(k', claims') \<in> set (sorted_slots items')"
      and s': "settle H (k', claims') = Agreed e"
      and cl': "claims' = filter (\<lambda>i. slot_of i = k') items'" and ne': "claims' \<noteq> []"
      by (rule evidence_origin)
    have "k' = k" using settle_slot [OF s' cl' ne'] \<open>evidence_slot e = k\<close> by simp
    with items items' cl cl' have "claims' = claims" by simp
    with s s' \<open>k' = k\<close> show False by simp
  qed
  with ij cl settle_claims(2) [OF s] resolve_all_items [OF items] show ?thesis
    by (intro exI [of _ i] exI [of _ j]) auto
qed

text \<open>Canonical evidence has at most one entry for a slot (subject, predicate, span anchor,
  revision).\<close>

lemma evidence_slots_distinct:
  assumes "reconcile_raw H res cs = Inr r"
  shows "distinct (map evidence_slot (cr_evidence r))"
proof -
  obtain items where ev: "cr_evidence r = agreed (map (settle H) (sorted_slots items))"
    using assms by (blast elim: reconcile_rawE)
  have key: "settle H (k, claims) = Agreed e \<Longrightarrow> evidence_slot e = k"
    if "(k, claims) \<in> set (sorted_slots items)" for k claims e
    using settle_slot slots_member [OF that] by blast
  have "set slots \<subseteq> set (sorted_slots items) \<Longrightarrow> distinct (map fst slots) \<Longrightarrow>
      distinct (map evidence_slot (agreed (map (settle H) slots))) \<and>
      evidence_slot ` set (agreed (map (settle H) slots)) \<subseteq> fst ` set slots" for slots
  proof (induction slots)
    case Nil
    then show ?case by simp
  next
    case (Cons kc slots)
    obtain k claims where kc: "kc = (k, claims)" by (cases kc)
    show ?case
    proof (cases "settle H kc")
      case (Agreed e)
      then have "evidence_slot e = k" using key [of k claims e] Cons.prems kc by simp
      with Agreed Cons kc show ?thesis by auto
    next
      case (Disputed c)
      with Cons show ?thesis by auto
    qed
  qed
  with slots_distinct ev show ?thesis by force
qed

definition claim_ids :: "provider_claim \<Rightarrow> string \<times> string" where
  "claim_ids p = (pc_provider_id p, pc_provider_fact_id p)"

definition candidate_ids :: "evidence_candidate \<Rightarrow> string \<times> string" where
  "candidate_ids c = (ec_provider_id c, ec_provider_fact_id c)"

lemma claim_ids_of: "claim_ids (claim_of i) = candidate_ids (fst i)"
  by (cases i) (auto simp: claim_ids_def candidate_ids_def)

lemma outcomes_claims:
  "mset (concat (map ce_provider_claims (agreed (map (settle H) slots)))) +
   mset (concat (map cf_provider_claims (disputed (map (settle H) slots)))) =
   mset (map claim_of (concat (map snd slots)))"
proof (induction slots)
  case Nil
  then show ?case by simp
next
  case (Cons kc slots)
  obtain k claims where kc: "kc = (k, claims)" by (cases kc)
  show ?case
  proof (cases "settle H (k, claims)")
    case (Agreed e)
    with Cons kc settle_claims(1) [OF Agreed] show ?thesis
      by (simp add: ac_simps)
  next
    case (Disputed c)
    with Cons kc settle_claims(2) [OF Disputed] show ?thesis
      by (simp add: ac_simps)
  qed
qed

lemma slots_conserve: "mset (concat (map snd (sorted_slots items))) = mset items"
proof -
  have "mset (concat (map snd xs)) = mset (concat (map snd ys))" if "mset xs = mset ys"
    for xs ys :: "(slot_key \<times> resolved_item list) list"
  proof -
    have "mset (concat (map snd zs)) = (\<Sum>z \<in># mset zs. mset (snd z))" for zs :: "(slot_key \<times> resolved_item list) list"
      by (induction zs) auto
    with that show ?thesis by metis
  qed
  from this [of "sorted_slots items" "group_by slot_of items"] show ?thesis
    by (simp add: sorted_slots_def group_by_mset)
qed

lemma reconcile_claims_conserved:
  assumes "reconcile_raw H res cs = Inr r"
  shows "mset (map claim_ids (concat (map ce_provider_claims (cr_evidence r)))) +
         mset (map claim_ids (concat (map cf_provider_claims (cr_conflicts r)))) +
         mset (map candidate_ids (cr_unresolved r)) = mset (map candidate_ids cs)"
proof -
  from assms obtain items where items: "resolve_all res cs = Inr (items, cr_unresolved r)"
    and ev: "cr_evidence r = agreed (map (settle H) (sorted_slots items))"
    and cf: "cr_conflicts r = disputed (map (settle H) (sorted_slots items))"
    by (rule reconcile_rawE)
  have "mset (concat (map ce_provider_claims (cr_evidence r))) +
      mset (concat (map cf_provider_claims (cr_conflicts r))) = image_mset claim_of (mset items)"
    using outcomes_claims [of H "sorted_slots items"] slots_conserve [of items] ev cf by simp
  then have "image_mset claim_ids (mset (concat (map ce_provider_claims (cr_evidence r)))) +
      image_mset claim_ids (mset (concat (map cf_provider_claims (cr_conflicts r)))) =
      image_mset candidate_ids (mset (map fst items))"
    by (metis (no_types, lifting) claim_ids_of image_mset_union mset_map multiset.map_comp
        multiset.map_cong0 comp_apply)
  with resolve_all_conserves [OF items] show ?thesis
    by (metis image_mset_union mset_map)
qed

text \<open>Reconciliation neither loses nor duplicates a candidate: counted with multiplicity, the
  claims of the evidence, those of the conflicts and the unresolved candidates are exactly the
  candidates that came in.\<close>

lemma reconcile_conservation:
  assumes "reconcile_raw H res cs = Inr r"
  shows "mset (map claim_ids (concat (map ce_provider_claims (cr_evidence r)))) +
         mset (map claim_ids (concat (map cf_provider_claims (cr_conflicts r)))) +
         mset (map candidate_ids (cr_unresolved r)) = mset (map candidate_ids cs)"
  using assms by (rule reconcile_claims_conserved)

section \<open>The order of the reports does not matter\<close>

definition outcome_of :: "identity_resolver \<Rightarrow> evidence_candidate \<Rightarrow> resolved_item option" where
  "outcome_of res c = (case resolve_one res c of Inl e \<Rightarrow> None | Inr x \<Rightarrow> x)"

lemma resolve_all_char:
  "resolve_all res cs = Inr (items, rest) \<longleftrightarrow>
     (\<forall>c \<in> set cs. \<exists>x. resolve_one res c = Inr x) \<and>
     items = List.map_filter (outcome_of res) cs \<and>
     rest = filter (\<lambda>c. outcome_of res c = None) cs"
proof (induction cs arbitrary: items rest)
  case Nil
  then show ?case by (auto simp: List.map_filter_def)
next
  case (Cons c cs)
  show ?case
  proof (cases "resolve_one res c")
    case (Inl e)
    then show ?thesis by simp
  next
    case (Inr x)
    have "resolve_all res (c # cs) = Inr (items, rest) \<longleftrightarrow>
        (\<exists>is us. resolve_all res cs = Inr (is, us) \<and>
          (items, rest) = (case x of Some i \<Rightarrow> (i # is, us) | None \<Rightarrow> (is, c # us)))"
      using Inr by (cases "resolve_all res cs") (auto split: option.splits)
    also have "\<dots> \<longleftrightarrow> (\<forall>c \<in> set (c # cs). \<exists>x. resolve_one res c = Inr x) \<and>
        items = List.map_filter (outcome_of res) (c # cs) \<and>
        rest = filter (\<lambda>c. outcome_of res c = None) (c # cs)"
      using Inr by (cases x) (auto simp: Cons.IH outcome_of_def List.map_filter_def)
    finally show ?thesis .
  qed
qed

lemma resolve_all_perm:
  assumes "resolve_all res cs = Inr (items, rest)" and "mset cs = mset ds"
  obtains items' rest' where "resolve_all res ds = Inr (items', rest')"
    "mset items' = mset items" "mset rest' = mset rest"
proof
  have "set ds = set cs" using mset_eq_setD [OF assms(2)] by simp
  with assms(1) show "resolve_all res ds = Inr (List.map_filter (outcome_of res) ds,
      filter (\<lambda>c. outcome_of res c = None) ds)"
    by (simp add: resolve_all_char)
  have "items = List.map_filter (outcome_of res) cs"
    and "rest = filter (\<lambda>c. outcome_of res c = None) cs"
    using assms(1) by (simp_all add: resolve_all_char)
  then show "mset (List.map_filter (outcome_of res) ds) = mset items"
    and "mset (filter (\<lambda>c. outcome_of res c = None) ds) = mset rest"
    using mset_map_filter_cong [OF assms(2), symmetric] assms(2) by (simp_all only: mset_filter)
qed

text \<open>
  A published fact and a reported conflict up to the order of their claims. The span is compared by what it
  means (\<open>_semantic_span\<close>): the raw span is that of the first claim, and keeps its other fields.
\<close>

definition evidence_sig where
  "evidence_sig e = (ce_evidence_id e, ce_subject e, ce_predicate e, ce_revision_input e,
     stable (ce_object e), stable (jopt JObj (semantic_span (ce_source_span e))), (ce_truth_class e, ce_coverage e, ce_resolution e,
     ce_execution_modality e), mset (ce_provider_claims e))"

definition conflict_sig where
  "conflict_sig c = (cf_subject c, cf_relation c, mset (cf_provider_claims c))"

fun same_outcome :: "settled \<Rightarrow> settled \<Rightarrow> bool" where
  "same_outcome (Agreed e) (Agreed e') = (evidence_sig e = evidence_sig e')"
| "same_outcome (Disputed c) (Disputed c') = (conflict_sig c = conflict_sig c')"
| "same_outcome _ _ = False"

lemma evidence_id_cong:
  assumes "stable x = stable y"
    and "stable (jopt JObj (semantic_span s)) = stable (jopt JObj (semantic_span t))"
  shows "evidence_id_of H su pr x s re = evidence_id_of H su pr y t re"
  using assms by (simp add: evidence_id_of_def stable_def dumps_obj)

lemma settle_perm:
  assumes perm: "mset claims = mset claims'" and ne: "claims \<noteq> []"
  shows "same_outcome (settle H (k, claims)) (settle H (k, claims'))"
proof -
  obtain su pr an re where k: "k = (su, pr, an, re)" by (cases k) auto
  have sets: "set claims = set claims'" using perm by (rule mset_eq_setD)
  have len: "length (group_by variant_of claims) = length (group_by variant_of claims')"
    by (simp only: group_by_length sets)
  show ?thesis
  proof (cases "length (group_by variant_of claims) = 1")
    case False
    then show ?thesis using len perm k by (simp add: settle.simps conflict_sig_def)
  next
    case True
    have ne': "claims' \<noteq> []" using ne perm by auto
    have "hd claims \<in> set claims" and "hd claims' \<in> set claims"
      using hd_in_set [OF ne] hd_in_set [OF ne'] sets by simp_all
    then have var: "variant_of (hd claims) = variant_of (hd claims')"
      using single_group [OF True] by blast
    obtain c s obj where h: "hd claims = (c, s, obj)" by (cases "hd claims") auto
    obtain c' s' obj' where h': "hd claims' = (c', s', obj')" by (cases "hd claims'") auto
    have "evidence_id_of H su pr obj (ec_source_span c) re =
        evidence_id_of H su pr obj' (ec_source_span c') re"
      using var h h' by (intro evidence_id_cong) simp_all
    then show ?thesis
      using True len perm k h h' var
      by (simp add: settle.simps evidence_sig_def value_inj)
  qed
qed

definition scalar_anchor :: "evidence_candidate \<Rightarrow> bool" where
  "scalar_anchor c = list_all scalar (span_anchor (ec_source_span c))"

lemma slot_text_inj:
  assumes "stable (slot_json (s, p, a, r)) = stable (slot_json (s', p', a', r'))"
    and "list_all scalar a" and "list_all scalar a'"
  shows "(s, p, a, r) = (s', p', a', r')"
proof -
  have plain: "canon (JList [JStr x, JStr y, JList b, JStr z]) = JList [JStr x, JStr y, JList b, JStr z]
      \<and> float_free (JList [JStr x, JStr y, JList b, JStr z])" if "list_all scalar b" for x y b z
  proof -
    have "map canon b = b" and "list_all float_free b"
      using that by (induction b) (auto dest: scalar_canon)
    then show ?thesis by simp
  qed
  show ?thesis
    using assms plain [OF assms(2), of s p r] plain [OF assms(3), of s' p' r']
    by (simp add: stable_def dumps_eq_iff del: canon.simps float_free.simps)
qed

lemma sorted_slots_perm:
  assumes perm: "mset items = mset items'" and sc: "\<forall>i \<in> set items. scalar_anchor (fst i)"
  shows "list_all2 (\<lambda>x y. fst x = fst y \<and> mset (snd x) = mset (snd y) \<and> snd x \<noteq> [])
     (sorted_slots items) (sorted_slots items')"
proof -
  have sets: "set items = set items'" using perm by (rule mset_eq_setD)
  have keys: "fst ` set (group_by slot_of items) = slot_of ` set items"
    "fst ` set (group_by slot_of items') = slot_of ` set items"
    by (simp_all add: group_by_keys sets)
  have third: "\<exists>s p a r. slot_of i = (s, p, a, r) \<and> list_all scalar a" if "i \<in> set items" for i
    using sc that by (cases i) (auto simp: scalar_anchor_def)
  have "inj_on (\<lambda>k. stable (slot_json k)) (slot_of ` set items)"
  proof (rule inj_onI)
    fix k k'
    assume k: "k \<in> slot_of ` set items" "k' \<in> slot_of ` set items"
      and eq: "stable (slot_json k) = stable (slot_json k')"
    from k(1) obtain s p a r where 1: "k = (s, p, a, r)" "list_all scalar a"
      using third by force
    from k(2) obtain s' p' a' r' where 2: "k' = (s', p', a', r')" "list_all scalar a'"
      using third by force
    show "k = k'" using slot_text_inj [OF _ 1(2) 2(2)] eq 1(1) 2(1) by blast
  qed
  then have fsts: "map fst (sorted_slots items) = map fst (sorted_slots items')"
    unfolding sorted_slots_def
    by (intro sort_items_keys_unique) (simp_all add: group_by_distinct keys)
  have len: "length (sorted_slots items) = length (sorted_slots items')"
    using fsts map_eq_imp_length_eq by blast
  have "fst (sorted_slots items ! i) = fst (sorted_slots items' ! i) \<and>
      mset (snd (sorted_slots items ! i)) = mset (snd (sorted_slots items' ! i)) \<and>
      snd (sorted_slots items ! i) \<noteq> []" if i: "i < length (sorted_slots items)" for i
  proof -
    obtain k c k' c' where kc: "sorted_slots items ! i = (k, c)" "sorted_slots items' ! i = (k', c')"
      by (cases "sorted_slots items ! i", cases "sorted_slots items' ! i") auto
    have k: "k = k'" using fsts i len kc by (metis fst_conv nth_map)
    have c: "c = filter (\<lambda>i. slot_of i = k) items" "c \<noteq> []"
      using slots_member nth_mem [OF i] kc(1) by metis+
    have "c' = filter (\<lambda>i. slot_of i = k') items'"
      using slots_member nth_mem [of i "sorted_slots items'"] i len kc(2) by metis
    then have "mset c = mset c'" using c(1) k perm by simp
    with k c(2) show ?thesis unfolding kc by simp
  qed
  with len show ?thesis by (simp add: list_all2_conv_all_nth)
qed

lemma outcomes_sig:
  "list_all2 same_outcome xs ys \<Longrightarrow>
   map evidence_sig (agreed xs) = map evidence_sig (agreed ys) \<and>
   map conflict_sig (disputed xs) = map conflict_sig (disputed ys)"
proof (induction rule: list_all2_induct)
  case Nil
  then show ?case by simp
next
  case (Cons x xs y ys)
  then show ?case by (cases x; cases y) auto
qed

text \<open>C8: the order in which providers report does not matter: for candidates whose span anchors are scalars
  (others cannot be keys in the code), reconciling a permutation succeeds with the same evidence and the
  same conflicts in the same order, identifiers, objects, meaning of the spans and truth dimensions
  included, and with the same claims and unresolved candidates up to their order.\<close>

lemma reconcile_order_independent:
  assumes r: "reconcile_raw H res cs = Inr r" and perm: "mset cs = mset ds"
    and sc: "\<forall>c \<in> set cs. scalar_anchor c"
  shows "\<exists>s. reconcile_raw H res ds = Inr s \<and>
     map evidence_sig (cr_evidence s) = map evidence_sig (cr_evidence r) \<and>
     map conflict_sig (cr_conflicts s) = map conflict_sig (cr_conflicts r) \<and>
     mset (cr_unresolved s) = mset (cr_unresolved r)"
proof -
  from r obtain items where items: "resolve_all res cs = Inr (items, cr_unresolved r)"
    and ev: "cr_evidence r = agreed (map (settle H) (sorted_slots items))"
    and cf: "cr_conflicts r = disputed (map (settle H) (sorted_slots items))"
    by (rule reconcile_rawE)
  from items perm obtain items' rest' where items': "resolve_all res ds = Inr (items', rest')"
    and mi: "mset items' = mset items" and mr: "mset rest' = mset (cr_unresolved r)"
    by (rule resolve_all_perm)
  have "\<forall>i \<in> set items. scalar_anchor (fst i)" using resolve_all_items [OF items] sc by blast
  from sorted_slots_perm [OF mi [symmetric] this]
  have "list_all2 same_outcome (map (settle H) (sorted_slots items)) (map (settle H) (sorted_slots items'))"
    unfolding list_all2_map1 list_all2_map2
    by (rule list_all2_mono) (metis prod.collapse settle_perm)
  from outcomes_sig [OF this] ev cf mr items' show ?thesis
    by (auto simp: reconcile_raw_def Let_def)
qed

section \<open>Differential view of two providers\<close>

record provider_diff_view =
  pd_left_provider :: string
  pd_right_provider :: string
  pd_shared :: "string list"
  pd_only_left :: "string list"
  pd_only_right :: "string list"
  pd_conflicts :: "json list"
  pd_unresolved_left :: nat
  pd_unresolved_right :: nat

definition reconcile_for_differential ::
  "(string \<Rightarrow> string) \<Rightarrow> identity_resolver \<Rightarrow> evidence_candidate list \<Rightarrow> evidence_candidate list \<Rightarrow>
   ev_error + canonicalization_result \<times> canonicalization_result \<times> canonicalization_result" where
  "reconcile_for_differential H res left right =
     and_then (reconcile_raw H res left) (\<lambda>l.
     and_then (reconcile_raw H res right) (\<lambda>r.
     and_then (reconcile_raw H res (left @ right)) (\<lambda>b. Inr (l, r, b))))"

text \<open>\<open>tuple(sorted(keys))\<close> of a set of evidence ids.\<close>

definition sorted_ids :: "string list \<Rightarrow> string list" where
  "sorted_ids xs = sort (remdups xs)"

definition provider_diff ::
  "(string \<Rightarrow> string) \<Rightarrow> identity_resolver \<Rightarrow> evidence_candidate list \<Rightarrow> evidence_candidate list \<Rightarrow>
   ev_error + provider_diff_view" where
  "provider_diff H res left right =
     and_then (reconcile_for_differential H res left right) (\<lambda>(lres, rres, combined).
       let lids = map ce_evidence_id (cr_evidence lres);
           rids = map ce_evidence_id (cr_evidence rres)
       in Inr \<lparr>
         pd_left_provider = (case left of [] \<Rightarrow> ''UNKNOWN'' | c # _ \<Rightarrow> ec_provider_id c),
         pd_right_provider = (case right of [] \<Rightarrow> ''UNKNOWN'' | c # _ \<Rightarrow> ec_provider_id c),
         pd_shared = sorted_ids (filter (\<lambda>i. i \<in> set rids) lids),
         pd_only_left = sorted_ids (filter (\<lambda>i. i \<notin> set rids) lids),
         pd_only_right = sorted_ids (filter (\<lambda>i. i \<notin> set lids) rids),
         pd_conflicts = map conflict_to_dict (cr_conflicts combined),
         pd_unresolved_left = length (cr_unresolved lres),
         pd_unresolved_right = length (cr_unresolved rres)\<rparr>)"

text \<open>The differential view of two providers partitions the evidence of each side into shared
  and one-sided identities.\<close>

lemma provider_diff_partition:
  assumes "provider_diff H res left right = Inr d"
    and "reconcile_raw H res left = Inr l" and "reconcile_raw H res right = Inr r"
  shows "set (pd_shared d) \<union> set (pd_only_left d) = ce_evidence_id ` set (cr_evidence l) \<and>
     set (pd_shared d) \<union> set (pd_only_right d) = ce_evidence_id ` set (cr_evidence r) \<and>
     set (pd_shared d) \<inter> set (pd_only_left d) = {} \<and>
     set (pd_shared d) \<inter> set (pd_only_right d) = {} \<and>
     set (pd_only_left d) \<inter> set (pd_only_right d) = {}"
proof -
  from assms obtain b where d: "reconcile_for_differential H res left right = Inr (l, r, b)"
    by (cases "reconcile_raw H res (left @ right)")
      (auto simp: provider_diff_def reconcile_for_differential_def)
  have "pd_shared d = sorted_ids (filter (\<lambda>i. i \<in> set (map ce_evidence_id (cr_evidence r)))
          (map ce_evidence_id (cr_evidence l)))"
    "pd_only_left d = sorted_ids (filter (\<lambda>i. i \<notin> set (map ce_evidence_id (cr_evidence r)))
          (map ce_evidence_id (cr_evidence l)))"
    "pd_only_right d = sorted_ids (filter (\<lambda>i. i \<notin> set (map ce_evidence_id (cr_evidence l)))
          (map ce_evidence_id (cr_evidence r)))"
    using assms(1) d by (auto simp: provider_diff_def Let_def)
  then show ?thesis by (auto simp: sorted_ids_def)
qed


section \<open>Concrete instances\<close>

definition sample_candidate :: "string \<Rightarrow> truth_class \<Rightarrow> evidence_candidate" where
  "sample_candidate provider truth = \<lparr>
     ec_provider_id = provider, ec_provider_fact_id = ''f1'', ec_subject = ''symbol:a'',
     ec_predicate = ''CALLS'', ec_object = JStr ''symbol:b'', ec_source_span = None,
     ec_truth_class = truth, ec_coverage = COMPLETE, ec_resolution = EXACT,
     ec_revision_input = ''r1'', ec_execution_modality = MAY, ec_confidence = None,
     ec_witness = [], ec_object_is_identity = True\<rparr>"

definition keep_identity :: identity_resolver where
  "keep_identity v c role = Inr (Some v)"

lemma sample_resolve_one: "resolve_one keep_identity (sample_candidate p t) =
    Inr (Some (sample_candidate p t, ''symbol:a'', JStr ''symbol:b''))"
  by (simp add: resolve_one_def resolve_object_def keep_identity_def sample_candidate_def)

lemma sample_resolve_all: "resolve_all keep_identity [sample_candidate p t, sample_candidate q u] =
    Inr ([(sample_candidate p t, ''symbol:a'', JStr ''symbol:b''),
          (sample_candidate q u, ''symbol:a'', JStr ''symbol:b'')], [])"
  by (simp add: sample_resolve_one)

lemma sample_slot: "slot_of (sample_candidate p t, s, j) = (s, ''CALLS'', [JNull, JNull, JNull], ''r1'')"
  by (simp add: sample_candidate_def span_anchor_def or_empty_def jget_def get_or_def)

lemma sample_slots: "sorted_slots [(sample_candidate p t, s, j), (sample_candidate q u, s, j)] =
    [((s, ''CALLS'', [JNull, JNull, JNull], ''r1''),
      [(sample_candidate p t, s, j), (sample_candidate q u, s, j)])]"
  by (simp add: sorted_slots_def group_by_def sample_slot del: slot_of.simps)

lemma sample_variant: "variant_of (sample_candidate p t, s, j) = variant_of (sample_candidate q u, s, j) \<longleftrightarrow> t = u"
  by (auto simp: sample_candidate_def value_inj)

definition sample_result :: "string \<Rightarrow> truth_class \<Rightarrow> string \<Rightarrow> truth_class \<Rightarrow> canonicalization_result" where
  "sample_result p t q u =
     (let out = [settle id ((''symbol:a'', ''CALLS'', [JNull, JNull, JNull], ''r1''),
           [(sample_candidate p t, ''symbol:a'', JStr ''symbol:b''),
            (sample_candidate q u, ''symbol:a'', JStr ''symbol:b'')])]
      in \<lparr>cr_evidence = agreed out, cr_conflicts = disputed out, cr_unresolved = []\<rparr>)"

lemma sample_reconcile:
  "reconcile_raw id keep_identity [sample_candidate p t, sample_candidate q u] = Inr (sample_result p t q u)"
  unfolding reconcile_raw_def sample_resolve_all and_then.simps prod.case sample_slots
    list.map sample_result_def Let_def by (rule refl)

lemma sample_groups: "length (group_by variant_of [(sample_candidate p t, s, j), (sample_candidate q u, s, j)]) = Suc 0
    \<longleftrightarrow> t = u"
  by (simp add: group_by_length card_insert_if sample_variant del: variant_of.simps)

lemma sample_agrees:
  "\<exists>e. cr_evidence (sample_result p t q t) = [e] \<and> map pc_provider_id (ce_provider_claims e) = [p, q] \<and>
     ce_truth_class e = t"
  by (simp add: sample_result_def settle.simps sample_groups) (simp add: sample_candidate_def)

lemma sample_conflicts: "t \<noteq> u \<Longrightarrow> \<exists>c. cr_conflicts (sample_result p t q u) = [c]"
  by (simp add: sample_result_def settle.simps sample_groups)

lemma reconcile_conservation_witness:
  "mset (map claim_ids (concat (map ce_provider_claims (cr_evidence (sample_result ''A'' OBSERVED ''B'' OBSERVED))))) +
   mset (map claim_ids (concat (map cf_provider_claims (cr_conflicts (sample_result ''A'' OBSERVED ''B'' OBSERVED))))) +
   mset (map candidate_ids (cr_unresolved (sample_result ''A'' OBSERVED ''B'' OBSERVED))) =
   {#(''A'', ''f1''), (''B'', ''f1'')#}"
  using reconcile_conservation [OF sample_reconcile [of "''A''" OBSERVED "''B''" OBSERVED]]
  by (simp add: candidate_ids_def sample_candidate_def)

lemma evidence_agreement_witness:
  "\<exists>e p. e \<in> set (cr_evidence (sample_result ''A'' OBSERVED ''B'' OBSERVED)) \<and>
     p \<in> set (ce_provider_claims e) \<and>
     (\<exists>c \<in> set [sample_candidate ''A'' OBSERVED, sample_candidate ''B'' OBSERVED].
        ec_truth_class c = ce_truth_class e \<and> ec_coverage c = ce_coverage e)"
proof -
  obtain e where e: "cr_evidence (sample_result ''A'' OBSERVED ''B'' OBSERVED) = [e]"
    "map pc_provider_id (ce_provider_claims e) = [''A'', ''B'']"
    using sample_agrees [of "''A''" OBSERVED "''B''"] by (elim exE conjE) (rule that)
  from e(2) obtain p ps where "ce_provider_claims e = p # ps" by (cases "ce_provider_claims e") simp_all
  then have p: "p \<in> set (ce_provider_claims e)" by simp
  have "e \<in> set (cr_evidence (sample_result ''A'' OBSERVED ''B'' OBSERVED))" using e by simp
  from evidence_agreement [OF sample_reconcile this p] show ?thesis using \<open>e \<in> _\<close> p by blast
qed

lemma conflict_is_real_witness:
  "\<exists>c i j. c \<in> set (cr_conflicts (sample_result ''A'' OBSERVED ''B'' HEURISTIC)) \<and>
     claim_of i \<in> set (cf_provider_claims c) \<and> claim_of j \<in> set (cf_provider_claims c) \<and>
     variant_of i \<noteq> variant_of j"
proof -
  obtain c where c: "cr_conflicts (sample_result ''A'' OBSERVED ''B'' HEURISTIC) = [c]"
    using sample_conflicts [of OBSERVED HEURISTIC "''A''" "''B''"] by auto
  then have m: "c \<in> set (cr_conflicts (sample_result ''A'' OBSERVED ''B'' HEURISTIC))" by simp
  from conflict_is_real [OF sample_reconcile this] m show ?thesis by blast
qed

lemma evidence_slots_distinct_witness:
  "distinct (map evidence_slot (cr_evidence (sample_result ''A'' OBSERVED ''B'' OBSERVED)))"
  by (rule evidence_slots_distinct [OF sample_reconcile])

lemma reconcile_order_independent_witness:
  "map evidence_sig (cr_evidence (sample_result ''B'' OBSERVED ''A'' OBSERVED)) =
   map evidence_sig (cr_evidence (sample_result ''A'' OBSERVED ''B'' OBSERVED))"
proof -
  have "\<forall>c \<in> set [sample_candidate ''A'' OBSERVED, sample_candidate ''B'' OBSERVED]. scalar_anchor c"
    by (simp add: scalar_anchor_def sample_candidate_def span_anchor_def or_empty_def jget_def get_or_def)
  from reconcile_order_independent [OF sample_reconcile _ this,
      of "[sample_candidate ''B'' OBSERVED, sample_candidate ''A'' OBSERVED]"]
  show ?thesis by (simp add: sample_reconcile)
qed

lemma provider_diff_partition_witness:
  "\<exists>d. provider_diff id keep_identity
      [sample_candidate ''A'' OBSERVED, sample_candidate ''A'' OBSERVED]
      [sample_candidate ''B'' OBSERVED, sample_candidate ''B'' OBSERVED] = Inr d \<and>
    set (pd_shared d) \<inter> set (pd_only_left d) = {}"
proof -
  let ?l = "[sample_candidate ''A'' OBSERVED, sample_candidate ''A'' OBSERVED]"
  let ?r = "[sample_candidate ''B'' OBSERVED, sample_candidate ''B'' OBSERVED]"
  have "resolve_all keep_identity (?l @ ?r) = Inr
     ([(sample_candidate ''A'' OBSERVED, ''symbol:a'', JStr ''symbol:b''),
       (sample_candidate ''A'' OBSERVED, ''symbol:a'', JStr ''symbol:b''),
       (sample_candidate ''B'' OBSERVED, ''symbol:a'', JStr ''symbol:b''),
       (sample_candidate ''B'' OBSERVED, ''symbol:a'', JStr ''symbol:b'')], [])"
    by (simp add: sample_resolve_one)
  then have "\<exists>b. reconcile_raw id keep_identity (?l @ ?r) = Inr b"
    unfolding reconcile_raw_def by (simp only: and_then.simps Let_def prod.case) blast
  then have "\<exists>d. provider_diff id keep_identity ?l ?r = Inr d"
    unfolding provider_diff_def reconcile_for_differential_def sample_reconcile
    by (elim exE) (simp only: and_then.simps prod.case Let_def, blast)
  then obtain d where d: "provider_diff id keep_identity ?l ?r = Inr d" by blast
  from provider_diff_partition [OF d sample_reconcile sample_reconcile] d show ?thesis by blast
qed

end
