(* ===== verification/Authority.thy ===== *)
theory Authority
  imports Reconcile
begin

text \<open>
  The evidence authority engine (\<open>evidence_authority/engine.py\<close>): admission of an envelope
  through its registered lane, support receipts, sealed publication batches, and the
  alignment of canonical and reference evidence.

  The private seals of the source (\<open>_ADMISSION_SEAL\<close>, \<open>_BATCH_SEAL\<close>, \<open>_SEAL\<close>) say that a
  value of these types comes from its issuing function only; the model's records are built
  by \<open>admit\<close>, \<open>issue_batch\<close> and \<open>issue_fact_support\<close> only.
\<close>

section \<open>Admission\<close>

record canonical_admission =
  ad_evidence_authority :: string
  ad_registry_version :: string
  ad_rule_version :: string
  ad_envelope_digest :: string
  ad_state_before :: canonical_state
  ad_state_after :: canonical_state
  ad_candidate :: evidence_candidate

record engine =
  eg_registry :: lane_registry
  eg_rule_version :: string

definition default_engine :: engine where
  "default_engine = \<lparr>eg_registry = default_registry,
     eg_rule_version = ''evidence-authority-rules/1''\<rparr>"

definition lane_for :: "engine \<Rightarrow> evidence_envelope \<Rightarrow> ev_error + lane_definition" where
  "lane_for eng env =
     and_then (require_lane (eg_registry eng) (en_lane_id env)) (\<lambda>lane.
       if fnmatch (ln_producer lane) (en_producer env) then Inr lane
       else Inl (AdmissionDenied ProducerNotRegistered))"

definition validate_claim :: "evidence_envelope \<Rightarrow> lane_definition \<Rightarrow> ev_error + claim_payload" where
  "validate_claim env lane = (case en_claim env of
     None \<Rightarrow> Inl (AdmissionDenied NoClaimPayload)
   | Some claim \<Rightarrow>
       if cl_truth_class claim \<notin> set (ln_truth_classes lane)
         then Inl (AdmissionDenied TruthClassForbidden)
       else if cl_resolution claim \<notin> set (ln_resolutions lane)
         then Inl (AdmissionDenied ResolutionForbidden)
       else if ln_lane_id lane \<in> {''runtime_trace'', ''runtime_data''} \<and>
               cl_execution_modality claim = MUST
         then Inl (AdmissionDenied RuntimeCannotBeMust)
       else Inr claim)"

definition candidate_from :: "evidence_envelope \<Rightarrow> claim_payload \<Rightarrow> evidence_candidate" where
  "candidate_from env claim = \<lparr>
     ec_provider_id = en_producer env,
     ec_provider_fact_id = cl_claim_id claim,
     ec_subject = cl_subject claim,
     ec_predicate = cl_predicate claim,
     ec_object = cl_object claim,
     ec_source_span = nonempty (cl_source_span claim),
     ec_truth_class = cl_truth_class claim,
     ec_coverage = cl_coverage claim,
     ec_resolution = cl_resolution claim,
     ec_revision_input = cl_revision_input claim,
     ec_execution_modality = cl_execution_modality claim,
     ec_confidence = cl_confidence claim,
     ec_witness = or_empty (cl_witness claim),
     ec_object_is_identity = cl_object_is_identity claim\<rparr>"

definition admit :: "(string \<Rightarrow> string) \<Rightarrow> engine \<Rightarrow> evidence_envelope \<Rightarrow> canonical_state \<Rightarrow>
    ev_error + canonical_admission" where
  "admit H eng env state =
     and_then (lane_for eng env) (\<lambda>lane.
       if ln_authority_class lane \<noteq> CANONICAL_CANDIDATE \<or> \<not> ln_canonical_ingestion lane
         then Inl (AdmissionDenied LaneNotCanonical)
       else and_then (validate_claim env lane) (\<lambda>claim.
         and_then (check_candidate (candidate_from env claim)) (\<lambda>candidate.
           Inr \<lparr>ad_evidence_authority = authority_value (ln_authority_class lane),
                ad_registry_version = rg_version (eg_registry eng),
                ad_rule_version = eg_rule_version eng,
                ad_envelope_digest = envelope_digest H env,
                ad_state_before = state, ad_state_after = state,
                ad_candidate = candidate\<rparr>)))"

definition admission_to_dict :: "canonical_admission \<Rightarrow> json" where
  "admission_to_dict a = JObj [
     (''kind'', JStr ''CanonicalAdmission''),
     (''evidence_authority'', JStr (ad_evidence_authority a)),
     (''registry_version'', JStr (ad_registry_version a)),
     (''rule_version'', JStr (ad_rule_version a)),
     (''envelope_digest'', JStr (ad_envelope_digest a)),
     (''canonical_state_before'', state_to_dict (ad_state_before a)),
     (''canonical_state_after'', state_to_dict (ad_state_after a))]"

definition reconcile :: "(string \<Rightarrow> string) \<Rightarrow> canonical_admission list \<Rightarrow>
    ev_error + canonicalization_result" where
  "reconcile H admissions = reconcile_raw H (strict_identity H) (map ad_candidate admissions)"

lemma lane_for_Inr: "lane_for eng env = Inr lane \<longleftrightarrow>
    require_lane (eg_registry eng) (en_lane_id env) = Inr lane \<and>
    fnmatch (ln_producer lane) (en_producer env)"
  by (auto simp: lane_for_def and_then_Inr split: if_splits)

lemma validate_claim_Inr: "validate_claim env lane = Inr c \<longleftrightarrow>
    en_claim env = Some c \<and> cl_truth_class c \<in> set (ln_truth_classes lane) \<and>
    cl_resolution c \<in> set (ln_resolutions lane) \<and>
    \<not> (ln_lane_id lane \<in> {''runtime_trace'', ''runtime_data''} \<and> cl_execution_modality c = MUST)"
  by (auto simp: validate_claim_def split: option.splits if_splits)

text \<open>Exactly when an envelope crosses the boundary, and what crosses.\<close>

lemma admit_Inr_iff:
  "admit H eng env state = Inr a \<longleftrightarrow>
     (\<exists>lane c. lane_for eng env = Inr lane \<and> ln_authority_class lane = CANONICAL_CANDIDATE \<and>
        ln_canonical_ingestion lane \<and> validate_claim env lane = Inr c \<and>
        check_candidate (candidate_from env c) = Inr (candidate_from env c) \<and>
        a = \<lparr>ad_evidence_authority = authority_value CANONICAL_CANDIDATE,
             ad_registry_version = rg_version (eg_registry eng),
             ad_rule_version = eg_rule_version eng, ad_envelope_digest = envelope_digest H env,
             ad_state_before = state, ad_state_after = state,
             ad_candidate = candidate_from env c\<rparr>)"
  unfolding admit_def
  by (auto simp: and_then_Inr dest: check_candidate_Inr split: if_splits)

lemma admit_lane:
  assumes "admit H eng env state = Inr a"
  obtains lane c where "require_lane (eg_registry eng) (en_lane_id env) = Inr lane"
    "fnmatch (ln_producer lane) (en_producer env)" "ln_authority_class lane = CANONICAL_CANDIDATE"
    "ln_canonical_ingestion lane" "en_claim env = Some c"
    "cl_truth_class c \<in> set (ln_truth_classes lane)" "cl_resolution c \<in> set (ln_resolutions lane)"
    "ad_candidate a = candidate_from env c"
  using assms by (auto simp: admit_Inr_iff lane_for_Inr validate_claim_Inr)

section \<open>Support receipts\<close>

text \<open>
  \<open>issue_fact_support\<close> binds an admitted claim to the reconciled fact. The optional
  \<open>source_ids\<close> are the endpoints of an edge.
\<close>

definition jpair :: "string \<times> string \<Rightarrow> json" where
  "jpair p = JList [JStr (fst p), JStr (snd p)]"

definition node_identity_ok :: "claim_payload \<Rightarrow> string \<Rightarrow> string \<Rightarrow> bool" where
  "node_identity_ok claim fact_id fact_kind =
     (cl_subject claim = fact_id \<and> cl_predicate claim = ''NODE'' \<and>
      (case cl_object claim of JObj d \<Rightarrow> jget d ''kind'' = JStr fact_kind | _ \<Rightarrow> False))"

definition edge_identity_ok :: "claim_payload \<Rightarrow> string \<Rightarrow> string \<Rightarrow> (string \<times> string) option \<Rightarrow> bool" where
  "edge_identity_ok claim fact_id fact_kind ids = (case ids of None \<Rightarrow> False | Some (src, dst) \<Rightarrow>
     cl_subject claim = src \<and> cl_predicate claim = fact_kind \<and> cl_object claim = JStr dst \<and>
     fact_id = ''edge:'' @ fact_kind @ '':'' @ src @ '':'' @ dst)"

definition support_id :: "(string \<Rightarrow> string) \<Rightarrow> string \<Rightarrow> string \<Rightarrow> string \<Rightarrow> string" where
  "support_id H revision fact_id admission_id =
     ''support:'' @ H (stable (jstrs [revision, fact_id, admission_id]))"

definition issue_fact_support ::
  "(string \<Rightarrow> string) \<Rightarrow> engine \<Rightarrow> canonical_admission \<Rightarrow> evidence_envelope \<Rightarrow> string \<Rightarrow> string \<Rightarrow>
   string \<Rightarrow> string \<Rightarrow> string \<Rightarrow> string \<Rightarrow> string option \<Rightarrow> (string \<times> string) option \<Rightarrow>
   string option \<Rightarrow> ev_error + jdict" where
  "issue_fact_support H eng adm env revision fact_id fact_kind fact_type owner_path build_context
     source_digest source_ids reattest =
   (if ad_envelope_digest adm \<noteq> envelope_digest H env \<or>
       ad_registry_version adm \<noteq> rg_version (eg_registry eng) \<or>
       ad_rule_version adm \<noteq> eg_rule_version eng
      then Inl (AdmissionDenied SupportNeedsCurrentAdmission)
    else and_then (lane_for eng env) (\<lambda>lane.
      if ln_authority_class lane \<noteq> CANONICAL_CANDIDATE
        then Inl (AdmissionDenied SupportLaneNotCanonical)
      else case en_claim env of
        None \<Rightarrow> Inl (AdmissionDenied SupportNeedsNodeOrEdge)
      | Some claim \<Rightarrow>
          if fact_type \<notin> {''node'', ''edge''} then Inl (AdmissionDenied SupportNeedsNodeOrEdge)
          else if fact_type = ''node'' \<and> \<not> node_identity_ok claim fact_id fact_kind
            then Inl (AdmissionDenied NodeIdentityMismatch)
          else if fact_type \<noteq> ''node'' \<and> \<not> edge_identity_ok claim fact_id fact_kind source_ids
            then Inl (AdmissionDenied EdgeIdentityMismatch)
          else let admission_id = ad_envelope_digest adm in Inr [
            (''schema_version'', JStr ''canonical-support-receipt/1''),
            (''support_receipt_id'', JStr (support_id H revision fact_id admission_id)),
            (''canonical_revision'', JStr revision),
            (''canonical_fact_id'', JStr fact_id),
            (''canonical_fact_kind'', JStr fact_kind),
            (''canonical_fact_type'', JStr fact_type),
            (''admission_id'', JStr admission_id),
            (''evidence_id'', JStr (cl_claim_id claim)),
            (''lane_id'', JStr (en_lane_id env)),
            (''producer'', JStr (en_producer env)),
            (''producer_version'', JStr (en_producer_version env)),
            (''truth_class'', JStr (truth_value (cl_truth_class claim))),
            (''target_resolution'', JStr (resolution_value (cl_resolution claim))),
            (''coverage'', JStr (coverage_value (cl_coverage claim))),
            (''execution_modality'', JStr (modality_value (cl_execution_modality claim))),
            (''scope'', jstrs (en_scope env)),
            (''build_context'', JStr build_context),
            (''provenance'', JObj (en_provenance env)),
            (''limitations'', jstrs (en_limitations env)),
            (''source_span'', JObj (or_empty (cl_source_span claim))),
            (''source_ids'', jopt jpair source_ids),
            (''admitted_envelope'', envelope_to_wire env),
            (''source_digest'', jopt JStr source_digest),
            (''owner_path'', JStr owner_path),
            (''registry_version'', JStr (ad_registry_version adm)),
            (''rule_version'', JStr (ad_rule_version adm)),
            (''reuse_source_receipt_id'', JNull),
            (''reattest_source_receipt_id'', jopt JStr reattest),
            (''reattest_rule_version'',
               case reattest of None \<Rightarrow> JNull | Some r \<Rightarrow>
                 if r = [] then JNull else JStr ''semantic-digest-identity-reattest/1'')]))"

text \<open>\<open>_reuse_receipt\<close>: the prior receipt, rebound to a new revision.\<close>

definition reuse_receipt :: "(string \<Rightarrow> string) \<Rightarrow> jdict \<Rightarrow> string \<Rightarrow> ev_error + jdict" where
  "reuse_receipt H prior revision =
     and_then (jindex prior ''support_receipt_id'') (\<lambda>j.
       let original_id = py_str j;
           next_id = ''support:'' @ H (ser True (jstrs [revision, original_id]))
       in Inr (dict_set ''reuse_rule_version'' (JStr ''canonical-support-reuse/1'')
         (dict_set ''reuse_source_receipt_id'' (JStr original_id)
         (dict_set ''canonical_revision'' (JStr revision)
         (dict_set ''support_receipt_id'' (JStr next_id) prior)))))"

section \<open>Publication batches\<close>

record publication_batch =
  pb_provider :: string
  pb_provider_version :: string
  pb_input_revision :: string
  pb_coverage_json :: string
  pb_warnings :: "string list"
  pb_reconciliation :: canonicalization_result
  pb_reconciliation_json :: string
  pb_registry_version :: string
  pb_rule_version :: string
  pb_state_before_json :: string
  pb_state_after_json :: string
  pb_admission_digests :: "string list"
  pb_support_receipts :: "jdict list"

text \<open>
  \<open>CanonicalPublicationBatch.__init__\<close>. The receipts are kept as the values they were
  serialised from.
\<close>

definition issue_batch :: "provider_result \<Rightarrow> canonicalization_result \<Rightarrow> engine \<Rightarrow>
    canonical_state \<Rightarrow> string list \<Rightarrow> jdict list \<Rightarrow> ev_error + publication_batch" where
  "issue_batch r rec eng state digests receipts =
     (if [] \<in> {pr_provider r, pr_version r, pr_input_revision r,
               rg_version (eg_registry eng), eg_rule_version eng} then Inl ValueError
      else Inr \<lparr>pb_provider = pr_provider r, pb_provider_version = pr_version r,
        pb_input_revision = pr_input_revision r,
        pb_coverage_json = stable (JObj (pr_coverage r)),
        pb_warnings = pr_warnings r, pb_reconciliation = rec,
        pb_reconciliation_json = stable (result_to_dict rec),
        pb_registry_version = rg_version (eg_registry eng),
        pb_rule_version = eg_rule_version eng,
        pb_state_before_json = stable (state_to_dict state),
        pb_state_after_json = stable (state_to_dict state),
        pb_admission_digests = digests, pb_support_receipts = receipts\<rparr>)"

definition fact_claim :: "evidence_candidate \<Rightarrow> claim_payload" where
  "fact_claim f = \<lparr>cl_claim_id = ec_provider_fact_id f, cl_subject = ec_subject f,
     cl_predicate = ec_predicate f, cl_object = ec_object f, cl_source_span = ec_source_span f,
     cl_truth_class = ec_truth_class f, cl_resolution = ec_resolution f,
     cl_coverage = ec_coverage f, cl_execution_modality = ec_execution_modality f,
     cl_revision_input = ec_revision_input f, cl_object_is_identity = ec_object_is_identity f,
     cl_confidence = ec_confidence f, cl_witness = Some (ec_witness f)\<rparr>"

definition fact_scope :: "evidence_candidate \<Rightarrow> string list" where
  "fact_scope f = (let file = jget (or_empty (ec_source_span f)) ''file'' in
     if truthy file then [py_str file] else [])"

definition fact_envelope :: "provider_result \<Rightarrow> lane_definition \<Rightarrow> string \<Rightarrow> evidence_candidate \<Rightarrow>
    ev_error + evidence_envelope" where
  "fact_envelope r lane lane_id f =
     and_then (check_claim (fact_claim f)) (\<lambda>claim.
       for_claim lane_id (pr_provider r) (pr_version r) (fact_scope f)
         [(''provider_fact_id'', JStr (ec_provider_fact_id f)),
          (''revision_input'', JStr (ec_revision_input f))]
         (ln_limitations lane) claim)"

definition admit_fact :: "(string \<Rightarrow> string) \<Rightarrow> engine \<Rightarrow> provider_result \<Rightarrow> lane_definition \<Rightarrow>
    string \<Rightarrow> canonical_state \<Rightarrow> evidence_candidate \<Rightarrow>
    ev_error + canonical_admission \<times> evidence_envelope" where
  "admit_fact H eng r lane lane_id state f =
     and_then (fact_envelope r lane lane_id f) (\<lambda>env.
     and_then (admit H eng env state) (\<lambda>a. Inr (a, env)))"

definition span_keys :: "string list" where
  "span_keys = [''file'', ''start_line'', ''start_column'', ''end_line'', ''end_column'',
     ''span_kind'', ''precision'']"

definition same_claim :: "evidence_candidate \<Rightarrow> canonical_evidence \<Rightarrow> provider_claim \<Rightarrow> bool" where
  "same_claim source evidence claim =
     (ec_subject source = ce_subject evidence \<and> ec_predicate source = ce_predicate evidence \<and>
      stable (ec_object source) = stable (pc_object claim) \<and>
      ec_truth_class source = pc_truth_class claim \<and>
      ec_resolution source = pc_resolution claim \<and> ec_coverage source = pc_coverage claim \<and>
      list_all (\<lambda>k. jget (or_empty (ec_source_span source)) k =
                    jget (or_empty (pc_source_span claim)) k) span_keys)"

text \<open>\<open>sources.pop(match)\<close> at the first matching index.\<close>

fun pop_first :: "('a \<Rightarrow> bool) \<Rightarrow> 'a list \<Rightarrow> ('a \<times> 'a list) option" where
  "pop_first P [] = None"
| "pop_first P (x # xs) =
     (if P x then Some (x, xs) else map_option (\<lambda>(y, ys). (y, x # ys)) (pop_first P xs))"

type_synonym sources = "(string \<times> string, (canonical_admission \<times> evidence_envelope) list) dict"

definition receipt_of :: "provider_result \<Rightarrow> string option \<Rightarrow> string option \<Rightarrow> canonical_evidence \<Rightarrow>
    canonical_admission \<Rightarrow> evidence_envelope \<Rightarrow> jdict" where
  "receipt_of r build_context config_digest evidence adm env =
     (let candidate = ad_candidate adm;
          or_unknown = (\<lambda>x. case x of None \<Rightarrow> ''UNKNOWN'' | Some s \<Rightarrow> if s = [] then ''UNKNOWN'' else s)
      in [
       (''schema_version'', JStr ''canonical-support-receipt/1''),
       (''canonical_fact_identity'', JStr (ce_evidence_id evidence)),
       (''source_admission'', JStr (ad_envelope_digest adm)),
       (''provider'', JStr (pr_provider r)),
       (''provider_version'', JStr (pr_version r)),
       (''provider_fact_id'', JStr (ec_provider_fact_id candidate)),
       (''truth_class'', JStr (truth_value (ec_truth_class candidate))),
       (''target_resolution'', JStr (resolution_value (ec_resolution candidate))),
       (''coverage'', JStr (coverage_value (ec_coverage candidate))),
       (''execution_modality'', JStr (modality_value (ec_execution_modality candidate))),
       (''scope'', jstrs (en_scope env)),
       (''build_context_id'', JStr (or_unknown build_context)),
       (''provider_config_digest'', JStr (or_unknown config_digest)),
       (''provenance'', JObj (en_provenance env)),
       (''source_span'', JObj (or_empty (ec_source_span candidate))),
       (''registry_version'', JStr (ad_registry_version adm)),
       (''rule_version'', JStr (ad_rule_version adm))])"

text \<open>The double loop over evidence and its provider claims, with \<open>admission_sources\<close> threaded.\<close>

fun collect_receipts :: "provider_result \<Rightarrow> string option \<Rightarrow> string option \<Rightarrow>
    (canonical_evidence \<times> provider_claim) list \<Rightarrow> sources \<Rightarrow> ev_error + jdict list" where
  "collect_receipts r bc cd [] src = Inr []"
| "collect_receipts r bc cd ((ev, claim) # rest) src =
     (let key = (pc_provider_id claim, pc_provider_fact_id claim) in
      case map_of src key of
        None \<Rightarrow> Inl KeyError
      | Some sources \<Rightarrow>
          (case pop_first (\<lambda>(a, _). same_claim (ad_candidate a) ev claim) sources of
             None \<Rightarrow> Inl (AdmissionDenied SupportLacksAdmission)
           | Some ((adm, env), left) \<Rightarrow>
               and_then (collect_receipts r bc cd rest (dict_set key left src))
                 (\<lambda>rs. Inr (receipt_of r bc cd ev adm env # rs))))"

definition claims_of :: "canonicalization_result \<Rightarrow> (canonical_evidence \<times> provider_claim) list" where
  "claims_of rec = concat (map (\<lambda>e. map (\<lambda>p. (e, p)) (ce_provider_claims e)) (cr_evidence rec))"

definition prepare_publication :: "(string \<Rightarrow> string) \<Rightarrow> engine \<Rightarrow> provider_result \<Rightarrow> string \<Rightarrow>
    canonical_state \<Rightarrow> string option \<Rightarrow> string option \<Rightarrow> ev_error + publication_batch" where
  "prepare_publication H eng r lane_id state build_context config_digest =
     and_then (require_publishable r) (\<lambda>_.
     and_then (require_lane (eg_registry eng) lane_id) (\<lambda>lane.
       if \<not> fnmatch (ln_producer lane) (pr_provider r)
         then Inl (AdmissionDenied ProducerNotRegistered)
       else if ln_authority_class lane \<noteq> CANONICAL_CANDIDATE \<or> \<not> ln_canonical_ingestion lane
         then Inl (AdmissionDenied LaneNotCanonical)
       else
         and_then (map_err (admit_fact H eng r lane lane_id state) (pr_facts r)) (\<lambda>admitted.
         let sources = fold (\<lambda>(f, a). dict_push (ec_provider_id f, ec_provider_fact_id f) a)
                         (zip (pr_facts r) admitted) [] in
         and_then (reconcile H (map fst admitted)) (\<lambda>rec.
         and_then (collect_receipts r build_context config_digest (claims_of rec) sources)
           (\<lambda>receipts.
           issue_batch r rec eng state (map (\<lambda>(a, _). ad_envelope_digest a) admitted) receipts)))))"


section \<open>Concrete instances\<close>

definition sample_state :: canonical_state where
  "sample_state = \<lparr>cs_revision_id = ''r1'', cs_state_hash = ''h'', cs_fact_refs = []\<rparr>"

definition sample_fact :: evidence_candidate where
  "sample_fact = sample_candidate ''rintel-clang'' OBSERVED"

definition sample_provider_result :: provider_result where
  "sample_provider_result = \<lparr>pr_provider = ''rintel-clang'', pr_version = ''1'',
     pr_input_revision = ''r1'', pr_facts = [sample_fact], pr_coverage = [], pr_warnings = [],
     pr_errors = []\<rparr>"

definition sample_envelope :: "string \<Rightarrow> string \<Rightarrow> target_resolution \<Rightarrow> evidence_envelope" where
  "sample_envelope lane producer res = \<lparr>en_lane_id = lane, en_producer = producer,
     en_producer_version = ''1'', en_scope = [], en_provenance = [], en_limitations = [],
     en_claim = Some \<lparr>cl_claim_id = ''f1'', cl_subject = ''symbol:a'', cl_predicate = ''NODE'',
       cl_object = JObj [(''kind'', JStr ''FUNCTION'')], cl_source_span = None,
       cl_truth_class = INFERRED, cl_resolution = res, cl_coverage = COMPLETE,
       cl_execution_modality = MAY, cl_revision_input = ''r1'', cl_object_is_identity = False,
       cl_confidence = None, cl_witness = None\<rparr>,
     en_annotation = None\<rparr>"

section \<open>Properties\<close>

text \<open>The lanes of the default registry that may carry canonical evidence.\<close>

lemma default_canonical_lane:
  assumes "require_lane default_registry i = Inr l" and "ln_authority_class l = CANONICAL_CANDIDATE"
  shows "(i = ''legacy_builtin'' \<and> l = lane_legacy) \<or> (i = ''clang_provider'' \<and> l = lane_clang) \<or>
    (i = ''runtime_trace'' \<and> l = lane_runtime_trace) \<or> (i = ''runtime_data'' \<and> l = lane_runtime_data)"
proof -
  have "(i, l) \<in> set (map (\<lambda>l. (ln_lane_id l, l)) default_lanes)"
    using assms(1)
    by (auto simp: require_lane_def default_registry_def split: option.splits dest: map_of_SomeD)
  then have "l \<in> set default_lanes" and i: "i = ln_lane_id l" by auto
  then have "l \<in> {lane_legacy, lane_clang, lane_flang, lane_ripwire, lane_runtime_trace,
      lane_runtime_data, lane_human, lane_design}" by (simp add: default_lanes_def)
  then show ?thesis
    using assms(2) i
    by (elim insertE emptyE)
      (simp_all add: lane_legacy_def lane_clang_def lane_flang_def lane_ripwire_def
        lane_runtime_trace_def lane_runtime_data_def lane_human_def lane_design_def)
qed

text \<open>C4: with the registered lanes, an envelope is admitted only through one of the four canonical
  lanes and by a producer that lane names; the candidate carries exactly the dimensions of the
  claim, runtime lanes only ever carry OBSERVED evidence that is not MUST, and the canonical state
  is the same before and after.\<close>

lemma admission_boundary:
  assumes "admit H default_engine env st = Inr a"
  shows "\<exists>lane c. require_lane default_registry (en_lane_id env) = Inr lane \<and>
    lane \<in> {lane_legacy, lane_clang, lane_runtime_trace, lane_runtime_data} \<and>
    fnmatch (ln_producer lane) (en_producer env) \<and> en_claim env = Some c \<and>
    ec_truth_class (ad_candidate a) = cl_truth_class c \<and>
    ec_resolution (ad_candidate a) = cl_resolution c \<and>
    ec_coverage (ad_candidate a) = cl_coverage c \<and>
    ec_execution_modality (ad_candidate a) = cl_execution_modality c \<and>
    (lane \<in> {lane_runtime_trace, lane_runtime_data} \<longrightarrow>
       cl_truth_class c = OBSERVED \<and> cl_execution_modality c \<noteq> MUST \<and>
       cl_resolution c \<noteq> CANDIDATE_SET) \<and>
    ad_state_before a = st \<and> ad_state_after a = st"
proof -
  from assms obtain lane c where l: "lane_for default_engine env = Inr lane"
    and cls: "ln_authority_class lane = CANONICAL_CANDIDATE"
    and v: "validate_claim env lane = Inr c"
    and a: "ad_candidate a = candidate_from env c" "ad_state_before a = st" "ad_state_after a = st"
    by (auto simp: admit_Inr_iff)
  have rq: "require_lane default_registry (en_lane_id env) = Inr lane"
    "fnmatch (ln_producer lane) (en_producer env)"
    using l by (simp_all add: lane_for_Inr default_engine_def)
  note lanes = default_canonical_lane [OF rq(1) cls]
  have rt: "cl_truth_class c = OBSERVED \<and> cl_execution_modality c \<noteq> MUST \<and> cl_resolution c \<noteq> CANDIDATE_SET"
    if "lane \<in> {lane_runtime_trace, lane_runtime_data}"
    using that v by (auto simp: validate_claim_Inr lane_runtime_trace_def lane_runtime_data_def)
  have "en_claim env = Some c" using v by (simp add: validate_claim_Inr)
  moreover have "lane \<in> {lane_legacy, lane_clang, lane_runtime_trace, lane_runtime_data}"
    using lanes by blast
  moreover have "ec_truth_class (ad_candidate a) = cl_truth_class c"
    "ec_resolution (ad_candidate a) = cl_resolution c" "ec_coverage (ad_candidate a) = cl_coverage c"
    "ec_execution_modality (ad_candidate a) = cl_execution_modality c"
    by (simp_all add: a candidate_from_def)
  ultimately show ?thesis using rq rt a by blast
qed

lemma admission_boundary_witness:
  "\<exists>a c. admit id default_engine (sample_envelope ''clang_provider'' ''rintel-clang'' EXACT) sample_state = Inr a \<and>
     en_claim (sample_envelope ''clang_provider'' ''rintel-clang'' EXACT) = Some c \<and>
     ec_truth_class (ad_candidate a) = cl_truth_class c"
proof -
  have "is_ok (admit (\<lambda>s. s) default_engine (sample_envelope ''clang_provider'' ''rintel-clang'' EXACT) sample_state)"
    by code_simp
  then obtain a where a: "admit id default_engine (sample_envelope ''clang_provider'' ''rintel-clang'' EXACT)
      sample_state = Inr a" by (auto simp: id_def dest: is_okE)
  from admission_boundary [OF a] a show ?thesis by blast
qed

text \<open>A support receipt is issued only for the current admission of that very envelope, by a
  canonical lane, and only when the claim names the fact: a node fact by its identity and kind, an
  edge fact by its endpoints, its kind and the identity built from them; it copies the dimensions of
  the claim.\<close>

lemma support_receipt_sound:
  assumes "issue_fact_support H eng adm env revision fact_id fact_kind fact_type owner bc sd ids re = Inr d"
  shows "ad_envelope_digest adm = envelope_digest H env \<and>
    ad_rule_version adm = eg_rule_version eng \<and> ad_registry_version adm = rg_version (eg_registry eng) \<and>
    (\<exists>lane c. lane_for eng env = Inr lane \<and> ln_authority_class lane = CANONICAL_CANDIDATE \<and>
       en_claim env = Some c \<and>
       ((fact_type = ''node'' \<and> cl_subject c = fact_id \<and> cl_predicate c = ''NODE'' \<and>
           (\<exists>obj. cl_object c = JObj obj \<and> jget obj ''kind'' = JStr fact_kind)) \<or>
        (fact_type = ''edge'' \<and> (\<exists>src dst. ids = Some (src, dst) \<and> cl_subject c = src \<and>
           cl_predicate c = fact_kind \<and> cl_object c = JStr dst \<and>
           fact_id = ''edge:'' @ fact_kind @ '':'' @ src @ '':'' @ dst))) \<and>
       jget d ''truth_class'' = JStr (truth_value (cl_truth_class c)) \<and>
       jget d ''target_resolution'' = JStr (resolution_value (cl_resolution c)) \<and>
       jget d ''coverage'' = JStr (coverage_value (cl_coverage c)) \<and>
       jget d ''canonical_fact_id'' = JStr fact_id)"
proof -
  from assms have cur: "ad_envelope_digest adm = envelope_digest H env"
    "ad_rule_version adm = eg_rule_version eng" "ad_registry_version adm = rg_version (eg_registry eng)"
    unfolding issue_fact_support_def by (auto split: if_splits)
  from assms obtain lane where lane: "lane_for eng env = Inr lane"
    "ln_authority_class lane = CANONICAL_CANDIDATE"
    unfolding issue_fact_support_def by (auto simp: and_then_Inr split: if_splits)
  obtain c where c: "en_claim env = Some c"
    using assms cur lane unfolding issue_fact_support_def by (auto split: option.splits)
  have ft: "fact_type = ''node'' \<or> fact_type = ''edge''"
    and nd: "fact_type = ''node'' \<Longrightarrow> node_identity_ok c fact_id fact_kind"
    and ed: "fact_type \<noteq> ''node'' \<Longrightarrow> edge_identity_ok c fact_id fact_kind ids"
    using assms cur lane c unfolding issue_fact_support_def by (auto split: if_splits)
  have "jget d ''truth_class'' = JStr (truth_value (cl_truth_class c)) \<and>
       jget d ''target_resolution'' = JStr (resolution_value (cl_resolution c)) \<and>
       jget d ''coverage'' = JStr (coverage_value (cl_coverage c)) \<and>
       jget d ''canonical_fact_id'' = JStr fact_id"
    using assms cur lane c ft nd ed unfolding issue_fact_support_def Let_def
    by (auto simp: jget_def get_or_def split: if_splits)
  moreover have "(fact_type = ''node'' \<and> cl_subject c = fact_id \<and> cl_predicate c = ''NODE'' \<and>
           (\<exists>obj. cl_object c = JObj obj \<and> jget obj ''kind'' = JStr fact_kind)) \<or>
        (fact_type = ''edge'' \<and> (\<exists>src dst. ids = Some (src, dst) \<and> cl_subject c = src \<and>
           cl_predicate c = fact_kind \<and> cl_object c = JStr dst \<and>
           fact_id = ''edge:'' @ fact_kind @ '':'' @ src @ '':'' @ dst))"
    using ft nd ed
    by (auto simp: node_identity_ok_def edge_identity_ok_def split: json.splits option.splits)
  ultimately show ?thesis using cur lane c by blast
qed

lemma support_receipt_sound_witness:
  "\<exists>a d. issue_fact_support id default_engine a (sample_envelope ''clang_provider'' ''rintel-clang'' EXACT)
     ''r1'' ''symbol:a'' ''FUNCTION'' ''node'' ''a.c'' ''ctx'' None None None = Inr d \<and>
     jget d ''canonical_fact_id'' = JStr ''symbol:a''"
proof -
  let ?env = "sample_envelope ''clang_provider'' ''rintel-clang'' EXACT"
  have "is_ok (issue_fact_support id default_engine \<lparr>ad_evidence_authority = [],
      ad_registry_version = ''evidence-authority-registry/1'',
      ad_rule_version = ''evidence-authority-rules/1'', ad_envelope_digest = envelope_digest id ?env,
      ad_state_before = sample_state, ad_state_after = sample_state, ad_candidate = sample_fact\<rparr> ?env
      ''r1'' ''symbol:a'' ''FUNCTION'' ''node'' ''a.c'' ''ctx'' None None None)"
    by (simp add: issue_fact_support_def default_engine_def default_registry_def default_lanes_def
        lane_for_def require_lane_def lane_legacy_def lane_clang_def sample_envelope_def Let_def
        node_identity_ok_def jget_def get_or_def)
  then obtain a d where d: "issue_fact_support id default_engine a ?env
      ''r1'' ''symbol:a'' ''FUNCTION'' ''node'' ''a.c'' ''ctx'' None None None = Inr d"
    using is_okE by blast
  from support_receipt_sound [OF d] d show ?thesis by blast
qed


lemma collect_receipts_length:
  "collect_receipts r bc cd claims src = Inr rs \<Longrightarrow> length rs = length claims"
  by (induction r bc cd claims src arbitrary: rs rule: collect_receipts.induct)
    (auto simp: Let_def and_then_Inr split: option.splits prod.splits)

lemma admit_fact_state:
  assumes "admit_fact H eng r lane i st f = Inr (a, env)"
  shows "ad_state_before a = st \<and> ad_state_after a = st \<and> ec_provider_id (ad_candidate a) = pr_provider r \<and>
    ec_provider_fact_id (ad_candidate a) = ec_provider_fact_id f"
proof -
  from assms obtain cl where cl: "check_claim (fact_claim f) = Inr cl"
    and env: "for_claim i (pr_provider r) (pr_version r) (fact_scope f)
         [(''provider_fact_id'', JStr (ec_provider_fact_id f)),
          (''revision_input'', JStr (ec_revision_input f))] (ln_limitations lane) cl = Inr env"
    and a: "admit H eng env st = Inr a"
    by (auto simp: admit_fact_def fact_envelope_def and_then_Inr)
  have "cl = fact_claim f" using cl by (auto simp: check_claim_def split: if_splits)
  moreover have "en_claim env = Some cl" "en_producer env = pr_provider r"
    using env by (auto simp: for_claim_def dest: check_envelope_Inr)
  moreover obtain c where "en_claim env = Some c" "ad_candidate a = candidate_from env c"
    "ad_state_before a = st" "ad_state_after a = st"
    using a by (auto simp: admit_Inr_iff validate_claim_Inr)
  ultimately show ?thesis by (simp add: candidate_from_def fact_claim_def)
qed

lemma prepare_publicationE:
  assumes "prepare_publication H eng r i st bc cd = Inr b"
  obtains lane admitted rec receipts where
    "require_publishable r = Inr ()" "require_lane (eg_registry eng) i = Inr lane"
    "fnmatch (ln_producer lane) (pr_provider r)" "ln_authority_class lane = CANONICAL_CANDIDATE"
    "ln_canonical_ingestion lane"
    "map_err (admit_fact H eng r lane i st) (pr_facts r) = Inr admitted"
    "reconcile H (map fst admitted) = Inr rec"
    "length receipts = length (claims_of rec)"
    "issue_batch r rec eng st (map (\<lambda>(a, _). ad_envelope_digest a) admitted) receipts = Inr b"
  using assms unfolding prepare_publication_def Let_def and_then_Inr
  by (auto simp: and_then_Inr dest: collect_receipts_length split: if_splits)

lemma issue_batch_Inr:
  assumes "issue_batch r rec eng st ds rs = Inr b"
  shows "pb_reconciliation b = rec \<and> pb_provider b = pr_provider r \<and>
    pb_input_revision b = pr_input_revision r \<and> pb_state_before_json b = pb_state_after_json b \<and>
    pb_state_before_json b = stable (state_to_dict st) \<and>
    pb_admission_digests b = ds \<and> pb_support_receipts b = rs"
  using assms by (auto simp: issue_batch_def split: if_splits)

lemma admitted_facts:
  assumes "map_err (admit_fact H eng r lane i st) fs = Inr admitted"
  shows "length admitted = length fs \<and>
    (\<forall>c \<in> set (map (\<lambda>x. ad_candidate (fst x)) admitted). ec_provider_id c = pr_provider r)"
proof -
  have all2: "list_all2 (\<lambda>f a. admit_fact H eng r lane i st f = Inr a) fs admitted"
    using assms by (simp only: map_err_Inr)
  then have "length admitted = length fs" by (simp add: list_all2_lengthD)
  moreover have "ec_provider_id (ad_candidate (fst x)) = pr_provider r" if "x \<in> set admitted" for x
  proof -
    obtain a env where x: "x = (a, env)" by (cases x)
    from map_err_member [OF assms that] obtain f where "admit_fact H eng r lane i st f = Inr (a, env)"
      using x by blast
    from admit_fact_state [OF this] x show ?thesis by simp
  qed
  ultimately show ?thesis by auto
qed

text \<open>C26: a publication batch is sealed only for a publishable result of a producer its canonical
  lane names; it leaves the canonical state alone, holds one admission digest for each fact and one
  support receipt for each reconciled provider claim, and every fact is accounted for, as a claim of
  the evidence or of a conflict or as unresolved.\<close>

lemma publication_batch_sound:
  assumes "prepare_publication H eng r lane_id st bc cd = Inr b"
  shows "publishable r \<and>
    (\<exists>lane. require_lane (eg_registry eng) lane_id = Inr lane \<and>
       ln_authority_class lane = CANONICAL_CANDIDATE \<and> ln_canonical_ingestion lane \<and>
       fnmatch (ln_producer lane) (pr_provider r)) \<and>
    pb_state_before_json b = stable (state_to_dict st) \<and> pb_state_after_json b = pb_state_before_json b \<and>
    length (pb_admission_digests b) = length (pr_facts r) \<and>
    length (pb_support_receipts b) = length (claims_of (pb_reconciliation b)) \<and>
    length (concat (map ce_provider_claims (cr_evidence (pb_reconciliation b)))) +
      length (concat (map cf_provider_claims (cr_conflicts (pb_reconciliation b)))) +
      length (cr_unresolved (pb_reconciliation b)) = length (pr_facts r)"
proof -
  obtain lane admitted rec receipts where
    p: "require_publishable r = Inr ()" "require_lane (eg_registry eng) lane_id = Inr lane"
      "fnmatch (ln_producer lane) (pr_provider r)" "ln_authority_class lane = CANONICAL_CANDIDATE"
      "ln_canonical_ingestion lane"
    and ad: "map_err (admit_fact H eng r lane lane_id st) (pr_facts r) = Inr admitted"
    and rec: "reconcile H (map fst admitted) = Inr rec"
    and len: "length receipts = length (claims_of rec)"
    and b: "issue_batch r rec eng st (map (\<lambda>(a, _). ad_envelope_digest a) admitted) receipts = Inr b"
    using assms by (rule prepare_publicationE)
  have count: "size (mset (map claim_ids (concat (map ce_provider_claims (cr_evidence rec))))) +
     size (mset (map claim_ids (concat (map cf_provider_claims (cr_conflicts rec))))) +
     size (mset (map candidate_ids (cr_unresolved rec))) = length admitted"
  proof -
    have "reconcile_raw H (strict_identity H) (map ad_candidate (map fst admitted)) = Inr rec"
      using rec by (simp only: reconcile_def)
    from reconcile_claims_conserved [OF this] have
      "size (mset (map claim_ids (concat (map ce_provider_claims (cr_evidence rec)))) +
         mset (map claim_ids (concat (map cf_provider_claims (cr_conflicts rec)))) +
         mset (map candidate_ids (cr_unresolved rec))) =
       size (mset (map candidate_ids (map ad_candidate (map fst admitted))))"
      by (simp only:)
    then show ?thesis by (simp only: size_union size_mset length_map)
  qed
  note bb = issue_batch_Inr [OF b] and al = admitted_facts [OF ad]
  show ?thesis
    using p len bb al count by (auto simp: require_publishable_iff)
qed

lemma publication_batch_sound_witness:
  "\<exists>b. prepare_publication (\<lambda>s. ''h'') default_engine sample_provider_result ''clang_provider''
     sample_state None None = Inr b \<and> length (pb_admission_digests b) = 1"
proof -
  have "is_ok (prepare_publication (\<lambda>s. ''h'') default_engine sample_provider_result ''clang_provider''
     sample_state None None)" by code_simp
  then obtain b where b: "prepare_publication (\<lambda>s. ''h'') default_engine sample_provider_result
     ''clang_provider'' sample_state None None = Inr b" using is_okE by blast
  from publication_batch_sound [OF b] b show ?thesis by (auto simp: sample_provider_result_def)
qed

end
