(* ===== verification/Alignment.thy ===== *)
theory Alignment
  imports Authority
begin

text \<open>
  Alignment of canonical and reference evidence (\<open>EvidenceAuthorityEngine.align\<close>), the
  read-only query projection over it (\<open>evidence_authority/query.py\<close>) and the fail-closed
  reader of producer envelopes (\<open>evidence_authority/serialization.py\<close>).
\<close>

section \<open>Alignment results\<close>

datatype alignment_kind =
    CANONICAL_ADMISSION
  | CORROBORATION
  | PROVIDER_CONFLICT
  | REFERENCE_DISAGREEMENT
  | CANONICAL_REFERENCE_DISCREPANCY
  | UNKNOWN_PRESERVED

fun alignment_value :: "alignment_kind \<Rightarrow> string" where
  "alignment_value CANONICAL_ADMISSION = ''CanonicalAdmission''"
| "alignment_value CORROBORATION = ''Corroboration''"
| "alignment_value PROVIDER_CONFLICT = ''ProviderConflict''"
| "alignment_value REFERENCE_DISAGREEMENT = ''ReferenceDisagreement''"
| "alignment_value CANONICAL_REFERENCE_DISCREPANCY = ''CanonicalReferenceDiscrepancy''"
| "alignment_value UNKNOWN_PRESERVED = ''UnknownPreserved''"

record alignment_result =
  al_kind :: alignment_kind
  al_registry_version :: string
  al_rule_version :: string
  al_state_before :: canonical_state
  al_state_after :: canonical_state
  al_evidence_authority :: string
  al_truth_class :: "truth_class option"
  al_resolution :: "target_resolution option"
  al_coverage :: "coverage option"
  al_execution_modality :: "execution_modality option"
  al_supporting_evidence :: "jdict list"
  al_message :: string

definition alignment_to_dict :: "alignment_result \<Rightarrow> json" where
  "alignment_to_dict a = JObj [
     (''kind'', JStr (alignment_value (al_kind a))),
     (''registry_version'', JStr (al_registry_version a)),
     (''rule_version'', JStr (al_rule_version a)),
     (''canonical_state_before'', state_to_dict (al_state_before a)),
     (''canonical_state_after'', state_to_dict (al_state_after a)),
     (''evidence_authority'', JStr (al_evidence_authority a)),
     (''truth_class'', jopt (\<lambda>t. JStr (truth_value t)) (al_truth_class a)),
     (''resolution'', jopt (\<lambda>t. JStr (resolution_value t)) (al_resolution a)),
     (''coverage'', jopt (\<lambda>t. JStr (coverage_value t)) (al_coverage a)),
     (''execution_modality'', jopt (\<lambda>t. JStr (modality_value t)) (al_execution_modality a)),
     (''supporting_evidence'', JList (map JObj (al_supporting_evidence a))),
     (''message'', JStr (al_message a))]"

text \<open>\<open>_anchor\<close> and \<open>_variant\<close>; their tuples mix strings and span values.\<close>

definition anchor_of :: "(string \<Rightarrow> string) \<Rightarrow> evidence_envelope \<Rightarrow> json list" where
  "anchor_of H env = (case en_claim env of
     None \<Rightarrow> [JStr ''annotation'', JStr (envelope_digest H env)]
   | Some c \<Rightarrow> let sp = or_empty (cl_source_span c) in
       [JStr (cl_subject c), JStr (cl_predicate c), jget sp ''file'', jget sp ''start_line'',
        jget sp ''span_kind'', JStr (cl_revision_input c)])"

definition env_variant :: "(string \<Rightarrow> string) \<Rightarrow> evidence_envelope \<Rightarrow> string list" where
  "env_variant H env = (case en_claim env of
     None \<Rightarrow> [''annotation'', envelope_digest H env]
   | Some c \<Rightarrow> [stable (cl_object c), truth_value (cl_truth_class c),
       resolution_value (cl_resolution c), coverage_value (cl_coverage c),
       modality_value (cl_execution_modality c)])"

definition support_of :: "(string \<Rightarrow> string) \<Rightarrow> evidence_envelope \<Rightarrow> jdict" where
  "support_of H env = [
     (''lane_id'', JStr (en_lane_id env)),
     (''producer'', JStr (en_producer env)),
     (''producer_version'', JStr (en_producer_version env)),
     (''envelope_digest'', JStr (envelope_digest H env)),
     (''claim_id'', jopt (\<lambda>c. JStr (cl_claim_id c)) (en_claim env))]"

text \<open>\<open>_result\<close>: the dimensions are those of the claim named by \<open>claim_from\<close>, or absent.\<close>

definition result_of :: "(string \<Rightarrow> string) \<Rightarrow> engine \<Rightarrow> canonical_state \<Rightarrow> alignment_kind \<Rightarrow>
    string \<Rightarrow> evidence_envelope list \<Rightarrow> evidence_envelope option \<Rightarrow> string \<Rightarrow> alignment_result" where
  "result_of H eng state kind authority envs claim_from message =
     (let source = Option.bind claim_from en_claim in
      \<lparr>al_kind = kind, al_registry_version = rg_version (eg_registry eng),
       al_rule_version = eg_rule_version eng,
       al_state_before = state, al_state_after = state,
       al_evidence_authority = authority,
       al_truth_class = map_option cl_truth_class source,
       al_resolution = map_option cl_resolution source,
       al_coverage = map_option cl_coverage source,
       al_execution_modality = map_option cl_execution_modality source,
       al_supporting_evidence = map (support_of H) envs,
       al_message = message\<rparr>)"

section \<open>Alignment of one anchor group\<close>

definition admission_results :: "(string \<Rightarrow> string) \<Rightarrow> engine \<Rightarrow> canonical_state \<Rightarrow>
    evidence_envelope list \<Rightarrow> ev_error + alignment_result list" where
  "admission_results H eng state canonical =
     map_err (\<lambda>item. and_then (admit H eng item state) (\<lambda>_.
       Inr (result_of H eng state CANONICAL_ADMISSION (authority_value CANONICAL_CANDIDATE)
              [item] (Some item) ''registry-authorized canonical candidate''))) canonical"

definition canonical_results :: "(string \<Rightarrow> string) \<Rightarrow> engine \<Rightarrow> canonical_state \<Rightarrow>
    evidence_envelope list \<Rightarrow> alignment_result list" where
  "canonical_results H eng state canonical =
     (if 1 < length canonical then
        if card (env_variant H ` set canonical) = 1 then
          [result_of H eng state CORROBORATION (authority_value CANONICAL_CANDIDATE) canonical
             (Some (hd canonical)) ''canonical providers agree; provenance added only'']
        else [result_of H eng state PROVIDER_CONFLICT (authority_value CANONICAL_CANDIDATE) canonical
             None ''canonical providers disagree; no winner selected'']
      else [])"

definition reference_results :: "(string \<Rightarrow> string) \<Rightarrow> engine \<Rightarrow> canonical_state \<Rightarrow>
    evidence_envelope list \<Rightarrow> alignment_result list" where
  "reference_results H eng state references =
     (if 1 < length references \<and> 1 < card (env_variant H ` set references) then
        [result_of H eng state REFERENCE_DISAGREEMENT (authority_value REFERENCE_EVIDENCE) references
           None ''reference lanes disagree; canonical state unchanged'']
      else [])"

definition unknown_claim :: "evidence_envelope \<Rightarrow> bool" where
  "unknown_claim item = (case en_claim item of None \<Rightarrow> False | Some c \<Rightarrow> cl_resolution c = UNKNOWN_TARGET)"

definition mixed_results :: "(string \<Rightarrow> string) \<Rightarrow> engine \<Rightarrow> canonical_state \<Rightarrow>
    evidence_envelope list \<Rightarrow> evidence_envelope list \<Rightarrow> alignment_result list" where
  "mixed_results H eng state canonical references =
     (if canonical = [] \<or> references = [] then []
      else if list_ex unknown_claim canonical then
        [result_of H eng state UNKNOWN_PRESERVED ''MIXED'' references (Some (hd canonical))
           ''reference support cannot close canonical UNKNOWN'']
      else if env_variant H ` set canonical \<inter> env_variant H ` set references \<noteq> {} then
        [result_of H eng state CORROBORATION ''MIXED'' (canonical @ references) (Some (hd canonical))
           ''reference corroborates without truth promotion'']
      else [result_of H eng state CANONICAL_REFERENCE_DISCREPANCY ''MIXED'' (canonical @ references)
           None ''canonical and reference evidence disagree''])"

definition in_class :: "(string \<Rightarrow> string) \<Rightarrow> (string, lane_definition) dict \<Rightarrow> authority_class \<Rightarrow>
    evidence_envelope \<Rightarrow> bool" where
  "in_class H lanes cls item = (case map_of lanes (envelope_digest H item) of
     None \<Rightarrow> False | Some lane \<Rightarrow> ln_authority_class lane = cls)"

definition align_group :: "(string \<Rightarrow> string) \<Rightarrow> engine \<Rightarrow> (string, lane_definition) dict \<Rightarrow>
    canonical_state \<Rightarrow> evidence_envelope list \<Rightarrow> ev_error + alignment_result list" where
  "align_group H eng lanes state grp =
     (let canonical = filter (in_class H lanes CANONICAL_CANDIDATE) grp;
          references = filter (in_class H lanes REFERENCE_EVIDENCE) grp
      in and_then (admission_results H eng state canonical) (\<lambda>admissions.
           Inr (admissions @ canonical_results H eng state canonical
                @ reference_results H eng state references
                @ mixed_results H eng state canonical references)))"

text \<open>\<open>lanes = {item.digest: self._lane(item) for item in items}\<close>.\<close>

definition lane_table :: "(string \<Rightarrow> string) \<Rightarrow> evidence_envelope list \<Rightarrow> lane_definition list \<Rightarrow>
    (string, lane_definition) dict" where
  "lane_table H items ls = dict_of (\<lambda>(i, l). envelope_digest H i) snd (zip items ls)"

definition align :: "(string \<Rightarrow> string) \<Rightarrow> engine \<Rightarrow> evidence_envelope list \<Rightarrow> canonical_state \<Rightarrow>
    ev_error + alignment_result list" where
  "align H eng items state =
     and_then (map_err (lane_for eng) items) (\<lambda>ls.
     let groups = group_by (anchor_of H) (filter (\<lambda>i. en_claim i \<noteq> None) items) in
     and_then (map_err (\<lambda>(k, grp). align_group H eng (lane_table H items ls) state grp) groups)
       (\<lambda>rs. Inr (concat rs)))"


subsection \<open>Where a result comes from\<close>

lemma result_of_fields [simp]:
  "al_kind (result_of H eng st k au es src m) = k"
  "al_state_before (result_of H eng st k au es src m) = st"
  "al_state_after (result_of H eng st k au es src m) = st"
  "al_evidence_authority (result_of H eng st k au es src m) = au"
  "al_registry_version (result_of H eng st k au es src m) = rg_version (eg_registry eng)"
  "al_rule_version (result_of H eng st k au es src m) = eg_rule_version eng"
  "al_truth_class (result_of H eng st k au es src m) =
     map_option cl_truth_class (Option.bind src en_claim)"
  "al_resolution (result_of H eng st k au es src m) =
     map_option cl_resolution (Option.bind src en_claim)"
  "al_coverage (result_of H eng st k au es src m) =
     map_option cl_coverage (Option.bind src en_claim)"
  "al_execution_modality (result_of H eng st k au es src m) =
     map_option cl_execution_modality (Option.bind src en_claim)"
  "al_supporting_evidence (result_of H eng st k au es src m) = map (support_of H) es"
  by (simp_all add: result_of_def Let_def)

text \<open>The shape every alignment result of a group has: its source is a canonical member.\<close>

definition sourced :: "(string \<Rightarrow> string) \<Rightarrow> engine \<Rightarrow> canonical_state \<Rightarrow> evidence_envelope list \<Rightarrow>
    alignment_result \<Rightarrow> bool" where
  "sourced H eng state canonical r \<longleftrightarrow>
     (\<exists>k au es src m. r = result_of H eng state k au es src m \<and>
        (\<forall>i. src = Some i \<longrightarrow> i \<in> set canonical))"

lemma sourced_of [intro]:
  "(\<And>i. src = Some i \<Longrightarrow> i \<in> set canonical) \<Longrightarrow>
   sourced H eng st canonical (result_of H eng st k au es src m)"
  unfolding sourced_def by blast

lemma admission_results_Inr:
  assumes "admission_results H eng st canonical = Inr rs"
  shows "(\<forall>i \<in> set canonical. \<exists>a. admit H eng i st = Inr a) \<and>
    rs = map (\<lambda>i. result_of H eng st CANONICAL_ADMISSION (authority_value CANONICAL_CANDIDATE)
           [i] (Some i) ''registry-authorized canonical candidate'') canonical"
  using assms unfolding admission_results_def
proof (induction canonical arbitrary: rs)
  case Nil
  then show ?case by simp
next
  case (Cons i canonical)
  then show ?case by (simp add: and_then_Inr) blast
qed

lemma canonical_results_sourced:
  "r \<in> set (canonical_results H eng st canonical) \<Longrightarrow> sourced H eng st canonical r"
  by (cases canonical) (auto simp: canonical_results_def split: if_splits)

lemma reference_results_sourced:
  "r \<in> set (reference_results H eng st refs) \<Longrightarrow> sourced H eng st canonical r"
  by (auto simp: reference_results_def split: if_splits)

lemma mixed_results_sourced:
  "r \<in> set (mixed_results H eng st canonical refs) \<Longrightarrow> sourced H eng st canonical r"
  by (cases canonical) (auto simp: mixed_results_def split: if_splits)

lemma align_groupE:
  assumes "align_group H eng lanes st grp = Inr rs"
  obtains canonical refs adm where
    "canonical = filter (in_class H lanes CANONICAL_CANDIDATE) grp"
    "refs = filter (in_class H lanes REFERENCE_EVIDENCE) grp"
    "admission_results H eng st canonical = Inr adm"
    "rs = adm @ canonical_results H eng st canonical @ reference_results H eng st refs
          @ mixed_results H eng st canonical refs"
  using assms unfolding align_group_def Let_def and_then_Inr by auto

lemma alignE:
  assumes "align H eng items st = Inr rs" and "r \<in> set rs"
  obtains ls k grp grs where "map_err (lane_for eng) items = Inr ls"
    "grp = filter (\<lambda>i. anchor_of H i = k) (filter (\<lambda>i. en_claim i \<noteq> None) items)"
    "align_group H eng (lane_table H items ls) st grp = Inr grs" "r \<in> set grs" "set grs \<subseteq> set rs"
proof -
  let ?groups = "group_by (anchor_of H) (filter (\<lambda>i. en_claim i \<noteq> None) items)"
  from assms(1) obtain ls gs where ls: "map_err (lane_for eng) items = Inr ls"
    and gs: "map_err (\<lambda>(k, grp). align_group H eng (lane_table H items ls) st grp) ?groups = Inr gs"
    and rs: "rs = concat gs"
    unfolding align_def Let_def and_then_Inr by auto
  from assms(2) rs obtain grs where g: "grs \<in> set gs" "r \<in> set grs" by auto
  from map_err_member [OF gs g(1)] obtain k grp where kg: "(k, grp) \<in> set ?groups"
    and ag: "align_group H eng (lane_table H items ls) st grp = Inr grs" by auto
  from group_by_member [OF kg]
  have "grp = filter (\<lambda>i. anchor_of H i = k) (filter (\<lambda>i. en_claim i \<noteq> None) items)" by simp
  moreover have "set grs \<subseteq> set rs" using g rs by auto
  ultimately show thesis using that ls ag g by blast
qed

lemma align_sourced:
  assumes "align H eng items st = Inr rs" and "r \<in> set rs"
  obtains canonical where "sourced H eng st canonical r" "set canonical \<subseteq> set items"
    "\<forall>i \<in> set canonical. \<exists>a. admit H eng i st = Inr a"
proof -
  from assms obtain ls k grp grs where
    grp: "grp = filter (\<lambda>i. anchor_of H i = k) (filter (\<lambda>i. en_claim i \<noteq> None) items)"
    and ag: "align_group H eng (lane_table H items ls) st grp = Inr grs" and r: "r \<in> set grs"
    by (rule alignE)
  from ag obtain canonical refs adm where
    c: "canonical = filter (in_class H (lane_table H items ls) CANONICAL_CANDIDATE) grp"
    and adm: "admission_results H eng st canonical = Inr adm"
    and grs: "grs = adm @ canonical_results H eng st canonical @ reference_results H eng st refs
          @ mixed_results H eng st canonical refs"
    by (rule align_groupE)
  note a = admission_results_Inr [OF adm]
  have "sourced H eng st canonical r"
  proof (cases "r \<in> set adm")
    case True
    with a show ?thesis by auto
  next
    case False
    with r grs show ?thesis
      using canonical_results_sourced reference_results_sourced mixed_results_sourced by auto
  qed
  moreover have "set canonical \<subseteq> set items" using c grp by auto
  ultimately show thesis using a that by blast
qed

text \<open>Alignment promotes nothing: every result leaves the canonical state as it was, and the truth
  class, resolution, coverage and modality it reports are all absent or all those of one claim of
  the input that passed canonical admission, never of reference or design evidence.\<close>

lemma align_no_promotion:
  assumes "align H eng items st = Inr rs" and "r \<in> set rs"
  shows "al_state_before r = st \<and> al_state_after r = st \<and>
    ((al_truth_class r = None \<and> al_resolution r = None \<and> al_coverage r = None \<and>
          al_execution_modality r = None) \<or>
    (\<exists>i \<in> set items. \<exists>a c. admit H eng i st = Inr a \<and> en_claim i = Some c \<and>
       al_truth_class r = Some (cl_truth_class c) \<and> al_resolution r = Some (cl_resolution c) \<and>
       al_coverage r = Some (cl_coverage c) \<and>
       al_execution_modality r = Some (cl_execution_modality c)))"
proof -
  obtain canonical where s: "sourced H eng st canonical r" "set canonical \<subseteq> set items"
    "\<forall>i \<in> set canonical. \<exists>a. admit H eng i st = Inr a"
    using assms by (rule align_sourced)
  from s(1) obtain k au es src m where r: "r = result_of H eng st k au es src m"
    and src: "\<forall>i. src = Some i \<longrightarrow> i \<in> set canonical" unfolding sourced_def by blast
  show ?thesis
  proof (cases src)
    case None
    with r show ?thesis by simp
  next
    case (Some i)
    with src s obtain a where i: "i \<in> set items" "admit H eng i st = Inr a" by blast
    from i(2) obtain c where "en_claim i = Some c" by (rule admit_lane)
    with i r Some show ?thesis by auto
  qed
qed

text \<open>Reference evidence corroborates canonical evidence only where an admitted claim and a claim
  of the same anchor agree on object and dimensions, and the result never reports an UNKNOWN
  resolution.\<close>

lemma mixed_corroboration:
  assumes "align H eng items st = Inr rs" and "r \<in> set rs"
    and k: "al_kind r = CORROBORATION" and a: "al_evidence_authority r = ''MIXED''"
  shows "(\<exists>i \<in> set items. \<exists>j \<in> set items. anchor_of H i = anchor_of H j \<and>
      env_variant H i = env_variant H j \<and> (\<exists>a. admit H eng i st = Inr a)) \<and>
    al_resolution r \<noteq> Some UNKNOWN_TARGET"
proof -
  from assms(1,2) obtain ls key grp grs where
    grp: "grp = filter (\<lambda>i. anchor_of H i = key) (filter (\<lambda>i. en_claim i \<noteq> None) items)"
    and ag: "align_group H eng (lane_table H items ls) st grp = Inr grs" and r: "r \<in> set grs"
    by (rule alignE)
  from ag obtain canonical refs adm where
    c: "canonical = filter (in_class H (lane_table H items ls) CANONICAL_CANDIDATE) grp"
    and re: "refs = filter (in_class H (lane_table H items ls) REFERENCE_EVIDENCE) grp"
    and adm: "admission_results H eng st canonical = Inr adm"
    and grs: "grs = adm @ canonical_results H eng st canonical @ reference_results H eng st refs
          @ mixed_results H eng st canonical refs"
    by (rule align_groupE)
  note ad = admission_results_Inr [OF adm]
  have "r \<notin> set adm" using ad k by auto
  moreover have "r \<notin> set (canonical_results H eng st canonical)"
    using a by (auto simp: canonical_results_def split: if_splits)
  moreover have "r \<notin> set (reference_results H eng st refs)"
    using k by (auto simp: reference_results_def split: if_splits)
  ultimately have m: "r \<in> set (mixed_results H eng st canonical refs)" using r grs by auto
  with k have ne: "canonical \<noteq> []" and known: "\<not> list_ex unknown_claim canonical"
    and common: "env_variant H ` set canonical \<inter> env_variant H ` set refs \<noteq> {}"
    and req: "r = result_of H eng st CORROBORATION ''MIXED'' (canonical @ refs)
      (Some (hd canonical)) ''reference corroborates without truth promotion''"
    by (auto simp: mixed_results_def split: if_splits)
  from common obtain i j where ij: "i \<in> set canonical" "j \<in> set refs"
    "env_variant H i = env_variant H j" by auto
  with c re grp ad have "i \<in> set items" "j \<in> set items" "anchor_of H i = anchor_of H j"
    "\<exists>a. admit H eng i st = Inr a" by auto
  moreover have "\<not> unknown_claim (hd canonical)"
    using known ne by (auto simp: list_ex_iff)
  then have "al_resolution r \<noteq> Some UNKNOWN_TARGET"
    using req by (auto simp: unknown_claim_def split: option.splits)
  ultimately show ?thesis using ij by blast
qed

text \<open>With distinct digests the lane table gives each envelope its own lane.\<close>

lemma lane_table_lookup:
  assumes ls: "map_err (lane_for eng) items = Inr ls" and inj: "inj_on (envelope_digest H) (set items)"
    and i: "i \<in> set items"
  shows "\<exists>l. map_of (lane_table H items ls) (envelope_digest H i) = Some l \<and> lane_for eng i = Inr l"
proof -
  have all2: "list_all2 (\<lambda>x y. lane_for eng x = Inr y) items ls" using ls by (simp only: map_err_Inr)
  then have len: "length items = length ls" by (rule list_all2_lengthD)
  obtain l0 where "(i, l0) \<in> set (zip items ls)" using in_set_impl_in_set_zip1 [OF len i] by blast
  then have "(\<lambda>(i, l). envelope_digest H i) (i, l0) \<in> fst ` set (lane_table H items ls)"
    unfolding lane_table_def dict_of_keys by (rule imageI)
  then have "envelope_digest H i \<in> fst ` set (lane_table H items ls)" by simp
  then obtain l where l: "map_of (lane_table H items ls) (envelope_digest H i) = Some l"
    by (metis map_of_eq_None_iff not_Some_eq)
  then have "(envelope_digest H i, l) \<in> set (lane_table H items ls)" by (rule map_of_SomeD)
  then have "\<exists>x \<in> set (zip items ls). envelope_digest H i = (\<lambda>(i, l). envelope_digest H i) x \<and> l = snd x"
    unfolding lane_table_def by (rule dict_of_member)
  then obtain j where x: "(j, l) \<in> set (zip items ls)" "envelope_digest H i = envelope_digest H j"
    by auto
  then have "j \<in> set items" by (auto dest: set_zip_leftD)
  with inj i x(2) have "i = j" by (auto dest: inj_onD)
  moreover have "lane_for eng j = Inr l"
    using all2 x(1) by (auto simp: list_all2_iff)
  ultimately show ?thesis using l by blast
qed

lemma align_groupI:
  assumes "align H eng items st = Inr rs" and "i \<in> set items" and "en_claim i \<noteq> None"
  obtains ls grs where "map_err (lane_for eng) items = Inr ls"
    "align_group H eng (lane_table H items ls) st
       (filter (\<lambda>j. anchor_of H j = anchor_of H i) (filter (\<lambda>i. en_claim i \<noteq> None) items)) = Inr grs"
    "set grs \<subseteq> set rs"
proof -
  let ?groups = "group_by (anchor_of H) (filter (\<lambda>i. en_claim i \<noteq> None) items)"
  from assms(1) obtain ls gs where ls: "map_err (lane_for eng) items = Inr ls"
    and gs: "map_err (\<lambda>(k, grp). align_group H eng (lane_table H items ls) st grp) ?groups = Inr gs"
    and rs: "rs = concat gs"
    unfolding align_def Let_def and_then_Inr by auto
  have "anchor_of H i \<in> fst ` set ?groups" unfolding group_by_keys using assms(2,3) by simp
  then obtain grp where grp: "(anchor_of H i, grp) \<in> set ?groups" by auto
  from map_err_source [OF gs grp] obtain grs where grs: "grs \<in> set gs"
    "align_group H eng (lane_table H items ls) st grp = Inr grs" by auto
  moreover have "set grs \<subseteq> set rs" using grs(1) rs by auto
  ultimately show thesis using that ls group_by_member [OF grp] by simp
qed

text \<open>When a canonical claim of an anchor is UNKNOWN, reference evidence for that anchor never
  closes it: the alignment records UnknownPreserved with that reference as support and the canonical
  state unchanged.\<close>

lemma unknown_preserved:
  assumes al: "align H eng items st = Inr rs" and inj: "inj_on (envelope_digest H) (set items)"
    and i: "i \<in> set items" "lane_for eng i = Inr li" "ln_authority_class li = CANONICAL_CANDIDATE"
      "unknown_claim i"
    and j: "j \<in> set items" "lane_for eng j = Inr lj" "ln_authority_class lj = REFERENCE_EVIDENCE"
      "en_claim j \<noteq> None" "anchor_of H j = anchor_of H i"
  shows "\<exists>r \<in> set rs. al_kind r = UNKNOWN_PRESERVED \<and> al_state_after r = st \<and>
    support_of H j \<in> set (al_supporting_evidence r)"
proof -
  have ci: "en_claim i \<noteq> None" using i(4) by (auto simp: unknown_claim_def split: option.splits)
  let ?grp = "filter (\<lambda>j. anchor_of H j = anchor_of H i) (filter (\<lambda>i. en_claim i \<noteq> None) items)"
  obtain ls grs where ls: "map_err (lane_for eng) items = Inr ls"
    and ag: "align_group H eng (lane_table H items ls) st ?grp = Inr grs" and sub: "set grs \<subseteq> set rs"
    using align_groupI [OF al i(1) ci] by blast
  from ag obtain canonical refs adm where
    c: "canonical = filter (in_class H (lane_table H items ls) CANONICAL_CANDIDATE) ?grp"
    and re: "refs = filter (in_class H (lane_table H items ls) REFERENCE_EVIDENCE) ?grp"
    and grs: "grs = adm @ canonical_results H eng st canonical @ reference_results H eng st refs
          @ mixed_results H eng st canonical refs"
    by (rule align_groupE)
  have cls: "in_class H (lane_table H items ls) (ln_authority_class l) x"
    if "x \<in> set items" "lane_for eng x = Inr l" for x l
    using lane_table_lookup [OF ls inj that(1)] that(2) by (auto simp: in_class_def)
  have ic: "i \<in> set canonical" using cls [OF i(1,2)] i ci c by simp
  have jr: "j \<in> set refs" using cls [OF j(1,2)] j re by simp
  have "list_ex unknown_claim canonical" using ic i(4) by (auto simp: list_ex_iff)
  then have "mixed_results H eng st canonical refs =
      [result_of H eng st UNKNOWN_PRESERVED ''MIXED'' refs (Some (hd canonical))
           ''reference support cannot close canonical UNKNOWN'']"
    using ic jr by (auto simp: mixed_results_def)
  then have "result_of H eng st UNKNOWN_PRESERVED ''MIXED'' refs (Some (hd canonical))
           ''reference support cannot close canonical UNKNOWN'' \<in> set rs"
    using grs sub by auto
  then show ?thesis by (rule rev_bexI) (use jr in simp)
qed


subsection \<open>Concrete instances\<close>

definition sample_pair :: "target_resolution \<Rightarrow> evidence_envelope list" where
  "sample_pair res = [sample_envelope ''clang_provider'' ''rintel-clang'' res,
                      sample_envelope ''flang_reference'' ''llvm-flang'' res]"

abbreviation "sample_canonical res \<equiv> sample_envelope ''clang_provider'' ''rintel-clang'' res"
abbreviation "sample_reference res \<equiv> sample_envelope ''flang_reference'' ''llvm-flang'' res"

lemma sample_lanes:
  "lane_for default_engine (sample_canonical res) = Inr lane_clang"
  "lane_for default_engine (sample_reference res) = Inr lane_flang"
  by (simp_all add: lane_for_def default_engine_def require_lane_def default_registry_def
      default_lanes_def lane_legacy_def lane_clang_def lane_flang_def sample_envelope_def)

lemma sample_classes:
  "ln_authority_class lane_clang = CANONICAL_CANDIDATE" "ln_canonical_ingestion lane_clang"
  "ln_authority_class lane_flang = REFERENCE_EVIDENCE"
  by (simp_all add: lane_clang_def lane_flang_def)

lemma sample_digests_differ:
  "envelope_digest (\<lambda>s. s) (sample_canonical res) \<noteq> envelope_digest (\<lambda>s. s) (sample_reference res)"
proof -
  have ff: "float_free (envelope_to_wire (sample_envelope l p res))" for l p
    by (simp add: sample_envelope_def envelope_to_wire_def jopt_def jstrs_def claim_to_wire_def
        nonempty_def or_empty_def)
  have lane: "(case canon (envelope_to_wire (sample_envelope l p res)) of
      JObj kvs \<Rightarrow> map_of kvs ''lane_id'' | _ \<Rightarrow> None) = Some (JStr l)" for l p
    by (simp add: sample_envelope_def envelope_to_wire_def)
  have "canon (envelope_to_wire (sample_canonical res)) \<noteq> canon (envelope_to_wire (sample_reference res))"
    (is "?c \<noteq> ?r")
  proof
    assume eq: "?c = ?r"
    from lane [of "''clang_provider''" "''rintel-clang''"] lane [of "''flang_reference''" "''llvm-flang''"]
    show False unfolding eq by simp
  qed
  with ff show ?thesis by (simp add: envelope_digest_def stable_digest_def dumps_eq_iff)
qed

lemma sample_digests: "inj_on (envelope_digest (\<lambda>s. s)) (set (sample_pair res))"
  using sample_digests_differ [of res] by (auto simp: sample_pair_def)

lemma sample_anchor:
  "anchor_of H (sample_reference res) = anchor_of H (sample_canonical res)"
  by (simp add: anchor_of_def sample_envelope_def)

lemma sample_claim: "\<exists>c. en_claim (sample_envelope l p res) = Some c"
  by (simp add: sample_envelope_def)

lemma sample_admits: "\<exists>a. admit H default_engine (sample_canonical res) st = Inr a"
  by (cases res) (simp_all add: admit_def sample_lanes sample_classes validate_claim_def,
    simp_all add: lane_clang_def all_truth_def all_resolution_def sample_envelope_def
      candidate_from_def check_candidate_def)

lemma sample_pair_aligned:
  obtains rs where "align (\<lambda>s. s) default_engine (sample_pair res) st = Inr rs"
    "set (mixed_results (\<lambda>s. s) default_engine st [sample_canonical res] [sample_reference res]) \<subseteq> set rs"
proof -
  obtain a where a: "admit (\<lambda>s. s) default_engine (sample_canonical res) st = Inr a"
    using sample_admits by blast
  have grp: "align_group (\<lambda>s. s) default_engine
      (lane_table (\<lambda>s. s) (sample_pair res) [lane_clang, lane_flang]) st (sample_pair res) =
    and_then (admission_results (\<lambda>s. s) default_engine st [sample_canonical res]) (\<lambda>adm.
      Inr (adm @ mixed_results (\<lambda>s. s) default_engine st [sample_canonical res] [sample_reference res]))"
    using sample_digests_differ [of res]
    by (simp add: align_group_def sample_pair_def lane_table_def dict_of_def in_class_def
        sample_classes canonical_results_def reference_results_def Let_def)
  have "\<exists>rs. align (\<lambda>s. s) default_engine (sample_pair res) st = Inr rs \<and>
    set (mixed_results (\<lambda>s. s) default_engine st [sample_canonical res] [sample_reference res]) \<subseteq> set rs"
  proof -
    have "map_err (lane_for default_engine) (sample_pair res) = Inr [lane_clang, lane_flang]"
      by (simp add: sample_pair_def sample_lanes)
    moreover have "group_by (anchor_of (\<lambda>s. s)) (filter (\<lambda>i. en_claim i \<noteq> None) (sample_pair res)) =
        [(anchor_of (\<lambda>s. s) (sample_canonical res), sample_pair res)]"
      using sample_claim by (simp add: sample_pair_def group_by_def sample_anchor)
    ultimately show ?thesis
      by (simp add: align_def grp admission_results_def a) auto
  qed
  then show thesis using that by blast
qed

lemma align_no_promotion_witness:
  "\<exists>rs. align (\<lambda>s. s) default_engine (sample_pair UNKNOWN_TARGET) sample_state = Inr rs \<and>
     list_all (\<lambda>r. al_state_after r = sample_state) rs"
proof -
  obtain rs where rs: "align (\<lambda>s. s) default_engine (sample_pair UNKNOWN_TARGET) sample_state = Inr rs"
    by (rule sample_pair_aligned)
  with align_no_promotion [OF rs] show ?thesis by (auto simp: list_all_iff)
qed

lemma unknown_preserved_witness:
  "\<exists>rs. align (\<lambda>s. s) default_engine (sample_pair UNKNOWN_TARGET) sample_state = Inr rs \<and>
     (\<exists>r \<in> set rs. al_kind r = UNKNOWN_PRESERVED \<and> al_state_after r = sample_state)"
proof -
  obtain rs where rs: "align (\<lambda>s. s) default_engine (sample_pair UNKNOWN_TARGET) sample_state = Inr rs"
    by (rule sample_pair_aligned)
  have mem: "sample_canonical UNKNOWN_TARGET \<in> set (sample_pair UNKNOWN_TARGET)"
    "sample_reference UNKNOWN_TARGET \<in> set (sample_pair UNKNOWN_TARGET)"
    by (simp_all add: sample_pair_def)
  have un: "unknown_claim (sample_canonical UNKNOWN_TARGET)"
    and cj: "en_claim (sample_reference UNKNOWN_TARGET) \<noteq> None"
    by (simp_all add: unknown_claim_def sample_envelope_def)
  from unknown_preserved [OF rs sample_digests mem(1) sample_lanes(1) sample_classes(1) un mem(2)
      sample_lanes(2) sample_classes(3) cj sample_anchor] rs
  show ?thesis by blast
qed

lemma mixed_corroboration_witness:
  "\<exists>rs r. align (\<lambda>s. s) default_engine (sample_pair EXACT) sample_state = Inr rs \<and> r \<in> set rs \<and>
     al_evidence_authority r = ''MIXED'' \<and> al_resolution r \<noteq> Some UNKNOWN_TARGET"
proof -
  obtain rs where rs: "align (\<lambda>s. s) default_engine (sample_pair EXACT) sample_state = Inr rs"
    "set (mixed_results (\<lambda>s. s) default_engine sample_state [sample_canonical EXACT]
       [sample_reference EXACT]) \<subseteq> set rs"
    by (rule sample_pair_aligned)
  have "env_variant (\<lambda>s. s) (sample_canonical EXACT) = env_variant (\<lambda>s. s) (sample_reference EXACT)"
    "\<not> unknown_claim (sample_canonical EXACT)"
    by (simp_all add: env_variant_def unknown_claim_def sample_envelope_def)
  then obtain r where r: "r \<in> set rs" "al_kind r = CORROBORATION" "al_evidence_authority r = ''MIXED''"
    using rs(2) by (auto simp: mixed_results_def)
  from mixed_corroboration [OF rs(1) r] rs(1) r show ?thesis by blast
qed

end
