(* ===== verification/Query_Wire.thy ===== *)
theory Query_Wire
  imports Alignment
begin

text \<open>
  The read-only query projection (\<open>evidence_authority/query.py\<close>) and the fail-closed reader
  of producer envelopes (\<open>evidence_authority/serialization.py\<close>).
\<close>

section \<open>Query classification\<close>

datatype answer_status = KNOWN_CANONICALLY | SUPPORTED_BY_REFERENCE | SUGGESTED_INFERRED | UNKNOWN_ANSWER

fun answer_value :: "answer_status \<Rightarrow> string" where
  "answer_value KNOWN_CANONICALLY = ''KNOWN_CANONICALLY''"
| "answer_value SUPPORTED_BY_REFERENCE = ''SUPPORTED_BY_REFERENCE''"
| "answer_value SUGGESTED_INFERRED = ''SUGGESTED_INFERRED''"
| "answer_value UNKNOWN_ANSWER = ''UNKNOWN''"

record query_result =
  qr_answer_status :: answer_status
  qr_canonical_resolution :: "target_resolution option"
  qr_registry_version :: string
  qr_rule_version :: string
  qr_segments :: "jdict list"
  qr_alignment_results :: "json list"
  qr_supporting_reference :: "jdict list"
  qr_bridges :: "bridge list"
  qr_full_chain_canonical :: bool
  qr_semantic_meaning :: "string option"
  qr_authoritative_change_impact :: "bool option"

definition query_to_dict :: "query_result \<Rightarrow> json" where
  "query_to_dict q = JObj [
     (''answer_status'', JStr (answer_value (qr_answer_status q))),
     (''canonical_resolution'', jopt (\<lambda>r. JStr (resolution_value r)) (qr_canonical_resolution q)),
     (''registry_version'', JStr (qr_registry_version q)),
     (''rule_version'', JStr (qr_rule_version q)),
     (''segments'', JList (map JObj (qr_segments q))),
     (''alignment_results'', JList (qr_alignment_results q)),
     (''supporting_reference'', JList (map JObj (qr_supporting_reference q))),
     (''bridges'', JList (map bridge_to_dict (qr_bridges q))),
     (''full_chain_canonical'', JBool (qr_full_chain_canonical q)),
     (''semantic_meaning'', jopt JStr (qr_semantic_meaning q)),
     (''authoritative_change_impact'', jopt JBool (qr_authoritative_change_impact q))]"

definition segment_of :: "evidence_envelope \<Rightarrow> ev_error + jdict" where
  "segment_of env = and_then (require_lane default_registry (en_lane_id env)) (\<lambda>lane.
     let claim = en_claim env in Inr [
       (''lane_id'', JStr (en_lane_id env)),
       (''producer'', JStr (en_producer env)),
       (''producer_version'', JStr (en_producer_version env)),
       (''evidence_authority'', JStr (authority_value (ln_authority_class lane))),
       (''claim_id'', jopt (\<lambda>c. JStr (cl_claim_id c)) claim),
       (''subject'', jopt (\<lambda>c. JStr (cl_subject c)) claim),
       (''predicate'', jopt (\<lambda>c. JStr (cl_predicate c)) claim),
       (''object'', jopt cl_object claim),
       (''truth_class'', jopt (\<lambda>c. JStr (truth_value (cl_truth_class c))) claim),
       (''resolution'', jopt (\<lambda>c. JStr (resolution_value (cl_resolution c))) claim),
       (''coverage'', jopt (\<lambda>c. JStr (coverage_value (cl_coverage c))) claim),
       (''execution_modality'', jopt (\<lambda>c. JStr (modality_value (cl_execution_modality c))) claim),
       (''annotation_kind'', jopt (\<lambda>a. JStr (annotation_value (an_kind a))) (en_annotation env))])"

text \<open>The claims of one authority class, by the default registry.\<close>

definition claims_in :: "authority_class \<Rightarrow> evidence_envelope list \<Rightarrow> claim_payload list" where
  "claims_in cls items = List.map_filter (\<lambda>i.
     case require_lane default_registry (en_lane_id i) of
       Inl _ \<Rightarrow> None
     | Inr lane \<Rightarrow> if ln_authority_class lane = cls then en_claim i else None) items"

definition answer_status_of :: "claim_payload list \<Rightarrow> claim_payload list \<Rightarrow> annotation_payload list \<Rightarrow>
    answer_status" where
  "answer_status_of canonical references annotations =
     (if list_ex (\<lambda>c. cl_resolution c = UNKNOWN_TARGET) canonical then UNKNOWN_ANSWER
      else if canonical \<noteq> [] then
        (if list_ex (\<lambda>c. cl_truth_class c \<in> {INFERRED, HEURISTIC}) canonical
         then SUGGESTED_INFERRED else KNOWN_CANONICALLY)
      else if references \<noteq> [] then SUPPORTED_BY_REFERENCE
      else if annotations \<noteq> [] then SUGGESTED_INFERRED
      else UNKNOWN_ANSWER)"

definition classify_evidence :: "(string \<Rightarrow> string) \<Rightarrow> evidence_envelope list \<Rightarrow> canonical_state \<Rightarrow>
    bridge list \<Rightarrow> ev_error + query_result" where
  "classify_evidence H items state bridges =
     and_then (map_err segment_of items) (\<lambda>segments.
     let canonical = claims_in CANONICAL_CANDIDATE items;
         references = claims_in REFERENCE_EVIDENCE items;
         annotations = List.map_filter en_annotation items
     in and_then (align H default_engine items state) (\<lambda>al.
       let impact = list_ex (\<lambda>i. en_lane_id i = ''ripwire_reference'' \<and>
             (case en_claim i of None \<Rightarrow> False | Some c \<Rightarrow> cl_predicate c = ''IMPACT_REACHABILITY'')) items
       in Inr \<lparr>
         qr_answer_status = answer_status_of canonical references annotations,
         qr_canonical_resolution = (if canonical = [] then None else Some (cl_resolution (hd canonical))),
         qr_registry_version = rg_version (eg_registry default_engine),
         qr_rule_version = eg_rule_version default_engine,
         qr_segments = segments,
         qr_alignment_results = map alignment_to_dict al,
         qr_supporting_reference = filter (\<lambda>s.
           jget s ''evidence_authority'' = JStr (authority_value REFERENCE_EVIDENCE)) segments,
         qr_bridges = bridges,
         qr_full_chain_canonical =
           (canonical \<noteq> [] \<and> references = [] \<and> annotations = [] \<and> bridges = []),
         qr_semantic_meaning = (if impact then Some ''TRANSITIVE_REACHABILITY_FLOOR'' else None),
         qr_authoritative_change_impact = (if impact then Some False else None)\<rparr>))"

lemma claims_in_iff:
  "c \<in> set (claims_in cls items) \<longleftrightarrow> (\<exists>i \<in> set items. \<exists>lane. en_claim i = Some c \<and>
     require_lane default_registry (en_lane_id i) = Inr lane \<and> ln_authority_class lane = cls)"
proof -
  have "(case require_lane default_registry (en_lane_id i) of Inl _ \<Rightarrow> None
      | Inr lane \<Rightarrow> if ln_authority_class lane = cls then en_claim i else None) = Some c \<longleftrightarrow>
    (\<exists>lane. en_claim i = Some c \<and> require_lane default_registry (en_lane_id i) = Inr lane \<and>
       ln_authority_class lane = cls)" for i :: evidence_envelope
    by (cases "require_lane default_registry (en_lane_id i)") auto
  then show ?thesis by (simp only: claims_in_def set_map_filter)
qed

lemma answer_known:
  "answer_status_of canonical references annotations = KNOWN_CANONICALLY \<longleftrightarrow>
     canonical \<noteq> [] \<and> (\<forall>c \<in> set canonical. cl_resolution c \<noteq> UNKNOWN_TARGET \<and>
       cl_truth_class c \<in> {OBSERVED, RESOLVED})"
proof -
  have "cl_truth_class c \<in> {OBSERVED, RESOLVED} \<longleftrightarrow> cl_truth_class c \<notin> {INFERRED, HEURISTIC}" for c
    by (cases "cl_truth_class c") simp_all
  then show ?thesis by (auto simp: answer_status_of_def list_ex_iff)
qed

lemma answer_reference:
  "answer_status_of canonical references annotations = SUPPORTED_BY_REFERENCE \<longleftrightarrow>
     canonical = [] \<and> references \<noteq> []"
  by (auto simp: answer_status_of_def)

lemma classify_evidenceE:
  assumes "classify_evidence H items st bs = Inr q"
  obtains al where "align H default_engine items st = Inr al"
    "qr_alignment_results q = map alignment_to_dict al"
    "qr_answer_status q = answer_status_of (claims_in CANONICAL_CANDIDATE items)
       (claims_in REFERENCE_EVIDENCE items) (List.map_filter en_annotation items)"
    "qr_full_chain_canonical q \<longleftrightarrow> claims_in CANONICAL_CANDIDATE items \<noteq> [] \<and>
       claims_in REFERENCE_EVIDENCE items = [] \<and> List.map_filter en_annotation items = [] \<and> bs = []"
    "qr_authoritative_change_impact q \<noteq> Some True"
  using assms unfolding classify_evidence_def Let_def and_then_Inr by auto

text \<open>With a successful classification every canonical claim has passed admission.\<close>

lemma classified_admitted:
  assumes q: "classify_evidence H items st bs = Inr q"
    and inj: "inj_on (envelope_digest H) (set items)"
    and c: "c \<in> set (claims_in CANONICAL_CANDIDATE items)"
  shows "\<exists>i \<in> set items. en_claim i = Some c \<and> (\<exists>a. admit H default_engine i st = Inr a)"
proof -
  obtain al where al: "align H default_engine items st = Inr al"
    using q by (rule classify_evidenceE)
  from c obtain i lane where i: "i \<in> set items" "en_claim i = Some c"
    "require_lane default_registry (en_lane_id i) = Inr lane"
    "ln_authority_class lane = CANONICAL_CANDIDATE" unfolding claims_in_iff by blast
  have ne: "en_claim i \<noteq> None" using i(2) by simp
  let ?grp = "filter (\<lambda>j. anchor_of H j = anchor_of H i) (filter (\<lambda>i. en_claim i \<noteq> None) items)"
  obtain ls grs where ls: "map_err (lane_for default_engine) items = Inr ls"
    and ag: "align_group H default_engine (lane_table H items ls) st ?grp = Inr grs"
    using align_groupI [OF al i(1) ne] by blast
  from ag obtain canonical adm where
    can: "canonical = filter (in_class H (lane_table H items ls) CANONICAL_CANDIDATE) ?grp"
    and adm: "admission_results H default_engine st canonical = Inr adm"
    by (rule align_groupE)
  from lane_table_lookup [OF ls inj i(1)] obtain l where
    l: "map_of (lane_table H items ls) (envelope_digest H i) = Some l" "lane_for default_engine i = Inr l"
    by blast
  have "l = lane" using l(2) i(3) unfolding lane_for_Inr by (simp add: default_engine_def)
  then have "i \<in> set canonical" using can i ne l by (simp add: in_class_def)
  then show ?thesis using admission_results_Inr [OF adm] i by blast
qed

text \<open>C36: the answer is KNOWN_CANONICALLY only on admitted canonical evidence: there is at least one
  canonical claim, and every canonical claim has passed admission, resolves its target and is OBSERVED
  or RESOLVED.\<close>

lemma known_answer_admitted:
  assumes q: "classify_evidence H items st bs = Inr q"
    and inj: "inj_on (envelope_digest H) (set items)"
    and known: "qr_answer_status q = KNOWN_CANONICALLY"
  shows "claims_in CANONICAL_CANDIDATE items \<noteq> [] \<and>
    (\<forall>c \<in> set (claims_in CANONICAL_CANDIDATE items).
       (\<exists>i \<in> set items. en_claim i = Some c \<and> (\<exists>a. admit H default_engine i st = Inr a)) \<and>
       cl_resolution c \<noteq> UNKNOWN_TARGET \<and> cl_truth_class c \<in> {OBSERVED, RESOLVED})"
proof -
  have "qr_answer_status q = answer_status_of (claims_in CANONICAL_CANDIDATE items)
       (claims_in REFERENCE_EVIDENCE items) (List.map_filter en_annotation items)"
    using q by (rule classify_evidenceE)
  with known have "claims_in CANONICAL_CANDIDATE items \<noteq> []"
    "\<forall>c \<in> set (claims_in CANONICAL_CANDIDATE items). cl_resolution c \<noteq> UNKNOWN_TARGET \<and>
       cl_truth_class c \<in> {OBSERVED, RESOLVED}"
    by (simp_all add: answer_known)
  then show ?thesis using classified_admitted [OF q inj] by blast
qed

definition sample_observed :: evidence_envelope where
  "sample_observed = (sample_envelope ''clang_provider'' ''rintel-clang'' EXACT)
     \<lparr>en_claim := Some (fact_claim sample_fact)\<rparr>"

lemma known_answer_admitted_witness:
  "\<exists>q. classify_evidence (\<lambda>s. s) [sample_observed] sample_state [] = Inr q \<and>
     qr_answer_status q = KNOWN_CANONICALLY \<and>
     (\<exists>a. admit (\<lambda>s. s) default_engine sample_observed sample_state = Inr a)"
proof -
  have lane: "lane_for default_engine sample_observed = Inr lane_clang"
    "require_lane default_registry (en_lane_id sample_observed) = Inr lane_clang"
    using sample_lanes(1) [of EXACT] by (auto simp: sample_observed_def lane_for_def default_engine_def
        and_then_Inr split: if_splits)
  have "is_ok (admit (\<lambda>s. s) default_engine sample_observed sample_state)"
    by (simp add: admit_def lane sample_classes validate_claim_def)
      (simp add: lane_clang_def all_truth_def all_resolution_def sample_observed_def fact_claim_def
        sample_fact_def sample_candidate_def candidate_from_def check_candidate_def sample_envelope_def)
  then obtain a where a: "admit (\<lambda>s. s) default_engine sample_observed sample_state = Inr a"
    using is_okE by blast
  obtain sg where "segment_of sample_observed = Inr sg"
    by (simp add: segment_of_def lane Let_def)
  moreover obtain c where c: "en_claim sample_observed = Some c" "cl_truth_class c = OBSERVED"
    "cl_resolution c = EXACT"
    by (simp add: sample_observed_def fact_claim_def sample_fact_def sample_candidate_def)
  moreover have "claims_in CANONICAL_CANDIDATE [sample_observed] = [c]"
    by (simp add: claims_in_def lane sample_classes c List.map_filter_simps)
  moreover have "\<exists>rs. align (\<lambda>s. s) default_engine [sample_observed] sample_state = Inr rs"
    by (simp add: align_def lane lane_table_def dict_of_def group_by_def c align_group_def
        in_class_def sample_classes admission_results_def a Let_def)
  ultimately obtain q where q: "classify_evidence (\<lambda>s. s) [sample_observed] sample_state [] = Inr q"
    "qr_answer_status q = KNOWN_CANONICALLY"
    by (auto simp: classify_evidence_def Let_def answer_known)
  have inj: "inj_on (envelope_digest (\<lambda>s. s)) (set [sample_observed])" by simp
  note ka = known_answer_admitted [OF q(1) inj q(2)]
  then obtain c where "c \<in> set (claims_in CANONICAL_CANDIDATE [sample_observed])"
    by (metis list.set_intros(1) neq_Nil_conv)
  with ka q show ?thesis by auto
qed

section \<open>Reading an envelope\<close>

definition forbidden_authority_keys :: "string list" where
  "forbidden_authority_keys = [''authority'', ''authority_class'', ''canonical_ingestion'',
     ''effective_authority'', ''evidence_authority'']"

definition envelope_keys :: "string list" where
  "envelope_keys = [''lane_id'', ''producer'', ''producer_version'', ''scope'', ''provenance'',
     ''limitations'', ''claim'', ''annotation'']"

text \<open>\<open>tuple(str(item) for item in x)\<close>: lists, strings and mappings are iterable.\<close>

fun str_items :: "json \<Rightarrow> ev_error + string list" where
  "str_items (JList xs) = Inr (map py_str xs)"
| "str_items (JStr s) = Inr (map (\<lambda>c. [c]) s)"
| "str_items (JObj kvs) = Inr (map fst kvs)"
| "str_items j = Inl TypeError"

text \<open>\<open>dict(x)\<close>: a mapping, or an iterable of pairs with string keys.\<close>

fun pair_item :: "json \<Rightarrow> ev_error + (string \<times> json)" where
  "pair_item (JList [JStr k, v]) = Inr (k, v)"
| "pair_item (JList [k, v]) = Inl TypeError"
| "pair_item (JList xs) = Inl ValueError"
| "pair_item (JStr [a, b]) = Inr ([a], JStr [b])"
| "pair_item (JStr s) = Inl ValueError"
| "pair_item (JObj [(k, v), (k', v')]) = Inr (k, JStr k')"
| "pair_item (JObj kvs) = Inl ValueError"
| "pair_item j = Inl TypeError"

fun as_dict :: "json \<Rightarrow> ev_error + jdict" where
  "as_dict (JObj d) = Inr d"
| "as_dict (JList xs) = and_then (map_err pair_item xs) (\<lambda>ps. Inr (dict_of fst snd ps))"
| "as_dict (JStr s) = (if s = [] then Inr [] else Inl ValueError)"
| "as_dict j = Inl TypeError"

text \<open>\<open>dict(x or {})\<close> and \<open>dict(x) if x else None\<close>.\<close>

definition dict_or_empty :: "json \<Rightarrow> ev_error + jdict" where
  "dict_or_empty j = (if truthy j then as_dict j else Inr [])"

definition dict_or_none :: "json \<Rightarrow> ev_error + jdict option" where
  "dict_or_none j = (if truthy j then and_then (as_dict j) (\<lambda>d. Inr (Some d)) else Inr None)"

text \<open>\<open>Enum(x)\<close> by value.\<close>

definition enum_at :: "(string \<Rightarrow> 'a option) \<Rightarrow> jdict \<Rightarrow> string \<Rightarrow> ev_error + 'a" where
  "enum_at f raw k = and_then (jindex raw k) (\<lambda>j. case j of
     JStr s \<Rightarrow> (case f s of None \<Rightarrow> Inl ValueError | Some x \<Rightarrow> Inr x)
   | _ \<Rightarrow> Inl ValueError)"

definition str_at :: "jdict \<Rightarrow> string \<Rightarrow> ev_error + string" where
  "str_at raw k = and_then (jindex raw k) (\<lambda>j. Inr (py_str j))"

text \<open>The value of a float from its \<open>repr\<close>: sign, digits, fraction, exponent.\<close>

definition digits_value :: "string \<Rightarrow> rat" where
  "digits_value ds = foldl (\<lambda>n c. n * 10 + of_nat (code_point c - 48)) 0 ds"

definition exponent_value :: "string \<Rightarrow> rat" where
  "exponent_value e = (case e of
     [] \<Rightarrow> 1
   | c # r \<Rightarrow> (case r of
         CHR ''-'' # ds \<Rightarrow> 1 / 10 ^ nat (floor (digits_value ds))
       | CHR ''+'' # ds \<Rightarrow> 10 ^ nat (floor (digits_value ds))
       | ds \<Rightarrow> 10 ^ nat (floor (digits_value ds))))"

definition float_value :: "string \<Rightarrow> rat" where
  "float_value s =
     (let neg = (s \<noteq> [] \<and> hd s = CHR ''-''); t = (if neg then tl s else s);
          whole = takeWhile is_digit t; rest = drop (length whole) t;
          frac = (if rest \<noteq> [] \<and> hd rest = CHR ''.'' then takeWhile is_digit (tl rest) else []);
          tail = (if rest \<noteq> [] \<and> hd rest = CHR ''.'' then drop (length frac) (tl rest) else rest);
          v = (digits_value whole + digits_value frac / 10 ^ length frac) * exponent_value tail
      in if neg then - v else v)"

text \<open>
  \<open>confidence_if_applicable\<close>: absent or a number. The code keeps any other value and fails
  on it when the candidate is built; the model fails here.
\<close>

fun confidence_of :: "json \<Rightarrow> ev_error + pyfloat option" where
  "confidence_of JNull = Inr None"
| "confidence_of (JFloat r) = Inr (Some (float_value r, r))"
| "confidence_of (JInt i) = Inr (Some (of_int i, int_str i))"
| "confidence_of (JBool b) = Inr (Some (if b then 1 else 0, if b then ''true'' else ''false''))"
| "confidence_of j = Inl TypeError"

definition claim_from_wire :: "jdict \<Rightarrow> ev_error + claim_payload" where
  "claim_from_wire raw =
     and_then (str_at raw ''claim_id'') (\<lambda>claim_id.
     and_then (str_at raw ''subject'') (\<lambda>subject.
     and_then (str_at raw ''predicate'') (\<lambda>predicate.
     and_then (dict_or_none (jget raw ''source_span'')) (\<lambda>sp.
     and_then (enum_at truth_of raw ''truth_class'') (\<lambda>truth.
     and_then (enum_at resolution_of raw ''resolution'') (\<lambda>resolution.
     and_then (enum_at coverage_of raw ''coverage'') (\<lambda>cov.
     and_then (enum_at modality_of raw ''execution_modality'') (\<lambda>modality.
     and_then (str_at raw ''revision_input'') (\<lambda>revision.
     and_then (confidence_of (jget raw ''confidence_if_applicable'')) (\<lambda>confidence.
     and_then (dict_or_none (jget raw ''witness'')) (\<lambda>witness.
       check_claim \<lparr>cl_claim_id = claim_id, cl_subject = subject, cl_predicate = predicate,
         cl_object = jget raw ''object'', cl_source_span = sp, cl_truth_class = truth,
         cl_resolution = resolution, cl_coverage = cov, cl_execution_modality = modality,
         cl_revision_input = revision,
         cl_object_is_identity = truthy (get_or raw ''object_is_identity'' (JBool True)),
         cl_confidence = confidence, cl_witness = witness\<rparr>)))))))))))"

definition annotation_kind_of :: "string \<Rightarrow> annotation_kind option" where
  "annotation_kind_of s = find (\<lambda>k. annotation_value k = s)
     [AS_IS_NOTE, INTERPRETATION, TO_BE_INTENT, RISK_NOTE, REVIEW_DECISION]"

definition annotation_from_wire :: "jdict \<Rightarrow> ev_error + annotation_payload" where
  "annotation_from_wire raw =
     (if list_ex (\<lambda>k. k \<in> set (keys raw))
           [''truth_class'', ''resolution'', ''coverage'', ''execution_modality'']
        then Inl EnvelopeValidationError
      else
        and_then (enum_at annotation_kind_of raw ''annotation_kind'') (\<lambda>kind.
        and_then (str_at raw ''design_state'') (\<lambda>design_state.
        and_then (str_at raw ''text'') (\<lambda>txt.
        and_then (str_at raw ''source'') (\<lambda>source.
        and_then (dict_or_empty (jget raw ''metadata'')) (\<lambda>meta.
          check_annotation \<lparr>an_kind = kind, an_design_state = design_state, an_text = txt,
            an_source = source, an_metadata = Some meta\<rparr>))))))"

definition envelope_from_wire :: "jdict \<Rightarrow> ev_error + evidence_envelope" where
  "envelope_from_wire v =
     (if list_ex (\<lambda>k. k \<in> set (keys v)) forbidden_authority_keys then Inl EnvelopeValidationError
      else if list_ex (\<lambda>k. k \<notin> set envelope_keys) (keys v) then Inl EnvelopeValidationError
      else
        let lane = py_str (get_or v ''lane_id'' (JStr []));
            producer = py_str (get_or v ''producer'' (JStr []));
            ver = py_str (get_or v ''producer_version'' (JStr []))
        in
        and_then (str_items (get_or v ''scope'' (JList []))) (\<lambda>scope.
        and_then (dict_or_empty (jget v ''provenance'')) (\<lambda>prov.
        and_then (str_items (get_or v ''limitations'' (JList []))) (\<lambda>lims.
          if jget v ''claim'' \<noteq> JNull then
            and_then (as_dict (jget v ''claim'')) (\<lambda>raw.
            and_then (claim_from_wire raw) (\<lambda>claim.
              for_claim lane producer ver scope prov lims claim))
          else if jget v ''annotation'' \<noteq> JNull then
            and_then (as_dict (jget v ''annotation'')) (\<lambda>raw.
            and_then (annotation_from_wire raw) (\<lambda>annotation.
              for_annotation lane producer ver scope prov lims annotation))
          else Inl EnvelopeValidationError))))"


subsection \<open>What the reader accepts\<close>

lemma annotation_kind_of_value [simp]: "annotation_kind_of (annotation_value k) = Some k"
  by (cases k) (simp_all add: annotation_kind_of_def)

text \<open>C38: the reader is fail-closed: what it accepts has no key outside the eight of the format, so
  no authority field of the producer survives, is either a claim or an annotation and not both, names
  a lane and a producer, and an accepted annotation carried no truth dimension. An annotation that stands beside
  a claim is ignored, as the code reads the claim first.\<close>

lemma envelope_from_wire_closed:
  assumes "envelope_from_wire v = Inr e"
  shows "set (keys v) \<subseteq> set envelope_keys \<and>
    list_all (\<lambda>k. k \<notin> set (keys v)) forbidden_authority_keys \<and>
    (en_claim e = None \<longleftrightarrow> en_annotation e \<noteq> None) \<and>
    \<not> blank (en_lane_id e) \<and> \<not> blank (en_producer e) \<and>
    (en_annotation e = None \<or> (\<exists>raw. as_dict (jget v ''annotation'') = Inr raw \<and>
       list_all (\<lambda>k. k \<notin> set (keys raw))
         [''truth_class'', ''resolution'', ''coverage'', ''execution_modality'']))"
proof -
  have keys: "set (keys v) \<subseteq> set envelope_keys" "list_all (\<lambda>k. k \<notin> set (keys v)) forbidden_authority_keys"
    using assms by (auto simp: envelope_from_wire_def list_ex_iff list_all_iff split: if_splits)
  have "(en_claim e = None \<longleftrightarrow> en_annotation e \<noteq> None) \<and> \<not> blank (en_lane_id e) \<and> \<not> blank (en_producer e)"
    using assms
    by (auto simp: envelope_from_wire_def Let_def and_then_Inr for_claim_def for_annotation_def
        check_envelope_def split: if_splits)
  moreover have "en_annotation e = None \<or> (\<exists>raw. as_dict (jget v ''annotation'') = Inr raw \<and>
       list_all (\<lambda>k. k \<notin> set (keys raw))
         [''truth_class'', ''resolution'', ''coverage'', ''execution_modality''])"
    using assms
    by (auto simp: envelope_from_wire_def Let_def and_then_Inr for_claim_def for_annotation_def
        check_envelope_def annotation_from_wire_def split: if_splits)
  ultimately show ?thesis using keys by blast
qed

subsection \<open>Round trip\<close>

lemma dict_or_none_nonempty: "dict_or_none (jopt JObj (nonempty d)) = Inr (nonempty d)"
  by (auto simp: dict_or_none_def nonempty_def jopt_def split: option.splits)

lemma dict_or_none_obj: "dict_or_none (JObj d) = Inr (nonempty (Some d))"
  by (auto simp: dict_or_none_def nonempty_def)

lemma dict_or_empty_obj: "dict_or_empty (JObj d) = Inr d"
  by (auto simp: dict_or_empty_def)

lemma confidence_roundtrip:
  "\<exists>x. confidence_of (jopt jfloat c) = Inr x \<and> jopt jfloat x = jopt jfloat c"
  by (cases c) (auto simp: jopt_def jfloat_def)

lemma str_items_jstrs: "str_items (jstrs xs) = Inr xs"
  by (simp add: jstrs_def py_str_def comp_def)

lemma nonempty_idem [simp]: "nonempty (nonempty d) = nonempty d"
  by (auto simp: nonempty_def split: option.splits)

lemma or_empty_nonempty [simp]: "or_empty (nonempty d) = or_empty d"
  by (auto simp: nonempty_def or_empty_def split: option.splits)

lemma claim_roundtrip:
  assumes "check_claim c = Inr c" and wire: "claim_to_wire c = JObj d"
  shows "\<exists>c'. claim_from_wire d = Inr c' \<and> claim_to_wire c' = claim_to_wire c"
proof -
  obtain x where x: "confidence_of (jopt jfloat (cl_confidence c)) = Inr x"
    "jopt jfloat x = jopt jfloat (cl_confidence c)" using confidence_roundtrip by blast
  let ?c' = "c\<lparr>cl_source_span := nonempty (cl_source_span c),
    cl_confidence := x, cl_witness := nonempty (Some (or_empty (cl_witness c)))\<rparr>"
  have d: "d = [
     (''claim_id'', JStr (cl_claim_id c)),
     (''subject'', JStr (cl_subject c)),
     (''predicate'', JStr (cl_predicate c)),
     (''object'', cl_object c),
     (''source_span'', jopt JObj (nonempty (cl_source_span c))),
     (''truth_class'', JStr (truth_value (cl_truth_class c))),
     (''resolution'', JStr (resolution_value (cl_resolution c))),
     (''coverage'', JStr (coverage_value (cl_coverage c))),
     (''execution_modality'', JStr (modality_value (cl_execution_modality c))),
     (''revision_input'', JStr (cl_revision_input c)),
     (''object_is_identity'', JBool (cl_object_is_identity c)),
     (''confidence_if_applicable'', jopt jfloat (cl_confidence c)),
     (''witness'', JObj (or_empty (cl_witness c)))]"
    using wire by (simp add: claim_to_wire_def)
  have record_eq: "\<lparr>cl_claim_id = cl_claim_id c, cl_subject = cl_subject c,
      cl_predicate = cl_predicate c, cl_object = cl_object c,
      cl_source_span = nonempty (cl_source_span c), cl_truth_class = cl_truth_class c,
      cl_resolution = cl_resolution c, cl_coverage = cl_coverage c,
      cl_execution_modality = cl_execution_modality c, cl_revision_input = cl_revision_input c,
      cl_object_is_identity = cl_object_is_identity c, cl_confidence = x,
      cl_witness = nonempty (Some (or_empty (cl_witness c)))\<rparr> = ?c'" by (cases c) simp
  have "claim_from_wire d = check_claim ?c'"
    unfolding claim_from_wire_def d
    by (simp add: str_at_def enum_at_def jindex_def jget_def get_or_def py_str_def
        dict_or_none_nonempty dict_or_none_obj x(1) record_eq)
  also have "check_claim ?c' = Inr ?c'" using assms(1) by (auto simp: check_claim_def split: if_splits)
  finally have "claim_from_wire d = Inr ?c'" .
  moreover have "claim_to_wire ?c' = claim_to_wire c"
    by (simp add: claim_to_wire_def x(2)) (simp add: or_empty_def)
  ultimately show ?thesis by blast
qed

lemma annotation_roundtrip:
  assumes "check_annotation a = Inr a" and wire: "annotation_to_wire a = JObj d"
  shows "\<exists>a'. annotation_from_wire d = Inr a' \<and> annotation_to_wire a' = annotation_to_wire a"
proof -
  let ?a' = "a\<lparr>an_metadata := Some (or_empty (an_metadata a))\<rparr>"
  have d: "d = [
     (''annotation_kind'', JStr (annotation_value (an_kind a))),
     (''design_state'', JStr (an_design_state a)),
     (''text'', JStr (an_text a)),
     (''source'', JStr (an_source a)),
     (''metadata'', JObj (or_empty (an_metadata a)))]"
    using wire by (simp add: annotation_to_wire_def)
  have record_eq: "\<lparr>an_kind = an_kind a, an_design_state = an_design_state a, an_text = an_text a,
      an_source = an_source a, an_metadata = Some (or_empty (an_metadata a))\<rparr> = ?a'"
    by (cases a) simp
  have "annotation_from_wire d = check_annotation ?a'"
    unfolding annotation_from_wire_def d
    by (simp add: keys_def str_at_def enum_at_def jindex_def jget_def get_or_def py_str_def
        dict_or_empty_obj record_eq)
  also have "check_annotation ?a' = Inr ?a'"
    using assms(1) by (auto simp: check_annotation_def split: if_splits)
  finally have "annotation_from_wire d = Inr ?a'" .
  moreover have "annotation_to_wire ?a' = annotation_to_wire a"
    by (simp add: annotation_to_wire_def or_empty_def)
  ultimately show ?thesis by blast
qed

text \<open>A constructed envelope: its invariants and those of its payload hold.\<close>

definition valid_envelope :: "evidence_envelope \<Rightarrow> bool" where
  "valid_envelope e = (check_envelope e = Inr e \<and>
     (case en_claim e of None \<Rightarrow> True | Some c \<Rightarrow> check_claim c = Inr c) \<and>
     (case en_annotation e of None \<Rightarrow> True | Some a \<Rightarrow> check_annotation a = Inr a))"

text \<open>C37: serialisation loses nothing: reading back the wire form of a constructed envelope succeeds
  and gives an envelope with the same wire form, hence the same digest.\<close>

lemma envelope_roundtrip:
  assumes v: "valid_envelope e" and wire: "envelope_to_wire e = JObj d"
  shows "\<exists>e'. envelope_from_wire d = Inr e' \<and> envelope_to_wire e' = envelope_to_wire e"
proof -
  have d: "d = [
     (''lane_id'', JStr (en_lane_id e)),
     (''producer'', JStr (en_producer e)),
     (''producer_version'', JStr (en_producer_version e)),
     (''scope'', jstrs (en_scope e)),
     (''provenance'', JObj (en_provenance e)),
     (''limitations'', jstrs (en_limitations e)),
     (''claim'', jopt claim_to_wire (en_claim e)),
     (''annotation'', jopt annotation_to_wire (en_annotation e))]"
    using wire by (simp add: envelope_to_wire_def)
  have ce: "check_envelope e = Inr e" using v by (simp add: valid_envelope_def)
  then have xor: "en_claim e = None \<longleftrightarrow> en_annotation e \<noteq> None" by (auto dest: check_envelope_Inr)
  note open_d = envelope_from_wire_def d keys_def forbidden_authority_keys_def envelope_keys_def
    get_or_def jget_def py_str_def str_items_jstrs dict_or_empty_obj
  show ?thesis
  proof (cases "en_claim e")
    case (Some c)
    with xor have an: "en_annotation e = None" by simp
    obtain cd where cd: "claim_to_wire c = JObj cd" by (simp add: claim_to_wire_def)
    from v Some have "check_claim c = Inr c" by (simp add: valid_envelope_def)
    from claim_roundtrip [OF this cd] obtain c' where c': "claim_from_wire cd = Inr c'"
      "claim_to_wire c' = claim_to_wire c" by blast
    let ?e' = "e\<lparr>en_claim := Some c'\<rparr>"
    have record_eq: "\<lparr>en_lane_id = en_lane_id e, en_producer = en_producer e,
        en_producer_version = en_producer_version e, en_scope = en_scope e,
        en_provenance = en_provenance e, en_limitations = en_limitations e,
        en_claim = Some c', en_annotation = None\<rparr> = ?e'" using an by (cases e) simp
    have "envelope_from_wire d = check_envelope ?e'"
      using Some an cd c' by (simp add: open_d jopt_def for_claim_def record_eq)
    also have "check_envelope ?e' = Inr ?e'"
      using ce Some an by (auto simp: check_envelope_def split: if_splits)
    finally have "envelope_from_wire d = Inr ?e'" .
    moreover have "envelope_to_wire ?e' = envelope_to_wire e"
      using Some c' by (simp add: envelope_to_wire_def jopt_def)
    ultimately show ?thesis by blast
  next
    case None
    with xor obtain a where an: "en_annotation e = Some a" by blast
    obtain ad where ad: "annotation_to_wire a = JObj ad" by (simp add: annotation_to_wire_def)
    from v an have "check_annotation a = Inr a" by (simp add: valid_envelope_def)
    from annotation_roundtrip [OF this ad] obtain a' where a': "annotation_from_wire ad = Inr a'"
      "annotation_to_wire a' = annotation_to_wire a" by blast
    let ?e' = "e\<lparr>en_annotation := Some a'\<rparr>"
    have record_eq: "\<lparr>en_lane_id = en_lane_id e, en_producer = en_producer e,
        en_producer_version = en_producer_version e, en_scope = en_scope e,
        en_provenance = en_provenance e, en_limitations = en_limitations e,
        en_claim = None, en_annotation = Some a'\<rparr> = ?e'" using None by (cases e) simp
    have "envelope_from_wire d = check_envelope ?e'"
      using None an ad a' by (simp add: open_d jopt_def for_annotation_def record_eq)
    also have "check_envelope ?e' = Inr ?e'"
      using ce None an by (auto simp: check_envelope_def split: if_splits)
    finally have "envelope_from_wire d = Inr ?e'" .
    moreover have "envelope_to_wire ?e' = envelope_to_wire e"
      using an a' by (simp add: envelope_to_wire_def jopt_def)
    ultimately show ?thesis by blast
  qed
qed


lemma envelope_from_wire_closed_witness:
  "\<exists>v e. envelope_to_wire sample_observed = JObj v \<and> envelope_from_wire v = Inr e \<and>
     set (keys v) \<subseteq> set envelope_keys"
proof -
  obtain v where v: "envelope_to_wire sample_observed = JObj v" by (simp add: envelope_to_wire_def)
  have "(case envelope_to_wire sample_observed of JObj v \<Rightarrow> is_ok (envelope_from_wire v) | _ \<Rightarrow> False)"
    by code_simp
  with v obtain e where e: "envelope_from_wire v = Inr e" using is_okE by fastforce
  from envelope_from_wire_closed [OF e] e v show ?thesis by blast
qed

lemma envelope_roundtrip_witness:
  "\<exists>v e'. envelope_to_wire sample_observed = JObj v \<and> envelope_from_wire v = Inr e' \<and>
     envelope_to_wire e' = JObj v"
proof -
  obtain v where v: "envelope_to_wire sample_observed = JObj v" by (simp add: envelope_to_wire_def)
  have "valid_envelope sample_observed" by code_simp
  from envelope_roundtrip [OF this v] v show ?thesis by auto
qed

end
