(* ===== verification/Source_Text.thy ===== *)
theory Source_Text
  imports Py
begin

text \<open>
  The original-text index of the source-span resolver: the offset-preserving maskers
  (\<open>source_span/mask.py\<close>) and the line and column mapping, identifier occurrences and
  bracket matching of \<open>SourceText\<close> (\<open>source_span/text.py\<close>).

  The scanning loops over an index \<open>i\<close> are recursions over the rest of the text; what a turn
  writes to \<open>out\<close> is what it emits. Line and column arguments are integers, positions in the
  text natural numbers.
\<close>

abbreviation newline :: char where "newline \<equiv> CHR 10"
abbreviation space :: char where "space \<equiv> CHR '' ''"
abbreviation backslash :: char where "backslash \<equiv> CHR 0x5C"
abbreviation quote :: char where "quote \<equiv> CHR 0x27"
abbreviation dquote :: char where "dquote \<equiv> CHR 0x22"

section \<open>Maskers\<close>

text \<open>The mode flags of \<open>mask_c\<close>; at most one of them is set.\<close>

datatype c_mode = Code | In_Line_Comment | In_Block_Comment | In_Quoted char

definition keep_newline :: "char \<Rightarrow> char" where
  "keep_newline c = (if c = newline then c else space)"

fun mask_c_from :: "c_mode \<Rightarrow> string \<Rightarrow> string" where
  "mask_c_from m [] = []"
| "mask_c_from In_Line_Comment (c # cs) =
     (if c = newline then c # mask_c_from Code cs else space # mask_c_from In_Line_Comment cs)"
| "mask_c_from In_Block_Comment (c # cs) =
     (case cs of
        d # ds \<Rightarrow> if c = CHR ''*'' \<and> d = CHR ''/'' then space # space # mask_c_from Code ds
                  else keep_newline c # mask_c_from In_Block_Comment cs
      | [] \<Rightarrow> [keep_newline c])"
| "mask_c_from (In_Quoted q) (c # cs) =
     (case cs of
        d # ds \<Rightarrow>
          if c = backslash then space # keep_newline d # mask_c_from (In_Quoted q) ds
          else if c = q then space # mask_c_from Code cs
          else keep_newline c # mask_c_from (In_Quoted q) cs
      | [] \<Rightarrow> [if c = q then space else keep_newline c])"
| "mask_c_from Code (c # cs) =
     (let next = (case cs of d # _ \<Rightarrow> Some d | [] \<Rightarrow> None) in
      if c = CHR ''/'' \<and> next = Some (CHR ''/'') then space # mask_c_from In_Line_Comment cs
      else if c = CHR ''/'' \<and> next = Some (CHR ''*'') then space # mask_c_from In_Block_Comment cs
      else if c = dquote then space # mask_c_from (In_Quoted dquote) cs
      else if c = quote then space # mask_c_from (In_Quoted quote) cs
      else c # mask_c_from Code cs)"

definition mask_c :: "string \<Rightarrow> string" where
  "mask_c s = mask_c_from Code s"

text \<open>\<open>mask_fortran\<close>: the quote it is in, if any, and whether it is at a line start.\<close>

fun mask_fortran_from :: "char option \<Rightarrow> bool \<Rightarrow> bool \<Rightarrow> string \<Rightarrow> string" where
  "mask_fortran_from q ls cm [] = []"
| "mask_fortran_from q ls True (c # cs) =
     (if c = newline then c # mask_fortran_from None True False cs
      else space # mask_fortran_from q ls True cs)"
| "mask_fortran_from (Some q) ls False (c # cs) =
     (if c = newline then c # mask_fortran_from None True False cs
      else if c = q then
        (case cs of
           d # ds \<Rightarrow> if d = q then space # space # mask_fortran_from (Some q) ls False ds
                     else space # mask_fortran_from None ls False cs
         | [] \<Rightarrow> [space])
      else space # mask_fortran_from (Some q) ls False cs)"
| "mask_fortran_from None ls False (c # cs) =
     (if c = newline then c # mask_fortran_from None True False cs
      else if ls \<and> c \<in> {CHR ''C'', CHR ''c'', CHR ''*''} \<and> (cs = [] \<or> hd cs \<noteq> newline)
        then space # mask_fortran_from None ls True cs
      else if c = CHR ''!'' then space # mask_fortran_from None False True cs
      else if c \<in> {quote, dquote} then space # mask_fortran_from (Some c) False False cs
      else c # mask_fortran_from None False False cs)"

definition mask_fortran :: "string \<Rightarrow> string" where
  "mask_fortran s = mask_fortran_from None True False s"

definition mask_for :: "string option \<Rightarrow> string \<Rightarrow> string" where
  "mask_for lang s =
     (let l = lower (case lang of None \<Rightarrow> [] | Some x \<Rightarrow> x) in
      if starts_with ''f'' l \<or> l \<in> {''f90'', ''fortran''} then mask_fortran s else mask_c s)"

section \<open>The contract of an offset-preserving masker\<close>

text \<open>Every character stays in place or is blanked, and no newline is blanked.\<close>

definition blanked :: "char \<Rightarrow> char \<Rightarrow> bool" where
  "blanked a b = (b = a \<or> (b = space \<and> a \<noteq> newline))"

lemma blanked_refl [simp]: "blanked a a"
  by (simp add: blanked_def)

lemma blanked_space [simp]: "blanked a space \<longleftrightarrow> a \<noteq> newline"
  by (auto simp: blanked_def)

lemma blanked_keep [simp]: "blanked a (keep_newline a)"
  by (simp add: keep_newline_def)

text \<open>The line starts of a text, as \<open>SourceText.__init__\<close> collects them.\<close>

definition starts_of :: "string \<Rightarrow> nat list" where
  "starts_of s = 0 # map Suc (filter (\<lambda>i. s ! i = newline) [0..<length s])"

locale offset_masker =
  fixes mask :: "string \<Rightarrow> string"
  assumes pointwise: "list_all2 blanked s (mask s)"
begin

lemma length_mask [simp]: "length (mask s) = length s"
  using pointwise by (metis list_all2_lengthD)

lemma nth_mask: "i < length s \<Longrightarrow> mask s ! i = s ! i \<or> (mask s ! i = space \<and> s ! i \<noteq> newline)"
  using pointwise [of s] by (auto simp: list_all2_conv_all_nth blanked_def)

lemma mask_newline: "i < length s \<Longrightarrow> mask s ! i = newline \<longleftrightarrow> s ! i = newline"
  using nth_mask by fastforce

lemma mask_starts: "starts_of (mask s) = starts_of s"
proof -
  have "filter (\<lambda>i. mask s ! i = newline) [0..<length s] = filter (\<lambda>i. s ! i = newline) [0..<length s]"
    by (rule filter_cong) (auto simp: mask_newline)
  then show ?thesis by (simp add: starts_of_def)
qed

text \<open>A visible stretch of the masked text is original text.\<close>

lemma mask_slice:
  assumes "space \<notin> set (take (b - a) (drop a (mask s)))"
  shows "take (b - a) (drop a (mask s)) = take (b - a) (drop a s)"
proof (rule nth_equalityI)
  show "length (take (b - a) (drop a (mask s))) = length (take (b - a) (drop a s))" by simp
next
  fix i
  assume "i < length (take (b - a) (drop a (mask s)))"
  then have i: "i < b - a" "a + i < length s" by auto
  have "take (b - a) (drop a (mask s)) ! i \<in> set (take (b - a) (drop a (mask s)))"
    using i by (intro nth_mem) simp
  with assms have "mask s ! (a + i) \<noteq> space" using i by auto
  then show "take (b - a) (drop a (mask s)) ! i = take (b - a) (drop a s) ! i"
    using nth_mask [of "a + i" s] i by auto
qed

end

lemma mask_c_from_blanked: "m \<noteq> In_Quoted newline \<Longrightarrow> list_all2 blanked s (mask_c_from m s)"
proof (induction "length s" arbitrary: s m rule: less_induct)
  case less
  have IH: "length t < length s \<Longrightarrow> k \<noteq> In_Quoted newline \<Longrightarrow> list_all2 blanked t (mask_c_from k t)" for t k
    using less.hyps by blast
  show ?case
  proof (cases s)
    case (Cons c cs)
    show ?thesis
    proof (cases m)
      case Code
      have "mask_c_from Code (c # cs) \<in> {space # mask_c_from In_Line_Comment cs,
          space # mask_c_from In_Block_Comment cs, space # mask_c_from (In_Quoted dquote) cs,
          space # mask_c_from (In_Quoted quote) cs, c # mask_c_from Code cs} \<and>
        (c = newline \<longrightarrow> mask_c_from Code (c # cs) = c # mask_c_from Code cs)"
        by (simp add: Let_def)
      then show ?thesis using Code Cons IH [of cs] by (elim conjE insertE) auto
    next
      case In_Line_Comment
      then show ?thesis using Cons IH [of cs] by simp
    next
      case In_Block_Comment
      have "mask_c_from In_Block_Comment (c # cs) = keep_newline c # mask_c_from In_Block_Comment cs \<or>
        (\<exists>ds. c = CHR ''*'' \<and> cs = CHR ''/'' # ds \<and>
           mask_c_from In_Block_Comment (c # cs) = space # space # mask_c_from Code ds)"
        by (cases cs) (simp_all del: mask_c_from.simps(2, 4, 5))
      then show ?thesis using In_Block_Comment Cons IH by fastforce
    next
      case (In_Quoted q)
      show ?thesis
      proof (cases cs)
        case Nil
        then show ?thesis using In_Quoted Cons less.prems by auto
      next
        case (Cons d ds)
        have tail: "list_all2 blanked ds (mask_c_from m ds)" "list_all2 blanked cs (mask_c_from m cs)"
          "list_all2 blanked cs (mask_c_from Code cs)"
          using \<open>s = c # cs\<close> Cons less.prems by (simp_all add: IH del: mask_c_from.simps)
        have "mask_c_from m s = (if c = backslash then space # keep_newline d # mask_c_from m ds
            else if c = q then space # mask_c_from Code cs else keep_newline c # mask_c_from m cs)"
          unfolding \<open>s = c # cs\<close> In_Quoted Cons by (simp only: mask_c_from.simps list.case)
        then show ?thesis
          using tail In_Quoted less.prems \<open>s = c # cs\<close> Cons by (simp del: mask_c_from.simps)
      qed
    qed
  qed simp
qed

lemma mask_fortran_from_blanked: "list_all2 blanked s (mask_fortran_from q ls cm s)"
  by (induction q ls cm s rule: mask_fortran_from.induct) (auto split: list.splits)

interpretation c_mask: offset_masker mask_c
  by unfold_locales (simp add: mask_c_def mask_c_from_blanked)

interpretation fortran_mask: offset_masker mask_fortran
  by unfold_locales (simp add: mask_fortran_def mask_fortran_from_blanked)

interpretation lang_mask: offset_masker "mask_for lang" for lang
  by unfold_locales (simp add: mask_for_def Let_def c_mask.pointwise fortran_mask.pointwise)


section \<open>The index of one source text\<close>

record source_text =
  st_path :: string
  st_text :: string
  st_lang :: "string option"
  st_masked :: string
  st_starts :: "nat list"

definition mk_source :: "string \<Rightarrow> string \<Rightarrow> string option \<Rightarrow> source_text" where
  "mk_source path txt lang = \<lparr>st_path = path, st_text = txt, st_lang = lang,
     st_masked = mask_for lang txt, st_starts = starts_of txt\<rparr>"

definition line_count :: "source_text \<Rightarrow> nat" where
  "line_count src = length (st_starts src)"

definition line_text :: "source_text \<Rightarrow> int \<Rightarrow> string" where
  "line_text src line =
     (if line < 1 \<or> line > int (line_count src) then []
      else let start = st_starts src ! nat (line - 1);
               stop = (if line < int (line_count src) then st_starts src ! nat line - 1
                       else length (st_text src))
           in rstrip_of [CHR 13, newline] (take (stop - start) (drop start (st_text src))))"

text \<open>\<open>bisect_right\<close> on a sorted list.\<close>

definition bisect_right :: "nat list \<Rightarrow> nat \<Rightarrow> nat" where
  "bisect_right xs x = length (takeWhile (\<lambda>s. s \<le> x) xs)"

definition pos :: "source_text \<Rightarrow> nat \<Rightarrow> nat \<times> nat" where
  "pos src index =
     (let line = bisect_right (st_starts src) index
      in (line, index - st_starts src ! (line - 1) + 1))"

definition index_of :: "source_text \<Rightarrow> int \<Rightarrow> int \<Rightarrow> int option" where
  "index_of src line column =
     (if line < 1 \<or> line > int (line_count src) then None
      else let i = int (st_starts src ! nat (line - 1)) + column - 1 in
        if i > int (length (st_text src)) then None else Some i)"

text \<open>\<open>s[a:b]\<close>, negative bounds counted from the end.\<close>

definition py_slice :: "'a list \<Rightarrow> int \<Rightarrow> int \<Rightarrow> 'a list" where
  "py_slice s a b =
     (let n = int (length s);
          bound = (\<lambda>i. nat (if i < 0 then max 0 (i + n) else min i n))
      in take (bound b - bound a) (drop (bound a) s))"

definition slice_text :: "source_text \<Rightarrow> int \<Rightarrow> int \<Rightarrow> int \<Rightarrow> int \<Rightarrow> string" where
  "slice_text src sl sc el ec = (case (index_of src sl sc, index_of src el ec) of
     (Some i0, Some i1) \<Rightarrow> if i1 < i0 then [] else py_slice (st_text src) i0 (i1 + 1)
   | _ \<Rightarrow> [])"

subsection \<open>Identifier occurrences\<close>

definition ident_start :: "char \<Rightarrow> bool" where
  "ident_start c = (let n = code_point c in
     (65 \<le> n \<and> n \<le> 90) \<or> (97 \<le> n \<and> n \<le> 122) \<or> c = CHR ''_'')"

definition ident_part :: "char \<Rightarrow> bool" where
  "ident_part c = (let n = code_point c in
     ident_start c \<or> (48 \<le> n \<and> n \<le> 57) \<or> c = CHR ''$'')"

text \<open>\<open>_IDENT_RE.finditer\<close>: each identifier with its bounds, the end exclusive.\<close>

function ident_scan :: "nat \<Rightarrow> string \<Rightarrow> (string \<times> nat \<times> nat) list" where
  "ident_scan p [] = []"
| "ident_scan p (c # cs) =
     (if ident_start c then
        let w = c # takeWhile ident_part cs in
        (w, p, p + length w) # ident_scan (p + length w) (dropWhile ident_part cs)
      else ident_scan (Suc p) cs)"
  by pat_completeness auto

termination
  by (relation "measure (\<lambda>(p, s). length s)") (auto simp: length_dropWhile_le le_imp_less_Suc)

definition occurrences :: "source_text \<Rightarrow> (string, (nat \<times> nat) list) dict" where
  "occurrences src =
     map (\<lambda>(k, hits). (k, map snd hits)) (group_by fst (ident_scan 0 (st_masked src)))"

text \<open>
  \<open>occurrences_on_line\<close>. A line below minus the number of lines, an \<open>IndexError\<close> of the code
  when the name occurs, gives no hits here.
\<close>

definition occurrences_on_line :: "source_text \<Rightarrow> string \<Rightarrow> int \<Rightarrow> (nat \<times> nat) list" where
  "occurrences_on_line src name line =
     (if line < 1 \<or> line > int (line_count src) then []
      else let lo = st_starts src ! nat (line - 1);
               hi = (if line < int (line_count src) then st_starts src ! nat line
                     else length (st_text src))
           in filter (\<lambda>(a, b). lo \<le> a \<and> a < hi) (get_or (occurrences src) name []))"

definition identifier_at :: "source_text \<Rightarrow> nat \<Rightarrow> (string \<times> nat \<times> nat) option" where
  "identifier_at src index =
     (if index \<ge> length (st_masked src) then None
      else if \<not> ident_part (st_masked src ! index) then None
      else let a = index - length (takeWhile ident_part (rev (take index (st_masked src))));
               b = index + length (takeWhile ident_part (drop index (st_masked src)))
           in Some (take (b - a) (drop a (st_masked src)), a, b))"

subsection \<open>Brackets and statements\<close>

fun close_from :: "nat \<Rightarrow> nat \<Rightarrow> string \<Rightarrow> nat option" where
  "close_from i depth [] = None"
| "close_from i depth (c # cs) =
     (if c = CHR ''('' then close_from (Suc i) (Suc depth) cs
      else if c = CHR '')'' then
        (if depth - 1 = 0 then Some i else close_from (Suc i) (depth - 1) cs)
      else close_from (Suc i) depth cs)"

definition match_paren :: "source_text \<Rightarrow> nat \<Rightarrow> nat option" where
  "match_paren src open_index =
     (if open_index \<ge> length (st_masked src) \<or> st_masked src ! open_index \<noteq> CHR ''('' then None
      else close_from open_index 0 (drop open_index (st_masked src)))"

definition skip_over :: "char list \<Rightarrow> string \<Rightarrow> nat \<Rightarrow> nat" where
  "skip_over cs s i = i + length (takeWhile (\<lambda>c. c \<in> set cs) (drop i s))"

definition statement_start :: "source_text \<Rightarrow> nat \<Rightarrow> nat" where
  "statement_start src index =
     (let stop = (\<lambda>c. c \<in> {CHR '';'', CHR ''{'', CHR ''}'', newline});
          i = index - length (takeWhile (\<lambda>c. \<not> stop c) (rev (take index (st_masked src))))
      in skip_over [space, CHR 9] (st_masked src) i)"


subsection \<open>Line starts\<close>

lemma starts_sorted: "sorted_wrt (<) (starts_of s)"
  by (auto simp: starts_of_def sorted_wrt_map intro!: sorted_wrt_filter)

lemma starts_bound: "x \<in> set (starts_of s) \<Longrightarrow> x \<le> length s"
  by (auto simp: starts_of_def)

lemma starts_zero: "starts_of s ! 0 = 0" and starts_nonempty: "starts_of s \<noteq> []"
  by (simp_all add: starts_of_def)

lemma bisect_le: "bisect_right xs x \<le> length xs"
  by (simp add: bisect_right_def length_takeWhile_le)

lemma bisect_pos: "0 < bisect_right (starts_of s) x"
  by (simp add: bisect_right_def starts_of_def)

lemma bisect_below: "k < bisect_right xs x \<Longrightarrow> xs ! k \<le> x"
  unfolding bisect_right_def by (metis nth_mem set_takeWhileD takeWhile_nth)

lemma bisect_above: "bisect_right xs x < length xs \<Longrightarrow> x < xs ! bisect_right xs x"
  unfolding bisect_right_def using nth_length_takeWhile by (metis not_le)

lemma bisect_unique:
  assumes "sorted_wrt (<) xs" and "k < length xs" and "xs ! k \<le> x"
    and "Suc k < length xs \<Longrightarrow> x < xs ! Suc k"
  shows "bisect_right xs x = Suc k"
proof (rule antisym)
  show "bisect_right xs x \<le> Suc k"
  proof (rule ccontr)
    assume "\<not> ?thesis"
    then have lt: "Suc k < bisect_right xs x" by simp
    with bisect_below [OF lt] assms(4) bisect_le [of xs x] show False by simp
  qed
  show "Suc k \<le> bisect_right xs x"
  proof (rule ccontr)
    assume "\<not> ?thesis"
    then have le: "bisect_right xs x \<le> k" by simp
    then have "x < xs ! bisect_right xs x" using bisect_above [of xs x] assms(2) by simp
    also have "xs ! bisect_right xs x \<le> xs ! k"
      using le assms(1,2) by (metis le_neq_implies_less less_imp_le sorted_wrt_iff_nth_less order.refl)
    finally show False using assms(3) by simp
  qed
qed

subsection \<open>Positions\<close>

lemma mk_source_fields [simp]:
  "st_text (mk_source p t l) = t" "st_lang (mk_source p t l) = l" "st_path (mk_source p t l) = p"
  "st_masked (mk_source p t l) = mask_for l t" "st_starts (mk_source p t l) = starts_of t"
  by (simp_all add: mk_source_def)

lemma index_of_pos:
  assumes "i \<le> length t" and "pos (mk_source p t l) i = (line, col)"
  shows "index_of (mk_source p t l) (int line) (int col) = Some (int i) \<and> 1 \<le> line \<and> 1 \<le> col \<and>
    line \<le> line_count (mk_source p t l)"
proof -
  let ?L = "bisect_right (starts_of t) i"
  have L: "line = ?L" "col = i - starts_of t ! (?L - 1) + 1"
    using assms(2) by (auto simp: pos_def Let_def)
  have "0 < ?L" by (rule bisect_pos)
  moreover have "?L \<le> length (starts_of t)" by (rule bisect_le)
  moreover have "starts_of t ! (?L - 1) \<le> i" using bisect_pos [of t i] by (intro bisect_below) simp
  moreover have "nat (int ?L - 1) = ?L - 1" by simp
  ultimately show ?thesis using assms(1) L
    by (auto simp: index_of_def line_count_def Let_def of_nat_diff)
qed

lemma pos_index_of:
  assumes i: "index_of (mk_source p t l) (int line) (int col) = Some (int i)"
    and col: "1 \<le> col" and eol: "line < line_count (mk_source p t l) \<Longrightarrow> i < starts_of t ! line"
  shows "pos (mk_source p t l) i = (line, col)"
proof -
  from i have line: "1 \<le> line" "line \<le> length (starts_of t)"
    and at: "int i = int (starts_of t ! (line - 1)) + int col - 1"
    by (auto simp: index_of_def line_count_def Let_def nat_diff_distrib split: if_splits)
  have "bisect_right (starts_of t) i = Suc (line - 1)"
  proof (rule bisect_unique [OF starts_sorted])
    show "line - 1 < length (starts_of t)" using line by simp
    show "starts_of t ! (line - 1) \<le> i" using at col by linarith
    show "i < starts_of t ! Suc (line - 1)" if "Suc (line - 1) < length (starts_of t)"
      using that eol line by (simp add: line_count_def)
  qed
  moreover have "i - starts_of t ! (line - 1) + 1 = col" using at col by linarith
  ultimately show ?thesis using line by (simp add: pos_def Let_def)
qed

text \<open>The line number counts the newlines before the position.\<close>

lemma takeWhile_le_filter:
  "sorted_wrt (<) xs \<Longrightarrow> takeWhile (\<lambda>s. s \<le> x) xs = filter (\<lambda>s. s \<le> (x::nat)) xs"
proof (induction xs)
  case (Cons a xs)
  have "filter (\<lambda>s. s \<le> x) xs = []" if "\<not> a \<le> x"
    unfolding filter_empty_conv using that Cons.prems by fastforce
  with Cons show ?case by (cases "a \<le> x") simp_all
qed simp

lemma pos_line:
  assumes "i \<le> length t"
  shows "fst (pos (mk_source p t l) i) = Suc (length (filter (\<lambda>c. c = newline) (take i t)))"
proof -
  have "length (filter (\<lambda>c. c = newline) (take i t)) = length (filter (\<lambda>j. t ! j = newline) [0..<i])"
  proof -
    have "take i t = map ((!) t) [0..<i]" using assms by (intro nth_equalityI) auto
    then show ?thesis by (simp add: filter_map comp_def)
  qed
  also have "\<dots> = length (filter (\<lambda>j. Suc j \<le> i) (filter (\<lambda>j. t ! j = newline) [0..<length t]))"
  proof -
    have "[0..<length t] = [0..<i] @ [i..<length t]" using assms by (metis upt_add_eq_append le0 le_add_diff_inverse)
    then have "filter (\<lambda>j. Suc j \<le> i) (filter (\<lambda>j. t ! j = newline) [0..<length t]) =
      filter (\<lambda>j. t ! j = newline) [0..<i]"
      by (simp add: filter_empty_conv) (auto intro: filter_cong)
    then show ?thesis by simp
  qed
  also have "Suc \<dots> = bisect_right (starts_of t) i"
    unfolding bisect_right_def takeWhile_le_filter [OF starts_sorted]
    by (simp add: starts_of_def filter_map comp_def)
  finally show ?thesis by (simp add: pos_def Let_def)
qed


subsection \<open>Occurrences\<close>

lemma ident_part_space: "ident_part c \<Longrightarrow> c \<noteq> space"
  by (auto simp: ident_part_def ident_start_def)

lemma ident_start_part: "ident_start c \<Longrightarrow> ident_part c"
  by (simp add: ident_part_def)

text \<open>Every token is the text between its bounds, an identifier, and maximal to the right.\<close>

lemma ident_scan_sound:
  "(w, a, b) \<in> set (ident_scan p s) \<Longrightarrow>
     p \<le> a \<and> b = a + length w \<and> b \<le> p + length s \<and> w \<noteq> [] \<and>
     take (length w) (drop (a - p) s) = w \<and> list_all ident_part w \<and> ident_start (hd w) \<and>
     (a + length w < p + length s \<longrightarrow> \<not> ident_part (s ! (a + length w - p)))"
proof (induction p s arbitrary: w a b rule: ident_scan.induct)
  case (1 p)
  then show ?case by simp
next
  case (2 p c cs)
  show ?case
  proof (cases "ident_start c")
    case False
    with 2 have "(w, a, b) \<in> set (ident_scan (Suc p) cs)" by simp
    note IH = "2.IH" (2) [OF False this]
    have "a - p = Suc (a - Suc p)" and "a + length w - p = Suc (a + length w - Suc p)"
      using IH by linarith+
    then have "drop (a - p) (c # cs) = drop (a - Suc p) cs"
      "(c # cs) ! (a + length w - p) = cs ! (a + length w - Suc p)"
      by (simp_all only: drop_Suc_Cons nth_Cons_Suc)
    then show ?thesis using IH by simp
  next
    case True
    let ?w = "c # takeWhile ident_part cs" and ?r = "dropWhile ident_part cs"
    have len: "length ?w + length ?r = length (c # cs)"
      by (metis append_Cons length_append takeWhile_dropWhile_id)
    have r: "drop (length ?w) (c # cs) = ?r"
      by (simp add: dropWhile_eq_drop)
    show ?thesis
    proof (cases "(w, a, b) = (?w, p, p + length ?w)")
      case here: True
      have "take (length ?w) (c # cs) = ?w"
        by (metis append_Cons append_eq_conv_conj takeWhile_dropWhile_id)
      moreover have "list_all ident_part ?w"
        using True by (auto simp: ident_start_part list_all_iff dest: set_takeWhileD)
      moreover have "\<not> ident_part ((c # cs) ! length ?w)" if "length ?w < length (c # cs)"
        using that nth_length_takeWhile [of ident_part cs] by simp
      ultimately show ?thesis using here True len by auto
    next
      case False
      with "2.prems" True have m: "(w, a, b) \<in> set (ident_scan (p + length ?w) ?r)"
        by (auto simp: Let_def)
      note IH = "2.IH" (1) [OF True refl m]
      have a: "a - p = length ?w + (a - (p + length ?w))"
        and b: "a + length w - p = length ?w + (a + length w - (p + length ?w))" using IH by auto
      have "drop (a - p) (c # cs) = drop (a - (p + length ?w)) ?r"
        by (metis a add.commute drop_drop r)
      moreover have "(c # cs) ! (a + length w - p) = ?r ! (a + length w - (p + length ?w))"
      proof -
        have "length ?w \<le> length (c # cs)" using len by linarith
        then have "(c # cs) ! (length ?w + (a + length w - (p + length ?w))) =
            ?r ! (a + length w - (p + length ?w))"
          by (metis nth_drop r)
        then show ?thesis by (simp only: b)
      qed
      ultimately show ?thesis using IH len by simp
    qed
  qed
qed

lemma occurrences_get:
  "get_or (occurrences src) name [] =
     map snd (filter (\<lambda>t. fst t = name) (ident_scan 0 (st_masked src)))"
proof -
  have "get_or (map (\<lambda>(k, h). (k, map snd h)) d) name [] = map snd (get_or d name [])"
    for d :: "(string, (string \<times> nat \<times> nat) list) dict"
    by (induction d) (auto simp: get_or_def)
  then show ?thesis by (simp add: occurrences_def group_by_get)
qed

text \<open>An occurrence spells the name in the original text.\<close>

lemma occurrence_text:
  assumes "(a, b) \<in> set (get_or (occurrences (mk_source p t l)) name [])"
  shows "take (b - a) (drop a t) = name \<and> a < b \<and> b \<le> length t"
proof -
  have m: "(name, a, b) \<in> set (ident_scan 0 (mask_for l t))"
    using assms by (auto simp: occurrences_get)
  note snd = ident_scan_sound [OF m]
  have "space \<notin> set name" using snd ident_part_space by (auto simp: list_all_iff)
  moreover have "take (b - a) (drop a (mask_for l t)) = name" and "a < b" and "b \<le> length t"
    using snd by (simp_all add: lang_mask.length_mask)
  ultimately have "take (b - a) (drop a (mask_for l t)) = take (b - a) (drop a t)"
    by (intro lang_mask.mask_slice) simp
  then show ?thesis using \<open>take (b - a) (drop a (mask_for l t)) = name\<close> \<open>a < b\<close> \<open>b \<le> length t\<close>
    by (simp only:)
qed

lemma occurrences_on_line_sub:
  "h \<in> set (occurrences_on_line src name line) \<Longrightarrow> h \<in> set (get_or (occurrences src) name [])"
  by (auto simp: occurrences_on_line_def Let_def split: if_splits)

text \<open>An occurrence on a line starts on that line.\<close>

lemma occurrences_on_line_pos:
  assumes "(a, b) \<in> set (occurrences_on_line (mk_source p t l) name line)"
  shows "int (fst (pos (mk_source p t l) a)) = line"
proof -
  from assms have line: "1 \<le> line" "line \<le> int (length (starts_of t))"
    and lo: "starts_of t ! nat (line - 1) \<le> a"
    and hi: "line < int (length (starts_of t)) \<Longrightarrow> a < starts_of t ! nat line"
    by (auto simp: occurrences_on_line_def line_count_def Let_def split: if_splits)
  have "bisect_right (starts_of t) a = Suc (nat (line - 1))"
  proof (rule bisect_unique [OF starts_sorted])
    show "nat (line - 1) < length (starts_of t)" using line by linarith
    show "starts_of t ! nat (line - 1) \<le> a" by (rule lo)
    assume "Suc (nat (line - 1)) < length (starts_of t)"
    moreover have "Suc (nat (line - 1)) = nat line" using line by linarith
    ultimately show "a < starts_of t ! Suc (nat (line - 1))" using hi line by simp
  qed
  then show ?thesis using line by (simp add: pos_def Let_def)
qed

subsection \<open>Bracket matching\<close>

definition balance :: "string \<Rightarrow> int" where
  "balance s = int (length (filter (\<lambda>c. c = CHR ''('') s)) - int (length (filter (\<lambda>c. c = CHR '')'') s))"

lemma balance_Cons: "balance (c # cs) =
    (if c = CHR ''('' then 1 else if c = CHR '')'' then -1 else 0) + balance cs"
  by (simp add: balance_def)

lemma close_from_sound:
  assumes "close_from i d s = Some c" and "0 < d"
  shows "i \<le> c \<and> c < i + length s \<and> s ! (c - i) = CHR '')'' \<and>
    int d + balance (take (Suc c - i) s) = 0 \<and>
    (\<forall>k < c - i. 0 < int d + balance (take (Suc k) s))"
  using assms
proof (induction i d s arbitrary: c rule: close_from.induct)
  case (1 i d)
  then show ?case by simp
next
  case (2 i d ch cs)
  show ?case
  proof (cases "ch = CHR '')'' \<and> d - 1 = 0")
    case True
    then have "c = i" "d = 1" using "2.prems" by auto
    then show ?thesis using True by (simp add: balance_Cons) (simp add: balance_def)
  next
    case False
    let ?d = "if ch = CHR ''('' then Suc d else if ch = CHR '')'' then d - 1 else d"
    have d: "0 < ?d" "int ?d = int d + balance [ch]"
      using False "2.prems"(2) by (auto simp: balance_def)
    have rec: "close_from (Suc i) ?d cs = Some c" using "2.prems"(1) False by (auto split: if_splits)
    have IH: "Suc i \<le> c \<and> c < Suc i + length cs \<and> cs ! (c - Suc i) = CHR '')'' \<and>
      int ?d + balance (take (Suc c - Suc i) cs) = 0 \<and>
      (\<forall>k < c - Suc i. 0 < int ?d + balance (take (Suc k) cs))"
      using "2.IH" rec d(1) False by (cases "ch = CHR ''(''"; cases "ch = CHR '')''") auto
    have idx: "c - i = Suc (c - Suc i)" "Suc c - i = Suc (Suc c - Suc i)" using IH by auto
    have bal: "int d + balance (take (Suc m) (ch # cs)) = int ?d + balance (take m cs)" for m
      unfolding d(2) by (simp add: balance_Cons) (simp add: balance_def)
    have "0 < int d + balance (take (Suc k) (ch # cs))" if "k < c - i" for k
      using that IH d(1) idx(1) unfolding bal
      by (cases k) (auto simp: balance_def [of "[]"] simp del: take_Suc_Cons)
    then show ?thesis using IH idx bal [of "Suc c - Suc i"] by auto
  qed
qed

text \<open>Bracket matching finds the partner: the index returned holds a closing bracket, the stretch
  from the opening to it is balanced, and every shorter stretch still has an open bracket.\<close>

lemma match_paren_sound:
  assumes "match_paren src m = Some c"
  shows "m < c \<and> c < length (st_masked src) \<and> st_masked src ! m = CHR ''('' \<and>
    st_masked src ! c = CHR '')'' \<and>
    balance (take (Suc c - m) (drop m (st_masked src))) = 0 \<and>
    (\<forall>k. m \<le> k \<and> k < c \<longrightarrow> 0 < balance (take (Suc k - m) (drop m (st_masked src))))"
proof -
  let ?s = "drop m (st_masked src)"
  from assms have m: "m < length (st_masked src)" "st_masked src ! m = CHR ''(''"
    and cf: "close_from m 0 ?s = Some c" by (auto simp: match_paren_def split: if_splits)
  obtain cs where s: "?s = CHR ''('' # cs" using m by (metis Cons_nth_drop_Suc)
  have rec: "close_from (Suc m) 1 cs = Some c" using cf by (simp add: s)
  note snd = close_from_sound [OF rec]
  have len: "length cs = length (st_masked src) - Suc m" using arg_cong [OF s, of length] by simp
  have "st_masked src ! c = CHR '')''"
  proof -
    have "m + (c - m) = c" using snd by simp
    then have "st_masked src ! c = ?s ! (c - m)" using nth_drop [of m "st_masked src" "c - m"] m by simp
    also have "\<dots> = cs ! (c - Suc m)" using snd by (simp add: s)
    finally show ?thesis using snd by simp
  qed
  moreover have b: "balance (take (Suc k - m) ?s) = 1 + balance (take (k - m) cs)" if "m \<le> k" for k
    using that by (simp add: s Suc_diff_le balance_Cons)
  moreover have "0 < balance (take (Suc k - m) ?s)" if k: "m \<le> k" "k < c" for k
  proof (cases "k = m")
    case True
    then show ?thesis using b [of m] by (simp add: balance_def [of "[]"])
  next
    case False
    then have "k - m = Suc (k - Suc m)" "k - Suc m < c - Suc m" using k by auto
    then show ?thesis using b [OF k(1)] snd by simp
  qed
  ultimately show ?thesis using snd m len by auto
qed


lemma match_paren_sound_witness:
  "match_paren (mk_source ''a.c'' (''f(g(x), '' @ [quote, CHR '')'', quote, CHR '')'']) None) 1 = Some 11 \<and>
   balance (take 11 (drop 1 (mask_for None (''f(g(x), '' @ [quote, CHR '')'', quote, CHR '')''])))) = 0"
proof -
  have "match_paren (mk_source ''a.c'' (''f(g(x), '' @ [quote, CHR '')'', quote, CHR '')'']) None) 1 = Some 11" by code_simp
  from match_paren_sound [OF this] this show ?thesis by simp
qed

text \<open>Masking is offset-preserving for every language: the masked text has the length and the
  line starts of the original, each of its characters is the original one or a space, and no newline
  is ever blanked.\<close>

lemma mask_preserves_offsets:
  "length (mask_for lang s) = length s \<and> starts_of (mask_for lang s) = starts_of s \<and>
   list_all2 (\<lambda>a b. b = a \<or> (b = space \<and> a \<noteq> newline)) s (mask_for lang s)"
  using lang_mask.pointwise [of s lang]
  by (simp add: lang_mask.length_mask lang_mask.mask_starts blanked_def [abs_def])

text \<open>C39: positions round trip: a character index is mapped to the line that counts the newlines
  before it, to a column from 1, and index_of maps that line and column back to the index.\<close>

lemma position_roundtrip:
  assumes "i \<le> length t"
  shows "fst (pos (mk_source p t l) i) = Suc (length (filter (\<lambda>c. c = newline) (take i t))) \<and>
    1 \<le> snd (pos (mk_source p t l) i) \<and>
    index_of (mk_source p t l) (int (fst (pos (mk_source p t l) i))) (int (snd (pos (mk_source p t l) i)))
      = Some (int i)"
proof -
  obtain line col where p: "pos (mk_source p t l) i = (line, col)" by (cases "pos (mk_source p t l) i")
  from pos_line [OF assms, of p l] index_of_pos [OF assms p] p show ?thesis by simp
qed

lemma position_roundtrip_witness:
  "fst (pos (mk_source ''a.c'' [CHR ''a'', newline, CHR ''b''] None) 2) = 2"
  using position_roundtrip [of 2 "[CHR ''a'', newline, CHR ''b'']" "''a.c''" None] by simp

section \<open>Block comments\<close>

text \<open>Where the first closer of a text stands.\<close>

fun holds_closer :: "string \<Rightarrow> bool" where
  "holds_closer (c # d # cs) = (c = CHR ''*'' \<and> d = CHR ''/'' \<or> holds_closer (d # cs))"
| "holds_closer _ = False"

lemma block_step:
  "mask_c_from In_Block_Comment (c # d # cs) = (if c = CHR ''*'' \<and> d = CHR ''/'' then space # space # mask_c_from Code cs
     else keep_newline c # mask_c_from In_Block_Comment (d # cs))"
  by simp

lemma block_body:
  assumes "\<not> holds_closer b"
  shows "mask_c_from In_Block_Comment (b @ ''*/'' @ t) = map keep_newline b @ ''  '' @ mask_c t"
  using assms
proof (induction b rule: holds_closer.induct)
  case (1 c d cs)
  then have "\<not> (c = CHR ''*'' \<and> d = CHR ''/'')" and "\<not> holds_closer (d # cs)" by auto
  then show ?case using 1(1) unfolding append_Cons block_step by auto
qed (simp_all add: mask_c_def)

text \<open>C40: a block comment is blanked up to its closer, its line breaks kept, and scanning goes on after it; only
  a comment whose text begins with a slash ends at that slash, and the rest of it is scanned as code.\<close>

theorem block_comment_masked:
  assumes "\<not> holds_closer b"
  shows "mask_c (''/*'' @ b @ ''*/'' @ t) =
     (if b \<noteq> [] \<and> hd b = CHR ''/'' then ''   '' @ mask_c (tl b @ ''*/'' @ t)
      else ''  '' @ map keep_newline b @ ''  '' @ mask_c t)"
proof (cases "b \<noteq> [] \<and> hd b = CHR ''/''")
  case True
  then obtain rest where "b = CHR ''/'' # rest" by (cases b) auto
  then show ?thesis by (simp add: mask_c_def)
next
  case False
  then have "\<not> holds_closer (CHR ''*'' # b)" using assms by (cases b) auto
  from block_body [OF this, of t] have "mask_c_from In_Block_Comment (CHR ''*'' # b @ ''*/'' @ t) =
      keep_newline (CHR ''*'') # map keep_newline b @ ''  '' @ mask_c t" by simp
  moreover have "mask_c (''/*'' @ b @ ''*/'' @ t) = space # mask_c_from In_Block_Comment (CHR ''*'' # b @ ''*/'' @ t)"
    by (simp add: mask_c_def del: mask_c_from.simps(3))
  ultimately show ?thesis using False by (auto simp: keep_newline_def)
qed

theorem block_comment_masked_witness:
  "mask_c ''/*/ x */ y'' = ''    x */ y'' \<and> mask_c ''/* x */ y'' = ''        y''"
proof
  have "mask_c (''/*'' @ ''/ x '' @ ''*/'' @ '' y'') = ''   '' @ mask_c ('' x '' @ ''*/'' @ '' y'')"
    by (subst block_comment_masked) simp_all
  then show "mask_c ''/*/ x */ y'' = ''    x */ y''" by (simp add: mask_c_def)
  have "mask_c (''/*'' @ '' x '' @ ''*/'' @ '' y'') = ''  '' @ map keep_newline '' x '' @ ''  '' @ mask_c '' y''"
    by (subst block_comment_masked) simp_all
  then show "mask_c ''/* x */ y'' = ''        y''" by (simp add: mask_c_def keep_newline_def)
qed

end
