(* ===== verification/Source_Span.thy ===== *)
theory Source_Span
  imports Source_Text Json
begin

text \<open>
  The canonical span shape (\<open>source_span/model.py\<close>) and the resolvers that recover it from
  the original text (\<open>source_span/resolve.py\<close>).
\<close>

section \<open>The span shape\<close>

definition range_precisions :: "string list" where
  "range_precisions = [''EXACT'', ''PARTIAL'']"

text \<open>\<open>a or b\<close>.\<close>

definition jor :: "json \<Rightarrow> json \<Rightarrow> json" where
  "jor a b = (if truthy a then a else b)"

definition format_span :: "jdict \<Rightarrow> string" where
  "format_span sp =
     (if sp = [] then ''UNKNOWN''
      else let f = jget sp ''file''; sl = jget sp ''start_line'' in
        if \<not> truthy f \<or> \<not> truthy sl then ''UNKNOWN''
        else let sc = jget sp ''start_column''; ec = jget sp ''end_column'';
                 el = jor (jget sp ''end_line'') sl
          in if jget sp ''precision'' \<in> JStr ` set range_precisions \<and> truthy sc \<and> truthy ec then
               (if el \<noteq> sl
                then py_str f @ '':'' @ py_str sl @ '':'' @ py_str sc @ ''-'' @ py_str el @ '':'' @ py_str ec
                else py_str f @ '':'' @ py_str sl @ '':'' @ py_str sc @ ''-'' @ py_str ec)
             else py_str f @ '':'' @ py_str sl)"

text \<open>The fields hold what the producer gave; \<open>None\<close> is \<^const>\<open>JNull\<close>.\<close>

record source_span =
  sp_file :: json
  sp_start_line :: json
  sp_start_column :: json
  sp_end_line :: json
  sp_end_column :: json
  sp_span_kind :: json
  sp_precision :: json
  sp_evidence :: jdict

definition span_base :: "source_span \<Rightarrow> jdict" where
  "span_base s = [
     (''file'', sp_file s),
     (''start_line'', sp_start_line s),
     (''start_column'', sp_start_column s),
     (''end_line'', sp_end_line s),
     (''end_column'', sp_end_column s),
     (''span_kind'', sp_span_kind s),
     (''precision'', sp_precision s),
     (''evidence'', JObj (sp_evidence s))]"

definition span_to_dict :: "source_span \<Rightarrow> jdict" where
  "span_to_dict s = span_base s @ [(''text'', JStr (format_span (span_base s)))]"

definition span_text :: "source_span \<Rightarrow> string" where
  "span_text s = format_span (span_to_dict s)"

definition has_range :: "source_span \<Rightarrow> bool" where
  "has_range s = (sp_precision s \<in> JStr ` set range_precisions \<and>
     sp_start_column s \<noteq> JNull \<and> sp_end_column s \<noteq> JNull)"

text \<open>\<open>SourceSpan.from_dict\<close>; an evidence value that is not a mapping counts as empty.\<close>

definition span_from_dict :: "jdict \<Rightarrow> source_span option" where
  "span_from_dict d =
     (if d = [] then None
      else Some \<lparr>sp_file = jget d ''file'', sp_start_line = jget d ''start_line'',
        sp_start_column = jget d ''start_column'',
        sp_end_line = jor (jget d ''end_line'') (jget d ''start_line''),
        sp_end_column = jget d ''end_column'',
        sp_span_kind = jor (jget d ''span_kind'') (JStr ''REFERENCE''),
        sp_precision = jor (jget d ''precision'') (JStr ''UNKNOWN''),
        sp_evidence = (case jget d ''evidence'' of JObj e \<Rightarrow> e | _ \<Rightarrow> [])\<rparr>)"

definition make_span :: "json \<Rightarrow> json \<Rightarrow> json \<Rightarrow> json \<Rightarrow> json \<Rightarrow> string \<Rightarrow> string \<Rightarrow> jdict \<Rightarrow> jdict" where
  "make_span file start_line start_column end_line end_column span_kind precision evidence =
     (let (p, sc, el, ec) =
        (if start_line = JNull then (''UNKNOWN'', JNull, JNull, JNull)
         else if start_column = JNull \<or> end_column = JNull then
           ((if truthy file then ''LINE_ONLY'' else ''UNKNOWN''), JNull, start_line, JNull)
         else (precision, start_column, end_line, end_column))
      in span_to_dict \<lparr>sp_file = file, sp_start_line = start_line, sp_start_column = sc,
           sp_end_line = jor el start_line, sp_end_column = ec, sp_span_kind = JStr span_kind,
           sp_precision = JStr p, sp_evidence = evidence\<rparr>)"

definition line_only :: "json \<Rightarrow> json \<Rightarrow> string \<Rightarrow> jdict \<Rightarrow> jdict" where
  "line_only file line span_kind evidence =
     make_span file line JNull line JNull span_kind
       (if truthy file \<and> truthy line then ''LINE_ONLY'' else ''UNKNOWN'') evidence"

definition unknown_span :: "string \<Rightarrow> jdict \<Rightarrow> jdict" where
  "unknown_span span_kind evidence =
     make_span JNull JNull JNull JNull JNull span_kind ''UNKNOWN'' evidence"

text \<open>A made span claims a character range only when it has both columns.\<close>

lemma span_to_dict_get:
  "jget (span_to_dict s) ''file'' = sp_file s"
  "jget (span_to_dict s) ''start_line'' = sp_start_line s"
  "jget (span_to_dict s) ''start_column'' = sp_start_column s"
  "jget (span_to_dict s) ''end_line'' = sp_end_line s"
  "jget (span_to_dict s) ''end_column'' = sp_end_column s"
  "jget (span_to_dict s) ''span_kind'' = sp_span_kind s"
  "jget (span_to_dict s) ''precision'' = sp_precision s"
  "jget (span_to_dict s) ''evidence'' = JObj (sp_evidence s)"
  "jget (span_to_dict s) ''text'' = JStr (format_span (span_base s))"
  by (simp_all add: span_to_dict_def span_base_def jget_def get_or_def)

lemma span_base_get:
  "jget (span_base s) ''file'' = sp_file s"
  "jget (span_base s) ''start_line'' = sp_start_line s"
  "jget (span_base s) ''start_column'' = sp_start_column s"
  "jget (span_base s) ''end_line'' = sp_end_line s"
  "jget (span_base s) ''end_column'' = sp_end_column s"
  "jget (span_base s) ''precision'' = sp_precision s"
  by (simp_all add: span_base_def jget_def get_or_def)

lemma span_base_nonempty: "span_base s \<noteq> []" and span_to_dict_nonempty: "span_to_dict s \<noteq> []"
  by (simp_all add: span_base_def span_to_dict_def)

text \<open>A canonical span claims a trustworthy range (EXACT or PARTIAL) only when its line and both
  columns are known, and then it is exactly the range and precision its producer gave; anything less is
  demoted.\<close>

lemma make_span_range:
  assumes "jget (make_span f sl sc el ec k p ev) ''precision'' \<in> JStr ` set range_precisions"
  shows "sl \<noteq> JNull \<and> sc \<noteq> JNull \<and> ec \<noteq> JNull \<and>
    jget (make_span f sl sc el ec k p ev) ''precision'' = JStr p \<and>
    jget (make_span f sl sc el ec k p ev) ''start_line'' = sl \<and>
    jget (make_span f sl sc el ec k p ev) ''start_column'' = sc \<and>
    jget (make_span f sl sc el ec k p ev) ''end_column'' = ec"
proof -
  have no: "JStr ''UNKNOWN'' \<notin> JStr ` set range_precisions"
    "JStr ''LINE_ONLY'' \<notin> JStr ` set range_precisions" by (auto simp: range_precisions_def)
  have "sl \<noteq> JNull" using assms no by (auto simp: make_span_def span_to_dict_get)
  moreover have "sc \<noteq> JNull \<and> ec \<noteq> JNull"
    using assms no \<open>sl \<noteq> JNull\<close>
    by (simp add: make_span_def span_to_dict_get split: if_splits)
  ultimately show ?thesis by (simp add: make_span_def span_to_dict_get)
qed

lemma make_span_text:
  "jget (make_span f sl sc el ec k p ev) ''text'' =
   JStr (format_span (make_span f sl sc el ec k p ev))"
proof -
  have "format_span (span_base s) = format_span (span_to_dict s)" for s
    by (simp only: format_span_def Let_def span_base_get span_to_dict_get span_base_nonempty
        span_to_dict_nonempty)
  then show ?thesis by (simp add: make_span_def Let_def span_to_dict_get split: if_splits)
qed

text \<open>A span with the values a producer emits survives the dictionary form.\<close>

lemma span_dict_roundtrip:
  assumes "truthy (sp_end_line s) \<or> (sp_end_line s = sp_start_line s)"
    and "truthy (sp_span_kind s)" and "truthy (sp_precision s)"
  shows "span_from_dict (span_to_dict s) = Some s"
proof -
  have "span_to_dict s \<noteq> []" by (simp add: span_to_dict_def span_base_def)
  moreover have "jor (sp_end_line s) (sp_start_line s) = sp_end_line s" using assms(1) by (auto simp: jor_def)
  ultimately show ?thesis
    using assms(2,3) by (simp add: span_from_dict_def span_to_dict_get) (simp add: jor_def)
qed


section \<open>Occurrence lookup\<close>

definition fortran_langs :: "string list" where
  "fortran_langs = [''fortran'', ''f77'', ''f90'', ''f95'', ''for'', ''f'']"

definition is_fortran :: "string option \<Rightarrow> bool" where
  "is_fortran lang = (case lang of None \<Rightarrow> False | Some l \<Rightarrow> l \<noteq> [] \<and> lower l \<in> set fortran_langs)"

definition occ_on_line :: "source_text \<Rightarrow> string \<Rightarrow> int \<Rightarrow> (nat \<times> nat) list" where
  "occ_on_line src name line =
     (let hits = occurrences_on_line src name line in
      if hits \<noteq> [] \<or> \<not> is_fortran (st_lang src) then hits
      else sort (concat (map (\<lambda>(nm, _). if lower nm = lower name
                                then occurrences_on_line src nm line else [])
                   (occurrences src))))"

definition blanks :: "char list" where
  "blanks = [space, CHR 9, newline, CHR 13]"

definition call_like :: "source_text \<Rightarrow> nat \<times> nat \<Rightarrow> bool" where
  "call_like src hit = (let i = skip_over blanks (st_masked src) (snd hit) in
     i < length (st_masked src) \<and> st_masked src ! i = CHR ''('')"

definition filter_hits :: "source_text \<Rightarrow> (nat \<times> nat) list \<Rightarrow> string option \<Rightarrow> (nat \<times> nat) list \<Rightarrow>
    (nat \<times> nat) list" where
  "filter_hits src hits0 prefer exclude =
     (let kept = filter (\<lambda>h. \<not> list_ex (\<lambda>(a, b). fst h \<ge> a \<and> snd h \<le> b) exclude) hits0;
          hits = (if exclude \<noteq> [] \<and> hits0 \<noteq> [] \<and> kept \<noteq> [] then kept else hits0)
      in if prefer = None \<or> prefer = Some [] \<or> length hits \<le> 1 then hits
         else let sub = (if prefer = Some ''call_like'' then filter (call_like src) hits
                         else if prefer = Some ''non_call_like''
                           then filter (\<lambda>h. \<not> call_like src h) hits
                         else hits)
           in if sub \<noteq> [] then sub else hits)"

definition pick :: "(nat \<times> nat) list \<Rightarrow> int option \<Rightarrow> nat option \<Rightarrow>
    (nat \<times> nat) option \<times> string \<times> string \<times> nat option" where
  "pick hits occurrence group_size =
     (let m = length hits;
          n = (case group_size of None \<Rightarrow> 1 | Some g \<Rightarrow> if g = 0 then 1 else g)
      in if m = 0 then (None, ''none'', ''identifier_not_found_on_line'', None)
         else case occurrence of
           Some k \<Rightarrow>
             if 0 \<le> k \<and> k < int m then
               (Some (hits ! nat k), if n = m then ''EXACT'' else ''PARTIAL'',
                if n = m then ''positional'' else ''positional_subset'', Some (nat k))
             else if m = 1 then (Some (hits ! 0), ''EXACT'', ''unique'', Some 0)
             else (Some (hits ! 0), ''PARTIAL'', ''ambiguous_first'', Some 0)
         | None \<Rightarrow>
             if m = 1 then (Some (hits ! 0), ''EXACT'', ''unique'', Some 0)
             else (Some (hits ! 0), ''PARTIAL'', ''ambiguous_first'', Some 0))"

definition jnat :: "nat \<Rightarrow> json" where
  "jnat n = JInt (int n)"

text \<open>\<open>ev.update(extra)\<close>: the extra keys are new.\<close>

definition line_only_at :: "source_text \<Rightarrow> int \<Rightarrow> string \<Rightarrow> string \<Rightarrow> jdict \<Rightarrow> jdict" where
  "line_only_at src line kind why extra =
     make_span (JStr (st_path src)) (JInt line) JNull (JInt line) JNull kind ''LINE_ONLY''
       (fold (\<lambda>(k, v). dict_set k v) extra
         [(''method'', JStr ''identifier_scan''), (''reason'', JStr why),
          (''source'', JStr ''original''), (''lang'', jopt JStr (st_lang src))])"

section \<open>Statement bounds\<close>

fun back_scan :: "bool \<Rightarrow> string \<Rightarrow> nat \<Rightarrow> nat \<Rightarrow> nat \<Rightarrow> nat" where
  "back_scan fortran s floor depth 0 = 0"
| "back_scan fortran s floor depth (Suc i) =
     (if Suc i \<le> floor then Suc i
      else let c = s ! i in
        if c = CHR '')'' then back_scan fortran s floor (Suc depth) i
        else if c = CHR ''('' then back_scan fortran s floor (depth - 1) i
        else if depth = 0 \<and> c \<in> {CHR '';'', CHR ''{'', CHR ''}''} then Suc i
        else if depth = 0 \<and> fortran \<and> c = newline then Suc i
        else back_scan fortran s floor depth i)"

definition statement_start_before :: "source_text \<Rightarrow> nat \<Rightarrow> nat" where
  "statement_start_before src index =
     (let fortran = is_fortran (st_lang src);
          i = back_scan fortran (st_masked src) (index - 4000) 0 index
      in skip_over (if fortran then [space, CHR 9] else blanks) (st_masked src) i)"

fun terminator_scan :: "bool \<Rightarrow> nat \<Rightarrow> nat \<Rightarrow> nat \<Rightarrow> string \<Rightarrow> nat option" where
  "terminator_scan fortran index depth i [] = None"
| "terminator_scan fortran index depth i (c # cs) =
     (if c = CHR ''('' then terminator_scan fortran index (Suc depth) (Suc i) cs
      else if c = CHR '')'' then terminator_scan fortran index (depth - 1) (Suc i) cs
      else if depth = 0 \<and> c = CHR '';'' then Some i
      else if depth = 0 \<and> c = newline then
        (if fortran then Some i else terminator_scan fortran index depth (Suc i) cs)
      else if depth = 0 \<and> c = CHR ''{'' then Some i
      else if depth = 0 \<and> c = CHR ''}'' \<and> index < i then None
      else terminator_scan fortran index depth (Suc i) cs)"

definition statement_terminator :: "source_text \<Rightarrow> nat \<Rightarrow> nat option" where
  "statement_terminator src index =
     terminator_scan (is_fortran (st_lang src)) index 0 index (drop index (st_masked src))"

definition statement_window :: "source_text \<Rightarrow> int \<Rightarrow> (nat \<times> nat) option" where
  "statement_window src line = (case index_of src line 1 of
     None \<Rightarrow> None
   | Some i \<Rightarrow>
       let i0 = skip_over blanks (st_masked src) (nat i) in
       Some (i0, case statement_terminator src i0 of
         Some term \<Rightarrow> term + 1
       | None \<Rightarrow> min (length (st_masked src)) (i0 + 4000)))"

definition window_hits :: "source_text \<Rightarrow> string \<Rightarrow> int \<Rightarrow> (nat \<times> nat) list" where
  "window_hits src name line = (case statement_window src line of
     None \<Rightarrow> []
   | Some (a, b) \<Rightarrow> filter (\<lambda>(x, y). x \<ge> a \<and> y \<le> b) (get_or (occurrences src) name []))"

text \<open>\<open>while end > start and masked[end] in " \t\n\r": end -= 1\<close>.\<close>

fun trim_end :: "string \<Rightarrow> nat \<Rightarrow> nat \<Rightarrow> nat" where
  "trim_end s start 0 = 0"
| "trim_end s start (Suc e) =
     (if start < Suc e \<and> s ! Suc e \<in> set blanks then trim_end s start e else Suc e)"

section \<open>Resolvers\<close>

definition span_at :: "source_text \<Rightarrow> nat \<Rightarrow> nat \<Rightarrow> string \<Rightarrow> string \<Rightarrow> jdict \<Rightarrow> jdict" where
  "span_at src a b kind prec ev =
     (let (sl, sc) = pos src a; (el, ec) = pos src b in
      make_span (JStr (st_path src)) (jnat sl) (jnat sc) (jnat el) (jnat ec) kind prec ev)"

definition group_or_one :: "nat option \<Rightarrow> json" where
  "group_or_one g = jnat (case g of None \<Rightarrow> 1 | Some n \<Rightarrow> if n = 0 then 1 else n)"

definition identifier_hits :: "source_text \<Rightarrow> string \<Rightarrow> int \<Rightarrow> string option \<Rightarrow> (nat \<times> nat) list \<Rightarrow>
    bool \<Rightarrow> (nat \<times> nat) list" where
  "identifier_hits src name line prefer exclude forward =
     (let hits = filter_hits src (occ_on_line src name line) prefer exclude in
      if hits = [] \<and> forward then filter_hits src (window_hits src name line) prefer exclude
      else hits)"

definition resolve_identifier :: "source_text \<Rightarrow> int \<Rightarrow> string \<Rightarrow> string \<Rightarrow> int option \<Rightarrow> nat option \<Rightarrow>
    string option \<Rightarrow> (nat \<times> nat) list \<Rightarrow> bool \<Rightarrow> jdict" where
  "resolve_identifier src line name kind occurrence group_size prefer exclude forward =
     (let hits = identifier_hits src name line prefer exclude forward in
      case pick hits occurrence group_size of
        (None, prec, why, picked) \<Rightarrow>
          line_only_at src line kind why
            [(''name'', JStr name), (''occurrences_on_line'', JInt 0)]
      | (Some (a, b), prec, why, picked) \<Rightarrow>
          span_at src a (b - 1) kind prec
            [(''method'', JStr (if int (fst (pos src a)) = line then ''identifier_scan''
                                else ''declaration_forward_scan'')),
             (''source'', JStr ''original''), (''lang'', jopt JStr (st_lang src)),
             (''name'', JStr name), (''recorded_line'', JInt line),
             (''occurrences_on_line'', jnat (length hits)),
             (''group_size'', group_or_one group_size), (''pick'', JStr why),
             (''prefer'', jopt JStr prefer), (''occurrence'', jopt jnat picked)])"

definition resolve_call :: "source_text \<Rightarrow> int \<Rightarrow> string \<Rightarrow> string \<Rightarrow> int option \<Rightarrow> nat option \<Rightarrow>
    string option \<Rightarrow> (nat \<times> nat) list \<Rightarrow> jdict option" where
  "resolve_call src line name kind occurrence group_size prefer exclude =
     (let hits = filter_hits src (occ_on_line src name line) prefer exclude in
      case pick hits occurrence group_size of
        (None, prec, why, picked) \<Rightarrow> None
      | (Some (a, b), prec, why, picked) \<Rightarrow>
          let i = skip_over blanks (st_masked src) b in
          if i \<ge> length (st_masked src) \<or> st_masked src ! i \<noteq> CHR ''('' then None
          else case match_paren src i of
            None \<Rightarrow> None
          | Some close \<Rightarrow> Some (span_at src a close kind prec
              [(''method'', JStr ''paren_match''), (''source'', JStr ''original''),
               (''lang'', jopt JStr (st_lang src)), (''name'', JStr name),
               (''occurrences_on_line'', jnat (length hits)),
               (''group_size'', group_or_one group_size), (''pick'', JStr why),
               (''prefer'', jopt JStr prefer), (''occurrence'', jopt jnat picked),
               (''multiline'', JBool (fst (pos src close) \<noteq> fst (pos src a)))]))"

definition resolve_declaration :: "source_text \<Rightarrow> int \<Rightarrow> string \<Rightarrow> string \<Rightarrow> int option \<Rightarrow> nat option \<Rightarrow>
    bool option \<Rightarrow> string option \<Rightarrow> (nat \<times> nat) list \<Rightarrow> bool \<Rightarrow> jdict" where
  "resolve_declaration src line name kind occurrence group_size include_terminator prefer exclude
     forward =
     (let hits = identifier_hits src name line prefer exclude forward in
      case pick hits occurrence group_size of
        (None, prec, why, picked) \<Rightarrow> line_only_at src line kind why [(''name'', JStr name)]
      | (Some (a, b), prec, why, picked) \<Rightarrow>
          let start = statement_start_before src a;
              (last, inc) = (case statement_terminator src b of
                  None \<Rightarrow> (length (st_masked src) - 1, False)
                | Some term \<Rightarrow>
                    let inc = (case include_terminator of
                        None \<Rightarrow> kind = ''DATA_DECLARATION'' | Some i \<Rightarrow> i)
                    in (if inc then term else term - 1, inc));
              stop = max (trim_end (st_masked src) start last) start
          in span_at src start stop kind prec
               [(''method'', JStr ''declaration_scan''), (''source'', JStr ''original''),
                (''lang'', jopt JStr (st_lang src)), (''name'', JStr name),
                (''terminator_included'', JBool inc),
                (''occurrences_on_line'', jnat (length hits)),
                (''group_size'', group_or_one group_size), (''pick'', JStr why),
                (''prefer'', jopt JStr prefer), (''occurrence'', jopt jnat picked),
                (''multiline'', JBool (fst (pos src stop) \<noteq> fst (pos src start)))])"

definition resolve_statement :: "source_text \<Rightarrow> int \<Rightarrow> string \<Rightarrow> jdict" where
  "resolve_statement src line kind =
     (if line < 1 \<or> line > int (line_count src)
        then line_only_at src line kind ''line_out_of_range'' []
      else let txt = line_text src line in
        if blank txt then line_only_at src line kind ''blank_line'' []
        else let first = length (takeWhile (\<lambda>c. c \<in> {space, CHR 9}) txt) in
          case index_of src line (int first + 1) of
            None \<Rightarrow> line_only_at src line kind ''line_out_of_range'' []
          | Some i \<Rightarrow>
              let idx = statement_start_before src (nat i);
                  rest = takeWhile (\<lambda>c. c \<noteq> newline) (drop idx (st_masked src))
              in if blank rest then line_only_at src line kind ''blank_or_comment_line'' []
                 else let stop = (case statement_terminator src idx of
                        None \<Rightarrow> trim_end (st_masked src) idx (length (st_masked src) - 1)
                      | Some term \<Rightarrow> term)
                   in span_at src idx stop kind ''PARTIAL''
                     [(''method'', JStr ''probe_line_statement''), (''source'', JStr ''original''),
                      (''lang'', jopt JStr (st_lang src)), (''recorded_line'', JInt line),
                      (''multiline'', JBool (fst (pos src stop) \<noteq> fst (pos src idx))),
                      (''note'', JStr (''record carries line only; range is the whole statement ''
                         @ ''containing that line (multi-line aware)''))])"

section \<open>What a recovered range means\<close>

lemma filter_hits_sub: "set (filter_hits src hits prefer exclude) \<subseteq> set hits"
  by (auto simp: filter_hits_def Let_def)

lemma pick_cases:
  assumes "pick hits occurrence group_size = (Some h, prec, why, picked)"
  shows "h \<in> set hits \<and> prec \<in> {''EXACT'', ''PARTIAL''} \<and>
    (prec = ''EXACT'' \<longrightarrow> length hits = 1 \<or>
       (\<exists>k. occurrence = Some k \<and> 0 \<le> k \<and> k < int (length hits) \<and> h = hits ! nat k \<and>
          group_or_one group_size = jnat (length hits)))"
  using assms
  by (auto simp: pick_def Let_def group_or_one_def split: option.splits if_splits)

lemma occ_on_line_case:
  assumes "h \<in> set (occ_on_line src name line)"
  shows "\<exists>nm. h \<in> set (get_or (occurrences src) nm []) \<and>
    (nm = name \<or> (is_fortran (st_lang src) \<and> lower nm = lower name))"
  using assms
  by (auto simp: occ_on_line_def Let_def split: if_splits dest: occurrences_on_line_sub)

lemma identifier_hits_case:
  assumes "h \<in> set (identifier_hits src name line prefer exclude forward)"
  shows "\<exists>nm. h \<in> set (get_or (occurrences src) nm []) \<and>
    (nm = name \<or> (is_fortran (st_lang src) \<and> lower nm = lower name))"
proof -
  from assms have "h \<in> set (occ_on_line src name line) \<or> h \<in> set (window_hits src name line)"
    unfolding identifier_hits_def Let_def using filter_hits_sub by (fastforce split: if_splits)
  then show ?thesis
  proof
    assume "h \<in> set (occ_on_line src name line)"
    then show ?thesis by (rule occ_on_line_case)
  next
    assume "h \<in> set (window_hits src name line)"
    then show ?thesis by (auto simp: window_hits_def split: option.splits)
  qed
qed

lemma hit_text:
  assumes "(a, b) \<in> set (identifier_hits (mk_source p t l) name line prefer exclude forward)"
  shows "a < b \<and> b \<le> length t \<and> (take (b - a) (drop a t) = name \<or>
    (is_fortran l \<and> lower (take (b - a) (drop a t)) = lower name))"
proof -
  from identifier_hits_case [OF assms] obtain nm where
    nm: "(a, b) \<in> set (get_or (occurrences (mk_source p t l)) nm [])"
    and same: "nm = name \<or> (is_fortran l \<and> lower nm = lower name)" by auto
  from occurrence_text [OF nm] same show ?thesis by auto
qed

text \<open>The text a span of two positions covers.\<close>

lemma py_slice_nat: "a \<le> b \<Longrightarrow> b \<le> length s \<Longrightarrow> py_slice s (int a) (int b) = take (b - a) (drop a s)"
  by (simp add: py_slice_def Let_def)

lemma slice_between:
  assumes "a < b" and "b \<le> length t" and "pos (mk_source p t l) a = (sl, sc)"
    and "pos (mk_source p t l) (b - 1) = (el, ec)"
  shows "slice_text (mk_source p t l) (int sl) (int sc) (int el) (int ec) = take (b - a) (drop a t)"
proof -
  have "index_of (mk_source p t l) (int sl) (int sc) = Some (int a)"
    "index_of (mk_source p t l) (int el) (int ec) = Some (int (b - 1))"
    using assms index_of_pos [of a t p l sl sc] index_of_pos [of "b - 1" t p l el ec] by auto
  moreover have "int (b - 1) + 1 = int b" using assms(1) by simp
  ultimately show ?thesis using assms(1,2) by (simp add: slice_text_def py_slice_nat)
qed

lemma line_only_at_precision:
  "jget (line_only_at src line kind why extra) ''precision'' \<notin> JStr ` set range_precisions"
  by (auto simp: line_only_at_def make_span_def span_to_dict_get range_precisions_def)

lemma resolve_identifier_range:
  assumes r: "resolve_identifier (mk_source p t l) line name kind occ grp prefer exclude fwd = d"
    and prec: "jget d ''precision'' \<in> JStr ` set range_precisions"
  obtains a b where "(a, b) \<in> set (identifier_hits (mk_source p t l) name line prefer exclude fwd)"
    "jget d ''start_line'' = jnat (fst (pos (mk_source p t l) a))"
    "jget d ''start_column'' = jnat (snd (pos (mk_source p t l) a))"
    "jget d ''end_line'' = jnat (fst (pos (mk_source p t l) (b - 1)))"
    "jget d ''end_column'' = jnat (snd (pos (mk_source p t l) (b - 1)))"
    "jget d ''precision'' = JStr ''EXACT'' \<longrightarrow>
       length (identifier_hits (mk_source p t l) name line prefer exclude fwd) = 1 \<or>
       (\<exists>k. occ = Some k \<and>
          group_or_one grp = jnat (length (identifier_hits (mk_source p t l) name line prefer exclude fwd)))"
proof -
  let ?src = "mk_source p t l"
  let ?hits = "identifier_hits ?src name line prefer exclude fwd"
  obtain h pr why picked where pk: "pick ?hits occ grp = (h, pr, why, picked)" by (metis prod_cases4)
  show thesis
  proof (cases h)
    case None
    with r pk have "d = line_only_at ?src line kind why
            [(''name'', JStr name), (''occurrences_on_line'', JInt 0)]"
      by (simp add: resolve_identifier_def Let_def)
    with prec line_only_at_precision show thesis by metis
  next
    case (Some ab)
    obtain a b where ab: "ab = (a, b)" by (cases ab)
    obtain sl sc where pa: "pos ?src a = (sl, sc)" by (cases "pos ?src a")
    obtain el ec where pb: "pos ?src (b - 1) = (el, ec)" by (cases "pos ?src (b - 1)")
    have "\<exists>ev. resolve_identifier ?src line name kind occ grp prefer exclude fwd =
        span_at ?src a (b - 1) kind pr ev"
      unfolding resolve_identifier_def Let_def pk Some ab prod.case option.case by (rule exI) (rule refl)
    with r obtain ev where d: "d = span_at ?src a (b - 1) kind pr ev" by blast
    note pc = pick_cases [OF pk [unfolded Some ab]]
    have m: "(a, b) \<in> set ?hits" using pc by simp
    then have "a < b" "b \<le> length t" using hit_text by blast+
    then have "1 \<le> el" using index_of_pos [OF _ pb] by linarith
    then show thesis
      using that [OF m] pc d pa pb
      by (auto simp: span_at_def make_span_def span_to_dict_get jnat_def jor_def)
  qed
qed


lemma make_span_range_witness:
  "\<exists>d. d = make_span (JStr ''a.c'') (JInt 3) (JInt 1) (JInt 3) (JInt 4) ''REFERENCE'' ''EXACT'' [] \<and>
     jget d ''start_column'' = JInt 1"
proof -
  have "jget (make_span (JStr ''a.c'') (JInt 3) (JInt 1) (JInt 3) (JInt 4) ''REFERENCE'' ''EXACT'' [])
      ''precision'' \<in> JStr ` set range_precisions"
    by (simp add: make_span_def span_to_dict_get range_precisions_def)
  from make_span_range [OF this] show ?thesis by blast
qed

text \<open>C27: a recovered identifier range is never a guess: when the span of an identifier is EXACT or
  PARTIAL, the original text between its first and last position spells the identifier (up to case
  in Fortran); and it is EXACT only when the occurrence is the only one, or is picked by position in a
  group with as many members as there are occurrences.\<close>

lemma identifier_span_honest:
  assumes r: "resolve_identifier (mk_source p t l) line name kind occ grp prefer exclude fwd = d"
    and prec: "jget d ''precision'' \<in> {JStr ''EXACT'', JStr ''PARTIAL''}"
  shows "\<exists>sl sc el ec. jget d ''start_line'' = JInt sl \<and> jget d ''start_column'' = JInt sc \<and>
    jget d ''end_line'' = JInt el \<and> jget d ''end_column'' = JInt ec \<and>
    (slice_text (mk_source p t l) sl sc el ec = name \<or>
     (is_fortran l \<and> lower (slice_text (mk_source p t l) sl sc el ec) = lower name)) \<and>
    (jget d ''precision'' = JStr ''EXACT'' \<longrightarrow>
      length (identifier_hits (mk_source p t l) name line prefer exclude fwd) = 1 \<or>
      (\<exists>k. occ = Some k \<and> group_or_one grp =
         jnat (length (identifier_hits (mk_source p t l) name line prefer exclude fwd))))"
proof -
  from prec have "jget d ''precision'' \<in> JStr ` set range_precisions" by (auto simp: range_precisions_def)
  with r obtain a b where m: "(a, b) \<in> set (identifier_hits (mk_source p t l) name line prefer exclude fwd)"
    and d: "jget d ''start_line'' = jnat (fst (pos (mk_source p t l) a))"
    "jget d ''start_column'' = jnat (snd (pos (mk_source p t l) a))"
    "jget d ''end_line'' = jnat (fst (pos (mk_source p t l) (b - 1)))"
    "jget d ''end_column'' = jnat (snd (pos (mk_source p t l) (b - 1)))"
    and ex: "jget d ''precision'' = JStr ''EXACT'' \<longrightarrow>
       length (identifier_hits (mk_source p t l) name line prefer exclude fwd) = 1 \<or>
       (\<exists>k. occ = Some k \<and> group_or_one grp =
          jnat (length (identifier_hits (mk_source p t l) name line prefer exclude fwd)))"
    by (rule resolve_identifier_range)
  obtain sl sc where pa: "pos (mk_source p t l) a = (sl, sc)" by (cases "pos (mk_source p t l) a")
  obtain el ec where pb: "pos (mk_source p t l) (b - 1) = (el, ec)" by (cases "pos (mk_source p t l) (b - 1)")
  note h = hit_text [OF m]
  have "slice_text (mk_source p t l) (int sl) (int sc) (int el) (int ec) = take (b - a) (drop a t)"
    using h pa pb by (intro slice_between) simp_all
  then show ?thesis using h d pa pb ex by (auto simp: jnat_def)
qed

lemma identifier_span_honest_witness:
  "\<exists>d. resolve_identifier (mk_source ''a.c'' ''x = foo(1);'' None) 1 ''foo'' ''REFERENCE'' None None
       None [] False = d \<and> jget d ''precision'' = JStr ''EXACT'' \<and>
     (\<exists>sl sc el ec. slice_text (mk_source ''a.c'' ''x = foo(1);'' None) sl sc el ec = ''foo'')"
proof -
  have ex: "jget (resolve_identifier (mk_source ''a.c'' ''x = foo(1);'' None) 1 ''foo'' ''REFERENCE''
      None None None [] False) ''precision'' = JStr ''EXACT''"
    by code_simp
  have "\<not> is_fortran None" by (simp add: is_fortran_def)
  with ex identifier_span_honest [OF refl, of "''a.c''" "''x = foo(1);''" None 1 "''foo''" "''REFERENCE''"
      None None None "[]" False]
  show ?thesis by auto
qed

end
