(* ===== verification/Lvs_Model.thy ===== *)
theory Lvs_Model
  imports Contract
begin

text \<open>
  The data of the design-versus-code comparison (\<open>lvs/model.py\<close>, \<open>lvs/code_side.py\<close>):
  diffs with their status, the overall verdict, and the two normalised inputs.

  Design and code objects are the JSON dictionaries the code reads with \<open>get\<close>. A list that
  must hold dictionaries and does not is a \<open>TypeError\<close> when the inputs are resolved. Code
  points above 255 (arrow, dash) occur in messages only and are written as their UTF-8 bytes.
\<close>

section \<open>Status and verdict\<close>

datatype lvs_status =
    MATCH | MISMATCH | STALE | UNBOUND | UNKNOWN | CODE_ONLY | DESIGN_ONLY | BOUNDARY_EQUIVALENT

fun status_value :: "lvs_status \<Rightarrow> string" where
  "status_value MATCH = ''MATCH''"
| "status_value MISMATCH = ''MISMATCH''"
| "status_value STALE = ''STALE''"
| "status_value UNBOUND = ''UNBOUND''"
| "status_value UNKNOWN = ''UNKNOWN''"
| "status_value CODE_ONLY = ''CODE_ONLY''"
| "status_value DESIGN_ONLY = ''DESIGN_ONLY''"
| "status_value BOUNDARY_EQUIVALENT = ''BOUNDARY_EQUIVALENT''"

text \<open>The order in which \<open>run_lvs\<close> lists the diffs of one kind.\<close>

fun status_rank :: "lvs_status \<Rightarrow> nat" where
  "status_rank MISMATCH = 0"
| "status_rank STALE = 1"
| "status_rank UNBOUND = 2"
| "status_rank UNKNOWN = 3"
| "status_rank MATCH = 4"
| "status_rank CODE_ONLY = 5"
| "status_rank DESIGN_ONLY = 6"
| "status_rank BOUNDARY_EQUIVALENT = 7"

instantiation lvs_status :: linorder
begin

definition less_eq_lvs_status :: "lvs_status \<Rightarrow> lvs_status \<Rightarrow> bool" where
  "s \<le> t \<longleftrightarrow> status_rank s \<le> status_rank t"

definition less_lvs_status :: "lvs_status \<Rightarrow> lvs_status \<Rightarrow> bool" where
  "s < t \<longleftrightarrow> status_rank s < status_rank t"

instance
proof
  fix s t u :: lvs_status
  show "s < t \<longleftrightarrow> s \<le> t \<and> \<not> t \<le> s" by (auto simp: less_eq_lvs_status_def less_lvs_status_def)
  show "s \<le> s" by (simp add: less_eq_lvs_status_def)
  show "s \<le> t \<Longrightarrow> t \<le> u \<Longrightarrow> s \<le> u" by (simp add: less_eq_lvs_status_def)
  show "s \<le> t \<Longrightarrow> t \<le> s \<Longrightarrow> s = t" by (cases s; cases t) (simp_all add: less_eq_lvs_status_def)
  show "s \<le> t \<or> t \<le> s" by (auto simp: less_eq_lvs_status_def)
qed

end

definition diff_kinds :: "string list" where
  "diff_kinds = [''block'', ''port'', ''call'', ''data'', ''state'', ''resource'', ''control'',
     ''timing'', ''boundary'']"

record lvs_diff =
  lv_kind :: string
  lv_status :: lvs_status
  lv_design_object :: string
  lv_code_object :: json
  lv_message :: string
  lv_why :: string
  lv_truth_class :: json
  lv_coverage :: json
  lv_design_witness :: json
  lv_code_witness :: json
  lv_source_location :: json

text \<open>A diff with the defaults of the dataclass.\<close>

definition base_diff :: "string \<Rightarrow> lvs_status \<Rightarrow> string \<Rightarrow> lvs_diff" where
  "base_diff kind status design_object = \<lparr>lv_kind = kind, lv_status = status,
     lv_design_object = design_object, lv_code_object = JNull, lv_message = [], lv_why = [],
     lv_truth_class = JStr ''UNKNOWN'', lv_coverage = JStr ''UNKNOWN'',
     lv_design_witness = JNull, lv_code_witness = JNull, lv_source_location = JNull\<rparr>"

lemma base_diff_fields [simp]:
  "lv_kind (base_diff k s d) = k" "lv_status (base_diff k s d) = s"
  "lv_design_object (base_diff k s d) = d" "lv_code_object (base_diff k s d) = JNull"
  by (simp_all add: base_diff_def)

definition diff_to_dict :: "lvs_diff \<Rightarrow> json" where
  "diff_to_dict d = JObj [
     (''kind'', JStr (lv_kind d)),
     (''status'', JStr (status_value (lv_status d))),
     (''design_object'', JStr (lv_design_object d)),
     (''code_object'', lv_code_object d),
     (''message'', JStr (lv_message d)),
     (''why'', JStr (lv_why d)),
     (''truth_class'', lv_truth_class d),
     (''coverage'', lv_coverage d),
     (''design_witness'', lv_design_witness d),
     (''code_witness'', lv_code_witness d),
     (''source_location'', lv_source_location d)]"

definition overall_status :: "lvs_diff list \<Rightarrow> lvs_status" where
  "overall_status ds =
     (if list_ex (\<lambda>d. lv_status d = MISMATCH) ds then MISMATCH
      else if list_ex (\<lambda>d. lv_status d = STALE) ds then STALE
      else if list_ex (\<lambda>d. lv_status d = UNBOUND) ds then UNBOUND
      else if list_ex (\<lambda>d. lv_status d = UNKNOWN) ds then UNKNOWN
      else MATCH)"

record lvs_result =
  lr_design_snapshot :: json
  lr_code_snapshot :: json
  lr_design_summary :: jdict
  lr_code_summary :: jdict
  lr_diffs :: "lvs_diff list"

text \<open>\<open>sections\<close>: every kind of \<open>DIFF_KINDS\<close> has a section, empty or not.\<close>

definition sections :: "lvs_diff list \<Rightarrow> (string, lvs_diff list) dict" where
  "sections ds = fold (\<lambda>d. dict_push (lv_kind d) d) ds (map (\<lambda>k. (k, [])) diff_kinds)"

definition by_status :: "lvs_diff list \<Rightarrow> (string, nat) dict" where
  "by_status ds = fold (\<lambda>d out. let s = status_value (lv_status d) in
     dict_set s (get_or out s 0 + 1) out) ds []"

definition section_json :: "lvs_diff list \<Rightarrow> string \<Rightarrow> json" where
  "section_json ds k = JList (map diff_to_dict (get_or (sections ds) k []))"

definition result_json :: "lvs_result \<Rightarrow> json" where
  "result_json r = (let ds = lr_diffs r in JObj [
     (''overall_status'', JStr (status_value (overall_status ds))),
     (''design_snapshot'', lr_design_snapshot r),
     (''code_snapshot'', lr_code_snapshot r),
     (''design_summary'', JObj (lr_design_summary r)),
     (''code_summary'', JObj (lr_code_summary r)),
     (''by_status'', JObj (map (\<lambda>(k, n). (k, JInt (int n))) (by_status ds))),
     (''block_diffs'', section_json ds ''block''),
     (''port_diffs'', section_json ds ''port''),
     (''call_diffs'', section_json ds ''call''),
     (''data_diffs'', section_json ds ''data''),
     (''state_diffs'', section_json ds ''state''),
     (''resource_diffs'', section_json ds ''resource''),
     (''control_diffs'', section_json ds ''control''),
     (''timing_diffs'', section_json ds ''timing''),
     (''boundary_diffs'', section_json ds ''boundary'')])"

lemma overall_status_severity:
  "overall_status ds = Min (insert MATCH (lv_status ` set ds \<inter> {s. s < MATCH}))"
proof -
  let ?S = "lv_status ` set ds \<inter> {s. s < MATCH}"
  have frozen: "s < MATCH \<longleftrightarrow> s \<in> {MISMATCH, STALE, UNBOUND, UNKNOWN}" for s
    by (cases s) (simp_all add: less_lvs_status_def)
  have ex: "list_ex (\<lambda>d. lv_status d = s) ds \<longleftrightarrow> s \<in> lv_status ` set ds" for s
    by (auto simp: list_ex_iff)
  have fin: "finite (insert MATCH ?S)" by simp
  have rank: "MISMATCH < STALE" "STALE < UNBOUND" "UNBOUND < UNKNOWN" "UNKNOWN < MATCH"
    by (simp_all add: less_lvs_status_def)
  have least: "(if MISMATCH \<in> X then MISMATCH else if STALE \<in> X then STALE
      else if UNBOUND \<in> X then UNBOUND else if UNKNOWN \<in> X then UNKNOWN else MATCH) \<le> s"
    if "s = MATCH \<or> (s \<in> X \<and> s < MATCH)" for s X
    using that by (cases s) (simp_all add: less_eq_lvs_status_def less_lvs_status_def)
  have "overall_status ds \<in> insert MATCH ?S"
    by (simp add: overall_status_def ex frozen)
  moreover have "overall_status ds \<le> s" if "s \<in> insert MATCH ?S" for s
    unfolding overall_status_def ex by (rule least) (use that in blast)
  ultimately show ?thesis using fin by (metis Min_eqI)
qed

section \<open>Normalised inputs\<close>

record lvs_design =
  ld_snapshot_id :: json
  ld_blocks :: "jdict list"
  ld_composites :: "jdict list"
  ld_ports :: "jdict list"
  ld_nets :: "jdict list"
  ld_claims :: "jdict list"

text \<open>\<open>block\<close> and \<open>block_by_binding\<close>, with the position that stands for object identity.\<close>

fun find_pos :: "('a \<Rightarrow> bool) \<Rightarrow> 'a list \<Rightarrow> (nat \<times> 'a) option" where
  "find_pos P [] = None"
| "find_pos P (x # xs) =
     (if P x then Some (0, x) else map_option (\<lambda>(i, y). (Suc i, y)) (find_pos P xs))"

definition block_at :: "lvs_design \<Rightarrow> json \<Rightarrow> (nat \<times> jdict) option" where
  "block_at design bid = find_pos (\<lambda>b. jget b ''id'' = bid) (ld_blocks design)"

definition block_by_binding :: "lvs_design \<Rightarrow> json \<Rightarrow> (nat \<times> jdict) option" where
  "block_by_binding design cid = find_pos (\<lambda>b. jget b ''binding'' = cid) (ld_blocks design)"

definition ports_of :: "lvs_design \<Rightarrow> json \<Rightarrow> jdict list" where
  "ports_of design bid = filter (\<lambda>p. jget p ''block_id'' = bid) (ld_ports design)"

record lvs_code =
  lc_snapshot_id :: json
  lc_baseline_id :: json
  lc_functions :: "(string, jdict) dict"
  lc_baseline_functions :: "(string, jdict) dict"
  lc_edges :: "jdict list"
  lc_baseline_edges :: "jdict list"
  lc_resources :: json
  lc_call_capability :: json
  lc_data_capability :: json
  lc_by_source :: "(json, jdict list) dict"
  lc_by_target :: "(json, jdict list) dict"

fun as_object :: "json \<Rightarrow> ev_error + jdict" where
  "as_object (JObj d) = Inr d"
| "as_object j = Inl TypeError"

definition dicts_at :: "jdict \<Rightarrow> string \<Rightarrow> ev_error + jdict list" where
  "dicts_at raw k = (case get_or raw k (JList []) of
     JList xs \<Rightarrow> map_err as_object xs | _ \<Rightarrow> Inl TypeError)"

definition dict_of_dicts :: "jdict \<Rightarrow> string \<Rightarrow> ev_error + (string, jdict) dict" where
  "dict_of_dicts raw k = (case get_or raw k (JObj []) of
     JObj kvs \<Rightarrow> map_err (\<lambda>(i, j). and_then (as_object j) (\<lambda>d. Inr (i, d))) kvs
   | _ \<Rightarrow> Inl TypeError)"

definition resolve_design :: "jdict \<Rightarrow> ev_error + lvs_design" where
  "resolve_design raw =
     and_then (dicts_at raw ''blocks'') (\<lambda>blocks.
     and_then (dicts_at raw ''composites'') (\<lambda>composites.
     and_then (dicts_at raw ''ports'') (\<lambda>ports.
     and_then (dicts_at raw ''nets'') (\<lambda>nets.
     and_then (dicts_at raw ''claims'') (\<lambda>claims.
       Inr \<lparr>ld_snapshot_id = jget raw ''snapshot_id'', ld_blocks = blocks,
         ld_composites = composites, ld_ports = ports, ld_nets = nets, ld_claims = claims\<rparr>)))))"

definition resolve_code :: "jdict \<Rightarrow> ev_error + lvs_code" where
  "resolve_code raw =
     and_then (dict_of_dicts raw ''functions'') (\<lambda>functions.
     and_then (dict_of_dicts raw ''baseline_functions'') (\<lambda>baseline_functions.
     and_then (dicts_at raw ''edges'') (\<lambda>edges.
     and_then (dicts_at raw ''baseline_edges'') (\<lambda>baseline_edges.
       Inr \<lparr>lc_snapshot_id = jget raw ''snapshot_id'', lc_baseline_id = jget raw ''baseline_id'',
         lc_functions = functions, lc_baseline_functions = baseline_functions,
         lc_edges = edges, lc_baseline_edges = baseline_edges,
         lc_resources = get_or raw ''resources'' (JList []),
         lc_call_capability = get_or raw ''call_capability'' (JStr ''COMPLETE''),
         lc_data_capability = get_or raw ''data_capability'' (JStr ''COMPLETE''),
         lc_by_source = group_by (\<lambda>e. get_or e ''source'' (JStr [])) edges,
         lc_by_target = group_by (\<lambda>e. get_or e ''target'' (JStr [])) edges\<rparr>))))"

text \<open>\<open>code.by_source.get(a, [])\<close>.\<close>

definition edges_from :: "lvs_code \<Rightarrow> json \<Rightarrow> jdict list" where
  "edges_from code a = get_or (lc_by_source code) a []"

lemma find_pos_Some: "find_pos P xs = Some (i, x) \<Longrightarrow> i < length xs \<and> xs ! i = x \<and> P x"
  by (induction xs arbitrary: i) (auto split: if_splits)

lemma resolve_code_index:
  "resolve_code raw = Inr code \<Longrightarrow>
   edges_from code a = filter (\<lambda>e. get_or e ''source'' (JStr []) = a) (lc_edges code)"
  by (auto simp: resolve_code_def and_then_Inr edges_from_def group_by_get)

subsection \<open>Sections\<close>

lemma push_get: "get_or (dict_push k v d) k' [] = (if k = k' then get_or d k' [] @ [v] else get_or d k' [])"
  by (auto simp: get_or_def map_of_dict_push split: option.splits)

lemma sections_get: "get_or (sections ds) k [] = filter (\<lambda>d. lv_kind d = k) ds"
proof -
  have "get_or (fold (\<lambda>d. dict_push (lv_kind d) d) ds acc) k [] =
      get_or acc k [] @ filter (\<lambda>d. lv_kind d = k) ds" for acc
    by (induction ds arbitrary: acc) (auto simp: push_get)
  moreover have "get_or (map (\<lambda>k. (k, [])) ks) k [] = ([] :: lvs_diff list)" for ks
    by (induction ks) (auto simp: get_or_def)
  ultimately show ?thesis by (simp add: sections_def)
qed

end
