(* ===== verification/Lvs_Compare.thy ===== *)
theory Lvs_Compare
  imports Lvs_Model
begin

text \<open>
  The comparators of \<open>lvs/compare/_impl.py\<close> for blocks, ports, calls and data. Every kind of
  diff the code can report is one definition, so that the comparators read as decision tables
  over them.

  A binding is compared as a JSON value; only a text can be a key of the function tables.
\<close>

section \<open>Texts\<close>

definition q :: "string \<Rightarrow> string" where
  "q s = CHR 0x22 # s @ [CHR 0x22]"

definition arrow :: string where
  "arrow = map char_of [226 :: nat, 134, 146]"

definition dash :: string where
  "dash = map char_of [226 :: nat, 128, 148]"

definition sect :: "string \<Rightarrow> string" where
  "sect s = char_of (167 :: nat) # s"

definition id_text :: "jdict \<Rightarrow> string" where
  "id_text x = py_str (get_or x ''id'' (JStr []))"

text \<open>\<open>x in functions\<close> and \<open>functions.get(x)\<close>.\<close>

definition lookup_fn :: "(string, jdict) dict \<Rightarrow> json \<Rightarrow> jdict option" where
  "lookup_fn fns j = (case j of JStr s \<Rightarrow> map_of fns s | _ \<Rightarrow> None)"

definition hard :: "json list" where
  "hard = [JStr ''OBSERVED'', JStr ''RESOLVED'']"

section \<open>Blocks\<close>

definition block_proposed :: "json \<Rightarrow> lvs_diff" where
  "block_proposed name = (base_diff ''block'' UNBOUND (''block:'' @ py_str name))
     \<lparr>lv_message := ''Proposed block '' @ q (py_str name) @ '' has no canonical target in code.'',
      lv_why := ''Proposed design objects are UNBOUND '' @ dash @ '' never a code error (L4).'',
      lv_coverage := JStr ''UNKNOWN''\<rparr>"

definition block_match :: "json \<Rightarrow> json \<Rightarrow> lvs_diff" where
  "block_match name binding = (base_diff ''block'' MATCH (''block:'' @ py_str name))
     \<lparr>lv_code_object := binding,
      lv_message := ''Block '' @ q (py_str name) @ '' binds to canonical '' @ py_str binding @ ''.'',
      lv_why := ''Canonical identity found in code (L1).'',
      lv_truth_class := JStr ''OBSERVED'', lv_coverage := JStr ''COMPLETE''\<rparr>"

definition block_stale :: "lvs_code \<Rightarrow> json \<Rightarrow> json \<Rightarrow> jdict \<Rightarrow> lvs_diff" where
  "block_stale code name binding base = (base_diff ''block'' STALE (''block:'' @ py_str name))
     \<lparr>lv_code_object := binding,
      lv_message := ''Bound block '' @ q (py_str name) @ '' ('' @ py_str binding
        @ '') existed at baseline '' @ py_str (lc_baseline_id code)
        @ '' but is missing from current '' @ py_str (lc_snapshot_id code) @ ''.'',
      lv_why := ''Design was bound to real code; the code has changed since (snapshot-aware, ''
        @ sect ''17).'',
      lv_truth_class := JStr ''OBSERVED'', lv_coverage := JStr ''COMPLETE'',
      lv_source_location := jget base ''source_location''\<rparr>"

definition block_mismatch :: "json \<Rightarrow> json \<Rightarrow> lvs_diff" where
  "block_mismatch name binding = (base_diff ''block'' MISMATCH (''block:'' @ py_str name))
     \<lparr>lv_code_object := binding,
      lv_message := ''Block '' @ q (py_str name) @ '' claims binding '' @ py_str binding
        @ '' but no such canonical function exists in code.'',
      lv_why := ''Deterministic contradiction: bound design object references an identity ''
        @ ''code does not have.'',
      lv_truth_class := JStr ''OBSERVED'', lv_coverage := JStr ''COMPLETE''\<rparr>"

definition proposed :: "jdict \<Rightarrow> bool" where
  "proposed b = (jget b ''state'' = JStr ''proposed'')"

definition block_diffs :: "lvs_code \<Rightarrow> jdict \<Rightarrow> lvs_diff list" where
  "block_diffs code b =
     (let state = get_or b ''state'' (JStr ''existing'');
          binding = jget b ''binding'';
          name = get_or b ''name'' (JStr (id_text b))
      in if state = JStr ''proposed'' \<or> \<not> truthy binding then
           (if state = JStr ''proposed'' then [block_proposed name] else [])
         else if lookup_fn (lc_functions code) binding \<noteq> None then [block_match name binding]
         else case lookup_fn (lc_baseline_functions code) binding of
           Some base \<Rightarrow> [block_stale code name binding base]
         | None \<Rightarrow> [block_mismatch name binding])"

definition compare_blocks :: "lvs_design \<Rightarrow> lvs_code \<Rightarrow> lvs_diff list" where
  "compare_blocks design code = concat (map (block_diffs code) (sort_key id_text (ld_blocks design)))"

section \<open>Ports\<close>

definition port_object :: "json \<Rightarrow> json \<Rightarrow> string" where
  "port_object binding name = ''port:'' @ py_str binding @ '':'' @ py_str name"

definition port_stale :: "json \<Rightarrow> json \<Rightarrow> lvs_diff" where
  "port_stale binding name = (base_diff ''port'' STALE (port_object binding name))
     \<lparr>lv_code_object := binding,
      lv_message := ''Parameter '' @ q (py_str name)
        @ '' (was at baseline) is missing from the current signature.'',
      lv_why := ''Snapshot-aware: the port existed at the design baseline; the current ''
        @ ''signature lost it ('' @ sect ''17).'',
      lv_truth_class := JStr ''OBSERVED'', lv_coverage := JStr ''COMPLETE''\<rparr>"

definition port_no_signature :: "json \<Rightarrow> json \<Rightarrow> lvs_diff" where
  "port_no_signature binding name = (base_diff ''port'' UNKNOWN (port_object binding name))
     \<lparr>lv_code_object := binding,
      lv_message := ''Cannot compare parameter '' @ q (py_str name)
        @ '': the code signature could not be extracted.'',
      lv_why := ''Signature extraction failed; insufficient evidence for a verdict (L3).'',
      lv_coverage := JStr ''UNKNOWN''\<rparr>"

definition port_missing :: "json \<Rightarrow> json \<Rightarrow> lvs_diff" where
  "port_missing binding name = (base_diff ''port'' MISMATCH (port_object binding name))
     \<lparr>lv_code_object := binding,
      lv_message := ''Parameter '' @ q (py_str name)
        @ '' exists in the design but not in the code signature.'',
      lv_why := ''Conflicting evidence: design declares an input the code does not have.'',
      lv_truth_class := JStr ''OBSERVED'', lv_coverage := JStr ''COMPLETE''\<rparr>"

definition port_code_only :: "json \<Rightarrow> string \<Rightarrow> lvs_diff" where
  "port_code_only binding pname = (base_diff ''port'' CODE_ONLY (''function:'' @ py_str binding))
     \<lparr>lv_code_object := JStr (port_object binding (JStr pname)),
      lv_message := ''Code-only parameter '' @ q pname @ '' not present in the design.'',
      lv_why := ''Code has an input the design does not declare (spec '' @ sect ''10).'',
      lv_truth_class := JStr ''OBSERVED'', lv_coverage := JStr ''COMPLETE''\<rparr>"

definition port_type_unknown :: "json \<Rightarrow> json \<Rightarrow> json \<Rightarrow> json \<Rightarrow> lvs_diff" where
  "port_type_unknown binding name dt ct = (base_diff ''port'' UNKNOWN (port_object binding name))
     \<lparr>lv_code_object := JStr (port_object binding name),
      lv_message := ''Cannot compare type of '' @ q (py_str name) @ '': design='' @ py_repr dt
        @ '' code='' @ py_repr ct @ '' '' @ dash @ '' at least one side unknown.'',
      lv_why := ''Type LVS compares only with sufficient evidence on both sides (D4-style honesty).'',
      lv_truth_class := JStr ''INFERRED'', lv_coverage := JStr ''PARTIAL''\<rparr>"

definition port_type_mismatch :: "json \<Rightarrow> json \<Rightarrow> json \<Rightarrow> json \<Rightarrow> lvs_diff" where
  "port_type_mismatch binding name dt ct = (base_diff ''port'' MISMATCH (port_object binding name))
     \<lparr>lv_code_object := JStr (port_object binding name),
      lv_message := ''Type mismatch on '' @ q (py_str name) @ '': design '' @ py_str dt
        @ '' vs code '' @ py_str ct @ ''.'',
      lv_why := ''Both sides have provider/native type evidence and disagree.'',
      lv_truth_class := JStr ''OBSERVED'', lv_coverage := JStr ''COMPLETE''\<rparr>"

definition port_type_match :: "json \<Rightarrow> json \<Rightarrow> json \<Rightarrow> lvs_diff" where
  "port_type_match binding name dt = (base_diff ''port'' MATCH (port_object binding name))
     \<lparr>lv_code_object := JStr (port_object binding name),
      lv_message := ''Parameter '' @ q (py_str name) @ '' matches (type '' @ py_str dt @ '').'',
      lv_why := ''Names and known types agree.'',
      lv_truth_class := JStr ''OBSERVED'', lv_coverage := JStr ''COMPLETE''\<rparr>"

definition types_known :: "json \<Rightarrow> json \<Rightarrow> bool" where
  "types_known dt ct = (truthy dt \<and> truthy ct)"

definition incompatible :: "json \<Rightarrow> json \<Rightarrow> bool" where
  "incompatible dt ct =
     (let a = lower (strip (py_str dt)); b = lower (strip (py_str ct)) in
      if a = b then False
      else if a \<in> {''str'', ''string''} \<and> b \<in> {''int'', ''float'', ''list'', ''dict''} then True
      else if a \<in> {''int'', ''float'', ''bool''} \<and> b \<in> {''str''} then True
      else if a \<in> {''dataclass'', ''matrix''} \<and> b \<in> {''socket'', ''connection''} then True
      else False)"

definition port_type_diff :: "jdict \<Rightarrow> jdict \<Rightarrow> json \<Rightarrow> lvs_diff" where
  "port_type_diff design_port code_port binding =
     (let name = get_or design_port ''name'' (JStr []);
          dt = jget design_port ''code_type''; ct = jget code_port ''type''
      in if dt = JNull \<or> ct = JNull \<or> \<not> types_known dt ct then port_type_unknown binding name dt ct
         else if incompatible dt ct then port_type_mismatch binding name dt ct
         else port_type_match binding name dt)"

text \<open>\<open>{p["name"]: p for p in sig.get("params", [])}\<close>.\<close>

definition name_key :: "jdict \<Rightarrow> ev_error + string" where
  "name_key p = and_then (jindex p ''name'') (\<lambda>j. case j of JStr s \<Rightarrow> Inr s | _ \<Rightarrow> Inl TypeError)"

definition object_or_empty :: "json \<Rightarrow> ev_error + jdict" where
  "object_or_empty j = (if truthy j then as_object j else Inr [])"

definition params_of :: "jdict \<Rightarrow> ev_error + (string, jdict) dict" where
  "params_of sig = and_then (dicts_at sig ''params'') (\<lambda>ps.
     and_then (map_err name_key ps) (\<lambda>names. Inr (dict_of fst snd (zip names ps))))"

definition sig_ok :: "jdict \<Rightarrow> bool" where
  "sig_ok sig = (sig \<noteq> [] \<and> \<not> truthy (jget sig ''parse_failed''))"

definition data_port :: "jdict \<Rightarrow> bool" where
  "data_port p = (jget p ''semantic_kind'' \<in> {JNull, JStr ''data'', JStr ''input'', JStr ''output''} \<and>
     get_or p ''direction'' (JStr ''input'') = JStr ''input'')"

definition input_diff :: "jdict \<Rightarrow> (string, jdict) dict \<Rightarrow> (string, jdict) dict \<Rightarrow> json \<Rightarrow> jdict \<Rightarrow> lvs_diff" where
  "input_diff sig params base_params binding p =
     (let name = get_or p ''name'' (JStr []) in
      case lookup_fn params name of
        Some code_port \<Rightarrow> port_type_diff p code_port binding
      | None \<Rightarrow>
          if lookup_fn base_params name \<noteq> None then port_stale binding name
          else if \<not> sig_ok sig then port_no_signature binding name
          else port_missing binding name)"

definition port_order :: "jdict \<Rightarrow> string \<times> string" where
  "port_order p = (py_str (get_or p ''direction'' (JStr [])), py_str (get_or p ''name'' (JStr [])))"

definition signature_diffs :: "jdict \<Rightarrow> (string, jdict) dict \<Rightarrow> (string, jdict) dict \<Rightarrow> json \<Rightarrow>
    jdict list \<Rightarrow> ev_error + lvs_diff list" where
  "signature_diffs sig params base_params binding ports =
     (let inputs = map (input_diff sig params base_params binding)
            (filter data_port (sort_key port_order ports))
      in if sig_ok sig then
           and_then (map_err (\<lambda>p. jindex p ''name'') ports) (\<lambda>names.
             Inr (inputs @ map (port_code_only binding)
               (filter (\<lambda>pname. JStr pname \<notin> set names) (sort (keys params)))))
         else Inr inputs)"

definition port_diffs :: "lvs_design \<Rightarrow> lvs_code \<Rightarrow> jdict \<Rightarrow> ev_error + lvs_diff list" where
  "port_diffs design code b =
     (let binding = jget b ''binding'' in
      if proposed b \<or> \<not> truthy binding then Inr []
      else case lookup_fn (lc_functions code) binding of
        None \<Rightarrow> Inr []
      | Some fn \<Rightarrow>
          and_then (object_or_empty (jget fn ''signature'')) (\<lambda>sig.
          and_then (params_of sig) (\<lambda>params.
          and_then (object_or_empty (case lookup_fn (lc_baseline_functions code) binding of
              None \<Rightarrow> JNull | Some base \<Rightarrow> jget base ''signature'')) (\<lambda>base_sig.
          and_then (params_of base_sig) (\<lambda>base_params.
            signature_diffs sig params base_params binding
              (ports_of design (get_or b ''id'' (JStr []))))))))"

definition compare_ports :: "lvs_design \<Rightarrow> lvs_code \<Rightarrow> ev_error + lvs_diff list" where
  "compare_ports design code =
     and_then (map_err (port_diffs design code) (sort_key id_text (ld_blocks design)))
       (\<lambda>ds. Inr (concat ds))"

lemmas block_diff_defs = block_proposed_def block_match_def block_stale_def block_mismatch_def

lemma block_diff_fields [simp]:
  "lv_kind (block_proposed n) = ''block''" "lv_status (block_proposed n) = UNBOUND"
  "lv_kind (block_match n b) = ''block''" "lv_status (block_match n b) = MATCH"
  "lv_kind (block_stale c n b f) = ''block''" "lv_status (block_stale c n b f) = STALE"
  "lv_kind (block_mismatch n b) = ''block''" "lv_status (block_mismatch n b) = MISMATCH"
  "lv_code_object (block_match n b) = b" "lv_code_object (block_mismatch n b) = b"
  "lv_code_object (block_stale c n b f) = b"
  by (simp_all add: block_diff_defs)

lemmas port_diff_defs = port_stale_def port_no_signature_def port_missing_def port_code_only_def
  port_type_unknown_def port_type_mismatch_def port_type_match_def

lemma port_diff_fields [simp]:
  "lv_kind (port_stale b n) = ''port''" "lv_status (port_stale b n) = STALE"
  "lv_kind (port_no_signature b n) = ''port''" "lv_status (port_no_signature b n) = UNKNOWN"
  "lv_kind (port_missing b n) = ''port''" "lv_status (port_missing b n) = MISMATCH"
  "lv_kind (port_code_only b p) = ''port''" "lv_status (port_code_only b p) = CODE_ONLY"
  "lv_kind (port_type_unknown b n dt ct) = ''port''" "lv_status (port_type_unknown b n dt ct) = UNKNOWN"
  "lv_kind (port_type_mismatch b n dt ct) = ''port''" "lv_status (port_type_mismatch b n dt ct) = MISMATCH"
  "lv_kind (port_type_match b n dt) = ''port''" "lv_status (port_type_match b n dt) = MATCH"
  by (simp_all add: port_diff_defs)


section \<open>Calls\<close>

text \<open>The bound ends of a net: both blocks exist and both have a binding.\<close>

definition bound_ends :: "lvs_design \<Rightarrow> json \<Rightarrow> json \<Rightarrow> (json \<times> json) option" where
  "bound_ends design sid tid = (case (block_at design sid, block_at design tid) of
     (Some (_, src), Some (_, tgt)) \<Rightarrow>
       if src = [] \<or> tgt = [] \<or> \<not> truthy (jget src ''binding'') \<or> \<not> truthy (jget tgt ''binding'')
       then None else Some (jget src ''binding'', jget tgt ''binding'')
   | _ \<Rightarrow> None)"

definition net_ends :: "lvs_design \<Rightarrow> jdict \<Rightarrow> (json \<times> json) option" where
  "net_ends design n = bound_ends design (get_or n ''source_block_id'' (JStr []))
     (get_or n ''target_block_id'' (JStr []))"

definition link :: "string \<Rightarrow> json \<Rightarrow> json \<Rightarrow> string" where
  "link kind a b = kind @ '':'' @ py_str a @ ''->'' @ py_str b"

definition wire :: "json \<Rightarrow> json \<Rightarrow> string" where
  "wire a b = py_str a @ '' '' @ arrow @ '' '' @ py_str b"

definition first_dict :: "json \<Rightarrow> jdict" where
  "first_dict j = (case j of JList (JObj d # _) \<Rightarrow> d | _ \<Rightarrow> [])"

definition first_witness :: "jdict \<Rightarrow> json" where
  "first_witness e = (case jget e ''representative_witnesses'' of JList (w # _) \<Rightarrow> w | _ \<Rightarrow> JNull)"

definition static_present :: "jdict \<Rightarrow> bool" where
  "static_present e = (jget e ''static_presence'' = JStr ''PRESENT'' \<and>
     truthy (jget e ''static_presence_support_dimensions''))"

definition strong_call :: "jdict \<Rightarrow> bool" where
  "strong_call e = (jget e ''truth_class'' \<in> set hard \<and> jget e ''coverage'' = JStr ''COMPLETE'' \<and>
     jget e ''target_resolution'' = JStr ''EXACT'' \<and> jget e ''execution_modality'' = JStr ''MUST'')"

definition call_static :: "json \<Rightarrow> json \<Rightarrow> jdict \<Rightarrow> lvs_diff" where
  "call_static a b e =
     (let support = first_dict (jget e ''static_presence_support_dimensions'');
          unk = JStr ''UNKNOWN'' in
      (base_diff ''call'' MATCH (link ''call'' a b))
     \<lparr>lv_code_object := JStr (link ''call'' a b),
      lv_message := ''Designed static CALL '' @ wire a b @ '' exists in code.'',
      lv_why := ''An exact-bound admitted Clang direct-call receipt proves static presence only; ''
        @ ''execution modality and runtime observation remain separate.'',
      lv_truth_class := get_or support ''truth_class'' unk,
      lv_coverage := get_or support ''coverage'' unk,
      lv_code_witness := JObj [
        (''static_presence'', JStr ''PRESENT''),
        (''rule_version'', jget e ''static_presence_rule_version''),
        (''support_receipt_ids'', get_or e ''static_presence_support_receipt_ids'' (JList [])),
        (''support_dimensions'', get_or e ''static_presence_support_dimensions'' (JList [])),
        (''evidence_authority'', get_or e ''static_presence_evidence_authority'' unk),
        (''provider_status'', get_or e ''static_presence_provider_status'' unk),
        (''target_resolution'', get_or support ''target_resolution'' unk),
        (''execution_modality'', get_or support ''execution_modality'' unk),
        (''coverage'', get_or support ''coverage'' unk),
        (''runtime_state'', get_or e ''runtime_state'' (JStr ''UNMEASURED'')),
        (''runtime_evidence_used'', JBool False)],
      lv_source_location := jget e ''source_span''\<rparr>)"

definition call_strong :: "json \<Rightarrow> json \<Rightarrow> jdict \<Rightarrow> lvs_diff" where
  "call_strong a b e = (base_diff ''call'' MATCH (link ''call'' a b))
     \<lparr>lv_code_object := JStr (link ''call'' a b),
      lv_message := ''Designed CALL '' @ wire a b @ '' exists in code.'',
      lv_why := ''Strong admitted CALL evidence has COMPLETE coverage, MUST modality, and an ''
        @ ''EXACT target (L2).'',
      lv_truth_class := jget e ''truth_class'', lv_coverage := jget e ''coverage'',
      lv_code_witness := first_witness e,
      lv_source_location := jget e ''source_span''\<rparr>"

definition call_weak :: "json \<Rightarrow> json \<Rightarrow> jdict \<Rightarrow> lvs_diff" where
  "call_weak a b e = (base_diff ''call'' UNKNOWN (link ''call'' a b))
     \<lparr>lv_code_object := JStr (link ''call'' a b),
      lv_message := ''Designed CALL '' @ wire a b @ '' is only supported with ''
        @ py_str (get_or e ''execution_modality'' (JStr ''MAY''))
        @ ''/partial evidence (target_resolution='' @ py_str (jget e ''target_resolution'') @ '').'',
      lv_why := ''The design net expects static CALL presence, but this evidence lacks a scoped ''
        @ ''exact positive proof; MAY/partial is not a contradiction ('' @ sect ''8).'',
      lv_truth_class := jget e ''truth_class'', lv_coverage := jget e ''coverage''\<rparr>"

definition call_stale :: "lvs_code \<Rightarrow> json \<Rightarrow> json \<Rightarrow> lvs_diff" where
  "call_stale code a b = (base_diff ''call'' STALE (link ''call'' a b))
     \<lparr>lv_code_object := JStr (link ''call'' a b),
      lv_message := ''Designed CALL '' @ wire a b @ '' existed at baseline ''
        @ py_str (lc_baseline_id code) @ '' but is missing from current ''
        @ py_str (lc_snapshot_id code) @ ''.'',
      lv_why := ''Snapshot-aware: the designed relation was real code behaviour at the design ''
        @ ''baseline; the code changed ('' @ sect ''17).'',
      lv_truth_class := JStr ''OBSERVED'', lv_coverage := JStr ''COMPLETE''\<rparr>"

definition call_mismatch :: "json \<Rightarrow> json \<Rightarrow> lvs_diff" where
  "call_mismatch a b = (base_diff ''call'' MISMATCH (link ''call'' a b))
     \<lparr>lv_message := ''Designed CALL '' @ wire a b
        @ '' does not exist although call coverage is COMPLETE.'',
      lv_why := ''Deterministic contradiction: design claims a relation the code provably lacks.''\<rparr>"

definition call_unverified :: "lvs_code \<Rightarrow> json \<Rightarrow> json \<Rightarrow> lvs_diff" where
  "call_unverified code a b = (base_diff ''call'' UNKNOWN (link ''call'' a b))
     \<lparr>lv_message := ''Cannot verify designed CALL '' @ wire a b @ '': call capability is ''
        @ py_str (lc_call_capability code) @ ''.'',
      lv_why := ''Insufficient coverage ('' @ sect ''8: may/partial never proves design wrong).'',
      lv_coverage := lc_call_capability code\<rparr>"

definition call_code_only :: "string \<Rightarrow> json \<Rightarrow> jdict \<Rightarrow> lvs_diff" where
  "call_code_only a b e = (base_diff ''call'' CODE_ONLY (''function:'' @ a))
     \<lparr>lv_code_object := JStr (link ''call'' (JStr a) b),
      lv_message := ''Code-only CALL '' @ wire (JStr a) b @ '' not present in the design.'',
      lv_why := ''Code has a relation the design does not declare (spec '' @ sect ''10).'',
      lv_truth_class := jget e ''truth_class'', lv_coverage := jget e ''coverage'',
      lv_source_location := jget e ''source_span''\<rparr>"

text \<open>\<open>e.get("kind") == kind and e.get("source") == a and e.get("target") == b\<close>.\<close>

definition joins :: "string \<Rightarrow> json \<Rightarrow> json \<Rightarrow> jdict \<Rightarrow> bool" where
  "joins kind a b e = (jget e ''kind'' = JStr kind \<and> jget e ''source'' = a \<and> jget e ''target'' = b)"

definition call_hits :: "lvs_code \<Rightarrow> json \<Rightarrow> json \<Rightarrow> jdict list" where
  "call_hits code a b =
     filter (\<lambda>e. jget e ''target'' = b \<and> jget e ''kind'' = JStr ''CALL'') (edges_from code a)"

definition call_verdict :: "lvs_code \<Rightarrow> json \<Rightarrow> json \<Rightarrow> lvs_diff" where
  "call_verdict code a b = (case call_hits code a b of
     best # _ \<Rightarrow>
       if static_present best then call_static a b best
       else if strong_call best then call_strong a b best
       else call_weak a b best
   | [] \<Rightarrow>
       if list_ex (joins ''CALL'' a b) (lc_baseline_edges code) then call_stale code a b
       else if lc_call_capability code = JStr ''COMPLETE'' then call_mismatch a b
       else call_unverified code a b)"

definition control_net :: "jdict \<Rightarrow> bool" where
  "control_net n = (jget n ''kind'' \<in> {JStr ''control'', JStr ''call''})"

definition net_call_diffs :: "lvs_design \<Rightarrow> lvs_code \<Rightarrow> jdict \<Rightarrow> lvs_diff list" where
  "net_call_diffs design code n =
     (if \<not> control_net n then []
      else case net_ends design n of None \<Rightarrow> [] | Some (a, b) \<Rightarrow> [call_verdict code a b])"

text \<open>A designed control net between the blocks at two positions.\<close>

definition claimed :: "lvs_design \<Rightarrow> nat \<Rightarrow> nat \<Rightarrow> bool" where
  "claimed design i j = list_ex (\<lambda>n. control_net n \<and>
     map_option fst (block_at design (jget n ''source_block_id'')) = Some i \<and>
     map_option fst (block_at design (jget n ''target_block_id'')) = Some j) (ld_nets design)"

definition code_only_call :: "lvs_design \<Rightarrow> lvs_code \<Rightarrow> string \<Rightarrow> jdict \<Rightarrow> lvs_diff list" where
  "code_only_call design code a e =
     (let b = jget e ''target'' in
      if jget e ''kind'' \<noteq> JStr ''CALL'' then []
      else if b = JStr ''[Unknown Dynamic Target]'' \<or> lookup_fn (lc_functions code) b = None then []
      else case (block_by_binding design (JStr a), block_by_binding design b) of
        (Some (i, _), Some (j, _)) \<Rightarrow> if claimed design i j then [] else [call_code_only a b e]
      | _ \<Rightarrow> [])"

definition code_only_calls :: "lvs_design \<Rightarrow> lvs_code \<Rightarrow> lvs_diff list" where
  "code_only_calls design code =
     concat (map (\<lambda>a. concat (map (code_only_call design code a)
       (sort_key (\<lambda>e. py_str (get_or e ''target'' (JStr []))) (edges_from code (JStr a)))))
       (sort (keys (lc_functions code))))"

definition compare_calls :: "lvs_design \<Rightarrow> lvs_code \<Rightarrow> lvs_diff list" where
  "compare_calls design code =
     concat (map (net_call_diffs design code) (sort_key id_text (ld_nets design)))
     @ code_only_calls design code"

section \<open>Data\<close>

definition data_match :: "json \<Rightarrow> json \<Rightarrow> jdict \<Rightarrow> lvs_diff" where
  "data_match a b e = (base_diff ''data'' MATCH (link ''data'' a b))
     \<lparr>lv_code_object := JStr (link ''data'' a b),
      lv_message := ''Designed DATA connection '' @ wire a b @ '' exists (resolved).'',
      lv_why := ''RESOLVED data binding with COMPLETE coverage ('' @ sect ''9).'',
      lv_truth_class := jget e ''truth_class'', lv_coverage := jget e ''coverage'',
      lv_code_witness := first_witness e,
      lv_source_location := jget e ''source_span''\<rparr>"

definition data_inferred :: "json \<Rightarrow> json \<Rightarrow> jdict \<Rightarrow> lvs_diff" where
  "data_inferred a b e = (base_diff ''data'' UNKNOWN (link ''data'' a b))
     \<lparr>lv_code_object := JStr (link ''data'' a b),
      lv_message := ''Cannot conclude '' @ wire a b @ '': compatible inferred flow exists (truth_class=''
        @ py_str (jget e ''truth_class'') @ '', coverage='' @ py_str (jget e ''coverage'')
        @ ''), but resolved data binding is unavailable.'',
      lv_why := ''INFERRED may-flow supports only POSSIBLE/UNKNOWN '' @ dash
        @ '' it cannot prove MATCH ('' @ sect ''9, L2).'',
      lv_truth_class := jget e ''truth_class'', lv_coverage := jget e ''coverage''\<rparr>"

definition data_mismatch :: "json \<Rightarrow> json \<Rightarrow> lvs_diff" where
  "data_mismatch a b = (base_diff ''data'' MISMATCH (link ''data'' a b))
     \<lparr>lv_message := ''Designed DATA connection '' @ wire a b
        @ '' does not exist although data coverage is COMPLETE.'',
      lv_why := ''Deterministic contradiction on a resolved data net.'',
      lv_coverage := JStr ''COMPLETE''\<rparr>"

definition data_unverified :: "lvs_code \<Rightarrow> bool \<Rightarrow> json \<Rightarrow> json \<Rightarrow> lvs_diff" where
  "data_unverified code had_baseline a b = (base_diff ''data'' UNKNOWN (link ''data'' a b))
     \<lparr>lv_message := ''Cannot verify designed DATA connection '' @ wire a b
        @ '': data capability is '' @ py_str (lc_data_capability code) @ ''.''
        @ (if had_baseline then '' The wire existed at the design baseline and is now absent.'' else []),
      lv_why := sect ''23: partial data capability answers UNKNOWN, never MISMATCH (L3).''
        @ (if had_baseline then '' Snapshot-aware: wire was present at baseline.'' else []),
      lv_coverage := lc_data_capability code\<rparr>"

text \<open>
  \<open>(n.get("label") or (n.get("source_port_id") or "")).strip()\<close>; the two fields hold texts or
  nothing.
\<close>

definition net_token :: "jdict \<Rightarrow> string" where
  "net_token n =
     (let l = jget n ''label''; s = jget n ''source_port_id'' in
      strip (if truthy l then py_str l else if truthy s then py_str s else []))"

definition edge_token :: "jdict \<Rightarrow> json" where
  "edge_token e = (case jget e ''data'' of JObj d \<Rightarrow> jget d ''token'' | _ \<Rightarrow> JNull)"

definition token_edges :: "lvs_code \<Rightarrow> json \<Rightarrow> json \<Rightarrow> string \<Rightarrow> jdict list" where
  "token_edges code a b token =
     filter (\<lambda>e. token = [] \<or> edge_token e = JStr token \<or> edge_token e = JNull)
       (filter (\<lambda>e. jget e ''kind'' = JStr ''DATA'' \<and> jget e ''target'' = b) (edges_from code a))"

definition data_verdict :: "lvs_code \<Rightarrow> json \<Rightarrow> json \<Rightarrow> string \<Rightarrow> lvs_diff" where
  "data_verdict code a b token = (case token_edges code a b token of
     best # _ \<Rightarrow>
       if jget best ''truth_class'' \<in> set hard \<and> jget best ''coverage'' = JStr ''COMPLETE''
       then data_match a b best else data_inferred a b best
   | [] \<Rightarrow>
       if lc_data_capability code = JStr ''COMPLETE'' then data_mismatch a b
       else data_unverified code (list_ex (joins ''DATA'' a b) (lc_baseline_edges code)) a b)"

definition net_data_diffs :: "lvs_design \<Rightarrow> lvs_code \<Rightarrow> jdict \<Rightarrow> lvs_diff list" where
  "net_data_diffs design code n =
     (if jget n ''kind'' \<noteq> JStr ''data'' then []
      else case net_ends design n of None \<Rightarrow> []
        | Some (a, b) \<Rightarrow> [data_verdict code a b (net_token n)])"

definition compare_data :: "lvs_design \<Rightarrow> lvs_code \<Rightarrow> lvs_diff list" where
  "compare_data design code = concat (map (net_data_diffs design code) (sort_key id_text (ld_nets design)))"

lemmas call_diff_defs = call_static_def call_strong_def call_weak_def call_stale_def
  call_mismatch_def call_unverified_def call_code_only_def

lemma call_diff_fields [simp]:
  "lv_kind (call_static a b e) = ''call''" "lv_status (call_static a b e) = MATCH"
  "lv_kind (call_strong a b e) = ''call''" "lv_status (call_strong a b e) = MATCH"
  "lv_kind (call_weak a b e) = ''call''" "lv_status (call_weak a b e) = UNKNOWN"
  "lv_kind (call_stale c a b) = ''call''" "lv_status (call_stale c a b) = STALE"
  "lv_kind (call_mismatch a b) = ''call''" "lv_status (call_mismatch a b) = MISMATCH"
  "lv_kind (call_unverified c a b) = ''call''" "lv_status (call_unverified c a b) = UNKNOWN"
  "lv_kind (call_code_only f b e) = ''call''" "lv_status (call_code_only f b e) = CODE_ONLY"
  by (simp_all add: call_diff_defs Let_def)

lemmas data_diff_defs = data_match_def data_inferred_def data_mismatch_def data_unverified_def

lemma data_diff_fields [simp]:
  "lv_kind (data_match a b e) = ''data''" "lv_status (data_match a b e) = MATCH"
  "lv_kind (data_inferred a b e) = ''data''" "lv_status (data_inferred a b e) = UNKNOWN"
  "lv_kind (data_mismatch a b) = ''data''" "lv_status (data_mismatch a b) = MISMATCH"
  "lv_kind (data_unverified c h a b) = ''data''" "lv_status (data_unverified c h a b) = UNKNOWN"
  by (simp_all add: data_diff_defs)

end
