(* ===== verification/Lvs_Engine.thy ===== *)
theory Lvs_Engine
  imports Lvs_Compare
begin

text \<open>
  The remaining comparators of \<open>lvs/compare/_impl.py\<close> (resources, composite boundaries,
  control and timing claims) and the engine \<open>lvs/engine.py\<close>, which runs them all and orders
  their diffs.
\<close>

section \<open>Resources\<close>

definition jlist :: "json \<Rightarrow> json list" where
  "jlist j = (case j of JList xs \<Rightarrow> xs | _ \<Rightarrow> [])"

text \<open>\<open>sorted\<close> of a set of texts.\<close>

definition sorted_set :: "json list \<Rightarrow> json list" where
  "sorted_set xs = sort_key py_str (remdups xs)"

definition resource_object :: "json \<Rightarrow> json \<Rightarrow> string" where
  "resource_object binding r = ''resource:'' @ py_str binding @ '':'' @ py_str r"

definition resource_match :: "json \<Rightarrow> json \<Rightarrow> lvs_diff" where
  "resource_match binding r = (base_diff ''resource'' MATCH (resource_object binding r))
     \<lparr>lv_code_object := JStr (resource_object binding r),
      lv_message := ''Resource '' @ q (py_str r) @ '' required by design exists in code.'',
      lv_why := ''Design resource requirement matches code evidence.'',
      lv_truth_class := JStr ''OBSERVED'', lv_coverage := JStr ''COMPLETE''\<rparr>"

definition resource_mismatch :: "json \<Rightarrow> json \<Rightarrow> lvs_diff" where
  "resource_mismatch binding r = (base_diff ''resource'' MISMATCH (resource_object binding r))
     \<lparr>lv_message := ''Design requires '' @ q (py_str r)
        @ '' but code has no resource dependency on it.'',
      lv_why := ''Deterministic contradiction on a claimed resource.''\<rparr>"

definition resource_code_only :: "json \<Rightarrow> json \<Rightarrow> lvs_diff" where
  "resource_code_only binding r = (base_diff ''resource'' CODE_ONLY (''function:'' @ py_str binding))
     \<lparr>lv_code_object := JStr (resource_object binding r),
      lv_message := ''Code-only resource dependency: '' @ py_str binding @ '' uses '' @ q (py_str r)
        @ '' but the design does not declare it.'',
      lv_why := ''Code depends on a resource the design hides ('' @ sect ''16).'',
      lv_truth_class := JStr ''OBSERVED'', lv_coverage := JStr ''COMPLETE''\<rparr>"

definition used_resources :: "lvs_code \<Rightarrow> json \<Rightarrow> json list" where
  "used_resources code binding =
     map (\<lambda>e. jget e ''target'') (filter (\<lambda>e. jget e ''kind'' = JStr ''RESOURCE'') (edges_from code binding))"

definition block_resource_diffs :: "lvs_code \<Rightarrow> jdict \<Rightarrow> lvs_diff list" where
  "block_resource_diffs code b =
     (let binding = jget b ''binding'' in
      if proposed b \<or> \<not> truthy binding then []
      else let stated = jlist (jget b ''resources''); used = used_resources code binding in
        map (\<lambda>r. if r \<in> set used then resource_match binding r else resource_mismatch binding r)
          (sorted_set stated)
        @ map (resource_code_only binding) (sorted_set (filter (\<lambda>r. r \<notin> set stated) used)))"

definition compare_resources :: "lvs_design \<Rightarrow> lvs_code \<Rightarrow> lvs_diff list" where
  "compare_resources design code =
     concat (map (block_resource_diffs code) (sort_key id_text (ld_blocks design)))"

section \<open>Boundaries\<close>

definition composite_object :: "json \<Rightarrow> string" where
  "composite_object name = ''composite:'' @ py_str name"

definition boundary_unbound :: "json \<Rightarrow> lvs_diff" where
  "boundary_unbound name = (base_diff ''boundary'' UNBOUND (composite_object name))
     \<lparr>lv_message := ''Composite '' @ q (py_str name) @ '' has no bound members.'',
      lv_why := ''Unbound design composite '' @ dash @ '' cannot compare (L4).''\<rparr>"

definition boundary_hides :: "json \<Rightarrow> json \<Rightarrow> lvs_diff" where
  "boundary_hides name r = (base_diff ''boundary'' MISMATCH (composite_object name))
     \<lparr>lv_code_object := JStr (''resource:'' @ py_str r),
      lv_message := ''Composite '' @ q (py_str name) @ '' hides resource dependency: ''
        @ q (py_str r) @ '' not exposed on the boundary.'',
      lv_why := ''Resource requirements are part of the observable contract ('' @ sect ''12/''
        @ sect ''16).'',
      lv_truth_class := JStr ''OBSERVED'', lv_coverage := JStr ''COMPLETE''\<rparr>"

definition boundary_differs :: "string \<Rightarrow> json \<Rightarrow> json list \<Rightarrow> json list \<Rightarrow> lvs_diff" where
  "boundary_differs what name designed coded = (base_diff ''boundary'' MISMATCH (composite_object name))
     \<lparr>lv_message := ''Composite '' @ q (py_str name) @ '' boundary '' @ what @ '' differ: design ''
        @ py_repr (JList (sorted_set designed)) @ '' vs code '' @ py_repr (JList (sorted_set coded)) @ ''.'',
      lv_why := ''Observable data boundary differs under COMPLETE coverage ('' @ sect ''12).'',
      lv_coverage := JStr ''COMPLETE''\<rparr>"

definition boundary_partial :: "json \<Rightarrow> json list \<Rightarrow> json list \<Rightarrow> json list \<Rightarrow> json list \<Rightarrow> lvs_diff" where
  "boundary_partial name din dout cin cout = (base_diff ''boundary'' UNKNOWN (composite_object name))
     \<lparr>lv_message := ''Composite '' @ q (py_str name)
        @ '' data boundary cannot be verified: data coverage is partial (design in/out ''
        @ py_repr (JList (sorted_set din)) @ ''/'' @ py_repr (JList (sorted_set dout)) @ '', code in/out ''
        @ py_repr (JList (sorted_set cin)) @ ''/'' @ py_repr (JList (sorted_set cout)) @ '').'',
      lv_why := sect ''23: partial data capability answers UNKNOWN; the boundary is not claimed ''
        @ ''equivalent without resolved edges.'',
      lv_coverage := JStr ''PARTIAL''\<rparr>"

definition boundary_no_data :: "json \<Rightarrow> lvs_diff" where
  "boundary_no_data name = (base_diff ''boundary'' UNKNOWN (composite_object name))
     \<lparr>lv_message := ''Composite '' @ q (py_str name)
        @ '' data boundary cannot be verified: no resolved DATA edges in code.'',
      lv_why := ''No data evidence '' @ arrow
        @ '' UNKNOWN boundary, never BOUNDARY_EQUIVALENT without evidence (L3).'',
      lv_coverage := JStr ''PARTIAL''\<rparr>"

definition boundary_equivalent :: "json \<Rightarrow> lvs_diff" where
  "boundary_equivalent name = (base_diff ''boundary'' BOUNDARY_EQUIVALENT (composite_object name))
     \<lparr>lv_message := ''Composite '' @ q (py_str name)
        @ '' external contract is equivalent to code (BOUNDARY_EQUIVALENT).'',
      lv_why := ''Observable boundary (ports/resources) matches; interior implementation ''
        @ ''differences are not compared ('' @ sect ''12/'' @ sect ''13).'',
      lv_coverage := JStr ''COMPLETE''\<rparr>"

definition member_bindings :: "lvs_design \<Rightarrow> jdict \<Rightarrow> json list" where
  "member_bindings design cp = List.map_filter (\<lambda>bid. case block_at design bid of
     Some (_, blk) \<Rightarrow> if truthy (jget blk ''binding'') then Some (jget blk ''binding'') else None
   | None \<Rightarrow> None) (jlist (jget cp ''block_ids''))"

definition data_edges :: "lvs_code \<Rightarrow> jdict list" where
  "data_edges code = filter (\<lambda>e. jget e ''kind'' = JStr ''DATA'') (lc_edges code)"

definition data_complete :: "lvs_code \<Rightarrow> bool" where
  "data_complete code = (data_edges code \<noteq> [] \<and>
     list_all (\<lambda>e. jget e ''coverage'' = JStr ''COMPLETE'') (data_edges code))"

text \<open>\<open>str((e.get("data") or {}).get("token") or "")\<close>.\<close>

definition token_text :: "jdict \<Rightarrow> string" where
  "token_text e = (if truthy (edge_token e) then py_str (edge_token e) else [])"

definition leaves :: "lvs_code \<Rightarrow> json list \<Rightarrow> jdict \<Rightarrow> bool" where
  "leaves code members e = (jget e ''source'' \<in> set members \<and> jget e ''target'' \<notin> set members \<and>
     lookup_fn (lc_functions code) (jget e ''target'') \<noteq> None \<and> token_text e \<noteq> [])"

definition enters :: "lvs_code \<Rightarrow> json list \<Rightarrow> jdict \<Rightarrow> bool" where
  "enters code members e = (jget e ''target'' \<in> set members \<and> jget e ''source'' \<notin> set members \<and>
     lookup_fn (lc_functions code) (jget e ''source'') \<noteq> None \<and> token_text e \<noteq> [])"

definition code_outputs :: "lvs_code \<Rightarrow> json list \<Rightarrow> json list" where
  "code_outputs code members =
     map (\<lambda>e. JStr (token_text e)) (filter (leaves code members) (data_edges code))"

definition code_inputs :: "lvs_code \<Rightarrow> json list \<Rightarrow> json list" where
  "code_inputs code members = map (\<lambda>e. JStr (token_text e))
     (filter (\<lambda>e. \<not> leaves code members e \<and> enters code members e) (data_edges code))"

definition code_resources :: "lvs_code \<Rightarrow> json list \<Rightarrow> json list" where
  "code_resources code members = map (\<lambda>e. JStr (py_str (jget e ''target'')))
     (filter (\<lambda>e. jget e ''kind'' = JStr ''RESOURCE'' \<and> jget e ''source'' \<in> set members) (lc_edges code))"

text \<open>The resource and data part of one composite: its diffs and whether data is verified.\<close>

definition boundary_parts :: "lvs_code \<Rightarrow> jdict \<Rightarrow> json \<Rightarrow> json list \<Rightarrow> lvs_diff list \<times> bool" where
  "boundary_parts code cp name members =
     (let cin = code_inputs code members; cout = code_outputs code members;
          cres = code_resources code members;
          din = jlist (jget cp ''data_in''); dout = jlist (jget cp ''data_out'');
          dres = jlist (jget cp ''resources'');
          hidden = map (boundary_hides name) (sorted_set (filter (\<lambda>r. r \<notin> set dres) cres))
      in if data_complete code then
           (hidden
            @ (if set cin \<noteq> set din then [boundary_differs ''inputs'' name din cin] else [])
            @ (if set cout \<noteq> set dout then [boundary_differs ''outputs'' name dout cout] else []), True)
         else if (cin \<noteq> [] \<or> cout \<noteq> [] \<or> din \<noteq> [] \<or> dout \<noteq> []) \<and> data_edges code \<noteq> [] then
           (hidden @ [boundary_partial name din dout cin cout], False)
         else if din \<noteq> [] \<or> dout \<noteq> [] then (hidden @ [boundary_no_data name], False)
         else (hidden, False))"

definition has_boundary :: "lvs_status \<Rightarrow> json \<Rightarrow> lvs_diff list \<Rightarrow> bool" where
  "has_boundary s name ds = list_ex (\<lambda>d. lv_kind d = ''boundary'' \<and> lv_status d = s \<and>
     lv_design_object d = composite_object name) ds"

definition equivalent_verdict :: "lvs_code \<Rightarrow> jdict \<Rightarrow> json \<Rightarrow> json list \<Rightarrow> bool \<Rightarrow> lvs_diff list \<Rightarrow> bool" where
  "equivalent_verdict code cp name members verified ds =
     (let mis = has_boundary MISMATCH name ds; unk = has_boundary UNKNOWN name ds in
      (verified \<and> \<not> mis \<and> \<not> unk) \<or>
      (\<not> verified \<and> \<not> mis \<and> \<not> unk \<and> jlist (jget cp ''data_in'') = [] \<and>
       jlist (jget cp ''data_out'') = [] \<and> code_inputs code members = [] \<and>
       code_outputs code members = []))"

text \<open>The body of the loop over composites; the verdict looks at all diffs collected so far.\<close>

definition boundary_step :: "lvs_design \<Rightarrow> lvs_code \<Rightarrow> jdict \<Rightarrow> lvs_diff list \<Rightarrow> lvs_diff list" where
  "boundary_step design code cp ds =
     (let name = get_or cp ''name'' (JStr (id_text cp)); members = member_bindings design cp in
      if members = [] then ds @ [boundary_unbound name]
      else let (parts, verified) = boundary_parts code cp name members; all = ds @ parts in
        if equivalent_verdict code cp name members verified all
        then all @ [boundary_equivalent name] else all)"

definition compare_boundaries :: "lvs_design \<Rightarrow> lvs_code \<Rightarrow> lvs_diff list" where
  "compare_boundaries design code =
     fold (boundary_step design code) (sort_key id_text (ld_composites design)) []"

section \<open>Control and timing claims\<close>

definition branch_object :: "json \<Rightarrow> json \<Rightarrow> string" where
  "branch_object binding g = ''branch:'' @ py_str binding @ '':'' @ py_str g"

definition control_match :: "json \<Rightarrow> json \<Rightarrow> lvs_diff" where
  "control_match binding g = (base_diff ''control'' MATCH (branch_object binding g))
     \<lparr>lv_code_object := JStr (''branch:'' @ py_str binding),
      lv_message := ''Designed branch guard '' @ q (py_str g) @ '' exists in code control landmarks.'',
      lv_why := ''Explicit design control claim matches code landmarks.''\<rparr>"

definition control_unknown :: "json \<Rightarrow> json \<Rightarrow> lvs_diff" where
  "control_unknown binding g = (base_diff ''control'' UNKNOWN (branch_object binding g))
     \<lparr>lv_message := ''Cannot verify branch claim on '' @ py_str binding
        @ '': no control landmarks in canonical evidence.'',
      lv_why := ''Insufficient control evidence ('' @ sect ''14 coverage rule).'',
      lv_coverage := JStr ''PARTIAL''\<rparr>"

text \<open>\<open>str\<close> of a list of pairs.\<close>

definition pairs_text :: "(json \<times> json) list \<Rightarrow> string" where
  "pairs_text ps = CHR ''['' # join '', ''
     (map (\<lambda>(a, b). CHR ''('' # py_repr a @ '', '' @ py_repr b @ '')'') ps) @ '']''"

definition control_mismatch :: "json \<Rightarrow> json \<Rightarrow> (json \<times> json) list \<Rightarrow> lvs_diff" where
  "control_mismatch binding g guards = (base_diff ''control'' MISMATCH (branch_object binding g))
     \<lparr>lv_code_object := JStr (branch_object binding (fst (hd guards))),
      lv_message := ''Designed branch '' @ q (py_str g) @ '' does not match code landmarks (''
        @ pairs_text (take 4 guards) @ '').'',
      lv_why := ''Guard structure clearly differs while evidence is complete.''\<rparr>"

definition landmarks :: "jdict \<Rightarrow> (json \<times> json) list" where
  "landmarks fn = List.map_filter (\<lambda>j. case j of
     JObj lm \<Rightarrow> Some (jget lm ''semantic_kind'', jget lm ''guard'') | _ \<Rightarrow> None)
     (jlist (jget fn ''control_landmarks''))"

definition control_diffs :: "lvs_design \<Rightarrow> lvs_code \<Rightarrow> jdict \<Rightarrow> lvs_diff list" where
  "control_diffs design code c =
     (if jget c ''kind'' \<noteq> JStr ''BRANCH_CLAIM'' then []
      else case block_at design (get_or c ''block_id'' (JStr [])) of
        None \<Rightarrow> []
      | Some (_, blk) \<Rightarrow>
          let binding = jget blk ''binding'' in
          if \<not> truthy binding then []
          else case lookup_fn (lc_functions code) binding of
            None \<Rightarrow> []
          | Some fn \<Rightarrow>
              let guards = landmarks fn; g = get_or c ''guard'' (JStr []) in
              if g \<in> set (map snd guards) then [control_match binding g]
              else if guards = [] then [control_unknown binding g]
              else [control_mismatch binding g guards])"

definition compare_control :: "lvs_design \<Rightarrow> lvs_code \<Rightarrow> lvs_diff list" where
  "compare_control design code = concat (map (control_diffs design code) (sort_key id_text (ld_claims design)))"

definition timing_match :: "json \<Rightarrow> json \<Rightarrow> lvs_diff" where
  "timing_match a b = (base_diff ''timing'' MATCH (link ''timing'' a b))
     \<lparr>lv_code_object := JStr (link ''timing'' a b),
      lv_message := ''Designed MUST_PRECEDE '' @ wire a b @ '' is supported by code.'',
      lv_why := ''Explicit timing claim (never inferred from canvas position) verified against ''
        @ ''MUST evidence ('' @ sect ''15).'',
      lv_truth_class := JStr ''OBSERVED'', lv_coverage := JStr ''COMPLETE''\<rparr>"

definition timing_may :: "json \<Rightarrow> json \<Rightarrow> lvs_diff" where
  "timing_may a b = (base_diff ''timing'' UNKNOWN (link ''timing'' a b))
     \<lparr>lv_code_object := JStr (link ''timing'' a b),
      lv_message := ''Designed MUST_PRECEDE '' @ wire a b @ '' is only supported as MAY.'',
      lv_why := ''Claim semantics: a MAY-order cannot prove the design timing; reported UNKNOWN, ''
        @ ''not contradiction ('' @ sect ''15).'',
      lv_truth_class := JStr ''OBSERVED'', lv_coverage := JStr ''PARTIAL''\<rparr>"

definition timing_contradicted :: "json \<Rightarrow> json \<Rightarrow> lvs_diff" where
  "timing_contradicted a b = (base_diff ''timing'' MISMATCH (link ''timing'' a b))
     \<lparr>lv_code_object := JStr (link ''timing'' b a),
      lv_message := ''Designed MUST_PRECEDE '' @ wire a b @ '' is contradicted by code ordering.'',
      lv_why := ''Deterministic contradiction in ordering evidence.''\<rparr>"

definition timing_unknown :: "json \<Rightarrow> json \<Rightarrow> lvs_diff" where
  "timing_unknown a b = (base_diff ''timing'' UNKNOWN (link ''timing'' a b))
     \<lparr>lv_message := ''Cannot verify MUST_PRECEDE '' @ wire a b @ '': no ordering evidence.'',
      lv_why := ''No runtime/topology ordering proof; partial coverage answers UNKNOWN (''
        @ sect ''15).'',
      lv_coverage := JStr ''PARTIAL''\<rparr>"

definition order_step :: "json \<Rightarrow> json \<Rightarrow> jdict \<Rightarrow> json \<Rightarrow> json" where
  "order_step a b e order =
     (if jget e ''kind'' \<noteq> JStr ''TIME'' then order
      else if jget e ''source'' = a \<and> jget e ''target'' = b then jget e ''execution_modality''
      else if jget e ''source'' = b \<and> jget e ''target'' = a then JStr ''CONTRADICTED''
      else order)"

definition timing_verdict :: "lvs_code \<Rightarrow> json \<Rightarrow> json \<Rightarrow> lvs_diff" where
  "timing_verdict code a b =
     (let order = fold (order_step a b) (lc_edges code) JNull in
      if order = JStr ''MUST'' then timing_match a b
      else if order = JStr ''MAY'' then timing_may a b
      else if order = JStr ''CONTRADICTED'' then timing_contradicted a b
      else timing_unknown a b)"

definition timing_diffs :: "lvs_design \<Rightarrow> lvs_code \<Rightarrow> jdict \<Rightarrow> lvs_diff list" where
  "timing_diffs design code c =
     (if jget c ''kind'' \<notin> {JStr ''MUST_PRECEDE'', JStr ''ORDERING_CLAIM''} then []
      else case bound_ends design (get_or c ''source'' (JStr [])) (get_or c ''target'' (JStr [])) of
        None \<Rightarrow> [] | Some (a, b) \<Rightarrow> [timing_verdict code a b])"

definition compare_timing :: "lvs_design \<Rightarrow> lvs_code \<Rightarrow> lvs_diff list" where
  "compare_timing design code = concat (map (timing_diffs design code) (sort_key id_text (ld_claims design)))"

section \<open>The engine\<close>

type_synonym comparator = "lvs_design \<Rightarrow> lvs_code \<Rightarrow> ev_error + lvs_diff list"

definition total :: "(lvs_design \<Rightarrow> lvs_code \<Rightarrow> lvs_diff list) \<Rightarrow> comparator" where
  "total f = (\<lambda>design code. Inr (f design code))"

definition all_comparators :: "comparator list" where
  "all_comparators = [total compare_blocks, compare_ports, total compare_calls, total compare_data,
     total compare_resources, total compare_boundaries, total compare_control, total compare_timing]"

definition kind_rank :: "string \<Rightarrow> nat" where
  "kind_rank k = (case find_pos (\<lambda>x. x = k) diff_kinds of None \<Rightarrow> 99 | Some (i, _) \<Rightarrow> i)"

definition diff_key :: "lvs_diff \<Rightarrow> nat \<times> nat \<times> string \<times> string" where
  "diff_key d = (kind_rank (lv_kind d), status_rank (lv_status d), lv_design_object d,
     if truthy (lv_code_object d) then py_str (lv_code_object d) else [])"

definition all_diffs :: "lvs_design \<Rightarrow> lvs_code \<Rightarrow> ev_error + lvs_diff list" where
  "all_diffs design code =
     and_then (map_err (\<lambda>cmp. cmp design code) all_comparators) (\<lambda>ds. Inr (concat ds))"

definition jlen :: "'a list \<Rightarrow> json" where
  "jlen xs = JInt (int (length xs))"

definition run_lvs :: "jdict \<Rightarrow> jdict \<Rightarrow> ev_error + lvs_result" where
  "run_lvs design_raw code_raw =
     and_then (resolve_design design_raw) (\<lambda>design.
     and_then (resolve_code code_raw) (\<lambda>code.
     and_then (all_diffs design code) (\<lambda>diffs.
       Inr \<lparr>lr_design_snapshot = ld_snapshot_id design, lr_code_snapshot = lc_snapshot_id code,
         lr_design_summary = [(''blocks'', jlen (ld_blocks design)),
           (''composites'', jlen (ld_composites design)), (''ports'', jlen (ld_ports design)),
           (''nets'', jlen (ld_nets design)), (''claims'', jlen (ld_claims design))],
         lr_code_summary = [(''functions'', jlen (lc_functions code)),
           (''edges'', jlen (lc_edges code)), (''baseline_id'', lc_baseline_id code)],
         lr_diffs = sort_key diff_key diffs\<rparr>)))"

definition lvs_to_json :: "lvs_result \<Rightarrow> json" where
  "lvs_to_json r = result_json r"

end
