(* ===== verification/Lvs_Properties.thy ===== *)
theory Lvs_Properties
  imports Lvs_Engine
begin

text \<open>
  What the comparison guarantees. The contract of a comparator is that it reports diffs of its
  own kind only; the engine's sections rest on it. The verdict lemmas say on which evidence a
  comparator may report MATCH and MISMATCH.
\<close>

section \<open>The contract of a comparator\<close>

locale lvs_comparator =
  fixes cmp :: comparator and kind :: string
  assumes own_kind: "cmp design code = Inr ds \<Longrightarrow> d \<in> set ds \<Longrightarrow> lv_kind d = kind"
    and listed: "kind \<in> set diff_kinds"
begin

lemma of_kind:
  assumes "cmp design code = Inr ds"
  shows "filter (\<lambda>d. lv_kind d = k) ds = (if k = kind then ds else [])"
  using own_kind [OF assms] by (auto simp: filter_empty_conv filter_id_conv)

lemma own_section: "cmp design code = Inr ds \<Longrightarrow> get_or (sections ds) kind [] = ds"
  by (simp add: sections_get of_kind)

lemma other_section: "cmp design code = Inr ds \<Longrightarrow> k \<noteq> kind \<Longrightarrow> get_or (sections ds) k [] = []"
  by (simp add: sections_get of_kind)

end

lemma total_Inr [simp]: "total f design code = Inr ds \<longleftrightarrow> ds = f design code"
  by (auto simp: total_def)

lemmas resource_diff_defs = resource_match_def resource_mismatch_def resource_code_only_def

lemma resource_diff_fields [simp]:
  "lv_kind (resource_match b r) = ''resource''" "lv_status (resource_match b r) = MATCH"
  "lv_kind (resource_mismatch b r) = ''resource''" "lv_status (resource_mismatch b r) = MISMATCH"
  "lv_kind (resource_code_only b r) = ''resource''" "lv_status (resource_code_only b r) = CODE_ONLY"
  by (simp_all add: resource_diff_defs)

lemmas boundary_diff_defs = boundary_unbound_def boundary_hides_def boundary_differs_def
  boundary_partial_def boundary_no_data_def boundary_equivalent_def

lemma boundary_diff_fields [simp]:
  "lv_kind (boundary_unbound n) = ''boundary''" "lv_status (boundary_unbound n) = UNBOUND"
  "lv_kind (boundary_hides n r) = ''boundary''" "lv_status (boundary_hides n r) = MISMATCH"
  "lv_kind (boundary_differs w n di co) = ''boundary''" "lv_status (boundary_differs w n di co) = MISMATCH"
  "lv_kind (boundary_partial n a b c d) = ''boundary''" "lv_status (boundary_partial n a b c d) = UNKNOWN"
  "lv_kind (boundary_no_data n) = ''boundary''" "lv_status (boundary_no_data n) = UNKNOWN"
  "lv_kind (boundary_equivalent n) = ''boundary''" "lv_status (boundary_equivalent n) = BOUNDARY_EQUIVALENT"
  "lv_design_object (boundary_unbound n) = composite_object n"
  "lv_design_object (boundary_hides n r) = composite_object n"
  "lv_design_object (boundary_differs w n di co) = composite_object n"
  "lv_design_object (boundary_partial n a b c d) = composite_object n"
  "lv_design_object (boundary_no_data n) = composite_object n"
  "lv_design_object (boundary_equivalent n) = composite_object n"
  by (simp_all add: boundary_diff_defs)

lemmas claim_diff_defs = control_match_def control_unknown_def control_mismatch_def
  timing_match_def timing_may_def timing_contradicted_def timing_unknown_def

lemma claim_diff_fields [simp]:
  "lv_kind (control_match b g) = ''control''" "lv_status (control_match b g) = MATCH"
  "lv_kind (control_unknown b g) = ''control''" "lv_status (control_unknown b g) = UNKNOWN"
  "lv_kind (control_mismatch b g gs) = ''control''" "lv_status (control_mismatch b g gs) = MISMATCH"
  "lv_kind (timing_match x y) = ''timing''" "lv_status (timing_match x y) = MATCH"
  "lv_kind (timing_may x y) = ''timing''" "lv_status (timing_may x y) = UNKNOWN"
  "lv_kind (timing_contradicted x y) = ''timing''" "lv_status (timing_contradicted x y) = MISMATCH"
  "lv_kind (timing_unknown x y) = ''timing''" "lv_status (timing_unknown x y) = UNKNOWN"
  by (simp_all add: claim_diff_defs)

subsection \<open>The eight comparators satisfy it\<close>

lemma compare_blocks_kind: "d \<in> set (compare_blocks design code) \<Longrightarrow> lv_kind d = ''block''"
  by (auto simp: compare_blocks_def block_diffs_def Let_def split: if_splits option.splits)

lemma input_diff_kind: "lv_kind (input_diff sig ps bs binding p) = ''port''"
  by (simp add: input_diff_def port_type_diff_def Let_def split: option.splits)

lemma port_diffs_kind:
  assumes "port_diffs design code b = Inr ds" and "d \<in> set ds"
  shows "lv_kind d = ''port''"
  using assms
  by (auto simp: port_diffs_def signature_diffs_def Let_def and_then_Inr input_diff_kind
      split: if_splits option.splits)

lemma compare_ports_kind:
  assumes "compare_ports design code = Inr ds" and "d \<in> set ds"
  shows "lv_kind d = ''port''"
  using assms map_err_member port_diffs_kind by (fastforce simp: compare_ports_def and_then_Inr)

lemma call_verdict_kind: "lv_kind (call_verdict code a b) = ''call''"
  by (simp add: call_verdict_def split: list.splits)

lemma compare_calls_kind: "d \<in> set (compare_calls design code) \<Longrightarrow> lv_kind d = ''call''"
  by (auto simp: compare_calls_def net_call_diffs_def code_only_calls_def code_only_call_def
      call_verdict_kind Let_def split: if_splits option.splits)

lemma data_verdict_kind: "lv_kind (data_verdict code a b t) = ''data''"
  by (simp add: data_verdict_def split: list.splits)

lemma compare_data_kind: "d \<in> set (compare_data design code) \<Longrightarrow> lv_kind d = ''data''"
  by (auto simp: compare_data_def net_data_diffs_def data_verdict_kind split: if_splits option.splits)

lemma compare_resources_kind: "d \<in> set (compare_resources design code) \<Longrightarrow> lv_kind d = ''resource''"
  by (auto simp: compare_resources_def block_resource_diffs_def Let_def split: if_splits)

lemma boundary_parts_kind:
  "boundary_parts code cp name members = (parts, v) \<Longrightarrow> d \<in> set parts \<Longrightarrow>
   lv_kind d = ''boundary'' \<and> lv_design_object d = composite_object name \<and>
   lv_status d \<in> {MISMATCH, UNKNOWN}"
  by (auto simp: boundary_parts_def Let_def split: if_splits)

lemma boundary_step_kind:
  "d \<in> set (boundary_step design code cp ds) \<Longrightarrow> d \<in> set ds \<or> lv_kind d = ''boundary''"
  by (auto simp: boundary_step_def Let_def dest: boundary_parts_kind [OF sym] split: if_splits prod.splits)

lemma compare_boundaries_kind: "d \<in> set (compare_boundaries design code) \<Longrightarrow> lv_kind d = ''boundary''"
proof -
  have "d \<in> set (fold (boundary_step design code) cps ds) \<Longrightarrow> d \<in> set ds \<or> lv_kind d = ''boundary''"
    for cps ds by (induction cps arbitrary: ds) (auto dest: boundary_step_kind)
  then show "d \<in> set (compare_boundaries design code) \<Longrightarrow> ?thesis"
    by (fastforce simp: compare_boundaries_def)
qed

lemma compare_control_kind: "d \<in> set (compare_control design code) \<Longrightarrow> lv_kind d = ''control''"
  by (auto simp: compare_control_def control_diffs_def Let_def split: if_splits option.splits)

lemma compare_timing_kind: "d \<in> set (compare_timing design code) \<Longrightarrow> lv_kind d = ''timing''"
  by (auto simp: compare_timing_def timing_diffs_def timing_verdict_def Let_def
      split: if_splits option.splits)

interpretation block_lvs: lvs_comparator "total compare_blocks" "''block''"
  by unfold_locales (auto simp: diff_kinds_def dest: compare_blocks_kind)

interpretation port_lvs: lvs_comparator compare_ports "''port''"
  by unfold_locales (auto simp: diff_kinds_def dest: compare_ports_kind)

interpretation call_lvs: lvs_comparator "total compare_calls" "''call''"
  by unfold_locales (auto simp: diff_kinds_def dest: compare_calls_kind)

interpretation data_lvs: lvs_comparator "total compare_data" "''data''"
  by unfold_locales (auto simp: diff_kinds_def dest: compare_data_kind)

interpretation resource_lvs: lvs_comparator "total compare_resources" "''resource''"
  by unfold_locales (auto simp: diff_kinds_def dest: compare_resources_kind)

interpretation boundary_lvs: lvs_comparator "total compare_boundaries" "''boundary''"
  by unfold_locales (auto simp: diff_kinds_def dest: compare_boundaries_kind)

interpretation control_lvs: lvs_comparator "total compare_control" "''control''"
  by unfold_locales (auto simp: diff_kinds_def dest: compare_control_kind)

interpretation timing_lvs: lvs_comparator "total compare_timing" "''timing''"
  by unfold_locales (auto simp: diff_kinds_def dest: compare_timing_kind)

section \<open>The engine\<close>

lemma all_diffs_Inr: "all_diffs design code = Inr ds \<longleftrightarrow> (\<exists>ports. compare_ports design code = Inr ports \<and>
   ds = compare_blocks design code @ ports @ compare_calls design code @ compare_data design code
      @ compare_resources design code @ compare_boundaries design code @ compare_control design code
      @ compare_timing design code)"
  by (auto simp: all_diffs_def all_comparators_def and_then_Inr total_def)

lemma all_diffs_section:
  assumes "all_diffs design code = Inr ds" and "compare_ports design code = Inr ports"
  shows "filter (\<lambda>d. lv_kind d = k) ds =
    (if k = ''block'' then compare_blocks design code else if k = ''port'' then ports
     else if k = ''call'' then compare_calls design code else if k = ''data'' then compare_data design code
     else if k = ''resource'' then compare_resources design code
     else if k = ''boundary'' then compare_boundaries design code
     else if k = ''control'' then compare_control design code
     else if k = ''timing'' then compare_timing design code else [])"
proof -
  have ds: "ds = compare_blocks design code @ ports @ compare_calls design code @ compare_data design code
      @ compare_resources design code @ compare_boundaries design code @ compare_control design code
      @ compare_timing design code" using assms by (simp add: all_diffs_Inr)
  note own = block_lvs.of_kind [OF total_Inr [THEN iffD2, OF refl]] port_lvs.of_kind [OF assms(2)]
    call_lvs.of_kind [OF total_Inr [THEN iffD2, OF refl]] data_lvs.of_kind [OF total_Inr [THEN iffD2, OF refl]]
    resource_lvs.of_kind [OF total_Inr [THEN iffD2, OF refl]]
    boundary_lvs.of_kind [OF total_Inr [THEN iffD2, OF refl]]
    control_lvs.of_kind [OF total_Inr [THEN iffD2, OF refl]]
    timing_lvs.of_kind [OF total_Inr [THEN iffD2, OF refl]]
  show ?thesis unfolding ds filter_append own by simp
qed

lemma run_lvsE:
  assumes "run_lvs draw craw = Inr r"
  obtains design code ds where "resolve_design draw = Inr design" "resolve_code craw = Inr code"
    "all_diffs design code = Inr ds" "lr_diffs r = sort_key diff_key ds"
  using assms unfolding run_lvs_def and_then_Inr by auto

text \<open>The report is complete and ordered: the diffs are those of the eight comparators, each
  exactly once, sorted by kind, severity and object; and the section of a kind holds exactly the diffs
  of the comparator for that kind.\<close>

lemma run_lvs_report:
  assumes "run_lvs draw craw = Inr r"
  shows "\<exists>design code ports. resolve_design draw = Inr design \<and> resolve_code craw = Inr code \<and>
    compare_ports design code = Inr ports \<and> sorted (map diff_key (lr_diffs r)) \<and>
    mset (get_or (sections (lr_diffs r)) ''block'' []) = mset (compare_blocks design code) \<and>
    mset (get_or (sections (lr_diffs r)) ''port'' []) = mset ports \<and>
    mset (get_or (sections (lr_diffs r)) ''call'' []) = mset (compare_calls design code) \<and>
    mset (get_or (sections (lr_diffs r)) ''data'' []) = mset (compare_data design code) \<and>
    mset (get_or (sections (lr_diffs r)) ''resource'' []) = mset (compare_resources design code) \<and>
    mset (get_or (sections (lr_diffs r)) ''boundary'' []) = mset (compare_boundaries design code) \<and>
    mset (get_or (sections (lr_diffs r)) ''control'' []) = mset (compare_control design code) \<and>
    mset (get_or (sections (lr_diffs r)) ''timing'' []) = mset (compare_timing design code) \<and>
    length (lr_diffs r) = length (compare_blocks design code) + length ports +
      length (compare_calls design code) + length (compare_data design code) +
      length (compare_resources design code) + length (compare_boundaries design code) +
      length (compare_control design code) + length (compare_timing design code)"
proof -
  from assms obtain design code ds where d: "resolve_design draw = Inr design" "resolve_code craw = Inr code"
    and ds: "all_diffs design code = Inr ds" and r: "lr_diffs r = sort_key diff_key ds"
    by (rule run_lvsE)
  from ds obtain ports where p: "compare_ports design code = Inr ports" by (auto simp: all_diffs_Inr)
  have "mset (get_or (sections (lr_diffs r)) k []) = mset (filter (\<lambda>d. lv_kind d = k) ds)" for k
    by (simp add: sections_get r mset_filter)
  note sec = this [unfolded all_diffs_section [OF ds p]]
  have len: "length (lr_diffs r) = length ds" and srt: "sorted (map diff_key (lr_diffs r))"
    by (simp_all add: r)
  have "length ds = length (compare_blocks design code) + length ports +
      length (compare_calls design code) + length (compare_data design code) +
      length (compare_resources design code) + length (compare_boundaries design code) +
      length (compare_control design code) + length (compare_timing design code)"
    using ds p by (simp add: all_diffs_Inr)
  with d p srt len show ?thesis
    by (intro exI [of _ design] exI [of _ code] exI [of _ ports]) (simp add: sec)
qed


section \<open>On which evidence a verdict rests\<close>

lemma bound_ends_truthy: "bound_ends design s t = Some (a, b) \<Longrightarrow> truthy a \<and> truthy b"
  by (auto simp: bound_ends_def split: option.splits if_splits)

lemma source_default: "truthy a \<Longrightarrow> get_or e ''source'' (JStr []) = a \<longleftrightarrow> jget e ''source'' = a"
  by (auto simp: jget_def get_or_def split: option.splits)

lemma call_hits_joins:
  assumes "resolve_code raw = Inr code" and "truthy a"
  shows "e \<in> set (call_hits code a b) \<longleftrightarrow> e \<in> set (lc_edges code) \<and> joins ''CALL'' a b e"
  using source_default [OF assms(2)]
  by (auto simp: call_hits_def resolve_code_index [OF assms(1)] joins_def)

text \<open>The two parts of the report on calls: one verdict for each bound control net, then the
  relations only the code has.\<close>

lemma compare_calls_cases:
  assumes "d \<in> set (compare_calls design code)"
  obtains (net) n a b where "n \<in> set (ld_nets design)" "control_net n" "net_ends design n = Some (a, b)"
      "d = call_verdict code a b"
    | (code_only) "lv_status d = CODE_ONLY"
proof -
  from assms consider n where "n \<in> set (ld_nets design)" "d \<in> set (net_call_diffs design code n)"
    | "d \<in> set (code_only_calls design code)" by (auto simp: compare_calls_def)
  then show thesis
  proof cases
    case (1 n)
    then obtain a b where ends: "net_ends design n = Some (a, b)"
      by (cases "net_ends design n") (auto simp: net_call_diffs_def split: if_splits)
    show thesis
      using 1 by (intro net [OF _ _ ends]) (simp_all add: net_call_diffs_def ends split: if_splits)
  next
    case 2
    then have "lv_status d = CODE_ONLY"
      by (auto simp: code_only_calls_def code_only_call_def Let_def split: if_splits option.splits)
    then show thesis by (rule code_only)
  qed
qed

text \<open>Calls are judged on evidence: a designed call is contradicted only when call coverage is
  COMPLETE and neither the code nor the baseline has a CALL edge between the bound ends, and it
  matches only on an edge of the code with an admitted static-presence proof or with hard, complete,
  exact MUST evidence.\<close>

lemma call_verdict_evidence:
  assumes code: "resolve_code raw = Inr code" and d: "d \<in> set (compare_calls design code)"
    and st: "lv_status d \<in> {MATCH, MISMATCH}"
  shows "\<exists>n \<in> set (ld_nets design). \<exists>a b. control_net n \<and> net_ends design n = Some (a, b) \<and>
    (if lv_status d = MISMATCH then
       lc_call_capability code = JStr ''COMPLETE'' \<and>
       list_all (\<lambda>e. \<not> joins ''CALL'' a b e) (lc_edges code @ lc_baseline_edges code)
     else \<exists>e \<in> set (lc_edges code). joins ''CALL'' a b e \<and> (static_present e \<or> strong_call e))"
  using d
proof (cases rule: compare_calls_cases)
  case (net n a b)
  have "truthy a" using net(3) by (auto simp: net_ends_def dest: bound_ends_truthy)
  note hits = call_hits_joins [OF code this]
  have "if lv_status d = MISMATCH then
       lc_call_capability code = JStr ''COMPLETE'' \<and>
       list_all (\<lambda>e. \<not> joins ''CALL'' a b e) (lc_edges code @ lc_baseline_edges code)
     else \<exists>e \<in> set (lc_edges code). joins ''CALL'' a b e \<and> (static_present e \<or> strong_call e)"
  proof (cases "call_hits code a b")
    case Nil
    then have none: "\<forall>e \<in> set (lc_edges code). \<not> joins ''CALL'' a b e"
      using hits [of _ b] by simp
    show ?thesis
      using st Nil none unfolding net(4)
      by (auto simp: call_verdict_def list_all_iff list_ex_iff split: if_splits)
  next
    case (Cons e es)
    then have "e \<in> set (lc_edges code) \<and> joins ''CALL'' a b e" using hits [of e b] by simp
    then show ?thesis
      using st Cons unfolding net(4) by (auto simp: call_verdict_def split: if_splits)
  qed
  with net show ?thesis by blast
next
  case code_only
  with st show ?thesis by simp
qed

lemma token_edges_member:
  assumes "resolve_code raw = Inr code" and "truthy a"
  shows "e \<in> set (token_edges code a b t) \<longleftrightarrow> e \<in> set (lc_edges code) \<and> joins ''DATA'' a b e \<and>
    (t = [] \<or> edge_token e = JStr t \<or> edge_token e = JNull)"
  using source_default [OF assms(2)]
  by (auto simp: token_edges_def resolve_code_index [OF assms(1)] joins_def)

text \<open>Data wires are judged on evidence: inferred flow never proves a designed connection, which
  matches only on an edge that carries its token or none, with hard and complete evidence; and it is
  contradicted only when data coverage is COMPLETE and no such edge exists.\<close>

lemma data_verdict_evidence:
  assumes code: "resolve_code raw = Inr code" and d: "d \<in> set (compare_data design code)"
    and st: "lv_status d \<in> {MATCH, MISMATCH}"
  shows "\<exists>n \<in> set (ld_nets design). \<exists>a b. jget n ''kind'' = JStr ''data'' \<and>
    net_ends design n = Some (a, b) \<and>
    (if lv_status d = MISMATCH then
       lc_data_capability code = JStr ''COMPLETE'' \<and>
       list_all (\<lambda>e. \<not> (joins ''DATA'' a b e \<and>
         (net_token n = [] \<or> edge_token e = JStr (net_token n) \<or> edge_token e = JNull))) (lc_edges code)
     else \<exists>e \<in> set (lc_edges code). joins ''DATA'' a b e \<and>
         (net_token n = [] \<or> edge_token e = JStr (net_token n) \<or> edge_token e = JNull) \<and>
         jget e ''truth_class'' \<in> set hard \<and> jget e ''coverage'' = JStr ''COMPLETE'')"
proof -
  from d obtain n where n0: "n \<in> set (ld_nets design)" "d \<in> set (net_data_diffs design code n)"
    by (auto simp: compare_data_def)
  then obtain a b where "net_ends design n = Some (a, b)"
    by (cases "net_ends design n") (auto simp: net_data_diffs_def split: if_splits)
  with n0 have n: "n \<in> set (ld_nets design)" "jget n ''kind'' = JStr ''data''"
    "net_ends design n = Some (a, b)" "d = data_verdict code a b (net_token n)"
    by (simp_all add: net_data_diffs_def split: if_splits)
  have "truthy a" using n(3) by (auto simp: net_ends_def dest: bound_ends_truthy)
  note hits = token_edges_member [OF code this, of _ b "net_token n"]
  have "if lv_status d = MISMATCH then
       lc_data_capability code = JStr ''COMPLETE'' \<and>
       list_all (\<lambda>e. \<not> (joins ''DATA'' a b e \<and>
         (net_token n = [] \<or> edge_token e = JStr (net_token n) \<or> edge_token e = JNull))) (lc_edges code)
     else \<exists>e \<in> set (lc_edges code). joins ''DATA'' a b e \<and>
         (net_token n = [] \<or> edge_token e = JStr (net_token n) \<or> edge_token e = JNull) \<and>
         jget e ''truth_class'' \<in> set hard \<and> jget e ''coverage'' = JStr ''COMPLETE''"
  proof (cases "token_edges code a b (net_token n)")
    case Nil
    then have none: "list_all (\<lambda>e. \<not> (joins ''DATA'' a b e \<and>
         (net_token n = [] \<or> edge_token e = JStr (net_token n) \<or> edge_token e = JNull))) (lc_edges code)"
      using hits by (simp add: list_all_iff)
    show ?thesis using st Nil none unfolding n(4) by (auto simp: data_verdict_def split: if_splits)
  next
    case (Cons e es)
    then have "e \<in> set (lc_edges code) \<and> joins ''DATA'' a b e \<and>
        (net_token n = [] \<or> edge_token e = JStr (net_token n) \<or> edge_token e = JNull)"
      using hits [of e] by simp
    then show ?thesis using st Cons unfolding n(4) by (auto simp: data_verdict_def split: if_splits)
  qed
  with n show ?thesis by blast
qed

text \<open>A proposed block is never a code error: each diff on a block is UNBOUND for a proposed one,
  and for a bound one MATCH when its identity exists in the code, STALE when only the baseline has it
  and MISMATCH when neither has it.\<close>

lemma block_status_table:
  assumes "d \<in> set (compare_blocks design code)"
  shows "\<exists>b \<in> set (ld_blocks design).
    lv_design_object d = ''block:'' @ py_str (get_or b ''name'' (JStr (id_text b))) \<and>
    (if proposed b then lv_status d = UNBOUND
     else truthy (jget b ''binding'') \<and>
       lv_status d = (if lookup_fn (lc_functions code) (jget b ''binding'') \<noteq> None then MATCH
         else if lookup_fn (lc_baseline_functions code) (jget b ''binding'') \<noteq> None then STALE
         else MISMATCH))"
proof -
  from assms obtain b where b: "b \<in> set (ld_blocks design)" "d \<in> set (block_diffs code b)"
    by (auto simp: compare_blocks_def)
  have pr: "get_or b ''state'' (JStr ''existing'') = JStr ''proposed'' \<longleftrightarrow> proposed b"
    by (auto simp: proposed_def jget_def get_or_def split: option.splits)
  have "lv_design_object d = ''block:'' @ py_str (get_or b ''name'' (JStr (id_text b)))"
    using b(2) by (auto simp: block_diffs_def Let_def block_diff_defs split: if_splits option.splits)
  moreover have "if proposed b then lv_status d = UNBOUND
     else truthy (jget b ''binding'') \<and>
       lv_status d = (if lookup_fn (lc_functions code) (jget b ''binding'') \<noteq> None then MATCH
         else if lookup_fn (lc_baseline_functions code) (jget b ''binding'') \<noteq> None then STALE
         else MISMATCH)"
    using b(2) pr by (auto simp: block_diffs_def Let_def split: if_splits option.splits)
  ultimately show ?thesis using b(1) by blast
qed

text \<open>The diffs of the composites, one step of the loop at a time.\<close>

definition contract_holds :: "lvs_code \<Rightarrow> jdict \<Rightarrow> json list \<Rightarrow> bool" where
  "contract_holds code cp members =
     (set (code_resources code members) \<subseteq> set (jlist (jget cp ''resources'')) \<and>
      (if data_complete code then
         set (code_inputs code members) = set (jlist (jget cp ''data_in'')) \<and>
         set (code_outputs code members) = set (jlist (jget cp ''data_out''))
       else code_inputs code members = [] \<and> code_outputs code members = [] \<and>
         jlist (jget cp ''data_in'') = [] \<and> jlist (jget cp ''data_out'') = []))"

lemma set_sorted_set [simp]: "set (sorted_set xs) = set xs"
  by (simp add: sorted_set_def)

lemma sorted_set_Nil [simp]: "sorted_set xs = [] \<longleftrightarrow> xs = []"
  by (metis set_empty set_sorted_set)

lemma boundary_parts_contract:
  assumes p: "boundary_parts code cp name members = (parts, verified)"
    and v: "equivalent_verdict code cp name members verified (ds @ parts)"
  shows "contract_holds code cp members"
proof -
  have no: "\<not> has_boundary MISMATCH name parts"
    using v by (auto simp: equivalent_verdict_def has_boundary_def Let_def)
  have "boundary_hides name r \<notin> set parts" for r
    using no by (auto simp: has_boundary_def list_ex_iff)
  moreover have "r \<in> set (code_resources code members) \<Longrightarrow> r \<notin> set (jlist (jget cp ''resources'')) \<Longrightarrow>
      boundary_hides name r \<in> set parts" for r
    using p by (auto simp: boundary_parts_def Let_def split: if_splits)
  ultimately have res: "set (code_resources code members) \<subseteq> set (jlist (jget cp ''resources''))"
    by blast
  have ver: "verified = data_complete code" using p by (auto simp: boundary_parts_def Let_def split: if_splits)
  have eqs: "set (code_inputs code members) = set (jlist (jget cp ''data_in'')) \<and>
      set (code_outputs code members) = set (jlist (jget cp ''data_out''))" if "data_complete code"
  proof -
    have never: "boundary_differs w name di co \<notin> set parts" for w di co
      using no by (auto simp: has_boundary_def list_ex_iff)
    have "set (code_inputs code members) \<noteq> set (jlist (jget cp ''data_in'')) \<Longrightarrow>
        boundary_differs ''inputs'' name (jlist (jget cp ''data_in'')) (code_inputs code members) \<in> set parts"
      "set (code_outputs code members) \<noteq> set (jlist (jget cp ''data_out'')) \<Longrightarrow>
        boundary_differs ''outputs'' name (jlist (jget cp ''data_out'')) (code_outputs code members) \<in> set parts"
      using p that unfolding boundary_parts_def Let_def by auto
    then show ?thesis using never by blast
  qed
  show ?thesis
    using res eqs v ver by (auto simp: contract_holds_def equivalent_verdict_def Let_def)
qed

lemma boundary_step_equivalent:
  assumes "d \<in> set (boundary_step design code cp ds)" and "lv_status d = BOUNDARY_EQUIVALENT"
  shows "d \<in> set ds \<or> (member_bindings design cp \<noteq> [] \<and>
    lv_design_object d = composite_object (get_or cp ''name'' (JStr (id_text cp))) \<and>
    contract_holds code cp (member_bindings design cp))"
proof (cases "member_bindings design cp = []")
  case True
  with assms show ?thesis by (auto simp: boundary_step_def Let_def)
next
  case False
  let ?name = "get_or cp ''name'' (JStr (id_text cp))"
  obtain parts v where p: "boundary_parts code cp ?name (member_bindings design cp) = (parts, v)"
    by (cases "boundary_parts code cp ?name (member_bindings design cp)")
  have "d \<notin> set parts" using boundary_parts_kind [OF p, of d] assms(2) by auto
  with assms(1) False p have "d \<in> set ds \<or> (d = boundary_equivalent ?name \<and>
      equivalent_verdict code cp ?name (member_bindings design cp) v (ds @ parts))"
    by (auto simp: boundary_step_def Let_def split: if_splits)
  then show ?thesis using boundary_parts_contract [OF p] False by auto
qed

text \<open>BOUNDARY_EQUIVALENT is earned: it is reported for a composite with bound members whose code
  uses no resource the boundary hides, and whose data contract equals the one of the code under complete
  data coverage, or is empty on both sides without it.\<close>

lemma boundary_equivalence_earned:
  assumes "d \<in> set (compare_boundaries design code)" and "lv_status d = BOUNDARY_EQUIVALENT"
  shows "\<exists>cp \<in> set (ld_composites design). member_bindings design cp \<noteq> [] \<and>
    lv_design_object d = composite_object (get_or cp ''name'' (JStr (id_text cp))) \<and>
    set (code_resources code (member_bindings design cp)) \<subseteq> set (jlist (jget cp ''resources'')) \<and>
    (if data_complete code then
       set (code_inputs code (member_bindings design cp)) = set (jlist (jget cp ''data_in'')) \<and>
       set (code_outputs code (member_bindings design cp)) = set (jlist (jget cp ''data_out''))
     else code_inputs code (member_bindings design cp) = [] \<and>
       code_outputs code (member_bindings design cp) = [] \<and>
       jlist (jget cp ''data_in'') = [] \<and> jlist (jget cp ''data_out'') = [])"
proof -
  have "d \<in> set (fold (boundary_step design code) cps ds) \<Longrightarrow> d \<in> set ds \<or>
     (\<exists>cp \<in> set cps. member_bindings design cp \<noteq> [] \<and>
        lv_design_object d = composite_object (get_or cp ''name'' (JStr (id_text cp))) \<and>
        contract_holds code cp (member_bindings design cp))" for cps ds
  proof (induction cps arbitrary: ds)
    case (Cons cp cps)
    then show ?case using boundary_step_equivalent [OF _ assms(2)] by fastforce
  qed simp
  from this [of "sort_key id_text (ld_composites design)" "[]"] assms(1) obtain cp where
    "cp \<in> set (ld_composites design)" "member_bindings design cp \<noteq> []"
    "lv_design_object d = composite_object (get_or cp ''name'' (JStr (id_text cp)))"
    "contract_holds code cp (member_bindings design cp)"
    by (auto simp: compare_boundaries_def)
  then show ?thesis unfolding contract_holds_def by blast
qed

text \<open>The verdict is the most severe of the frozen statuses among the diffs, in the order MISMATCH,
  STALE, UNBOUND, UNKNOWN, and MATCH when none of them occurs; statuses of the report alone (CODE_ONLY,
  DESIGN_ONLY, BOUNDARY_EQUIVALENT) never change it.\<close>

lemma overall_status_most_severe:
  "overall_status ds = Min (insert MATCH (lv_status ` set ds \<inter> {MISMATCH, STALE, UNBOUND, UNKNOWN}))"
proof -
  have "{s. s < MATCH} = {MISMATCH, STALE, UNBOUND, UNKNOWN}"
  proof (rule set_eqI)
    fix s
    show "s \<in> {s. s < MATCH} \<longleftrightarrow> s \<in> {MISMATCH, STALE, UNBOUND, UNKNOWN}"
      by (cases s) (simp_all add: less_lvs_status_def)
  qed
  then show ?thesis using overall_status_severity [of ds] by simp
qed


text \<open>Ports are contradicted only by known facts: an input is a MISMATCH only when both types are
  known and provably incompatible, or when the signature of the code was extracted and neither it nor
  the baseline has the parameter; a failed extraction never contradicts the design.\<close>

lemma port_mismatch_evidence:
  assumes c: "compare_ports design code = Inr ds" and d: "d \<in> set ds" and st: "lv_status d = MISMATCH"
  shows "\<exists>b \<in> set (ld_blocks design). \<exists>fn sig params. \<not> proposed b \<and>
    lookup_fn (lc_functions code) (jget b ''binding'') = Some fn \<and>
    object_or_empty (jget fn ''signature'') = Inr sig \<and> params_of sig = Inr params \<and>
    (\<exists>p \<in> set (ports_of design (get_or b ''id'' (JStr []))).
       (\<exists>cp. lookup_fn params (get_or p ''name'' (JStr [])) = Some cp \<and>
          types_known (jget p ''code_type'') (jget cp ''type'') \<and>
          incompatible (jget p ''code_type'') (jget cp ''type'')) \<or>
       (lookup_fn params (get_or p ''name'' (JStr [])) = None \<and> sig_ok sig))"
proof -
  from c obtain dss where dss: "map_err (port_diffs design code) (sort_key id_text (ld_blocks design)) = Inr dss"
    "ds = concat dss" by (auto simp: compare_ports_def and_then_Inr)
  from dss d obtain bs where bs: "bs \<in> set dss" "d \<in> set bs" by auto
  from map_err_member [OF dss(1) bs(1)] obtain b where b: "b \<in> set (ld_blocks design)"
    "port_diffs design code b = Inr bs" by auto
  have np: "\<not> proposed b" "truthy (jget b ''binding'')"
    using b(2) bs(2) by (auto simp: port_diffs_def Let_def split: if_splits)
  have "lookup_fn (lc_functions code) (jget b ''binding'') \<noteq> None"
  proof
    assume "lookup_fn (lc_functions code) (jget b ''binding'') = None"
    then have "bs = []" using b(2) by (simp add: port_diffs_def Let_def split: if_splits)
    with bs(2) show False by simp
  qed
  then obtain fn where fn: "lookup_fn (lc_functions code) (jget b ''binding'') = Some fn" by blast
  define ports where "ports = ports_of design (get_or b ''id'' (JStr []))"
  from b(2) np fn obtain sig params base_params where
    sig: "object_or_empty (jget fn ''signature'') = Inr sig" "params_of sig = Inr params"
    and out: "signature_diffs sig params base_params (jget b ''binding'') ports = Inr bs"
    by (auto simp: port_diffs_def Let_def and_then_Inr ports_def)
  have rest: "set bs \<subseteq> set (map (input_diff sig params base_params (jget b ''binding''))
        (filter data_port ports)) \<union> range (port_code_only (jget b ''binding''))"
    using out by (auto simp: signature_diffs_def Let_def and_then_Inr split: if_splits)
  from rest bs(2) consider p where "p \<in> set ports"
      "d = input_diff sig params base_params (jget b ''binding'') p"
    | pn where "d = port_code_only (jget b ''binding'') pn" by auto
  then show ?thesis
  proof cases
    case (1 p)
    have "(\<exists>cp. lookup_fn params (get_or p ''name'' (JStr [])) = Some cp \<and>
          types_known (jget p ''code_type'') (jget cp ''type'') \<and>
          incompatible (jget p ''code_type'') (jget cp ''type'')) \<or>
       (lookup_fn params (get_or p ''name'' (JStr [])) = None \<and> sig_ok sig)"
      using st unfolding 1(2)
      by (auto simp: input_diff_def port_type_diff_def Let_def split: option.splits if_splits)
    with b np fn sig 1(1) show ?thesis unfolding ports_def by blast
  next
    case (2 pn)
    with st show ?thesis by simp
  qed
qed

section \<open>Concrete instances\<close>

definition sample_design :: jdict where
  "sample_design = [
     (''blocks'', JList [
        JObj [(''id'', JStr ''b1''), (''binding'', JStr ''f'')],
        JObj [(''id'', JStr ''b2''), (''binding'', JStr ''g'')],
        JObj [(''id'', JStr ''b3''), (''state'', JStr ''proposed'')]]),
     (''composites'', JList [JObj [(''id'', JStr ''c1''), (''block_ids'', JList [JStr ''b1'', JStr ''b2''])]]),
     (''ports'', JList [JObj [(''id'', JStr ''p1''), (''block_id'', JStr ''b1''), (''name'', JStr ''x'')]]),
     (''nets'', JList [
        JObj [(''id'', JStr ''n1''), (''kind'', JStr ''control''), (''source_block_id'', JStr ''b1''),
              (''target_block_id'', JStr ''b2'')],
        JObj [(''id'', JStr ''n2''), (''kind'', JStr ''data''), (''source_block_id'', JStr ''b1''),
              (''target_block_id'', JStr ''b2'')]])]"

definition sample_code :: jdict where
  "sample_code = [(''functions'', JObj [
     (''f'', JObj [(''signature'', JObj [(''params'', JList [])])]), (''g'', JObj [])])]"

definition the_design :: lvs_design where
  "the_design = (case resolve_design sample_design of Inr d \<Rightarrow> d | Inl _ \<Rightarrow>
     \<lparr>ld_snapshot_id = JNull, ld_blocks = [], ld_composites = [], ld_ports = [], ld_nets = [], ld_claims = []\<rparr>)"

definition the_code :: lvs_code where
  "the_code = (case resolve_code sample_code of Inr c \<Rightarrow> c | Inl _ \<Rightarrow>
     \<lparr>lc_snapshot_id = JNull, lc_baseline_id = JNull, lc_functions = [], lc_baseline_functions = [],
      lc_edges = [], lc_baseline_edges = [], lc_resources = JNull, lc_call_capability = JNull,
      lc_data_capability = JNull, lc_by_source = [], lc_by_target = []\<rparr>)"

lemma resolve_sample: "resolve_design sample_design = Inr the_design" "resolve_code sample_code = Inr the_code"
proof -
  have "is_ok (resolve_design sample_design)" "is_ok (resolve_code sample_code)" by code_simp+
  then obtain d c where "resolve_design sample_design = Inr d" "resolve_code sample_code = Inr c"
    using is_okE by metis
  then show "resolve_design sample_design = Inr the_design" "resolve_code sample_code = Inr the_code"
    by (simp_all add: the_design_def the_code_def)
qed

lemma run_lvs_report_witness:
  "\<exists>r. run_lvs sample_design sample_code = Inr r \<and> sorted (map diff_key (lr_diffs r))"
proof -
  have "is_ok (compare_ports the_design the_code)" by code_simp
  then obtain ports where "compare_ports the_design the_code = Inr ports" using is_okE by blast
  then obtain r where r: "run_lvs sample_design sample_code = Inr r"
    by (simp add: run_lvs_def resolve_sample all_diffs_def all_comparators_def total_def)
  from run_lvs_report [OF r] r show ?thesis by blast
qed

lemma call_verdict_evidence_witness:
  "\<exists>d \<in> set (compare_calls the_design the_code). lv_status d = MISMATCH \<and>
     lc_call_capability the_code = JStr ''COMPLETE''"
proof -
  have "list_ex (\<lambda>d. lv_status d = MISMATCH) (compare_calls the_design the_code)" by code_simp
  then obtain d where d: "d \<in> set (compare_calls the_design the_code)" "lv_status d = MISMATCH"
    by (auto simp: list_ex_iff)
  have "lv_status d \<in> {MATCH, MISMATCH}" using d by simp
  from call_verdict_evidence [OF resolve_sample(2) d(1) this] d show ?thesis by auto
qed

lemma data_verdict_evidence_witness:
  "\<exists>d \<in> set (compare_data the_design the_code). lv_status d = MISMATCH \<and>
     lc_data_capability the_code = JStr ''COMPLETE''"
proof -
  have "list_ex (\<lambda>d. lv_status d = MISMATCH) (compare_data the_design the_code)" by code_simp
  then obtain d where d: "d \<in> set (compare_data the_design the_code)" "lv_status d = MISMATCH"
    by (auto simp: list_ex_iff)
  have "lv_status d \<in> {MATCH, MISMATCH}" using d by simp
  from data_verdict_evidence [OF resolve_sample(2) d(1) this] d show ?thesis by auto
qed

lemma block_status_table_witness:
  "\<exists>d \<in> set (compare_blocks the_design the_code). lv_status d = UNBOUND \<and>
     (\<exists>b \<in> set (ld_blocks the_design). proposed b)"
proof -
  have "list_ex (\<lambda>d. lv_status d = UNBOUND) (compare_blocks the_design the_code)" by code_simp
  then obtain d where d: "d \<in> set (compare_blocks the_design the_code)" "lv_status d = UNBOUND"
    by (auto simp: list_ex_iff)
  from block_status_table [OF d(1)] d show ?thesis by (auto split: if_splits)
qed

lemma boundary_equivalence_earned_witness:
  "\<exists>d \<in> set (compare_boundaries the_design the_code). lv_status d = BOUNDARY_EQUIVALENT \<and>
     (\<exists>cp \<in> set (ld_composites the_design). member_bindings the_design cp \<noteq> [])"
proof -
  have "list_ex (\<lambda>d. lv_status d = BOUNDARY_EQUIVALENT) (compare_boundaries the_design the_code)" by code_simp
  then obtain d where d: "d \<in> set (compare_boundaries the_design the_code)" "lv_status d = BOUNDARY_EQUIVALENT"
    by (auto simp: list_ex_iff)
  from boundary_equivalence_earned [OF d] d show ?thesis by blast
qed

lemma port_mismatch_evidence_witness:
  "\<exists>ds d. compare_ports the_design the_code = Inr ds \<and> d \<in> set ds \<and> lv_status d = MISMATCH \<and>
     (\<exists>b \<in> set (ld_blocks the_design). \<not> proposed b)"
proof -
  have "(case compare_ports the_design the_code of Inr ds \<Rightarrow> list_ex (\<lambda>d. lv_status d = MISMATCH) ds
      | Inl _ \<Rightarrow> False)" by code_simp
  then obtain ds d where d: "compare_ports the_design the_code = Inr ds" "d \<in> set ds" "lv_status d = MISMATCH"
    by (auto simp: list_ex_iff split: sum.splits)
  from port_mismatch_evidence [OF d] d show ?thesis by blast
qed

end
