(* ===== verification/Drc.thy ===== *)
theory Drc
  imports Lvs_Model
begin

text \<open>
  The design rule check core: findings with their frozen severity and status
  (\<open>drc/model.py\<close>), the rule context and the engine that runs the rules (\<open>drc/engine.py\<close>).

  A rule is its id with its \<open>run\<close>; a rule that raises gives \<open>Inl\<close> the text of the exception,
  which the engine turns into a finding. A confidence is the exact value of the Python float.
\<close>

section \<open>Findings\<close>

datatype severity = SEV_ERROR | SEV_WARNING | SEV_INFO | SEV_UNKNOWN

datatype status = ST_VIOLATION | ST_WARNING | ST_UNKNOWN | ST_PASS

fun severity_value :: "severity \<Rightarrow> string" where
  "severity_value SEV_ERROR = ''ERROR''"
| "severity_value SEV_WARNING = ''WARNING''"
| "severity_value SEV_INFO = ''INFO''"
| "severity_value SEV_UNKNOWN = ''UNKNOWN''"

fun st_value :: "status \<Rightarrow> string" where
  "st_value ST_VIOLATION = ''VIOLATION''"
| "st_value ST_WARNING = ''WARNING''"
| "st_value ST_UNKNOWN = ''UNKNOWN''"
| "st_value ST_PASS = ''PASS''"

fun status_for :: "severity \<Rightarrow> status" where
  "status_for SEV_UNKNOWN = ST_UNKNOWN"
| "status_for SEV_ERROR = ST_VIOLATION"
| "status_for SEV_WARNING = ST_WARNING"
| "status_for SEV_INFO = ST_WARNING"

record finding =
  fi_rule_id :: string
  fi_severity :: severity
  fi_status :: status
  fi_subject_ids :: "string list"
  fi_related_ids :: "string list"
  fi_message :: string
  fi_why :: string
  fi_truth_requirements :: "string list"
  fi_truth_observed :: "jdict option"
  fi_witnesses :: "json list"
  fi_source_locations :: "json list"
  fi_coverage :: string
  fi_confidence :: rat
  fi_suggested_fix :: "string option"

text \<open>\<open>__post_init__\<close>: severity and status are brought into line.\<close>

definition post_init :: "finding \<Rightarrow> finding" where
  "post_init f =
     (if fi_status f = ST_PASS then f\<lparr>fi_severity := SEV_INFO\<rparr>
      else if fi_status f = ST_UNKNOWN then f\<lparr>fi_severity := SEV_UNKNOWN\<rparr>
      else f\<lparr>fi_status := status_for (fi_severity f)\<rparr>)"

text \<open>\<open>round(x, 3)\<close> and \<open>repr\<close> of the result.\<close>

definition round_half_even :: "rat \<Rightarrow> int" where
  "round_half_even x =
     (let f = \<lfloor>x\<rfloor>; d = x - of_int f
      in if d < 1 / 2 then f else if 1 / 2 < d then f + 1 else if even f then f else f + 1)"

definition strip_zeros :: "string \<Rightarrow> string" where
  "strip_zeros s = (let t = rstrip_of ''0'' s in if t = [] then ''0'' else t)"

definition milli_text :: "rat \<Rightarrow> string" where
  "milli_text x =
     (let n = nat \<bar>round_half_even (x * 1000)\<bar>; r = n mod 1000
      in (if x < 0 then ''-'' else []) @ nat_str (n div 1000) @ ''.''
         @ strip_zeros [digit (r div 100), digit (r div 10 mod 10), digit (r mod 10)])"

definition finding_to_dict :: "finding \<Rightarrow> json" where
  "finding_to_dict f = JObj [
     (''rule_id'', JStr (fi_rule_id f)),
     (''severity'', JStr (severity_value (fi_severity f))),
     (''status'', JStr (st_value (fi_status f))),
     (''subject_ids'', jstrs (fi_subject_ids f)),
     (''related_ids'', jstrs (fi_related_ids f)),
     (''message'', JStr (fi_message f)),
     (''why'', JStr (fi_why f)),
     (''truth_requirements'', jstrs (fi_truth_requirements f)),
     (''truth_observed'', jopt JObj (fi_truth_observed f)),
     (''witnesses'', JList (fi_witnesses f)),
     (''source_locations'', JList (fi_source_locations f)),
     (''coverage'', JStr (fi_coverage f)),
     (''confidence'', JFloat (milli_text (fi_confidence f))),
     (''suggested_fix'', jopt JStr (fi_suggested_fix f))]"

record drc_run =
  dr_lane :: string
  dr_data_capability :: string
  dr_environment :: jdict
  dr_findings :: "finding list"
  dr_rules_run :: "string list"
  dr_not_applicable :: "string list"
  dr_notes :: "string list"

text \<open>\<open>d[k] = d.get(k, 0) + 1\<close> over the findings.\<close>

definition count_by :: "('a \<Rightarrow> string) \<Rightarrow> 'a list \<Rightarrow> (string, nat) dict" where
  "count_by g xs = fold (\<lambda>x d. dict_set (g x) (get_or d (g x) 0 + 1) d) xs []"

definition counts_json :: "(string, nat) dict \<Rightarrow> json" where
  "counts_json d = JObj (map (\<lambda>(k, n). (k, JInt (int n))) d)"

definition summary :: "drc_run \<Rightarrow> json" where
  "summary r = JObj [
     (''lane'', JStr (dr_lane r)),
     (''total'', JInt (int (length (dr_findings r)))),
     (''by_severity'', counts_json (count_by (\<lambda>f. severity_value (fi_severity f)) (dr_findings r))),
     (''by_rule'', counts_json (count_by fi_rule_id (dr_findings r))),
     (''data_capability'', JStr (dr_data_capability r)),
     (''environment'', jget (dr_environment r) ''name''),
     (''pass_count'', JInt 0)]"

definition run_to_dict :: "drc_run \<Rightarrow> jdict" where
  "run_to_dict r = [
     (''lane'', JStr (dr_lane r)),
     (''data_capability'', JStr (dr_data_capability r)),
     (''environment'', JObj (dr_environment r)),
     (''summary'', summary r),
     (''findings'', JList (map finding_to_dict (dr_findings r))),
     (''rules_run'', jstrs (dr_rules_run r)),
     (''not_applicable'', jstrs (dr_not_applicable r)),
     (''notes'', jstrs (dr_notes r))]"

section \<open>Context\<close>

record drc_context =
  dc_lane :: string
  dc_topology :: jdict
  dc_data_capability :: string
  dc_environment :: jdict
  dc_design_claims :: "jdict list"
  dc_emit_pass :: bool
  dc_nodes :: "(json, jdict) dict"
  dc_edges :: "jdict list"
  dc_by_source :: "(json, jdict list) dict"
  dc_by_target :: "(json, jdict list) dict"
  dc_resource_names :: "json list"

definition node_edges :: "drc_context \<Rightarrow> json \<Rightarrow> json list \<Rightarrow> jdict list" where
  "node_edges ctx cid kinds =
     (let out = get_or (dc_by_source ctx) cid [] @ get_or (dc_by_target ctx) cid []
      in if kinds = [] then out else filter (\<lambda>e. jget e ''kind'' \<in> set kinds) out)"

text \<open>\<open>ctx.make\<close>, with the arguments its callers leave out at their defaults.\<close>

definition make_status :: "severity \<Rightarrow> status option \<Rightarrow> status" where
  "make_status severity st = (case st of Some s \<Rightarrow> s | None \<Rightarrow>
     (if severity = SEV_UNKNOWN then ST_UNKNOWN
      else if severity = SEV_ERROR then ST_VIOLATION else ST_WARNING))"

definition make_as :: "status option \<Rightarrow> string \<Rightarrow> severity \<Rightarrow> string list \<Rightarrow> string \<Rightarrow> string \<Rightarrow>
    string \<Rightarrow> finding" where
  "make_as st rule_id severity subject_ids message why coverage = post_init
     \<lparr>fi_rule_id = rule_id, fi_severity = severity, fi_status = make_status severity st,
      fi_subject_ids = subject_ids, fi_related_ids = [], fi_message = message, fi_why = why,
      fi_truth_requirements = [], fi_truth_observed = None, fi_witnesses = [],
      fi_source_locations = [], fi_coverage = coverage, fi_confidence = 0,
      fi_suggested_fix = None\<rparr>"

abbreviation make_finding :: "string \<Rightarrow> severity \<Rightarrow> string list \<Rightarrow> string \<Rightarrow> string \<Rightarrow> string \<Rightarrow> finding" where
  "make_finding \<equiv> make_as None"

definition evidence_ok :: "jdict \<Rightarrow> string list \<Rightarrow> bool" where
  "evidence_ok edge required =
     (let wanted = (if required = [] then [''OBSERVED'', ''RESOLVED''] else required);
          t = jget edge ''truth_class''
      in (if truthy t then t else JStr ''UNKNOWN'') \<in> JStr ` set wanted)"

definition data_sufficient :: "drc_context \<Rightarrow> bool" where
  "data_sufficient ctx = (dc_data_capability ctx \<in> {''COMPLETE'', ''MIXED''})"

definition unknown_finding :: "drc_context \<Rightarrow> string \<Rightarrow> string \<Rightarrow> string \<Rightarrow> string list \<Rightarrow>
    string list \<Rightarrow> string \<Rightarrow> jdict option \<Rightarrow> string option \<Rightarrow> finding" where
  "unknown_finding ctx rule_id message why subject_ids related_ids coverage observed fixed =
     (make_finding rule_id SEV_UNKNOWN subject_ids message why coverage)
       \<lparr>fi_related_ids := related_ids,
        fi_truth_requirements := [''sufficient data/state evidence for this check''],
        fi_truth_observed := Some (case observed of
            Some d \<Rightarrow> if d \<noteq> [] then d
              else [(''data_capability'', JStr (dc_data_capability ctx)), (''covers'', JStr coverage)]
          | None \<Rightarrow> [(''data_capability'', JStr (dc_data_capability ctx)), (''covers'', JStr coverage)]),
        fi_confidence := 1 / 2, fi_suggested_fix := fixed\<rparr>"

definition finding_key :: "finding \<Rightarrow> string \<times> string list \<times> string" where
  "finding_key f = (fi_rule_id f, fi_subject_ids f, fi_message f)"

definition sorted_findings :: "finding list \<Rightarrow> finding list" where
  "sorted_findings fs = sort_key finding_key fs"

section \<open>Engine\<close>

type_synonym rule = "string \<times> (drc_context \<Rightarrow> string + finding list)"

text \<open>\<open>str(e.get(k) or "")\<close>.\<close>

definition text_at :: "jdict \<Rightarrow> string \<Rightarrow> string" where
  "text_at e k = (if truthy (jget e k) then py_str (jget e k) else [])"

definition edge_key :: "jdict \<Rightarrow> string \<times> string \<times> string \<times> string" where
  "edge_key e = (text_at e ''source'', text_at e ''target'', text_at e ''kind'', text_at e ''truth_class'')"

definition index_context :: "drc_context \<Rightarrow> jdict list \<Rightarrow> json list \<Rightarrow> jdict list \<Rightarrow> drc_context" where
  "index_context ctx nodes ids raw_edges =
     (let edges = sort_key edge_key raw_edges
      in ctx\<lparr>dc_nodes := dict_of fst snd (zip ids nodes),
             dc_edges := edges,
             dc_by_source := group_by (\<lambda>e. get_or e ''source'' (JStr [])) edges,
             dc_by_target := group_by (\<lambda>e. get_or e ''target'' (JStr [])) edges,
             dc_resource_names := remdups (map (\<lambda>e. get_or e ''target'' (JStr []))
               (filter (\<lambda>e. jget e ''kind'' = JStr ''RESOURCE'') edges))\<rparr>)"

definition rule_findings :: "drc_context \<Rightarrow> rule \<Rightarrow> finding list" where
  "rule_findings ctx r =
     (let found = (case snd r ctx of
          Inl exc \<Rightarrow> [make_finding (fst r) SEV_UNKNOWN [] (''rule crashed: '' @ exc) ''internal error'' ''UNKNOWN'']
        | Inr fs \<Rightarrow> fs)
      in if dc_emit_pass ctx then found else filter (\<lambda>f. fi_status f \<noteq> ST_PASS) found)"

definition run_engine :: "drc_context \<Rightarrow> rule list \<Rightarrow> ev_error + drc_run" where
  "run_engine ctx rules =
     and_then (dicts_at (dc_topology ctx) ''nodes'') (\<lambda>nodes.
     and_then (map_err (\<lambda>n. jindex n ''canonical_symbol_id'') nodes) (\<lambda>ids.
     and_then (dicts_at (dc_topology ctx) ''edges'') (\<lambda>edges.
       let ctx' = index_context ctx nodes ids edges
       in Inr \<lparr>dr_lane = dc_lane ctx, dr_data_capability = dc_data_capability ctx,
         dr_environment = dc_environment ctx,
         dr_findings = sorted_findings (concat (map (rule_findings ctx') rules)),
         dr_rules_run = map fst rules, dr_not_applicable = [], dr_notes = []\<rparr>)))"

section \<open>Facts about findings\<close>

text \<open>Severity and status agree.\<close>

definition consistent :: "finding \<Rightarrow> bool" where
  "consistent f =
     (if fi_status f = ST_PASS then fi_severity f = SEV_INFO else fi_status f = status_for (fi_severity f))"

lemma post_init_consistent [simp]: "consistent (post_init f)"
  by (cases "fi_severity f") (auto simp: consistent_def post_init_def)

lemma post_init_fixpoint: "consistent f \<Longrightarrow> post_init f = f"
  by (cases f; cases "fi_severity f"; cases "fi_status f") (simp_all add: consistent_def post_init_def)

lemma make_fields [simp]:
  "fi_rule_id (make_finding r s ids m w c) = r" "fi_subject_ids (make_finding r s ids m w c) = ids"
  "fi_message (make_finding r s ids m w c) = m" "fi_why (make_finding r s ids m w c) = w"
  "fi_coverage (make_finding r s ids m w c) = c"
  by (simp_all add: make_as_def post_init_def)

lemma make_status_eq [simp]: "fi_status (make_finding r s ids m w c) = status_for s"
  by (cases s) (simp_all add: make_as_def post_init_def make_status_def)

lemma make_severity [simp]: "fi_severity (make_finding r s ids m w c) = s"
  by (cases s) (simp_all add: make_as_def post_init_def make_status_def)

lemma make_as_consistent: "consistent (make_as st r s ids m w c)"
  by (simp add: make_as_def)

lemma rule_findings_crash:
  "snd r ctx = Inl exc \<Longrightarrow> rule_findings ctx r =
     [make_finding (fst r) SEV_UNKNOWN [] (''rule crashed: '' @ exc) ''internal error'' ''UNKNOWN'']"
  by (simp add: rule_findings_def Let_def)

lemma rule_findings_ok:
  "snd r ctx = Inr fs \<Longrightarrow> rule_findings ctx r =
     (if dc_emit_pass ctx then fs else filter (\<lambda>f. fi_status f \<noteq> ST_PASS) fs)"
  by (simp add: rule_findings_def)

text \<open>The context the rules see: the input with its indexes.\<close>

definition indexed :: "drc_context \<Rightarrow> drc_context \<Rightarrow> bool" where
  "indexed ctx ctx' = (\<exists>nodes ids edges. dicts_at (dc_topology ctx) ''nodes'' = Inr nodes \<and>
     map_err (\<lambda>n. jindex n ''canonical_symbol_id'') nodes = Inr ids \<and>
     dicts_at (dc_topology ctx) ''edges'' = Inr edges \<and> ctx' = index_context ctx nodes ids edges)"

lemma indexed_emit: "indexed ctx ctx' \<Longrightarrow> dc_emit_pass ctx' = dc_emit_pass ctx"
  by (auto simp: indexed_def index_context_def Let_def)

lemma run_engine_Inr:
  assumes "run_engine ctx rules = Inr run"
  obtains ctx' where "indexed ctx ctx'"
    and "dr_findings run = sorted_findings (concat (map (rule_findings ctx') rules))"
    and "dr_rules_run run = map fst rules"
proof -
  from assms obtain nodes ids edges where
    ix: "dicts_at (dc_topology ctx) ''nodes'' = Inr nodes"
      "map_err (\<lambda>n. jindex n ''canonical_symbol_id'') nodes = Inr ids"
      "dicts_at (dc_topology ctx) ''edges'' = Inr edges" and
    "run = \<lparr>dr_lane = dc_lane ctx, dr_data_capability = dc_data_capability ctx,
      dr_environment = dc_environment ctx,
      dr_findings = sorted_findings (concat (map (rule_findings (index_context ctx nodes ids edges)) rules)),
      dr_rules_run = map fst rules, dr_not_applicable = [], dr_notes = []\<rparr>"
    by (auto simp: run_engine_def and_then_Inr Let_def)
  with that [of "index_context ctx nodes ids edges"] show thesis
    by (auto simp: indexed_def)
qed

end
