(* ===== verification/Design_Drc.thy ===== *)
theory Design_Drc
  imports Drc
begin

text \<open>
  The design rule of the change lifecycle (\<open>design_lifecycle/design_drc.py\<close>) and its run
  through the engine. Planned relations form a graph; the depth-first search for a planned
  dependency cycle is modelled with its two visited sets and proved to decide acyclicity.
  A Python set of nodes is a list; the search result does not depend on its order. The limit
  of the Python stack is not modelled.
\<close>

section \<open>Iterating and hashing untyped values\<close>

fun type_name :: "json \<Rightarrow> string" where
  "type_name JNull = ''NoneType''"
| "type_name (JBool b) = ''bool''"
| "type_name (JInt i) = ''int''"
| "type_name (JFloat r) = ''float''"
| "type_name (JStr s) = ''str''"
| "type_name (JList xs) = ''list''"
| "type_name (JObj kvs) = ''dict''"

definition sq :: "string \<Rightarrow> string" where
  "sq s = CHR 0x27 # s @ [CHR 0x27]"

text \<open>\<open>for x in value\<close>, \<open>value.get\<close> and \<open>hash(value)\<close>, with the text of the exception.\<close>

definition iterate :: "json \<Rightarrow> string + json list" where
  "iterate j = (case j of
     JList xs \<Rightarrow> Inr xs
   | JStr s \<Rightarrow> Inr (map (\<lambda>c. JStr [c]) s)
   | JObj kvs \<Rightarrow> Inr (map (\<lambda>(k, v). JStr k) kvs)
   | _ \<Rightarrow> Inl (sq (type_name j) @ '' object is not iterable''))"

definition attr_get :: "json \<Rightarrow> string + jdict" where
  "attr_get j = (case j of JObj d \<Rightarrow> Inr d
     | _ \<Rightarrow> Inl (sq (type_name j) @ '' object has no attribute '' @ sq ''get''))"

definition hashed :: "json \<Rightarrow> string + json" where
  "hashed j = (case j of
     JList xs \<Rightarrow> Inl (''unhashable type: '' @ sq ''list'')
   | JObj d \<Rightarrow> Inl (''unhashable type: '' @ sq ''dict'')
   | _ \<Rightarrow> Inr j)"

text \<open>\<open>set(value)\<close> and \<open>{tuple(x) for x in value}\<close>.\<close>

definition set_of :: "json \<Rightarrow> string + json list" where
  "set_of j = and_then (iterate j) (map_err hashed)"

definition tuples_of :: "json \<Rightarrow> string + json list list" where
  "tuples_of j = and_then (iterate j) (map_err set_of)"

text \<open>\<open>list(value)\<close>, with a character of a text as an entry and the keys of a dictionary.\<close>

definition py_list :: "json \<Rightarrow> ev_error + json list" where
  "py_list j = (case iterate j of Inl _ \<Rightarrow> Inl TypeError | Inr xs \<Rightarrow> Inr xs)"

section \<open>The search for a cycle\<close>

type_synonym graph = "(string, string list) dict"

definition succs :: "graph \<Rightarrow> string \<Rightarrow> string list" where
  "succs g n = get_or g n []"

text \<open>
  \<open>visit\<close> applied to nodes in turn: the verdict, and the nodes done. The nodes of the current
  path are \<open>active\<close>.
\<close>

function visit :: "graph \<Rightarrow> string list \<Rightarrow> string list \<Rightarrow> string list \<Rightarrow> bool \<times> string list" where
  "visit g [] active finished = (False, finished)"
| "visit g (n # ns) active finished =
     (if n \<in> set active then (True, finished)
      else if n \<in> set finished then visit g ns active finished
      else case visit g (succs g n) (n # active) finished of
          (True, d) \<Rightarrow> (True, d)
        | (False, d) \<Rightarrow> visit g ns active (n # d))"
  by pat_completeness auto

lemma visit_keeps:
  "visit_dom (g, ns, active, finished) \<Longrightarrow> set finished \<subseteq> set (snd (visit g ns active finished))"
proof (induction g ns active finished rule: visit.pinduct)
  case (1 g active finished)
  then show ?case by (simp add: visit.psimps)
next
  case (2 g n ns active finished)
  show ?case
  proof (cases "n \<in> set active \<or> n \<in> set finished")
    case True
    then show ?thesis
      using 2 by (cases "n \<in> set active") (auto simp: visit.psimps)
  next
    case False
    obtain c d where vis: "visit g (succs g n) (n # active) finished = (c, d)"
      by (cases "visit g (succs g n) (n # active) finished")
    have sub: "set finished \<subseteq> set d"
      using 2 False vis by (metis snd_conv)
    show ?thesis
    proof (cases c)
      case True
      then show ?thesis using 2(1) False vis sub by (auto simp: visit.psimps)
    next
      case c: False
      have "set (n # d) \<subseteq> set (snd (visit g ns active (n # d)))"
        using 2(4) False vis c by auto
      then show ?thesis using 2(1) False vis sub c by (auto simp: visit.psimps)
    qed
  qed
qed

definition pending :: "graph \<Rightarrow> string list \<Rightarrow> string list \<Rightarrow> string set" where
  "pending g active finished = fst ` set g - set active - set finished"

lemma finite_pending [simp]: "finite (pending g active finished)"
  by (simp add: pending_def)

lemma succs_none: "n \<notin> fst ` set g \<Longrightarrow> succs g n = []"
  by (simp add: succs_def get_or_def map_of_eq_None_iff [symmetric])

lemma pending_psubset:
  "n \<in> fst ` set g \<Longrightarrow> n \<notin> set active \<Longrightarrow> n \<notin> set finished \<Longrightarrow>
   card (pending g (n # active) finished) < card (pending g active finished)"
  by (rule psubset_card_mono) (auto simp: pending_def)

lemma pending_mono: "set finished \<subseteq> set d \<Longrightarrow> card (pending g active d) \<le> card (pending g active finished)"
  by (rule card_mono) (auto simp: pending_def)

definition visit_order :: "((graph \<times> string list \<times> string list \<times> string list) \<times>
    (graph \<times> string list \<times> string list \<times> string list)) set" where
  "visit_order = measures [\<lambda>(g, ns, active, finished). card (pending g active finished),
     \<lambda>(g, ns, active, finished). length ns]"

lemma visit_order_iff:
  "((g, ns, active, finished), (g', ns', active', finished')) \<in> visit_order \<longleftrightarrow>
     card (pending g active finished) < card (pending g' active' finished') \<or>
     card (pending g active finished) = card (pending g' active' finished') \<and> length ns < length ns'"
  by (simp add: visit_order_def)

termination visit
proof (relation visit_order)
  show "wf visit_order" by (simp add: visit_order_def)
next
  fix g :: graph and n :: string and ns active finished :: "string list"
  assume "n \<notin> set active" and "n \<in> set finished"
  then show "((g, ns, active, finished), g, n # ns, active, finished) \<in> visit_order"
    by (simp add: visit_order_iff)
next
  fix g :: graph and n :: string and ns active finished :: "string list"
  assume fresh: "n \<notin> set active" "n \<notin> set finished"
  show "((g, succs g n, n # active, finished), g, n # ns, active, finished) \<in> visit_order"
  proof (cases "n \<in> fst ` set g")
    case True
    then show ?thesis using pending_psubset [OF True fresh] by (simp add: visit_order_iff)
  next
    case False
    then have "pending g (n # active) finished = pending g active finished"
      by (auto simp: pending_def)
    then show ?thesis by (simp add: visit_order_iff succs_none [OF False])
  qed
next
  fix g :: graph and n :: string and ns active finished :: "string list" and c d
  assume vis: "(c, d) = visit g (succs g n) (n # active) finished"
    and dom: "visit_dom (g, succs g n, n # active, finished)"
  have "set finished \<subseteq> set (n # d)"
    using visit_keeps [OF dom] vis by (metis set_subset_Cons snd_conv subset_trans)
  then show "((g, ns, active, n # d), g, n # ns, active, finished) \<in> visit_order"
    using pending_mono [of finished "n # d" g active] by (auto simp: visit_order_iff)
qed

declare visit.simps(2) [simp del]

lemma visit_Cons:
  "visit g (n # ns) active finished =
     (if n \<in> set active then (True, finished)
      else if n \<in> set finished then visit g ns active finished
      else let (c, d) = visit g (succs g n) (n # active) finished
        in if c then (True, d) else visit g ns active (n # d))"
  by (simp add: visit.simps(2) split: prod.splits bool.splits)

text \<open>\<open>any(visit(node, set(), done) for node in sorted(graph))\<close>.\<close>

definition has_cycle :: "graph \<Rightarrow> bool" where
  "has_cycle g = fst (visit g (sort (keys g)) [] [])"

definition edges_of :: "graph \<Rightarrow> (string \<times> string) set" where
  "edges_of g = {(n, m). m \<in> set (succs g n)}"

lemma visit_finds_cycle:
  assumes "fst (visit g ns active finished)"
    and "\<And>a t. a \<in> set active \<Longrightarrow> t \<in> set ns \<Longrightarrow> (a, t) \<in> (edges_of g)\<^sup>+"
  shows "\<exists>x. (x, x) \<in> (edges_of g)\<^sup>+"
  using assms
proof (induction g ns active finished rule: visit.induct)
  case (1 g active finished)
  then show ?case by simp
next
  case (2 g n ns active finished)
  note path = "2.prems"(2)
  obtain c d where vis: "visit g (succs g n) (n # active) finished = (c, d)"
    by (cases "visit g (succs g n) (n # active) finished")
  have deeper: "(a, t) \<in> (edges_of g)\<^sup>+" if "a \<in> set (n # active)" and "t \<in> set (succs g n)" for a t
  proof -
    have step: "(n, t) \<in> edges_of g" using that(2) by (simp add: edges_of_def)
    show ?thesis
    proof (cases "a = n")
      case True
      then show ?thesis using step by blast
    next
      case False
      then have "(a, n) \<in> (edges_of g)\<^sup>+" using that(1) path by simp
      then show ?thesis using step by (rule trancl_into_trancl)
    qed
  qed
  consider "n \<in> set active" | "n \<notin> set active" "n \<in> set finished"
    | "n \<notin> set active" "n \<notin> set finished" c | "n \<notin> set active" "n \<notin> set finished" "\<not> c"
    by blast
  then show ?case
  proof cases
    case 1
    then show ?thesis using path [of n n] by auto
  next
    case 2
    then show ?thesis using "2.IH"(1) "2.prems" by (simp add: visit_Cons)
  next
    case 3
    then show ?thesis using "2.IH"(2) vis deeper by simp
  next
    case 4
    then have "fst (visit g ns active (n # d))"
      using "2.prems"(1) vis by (simp add: visit_Cons)
    then show ?thesis using "2.IH"(3) [OF 4(1,2) vis [symmetric]] 4 path by simp
  qed
qed

text \<open>A set of finished nodes is closed under edges and free of cycles.\<close>

definition settled :: "graph \<Rightarrow> string set \<Rightarrow> bool" where
  "settled g X = (\<forall>x \<in> X. set (succs g x) \<subseteq> X \<and> (x, x) \<notin> (edges_of g)\<^sup>+)"

lemma settled_closed:
  assumes "(x, y) \<in> (edges_of g)\<^sup>*" and "settled g X" and "x \<in> X"
  shows "y \<in> X"
  using assms by (induction rule: rtrancl_induct) (auto simp: settled_def edges_of_def)

lemma settled_insert:
  assumes "settled g X" and "set (succs g n) \<subseteq> X"
  shows "settled g (insert n X)"
proof -
  have "(n, n) \<notin> (edges_of g)\<^sup>+"
  proof
    assume cyc: "(n, n) \<in> (edges_of g)\<^sup>+"
    then obtain s where "(n, s) \<in> edges_of g" and home: "(s, n) \<in> (edges_of g)\<^sup>*"
      by (meson tranclD)
    then have "s \<in> X" using assms(2) by (auto simp: edges_of_def)
    with home assms(1) have "n \<in> X" by (rule settled_closed)
    then show False using assms(1) cyc by (auto simp: settled_def)
  qed
  then show ?thesis using assms by (auto simp: settled_def)
qed

lemma visit_settles:
  assumes "visit g ns active finished = (False, d)" and "settled g (set finished)"
  shows "settled g (set d) \<and> set finished \<subseteq> set d \<and> set ns \<subseteq> set d"
  using assms
proof (induction g ns active finished arbitrary: d rule: visit.induct)
  case (1 g active finished)
  then show ?case by simp
next
  case (2 g n ns active finished)
  have fresh: "n \<notin> set active" using "2.prems"(1) by (auto simp: visit_Cons)
  obtain c e where vis: "visit g (succs g n) (n # active) finished = (c, e)"
    by (cases "visit g (succs g n) (n # active) finished")
  show ?case
  proof (cases "n \<in> set finished")
    case True
    then show ?thesis using 2 fresh by (auto simp: visit_Cons)
  next
    case False
    then have c: "\<not> c" and rest: "visit g ns active (n # e) = (False, d)"
      using "2.prems"(1) fresh vis by (auto simp: visit_Cons split: if_splits)
    have e: "settled g (set e) \<and> set finished \<subseteq> set e \<and> set (succs g n) \<subseteq> set e"
      using "2.IH"(2) [OF fresh False] vis c "2.prems"(2) by simp
    then have "settled g (set (n # e))" using settled_insert by auto
    then have "settled g (set d) \<and> set (n # e) \<subseteq> set d \<and> set ns \<subseteq> set d"
      using "2.IH"(3) [OF fresh False vis [symmetric]] c rest by simp
    with e show ?thesis by auto
  qed
qed

lemma has_cycle_iff: "has_cycle g \<longleftrightarrow> \<not> acyclic (edges_of g)"
proof
  assume "has_cycle g"
  then show "\<not> acyclic (edges_of g)"
    using visit_finds_cycle [of g "sort (keys g)" "[]" "[]"] by (auto simp: has_cycle_def acyclic_def)
next
  assume cyc: "\<not> acyclic (edges_of g)"
  show "has_cycle g"
  proof (rule ccontr)
    assume "\<not> has_cycle g"
    then obtain d where vis: "visit g (sort (keys g)) [] [] = (False, d)"
      by (metis (full_types) has_cycle_def prod.collapse)
    have d: "settled g (set d)" "set (keys g) \<subseteq> set d"
      using visit_settles [OF vis] by (simp_all add: settled_def)
    from cyc obtain x where x: "(x, x) \<in> (edges_of g)\<^sup>+" by (auto simp: acyclic_def)
    then obtain s where "(x, s) \<in> edges_of g" by (meson tranclD)
    then have "x \<in> set (keys g)"
      using succs_none [of x g] by (force simp: edges_of_def keys_def)
    with d x show False by (auto simp: settled_def)
  qed
qed

section \<open>The rule\<close>

abbreviation rule_id :: string where
  "rule_id \<equiv> ''DL-DRC-1''"

record design_limits =
  dl_allowed_files :: "json list"
  dl_forbidden_kinds :: "json list"
  dl_forbidden_directions :: "json list list"

text \<open>The sets the rule reads from its environment before it looks at the claims.\<close>

definition design_limits_of :: "jdict \<Rightarrow> string + design_limits" where
  "design_limits_of environment =
     and_then (attr_get (get_or environment ''scope'' (JObj []))) (\<lambda>scope.
     and_then (set_of (get_or scope ''files'' (JList []))) (\<lambda>files.
     and_then (attr_get (get_or environment ''constraints'' (JObj []))) (\<lambda>constraints.
     and_then (set_of (get_or constraints ''forbidden_relation_kinds'' (JList []))) (\<lambda>kinds.
     and_then (tuples_of (get_or constraints ''forbidden_dependency_directions'' (JList []))) (\<lambda>dirs.
       Inr \<lparr>dl_allowed_files = files, dl_forbidden_kinds = kinds,
            dl_forbidden_directions = dirs\<rparr>)))))"

definition claim_subject :: "nat \<Rightarrow> jdict \<Rightarrow> string list" where
  "claim_subject i claim = [py_str (if truthy (jget claim ''id'') then jget claim ''id''
     else JStr (''claim:'' @ int_str (int i)))]"

definition is_relation :: "jdict \<Rightarrow> bool" where
  "is_relation claim = (jget claim ''kind'' = JStr ''planned_relation'')"

definition has_ends :: "jdict \<Rightarrow> bool" where
  "has_ends claim = (truthy (jget claim ''source'') \<and> truthy (jget claim ''target''))"

definition claim_edge :: "jdict \<Rightarrow> string \<times> string" where
  "claim_edge claim = (py_str (jget claim ''source''), py_str (jget claim ''target''))"

text \<open>The findings on the ends, the kind and the support of a planned relation.\<close>

definition end_findings :: "design_limits \<Rightarrow> string list \<Rightarrow> jdict \<Rightarrow> finding list" where
  "end_findings lm subject claim =
     (if \<not> has_ends claim then
        [make_finding rule_id SEV_ERROR subject ''planned relation target missing''
           ''both source and target identities are required'' ''COMPLETE'']
      else if [JStr (fst (claim_edge claim)), JStr (snd (claim_edge claim))] \<in> set (dl_forbidden_directions lm) then
        [make_finding rule_id SEV_ERROR subject ''illegal dependency direction''
           (py_str (jget claim ''source'') @ '' -> '' @ py_str (jget claim ''target'')
             @ '' is forbidden by design constraints'') ''COMPLETE'']
      else [])"

definition kind_findings :: "design_limits \<Rightarrow> string list \<Rightarrow> jdict \<Rightarrow> string + finding list" where
  "kind_findings lm subject claim =
     and_then (hashed (jget claim ''relation_kind'')) (\<lambda>kind.
       Inr (if kind \<in> set (dl_forbidden_kinds lm) then
           [make_finding rule_id SEV_ERROR subject ''forbidden architecture relation''
              (py_str kind @ '' is forbidden'') ''COMPLETE'']
         else []))"

definition support_findings :: "string list \<Rightarrow> jdict \<Rightarrow> finding list" where
  "support_findings subject claim =
     (if \<not> truthy (jget claim ''justification'') \<or> \<not> truthy (jget claim ''support'') then
        [make_finding rule_id SEV_UNKNOWN subject ''planned relation lacks justification or support''
           ''unsupported design intent cannot satisfy a proof gate'' ''UNKNOWN'']
      else [])"

definition relation_findings :: "design_limits \<Rightarrow> string list \<Rightarrow> jdict \<Rightarrow> string + finding list" where
  "relation_findings lm subject claim =
     (if \<not> is_relation claim then Inr []
      else and_then (kind_findings lm subject claim) (\<lambda>ks.
        Inr (end_findings lm subject claim @ ks @ support_findings subject claim)))"

text \<open>Python compares dictionaries without regard to the order of their keys.\<close>

definition interface_mismatch :: "jdict \<Rightarrow> bool" where
  "interface_mismatch claim =
     (jget claim ''kind'' = JStr ''planned_interface'' \<and>
      jget claim ''base_signature'' \<noteq> JNull \<and> jget claim ''planned_signature'' \<noteq> JNull \<and>
      canon (jget claim ''base_signature'') \<noteq> canon (jget claim ''planned_signature'') \<and>
      \<not> truthy (jget claim ''adapter''))"

definition interface_findings :: "string list \<Rightarrow> jdict \<Rightarrow> finding list" where
  "interface_findings subject claim =
     (if interface_mismatch claim then
        [make_finding rule_id SEV_ERROR subject ''interface mismatch''
           ''signature changes require an explicit adapter or migration'' ''COMPLETE'']
      else [])"

definition path_findings :: "design_limits \<Rightarrow> string list \<Rightarrow> json \<Rightarrow> string + finding list" where
  "path_findings lm subject path =
     (if dl_allowed_files lm = [] then Inr []
      else and_then (hashed path) (\<lambda>p.
        Inr (if p \<notin> set (dl_allowed_files lm) then
            [make_finding rule_id SEV_ERROR subject ''scope contradiction''
               (py_str p @ '' lies outside the approved change scope'') ''COMPLETE'']
          else [])))"

definition touch_findings :: "design_limits \<Rightarrow> string list \<Rightarrow> jdict \<Rightarrow> string + finding list" where
  "touch_findings lm subject claim =
     and_then (iterate (get_or claim ''touches'' (JList []))) (\<lambda>paths.
     and_then (map_err (path_findings lm subject) paths) (\<lambda>fss. Inr (concat fss)))"

definition claim_findings :: "design_limits \<Rightarrow> nat \<times> jdict \<Rightarrow> string + finding list" where
  "claim_findings lm = (\<lambda>(i, claim).
     let subject = claim_subject i claim in
     and_then (relation_findings lm subject claim) (\<lambda>rs.
     and_then (touch_findings lm subject claim) (\<lambda>ts.
       Inr (rs @ interface_findings subject claim @ ts))))"

text \<open>\<open>graph.setdefault(str(src), set()).add(str(dst))\<close>.\<close>

definition planned_graph :: "jdict list \<Rightarrow> graph" where
  "planned_graph claims = fold (\<lambda>(s, t). dict_push s t)
     (map claim_edge (filter (\<lambda>c. is_relation c \<and> has_ends c) claims)) []"

definition cycle_findings :: "jdict list \<Rightarrow> finding list" where
  "cycle_findings claims =
     (if has_cycle (planned_graph claims) then
        [make_finding rule_id SEV_ERROR [] ''planned dependency cycle'' ''planned relations form a cycle'' ''COMPLETE'']
      else [])"

definition lifecycle_rule_run :: "drc_context \<Rightarrow> string + finding list" where
  "lifecycle_rule_run ctx =
     (let claims = dc_design_claims ctx in
      and_then (design_limits_of (dc_environment ctx)) (\<lambda>lm.
      and_then (map_err (claim_findings lm) (enumerate 0 claims)) (\<lambda>fss.
        Inr (concat fss @ cycle_findings claims))))"

definition lifecycle_rule :: rule where
  "lifecycle_rule = (rule_id, lifecycle_rule_run)"

definition design_context :: "jdict list \<Rightarrow> jdict \<Rightarrow> drc_context" where
  "design_context expected_changes scope =
     \<lparr>dc_lane = ''design_lifecycle'',
      dc_topology = [(''nodes'', JList []), (''edges'', JList [])],
      dc_data_capability = ''PARTIAL'',
      dc_environment = [(''name'', JStr ''design_lifecycle''), (''scope'', JObj scope),
        (''constraints'', get_or scope ''constraints'' (JObj []))],
      dc_design_claims = expected_changes, dc_emit_pass = False,
      dc_nodes = [], dc_edges = [], dc_by_source = [], dc_by_target = [], dc_resource_names = []\<rparr>"

definition acceptable_run :: "drc_run \<Rightarrow> bool" where
  "acceptable_run r = (\<not> list_ex (\<lambda>f. fi_status f \<in> {ST_VIOLATION, ST_UNKNOWN}) (dr_findings r))"

definition run_design_drc :: "jdict list \<Rightarrow> jdict \<Rightarrow> ev_error + jdict" where
  "run_design_drc expected_changes scope =
     and_then (run_engine (design_context expected_changes scope) [lifecycle_rule]) (\<lambda>r.
       Inr (run_to_dict r @ [(''acceptable'', JBool (acceptable_run r)),
         (''rule_version'', JStr ''design-lifecycle-drc/1'')]))"

section \<open>What an acceptable design satisfies\<close>

text \<open>A finding that blocks the proof gate.\<close>

definition blocking :: "finding \<Rightarrow> bool" where
  "blocking f = (fi_status f \<in> {ST_VIOLATION, ST_UNKNOWN})"

named_theorems rule_defs "the findings of one claim"

lemmas [rule_defs] = end_findings_def support_findings_def interface_findings_def cycle_findings_def

definition claim_ok :: "design_limits \<Rightarrow> jdict \<Rightarrow> bool" where
  "claim_ok lm c =
     ((if is_relation c then
         has_ends c \<and> truthy (jget c ''justification'') \<and> truthy (jget c ''support'') \<and>
         [JStr (fst (claim_edge c)), JStr (snd (claim_edge c))] \<notin> set (dl_forbidden_directions lm) \<and>
         is_ok (hashed (jget c ''relation_kind'')) \<and> jget c ''relation_kind'' \<notin> set (dl_forbidden_kinds lm)
       else True) \<and>
      \<not> interface_mismatch c \<and>
      (\<exists>paths. iterate (get_or c ''touches'' (JList [])) = Inr paths \<and>
         (dl_allowed_files lm = [] \<or> set paths \<subseteq> set (dl_allowed_files lm))))"

lemma hashed_Inr: "hashed j = Inr k \<Longrightarrow> k = j"
  by (cases j) (simp_all add: hashed_def)

lemma hashed_elem: "j \<in> set xs \<Longrightarrow> map_err hashed ys = Inr xs \<Longrightarrow> hashed j = Inr j"
  by (metis hashed_Inr map_err_member)

lemma concat_Nil_iff: "concat xss = [] \<longleftrightarrow> (\<forall>xs \<in> set xss. xs = [])"
  by (induction xss) auto

lemma map_err_all_Nil:
  "map_err f xs = Inr yss \<Longrightarrow> concat yss = [] \<longleftrightarrow> (\<forall>x \<in> set xs. f x = Inr [])"
proof (induction xs arbitrary: yss)
  case Nil
  then show ?case by simp
next
  case (Cons x xs)
  then obtain y ys where "f x = Inr y" "map_err f xs = Inr ys" "yss = y # ys"
    by (auto simp: and_then_Inr)
  with Cons.IH show ?case by auto
qed

lemma map_err_Nil_ok: "(\<forall>x \<in> set xs. f x = Inr []) \<Longrightarrow> \<exists>yss. map_err f xs = Inr yss \<and> concat yss = []"
  using map_err_total [of xs f] map_err_all_Nil [of f xs] by fastforce

lemma concat_map_err_Nil:
  "and_then (map_err f xs) (\<lambda>yss. Inr (concat yss)) = Inr [] \<longleftrightarrow> (\<forall>x \<in> set xs. f x = Inr [])"
  using map_err_all_Nil [of f xs] map_err_Nil_ok [of xs f] by (auto simp: and_then_Inr)

lemma relation_findings_Nil:
  "relation_findings lm subject c = Inr [] \<longleftrightarrow>
     (if is_relation c then
         has_ends c \<and> truthy (jget c ''justification'') \<and> truthy (jget c ''support'') \<and>
         [JStr (fst (claim_edge c)), JStr (snd (claim_edge c))] \<notin> set (dl_forbidden_directions lm) \<and>
         is_ok (hashed (jget c ''relation_kind'')) \<and> jget c ''relation_kind'' \<notin> set (dl_forbidden_kinds lm)
       else True)"
proof (cases "hashed (jget c ''relation_kind'')")
  case (Inl e)
  then show ?thesis by (simp add: relation_findings_def kind_findings_def)
next
  case (Inr k)
  then have "k = jget c ''relation_kind''" by (rule hashed_Inr)
  with Inr show ?thesis
    by (auto simp: relation_findings_def kind_findings_def rule_defs)
qed

lemma path_findings_Nil:
  assumes "design_limits_of environment = Inr lm"
  shows "path_findings lm subject path = Inr [] \<longleftrightarrow>
    dl_allowed_files lm = [] \<or> path \<in> set (dl_allowed_files lm)"
proof -
  from assms obtain ys where "map_err hashed ys = Inr (dl_allowed_files lm)"
    by (auto simp: design_limits_of_def and_then_Inr set_of_def)
  then have "path \<in> set (dl_allowed_files lm) \<Longrightarrow> hashed path = Inr path"
    using hashed_elem by blast
  then show ?thesis
    by (cases "hashed path") (auto simp: path_findings_def dest: hashed_Inr)
qed

lemma touch_findings_Nil:
  assumes "design_limits_of environment = Inr lm"
  shows "touch_findings lm subject c = Inr [] \<longleftrightarrow>
    (\<exists>paths. iterate (get_or c ''touches'' (JList [])) = Inr paths \<and>
       (dl_allowed_files lm = [] \<or> set paths \<subseteq> set (dl_allowed_files lm)))"
  unfolding touch_findings_def and_then_Inr [of "iterate _"] concat_map_err_Nil
    path_findings_Nil [OF assms]
  by auto

lemma claim_findings_Nil:
  assumes "design_limits_of environment = Inr lm"
  shows "claim_findings lm (i, c) = Inr [] \<longleftrightarrow> claim_ok lm c"
proof -
  have "claim_findings lm (i, c) = Inr [] \<longleftrightarrow>
      relation_findings lm (claim_subject i c) c = Inr [] \<and>
      interface_findings (claim_subject i c) c = [] \<and>
      touch_findings lm (claim_subject i c) c = Inr []"
    by (auto simp: claim_findings_def Let_def and_then_Inr)
  also have "\<dots> \<longleftrightarrow> claim_ok lm c"
    unfolding relation_findings_Nil touch_findings_Nil [OF assms] claim_ok_def
    by (simp add: interface_findings_def)
  finally show ?thesis .
qed

lemma concat_map_err_all:
  assumes "map_err f xs = Inr yss" and "\<And>x ys y. f x = Inr ys \<Longrightarrow> y \<in> set ys \<Longrightarrow> P y"
  shows "\<forall>y \<in> set (concat yss). P y"
proof
  fix y
  assume "y \<in> set (concat yss)"
  then obtain ys where "ys \<in> set yss" "y \<in> set ys" by auto
  with map_err_member [OF assms(1)] assms(2) show "P y" by blast
qed

lemma path_findings_blocking: "path_findings lm subject x = Inr ys \<Longrightarrow> g \<in> set ys \<Longrightarrow> blocking g"
  by (auto simp: path_findings_def and_then_Inr blocking_def split: if_splits)

lemma claim_findings_blocking:
  assumes "claim_findings lm ic = Inr fs" and "f \<in> set fs"
  shows "blocking f"
proof -
  obtain i c where ic: "ic = (i, c)" by (cases ic)
  from assms(1) obtain rs ts where rs: "relation_findings lm (claim_subject i c) c = Inr rs"
    and ts: "touch_findings lm (claim_subject i c) c = Inr ts"
    and fs: "fs = rs @ interface_findings (claim_subject i c) c @ ts"
    by (auto simp: ic claim_findings_def Let_def and_then_Inr)
  have "\<forall>g \<in> set rs. blocking g"
    using rs by (auto simp: relation_findings_def kind_findings_def rule_defs blocking_def and_then_Inr
      split: if_splits)
  moreover have "\<forall>g \<in> set ts. blocking g"
  proof -
    from ts obtain paths fss where fss: "map_err (path_findings lm (claim_subject i c)) paths = Inr fss"
      and "ts = concat fss"
      by (auto simp: touch_findings_def and_then_Inr)
    then show ?thesis using concat_map_err_all [OF fss path_findings_blocking] by simp
  qed
  moreover have "\<forall>g \<in> set (interface_findings (claim_subject i c) c). blocking g"
    by (simp add: interface_findings_def blocking_def)
  ultimately show ?thesis using assms(2) fs by auto
qed

lemma rule_run_blocking:
  assumes "lifecycle_rule_run ctx = Inr fs" and "f \<in> set fs"
  shows "blocking f"
proof -
  from assms(1) obtain lm fss where fss: "map_err (claim_findings lm) (enumerate 0 (dc_design_claims ctx)) = Inr fss"
    and fs: "fs = concat fss @ cycle_findings (dc_design_claims ctx)"
    by (auto simp: lifecycle_rule_run_def Let_def and_then_Inr)
  have "\<forall>g \<in> set (cycle_findings (dc_design_claims ctx)). blocking g"
    by (simp add: cycle_findings_def blocking_def)
  moreover have "\<forall>g \<in> set (concat fss). blocking g"
    by (rule concat_map_err_all [OF fss claim_findings_blocking])
  ultimately show ?thesis using assms(2) fs by (auto simp del: set_concat)
qed

text \<open>The relations a design plans.\<close>

definition planned_edges :: "jdict list \<Rightarrow> (string \<times> string) set" where
  "planned_edges claims = claim_edge ` set (filter (\<lambda>c. is_relation c \<and> has_ends c) claims)"

lemma succs_dict_push: "succs (dict_push s t g) n = succs g n @ (if n = s then [t] else [])"
  by (auto simp: succs_def get_or_def map_of_dict_push split: option.splits)

lemma planned_graph_edges: "edges_of (planned_graph claims) = planned_edges claims"
proof -
  have fold: "edges_of (fold (\<lambda>(s, t). dict_push s t) es g) = set es \<union> edges_of g" for es g
  proof (induction es arbitrary: g)
    case Nil
    then show ?case by simp
  next
    case (Cons e es)
    have "edges_of (dict_push (fst e) (snd e) g) = insert e (edges_of g)"
      by (cases e) (auto simp: edges_of_def succs_dict_push)
    with Cons show ?case by (simp add: case_prod_beta)
  qed
  have "edges_of [] = {}" by (simp add: edges_of_def succs_def get_or_def)
  then show ?thesis by (simp add: planned_graph_def planned_edges_def fold)
qed

lemma rule_run_Nil:
  "lifecycle_rule_run ctx = Inr [] \<longleftrightarrow>
     (\<exists>lm. design_limits_of (dc_environment ctx) = Inr lm \<and>
        (\<forall>c \<in> set (dc_design_claims ctx). claim_ok lm c)) \<and>
     acyclic (planned_edges (dc_design_claims ctx))"
proof (cases "design_limits_of (dc_environment ctx)")
  case (Inl e)
  then show ?thesis by (simp add: lifecycle_rule_run_def)
next
  case (Inr lm)
  let ?cs = "dc_design_claims ctx"
  have "(\<forall>ic \<in> set (enumerate 0 ?cs). claim_findings lm ic = Inr []) \<longleftrightarrow>
      (\<forall>c \<in> set ?cs. claim_ok lm c)"
    using claim_findings_Nil [OF Inr]
    by (metis (no_types, lifting) imageE image_eqI map_snd_enumerate old.prod.exhaust set_map snd_conv)
  moreover have "cycle_findings ?cs = [] \<longleftrightarrow> acyclic (planned_edges ?cs)"
    by (simp add: cycle_findings_def has_cycle_iff planned_graph_edges)
  moreover have "lifecycle_rule_run ctx = Inr [] \<longleftrightarrow>
      and_then (map_err (claim_findings lm) (enumerate 0 ?cs)) (\<lambda>fss. Inr (concat fss)) = Inr [] \<and>
      cycle_findings ?cs = []"
    by (auto simp: lifecycle_rule_run_def Inr Let_def and_then_Inr)
  ultimately show ?thesis by (simp add: Inr concat_map_err_Nil)
qed

lemma design_context_fields [simp]:
  "dc_design_claims (design_context claims scope) = claims"
  "dc_emit_pass (design_context claims scope) = False"
  by (simp_all add: design_context_def)

definition design_environment :: "jdict \<Rightarrow> jdict" where
  "design_environment scope = dc_environment (design_context [] scope)"

lemma run_design_drc_run:
  obtains r where "run_engine (design_context claims scope) [lifecycle_rule] = Inr r"
    and "acceptable_run r \<longleftrightarrow> lifecycle_rule_run (design_context claims scope) = Inr []"
proof -
  let ?ctx = "design_context claims scope"
  let ?ctx' = "index_context ?ctx [] [] []"
  have same: "lifecycle_rule_run ?ctx' = lifecycle_rule_run ?ctx"
    by (simp add: lifecycle_rule_run_def index_context_def Let_def)
  have emit: "dc_emit_pass ?ctx' = False" by (simp add: index_context_def)
  obtain r where r: "run_engine ?ctx [lifecycle_rule] = Inr r"
    and fs: "dr_findings r = sorted_findings (rule_findings ?ctx' lifecycle_rule)"
    by (simp add: run_engine_def design_context_def dicts_at_def get_or_def Let_def)
  have ok: "acceptable_run r \<longleftrightarrow> (\<forall>f \<in> set (rule_findings ?ctx' lifecycle_rule). \<not> blocking f)"
    by (auto simp: acceptable_run_def fs sorted_findings_def list_ex_iff blocking_def)
  have "acceptable_run r \<longleftrightarrow> lifecycle_rule_run ?ctx = Inr []"
  proof (cases "lifecycle_rule_run ?ctx")
    case (Inl exc)
    then show ?thesis
      unfolding ok by (simp add: rule_findings_def lifecycle_rule_def same Let_def emit blocking_def)
  next
    case (Inr fs)
    have "\<forall>f \<in> set fs. blocking f" using rule_run_blocking [OF Inr] by blast
    moreover have "rule_findings ?ctx' lifecycle_rule = filter (\<lambda>f. fi_status f \<noteq> ST_PASS) fs"
      by (simp add: rule_findings_def lifecycle_rule_def same Inr Let_def emit)
    ultimately show ?thesis
      unfolding ok by (cases fs) (auto simp: Inr blocking_def)
  qed
  with r that show thesis by blast
qed

end
