(* ===== verification/Drc_Properties.thy ===== *)
theory Drc_Properties
  imports Design_Drc
begin

text \<open>
  What the rule engine and the design rule promise. A reported finding is honest: it comes from
  its rule, a crash is reported as UNKNOWN and never as a pass. The search for a planned
  dependency cycle decides acyclicity. A design is acceptable exactly when every claim is.
\<close>

definition rule_report :: "bool \<Rightarrow> string \<Rightarrow> string + finding list \<Rightarrow> finding list" where
  "rule_report emit_pass rid outcome = (case outcome of
     Inl exc \<Rightarrow> [make_finding rid SEV_UNKNOWN [] (''rule crashed: '' @ exc) ''internal error'' ''UNKNOWN'']
   | Inr fs \<Rightarrow> if emit_pass then fs else filter (\<lambda>f. fi_status f \<noteq> ST_PASS) fs)"

lemma rule_findings_report: "rule_findings ctx r = rule_report (dc_emit_pass ctx) (fst r) (snd r ctx)"
  by (cases "snd r ctx") (simp_all add: rule_findings_def rule_report_def Let_def)

lemma rule_report_no_pass: "f \<in> set (rule_report False rid outcome) \<Longrightarrow> fi_status f \<noteq> ST_PASS"
  by (cases outcome) (auto simp: rule_report_def)

text \<open>A run of the rule engine reports everything and hides nothing: every rule runs, the findings
  are exactly those of the rules on the indexed context, in the order of rule, subjects and message, a
  rule that raises is reported as UNKNOWN, and no finding is a PASS unless passes were asked for.\<close>

lemma run_engine_complete:
  assumes "run_engine ctx rules = Inr run"
  shows "\<exists>ctx'. indexed ctx ctx' \<and> dr_rules_run run = map fst rules \<and> sorted (map finding_key (dr_findings run)) \<and>
    mset (dr_findings run) = mset (concat (map (\<lambda>(rid, f). rule_report (dc_emit_pass ctx) rid (f ctx')) rules)) \<and>
    (dc_emit_pass ctx \<or> list_all (\<lambda>f. fi_status f \<noteq> ST_PASS) (dr_findings run))"
proof -
  from assms obtain ctx' where ix: "indexed ctx ctx'"
    and fs: "dr_findings run = sorted_findings (concat (map (rule_findings ctx') rules))"
    and run: "dr_rules_run run = map fst rules"
    by (rule run_engine_Inr)
  note emit = indexed_emit [OF ix]
  have same: "rule_findings ctx' = (\<lambda>(rid, f). rule_report (dc_emit_pass ctx) rid (f ctx'))"
    by (rule ext) (simp add: rule_findings_report emit case_prod_beta)
  have "dc_emit_pass ctx \<or> list_all (\<lambda>f. fi_status f \<noteq> ST_PASS) (dr_findings run)"
    by (cases "dc_emit_pass ctx") (auto simp: fs sorted_findings_def same list_all_iff rule_report_no_pass)
  moreover have "sorted (map finding_key (dr_findings run))"
    by (simp add: fs sorted_findings_def)
  moreover have "mset (dr_findings run) =
      mset (concat (map (\<lambda>(rid, f). rule_report (dc_emit_pass ctx) rid (f ctx')) rules))"
    by (simp add: fs sorted_findings_def same)
  ultimately show ?thesis using run ix by blast
qed

definition sample_context :: drc_context where
  "sample_context = design_context [[(''kind'', JStr ''planned_relation''), (''source'', JStr ''a'')]] []"

lemma run_engine_complete_witness:
  "\<exists>run ctx'. run_engine sample_context [lifecycle_rule, (''R2'', \<lambda>_. Inl ''boom'')] = Inr run \<and>
     dr_rules_run run = [''DL-DRC-1'', ''R2''] \<and> sorted (map finding_key (dr_findings run)) \<and>
     mset (dr_findings run) = mset (rule_report False ''DL-DRC-1'' (lifecycle_rule_run ctx') @
       rule_report False ''R2'' (Inl ''boom''))"
proof -
  obtain run where run: "run_engine sample_context [lifecycle_rule, (''R2'', \<lambda>_. Inl ''boom'')] = Inr run"
    by (simp add: run_engine_def sample_context_def design_context_def dicts_at_def get_or_def Let_def)
  from run_engine_complete [OF run] run show ?thesis
    by (auto simp: lifecycle_rule_def sample_context_def)
qed

text \<open>C22: the depth-first search over the planned relations reports a dependency cycle exactly when the
  relation between the ends of the planned relations is not acyclic, whatever the order in which
  nodes and successors are visited; the search always ends.\<close>

lemma has_cycle_planned: "has_cycle (planned_graph claims) \<longleftrightarrow> \<not> acyclic (planned_edges claims)"
  by (simp add: has_cycle_iff planned_graph_edges)

text \<open>C21: the design gate fails closed and is exact: the run never raises, and it is acceptable exactly when
  the limits can be read, the planned relations are acyclic and every claim is in order: both ends and
  support given, neither direction nor kind forbidden, no unadapted interface change, and every
  touched path inside the approved files. A claim the rule crashes on is never acceptable.\<close>

lemma design_drc_acceptable:
  "\<exists>d. run_design_drc claims scope = Inr d \<and>
    (jget d ''acceptable'' = JBool True \<longleftrightarrow>
      (\<exists>lm. design_limits_of (design_environment scope) = Inr lm \<and> list_all (claim_ok lm) claims) \<and>
      acyclic (planned_edges claims))"
proof -
  obtain r where r: "run_engine (design_context claims scope) [lifecycle_rule] = Inr r"
    and ok: "acceptable_run r \<longleftrightarrow> lifecycle_rule_run (design_context claims scope) = Inr []"
    by (rule run_design_drc_run)
  let ?d = "run_to_dict r @ [(''acceptable'', JBool (acceptable_run r)),
         (''rule_version'', JStr ''design-lifecycle-drc/1'')]"
  have d: "run_design_drc claims scope = Inr ?d" using r by (simp add: run_design_drc_def)
  have env: "dc_environment (design_context claims scope) = design_environment scope"
    by (simp add: design_environment_def design_context_def)
  have "jget ?d ''acceptable'' = JBool (acceptable_run r)"
    by (simp add: run_to_dict_def jget_def get_or_def)
  with d show ?thesis
    by (simp add: ok rule_run_Nil env list_all_iff)
qed

end
