(* ===== verification/Lifecycle_Model.thy ===== *)
theory Lifecycle_Model
  imports Drc_Properties
begin

text \<open>
  The immutable values of the design change aggregate (\<open>design_lifecycle/models.py\<close>): states,
  design revisions, acceptance criteria, receipts, the change itself with its JSON form, and the
  commands. A field the source annotates with a type has that type here: reading a value of
  another type back is a \<open>TypeError\<close>.
\<close>

section \<open>Errors\<close>

datatype lc_error =
    DesignLifecycleError (err_code: string) (err_message: string) (err_details: jdict)
  | ConcurrentUpdate
  | IntegrityError
  | Raised ev_error

text \<open>A Python exception of a helper.\<close>

fun lifted :: "ev_error + 'a \<Rightarrow> lc_error + 'a" where
  "lifted (Inl e) = Inl (Raised e)"
| "lifted (Inr a) = Inr a"

abbreviation failing :: "string \<Rightarrow> string \<Rightarrow> lc_error + 'a" where
  "failing code message \<equiv> Inl (DesignLifecycleError code message [])"

text \<open>\<open>if not condition: raise ...\<close>.\<close>

definition guard :: "bool \<Rightarrow> lc_error \<Rightarrow> lc_error + unit" where
  "guard b e = (if b then Inr () else Inl e)"

lemma guard_Inr [simp, err_elims]: "guard b e = Inr u \<longleftrightarrow> b"
  by (simp add: guard_def)

lemma lifted_Inr [simp, err_elims]: "lifted m = Inr a \<longleftrightarrow> m = Inr a"
  by (cases m) auto

section \<open>Values\<close>

datatype change_state =
  OPEN | PLANNED | IMPLEMENTING | EVIDENCE_MATCHED | VERIFIED | CLOSED | ABANDONED

fun state_value :: "change_state \<Rightarrow> string" where
  "state_value OPEN = ''OPEN''"
| "state_value PLANNED = ''PLANNED''"
| "state_value IMPLEMENTING = ''IMPLEMENTING''"
| "state_value EVIDENCE_MATCHED = ''EVIDENCE_MATCHED''"
| "state_value VERIFIED = ''VERIFIED''"
| "state_value CLOSED = ''CLOSED''"
| "state_value ABANDONED = ''ABANDONED''"

definition all_states :: "change_state list" where
  "all_states = [OPEN, PLANNED, IMPLEMENTING, EVIDENCE_MATCHED, VERIFIED, CLOSED, ABANDONED]"

text \<open>\<open>ChangeState(value)\<close>.\<close>

definition state_of :: "string \<Rightarrow> change_state option" where
  "state_of s = find (\<lambda>t. state_value t = s) all_states"

lemma state_of_value [simp]: "state_of (state_value t) = Some t"
  by (cases t) (simp_all add: state_of_def all_states_def)

record design_ref =
  df_identity :: string
  df_revision :: string

definition ref_json :: "design_ref \<Rightarrow> json" where
  "ref_json r = JObj [(''identity'', JStr (df_identity r)), (''revision'', JStr (df_revision r))]"

record acceptance_criterion =
  ac_id :: string
  ac_kind :: string
  ac_required :: bool
  ac_description :: string

definition check_criterion :: "acceptance_criterion \<Rightarrow> ev_error + acceptance_criterion" where
  "check_criterion c =
     (if ac_kind c \<notin> {''structural'', ''semantic'', ''test'', ''runtime'', ''manual''}
      then Inl ValueError else Inr c)"

definition criterion_json :: "acceptance_criterion \<Rightarrow> json" where
  "criterion_json c = JObj [(''id'', JStr (ac_id c)), (''kind'', JStr (ac_kind c)),
     (''required'', JBool (ac_required c)), (''description'', JStr (ac_description c))]"

record design_revision =
  rv_id :: string
  rv_change_id :: string
  rv_authority :: string
  rv_architecture_proposal_ref :: "design_ref option"
  rv_flow_model_ref :: "design_ref option"
  rv_expected_changes :: "jdict list"
  rv_created_at :: int
  rv_digest :: string

definition objs :: "jdict list \<Rightarrow> json" where
  "objs ds = JList (map JObj ds)"

definition revision_json :: "design_revision \<Rightarrow> json" where
  "revision_json r = JObj [
     (''id'', JStr (rv_id r)), (''change_id'', JStr (rv_change_id r)),
     (''authority'', JStr (rv_authority r)),
     (''architecture_proposal_ref'', jopt ref_json (rv_architecture_proposal_ref r)),
     (''flow_model_ref'', jopt ref_json (rv_flow_model_ref r)),
     (''expected_changes'', objs (rv_expected_changes r)),
     (''created_at'', JInt (rv_created_at r)), (''digest'', JStr (rv_digest r))]"

record evidence_brief =
  eb_canonical_revision :: string
  eb_modules :: "jdict list"
  eb_symbols :: "jdict list"
  eb_flows :: "jdict list"
  eb_data_interfaces :: "jdict list"
  eb_runtime_evidence :: "jdict list"
  eb_unknowns :: "jdict list"
  eb_reference_evidence :: "jdict list"
  eb_constraints :: "jdict list"

definition brief_json :: "evidence_brief \<Rightarrow> json" where
  "brief_json b = JObj [
     (''canonical_revision'', JStr (eb_canonical_revision b)),
     (''modules'', objs (eb_modules b)), (''symbols'', objs (eb_symbols b)),
     (''flows'', objs (eb_flows b)), (''data_interfaces'', objs (eb_data_interfaces b)),
     (''runtime_evidence'', objs (eb_runtime_evidence b)), (''unknowns'', objs (eb_unknowns b)),
     (''reference_evidence'', objs (eb_reference_evidence b)),
     (''constraints'', objs (eb_constraints b))]"

record lifecycle_receipt =
  rc_id :: string
  rc_change_id :: string
  rc_sequence :: int
  rc_command :: string
  rc_actor :: string
  rc_state_before :: "string option"
  rc_state_after :: string
  rc_payload :: jdict
  rc_digest :: string
  rc_created_at :: int

record design_change =
  ch_id :: string
  ch_repo_id :: string
  ch_base_canonical_revision :: string
  ch_intent :: string
  ch_scope :: jdict
  ch_acceptance_criteria :: "acceptance_criterion list"
  ch_design_revision :: design_revision
  ch_evidence_brief :: evidence_brief
  ch_state :: change_state
  ch_design_drc :: "jdict option"
  ch_implementation :: "jdict option"
  ch_expected_actual :: "jdict option"
  ch_lvs_result :: "jdict option"
  ch_verification :: "jdict list"
  ch_close_receipt :: "jdict option"
  ch_remaining_unknowns :: "jdict list"
  ch_version :: int
  ch_created_at :: int
  ch_updated_at :: int

definition change_to_dict :: "design_change \<Rightarrow> jdict" where
  "change_to_dict c = [
     (''id'', JStr (ch_id c)), (''repo_id'', JStr (ch_repo_id c)),
     (''base_canonical_revision'', JStr (ch_base_canonical_revision c)),
     (''intent'', JStr (ch_intent c)), (''scope'', JObj (ch_scope c)),
     (''acceptance_criteria'', JList (map criterion_json (ch_acceptance_criteria c))),
     (''design_revision'', revision_json (ch_design_revision c)),
     (''evidence_brief'', brief_json (ch_evidence_brief c)),
     (''state'', JStr (state_value (ch_state c))),
     (''design_drc'', jopt JObj (ch_design_drc c)),
     (''implementation'', jopt JObj (ch_implementation c)),
     (''expected_actual'', jopt JObj (ch_expected_actual c)),
     (''lvs_result'', jopt JObj (ch_lvs_result c)),
     (''verification'', objs (ch_verification c)),
     (''close_receipt'', jopt JObj (ch_close_receipt c)),
     (''remaining_unknowns'', objs (ch_remaining_unknowns c)),
     (''version'', JInt (ch_version c)), (''created_at'', JInt (ch_created_at c)),
     (''updated_at'', JInt (ch_updated_at c))]"

section \<open>Reading a change back\<close>

fun as_text :: "json \<Rightarrow> ev_error + string" where
  "as_text (JStr s) = Inr s"
| "as_text j = Inl TypeError"

fun as_int :: "json \<Rightarrow> ev_error + int" where
  "as_int (JInt i) = Inr i"
| "as_int j = Inl TypeError"

fun as_bool :: "json \<Rightarrow> ev_error + bool" where
  "as_bool (JBool b) = Inr b"
| "as_bool j = Inl TypeError"

fun as_list :: "json \<Rightarrow> ev_error + json list" where
  "as_list (JList xs) = Inr xs"
| "as_list j = Inl TypeError"

text \<open>A value that may be \<open>None\<close>.\<close>

definition as_opt :: "(json \<Rightarrow> ev_error + 'a) \<Rightarrow> json \<Rightarrow> ev_error + 'a option" where
  "as_opt f j = (if j = JNull then Inr None else and_then (f j) (\<lambda>a. Inr (Some a)))"

definition as_objs :: "json \<Rightarrow> ev_error + jdict list" where
  "as_objs j = and_then (as_list j) (map_err as_object)"

text \<open>\<open>d[k]\<close> and \<open>d.get(k, default)\<close>, read with a type.\<close>

definition field :: "(json \<Rightarrow> ev_error + 'a) \<Rightarrow> jdict \<Rightarrow> string \<Rightarrow> ev_error + 'a" where
  "field f d k = and_then (jindex d k) f"

definition field_or :: "(json \<Rightarrow> ev_error + 'a) \<Rightarrow> 'a \<Rightarrow> jdict \<Rightarrow> string \<Rightarrow> ev_error + 'a" where
  "field_or f v d k = (case map_of d k of None \<Rightarrow> Inr v | Some j \<Rightarrow> f j)"

text \<open>\<open>Cls(**d)\<close> rejects a key that is no field.\<close>

definition only_keys :: "string list \<Rightarrow> jdict \<Rightarrow> ev_error + unit" where
  "only_keys ks d = (if set (keys d) \<subseteq> set ks then Inr () else Inl TypeError)"

definition ref_of :: "json \<Rightarrow> ev_error + design_ref" where
  "ref_of j = and_then (as_object j) (\<lambda>d.
     and_then (only_keys [''identity'', ''revision''] d) (\<lambda>_.
     and_then (field as_text d ''identity'') (\<lambda>i.
     and_then (field as_text d ''revision'') (\<lambda>r.
       Inr \<lparr>df_identity = i, df_revision = r\<rparr>))))"

text \<open>\<open>if rev.get(k): rev[k] = DesignRef(**rev[k])\<close>.\<close>

definition ref_at :: "jdict \<Rightarrow> string \<Rightarrow> ev_error + design_ref option" where
  "ref_at d k = (if truthy (jget d k) then and_then (ref_of (jget d k)) (\<lambda>r. Inr (Some r)) else Inr None)"

definition criterion_of :: "json \<Rightarrow> ev_error + acceptance_criterion" where
  "criterion_of j = and_then (as_object j) (\<lambda>d.
     and_then (only_keys [''id'', ''kind'', ''required'', ''description''] d) (\<lambda>_.
     and_then (field as_text d ''id'') (\<lambda>i.
     and_then (field as_text d ''kind'') (\<lambda>k.
     and_then (field_or as_bool True d ''required'') (\<lambda>r.
     and_then (field_or as_text [] d ''description'') (\<lambda>t.
       check_criterion \<lparr>ac_id = i, ac_kind = k, ac_required = r, ac_description = t\<rparr>))))))"

definition revision_of :: "json \<Rightarrow> ev_error + design_revision" where
  "revision_of j = and_then (as_object j) (\<lambda>d.
     and_then (only_keys [''id'', ''change_id'', ''authority'', ''architecture_proposal_ref'',
       ''flow_model_ref'', ''expected_changes'', ''created_at'', ''digest''] d) (\<lambda>_.
     and_then (ref_at d ''architecture_proposal_ref'') (\<lambda>arch.
     and_then (ref_at d ''flow_model_ref'') (\<lambda>flow.
     and_then (field_or as_objs [] d ''expected_changes'') (\<lambda>changes.
     and_then (field as_text d ''id'') (\<lambda>i.
     and_then (field as_text d ''change_id'') (\<lambda>cid.
     and_then (field as_text d ''authority'') (\<lambda>a.
     and_then (field as_int d ''created_at'') (\<lambda>t.
     and_then (field as_text d ''digest'') (\<lambda>dg.
       Inr \<lparr>rv_id = i, rv_change_id = cid, rv_authority = a, rv_architecture_proposal_ref = arch,
         rv_flow_model_ref = flow, rv_expected_changes = changes, rv_created_at = t,
         rv_digest = dg\<rparr>))))))))))"

definition brief_of :: "json \<Rightarrow> ev_error + evidence_brief" where
  "brief_of j = and_then (as_object j) (\<lambda>d.
     and_then (only_keys [''canonical_revision'', ''modules'', ''symbols'', ''flows'', ''data_interfaces'',
       ''runtime_evidence'', ''unknowns'', ''reference_evidence'', ''constraints''] d) (\<lambda>_.
     and_then (field as_text d ''canonical_revision'') (\<lambda>rev.
     and_then (map_err (field_or as_objs [] d) [''modules'', ''symbols'', ''flows'', ''data_interfaces'',
       ''runtime_evidence'', ''unknowns'', ''reference_evidence'', ''constraints'']) (\<lambda>xs.
       Inr \<lparr>eb_canonical_revision = rev, eb_modules = xs ! 0, eb_symbols = xs ! 1, eb_flows = xs ! 2,
         eb_data_interfaces = xs ! 3, eb_runtime_evidence = xs ! 4, eb_unknowns = xs ! 5,
         eb_reference_evidence = xs ! 6, eb_constraints = xs ! 7\<rparr>))))"

definition state_at :: "jdict \<Rightarrow> ev_error + change_state" where
  "state_at d = and_then (field as_text d ''state'') (\<lambda>s.
     case state_of s of None \<Rightarrow> Inl ValueError | Some st \<Rightarrow> Inr st)"

definition opt_obj :: "jdict \<Rightarrow> string \<Rightarrow> ev_error + jdict option" where
  "opt_obj = field_or (as_opt as_object) None"

text \<open>The parts of a change that do not depend on its progress.\<close>

definition identity_of :: "jdict \<Rightarrow> ev_error + design_change" where
  "identity_of d =
     and_then (revision_of (jget d ''design_revision'')) (\<lambda>rev.
     and_then (brief_of (jget d ''evidence_brief'')) (\<lambda>brief.
     and_then (field as_text d ''id'') (\<lambda>i.
     and_then (field as_text d ''repo_id'') (\<lambda>repo.
     and_then (field as_text d ''base_canonical_revision'') (\<lambda>base.
     and_then (field as_text d ''intent'') (\<lambda>intent.
     and_then (field_or as_object [] d ''scope'') (\<lambda>scope.
     and_then (and_then (field_or as_list [] d ''acceptance_criteria'') (map_err criterion_of)) (\<lambda>acs.
     and_then (state_at d) (\<lambda>st.
       Inr \<lparr>ch_id = i, ch_repo_id = repo, ch_base_canonical_revision = base, ch_intent = intent,
         ch_scope = scope, ch_acceptance_criteria = acs, ch_design_revision = rev,
         ch_evidence_brief = brief, ch_state = st, ch_design_drc = None, ch_implementation = None,
         ch_expected_actual = None, ch_lvs_result = None, ch_verification = [],
         ch_close_receipt = None, ch_remaining_unknowns = [], ch_version = 1, ch_created_at = 0,
         ch_updated_at = 0\<rparr>)))))))))"

definition change_from_dict :: "jdict \<Rightarrow> ev_error + design_change" where
  "change_from_dict d =
     and_then (jindex d ''design_revision'') (\<lambda>_. and_then (jindex d ''evidence_brief'') (\<lambda>_.
     and_then (identity_of d) (\<lambda>c.
     and_then (opt_obj d ''design_drc'') (\<lambda>drc.
     and_then (opt_obj d ''implementation'') (\<lambda>impl.
     and_then (opt_obj d ''expected_actual'') (\<lambda>ea.
     and_then (opt_obj d ''lvs_result'') (\<lambda>lvs.
     and_then (field_or as_objs [] d ''verification'') (\<lambda>ver.
     and_then (opt_obj d ''close_receipt'') (\<lambda>close.
     and_then (field_or as_objs [] d ''remaining_unknowns'') (\<lambda>unk.
     and_then (field_or as_int 1 d ''version'') (\<lambda>v.
     and_then (field_or as_int 0 d ''created_at'') (\<lambda>t.
     and_then (field_or as_int 0 d ''updated_at'') (\<lambda>u.
       Inr (c\<lparr>ch_design_drc := drc, ch_implementation := impl, ch_expected_actual := ea,
         ch_lvs_result := lvs, ch_verification := ver, ch_close_receipt := close,
         ch_remaining_unknowns := unk, ch_version := v, ch_created_at := t,
         ch_updated_at := u\<rparr>))))))))))))))"

section \<open>Commands\<close>

datatype lc_command =
    PlanChange (cm_actor: string) (pc_expected_changes: "jdict list")
      (pc_architecture_proposal_ref: "design_ref option") (pc_flow_model_ref: "design_ref option")
      (cm_expected_version: "int option")
  | DesignMutation (cm_actor: string) (dm_plane: string) (dm_operation: string) (dm_payload: jdict)
      (cm_expected_version: "int option") (dm_expected_design_revision: "string option")
  | BeginImplementation (cm_actor: string) (bi_expected_touched_scope: jdict)
      (cm_expected_version: "int option")
  | RecordRepairApplication (cm_actor: string) (rr_application_id: string) (rr_previous_attempt: string)
      (rr_repair_candidate_id: string) (rr_source_revision_after_claim: string)
      (cm_expected_version: "int option")
  | RecordReindex (cm_actor: string) (rx_final_canonical_revision: string)
      (rx_actual_changed_files: "string list") (rx_actual_changed_symbols: "string list")
      (rx_actual_evidence: "jdict list") (rx_build_attempt_ref: "design_ref option")
      (rx_build_diagnostic_refs: "design_ref list") (cm_expected_version: "int option")
  | RunReindex (cm_actor: string) (rn_actual_evidence_selectors: "jdict list")
      (cm_expected_version: "int option")
  | RequestReindex (cm_actor: string) (rq_job_id: string) (cm_expected_version: "int option")
  | AdoptIndexJob (cm_actor: string) (aj_job_id: string) (aj_actual_evidence_selectors: "jdict list")
      (cm_expected_version: "int option")
  | EvaluateExpectedActual (cm_actor: string) (cm_expected_version: "int option")
  | VerifyChange (cm_actor: string) (vc_results: "jdict list") (cm_expected_version: "int option")
  | CloseChange (cm_actor: string) (cc_rule_versions: jdict) (cm_expected_version: "int option")
  | AbandonChange (cm_actor: string) (ab_reason: string) (cm_expected_version: "int option")
  | OtherCommand (oc_type: string) (cm_expected_version: "int option")

section \<open>Round trip\<close>

lemma as_objs_objs [simp]: "as_objs (objs ds) = Inr ds"
proof -
  have "map_err as_object (map JObj ds) = Inr ds" by (induction ds) auto
  then show ?thesis by (simp add: as_objs_def objs_def)
qed

lemma objs_not_null [simp]: "objs ds \<noteq> JNull"
  by (simp add: objs_def)

lemma ref_json_back [simp]: "ref_of (ref_json r) = Inr r" "truthy (ref_json r)"
  by (simp_all add: ref_of_def ref_json_def only_keys_def keys_def field_def jindex_def)

lemma ref_at_json:
  "jget d k = jopt ref_json r \<Longrightarrow> ref_at d k = Inr r"
  by (cases r) (simp_all add: ref_at_def jopt_def)

lemma criterion_json_back: "criterion_of (criterion_json c) = check_criterion c"
  by (cases c) (simp add: criterion_of_def criterion_json_def only_keys_def keys_def field_def field_or_def
    jindex_def)

lemma criteria_back:
  "\<forall>c \<in> set cs. check_criterion c = Inr c \<Longrightarrow> map_err criterion_of (map criterion_json cs) = Inr cs"
  by (induction cs) (auto simp: criterion_json_back)

lemma revision_json_back [simp]: "revision_of (revision_json r) = Inr r"
proof -
  obtain d where d: "revision_json r = JObj d" by (simp add: revision_json_def)
  then have refs: "ref_at d ''architecture_proposal_ref'' = Inr (rv_architecture_proposal_ref r)"
    "ref_at d ''flow_model_ref'' = Inr (rv_flow_model_ref r)"
    by (auto intro!: ref_at_json simp: revision_json_def jget_def get_or_def)
  with d show ?thesis
    by (auto simp: revision_of_def revision_json_def only_keys_def keys_def field_def field_or_def jindex_def)
qed

lemma brief_json_back [simp]: "brief_of (brief_json b) = Inr b"
  by (simp add: brief_of_def brief_json_def only_keys_def keys_def field_def field_or_def jindex_def)

lemma opt_obj_back: "map_of d k = Some (jopt JObj x) \<Longrightarrow> opt_obj d k = Inr x"
  by (cases x) (simp_all add: opt_obj_def field_or_def as_opt_def jopt_def)

lemma change_to_dict_lookup:
  "map_of (change_to_dict c) ''id'' = Some (JStr (ch_id c))"
  "map_of (change_to_dict c) ''repo_id'' = Some (JStr (ch_repo_id c))"
  "map_of (change_to_dict c) ''base_canonical_revision'' = Some (JStr (ch_base_canonical_revision c))"
  "map_of (change_to_dict c) ''intent'' = Some (JStr (ch_intent c))"
  "map_of (change_to_dict c) ''scope'' = Some (JObj (ch_scope c))"
  "map_of (change_to_dict c) ''acceptance_criteria'' =
     Some (JList (map criterion_json (ch_acceptance_criteria c)))"
  "map_of (change_to_dict c) ''design_revision'' = Some (revision_json (ch_design_revision c))"
  "map_of (change_to_dict c) ''evidence_brief'' = Some (brief_json (ch_evidence_brief c))"
  "map_of (change_to_dict c) ''state'' = Some (JStr (state_value (ch_state c)))"
  "map_of (change_to_dict c) ''design_drc'' = Some (jopt JObj (ch_design_drc c))"
  "map_of (change_to_dict c) ''implementation'' = Some (jopt JObj (ch_implementation c))"
  "map_of (change_to_dict c) ''expected_actual'' = Some (jopt JObj (ch_expected_actual c))"
  "map_of (change_to_dict c) ''lvs_result'' = Some (jopt JObj (ch_lvs_result c))"
  "map_of (change_to_dict c) ''verification'' = Some (objs (ch_verification c))"
  "map_of (change_to_dict c) ''close_receipt'' = Some (jopt JObj (ch_close_receipt c))"
  "map_of (change_to_dict c) ''remaining_unknowns'' = Some (objs (ch_remaining_unknowns c))"
  "map_of (change_to_dict c) ''version'' = Some (JInt (ch_version c))"
  "map_of (change_to_dict c) ''created_at'' = Some (JInt (ch_created_at c))"
  "map_of (change_to_dict c) ''updated_at'' = Some (JInt (ch_updated_at c))"
  by (simp_all add: change_to_dict_def)

lemma identity_back:
  assumes "\<forall>a \<in> set (ch_acceptance_criteria c). check_criterion a = Inr a"
  shows "identity_of (change_to_dict c) = Inr (c\<lparr>ch_design_drc := None, ch_implementation := None,
    ch_expected_actual := None, ch_lvs_result := None, ch_verification := [], ch_close_receipt := None,
    ch_remaining_unknowns := [], ch_version := 1, ch_created_at := 0, ch_updated_at := 0\<rparr>)"
  by (simp add: identity_of_def change_to_dict_lookup jget_def get_or_def field_def field_or_def jindex_def
      state_at_def criteria_back [OF assms] del: map_map)

text \<open>A stored change is read back unchanged.\<close>

lemma change_dict_back:
  assumes "\<forall>a \<in> set (ch_acceptance_criteria c). check_criterion a = Inr a"
  shows "change_from_dict (change_to_dict c) = Inr c"
  by (simp add: change_from_dict_def identity_back [OF assms] change_to_dict_lookup jindex_def field_or_def
    opt_obj_back)

end
