(* ===== verification/Lifecycle_Store.thy ===== *)
theory Lifecycle_Store
  imports Lifecycle_Model
begin

text \<open>
  The persistence of the lifecycle (\<open>design_lifecycle/repository.py\<close>): the tables as a state, the
  transactions as functions that give the new state or raise and leave it alone (the rollback).
  Both branches of the source (SQLite and PostgreSQL) run the same statements. A row keeps the
  aggregate as the JSON value of its text; the triggers that forbid updating or deleting receipts
  and revisions have no counterpart because no operation here does it.

  The \<open>versioned_store\<close> interface states what a client with optimistic locking relies on.
\<close>

section \<open>Tables\<close>

record change_row =
  rw_repo_id :: string
  rw_state :: string
  rw_version :: int
  rw_aggregate :: jdict
  rw_created_at :: int
  rw_updated_at :: int

record test_receipt =
  tr_id :: string
  tr_change_id :: string
  tr_run_identity :: string
  tr_subject :: string
  tr_design_revision :: string
  tr_canonical_revision :: json
  tr_test_identity :: json
  tr_result :: json
  tr_timestamp :: json
  tr_evidence_refs :: "json list"

record approval_receipt =
  ap_id :: string
  ap_change_id :: string
  ap_design_revision :: string
  ap_approver_identity :: json
  ap_principal_id :: json
  ap_principal_type :: json
  ap_auth_session_id :: json
  ap_rintel_instance_id :: json
  ap_auth_method :: json
  ap_authorization_identity :: json
  ap_policy_version :: json
  ap_decision :: string
  ap_timestamp :: int
  ap_change_version :: int
  ap_applicable_subject :: jdict
  ap_receipt_digest :: string

record repo_state =
  rs_changes :: "(string, change_row) dict"
  rs_revisions :: "design_revision list"
  rs_receipts :: "lifecycle_receipt list"
  rs_tests :: "test_receipt list"
  rs_approvals :: "approval_receipt list"

definition empty_repo :: repo_state where
  "empty_repo = \<lparr>rs_changes = [], rs_revisions = [], rs_receipts = [], rs_tests = [], rs_approvals = []\<rparr>"

definition row_of :: "design_change \<Rightarrow> change_row" where
  "row_of c = \<lparr>rw_repo_id = ch_repo_id c, rw_state = state_value (ch_state c), rw_version = ch_version c,
     rw_aggregate = change_to_dict c, rw_created_at = ch_created_at c, rw_updated_at = ch_updated_at c\<rparr>"

section \<open>Operations\<close>

text \<open>Primary key of the revisions; primary key and \<open>UNIQUE(change_id, sequence)\<close> of the receipts.\<close>

definition insert_revision :: "design_revision \<Rightarrow> repo_state \<Rightarrow> lc_error + repo_state" where
  "insert_revision dr rs =
     (if list_ex (\<lambda>r. rv_id r = rv_id dr) (rs_revisions rs) then Inl IntegrityError
      else Inr (rs\<lparr>rs_revisions := rs_revisions rs @ [dr]\<rparr>))"

definition same_slot :: "lifecycle_receipt \<Rightarrow> lifecycle_receipt \<Rightarrow> bool" where
  "same_slot r s = (rc_id r = rc_id s \<or>
     (rc_change_id r = rc_change_id s \<and> rc_sequence r = rc_sequence s))"

definition append_receipt :: "lifecycle_receipt \<Rightarrow> repo_state \<Rightarrow> lc_error + repo_state" where
  "append_receipt rc rs =
     (if list_ex (same_slot rc) (rs_receipts rs) then Inl IntegrityError
      else Inr (rs\<lparr>rs_receipts := rs_receipts rs @ [rc]\<rparr>))"

definition repo_insert :: "design_change \<Rightarrow> lifecycle_receipt \<Rightarrow> repo_state \<Rightarrow> lc_error + repo_state" where
  "repo_insert c rc rs =
     (if map_of (rs_changes rs) (ch_id c) \<noteq> None then Inl IntegrityError
      else and_then (insert_revision (ch_design_revision c)
          (rs\<lparr>rs_changes := rs_changes rs @ [(ch_id c, row_of c)]\<rparr>))
        (append_receipt rc))"

definition repo_get :: "repo_state \<Rightarrow> string \<Rightarrow> lc_error + design_change option" where
  "repo_get rs cid = (case map_of (rs_changes rs) cid of
     None \<Rightarrow> Inr None
   | Some row \<Rightarrow> and_then (lifted (change_from_dict (rw_aggregate row))) (\<lambda>c. Inr (Some c)))"

definition repo_list :: "repo_state \<Rightarrow> string option \<Rightarrow> lc_error + design_change list" where
  "repo_list rs repo_id =
     map_err (\<lambda>(i, row). lifted (change_from_dict (rw_aggregate row)))
       (sort_key (\<lambda>(i, row). (rw_created_at row, i))
         (filter (\<lambda>(i, row). case repo_id of None \<Rightarrow> True | Some r \<Rightarrow> rw_repo_id row = r) (rs_changes rs)))"

text \<open>The revision of an update is inserted unless a row with its id exists.\<close>

definition ensure_revision :: "design_revision \<Rightarrow> repo_state \<Rightarrow> lc_error + repo_state" where
  "ensure_revision dr rs =
     (if list_ex (\<lambda>r. rv_id r = rv_id dr) (rs_revisions rs) then Inr rs else insert_revision dr rs)"

definition updated_row :: "change_row \<Rightarrow> design_change \<Rightarrow> change_row" where
  "updated_row row c = row\<lparr>rw_state := state_value (ch_state c), rw_version := ch_version c,
     rw_aggregate := change_to_dict c, rw_updated_at := ch_updated_at c\<rparr>"

definition repo_update :: "int \<Rightarrow> design_change \<Rightarrow> lifecycle_receipt \<Rightarrow> repo_state \<Rightarrow> lc_error + repo_state" where
  "repo_update previous_version c rc rs =
     (case map_of (rs_changes rs) (ch_id c) of
        None \<Rightarrow> Inl ConcurrentUpdate
      | Some row \<Rightarrow>
          if rw_version row \<noteq> previous_version then Inl ConcurrentUpdate
          else and_then (ensure_revision (ch_design_revision c)
              (rs\<lparr>rs_changes := dict_set (ch_id c) (updated_row row c) (rs_changes rs)\<rparr>))
            (append_receipt rc))"

definition repo_receipts :: "repo_state \<Rightarrow> string \<Rightarrow> lifecycle_receipt list" where
  "repo_receipts rs cid = sort_key rc_sequence (filter (\<lambda>r. rc_change_id r = cid) (rs_receipts rs))"

definition repo_revision :: "repo_state \<Rightarrow> string \<Rightarrow> string \<Rightarrow> design_revision option" where
  "repo_revision rs cid rid = find (\<lambda>r. rv_change_id r = cid \<and> rv_id r = rid) (rs_revisions rs)"

text \<open>\<open>append_independent_receipt\<close> and \<open>independent_receipts\<close> for the two kinds.\<close>

definition append_test_receipt :: "test_receipt \<Rightarrow> repo_state \<Rightarrow> lc_error + repo_state" where
  "append_test_receipt t rs =
     (if list_ex (\<lambda>r. tr_id r = tr_id t) (rs_tests rs) then Inl IntegrityError
      else Inr (rs\<lparr>rs_tests := rs_tests rs @ [t]\<rparr>))"

definition append_approval_receipt :: "approval_receipt \<Rightarrow> repo_state \<Rightarrow> lc_error + repo_state" where
  "append_approval_receipt a rs =
     (if list_ex (\<lambda>r. ap_id r = ap_id a) (rs_approvals rs) then Inl IntegrityError
      else Inr (rs\<lparr>rs_approvals := rs_approvals rs @ [a]\<rparr>))"

text \<open>No operation depends on the order of the test receipts; they are given as inserted.\<close>

definition test_receipts :: "repo_state \<Rightarrow> string \<Rightarrow> test_receipt list" where
  "test_receipts rs cid = filter (\<lambda>t. tr_change_id t = cid) (rs_tests rs)"

definition approval_receipts :: "repo_state \<Rightarrow> string \<Rightarrow> approval_receipt list" where
  "approval_receipts rs cid =
     sort_key (\<lambda>a. (ap_timestamp a, ap_id a)) (filter (\<lambda>a. ap_change_id a = cid) (rs_approvals rs))"

section \<open>Optimistic locking\<close>

locale versioned_store =
  fixes load :: "'s \<Rightarrow> string \<Rightarrow> 'e + 'c option"
    and save :: "int \<Rightarrow> 'c \<Rightarrow> 'r \<Rightarrow> 's \<Rightarrow> 'e + 's"
    and ident :: "'c \<Rightarrow> string"
    and version :: "'c \<Rightarrow> int"
    and ok :: "'s \<Rightarrow> 'c \<Rightarrow> bool"
    and consistent_store :: "'s \<Rightarrow> bool"
  assumes save_consistent: "consistent_store s \<Longrightarrow> ok s c \<Longrightarrow> save v c r s = Inr s' \<Longrightarrow> consistent_store s'"
    and load_save: "consistent_store s \<Longrightarrow> ok s c \<Longrightarrow> save v c r s = Inr s' \<Longrightarrow>
      load s' k = (if k = ident c then Inr (Some c) else load s k)"
    and save_current: "consistent_store s \<Longrightarrow> save v c r s = Inr s' \<Longrightarrow>
      \<exists>old. load s (ident c) = Inr (Some old) \<and> version old = v"
begin

text \<open>Of two writers that read the same version, the second one is refused.\<close>

lemma no_lost_update:
  assumes s: "consistent_store s" and ok: "ok s c" and first: "save v c r s = Inr s'" and newer: "version c \<noteq> v"
    and same: "ident d = ident c"
  shows "save v d r' s' \<noteq> Inr s''"
proof
  assume second: "save v d r' s' = Inr s''"
  have s': "consistent_store s'" by (rule save_consistent [OF s ok first])
  obtain old where "load s' (ident d) = Inr (Some old)" and "version old = v"
    using save_current [OF s' second] by blast
  moreover have "load s' (ident d) = Inr (Some c)"
    using load_save [OF s ok first, of "ident d"] same by simp
  ultimately show False using newer by simp
qed

text \<open>A write reads back, and it touches no other entry.\<close>

lemma save_frame:
  assumes "consistent_store s" and "ok s c" and "save v c r s = Inr s'" and "k \<noteq> ident c"
  shows "load s' k = load s k"
  using load_save [OF assms(1-3), of k] assms(4) by simp

end

text \<open>Criteria are checked when they are constructed, and a row repeats what its aggregate says.\<close>

definition criteria_ok :: "design_change \<Rightarrow> bool" where
  "criteria_ok c = list_all (\<lambda>a. check_criterion a = Inr a) (ch_acceptance_criteria c)"

definition row_ok :: "string \<Rightarrow> change_row \<Rightarrow> bool" where
  "row_ok cid row = (\<exists>c. criteria_ok c \<and> ch_id c = cid \<and> rw_version row = ch_version c \<and>
     rw_state row = state_value (ch_state c) \<and> rw_repo_id row = ch_repo_id c \<and>
     rw_aggregate row = change_to_dict c)"

definition table_ok :: "repo_state \<Rightarrow> bool" where
  "table_ok rs = list_all (\<lambda>(cid, row). row_ok cid row) (rs_changes rs)"

lemma aggregate_back: "criteria_ok c \<Longrightarrow> change_from_dict (change_to_dict c) = Inr c"
  by (rule change_dict_back) (simp add: criteria_ok_def list_all_iff)

lemma table_okD: "table_ok rs \<Longrightarrow> map_of (rs_changes rs) cid = Some row \<Longrightarrow> row_ok cid row"
  by (auto simp: table_ok_def list_all_iff dest!: map_of_SomeD)

lemma repo_get_row:
  assumes "table_ok rs" and "map_of (rs_changes rs) cid = Some row"
  shows "\<exists>c. repo_get rs cid = Inr (Some c) \<and> criteria_ok c \<and> ch_id c = cid \<and> rw_version row = ch_version c \<and>
    rw_state row = state_value (ch_state c) \<and> rw_repo_id row = ch_repo_id c"
  using table_okD [OF assms] aggregate_back by (auto simp: row_ok_def repo_get_def assms(2))

lemma repo_get_Some:
  assumes "table_ok rs" and "repo_get rs cid = Inr (Some c)"
  shows "criteria_ok c \<and> ch_id c = cid \<and>
    (\<exists>row. map_of (rs_changes rs) cid = Some row \<and> rw_version row = ch_version c \<and>
      rw_repo_id row = ch_repo_id c)"
proof (cases "map_of (rs_changes rs) cid")
  case None
  with assms(2) show ?thesis by (simp add: repo_get_def)
next
  case (Some row)
  with repo_get_row [OF assms(1) Some] assms(2) show ?thesis by auto
qed

lemma repo_get_total: "table_ok rs \<Longrightarrow> \<exists>x. repo_get rs cid = Inr x"
  using repo_get_row [of rs cid] by (cases "map_of (rs_changes rs) cid") (auto simp: repo_get_def)

text \<open>What a successful transaction does to the tables.\<close>

lemma append_receipt_Inr:
  "append_receipt rc rs = Inr rs' \<Longrightarrow> rs' = rs\<lparr>rs_receipts := rs_receipts rs @ [rc]\<rparr> \<and>
     \<not> list_ex (same_slot rc) (rs_receipts rs)"
  by (auto simp: append_receipt_def split: if_splits)

lemma insert_revision_Inr:
  "insert_revision dr rs = Inr rs' \<Longrightarrow> rs' = rs\<lparr>rs_revisions := rs_revisions rs @ [dr]\<rparr> \<and>
     rv_id dr \<notin> rv_id ` set (rs_revisions rs)"
  by (auto simp: insert_revision_def list_ex_iff split: if_splits)

definition with_revision :: "design_revision \<Rightarrow> design_revision list \<Rightarrow> design_revision list" where
  "with_revision dr revs = (if rv_id dr \<in> rv_id ` set revs then revs else revs @ [dr])"

lemma known_revision: "list_ex (\<lambda>r. rv_id r = rv_id dr) revs \<longleftrightarrow> rv_id dr \<in> rv_id ` set revs"
  by (force simp: list_ex_iff)

lemma ensure_revision_Inr:
  "ensure_revision dr rs = Inr rs' \<Longrightarrow> rs' = rs\<lparr>rs_revisions := with_revision dr (rs_revisions rs)\<rparr>"
  by (cases "rv_id dr \<in> rv_id ` set (rs_revisions rs)")
    (simp_all add: ensure_revision_def with_revision_def insert_revision_def known_revision)

lemma repo_update_Inr:
  assumes "repo_update v c rc rs = Inr rs'"
  shows "\<exists>row. map_of (rs_changes rs) (ch_id c) = Some row \<and> rw_version row = v \<and>
    rs' = rs\<lparr>rs_changes := dict_set (ch_id c) (updated_row row c) (rs_changes rs),
      rs_revisions := with_revision (ch_design_revision c) (rs_revisions rs),
      rs_receipts := rs_receipts rs @ [rc]\<rparr> \<and>
    \<not> list_ex (same_slot rc) (rs_receipts rs)"
proof -
  from assms obtain row where row: "map_of (rs_changes rs) (ch_id c) = Some row"
    by (auto simp: repo_update_def split: option.splits)
  with assms have v: "rw_version row = v" by (auto simp: repo_update_def split: if_splits)
  with assms row obtain mid where mid: "ensure_revision (ch_design_revision c)
      (rs\<lparr>rs_changes := dict_set (ch_id c) (updated_row row c) (rs_changes rs)\<rparr>) = Inr mid"
    and rc: "append_receipt rc mid = Inr rs'"
    by (auto simp: repo_update_def and_then_Inr)
  from ensure_revision_Inr [OF mid] append_receipt_Inr [OF rc] row v show ?thesis by auto
qed

lemma repo_insert_Inr:
  assumes "repo_insert c rc rs = Inr rs'"
  shows "map_of (rs_changes rs) (ch_id c) = None \<and>
    rv_id (ch_design_revision c) \<notin> rv_id ` set (rs_revisions rs) \<and>
    rs' = rs\<lparr>rs_changes := rs_changes rs @ [(ch_id c, row_of c)],
      rs_revisions := rs_revisions rs @ [ch_design_revision c],
      rs_receipts := rs_receipts rs @ [rc]\<rparr> \<and>
    \<not> list_ex (same_slot rc) (rs_receipts rs)"
proof -
  from assms have none: "map_of (rs_changes rs) (ch_id c) = None"
    by (auto simp: repo_insert_def split: if_splits)
  let ?rs = "rs\<lparr>rs_changes := rs_changes rs @ [(ch_id c, row_of c)]\<rparr>"
  from assms none obtain mid where mid: "insert_revision (ch_design_revision c) ?rs = Inr mid"
    and rc: "append_receipt rc mid = Inr rs'"
    by (auto simp: repo_insert_def and_then_Inr)
  with none insert_revision_Inr [OF mid] append_receipt_Inr [OF rc] show ?thesis by auto
qed

lemma table_ok_update:
  assumes ok: "table_ok rs" "criteria_ok c" and up: "repo_update v c rc rs = Inr rs'"
    and repo: "\<And>old. repo_get rs (ch_id c) = Inr (Some old) \<Longrightarrow> ch_repo_id c = ch_repo_id old"
  shows "table_ok rs'"
proof -
  from repo_update_Inr [OF up] obtain row where row: "map_of (rs_changes rs) (ch_id c) = Some row"
    and rs': "rs_changes rs' = dict_set (ch_id c) (updated_row row c) (rs_changes rs)" by auto
  from repo_get_row [OF ok(1) row] repo have "rw_repo_id row = ch_repo_id c" by auto
  with ok(2) have "row_ok (ch_id c) (updated_row row c)" by (auto simp: row_ok_def updated_row_def)
  with ok(1) dict_set_subset [of "ch_id c" "updated_row row c" "rs_changes rs"] show ?thesis
    by (auto simp: table_ok_def list_all_iff rs')
qed

lemma repo_get_update:
  assumes "criteria_ok c" and "repo_update v c rc rs = Inr rs'"
  shows "repo_get rs' k = (if k = ch_id c then Inr (Some c) else repo_get rs k)"
  using repo_update_Inr [OF assms(2)] aggregate_back [OF assms(1)]
  by (auto simp: repo_get_def map_of_dict_set updated_row_def)

lemma repo_get_insert:
  assumes "criteria_ok c" and "repo_insert c rc rs = Inr rs'"
  shows "repo_get rs' k = (if k = ch_id c then Inr (Some c) else repo_get rs k)"
  using repo_insert_Inr [OF assms(2)] aggregate_back [OF assms(1)]
  by (auto simp: repo_get_def row_of_def map_add_def split: option.splits)

lemma table_ok_insert:
  assumes "table_ok rs" and "criteria_ok c" and "repo_insert c rc rs = Inr rs'"
  shows "table_ok rs'"
  using repo_insert_Inr [OF assms(3)] assms(1,2)
  by (auto simp: table_ok_def list_all_iff row_ok_def row_of_def)

text \<open>The store of changes; a change never moves to another repository.\<close>

definition storable :: "repo_state \<Rightarrow> design_change \<Rightarrow> bool" where
  "storable rs c = (criteria_ok c \<and>
     (case repo_get rs (ch_id c) of Inr (Some old) \<Rightarrow> ch_repo_id c = ch_repo_id old | _ \<Rightarrow> True))"

interpretation changes: versioned_store repo_get repo_update ch_id ch_version storable table_ok
proof
  fix s s' c v r k
  assume ok: "table_ok s" "storable s c" and up: "repo_update v c r s = Inr s'"
  show "table_ok s'"
    by (rule table_ok_update [OF ok(1) _ up]) (use ok(2) in \<open>auto simp: storable_def\<close>)
  show "repo_get s' k = (if k = ch_id c then Inr (Some c) else repo_get s k)"
    by (rule repo_get_update [OF _ up]) (use ok(2) in \<open>simp add: storable_def\<close>)
next
  fix s s' c v r
  assume ok: "table_ok s" and up: "repo_update v c r s = Inr s'"
  show "\<exists>old. repo_get s (ch_id c) = Inr (Some old) \<and> ch_version old = v"
    using repo_update_Inr [OF up] repo_get_row [OF ok] by metis
qed

end
