(* ===== verification/Lifecycle_Brief.thy ===== *)
theory Lifecycle_Brief
  imports Lifecycle_Store
begin

text \<open>
  What the lifecycle reads from outside its own tables, gathered in the record \<open>lc_env\<close> of one
  call: the injected callables of \<open>DesignLifecycleService.__init__\<close> (clock, runner, lookups,
  providers), the readers of the \<open>Store\<close> interface, fresh identifiers and the hash. Then the
  pieces that only read: source spans (\<open>design_lifecycle/source_projection.py\<close>), the evidence
  brief and the active revision (\<open>design_lifecycle/service.py\<close>).

  The rows of the store have the types of their columns; the meta column of a snapshot
  and the location column of an evidence row are the values their texts encode (\<open>None\<close> for a
  text that does not parse).
\<close>

section \<open>The environment of a call\<close>

record snapshot_row =
  sn_id :: string
  sn_repo_id :: string
  sn_parent_id :: "string option"
  sn_publication_status :: "string option"
  sn_created_at :: int
  sn_meta :: jdict

record edge_row =
  er_id :: string
  er_kind :: string
  er_src_id :: string
  er_dst_id :: string

record lc_env =
  en_hash :: "string \<Rightarrow> string"
  en_clock :: "nat \<Rightarrow> int"
  en_uuid :: "nat \<Rightarrow> string"
  en_snapshot :: "string \<Rightarrow> snapshot_row option"
  en_snapshots :: "string \<Rightarrow> snapshot_row list"
  en_all_nodes :: "string \<Rightarrow> string \<Rightarrow> jdict list"
  en_all_edges :: "string \<Rightarrow> string \<Rightarrow> edge_row list"
  en_evidence_for :: "string \<Rightarrow> string \<Rightarrow> string \<Rightarrow> jdict list"
  en_flow_models :: "string \<Rightarrow> jdict list option"
  en_runtime_provider :: "string \<Rightarrow> string \<Rightarrow> jdict \<Rightarrow> jdict list"
  en_reference_provider :: "string \<Rightarrow> string \<Rightarrow> jdict \<Rightarrow> jdict list"
  en_job_lookup :: "(json \<Rightarrow> jdict option) option"
  en_authorization_lookup :: "(string \<Rightarrow> design_change \<Rightarrow> jdict option) option"
  en_test_run_lookup :: "(string \<Rightarrow> jdict option) option"
  en_lvs_runner :: "design_change \<Rightarrow> jdict"
  en_design_mutation :: "design_change \<Rightarrow> lc_command \<Rightarrow> lc_error + jdict \<times> design_ref"
  en_coverage_certificates :: "string \<Rightarrow> string \<Rightarrow> string \<Rightarrow> string \<Rightarrow> jdict list"
  en_applicable_complete :: "jdict \<Rightarrow> string \<Rightarrow> string \<Rightarrow> jdict \<Rightarrow> bool \<times> string"

text \<open>\<open>_digest\<close>: the hash of the canonical JSON text.\<close>

definition digest :: "lc_env \<Rightarrow> json \<Rightarrow> string" where
  "digest env j = en_hash env (dumps True j)"

section \<open>Source spans\<close>

text \<open>The first value that is not \<open>None\<close>, over the rows and then the names.\<close>

definition first_field :: "jdict list \<Rightarrow> string list \<Rightarrow> json" where
  "first_field rows names =
     (case find (\<lambda>j. j \<noteq> JNull) (concat (map (\<lambda>row. map (jget row) names) rows)) of
        None \<Rightarrow> JNull | Some j \<Rightarrow> j)"

definition as_mapping :: "json \<Rightarrow> jdict" where
  "as_mapping j = (case j of JObj d \<Rightarrow> d | _ \<Rightarrow> [])"

definition positive_int :: "json \<Rightarrow> json" where
  "positive_int j = (case j of JInt i \<Rightarrow> (if i < 1 then JNull else j) | _ \<Rightarrow> JNull)"

definition text_or :: "json \<Rightarrow> string \<Rightarrow> json" where
  "text_or j s = (case j of JStr t \<Rightarrow> (if t = [] then JStr s else j) | _ \<Rightarrow> JStr s)"

definition project_source_span :: "jdict \<Rightarrow> string \<Rightarrow> string \<Rightarrow> string \<Rightarrow> json \<Rightarrow> jdict \<Rightarrow> json" where
  "project_source_span entity revision subject entity_type evidence_ref location =
     (let rows = [entity, as_mapping (jget entity ''source_span''), location];
          path = first_field rows [''path'', ''file''];
          start = first_field rows [''start_line'', ''line''];
          end_line = first_field rows [''end_line''];
          stop = (if truthy end_line then end_line else start);
          start_column = positive_int (first_field rows [''start_column'', ''start_col'', ''column'']);
          end_column = positive_int (first_field rows [''end_column'', ''end_col''])
      in case (path, start, stop) of
          (JStr p, JInt s, JInt e) \<Rightarrow>
            if p = [] \<or> s < 1 \<or> e < s then JNull
            else JObj [
              (''file'', path), (''path'', path), (''start_line'', start),
              (''start_column'', start_column), (''end_line'', stop), (''end_column'', end_column),
              (''span_kind'', text_or (first_field rows [''span_kind''])
                 (if entity_type = ''node'' then ''ENTITY'' else ''EVIDENCE_LOCATION'')),
              (''precision'', text_or (first_field rows [''precision''])
                 (if start_column \<noteq> JNull then ''COLUMN'' else ''LINE'')),
              (''revision'', JStr revision), (''subject'', JStr subject),
              (''entity_type'', JStr entity_type), (''evidence_ref'', evidence_ref)]
        | _ \<Rightarrow> JNull)"

section \<open>The evidence brief\<close>

text \<open>\<open>set(scope.get(k, []))\<close>.\<close>

definition scope_set :: "jdict \<Rightarrow> string \<Rightarrow> ev_error + json list" where
  "scope_set scope k = (case set_of (get_or scope k (JList [])) of Inl _ \<Rightarrow> Inl TypeError | Inr xs \<Rightarrow> Inr xs)"

definition in_scope :: "json list \<Rightarrow> json list \<Rightarrow> jdict \<Rightarrow> bool" where
  "in_scope paths symbols row =
     (jget row ''path'' \<in> set paths \<or> jget row ''id'' \<in> set symbols \<or>
      jget row ''qname'' \<in> set symbols \<or> jget row ''name'' \<in> set symbols)"

definition brief_fact :: "string \<Rightarrow> jdict \<Rightarrow> jdict" where
  "brief_fact snapshot_id row = [
     (''id'', jget row ''id''), (''kind'', jget row ''kind''), (''name'', jget row ''name''),
     (''qname'', jget row ''qname''), (''path'', jget row ''path''),
     (''source_span'', project_source_span row snapshot_id
        (if truthy (jget row ''id'') then py_str (jget row ''id'') else []) ''node'' JNull []),
     (''authority'', JStr ''CANONICAL_CANDIDATE''), (''truth_class'', JStr ''UNKNOWN''),
     (''coverage'', JStr ''UNKNOWN''), (''resolution'', JStr ''UNKNOWN''),
     (''execution_modality'', JStr ''UNKNOWN''), (''provider'', JList [])]"

definition flow_row :: "json list \<Rightarrow> string \<Rightarrow> jdict \<Rightarrow> jdict list" where
  "flow_row symbols snapshot_id flow =
     (let scope_symbol = jget flow ''scope_symbol_id'' in
      if jget flow ''snapshot_id'' \<noteq> JStr snapshot_id then []
      else if symbols \<noteq> [] \<and> truthy scope_symbol \<and> scope_symbol \<notin> set symbols then []
      else [[(''id'', jget flow ''id''), (''name'', jget flow ''name''),
        (''snapshot_id'', jget flow ''snapshot_id''), (''scope_symbol_id'', scope_symbol),
        (''authority'', JStr ''DESIGN_ANNOTATION''), (''truth_class'', JStr ''UNKNOWN''),
        (''coverage'', JStr ''PARTIAL'')]])"

definition brief_unknowns :: "jdict list \<Rightarrow> jdict list \<Rightarrow> jdict list" where
  "brief_unknowns selected runtime =
     (if 200 < length selected then [[(''kind'', JStr ''brief_truncated''),
        (''omitted'', JInt (int (length selected) - 200)),
        (''truth_class'', JStr ''UNKNOWN''), (''coverage'', JStr ''PARTIAL'')]] else []) @
     (if runtime = [] then [[(''kind'', JStr ''runtime_evidence_unavailable''),
        (''truth_class'', JStr ''UNKNOWN''), (''coverage'', JStr ''UNKNOWN''),
        (''authority'', JStr ''REFERENCE_EVIDENCE'')]] else [])"

definition build_brief :: "lc_env \<Rightarrow> string \<Rightarrow> string \<Rightarrow> jdict \<Rightarrow> ev_error + evidence_brief" where
  "build_brief env repo_id snapshot_id scope =
     and_then (scope_set scope ''files'') (\<lambda>paths.
     and_then (scope_set scope ''symbols'') (\<lambda>symbols.
       let rows = en_all_nodes env repo_id snapshot_id;
           selected = filter (\<lambda>row. (paths = [] \<and> symbols = []) \<or> in_scope paths symbols row) rows;
           facts = map (brief_fact snapshot_id) (take 200 selected);
           kinds = (\<lambda>ks. filter (\<lambda>x. jget x ''kind'' \<in> JStr ` set ks) facts);
           runtime = en_runtime_provider env repo_id snapshot_id scope
       in Inr \<lparr>eb_canonical_revision = snapshot_id,
         eb_modules = kinds [''MODULE'', ''PACKAGE'', ''NAMESPACE'', ''FILE''],
         eb_symbols = facts,
         eb_flows = (case en_flow_models env repo_id of
             None \<Rightarrow> [] | Some flows \<Rightarrow> concat (map (flow_row symbols snapshot_id) flows)),
         eb_data_interfaces = kinds [''INTERFACE'', ''TYPE'', ''CLASS'', ''STRUCT'', ''PARAMETER''],
         eb_runtime_evidence = runtime,
         eb_unknowns = brief_unknowns selected runtime,
         eb_reference_evidence = en_reference_provider env repo_id snapshot_id scope,
         eb_constraints = [[(''kind'', JStr ''bounded_brief''),
           (''selected'', JInt (int (length (take 200 selected)))),
           (''available'', JInt (int (length selected))), (''limit'', JInt 200),
           (''authority'', JStr ''DESIGN_ANNOTATION'')]]\<rparr>))"

section \<open>The active revision\<close>

definition published :: "snapshot_row \<Rightarrow> bool" where
  "published x = (case sn_publication_status x of None \<Rightarrow> True | Some s \<Rightarrow> s = ''published'')"

definition parents :: "snapshot_row list \<Rightarrow> string list" where
  "parents rows = List.map_filter (\<lambda>x. case sn_parent_id x of
     Some p \<Rightarrow> if p = [] then None else Some p | None \<Rightarrow> None) rows"

definition tips :: "snapshot_row list \<Rightarrow> snapshot_row list" where
  "tips rows = filter (\<lambda>x. sn_id x \<notin> set (parents rows)) rows"

definition active_of :: "snapshot_row list \<Rightarrow> json" where
  "active_of snapshots =
     (let rows = filter published snapshots; ts = tips rows in
      case ts of
        [] \<Rightarrow> JNull
      | [t] \<Rightarrow> JStr (sn_id t)
      | _ \<Rightarrow> (let newest = Max (set (map sn_created_at ts));
                latest = filter (\<lambda>x. sn_created_at x = newest) ts
            in case latest of [t] \<Rightarrow> JStr (sn_id t) | _ \<Rightarrow> JNull))"

definition active_revision :: "lc_env \<Rightarrow> string \<Rightarrow> json" where
  "active_revision env repo_id = active_of (en_snapshots env repo_id)"

text \<open>A published snapshot that no published one follows.\<close>

definition is_tip :: "snapshot_row list \<Rightarrow> snapshot_row \<Rightarrow> bool" where
  "is_tip rows t = (t \<in> set rows \<and> published t \<and>
     list_all (\<lambda>x. published x \<longrightarrow> sn_parent_id x = Some (sn_id t) \<longrightarrow> sn_id t = []) rows)"

lemma tips_iff: "t \<in> set (tips (filter published rows)) \<longleftrightarrow> is_tip rows t"
  by (auto simp: tips_def is_tip_def parents_def set_map_filter list_all_iff split: option.splits if_splits)

text \<open>The active revision is the strictly newest tip, and never an arbitrary choice among equals.\<close>

lemma active_of_newest:
  assumes "active_of rows = JStr r"
  shows "\<exists>t. is_tip rows t \<and> sn_id t = r \<and>
    (\<forall>u. is_tip rows u \<longrightarrow> u = t \<or> sn_created_at u < sn_created_at t)"
proof -
  let ?ts = "tips (filter published rows)"
  consider "?ts = []" | t where "?ts = [t]" | t u us where "?ts = t # u # us"
    by (metis list.exhaust)
  then show ?thesis
  proof cases
    case 1
    with assms show ?thesis by (simp add: active_of_def)
  next
    case 2
    then have "is_tip rows u \<longleftrightarrow> u = t" for u using tips_iff [of u rows] by auto
    with 2 assms show ?thesis by (auto simp: active_of_def)
  next
    case 3
    let ?newest = "Max (set (map sn_created_at ?ts))"
    let ?latest = "filter (\<lambda>x. sn_created_at x = ?newest) ?ts"
    have act: "active_of rows = (case ?latest of [t] \<Rightarrow> JStr (sn_id t) | _ \<Rightarrow> JNull)"
      unfolding active_of_def Let_def 3 by simp
    then obtain t where t: "?latest = [t]" and "sn_id t = r"
      using assms by (auto split: list.splits)
    have "t \<in> set ?latest" using t by simp
    then have tip: "is_tip rows t" and newest: "sn_created_at t = ?newest"
      using tips_iff [of t rows] by auto
    have "u = t \<or> sn_created_at u < sn_created_at t" if u: "is_tip rows u" for u
    proof (cases "sn_created_at u = ?newest")
      case True
      then have "u \<in> set ?latest" using u tips_iff [of u rows] by auto
      with t show ?thesis by auto
    next
      case False
      have "sn_created_at u \<le> ?newest" using u tips_iff [of u rows] by (intro Max_ge) auto
      with False newest show ?thesis by simp
    qed
    with tip \<open>sn_id t = r\<close> show ?thesis by blast
  qed
qed

end
