(* ===== verification/Lifecycle_Gates.thy ===== *)
theory Lifecycle_Gates
  imports Lifecycle_Brief
begin

text \<open>
  The gates of \<open>design_lifecycle/service.py\<close>: the checks the commands make, and the read-only
  preflight and command gate that report the same checks as denial reasons.

  The implementation of a change is the dictionary the service itself writes, so the value at
  \<open>index_job\<close> is an object when it is there (\<open>jobj\<close>).
\<close>

section \<open>Checks\<close>

definition require_state :: "design_change \<Rightarrow> change_state list \<Rightarrow> lc_error + unit" where
  "require_state c allowed = guard (ch_state c \<in> set allowed)
     (DesignLifecycleError ''invalid_transition'' (''command invalid from '' @ state_value (ch_state c))
        [(''state'', JStr (state_value (ch_state c))),
         (''allowed'', jstrs (sort (map state_value allowed)))])"

definition terminal :: "design_change \<Rightarrow> bool" where
  "terminal c = (ch_state c \<in> {CLOSED, ABANDONED})"

text \<open>\<open>change.implementation or {}\<close> and \<open>d.get(k) or {}\<close>.\<close>

definition impl_of :: "design_change \<Rightarrow> jdict" where
  "impl_of c = (case ch_implementation c of None \<Rightarrow> [] | Some d \<Rightarrow> d)"

definition jobj :: "jdict \<Rightarrow> string \<Rightarrow> jdict" where
  "jobj d k = as_mapping (jget d k)"

definition linked_job :: "design_change \<Rightarrow> jdict" where
  "linked_job c = jobj (impl_of c) ''index_job''"

definition recorded :: "design_change \<Rightarrow> bool" where
  "recorded c = (jget (impl_of c) ''observation_status'' = JStr ''recorded'')"

definition drc_acceptable :: "design_change \<Rightarrow> bool" where
  "drc_acceptable c = (case ch_design_drc c of None \<Rightarrow> False | Some d \<Rightarrow> truthy (jget d ''acceptable''))"

definition require_no_active_job :: "design_change \<Rightarrow> lc_error + unit" where
  "require_no_active_job c = (let linked = linked_job c in
     guard (\<not> (truthy (jget linked ''job_id'') \<and> \<not> truthy (jget linked ''adopted_at'')))
       (DesignLifecycleError ''index_job_active'' ''complete or fail the linked index job first'' []))"

definition require_actual_current :: "lc_env \<Rightarrow> design_change \<Rightarrow> lc_error + unit" where
  "require_actual_current env c =
     (let actual = jget (impl_of c) ''current_evidence_revision'';
          active = active_revision env (ch_repo_id c)
      in guard (truthy actual \<and> actual = active)
        (DesignLifecycleError ''actual_revision_stale'' ''actual observation is no longer current''
           [(''actual_revision'', actual), (''current_revision'', active)]))"

definition index_job :: "lc_env \<Rightarrow> json \<Rightarrow> string \<Rightarrow> lc_error + jdict" where
  "index_job env job_id repo_id =
     (case (case en_job_lookup env of None \<Rightarrow> None | Some look \<Rightarrow> look job_id) of
        None \<Rightarrow> failing ''index_job_identity_mismatch'' ''index job is unavailable or mismatched''
      | Some job \<Rightarrow>
          if job = [] \<or> jget job ''repo_id'' \<noteq> JStr repo_id \<or> jget job ''kind'' \<noteq> JStr ''index''
          then failing ''index_job_identity_mismatch'' ''index job is unavailable or mismatched''
          else Inr job)"

definition approval_authorization :: "lc_env \<Rightarrow> design_change \<Rightarrow> string option \<Rightarrow> jdict option" where
  "approval_authorization env c identity =
     (case (identity, en_authorization_lookup env) of
        (Some i, Some look) \<Rightarrow>
          (if i = [] then None else case look i c of
             None \<Rightarrow> None
           | Some auth \<Rightarrow>
               if jget auth ''permission'' \<noteq> JStr ''approve_design'' \<or>
                  jget auth ''principal_type'' \<noteq> JStr ''LOCAL_OWNER'' \<or>
                  jget auth ''auth_method'' \<noteq> JStr ''BOOTSTRAP_TOKEN'' \<or>
                  \<not> list_all (\<lambda>key. truthy (jget auth key)) [''subject'', ''policy_version'',
                    ''authorization_id'', ''principal_id'', ''auth_session_id'', ''rintel_instance_id'']
               then None else Some auth)
      | _ \<Rightarrow> None)"

text \<open>The named checks of \<open>_assert_closable\<close>, and its result.\<close>

definition closable_checks :: "design_change \<Rightarrow> (string \<times> bool) list" where
  "closable_checks c = [
     (''design_drc'', drc_acceptable c),
     (''expected_actual'', (case ch_expected_actual c of None \<Rightarrow> False
        | Some d \<Rightarrow> jget d ''outcome'' = JStr ''MATCHED'')),
     (''lvs'', (case ch_lvs_result c of None \<Rightarrow> False
        | Some d \<Rightarrow> jget d ''overall_status'' = JStr ''MATCH'')),
     (''verification'', ch_verification c \<noteq> [])]"

definition approved :: "repo_state \<Rightarrow> design_change \<Rightarrow> bool" where
  "approved rs c =
     (case rev (filter (\<lambda>r. ap_design_revision r = rv_id (ch_design_revision c))
        (approval_receipts rs (ch_id c))) of
        [] \<Rightarrow> False
      | latest # _ \<Rightarrow> ap_decision latest = ''APPROVE'' \<and> ap_change_version latest = ch_version c \<and>
          truthy (ap_principal_id latest) \<and> truthy (ap_auth_session_id latest) \<and>
          truthy (ap_rintel_instance_id latest))"

definition assert_closable :: "repo_state \<Rightarrow> design_change \<Rightarrow> lc_error + unit" where
  "assert_closable rs c =
     (let failed = map fst (filter (\<lambda>(name, ok). \<not> ok) (closable_checks c)) in
      if failed \<noteq> [] then Inl (DesignLifecycleError ''close_gate_failed''
        ''change is not eligible for close'' [(''failed'', jstrs failed)])
      else guard (truthy (jget (ch_scope c) ''approval_required'') \<longrightarrow> approved rs c)
        (DesignLifecycleError ''approval_required'' ''authenticated approval receipt required'' []))"

section \<open>Preflight\<close>

definition action_states :: "(string \<times> change_state list) list" where
  "action_states = [
     (''plan'', [OPEN, PLANNED]),
     (''design_mutation'', [OPEN, PLANNED]),
     (''begin_implementation'', [PLANNED]),
     (''run_reindex'', [IMPLEMENTING]),
     (''request_reindex'', [IMPLEMENTING]),
     (''adopt_index_job'', [IMPLEMENTING]),
     (''record_reindex'', [IMPLEMENTING]),
     (''evaluate_expected_actual'', [IMPLEMENTING]),
     (''verify'', [EVIDENCE_MATCHED]),
     (''close'', [VERIFIED])]"

text \<open>A receipt of a passed test run on the current design and the recorded revision.\<close>

definition current_pass :: "design_change \<Rightarrow> test_receipt \<Rightarrow> bool" where
  "current_pass c r = (tr_result r = JStr ''PASS'' \<and>
     tr_design_revision r = rv_id (ch_design_revision c) \<and>
     tr_canonical_revision r = jget (impl_of c) ''current_evidence_revision'')"

definition needs_test :: "design_change \<Rightarrow> bool" where
  "needs_test c = list_ex (\<lambda>a. ac_required a \<and> ac_kind a = ''test'') (ch_acceptance_criteria c)"

definition request_reasons :: "lc_env \<Rightarrow> design_change \<Rightarrow> string list" where
  "request_reasons env c = (let linked = linked_job c in
     if truthy (jget linked ''job_id'') \<and> \<not> truthy (jget linked ''adopted_at'') then
       (case (case en_job_lookup env of None \<Rightarrow> None | Some look \<Rightarrow> look (jget linked ''job_id'')) of
          Some job \<Rightarrow> if job \<noteq> [] \<and> jget job ''status'' = JStr ''failed'' then [] else [''index_job_already_requested'']
        | None \<Rightarrow> [''index_job_already_requested''])
     else [])"

definition adopt_reasons :: "lc_env \<Rightarrow> design_change \<Rightarrow> string list" where
  "adopt_reasons env c = (let linked = linked_job c in
     if \<not> truthy (jget linked ''job_id'') then [''index_job_not_requested'']
     else if truthy (jget linked ''adopted_at'') then [''index_job_already_adopted'']
     else case en_job_lookup env of
         None \<Rightarrow> [''index_job_unavailable'']
       | Some look \<Rightarrow> (case look (jget linked ''job_id'') of
           None \<Rightarrow> [''index_job_incomplete'']
         | Some job \<Rightarrow>
             if job = [] \<or> jget job ''status'' \<noteq> JStr ''done'' then [''index_job_incomplete'']
             else if jget (jobj job ''result'') ''snapshot_id'' \<noteq> active_revision env (ch_repo_id c)
               then [''index_job_result_stale''] else []))"

text \<open>The codes in the details of a close gate, else the code of the error.\<close>

definition failed_codes :: "lc_error \<Rightarrow> string list" where
  "failed_codes e = (case e of
     DesignLifecycleError code m details \<Rightarrow>
       (case map_of details ''failed'' of
          Some (JList xs) \<Rightarrow> map py_str xs | _ \<Rightarrow> [code])
   | _ \<Rightarrow> [])"

definition code_of :: "lc_error + 'a \<Rightarrow> string list" where
  "code_of m = (case m of Inl (DesignLifecycleError code s d) \<Rightarrow> [code] | _ \<Rightarrow> [])"

text \<open>The reasons an action is denied in a state that allows it.\<close>

definition gate_reasons :: "lc_env \<Rightarrow> repo_state \<Rightarrow> design_change \<Rightarrow> string \<Rightarrow> string list" where
  "gate_reasons env rs c name =
     (if name \<in> {''record_reindex'', ''run_reindex''}
        then ''index_job_proof_required'' # code_of (require_no_active_job c) else []) @
     (if name = ''begin_implementation'' \<and> \<not> drc_acceptable c then [''design_drc_not_acceptable''] else []) @
     (if name = ''evaluate_expected_actual'' \<and> (impl_of c = [] \<or> \<not> recorded c)
        then [''reindex_required''] else []) @
     (if name = ''verify'' \<and> needs_test c \<and> \<not> list_ex (current_pass c) (test_receipts rs (ch_id c))
        then [''test_receipt_required''] else []) @
     (if name \<in> {''evaluate_expected_actual'', ''verify'', ''close''} \<and> recorded c
        then code_of (require_actual_current env c) else []) @
     (if name = ''request_reindex'' then request_reasons env c else []) @
     (if name = ''adopt_index_job'' then adopt_reasons env c else []) @
     (if name = ''close''
        then (case assert_closable rs c of Inl e \<Rightarrow> failed_codes e | Inr u \<Rightarrow> []) else [])"

definition action_reasons :: "lc_env \<Rightarrow> repo_state \<Rightarrow> design_change \<Rightarrow> string \<times> change_state list \<Rightarrow> string list" where
  "action_reasons env rs c = (\<lambda>(name, allowed).
     if terminal c then [''terminal_change'']
     else case require_state c allowed of
         Inl e \<Rightarrow> [''invalid_transition'']
       | Inr u \<Rightarrow> gate_reasons env rs c name)"

record action_report =
  ar_denial_reasons :: "string list"
  ar_required_evidence :: "string list"

definition ar_allowed :: "action_report \<Rightarrow> bool" where
  "ar_allowed a = (ar_denial_reasons a = [])"

definition preflight_actions :: "lc_env \<Rightarrow> repo_state \<Rightarrow> design_change \<Rightarrow> string option \<Rightarrow>
    (string, action_report) dict" where
  "preflight_actions env rs c identity =
     map (\<lambda>(name, allowed). (name, \<lparr>ar_denial_reasons = action_reasons env rs c (name, allowed),
         ar_required_evidence = (if name = ''verify'' \<and> \<not> terminal c
           then map ac_id (filter ac_required (ch_acceptance_criteria c)) else [])\<rparr>)) action_states @
     [(''approve'', \<lparr>ar_denial_reasons = (if terminal c then [''terminal_change'']
           else if approval_authorization env c identity \<noteq> None then []
           else [''approver_authorization_unavailable'']), ar_required_evidence = []\<rparr>),
      (''abandon'', \<lparr>ar_denial_reasons = (if terminal c then [''terminal_change''] else []),
           ar_required_evidence = []\<rparr>)]"

definition get_change :: "repo_state \<Rightarrow> string \<Rightarrow> lc_error + design_change" where
  "get_change rs cid = and_then (repo_get rs cid) (\<lambda>x. case x of
     None \<Rightarrow> Inl (DesignLifecycleError ''change_not_found'' ''design change not found''
       [(''change_id'', JStr cid)])
   | Some c \<Rightarrow> Inr c)"

definition result_binding :: "lc_env \<Rightarrow> design_change \<Rightarrow> jdict" where
  "result_binding env c = [
     (''baseline_revision'', JStr (ch_base_canonical_revision c)),
     (''design_revision'', JStr (rv_id (ch_design_revision c))),
     (''actual_revision'', jget (impl_of c) ''current_evidence_revision''),
     (''scope_digest'', JStr (digest env (JObj (ch_scope c)))),
     (''scope'', JObj (ch_scope c))]"

definition report_json :: "action_report \<Rightarrow> json" where
  "report_json a = JObj [(''allowed'', JBool (ar_allowed a)),
     (''denial_reasons'', jstrs (ar_denial_reasons a)),
     (''required_evidence'', jstrs (ar_required_evidence a))]"

definition preflight :: "lc_env \<Rightarrow> repo_state \<Rightarrow> string \<Rightarrow> string option \<Rightarrow> lc_error + jdict" where
  "preflight env rs cid identity = and_then (get_change rs cid) (\<lambda>c.
     let actions = preflight_actions env rs c identity;
         auth = approval_authorization env c identity
     in Inr [
       (''change_id'', JStr (ch_id c)), (''change_version'', JInt (ch_version c)),
       (''policy_version'', JStr ''design-lifecycle-gates/2''),
       (''versionless_compatibility'', JStr ''NO_REUSABLE_PREFLIGHT_GUARANTEE''),
       (''subject_binding'', JObj (result_binding env c)),
       (''authorization'', JStr (if auth \<noteq> None then ''VERIFIED'' else ''UNAVAILABLE'')),
       (''authorization_requirement'', JStr ''approve_design''),
       (''authorization_identity'', (case auth of None \<Rightarrow> JNull | Some a \<Rightarrow> jget a ''authorization_id'')),
       (''approver_identity'', (case auth of None \<Rightarrow> JNull | Some a \<Rightarrow> jget a ''subject'')),
       (''allowed_actions'', jstrs (map fst (filter (\<lambda>(k, a). ar_allowed a) actions))),
       (''denied_actions'', jstrs (map fst (filter (\<lambda>(k, a). \<not> ar_allowed a) actions))),
       (''actions'', JObj (map (\<lambda>(k, a). (k, report_json a)) actions))])"

section \<open>The gate of one command\<close>

fun command_name :: "lc_command \<Rightarrow> string option" where
  "command_name (PlanChange _ _ _ _ _) = Some ''plan''"
| "command_name (DesignMutation _ _ _ _ _ _) = Some ''design_mutation''"
| "command_name (BeginImplementation _ _ _) = Some ''begin_implementation''"
| "command_name (RecordReindex _ _ _ _ _ _ _ _) = Some ''record_reindex''"
| "command_name (RunReindex _ _ _) = Some ''run_reindex''"
| "command_name (RequestReindex _ _ _) = Some ''request_reindex''"
| "command_name (AdoptIndexJob _ _ _ _) = Some ''adopt_index_job''"
| "command_name (EvaluateExpectedActual _ _) = Some ''evaluate_expected_actual''"
| "command_name (VerifyChange _ _ _) = Some ''verify''"
| "command_name (CloseChange _ _ _) = Some ''close''"
| "command_name (AbandonChange _ _ _) = Some ''abandon''"
| "command_name (RecordRepairApplication _ _ _ _ _ _) = None"
| "command_name (OtherCommand _ _) = None"

text \<open>\<open>{str(x.get("criterion_id")): dict(x) for x in results}\<close>.\<close>

definition results_by_id :: "jdict list \<Rightarrow> (string, jdict) dict" where
  "results_by_id results = dict_of (\<lambda>x. py_str (jget x ''criterion_id'')) (\<lambda>x. x) results"

definition unmet :: "(string, jdict) dict \<Rightarrow> acceptance_criterion \<Rightarrow> bool" where
  "unmet by_id a = (ac_required a \<and>
     (let x = get_or by_id (ac_id a) [] in
      jget x ''status'' \<noteq> JStr ''PASS'' \<or> \<not> truthy (jget x ''evidence_refs'')))"

definition command_reasons :: "lc_env \<Rightarrow> repo_state \<Rightarrow> design_change \<Rightarrow> lc_command \<Rightarrow> string list" where
  "command_reasons env rs c cmd =
     (case cmd of
        RecordRepairApplication _ _ _ _ _ _ \<Rightarrow>
          if ch_state c = IMPLEMENTING then [] else [''invalid_state'']
      | _ \<Rightarrow> (case command_name cmd of
          None \<Rightarrow> [''unsupported_command'']
        | Some name \<Rightarrow>
            let reasons = (case map_of (preflight_actions env rs c None) name of
                  None \<Rightarrow> [] | Some a \<Rightarrow> ar_denial_reasons a)
            in case cmd of
                VerifyChange _ results _ \<Rightarrow>
                  if ch_state c = EVIDENCE_MATCHED \<and>
                     list_ex (unmet (results_by_id results)) (ch_acceptance_criteria c)
                  then ''verification_incomplete'' # reasons else reasons
              | RequestReindex _ job_id _ \<Rightarrow>
                  if reasons \<noteq> [] then reasons
                  else (case index_job env (JStr job_id) (ch_repo_id c) of
                      Inl e \<Rightarrow> code_of (Inl e :: lc_error + unit)
                    | Inr job \<Rightarrow> if jget job ''status'' \<noteq> JStr ''pending'' then [''index_job_not_pending''] else [])
              | _ \<Rightarrow> reasons))"

definition denial_reasons :: "lc_env \<Rightarrow> repo_state \<Rightarrow> design_change \<Rightarrow> lc_command \<Rightarrow> string list" where
  "denial_reasons env rs c cmd =
     (if cm_expected_version cmd \<noteq> None \<and> cm_expected_version cmd \<noteq> Some (ch_version c)
        then [''stale_preflight'']
      else if terminal c then [''terminal_change'']
      else command_reasons env rs c cmd)"

record command_gate =
  cg_denial_reasons :: "string list"
  cg_change_id :: string
  cg_change_version :: int
  cg_version_bound :: bool

definition cg_allowed :: "command_gate \<Rightarrow> bool" where
  "cg_allowed g = (cg_denial_reasons g = [])"

definition evaluate_command :: "lc_env \<Rightarrow> repo_state \<Rightarrow> string \<Rightarrow> lc_command \<Rightarrow> lc_error + command_gate" where
  "evaluate_command env rs cid cmd = and_then (get_change rs cid) (\<lambda>c.
     Inr \<lparr>cg_denial_reasons = denial_reasons env rs c cmd, cg_change_id = ch_id c,
       cg_change_version = ch_version c, cg_version_bound = (cm_expected_version cmd \<noteq> None)\<rparr>)"

end
