(* ===== verification/Lifecycle_Evaluate.thy ===== *)
theory Lifecycle_Evaluate
  imports Lifecycle_Gates
begin

text \<open>
  The comparison of the expected with the actual evidence (\<open>_evaluate\<close>) and the resolution of
  caller selectors against the canonical graph (\<open>_canonicalize_actual_evidence\<close>,
  \<open>_implementation_from_index_result\<close>) of \<open>design_lifecycle/service.py\<close>. The certificate check
  \<open>applicable_complete\<close> is the function \<open>en_applicable_complete\<close> of the environment.
\<close>

section \<open>Facts\<close>

type_synonym fact_id = "string \<times> string \<times> string"

definition source_text :: "jdict \<Rightarrow> string" where
  "source_text ft = (if truthy (jget ft ''source'') then py_str (jget ft ''source'')
     else text_at ft ''symbol'')"

definition fact_key :: "jdict \<Rightarrow> fact_id" where
  "fact_key ft = (text_at ft ''kind'', source_text ft, text_at ft ''target'')"

definition row_key :: "edge_row \<Rightarrow> fact_id" where
  "row_key row = (er_kind row, er_src_id row, er_dst_id row)"

definition actual_fact :: "string \<Rightarrow> edge_row \<Rightarrow> jdict" where
  "actual_fact revision row = [(''id'', JStr (er_id row)), (''kind'', JStr (er_kind row)),
     (''source'', JStr (er_src_id row)), (''target'', JStr (er_dst_id row)),
     (''canonical_revision'', JStr revision)]"

definition key_json :: "fact_id \<Rightarrow> json" where
  "key_json k = jstrs [fst k, fst (snd k), snd (snd k)]"

text \<open>\<open>[dict(x.get(k, {})) for x in xs if x.get(k)]\<close>.\<close>

definition expected_facts :: "design_change \<Rightarrow> ev_error + jdict list" where
  "expected_facts c = map_err as_object
     (filter truthy (map (\<lambda>x. jget x ''expected_evidence'') (rv_expected_changes (ch_design_revision c))))"

definition selected_facts :: "design_change \<Rightarrow> ev_error + jdict list" where
  "selected_facts c = as_objs (get_or (impl_of c) ''actual_evidence'' (JList []))"

section \<open>The searched domain\<close>

definition scoped_node_ids :: "lc_env \<Rightarrow> design_change \<Rightarrow> string \<Rightarrow> ev_error + string list" where
  "scoped_node_ids env c revision =
     and_then (scope_set (ch_scope c) ''files'') (\<lambda>paths.
     and_then (scope_set (ch_scope c) ''symbols'') (\<lambda>symbols.
       map_err (\<lambda>node. and_then (jindex node ''id'') (\<lambda>i. Inr (py_str i)))
         (filter (in_scope paths symbols) (en_all_nodes env (ch_repo_id c) revision))))"

definition search_kinds :: "jdict list \<Rightarrow> string list \<Rightarrow> string list" where
  "search_kinds facts sources =
     (let kinds = remdups (map (\<lambda>x. text_at x ''kind'') facts) in
      filter (\<lambda>k. k \<noteq> []) (if kinds = [] \<and> sources \<noteq> [] then [''CALLS''] else kinds))"

definition search_sources :: "jdict list \<Rightarrow> string list \<Rightarrow> string list" where
  "search_sources facts ids = remdups (map source_text facts @ ids)"

definition graph_rows :: "lc_env \<Rightarrow> design_change \<Rightarrow> string \<Rightarrow> string list \<Rightarrow> string list \<Rightarrow> edge_row list" where
  "graph_rows env c revision kinds sources =
     filter (\<lambda>row. er_kind row \<in> set kinds \<and> er_src_id row \<in> set sources)
       (en_all_edges env (ch_repo_id c) revision)"

section \<open>The comparison\<close>

record comparison =
  cp_revision :: string
  cp_expected :: "jdict list"
  cp_rows :: "edge_row list"
  cp_kinds :: "string list"
  cp_sources :: "string list"
  cp_base_keys :: "fact_id list"

definition expected_by :: "comparison \<Rightarrow> (fact_id, jdict) dict" where
  "expected_by cp = dict_of fact_key (\<lambda>x. x) (cp_expected cp)"

definition actual_by :: "comparison \<Rightarrow> (fact_id, jdict) dict" where
  "actual_by cp = dict_of fact_key (\<lambda>x. x) (map (actual_fact (cp_revision cp)) (cp_rows cp))"

definition missing_keys :: "comparison \<Rightarrow> fact_id list" where
  "missing_keys cp = sort (filter (\<lambda>k. k \<notin> set (keys (actual_by cp))) (keys (expected_by cp)))"

definition unexpected_keys :: "comparison \<Rightarrow> fact_id list" where
  "unexpected_keys cp = sort (filter (\<lambda>k. k \<notin> set (keys (expected_by cp)) \<and> k \<notin> set (cp_base_keys cp))
     (keys (actual_by cp)))"

definition certificates_for :: "lc_env \<Rightarrow> design_change \<Rightarrow> comparison \<Rightarrow> fact_id \<Rightarrow> jdict list" where
  "certificates_for env c cp k =
     (if jget (get_or (expected_by cp) k []) ''call_semantics'' = JStr ''DIRECT_STATIC_CALL''
      then en_coverage_certificates env (ch_repo_id c) (cp_revision cp) (fst (snd k)) ''DIRECT_STATIC_CALL''
      else [])"

definition applicability :: "lc_env \<Rightarrow> design_change \<Rightarrow> comparison \<Rightarrow> fact_id \<Rightarrow> bool \<times> string" where
  "applicability env c cp k = (case certificates_for env c cp k of
     [] \<Rightarrow> (False, ''no_exact_direct_call_certificate'')
   | cert # _ \<Rightarrow> en_applicable_complete env cert (ch_repo_id c) (cp_revision cp) (get_or (expected_by cp) k []))"

definition proved_missing :: "lc_env \<Rightarrow> design_change \<Rightarrow> comparison \<Rightarrow> fact_id list" where
  "proved_missing env c cp = filter (\<lambda>k. fst (applicability env c cp k)) (missing_keys cp)"

definition unknown_missing :: "lc_env \<Rightarrow> design_change \<Rightarrow> comparison \<Rightarrow> fact_id list" where
  "unknown_missing env c cp = sort (filter (\<lambda>k. k \<notin> set (proved_missing env c cp)) (missing_keys cp))"

definition negative_coverage :: "lc_env \<Rightarrow> design_change \<Rightarrow> comparison \<Rightarrow> string" where
  "negative_coverage env c cp =
     (if missing_keys cp \<noteq> [] \<and> unknown_missing env c cp = [] then ''COMPLETE''
      else if missing_keys cp \<noteq> [] then ''UNKNOWN'' else ''NOT_REQUIRED'')"

datatype outcome = MATCHED | MISSING_IMPLEMENTATION | UNEXPECTED_IMPLEMENTATION | UNKNOWN_OUTCOME

fun outcome_value :: "outcome \<Rightarrow> string" where
  "outcome_value MATCHED = ''MATCHED''"
| "outcome_value MISSING_IMPLEMENTATION = ''MISSING_IMPLEMENTATION''"
| "outcome_value UNEXPECTED_IMPLEMENTATION = ''UNEXPECTED_IMPLEMENTATION''"
| "outcome_value UNKNOWN_OUTCOME = ''UNKNOWN''"

definition outcome_of :: "lc_env \<Rightarrow> design_change \<Rightarrow> comparison \<Rightarrow> outcome" where
  "outcome_of env c cp =
     (if unknown_missing env c cp \<noteq> [] then UNKNOWN_OUTCOME
      else if proved_missing env c cp \<noteq> [] then MISSING_IMPLEMENTATION
      else if unexpected_keys cp \<noteq> [] then UNEXPECTED_IMPLEMENTATION
      else MATCHED)"

text \<open>What \<open>_evaluate\<close> collects before it compares. The revision is a text once it is current.\<close>

definition comparison_of :: "lc_env \<Rightarrow> design_change \<Rightarrow> ev_error + comparison" where
  "comparison_of env c =
     and_then (expected_facts c) (\<lambda>expected.
     and_then (field as_text (impl_of c) ''current_evidence_revision'') (\<lambda>revision.
     and_then (selected_facts c) (\<lambda>selected.
     and_then (scoped_node_ids env c revision) (\<lambda>ids.
       let sources = search_sources (expected @ selected) ids;
           kinds = search_kinds (expected @ selected) sources;
           sources = filter (\<lambda>s. s \<noteq> []) sources
       in Inr \<lparr>cp_revision = revision, cp_expected = expected,
         cp_rows = graph_rows env c revision kinds sources, cp_kinds = kinds, cp_sources = sources,
         cp_base_keys = map row_key (en_all_edges env (ch_repo_id c) (ch_base_canonical_revision c))\<rparr>))))"

definition facts_at :: "(fact_id, jdict) dict \<Rightarrow> fact_id list \<Rightarrow> json" where
  "facts_at d ks = objs (map (\<lambda>k. get_or d k []) ks)"

definition comparison_identity :: "lc_env \<Rightarrow> design_change \<Rightarrow> comparison \<Rightarrow> string" where
  "comparison_identity env c cp = digest env (JObj [
     (''baseline'', JStr (ch_base_canonical_revision c)),
     (''design'', JStr (rv_id (ch_design_revision c))), (''actual'', JStr (cp_revision cp)),
     (''scope'', JObj (ch_scope c)), (''expected'', objs (cp_expected cp)),
     (''observed'', JList (map key_json (sort (keys (actual_by cp)))))])"

definition evaluation_json :: "lc_env \<Rightarrow> design_change \<Rightarrow> comparison \<Rightarrow> jdict" where
  "evaluation_json env c cp =
     (let certified = filter (\<lambda>k. certificates_for env c cp k \<noteq> []) (missing_keys cp);
          certs = map (\<lambda>k. hd (certificates_for env c cp k)) certified;
          actual = map (actual_fact (cp_revision cp)) (cp_rows cp)
      in [(''comparison_identity'', JStr (comparison_identity env c cp)),
        (''rule_version'', JStr ''design-lifecycle-compare/2''),
        (''outcome'', JStr (outcome_value (outcome_of env c cp))),
        (''expected_evidence'', objs (cp_expected cp)),
        (''actual_canonical_evidence'', objs actual),
        (''matched'', facts_at (actual_by cp)
           (sort (filter (\<lambda>k. k \<in> set (keys (actual_by cp))) (keys (expected_by cp))))),
        (''missing'', facts_at (expected_by cp) (proved_missing env c cp)),
        (''unproven_absence'', facts_at (expected_by cp) (unknown_missing env c cp)),
        (''unexpected'', facts_at (actual_by cp) (unexpected_keys cp)),
        (''searched_domain'', JObj [(''repo_id'', JStr (ch_repo_id c)),
           (''canonical_revision'', JStr (cp_revision cp)), (''source_ids'', jstrs (sort (cp_sources cp))),
           (''edge_kinds'', jstrs (sort (cp_kinds cp))), (''scope'', JObj (ch_scope c))]),
        (''negative_coverage'', JStr (negative_coverage env c cp)),
        (''coverage_certificate_refs'', JList (map (\<lambda>d. jget d ''id'') certs)),
        (''coverage_certificates'', objs certs),
        (''coverage_limitations'', jstrs (sort (remdups
           (map (\<lambda>k. snd (applicability env c cp k)) (unknown_missing env c cp))))),
        (''observed_positive_evidence_refs'', JList (filter truthy (map (\<lambda>x. jget x ''id'') actual))),
        (''final_canonical_revision'', JStr (cp_revision cp))])"

definition evaluate_change :: "lc_env \<Rightarrow> design_change \<Rightarrow> ev_error + jdict" where
  "evaluate_change env c = and_then (comparison_of env c) (\<lambda>cp. Inr (evaluation_json env c cp))"

section \<open>Actual evidence from an index job\<close>

definition claim_key :: "jdict \<Rightarrow> fact_id" where
  "claim_key claim = (text_at claim ''kind'', text_at claim ''source'', text_at claim ''target'')"

definition canonical_fact :: "string \<Rightarrow> jdict list \<Rightarrow> edge_row \<Rightarrow> jdict" where
  "canonical_fact snapshot_id rows row =
     (let support = filter (\<lambda>x. jget x ''entity_type'' = JStr ''edge'') rows;
          spans = filter (\<lambda>j. case j of JObj d \<Rightarrow> True | _ \<Rightarrow> False)
            (map (\<lambda>x. jget x ''location_json'') support)
      in [(''id'', JStr (er_id row)), (''kind'', JStr (er_kind row)),
        (''source'', JStr (er_src_id row)), (''target'', JStr (er_dst_id row)),
        (''authority'', JStr ''CANONICAL_CANDIDATE''),
        (''truth_class'', JStr ''UNKNOWN''), (''coverage'', JStr ''UNKNOWN''),
        (''resolution'', JStr ''UNKNOWN''), (''execution_modality'', JStr ''UNKNOWN''),
        (''provider'', JList []),
        (''source_span'', (case spans of [s] \<Rightarrow> s | _ \<Rightarrow> JNull)),
        (''supporting_evidence_refs'', jstrs (map (\<lambda>i. snapshot_id @ '':edge:'' @ er_id row @ '':''
           @ int_str (int i)) [0..<length support])),
        (''canonical_revision'', JStr snapshot_id)])"

definition canonical_claim :: "lc_env \<Rightarrow> string \<Rightarrow> string \<Rightarrow> jdict \<Rightarrow> lc_error + jdict" where
  "canonical_claim env repo_id snapshot_id claim =
     (case find (\<lambda>e. row_key e = claim_key claim) (en_all_edges env repo_id snapshot_id) of
        None \<Rightarrow> Inl (DesignLifecycleError ''actual_evidence_not_canonical''
          ''implementation claim is absent from canonical revision''
          [(''revision'', JStr snapshot_id), (''selector'', JObj [(''kind'', JStr (text_at claim ''kind'')),
             (''source'', JStr (text_at claim ''source'')), (''target'', JStr (text_at claim ''target''))])])
      | Some row \<Rightarrow> Inr (canonical_fact snapshot_id
          (en_evidence_for env repo_id snapshot_id (er_id row)) row))"

definition canonicalize_actual_evidence :: "lc_env \<Rightarrow> string \<Rightarrow> string \<Rightarrow> jdict list \<Rightarrow>
    lc_error + jdict list" where
  "canonicalize_actual_evidence env repo_id snapshot_id claims =
     map_err (canonical_claim env repo_id snapshot_id) claims"

text \<open>\<open>d.update(e)\<close>.\<close>

definition dict_update :: "jdict \<Rightarrow> jdict \<Rightarrow> jdict" where
  "dict_update d e = fold (\<lambda>(k, v). dict_set k v) e d"

definition changed_symbols :: "jdict list \<Rightarrow> string list" where
  "changed_symbols evidence = sort (filter (\<lambda>s. s \<noteq> [])
     (remdups (map source_text evidence @ map (\<lambda>x. text_at x ''target'') evidence)))"

definition recorded_result :: "jdict \<Rightarrow> jdict \<Rightarrow> json list \<Rightarrow> string \<Rightarrow> jdict list \<Rightarrow> jdict" where
  "recorded_result impl result files revision evidence = dict_update impl [
     (''actual_changed_files'', JList files),
     (''actual_changed_symbols'', jstrs (changed_symbols evidence)),
     (''current_evidence_revision'', JStr revision),
     (''actual_evidence'', objs evidence),
     (''observation_status'', JStr ''recorded''),
     (''incremental_run'', JObj (map (\<lambda>k. (k, jget result k)) [
        ''run_id'', ''incremental'', ''files_parsed'', ''changed_files'', ''invalidated_files'',
        ''cutoff_reason'', ''canonical_reconsidered_facts'', ''projections_recomputed'',
        ''projections_reused'', ''duration_ms'']))]"

definition implementation_from_index_result :: "lc_env \<Rightarrow> design_change \<Rightarrow> jdict \<Rightarrow> string \<Rightarrow> jdict list \<Rightarrow>
    lc_error + jdict" where
  "implementation_from_index_result env c result revision selectors =
     and_then (canonicalize_actual_evidence env (ch_repo_id c) revision selectors) (\<lambda>evidence.
     and_then (lifted (as_list (get_or result ''changed_files'' (JList [])))) (\<lambda>files.
       Inr (recorded_result (impl_of c) result files revision evidence)))"

section \<open>What the outcome means\<close>

lemma actual_fact_key [simp]: "fact_key (actual_fact revision row) = row_key row"
  by (simp add: fact_key_def actual_fact_def row_key_def text_at_def source_text_def jget_def get_or_def
    py_str_def)

lemma keys_dict_of: "set (keys (dict_of f g xs)) = f ` set xs"
  by (simp add: keys_def dict_of_keys)

lemma expected_keys [simp]: "set (keys (expected_by cp)) = fact_key ` set (cp_expected cp)"
  by (simp add: expected_by_def keys_dict_of)

lemma actual_keys [simp]: "set (keys (actual_by cp)) = row_key ` set (cp_rows cp)"
  by (simp add: actual_by_def keys_dict_of image_image)

lemma missing_set: "set (missing_keys cp) = fact_key ` set (cp_expected cp) - row_key ` set (cp_rows cp)"
  by (auto simp: missing_keys_def)

lemma unexpected_set: "set (unexpected_keys cp) =
    row_key ` set (cp_rows cp) - fact_key ` set (cp_expected cp) - set (cp_base_keys cp)"
  by (auto simp: unexpected_keys_def)

lemma set_empty_iff: "xs = [] \<longleftrightarrow> set xs = {}"
  by simp

lemma unknown_empty: "unknown_missing env c cp = [] \<longleftrightarrow>
    (\<forall>k \<in> set (missing_keys cp). fst (applicability env c cp k))"
proof -
  have "set (unknown_missing env c cp) = {k \<in> set (missing_keys cp). \<not> fst (applicability env c cp k)}"
    by (auto simp: unknown_missing_def proved_missing_def)
  then show ?thesis unfolding set_empty_iff by auto
qed

text \<open>Absence is a verdict only when every missing fact has an applicable certificate.\<close>

lemma outcome_table:
  "(case outcome_of env c cp of
     MATCHED \<Rightarrow> set (missing_keys cp) = {} \<and> set (unexpected_keys cp) = {}
   | MISSING_IMPLEMENTATION \<Rightarrow> set (missing_keys cp) \<noteq> {} \<and>
       (\<forall>k \<in> set (missing_keys cp). fst (applicability env c cp k))
   | UNEXPECTED_IMPLEMENTATION \<Rightarrow> set (missing_keys cp) = {} \<and> set (unexpected_keys cp) \<noteq> {}
   | UNKNOWN_OUTCOME \<Rightarrow> \<exists>k \<in> set (missing_keys cp). \<not> fst (applicability env c cp k))"
proof -
  have "proved_missing env c cp = [] \<longleftrightarrow> (\<forall>k \<in> set (missing_keys cp). \<not> fst (applicability env c cp k))"
    by (simp add: proved_missing_def filter_empty_conv)
  moreover note unknown_empty [of env c cp]
  ultimately show ?thesis
    by (cases "missing_keys cp") (auto simp: outcome_of_def)
qed

lemma comparison_of_Inr:
  assumes "comparison_of env c = Inr cp"
  shows "jget (impl_of c) ''current_evidence_revision'' = JStr (cp_revision cp) \<and>
    expected_facts c = Inr (cp_expected cp) \<and>
    cp_rows cp = graph_rows env c (cp_revision cp) (cp_kinds cp) (cp_sources cp) \<and>
    cp_base_keys cp = map row_key (en_all_edges env (ch_repo_id c) (ch_base_canonical_revision c))"
proof -
  have "field as_text d k = Inr s \<Longrightarrow> jget d k = JStr s" for d k s
    by (cases "map_of d k") (auto simp: field_def jindex_def jget_def get_or_def elim: as_text.elims)
  with assms show ?thesis
    by (auto simp: comparison_of_def and_then_Inr Let_def)
qed

section \<open>What is recorded\<close>

lemma jget_dict_set: "jget (dict_set k v d) k' = (if k' = k then v else jget d k')"
  by (simp add: jget_def get_or_def map_of_dict_set)

lemma recorded_result_fields:
  "jget (recorded_result impl result files revision evidence) ''current_evidence_revision'' = JStr revision"
  "jget (recorded_result impl result files revision evidence) ''observation_status'' = JStr ''recorded''"
  "jget (recorded_result impl result files revision evidence) ''actual_evidence'' = objs evidence"
  by (simp_all add: recorded_result_def dict_update_def jget_dict_set)

lemma canonical_fact_fields:
  "fact_key (canonical_fact snapshot_id rows row) = row_key row"
  "jget (canonical_fact snapshot_id rows row) ''truth_class'' = JStr ''UNKNOWN''"
  "jget (canonical_fact snapshot_id rows row) ''coverage'' = JStr ''UNKNOWN''"
  by (simp_all add: canonical_fact_def Let_def fact_key_def row_key_def source_text_def text_at_def
      jget_def get_or_def py_str_def)

lemma canonical_claim_Inr:
  assumes "canonical_claim env repo_id snapshot_id claim = Inr x"
  shows "fact_key x \<in> row_key ` set (en_all_edges env repo_id snapshot_id) \<and>
    jget x ''truth_class'' = JStr ''UNKNOWN'' \<and> jget x ''coverage'' = JStr ''UNKNOWN''"
proof -
  from assms obtain row where row: "row \<in> set (en_all_edges env repo_id snapshot_id)"
    and x: "x = canonical_fact snapshot_id (en_evidence_for env repo_id snapshot_id (er_id row)) row"
    by (auto simp: canonical_claim_def split: option.splits dest: find_SomeD)
  from row show ?thesis by (simp add: x canonical_fact_fields)
qed

end
