(* ===== verification/Lifecycle_Service.thy ===== *)
theory Lifecycle_Service
  imports Lifecycle_Evaluate
begin

text \<open>
  The write seam of the lifecycle (\<open>design_lifecycle/service.py\<close>): \<open>open_change\<close>,
  \<open>apply_command\<close> with one definition per command, and the two independent receipts. A command
  gives the change after it with the payload and the name of its receipt, or raises. The domain
  write of a design mutation (\<open>_apply_design_mutation\<close>, the architecture and flow stores) is the
  function \<open>en_design_mutation\<close> of the environment: it gives the result and the design reference.
\<close>

section \<open>Receipts\<close>

definition rule_version_of :: "jdict \<Rightarrow> json" where
  "rule_version_of payload =
     (let drc = jget (jobj payload ''drc'') ''rule_version'';
          ea = jget (jobj payload ''expected_actual'') ''rule_version'';
          rv = jget payload ''rule_versions''
      in if truthy drc then drc else if truthy ea then ea else if truthy rv then rv
         else JStr ''design-lifecycle/1'')"

definition make_receipt :: "lc_env \<Rightarrow> nat \<Rightarrow> design_change \<Rightarrow> int \<Rightarrow> string \<Rightarrow> string \<Rightarrow> string option \<Rightarrow>
    jdict \<Rightarrow> lifecycle_receipt" where
  "make_receipt env i c sequence command actor state_before payload0 =
     (let receipt_id = ''receipt-'' @ en_uuid env i;
          payload = dict_set ''result_binding'' (JObj (result_binding env c @
            [(''run_identity'', JStr receipt_id), (''rule_version'', rule_version_of payload0)])) payload0
      in \<lparr>rc_id = receipt_id, rc_change_id = ch_id c, rc_sequence = sequence, rc_command = command,
        rc_actor = actor, rc_state_before = state_before, rc_state_after = state_value (ch_state c),
        rc_payload = payload,
        rc_digest = digest env (JObj [(''change_id'', JStr (ch_id c)), (''sequence'', JInt sequence),
          (''command'', JStr command), (''actor'', JStr actor),
          (''state_before'', jopt JStr state_before),
          (''state_after'', JStr (state_value (ch_state c))), (''payload'', JObj payload)]),
        rc_created_at = en_clock env 1\<rparr>)"

section \<open>Opening a change\<close>

definition revision_payload :: "string \<Rightarrow> design_ref option \<Rightarrow> design_ref option \<Rightarrow> jdict list \<Rightarrow> json" where
  "revision_payload cid arch flow changes = JObj [
     (''change_id'', JStr cid), (''architecture_proposal_ref'', jopt ref_json arch),
     (''flow_model_ref'', jopt ref_json flow), (''expected_changes'', objs changes)]"

definition new_revision :: "lc_env \<Rightarrow> nat \<Rightarrow> string \<Rightarrow> design_ref option \<Rightarrow> design_ref option \<Rightarrow> jdict list \<Rightarrow>
    design_revision" where
  "new_revision env i cid arch flow changes =
     \<lparr>rv_id = ''design-rev-'' @ en_uuid env i, rv_change_id = cid, rv_authority = ''DESIGN_ANNOTATION'',
      rv_architecture_proposal_ref = arch, rv_flow_model_ref = flow, rv_expected_changes = changes,
      rv_created_at = en_clock env 0, rv_digest = digest env (revision_payload cid arch flow changes)\<rparr>"

definition opened_change :: "lc_env \<Rightarrow> string \<Rightarrow> string \<Rightarrow> string \<Rightarrow> jdict \<Rightarrow> acceptance_criterion list \<Rightarrow>
    design_ref option \<Rightarrow> design_ref option \<Rightarrow> evidence_brief \<Rightarrow> design_change" where
  "opened_change env repo_id base intent scope criteria arch flow brief =
     (let cid = ''change-'' @ en_uuid env 0; now = en_clock env 0 in
      \<lparr>ch_id = cid, ch_repo_id = repo_id, ch_base_canonical_revision = base,
        ch_intent = strip intent, ch_scope = scope, ch_acceptance_criteria = criteria,
        ch_design_revision = new_revision env 1 cid arch flow [], ch_evidence_brief = brief, ch_state = OPEN,
        ch_design_drc = None, ch_implementation = None, ch_expected_actual = None,
        ch_lvs_result = None, ch_verification = [], ch_close_receipt = None,
        ch_remaining_unknowns = eb_unknowns brief, ch_version = 1, ch_created_at = now,
        ch_updated_at = now\<rparr>)"

definition open_change :: "lc_env \<Rightarrow> string \<Rightarrow> string \<Rightarrow> string \<Rightarrow> jdict \<Rightarrow> acceptance_criterion list \<Rightarrow> string \<Rightarrow>
    design_ref option \<Rightarrow> design_ref option \<Rightarrow> repo_state \<Rightarrow> lc_error + design_change \<times> repo_state" where
  "open_change env repo_id base intent scope criteria actor arch flow rs =
     and_then (guard (case en_snapshot env base of None \<Rightarrow> False | Some s \<Rightarrow> sn_repo_id s = repo_id)
       (DesignLifecycleError ''invalid_base_revision'' ''base canonical revision is not in repo''
          [(''repo_id'', JStr repo_id), (''revision'', JStr base)])) (\<lambda>_.
     and_then (guard (\<not> blank intent)
       (DesignLifecycleError ''intent_required'' ''change intent is required'' [])) (\<lambda>_.
     and_then (lifted (build_brief env repo_id base scope)) (\<lambda>brief.
       let c = opened_change env repo_id base intent scope criteria arch flow brief
       in and_then (repo_insert c (make_receipt env 2 c 1 ''open_change'' actor None
             [(''design_revision'', JStr (rv_id (ch_design_revision c)))]) rs) (\<lambda>rs'. Inr (c, rs')))))"

section \<open>Commands\<close>

type_synonym step_result = "lc_error + design_change \<times> jdict \<times> string"

definition bump :: "lc_env \<Rightarrow> design_change \<Rightarrow> design_change" where
  "bump env c = c\<lparr>ch_version := ch_version c + 1, ch_updated_at := en_clock env 0\<rparr>"

definition normalized_claim :: "design_change \<Rightarrow> jdict \<Rightarrow> ev_error + jdict" where
  "normalized_claim c claim =
     and_then (py_list (get_or claim ''support'' (JList []))) (\<lambda>support.
     and_then (as_object (get_or claim ''expected_evidence'' (JObj []))) (\<lambda>expected.
       Inr (dict_update claim [
         (''authority'', JStr ''DESIGN_ANNOTATION''),
         (''base_as_is_support'', JObj [
            (''canonical_revision'', JStr (ch_base_canonical_revision c)), (''support'', JList support)]),
         (''design_intent'', JStr (ch_intent c)),
         (''expected_change'', JObj expected)])))"

definition or_else :: "'a option \<Rightarrow> 'a option \<Rightarrow> 'a option" where
  "or_else x y = (case x of None \<Rightarrow> y | Some a \<Rightarrow> Some a)"

definition plan_change :: "lc_env \<Rightarrow> design_change \<Rightarrow> jdict list \<Rightarrow> design_ref option \<Rightarrow> design_ref option \<Rightarrow>
    step_result" where
  "plan_change env c changes arch flow =
     and_then (require_state c [OPEN, PLANNED]) (\<lambda>_.
     and_then (lifted (map_err (normalized_claim c) changes)) (\<lambda>normalized.
       let dr = new_revision env 0 (ch_id c)
             (or_else arch (rv_architecture_proposal_ref (ch_design_revision c)))
             (or_else flow (rv_flow_model_ref (ch_design_revision c))) normalized
       in and_then (lifted (run_design_drc normalized (ch_scope c))) (\<lambda>drc.
         Inr ((bump env c)\<lparr>ch_design_revision := dr, ch_design_drc := Some drc, ch_state := PLANNED\<rparr>,
           [(''design_revision'', JStr (rv_id dr)), (''drc'', JObj drc)], ''plan''))))"

definition mutated_revision :: "lc_env \<Rightarrow> design_change \<Rightarrow> string \<Rightarrow> design_ref \<Rightarrow> design_revision" where
  "mutated_revision env c plane r =
     (let old = ch_design_revision c; architectural = (plane = ''architecture'') in
      new_revision env 0 (ch_id c)
        (if architectural then Some r else rv_architecture_proposal_ref old)
        (if architectural then rv_flow_model_ref old else Some r) (rv_expected_changes old))"

definition design_mutation :: "lc_env \<Rightarrow> design_change \<Rightarrow> lc_command \<Rightarrow> step_result" where
  "design_mutation env c cmd =
     and_then (require_state c [OPEN, PLANNED]) (\<lambda>_.
     and_then (guard (dm_plane cmd \<in> {''architecture'', ''flow''})
       (DesignLifecycleError ''invalid_design_plane'' ''design plane must be architecture or flow''
          [(''plane'', JStr (dm_plane cmd))])) (\<lambda>_.
     and_then (en_design_mutation env c cmd) (\<lambda>(result, r).
       let dr = mutated_revision env c (dm_plane cmd) r
       in Inr ((bump env c)\<lparr>ch_design_revision := dr\<rparr>,
         [(''design_revision'', JStr (rv_id dr)), (''plane'', JStr (dm_plane cmd)),
          (''operation'', JStr (dm_operation cmd)), (''result'', JObj result)],
         if dm_plane cmd = ''architecture'' then ''architecture_mutation'' else ''flow_mutation''))))"

definition begin_implementation :: "lc_env \<Rightarrow> design_change \<Rightarrow> jdict \<Rightarrow> step_result" where
  "begin_implementation env c touched =
     and_then (require_state c [PLANNED]) (\<lambda>_.
     and_then (guard (drc_acceptable c) (DesignLifecycleError ''design_drc_not_acceptable''
       ''implementation cannot begin until design DRC is acceptable'' [])) (\<lambda>_.
       let impl = [(''expected_touched_scope'', JObj touched), (''actual_changed_files'', JList []),
             (''actual_changed_symbols'', JList []),
             (''current_evidence_revision'', JStr (ch_base_canonical_revision c)),
             (''actual_evidence'', JList []), (''observation_status'', JStr ''previous'')]
       in Inr ((bump env c)\<lparr>ch_implementation := Some impl, ch_state := IMPLEMENTING\<rparr>, impl,
         ''begin_implementation'')))"

definition record_repair_application :: "lc_env \<Rightarrow> design_change \<Rightarrow> lc_command \<Rightarrow> step_result" where
  "record_repair_application env c cmd =
     and_then (require_state c [IMPLEMENTING]) (\<lambda>_.
     and_then (lifted (py_list (get_or (impl_of c) ''repair_applications'' (JList [])))) (\<lambda>applications.
       let application = [(''application_id'', JStr (rr_application_id cmd)),
             (''previous_attempt'', JStr (rr_previous_attempt cmd)),
             (''repair_candidate_id'', JStr (rr_repair_candidate_id cmd)),
             (''source_revision_after_claim'', JStr (rr_source_revision_after_claim cmd)),
             (''status'', JStr ''UNVERIFIED'')];
           impl = dict_update (impl_of c) [
             (''repair_applications'', JList (applications @ [JObj application])),
             (''observation_status'', JStr ''previous'')]
       in Inr ((bump env c)\<lparr>ch_implementation := Some impl\<rparr>, application, ''record_repair_application'')))"

text \<open>A claimed or synchronous re-index never advances the actual evidence.\<close>

definition record_reindex :: "design_change \<Rightarrow> step_result" where
  "record_reindex c = and_then (require_state c [IMPLEMENTING]) (\<lambda>_.
     failing ''index_job_proof_required'' (''record_reindex cannot advance ACTUAL without a successful linked ''
       @ ''index job; request and adopt the generic index job''))"

definition run_reindex :: "design_change \<Rightarrow> step_result" where
  "run_reindex c = and_then (require_state c [IMPLEMENTING]) (\<lambda>_.
     failing ''index_job_proof_required''
       ''run_reindex requires a persistent generic job and adoption receipt'')"

definition prior_job_settled :: "lc_env \<Rightarrow> design_change \<Rightarrow> lc_error + unit" where
  "prior_job_settled env c = (let prior = linked_job c in
     if truthy (jget prior ''job_id'') \<and> \<not> truthy (jget prior ''adopted_at'') then
       and_then (index_job env (jget prior ''job_id'') (ch_repo_id c)) (\<lambda>old.
         guard (jget old ''status'' = JStr ''failed'')
           (DesignLifecycleError ''index_job_already_requested'' ''prior index job is active'' []))
     else Inr ())"

definition request_reindex :: "lc_env \<Rightarrow> design_change \<Rightarrow> string \<Rightarrow> step_result" where
  "request_reindex env c job_id =
     and_then (require_state c [IMPLEMENTING]) (\<lambda>_.
     and_then (prior_job_settled env c) (\<lambda>_.
     and_then (index_job env (JStr job_id) (ch_repo_id c)) (\<lambda>job.
     and_then (guard (jget job ''status'' = JStr ''pending'') (DesignLifecycleError ''index_job_not_pending''
       ''index job must be pending at request'' [])) (\<lambda>_.
       let link = JObj [(''job_id'', JStr job_id),
             (''requested_design_revision'', JStr (rv_id (ch_design_revision c))),
             (''input_canonical_revision'', active_revision env (ch_repo_id c)),
             (''requested_at'', JInt (en_clock env 0))];
           impl = dict_update (impl_of c) [(''observation_status'', JStr ''pending''), (''index_job'', link)]
       in Inr ((bump env c)\<lparr>ch_implementation := Some impl\<rparr>, [(''index_job'', link)], ''request_reindex'')))))"

text \<open>The published snapshot a finished job of the linked request produced.\<close>

definition snapshot_at :: "lc_env \<Rightarrow> json \<Rightarrow> (string \<times> snapshot_row) option" where
  "snapshot_at env j = (case j of
     JStr s \<Rightarrow> (if s = [] then None else map_option (\<lambda>x. (s, x)) (en_snapshot env s)) | _ \<Rightarrow> None)"

definition finished_job :: "lc_env \<Rightarrow> design_change \<Rightarrow> string \<Rightarrow> lc_error + jdict" where
  "finished_job env c job_id =
     (let linked = linked_job c in
      and_then (guard (jget linked ''job_id'' = JStr job_id \<and>
          jget linked ''requested_design_revision'' = JStr (rv_id (ch_design_revision c)))
        (DesignLifecycleError ''index_job_identity_mismatch'' ''job is not bound to current design'' [])) (\<lambda>_.
      and_then (guard (\<not> truthy (jget linked ''adopted_at''))
        (DesignLifecycleError ''index_job_already_adopted'' ''job receipt already adopted'' [])) (\<lambda>_.
      and_then (index_job env (JStr job_id) (ch_repo_id c)) (\<lambda>job.
      and_then (guard (jget job ''status'' = JStr ''done'' \<and> is_ok (as_object (jget job ''result'')))
        (DesignLifecycleError ''index_job_incomplete'' ''job has not completed successfully'' [])) (\<lambda>_.
        let result = jobj job ''result'' in
      and_then (guard (jget result ''repo_id'' = JStr (ch_repo_id c) \<and> truthy (jget result ''run_id''))
        (DesignLifecycleError ''index_job_identity_mismatch'' ''job result lacks repo/run identity'' [])) (\<lambda>_.
        Inr result))))))"

definition published_output :: "lc_env \<Rightarrow> design_change \<Rightarrow> jdict \<Rightarrow> lc_error + string" where
  "published_output env c result =
     (case snapshot_at env (jget result ''snapshot_id'') of
        None \<Rightarrow> failing ''index_job_result_unpublished'' ''job result is not published''
      | Some (revision, snap) \<Rightarrow>
          and_then (guard (sn_repo_id snap = ch_repo_id c \<and> sn_publication_status snap = Some ''published'')
            (DesignLifecycleError ''index_job_result_unpublished'' ''job result is not published'' [])) (\<lambda>_.
          and_then (guard (JStr revision = active_revision env (ch_repo_id c))
            (DesignLifecycleError ''index_job_result_stale'' ''job result is no longer current'' [])) (\<lambda>_.
          and_then (guard (JStr revision = jget (linked_job c) ''input_canonical_revision'' \<or>
               (jget (sn_meta snap) ''run_id'' = jget result ''run_id'' \<and>
                jopt JStr (sn_parent_id snap) = jget (linked_job c) ''input_canonical_revision''))
            (DesignLifecycleError ''index_job_run_mismatch''
               (''published revision is not the linked job'' @ [CHR 0x27] @ ''s output'') [])) (\<lambda>_.
            Inr revision))))"

definition job_output :: "lc_env \<Rightarrow> design_change \<Rightarrow> string \<Rightarrow> lc_error + jdict \<times> string" where
  "job_output env c job_id =
     and_then (finished_job env c job_id) (\<lambda>result.
     and_then (published_output env c result) (\<lambda>revision. Inr (result, revision)))"

definition adopt_index_job :: "lc_env \<Rightarrow> design_change \<Rightarrow> string \<Rightarrow> jdict list \<Rightarrow> step_result" where
  "adopt_index_job env c job_id selectors =
     and_then (require_state c [IMPLEMENTING]) (\<lambda>_.
     and_then (job_output env c job_id) (\<lambda>(result, revision).
     and_then (implementation_from_index_result env c result revision selectors) (\<lambda>impl0.
       let impl = dict_set ''index_job'' (JObj (dict_set ''adopted_at'' (JInt (en_clock env 0)) (linked_job c))) impl0
       in Inr ((bump env c)\<lparr>ch_implementation := Some impl\<rparr>, impl, ''adopt_index_job''))))"

definition evidence_matches :: "jdict \<Rightarrow> jdict \<Rightarrow> bool" where
  "evidence_matches ea lvs = (jget ea ''outcome'' = JStr ''MATCHED'' \<and> jget lvs ''overall_status'' = JStr ''MATCH'')"

definition evaluate_expected_actual :: "lc_env \<Rightarrow> design_change \<Rightarrow> step_result" where
  "evaluate_expected_actual env c =
     and_then (require_state c [IMPLEMENTING]) (\<lambda>_.
     and_then (guard (impl_of c \<noteq> [] \<and> recorded c)
       (DesignLifecycleError ''reindex_required'' ''record re-index first'' [])) (\<lambda>_.
     and_then (require_actual_current env c) (\<lambda>_.
     and_then (lifted (evaluate_change env c)) (\<lambda>ea.
       let lvs = en_lvs_runner env c;
           matched = evidence_matches ea lvs
       in Inr ((bump env c)\<lparr>ch_expected_actual := Some ea, ch_lvs_result := Some lvs,
           ch_state := (if matched then EVIDENCE_MATCHED else IMPLEMENTING)\<rparr>,
         [(''expected_actual'', JObj ea), (''lvs'', JObj lvs)], ''evaluate_expected_actual'')))))"

text \<open>The result of each criterion, and the check of the independent test receipts.\<close>

definition criterion_result :: "(string, jdict) dict \<Rightarrow> acceptance_criterion \<Rightarrow> jdict" where
  "criterion_result by_id a = get_or by_id (ac_id a) [(''criterion_id'', JStr (ac_id a)),
     (''status'', JStr ''NOT_VERIFIED''), (''evidence_refs'', JList [])]"

definition not_passed :: "(string, jdict) dict \<Rightarrow> acceptance_criterion \<Rightarrow> bool" where
  "not_passed by_id a = (ac_required a \<and>
     (jget (criterion_result by_id a) ''status'' \<noteq> JStr ''PASS'' \<or>
      \<not> truthy (jget (criterion_result by_id a) ''evidence_refs'')))"

definition proves :: "repo_state \<Rightarrow> design_change \<Rightarrow> json \<Rightarrow> bool" where
  "proves rs c r = (case r of
     JStr i \<Rightarrow> (case find (\<lambda>t. tr_id t = i) (test_receipts rs (ch_id c)) of
       None \<Rightarrow> False | Some t \<Rightarrow> current_pass c t)
   | _ \<Rightarrow> False)"

text \<open>\<open>any(...)\<close> over the references: looking up a list or a dictionary raises.\<close>

fun any_proves :: "repo_state \<Rightarrow> design_change \<Rightarrow> json list \<Rightarrow> ev_error + bool" where
  "any_proves rs c [] = Inr False"
| "any_proves rs c (r # refs) = (case hashed r of
     Inl _ \<Rightarrow> Inl TypeError
   | Inr _ \<Rightarrow> if proves rs c r then Inr True else any_proves rs c refs)"

definition check_test :: "repo_state \<Rightarrow> design_change \<Rightarrow> (string, jdict) dict \<Rightarrow> acceptance_criterion \<Rightarrow>
    lc_error + unit" where
  "check_test rs c by_id a =
     (if \<not> ac_required a \<or> ac_kind a \<noteq> ''test'' then Inr ()
      else and_then (lifted (py_list (get_or (get_or by_id (ac_id a) []) ''evidence_refs'' (JList [])))) (\<lambda>refs.
        and_then (lifted (any_proves rs c refs)) (\<lambda>found.
          guard found (DesignLifecycleError ''test_receipt_required''
            ''required test needs independent run proof'' [(''criterion_id'', JStr (ac_id a))]))))"

definition verify_change :: "lc_env \<Rightarrow> repo_state \<Rightarrow> design_change \<Rightarrow> jdict list \<Rightarrow> step_result" where
  "verify_change env rs c results =
     and_then (require_state c [EVIDENCE_MATCHED]) (\<lambda>_.
     and_then (require_actual_current env c) (\<lambda>_.
       let by_id = results_by_id results;
           normalized = map (criterion_result by_id) (ch_acceptance_criteria c);
           missing = map ac_id (filter (not_passed by_id) (ch_acceptance_criteria c))
       in and_then (guard (missing = []) (DesignLifecycleError ''verification_incomplete''
            ''required verification is absent''
            [(''criteria'', jstrs missing), (''status'', JStr ''NOT_VERIFIED'')])) (\<lambda>_.
          and_then (map_err (check_test rs c by_id) (ch_acceptance_criteria c)) (\<lambda>_.
            Inr ((bump env c)\<lparr>ch_verification := normalized, ch_state := VERIFIED\<rparr>,
              [(''results'', objs normalized)], ''verify'')))))"

definition close_payload :: "lc_env \<Rightarrow> design_change \<Rightarrow> json \<Rightarrow> jdict \<Rightarrow> jdict" where
  "close_payload env c final rule_versions =
     (let payload = [(''base_revision'', JStr (ch_base_canonical_revision c)),
            (''design_revision'', JStr (rv_id (ch_design_revision c))),
            (''final_canonical_revision'', final),
            (''expected_actual_diff'', jopt JObj (ch_expected_actual c)),
            (''verification_evidence'', objs (ch_verification c)),
            (''remaining_unknowns'', objs (ch_remaining_unknowns c)),
            (''rule_versions'', JObj rule_versions)]
      in payload @ [(''digest'', JStr (digest env (JObj payload)))])"

definition close_change :: "lc_env \<Rightarrow> repo_state \<Rightarrow> design_change \<Rightarrow> jdict \<Rightarrow> step_result" where
  "close_change env rs c rule_versions =
     and_then (require_state c [VERIFIED]) (\<lambda>_.
     and_then (require_actual_current env c) (\<lambda>_.
     and_then (assert_closable rs c) (\<lambda>_.
     and_then (lifted (jindex (impl_of c) ''current_evidence_revision'')) (\<lambda>final.
       let payload = close_payload env c final rule_versions
       in Inr ((bump env c)\<lparr>ch_close_receipt := Some payload, ch_state := CLOSED\<rparr>, payload, ''close'')))))"

definition abandon_change :: "lc_env \<Rightarrow> design_change \<Rightarrow> string \<Rightarrow> step_result" where
  "abandon_change env c reason =
     Inr ((bump env c)\<lparr>ch_state := ABANDONED\<rparr>, [(''reason'', JStr reason)], ''abandon'')"

fun run_command :: "lc_env \<Rightarrow> repo_state \<Rightarrow> design_change \<Rightarrow> lc_command \<Rightarrow> step_result" where
  "run_command env rs c (PlanChange actor changes arch flow v) = plan_change env c changes arch flow"
| "run_command env rs c (DesignMutation actor pl op p v dr) =
     design_mutation env c (DesignMutation actor pl op p v dr)"
| "run_command env rs c (BeginImplementation actor touched v) = begin_implementation env c touched"
| "run_command env rs c (RecordRepairApplication actor i pa rid s v) =
     record_repair_application env c (RecordRepairApplication actor i pa rid s v)"
| "run_command env rs c (RecordReindex actor f fs ss es b ds v) = record_reindex c"
| "run_command env rs c (RequestReindex actor job_id v) = request_reindex env c job_id"
| "run_command env rs c (AdoptIndexJob actor job_id selectors v) = adopt_index_job env c job_id selectors"
| "run_command env rs c (RunReindex actor selectors v) = run_reindex c"
| "run_command env rs c (EvaluateExpectedActual actor v) = evaluate_expected_actual env c"
| "run_command env rs c (VerifyChange actor results v) = verify_change env rs c results"
| "run_command env rs c (CloseChange actor rule_versions v) = close_change env rs c rule_versions"
| "run_command env rs c (AbandonChange actor reason v) = abandon_change env c reason"
| "run_command env rs c (OtherCommand type v) = Inl (DesignLifecycleError ''unsupported_command''
     ''unsupported lifecycle command'' [(''change_id'', JStr (ch_id c)), (''command'', JStr type)])"

definition design_revision_pin :: "lc_command \<Rightarrow> string option" where
  "design_revision_pin cmd = (case cmd of DesignMutation _ _ _ _ _ dr \<Rightarrow> dr | _ \<Rightarrow> None)"

definition admitted :: "lc_env \<Rightarrow> repo_state \<Rightarrow> design_change \<Rightarrow> lc_command \<Rightarrow> lc_error + unit" where
  "admitted env rs c cmd =
     (case denial_reasons env rs c cmd of
        reason # _ \<Rightarrow> Inl (DesignLifecycleError reason (replace_char CHR ''_'' CHR '' '' reason)
          [(''change_version'', JInt (ch_version c))])
      | [] \<Rightarrow> and_then (guard (cm_expected_version cmd = None \<or> cm_expected_version cmd = Some (ch_version c))
            (DesignLifecycleError ''stale_preflight'' ''change version has advanced''
               [(''expected_version'', jopt JInt (cm_expected_version cmd)),
                (''actual_version'', JInt (ch_version c))])) (\<lambda>_.
          and_then (guard (design_revision_pin cmd = None \<or>
               design_revision_pin cmd = Some (rv_id (ch_design_revision c)))
            (DesignLifecycleError ''stale_design_revision'' ''design revision has advanced''
               [(''expected_design_revision'', jopt JStr (design_revision_pin cmd)),
                (''actual_design_revision'', JStr (rv_id (ch_design_revision c)))])) (\<lambda>_.
            guard (\<not> terminal c)
              (DesignLifecycleError ''terminal_change'' ''terminal change is immutable'' []))))"

definition actor_of :: "lc_command \<Rightarrow> string" where
  "actor_of cmd = (case cmd of OtherCommand _ _ \<Rightarrow> [] | _ \<Rightarrow> cm_actor cmd)"

text \<open>A plan or a mutation draws one identifier before that of its receipt.\<close>

definition apply_command :: "lc_env \<Rightarrow> string \<Rightarrow> lc_command \<Rightarrow> repo_state \<Rightarrow>
    lc_error + design_change \<times> repo_state" where
  "apply_command env cid cmd rs =
     and_then (get_change rs cid) (\<lambda>before.
     and_then (admitted env rs before cmd) (\<lambda>_.
     and_then (run_command env rs before cmd) (\<lambda>(after, payload, name).
     and_then (repo_update (ch_version before) after (make_receipt env 1 after (ch_version before + 1) name
         (actor_of cmd) (Some (state_value (ch_state before))) payload) rs) (\<lambda>rs'.
       Inr (after, rs')))))"

section \<open>Independent receipts\<close>

text \<open>\<open>run.get(k) not in {None, value}\<close>.\<close>

definition unbound_or :: "jdict \<Rightarrow> string \<Rightarrow> string \<Rightarrow> bool" where
  "unbound_or run k value = (jget run k \<in> {JNull, JStr value})"

definition checked_run :: "lc_env \<Rightarrow> design_change \<Rightarrow> string \<Rightarrow> lc_error + jdict" where
  "checked_run env c run_id =
     and_then (guard (\<not> terminal c)
       (DesignLifecycleError ''terminal_change'' ''terminal change is immutable'' [])) (\<lambda>_.
     and_then (guard (recorded c)
       (DesignLifecycleError ''reindex_required'' ''adopt actual before test run'' [])) (\<lambda>_.
       let actual = jget (impl_of c) ''current_evidence_revision'';
           run = (case (case en_test_run_lookup env of None \<Rightarrow> None | Some look \<Rightarrow> look run_id) of
             None \<Rightarrow> [] | Some r \<Rightarrow> r)
       in and_then (guard (run \<noteq> [] \<and> jget run ''run_id'' = JStr run_id)
            (DesignLifecycleError ''test_run_unavailable'' ''no trusted test run'' [])) (\<lambda>_.
          and_then (guard (unbound_or run ''change_id'' (ch_id c) \<and>
               unbound_or run ''design_revision'' (rv_id (ch_design_revision c)))
            (DesignLifecycleError ''test_run_binding_mismatch''
               ''test run change or design revision mismatch'' [])) (\<lambda>_.
          and_then (guard (jget run ''canonical_revision'' = actual \<and> actual = active_revision env (ch_repo_id c))
            (DesignLifecycleError ''test_run_binding_mismatch'' ''test run revision is stale'' [])) (\<lambda>_.
          and_then (guard (jget run ''result'' \<in> {JStr ''PASS'', JStr ''FAIL''} \<and>
               truthy (jget run ''test_identity'') \<and> truthy (jget run ''evidence_refs''))
            (DesignLifecycleError ''test_run_incomplete'' ''test run lacks proof'' [])) (\<lambda>_.
            Inr run))))))"

definition record_test_run :: "lc_env \<Rightarrow> string \<Rightarrow> string \<Rightarrow> repo_state \<Rightarrow> lc_error + test_receipt \<times> repo_state" where
  "record_test_run env cid run_id rs =
     and_then (get_change rs cid) (\<lambda>c.
     and_then (checked_run env c run_id) (\<lambda>run.
     and_then (lifted (py_list (jget run ''evidence_refs''))) (\<lambda>refs.
       let receipt = \<lparr>tr_id = ''test-receipt-'' @ en_uuid env 0, tr_change_id = ch_id c,
             tr_run_identity = run_id, tr_subject = ch_id c,
             tr_design_revision = rv_id (ch_design_revision c),
             tr_canonical_revision = jget (impl_of c) ''current_evidence_revision'',
             tr_test_identity = jget run ''test_identity'', tr_result = jget run ''result'',
             tr_timestamp = (if truthy (jget run ''timestamp'') then jget run ''timestamp''
               else JInt (en_clock env 0)),
             tr_evidence_refs = refs\<rparr>
       in and_then (append_test_receipt receipt rs) (\<lambda>rs'. Inr (receipt, rs')))))"

definition approval_json :: "approval_receipt \<Rightarrow> json" where
  "approval_json a = JObj [
     (''id'', JStr (ap_id a)), (''approval_id'', JStr (ap_id a)), (''change_id'', JStr (ap_change_id a)),
     (''design_revision'', JStr (ap_design_revision a)),
     (''approver_identity'', ap_approver_identity a), (''principal_id'', ap_principal_id a),
     (''principal_type'', ap_principal_type a), (''auth_session_id'', ap_auth_session_id a),
     (''rintel_instance_id'', ap_rintel_instance_id a), (''auth_method'', ap_auth_method a),
     (''authorization_identity'', ap_authorization_identity a),
     (''policy_version'', ap_policy_version a), (''decision'', JStr (ap_decision a)),
     (''timestamp'', JInt (ap_timestamp a)), (''change_version'', JInt (ap_change_version a)),
     (''applicable_subject'', JObj (ap_applicable_subject a))]"

definition approval_timestamp :: "lc_env \<Rightarrow> approval_receipt list \<Rightarrow> int" where
  "approval_timestamp env prior =
     max (en_clock env 0) (case rev prior of [] \<Rightarrow> 0 | a # _ \<Rightarrow> ap_timestamp a + 1)"

definition approval_draft :: "lc_env \<Rightarrow> repo_state \<Rightarrow> design_change \<Rightarrow> jdict \<Rightarrow> string \<Rightarrow> approval_receipt" where
  "approval_draft env rs c auth decision =
     \<lparr>ap_id = ''approval-receipt-'' @ en_uuid env 0, ap_change_id = ch_id c,
      ap_design_revision = rv_id (ch_design_revision c),
      ap_approver_identity = jget auth ''subject'', ap_principal_id = jget auth ''principal_id'',
      ap_principal_type = jget auth ''principal_type'', ap_auth_session_id = jget auth ''auth_session_id'',
      ap_rintel_instance_id = jget auth ''rintel_instance_id'', ap_auth_method = jget auth ''auth_method'',
      ap_authorization_identity = jget auth ''authorization_id'',
      ap_policy_version = jget auth ''policy_version'', ap_decision = decision,
      ap_timestamp = approval_timestamp env (approval_receipts rs (ch_id c)),
      ap_change_version = ch_version c,
      ap_applicable_subject = [(''change_id'', JStr (ch_id c)), (''repo_id'', JStr (ch_repo_id c)),
        (''design_revision'', JStr (rv_id (ch_design_revision c))),
        (''scope_digest'', JStr (digest env (JObj (ch_scope c))))],
      ap_receipt_digest = []\<rparr>"

definition sealed_approval :: "lc_env \<Rightarrow> approval_receipt \<Rightarrow> approval_receipt" where
  "sealed_approval env draft = draft\<lparr>ap_receipt_digest := digest env (approval_json draft)\<rparr>"

definition record_approval :: "lc_env \<Rightarrow> string \<Rightarrow> string option \<Rightarrow> string \<Rightarrow> int \<Rightarrow> repo_state \<Rightarrow>
    lc_error + approval_receipt \<times> repo_state" where
  "record_approval env cid identity decision expected_version rs =
     and_then (get_change rs cid) (\<lambda>c.
     and_then (guard (\<not> terminal c)
       (DesignLifecycleError ''terminal_change'' ''terminal change is immutable'' [])) (\<lambda>_.
     and_then (guard (ch_version c = expected_version)
       (DesignLifecycleError ''stale_preflight'' ''change version has advanced'' [])) (\<lambda>_.
       case approval_authorization env c identity of
         None \<Rightarrow> failing ''approver_authorization_unavailable'' ''authenticated approver permission required''
       | Some auth \<Rightarrow>
           and_then (guard (decision \<in> {''APPROVE'', ''REJECT''})
             (DesignLifecycleError ''invalid_approval_decision'' ''invalid decision'' [])) (\<lambda>_.
           let receipt = sealed_approval env (approval_draft env rs c auth decision)
           in and_then (append_approval_receipt receipt rs) (\<lambda>rs'. Inr (receipt, rs'))))))"

end
