(* ===== verification/Lifecycle_Steps.thy ===== *)
theory Lifecycle_Steps
  imports Lifecycle_Service
begin

text \<open>
  The abstract lifecycle: the moves between states, the order they respect, and for every command
  what its success says of the change before and after it. These facts carry the invariants of
  \<open>Lifecycle_Properties\<close>.
\<close>

section \<open>States in the order of progress\<close>

fun state_rank :: "change_state \<Rightarrow> nat" where
  "state_rank OPEN = 0"
| "state_rank PLANNED = 1"
| "state_rank IMPLEMENTING = 2"
| "state_rank EVIDENCE_MATCHED = 3"
| "state_rank VERIFIED = 4"
| "state_rank CLOSED = 5"
| "state_rank ABANDONED = 6"

lemma state_rank_inj: "state_rank s = state_rank t \<Longrightarrow> s = t"
  by (cases s; cases t) simp_all

instantiation change_state :: linorder
begin

definition less_eq_change_state :: "change_state \<Rightarrow> change_state \<Rightarrow> bool" where
  "s \<le> t \<longleftrightarrow> state_rank s \<le> state_rank t"

definition less_change_state :: "change_state \<Rightarrow> change_state \<Rightarrow> bool" where
  "s < t \<longleftrightarrow> state_rank s < state_rank t"

instance
  by standard (auto simp: less_eq_change_state_def less_change_state_def intro: state_rank_inj)

end

text \<open>The abstract machine of one change.\<close>

inductive moves :: "change_state \<Rightarrow> change_state \<Rightarrow> bool" where
  planned: "s \<in> {OPEN, PLANNED} \<Longrightarrow> moves s PLANNED"
| redesigned: "s \<in> {OPEN, PLANNED} \<Longrightarrow> moves s s"
| begun: "moves PLANNED IMPLEMENTING"
| implementing: "moves IMPLEMENTING IMPLEMENTING"
| matched: "moves IMPLEMENTING EVIDENCE_MATCHED"
| verified: "moves EVIDENCE_MATCHED VERIFIED"
| closed: "moves VERIFIED CLOSED"
| abandoned: "s \<notin> {CLOSED, ABANDONED} \<Longrightarrow> moves s ABANDONED"

inductive_cases moves_to_closed: "moves s CLOSED"
inductive_cases moves_from_closed: "moves CLOSED s"
inductive_cases moves_from_abandoned: "moves ABANDONED s"
inductive_simps moves_from_matched: "moves EVIDENCE_MATCHED s"
inductive_simps moves_from_verified: "moves VERIFIED s"

lemma state_rank_le: "state_rank s \<le> 6"
  by (cases s) simp_all

lemma moves_progress: "moves s t \<Longrightarrow> s \<le> t"
  by (induction rule: moves.induct) (auto simp: less_eq_change_state_def state_rank_le)

section \<open>Steps of one change\<close>

named_theorems step_elims "what a successful command says of the change before and after"

lemma bump_fields [simp]:
  "ch_id (bump env c) = ch_id c" "ch_repo_id (bump env c) = ch_repo_id c"
  "ch_base_canonical_revision (bump env c) = ch_base_canonical_revision c"
  "ch_intent (bump env c) = ch_intent c" "ch_scope (bump env c) = ch_scope c"
  "ch_acceptance_criteria (bump env c) = ch_acceptance_criteria c"
  "ch_design_revision (bump env c) = ch_design_revision c"
  "ch_evidence_brief (bump env c) = ch_evidence_brief c"
  "ch_state (bump env c) = ch_state c" "ch_design_drc (bump env c) = ch_design_drc c"
  "ch_implementation (bump env c) = ch_implementation c"
  "ch_expected_actual (bump env c) = ch_expected_actual c"
  "ch_lvs_result (bump env c) = ch_lvs_result c" "ch_verification (bump env c) = ch_verification c"
  "ch_close_receipt (bump env c) = ch_close_receipt c"
  "ch_remaining_unknowns (bump env c) = ch_remaining_unknowns c"
  "ch_version (bump env c) = ch_version c + 1" "ch_created_at (bump env c) = ch_created_at c"
  by (simp_all add: bump_def)

lemma require_state_Inr [simp]: "require_state c allowed = Inr u \<longleftrightarrow> ch_state c \<in> set allowed"
  by (simp add: require_state_def)

lemma new_revision_changes [simp]: "rv_expected_changes (new_revision env i cid arch flow changes) = changes"
  by (simp add: new_revision_def)

lemma plan_change_Inr [step_elims]:
  assumes "plan_change env c changes arch flow = Inr (c', payload, name)"
  shows "ch_state c \<in> {OPEN, PLANNED} \<and> name = ''plan'' \<and>
    (\<exists>dr drc. c' = (bump env c)\<lparr>ch_design_revision := dr, ch_design_drc := Some drc, ch_state := PLANNED\<rparr> \<and>
      run_design_drc (rv_expected_changes dr) (ch_scope c) = Inr drc)"
proof -
  from assms obtain normalized drc where
    st: "ch_state c \<in> {OPEN, PLANNED}" and drc: "run_design_drc normalized (ch_scope c) = Inr drc"
    and c': "c' = (bump env c)\<lparr>ch_design_revision := new_revision env 0 (ch_id c)
        (or_else arch (rv_architecture_proposal_ref (ch_design_revision c)))
        (or_else flow (rv_flow_model_ref (ch_design_revision c))) normalized,
      ch_design_drc := Some drc, ch_state := PLANNED\<rparr>" 
    and name: "name = ''plan''"
    by (auto simp: plan_change_def and_then_Inr Let_def)
  have "rv_expected_changes (new_revision env 0 (ch_id c)
        (or_else arch (rv_architecture_proposal_ref (ch_design_revision c)))
        (or_else flow (rv_flow_model_ref (ch_design_revision c))) normalized) = normalized" by simp
  with st drc c' name show ?thesis by metis
qed

lemma design_mutation_Inr [step_elims]:
  assumes "design_mutation env c cmd = Inr (c', payload, name)"
  shows "ch_state c \<in> {OPEN, PLANNED} \<and> (\<exists>dr. c' = (bump env c)\<lparr>ch_design_revision := dr\<rparr> \<and>
    rv_expected_changes dr = rv_expected_changes (ch_design_revision c))"
proof -
  from assms obtain r where st: "ch_state c \<in> {OPEN, PLANNED}"
    and c': "c' = (bump env c)\<lparr>ch_design_revision := mutated_revision env c (dm_plane cmd) r\<rparr>"
    by (auto simp: design_mutation_def and_then_Inr Let_def)
  have "rv_expected_changes (mutated_revision env c (dm_plane cmd) r) =
      rv_expected_changes (ch_design_revision c)"
    by (simp add: mutated_revision_def Let_def)
  with st c' show ?thesis by blast
qed

lemma begin_implementation_Inr [step_elims]:
  assumes "begin_implementation env c touched = Inr (c', payload, name)"
  shows "ch_state c = PLANNED \<and> drc_acceptable c \<and>
    (\<exists>impl. c' = (bump env c)\<lparr>ch_implementation := Some impl, ch_state := IMPLEMENTING\<rparr>)"
  using assms by (auto simp: begin_implementation_def and_then_Inr Let_def)

lemma record_repair_application_Inr [step_elims]:
  assumes "record_repair_application env c cmd = Inr (c', payload, name)"
  shows "ch_state c = IMPLEMENTING \<and> (\<exists>impl. c' = (bump env c)\<lparr>ch_implementation := Some impl\<rparr>)"
  using assms by (auto simp: record_repair_application_def and_then_Inr Let_def)

lemma reindex_refused [simp]: "record_reindex c \<noteq> Inr x" "run_reindex c \<noteq> Inr x"
  by (auto simp: record_reindex_def run_reindex_def and_then_Inr)

lemma request_reindex_Inr [step_elims]:
  assumes "request_reindex env c job_id = Inr (c', payload, name)"
  shows "ch_state c = IMPLEMENTING \<and> (\<exists>impl. c' = (bump env c)\<lparr>ch_implementation := Some impl\<rparr>)"
  using assms by (auto simp: request_reindex_def and_then_Inr Let_def)

lemma adopt_index_job_Inr [step_elims]:
  assumes "adopt_index_job env c job_id selectors = Inr (c', payload, name)"
  shows "ch_state c = IMPLEMENTING \<and> (\<exists>impl. c' = (bump env c)\<lparr>ch_implementation := Some impl\<rparr>)"
  using assms by (auto simp: adopt_index_job_def and_then_Inr Let_def)

lemma finished_job_Inr:
  assumes "finished_job env c job_id = Inr result"
  shows "jget (linked_job c) ''job_id'' = JStr job_id"
    and "jget (linked_job c) ''requested_design_revision'' = JStr (rv_id (ch_design_revision c))"
    and "\<not> truthy (jget (linked_job c) ''adopted_at'')"
  using assms unfolding finished_job_def Let_def and_then_Inr guard_Inr by blast+

lemma published_output_Inr:
  assumes "published_output env c result = Inr revision"
  shows "\<exists>snap. en_snapshot env revision = Some snap \<and> sn_repo_id snap = ch_repo_id c \<and>
      sn_publication_status snap = Some ''published''"
    and "active_revision env (ch_repo_id c) = JStr revision"
proof -
  from assms obtain snap where at: "snapshot_at env (jget result ''snapshot_id'') = Some (revision, snap)"
    and ok: "sn_repo_id snap = ch_repo_id c" "sn_publication_status snap = Some ''published''"
      "JStr revision = active_revision env (ch_repo_id c)"
    by (auto simp: published_output_def and_then_Inr split: option.splits)
  from at have "en_snapshot env revision = Some snap"
    by (auto simp: snapshot_at_def split: json.splits if_splits)
  with ok show "\<exists>snap. en_snapshot env revision = Some snap \<and> sn_repo_id snap = ch_repo_id c \<and>
      sn_publication_status snap = Some ''published''" "active_revision env (ch_repo_id c) = JStr revision"
    by auto
qed

lemma job_output_Inr:
  assumes "job_output env c job_id = Inr (result, revision)"
  shows "finished_job env c job_id = Inr result" and "published_output env c result = Inr revision"
  using assms by (auto simp: job_output_def and_then_Inr)

lemma evaluate_expected_actual_Inr [step_elims]:
  assumes "evaluate_expected_actual env c = Inr (c', payload, name)"
  shows "ch_state c = IMPLEMENTING \<and> recorded c \<and> is_ok (require_actual_current env c) \<and>
    (\<exists>ea. evaluate_change env c = Inr ea \<and>
      c' = (bump env c)\<lparr>ch_expected_actual := Some ea, ch_lvs_result := Some (en_lvs_runner env c),
        ch_state := (if evidence_matches ea (en_lvs_runner env c) then EVIDENCE_MATCHED else IMPLEMENTING)\<rparr>)"
proof -
  from assms obtain u v ea where st: "require_state c [IMPLEMENTING] = Inr u" and r: "recorded c"
    and cur: "require_actual_current env c = Inr v" and ea: "evaluate_change env c = Inr ea"
    and c': "c' = (bump env c)\<lparr>ch_expected_actual := Some ea, ch_lvs_result := Some (en_lvs_runner env c),
        ch_state := (if evidence_matches ea (en_lvs_runner env c) then EVIDENCE_MATCHED else IMPLEMENTING)\<rparr>"
    unfolding evaluate_expected_actual_def Let_def and_then_Inr lifted_Inr guard_Inr prod.inject sum.inject
    by blast
  show ?thesis using st r cur ea c' by simp
qed

lemma verify_change_Inr [step_elims]:
  assumes "verify_change env rs c results = Inr (c', payload, name)"
  shows "ch_state c = EVIDENCE_MATCHED \<and> is_ok (require_actual_current env c) \<and>
    c' = (bump env c)\<lparr>ch_verification := map (criterion_result (results_by_id results)) (ch_acceptance_criteria c),
      ch_state := VERIFIED\<rparr> \<and>
    list_all (\<lambda>a. \<not> not_passed (results_by_id results) a \<and>
      check_test rs c (results_by_id results) a = Inr ()) (ch_acceptance_criteria c)"
  using assms map_err_source [of "check_test rs c (results_by_id results)"]
  by (fastforce simp: verify_change_def and_then_Inr Let_def filter_empty_conv list_all_iff)

lemma close_change_Inr [step_elims]:
  assumes "close_change env rs c rule_versions = Inr (c', payload, name)"
  shows "ch_state c = VERIFIED \<and> is_ok (require_actual_current env c) \<and> assert_closable rs c = Inr () \<and>
    (\<exists>receipt. c' = (bump env c)\<lparr>ch_close_receipt := Some receipt, ch_state := CLOSED\<rparr>)"
  using assms by (auto simp: close_change_def and_then_Inr Let_def)

lemma abandon_change_Inr [step_elims]:
  "abandon_change env c reason = Inr (c', payload, name) \<Longrightarrow> c' = (bump env c)\<lparr>ch_state := ABANDONED\<rparr>"
  by (simp add: abandon_change_def)

lemma assert_closable_Inr:
  assumes "assert_closable rs c = Inr u"
  shows "drc_acceptable c \<and> (\<exists>ea lvs. ch_expected_actual c = Some ea \<and> ch_lvs_result c = Some lvs \<and>
      evidence_matches ea lvs) \<and> ch_verification c \<noteq> [] \<and>
    (truthy (jget (ch_scope c) ''approval_required'') \<longrightarrow> approved rs c)"
proof -
  from assms have checks: "filter (\<lambda>(name, ok). \<not> ok) (closable_checks c) = []"
    and app: "truthy (jget (ch_scope c) ''approval_required'') \<longrightarrow> approved rs c"
    by (auto simp: assert_closable_def Let_def split: if_splits)
  from checks have "list_all snd (closable_checks c)"
    by (auto simp: filter_empty_conv list_all_iff)
  with app show ?thesis
    by (auto simp: closable_checks_def evidence_matches_def split: option.splits)
qed

text \<open>What every command keeps, and the move it makes.\<close>

definition same_identity :: "design_change \<Rightarrow> design_change \<Rightarrow> bool" where
  "same_identity c c' = (ch_id c' = ch_id c \<and> ch_repo_id c' = ch_repo_id c \<and>
     ch_base_canonical_revision c' = ch_base_canonical_revision c \<and> ch_intent c' = ch_intent c \<and>
     ch_scope c' = ch_scope c \<and> ch_acceptance_criteria c' = ch_acceptance_criteria c \<and>
     ch_evidence_brief c' = ch_evidence_brief c \<and>
     ch_remaining_unknowns c' = ch_remaining_unknowns c \<and> ch_created_at c' = ch_created_at c)"

fun_cases run_command_other: "run_command env rs c (OtherCommand t v) = Inr x"

lemma run_command_identity:
  assumes "run_command env rs c cmd = Inr (c', payload, name)"
  shows "same_identity c c' \<and> ch_version c' = ch_version c + 1"
  using assms
  by (cases cmd) (auto simp: same_identity_def dest!: step_elims)

lemma run_command_moves:
  assumes "run_command env rs c cmd = Inr (c', payload, name)" and "\<not> terminal c"
  shows "moves (ch_state c) (ch_state c')"
  using assms
  by (cases cmd) (auto simp: terminal_def dest!: step_elims intro: moves.intros)

lemma admitted_Inr:
  assumes "admitted env rs c cmd = Inr u"
  shows "denial_reasons env rs c cmd = [] \<and> \<not> terminal c \<and>
    (cm_expected_version cmd = None \<or> cm_expected_version cmd = Some (ch_version c)) \<and>
    (design_revision_pin cmd = None \<or> design_revision_pin cmd = Some (rv_id (ch_design_revision c)))"
  using assms by (auto simp: admitted_def and_then_Inr split: list.splits)

lemma get_change_Inr [simp]: "get_change rs cid = Inr c \<longleftrightarrow> repo_get rs cid = Inr (Some c)"
  by (auto simp: get_change_def and_then_Inr split: option.splits)

text \<open>Everything a successful command went through.\<close>

lemma apply_command_Inr:
  assumes "apply_command env cid cmd rs = Inr (c', rs')"
  obtains c payload name where "repo_get rs cid = Inr (Some c)" and "admitted env rs c cmd = Inr ()"
    and "run_command env rs c cmd = Inr (c', payload, name)"
    and "repo_update (ch_version c) c' (make_receipt env 1 c' (ch_version c + 1) name
      (actor_of cmd) (Some (state_value (ch_state c))) payload) rs = Inr rs'"
  using assms by (auto simp: apply_command_def and_then_Inr)

end
