(* ===== verification/Lifecycle_Invariant.thy ===== *)
theory Lifecycle_Invariant
  imports Lifecycle_Steps
begin

text \<open>
  The lifecycle as a state machine over its tables: the steps of the service in any order and in
  any environment, and the invariant of every reachable state. A change carries the evidence its
  state claims (\<open>gated\<close>), and its receipts are a gapless chain that ends in its state (\<open>ledger_ok\<close>).
\<close>

section \<open>The machine\<close>

inductive lc_step :: "repo_state \<Rightarrow> repo_state \<Rightarrow> bool" where
  opened: "open_change env repo_id base intent scope criteria actor arch flow rs = Inr (c, rs') \<Longrightarrow>
     list_all (\<lambda>a. check_criterion a = Inr a) criteria \<Longrightarrow> lc_step rs rs'"
| commanded: "apply_command env cid cmd rs = Inr (c, rs') \<Longrightarrow> lc_step rs rs'"
| tested: "record_test_run env cid run_id rs = Inr (t, rs') \<Longrightarrow> lc_step rs rs'"
| approving: "record_approval env cid identity decision v rs = Inr (a, rs') \<Longrightarrow> lc_step rs rs'"

definition reachable :: "repo_state \<Rightarrow> bool" where
  "reachable rs = lc_step\<^sup>*\<^sup>* empty_repo rs"

section \<open>The invariant\<close>

definition passes :: "acceptance_criterion \<Rightarrow> jdict \<Rightarrow> bool" where
  "passes a r = (\<not> ac_required a \<or>
     (jget r ''status'' = JStr ''PASS'' \<and> truthy (jget r ''evidence_refs'')))"

definition verified_by :: "design_change \<Rightarrow> bool" where
  "verified_by c = list_all2 passes (ch_acceptance_criteria c) (ch_verification c)"

definition test_proved :: "repo_state \<Rightarrow> design_change \<Rightarrow> bool" where
  "test_proved rs c = (\<not> needs_test c \<or> list_ex (current_pass c) (test_receipts rs (ch_id c)))"

definition approval_of :: "design_change \<Rightarrow> int \<Rightarrow> approval_receipt \<Rightarrow> bool" where
  "approval_of c v a = (ap_change_id a = ch_id c \<and> ap_design_revision a = rv_id (ch_design_revision c) \<and>
     ap_decision a = ''APPROVE'' \<and> ap_change_version a = v \<and> truthy (ap_principal_id a) \<and>
     truthy (ap_auth_session_id a) \<and> truthy (ap_rintel_instance_id a))"

definition matched_evidence :: "design_change \<Rightarrow> bool" where
  "matched_evidence c = (recorded c \<and> (\<exists>ea lvs. ch_expected_actual c = Some ea \<and>
     ch_lvs_result c = Some lvs \<and> evidence_matches ea lvs))"

text \<open>Whether a state lies on the way from implementation to closing, at or after a point.\<close>

definition past :: "change_state \<Rightarrow> design_change \<Rightarrow> bool" where
  "past s c = (s \<le> ch_state c \<and> ch_state c \<le> CLOSED)"

definition gated :: "repo_state \<Rightarrow> design_change \<Rightarrow> bool" where
  "gated rs c =
     ((past IMPLEMENTING c \<longrightarrow> drc_acceptable c \<and> ch_implementation c \<noteq> None) \<and>
      (past EVIDENCE_MATCHED c \<longrightarrow> matched_evidence c) \<and>
      (past VERIFIED c \<longrightarrow> verified_by c \<and> test_proved rs c) \<and>
      (past CLOSED c \<longrightarrow> ch_verification c \<noteq> [] \<and>
         (truthy (jget (ch_scope c) ''approval_required'') \<longrightarrow>
            list_ex (approval_of c (ch_version c - 1)) (rs_approvals rs))) \<and>
      (ch_state c = CLOSED \<longleftrightarrow> ch_close_receipt c \<noteq> None))"

definition history :: "repo_state \<Rightarrow> string \<Rightarrow> lifecycle_receipt list" where
  "history rs cid = filter (\<lambda>r. rc_change_id r = cid) (rs_receipts rs)"

text \<open>Receipts numbered without gaps, each starting in the state the one before it ended in.\<close>

fun chained :: "string option \<Rightarrow> int \<Rightarrow> lifecycle_receipt list \<Rightarrow> bool" where
  "chained s n [] = True"
| "chained s n (r # rs) = (rc_state_before r = s \<and> rc_sequence r = n \<and>
     chained (Some (rc_state_after r)) (n + 1) rs)"

definition ledger_ok :: "repo_state \<Rightarrow> design_change \<Rightarrow> bool" where
  "ledger_ok rs c = (let h = history rs (ch_id c) in
     h \<noteq> [] \<and> chained None 1 h \<and> ch_version c = int (length h) \<and>
     rc_state_after (last h) = state_value (ch_state c))"

definition owned :: "repo_state \<Rightarrow> bool" where
  "owned rs = list_all (\<lambda>r. map_of (rs_changes rs) (rc_change_id r) \<noteq> None) (rs_receipts rs)"

definition change_ok :: "repo_state \<Rightarrow> design_change \<Rightarrow> bool" where
  "change_ok rs c = (gated rs c \<and> ledger_ok rs c)"

definition repo_ok :: "repo_state \<Rightarrow> bool" where
  "repo_ok rs = (table_ok rs \<and> owned rs \<and>
     (\<forall>cid c. repo_get rs cid = Inr (Some c) \<longrightarrow> change_ok rs c))"

section \<open>Commands keep the gates\<close>

lemma past_simps:
  "past IMPLEMENTING c \<longleftrightarrow> ch_state c \<in> {IMPLEMENTING, EVIDENCE_MATCHED, VERIFIED, CLOSED}"
  "past EVIDENCE_MATCHED c \<longleftrightarrow> ch_state c \<in> {EVIDENCE_MATCHED, VERIFIED, CLOSED}"
  "past VERIFIED c \<longleftrightarrow> ch_state c \<in> {VERIFIED, CLOSED}"
  "past CLOSED c \<longleftrightarrow> ch_state c = CLOSED"
  by (cases "ch_state c"; simp add: past_def less_eq_change_state_def)+

lemmas gate_defs = gated_def past_simps drc_acceptable_def matched_evidence_def recorded_def impl_of_def
  verified_by_def

lemma gated_mono:
  assumes "gated rs c" and "set (rs_tests rs) \<subseteq> set (rs_tests rs')"
    and "set (rs_approvals rs) \<subseteq> set (rs_approvals rs')"
  shows "gated rs' c"
proof -
  have "test_proved rs c \<Longrightarrow> test_proved rs' c"
    using assms(2) by (auto simp: test_proved_def test_receipts_def list_ex_iff)
  moreover have "list_ex P (rs_approvals rs) \<Longrightarrow> list_ex P (rs_approvals rs')" for P
    using assms(3) by (auto simp: list_ex_iff)
  ultimately show ?thesis using assms(1) by (auto simp: gated_def)
qed

lemma approved_receipt:
  assumes "approved rs c"
  shows "list_ex (approval_of c (ch_version c)) (rs_approvals rs)"
proof -
  let ?as = "filter (\<lambda>r. ap_design_revision r = rv_id (ch_design_revision c)) (approval_receipts rs (ch_id c))"
  from assms obtain a as where as: "rev ?as = a # as" and a: "ap_decision a = ''APPROVE''"
      "ap_change_version a = ch_version c" "truthy (ap_principal_id a)" "truthy (ap_auth_session_id a)"
      "truthy (ap_rintel_instance_id a)"
    by (auto simp: approved_def split: list.splits)
  have "a \<in> set ?as" using arg_cong [OF as, of set] by auto
  with a show ?thesis
    by (auto simp: approval_receipts_def list_ex_iff approval_of_def)
qed

text \<open>A required test that passes the check has an independent receipt.\<close>

lemma any_proves_receipt:
  "any_proves rs c refs = Inr True \<Longrightarrow> list_ex (current_pass c) (test_receipts rs (ch_id c))"
proof (induction refs)
  case Nil
  then show ?case by simp
next
  case (Cons r refs)
  show ?case
  proof (cases "proves rs c r")
    case True
    then obtain t where "t \<in> set (test_receipts rs (ch_id c))" "current_pass c t"
      by (auto simp: proves_def dest!: find_SomeD split: json.splits option.splits)
    then show ?thesis by (auto simp: list_ex_iff)
  next
    case False
    with Cons show ?thesis by (auto split: sum.splits)
  qed
qed

lemma check_test_receipt:
  assumes "check_test rs c by_id a = Inr ()" and "ac_required a" and "ac_kind a = ''test''"
  shows "list_ex (current_pass c) (test_receipts rs (ch_id c))"
  using assms any_proves_receipt by (auto simp: check_test_def and_then_Inr)

lemma verify_gated:
  assumes "list_all (\<lambda>a. \<not> not_passed (results_by_id results) a \<and>
      check_test rs c (results_by_id results) a = Inr ()) (ch_acceptance_criteria c)"
  shows "list_all2 passes (ch_acceptance_criteria c)
      (map (criterion_result (results_by_id results)) (ch_acceptance_criteria c))"
    and "test_proved rs c"
proof -
  show "list_all2 passes (ch_acceptance_criteria c)
      (map (criterion_result (results_by_id results)) (ch_acceptance_criteria c))"
    using assms by (auto simp: list_all2_map2 list_all_iff passes_def not_passed_def intro!: list.rel_refl_strong)
  show "test_proved rs c"
    using assms check_test_receipt by (fastforce simp: test_proved_def needs_test_def list_ex_iff list_all_iff)
qed

text \<open>The receipts a change depends on are not touched by the fields its verification sets.\<close>

lemma test_proved_cong:
  "ch_id c' = ch_id c \<Longrightarrow> ch_acceptance_criteria c' = ch_acceptance_criteria c \<Longrightarrow>
   ch_design_revision c' = ch_design_revision c \<Longrightarrow> ch_implementation c' = ch_implementation c \<Longrightarrow>
   test_proved rs c' = test_proved rs c"
  by (simp add: test_proved_def needs_test_def current_pass_def [abs_def] impl_of_def)

lemma approval_of_cong:
  "ch_id c' = ch_id c \<Longrightarrow> ch_design_revision c' = ch_design_revision c \<Longrightarrow> approval_of c' = approval_of c"
  by (rule ext)+ (simp add: approval_of_def)

lemma early_gated:
  "ch_state c \<in> {OPEN, PLANNED, ABANDONED} \<Longrightarrow> ch_close_receipt c = None \<Longrightarrow> gated rs c"
  by (auto simp: gated_def past_simps)

lemma implementing_gated:
  assumes "gated rs c" and "ch_state c = IMPLEMENTING" and "ch_state c' = IMPLEMENTING"
    and "ch_design_drc c' = ch_design_drc c" and "ch_implementation c' \<noteq> None"
    and "ch_close_receipt c' = ch_close_receipt c"
  shows "gated rs c'"
  using assms by (simp add: gated_def past_simps drc_acceptable_def)

lemma live_unclosed: "gated rs c \<Longrightarrow> \<not> terminal c \<Longrightarrow> ch_close_receipt c = None"
  by (auto simp: gated_def terminal_def)

lemma evaluate_gated:
  assumes g: "gated rs c" and st: "ch_state c = IMPLEMENTING" and r: "recorded c"
  shows "gated rs ((bump env c)\<lparr>ch_expected_actual := Some ea, ch_lvs_result := Some lvs,
    ch_state := (if evidence_matches ea lvs then EVIDENCE_MATCHED else IMPLEMENTING)\<rparr>)"
  using assms by (simp add: gated_def past_simps drc_acceptable_def matched_evidence_def recorded_def impl_of_def)

lemma verified_gated:
  assumes g: "gated rs c" and st: "ch_state c = EVIDENCE_MATCHED"
    and v: "list_all2 passes (ch_acceptance_criteria c) vs" and t: "test_proved rs c"
  shows "gated rs ((bump env c)\<lparr>ch_verification := vs, ch_state := VERIFIED\<rparr>)"
  using assms test_proved_cong [of "(bump env c)\<lparr>ch_verification := vs, ch_state := VERIFIED\<rparr>" c rs]
  by (simp add: gated_def past_simps drc_acceptable_def matched_evidence_def recorded_def impl_of_def verified_by_def)

lemma closed_gated:
  assumes g: "gated rs c" and st: "ch_state c = VERIFIED" and cl: "assert_closable rs c = Inr ()"
  shows "gated rs ((bump env c)\<lparr>ch_close_receipt := Some receipt, ch_state := CLOSED\<rparr>)"
proof -
  let ?c = "(bump env c)\<lparr>ch_close_receipt := Some receipt, ch_state := CLOSED\<rparr>"
  have "test_proved rs ?c = test_proved rs c" by (rule test_proved_cong) simp_all
  moreover have "approval_of ?c = approval_of c" by (rule approval_of_cong) simp_all
  ultimately show ?thesis
    using g st assert_closable_Inr [OF cl] approved_receipt [of rs c]
    by (simp add: gated_def past_simps drc_acceptable_def matched_evidence_def recorded_def impl_of_def verified_by_def)
qed

lemma run_command_gated:
  assumes g: "gated rs c" and live: "\<not> terminal c" and run: "run_command env rs c cmd = Inr (c', payload, name)"
  shows "gated rs c'"
proof -
  note none = live_unclosed [OF g live]
  show ?thesis
  proof (cases cmd)
    case (PlanChange x1 x2 x3 x4 x5)
    with run none show ?thesis by (auto intro!: early_gated dest!: plan_change_Inr)
  next
    case (DesignMutation x1 x2 x3 x4 x5 x6)
    with run none show ?thesis by (auto intro!: early_gated dest!: design_mutation_Inr)
  next
    case (BeginImplementation x1 x2 x3)
    with run none show ?thesis
      by (auto simp: gated_def past_simps drc_acceptable_def dest!: begin_implementation_Inr)
  next
    case (RecordRepairApplication x1 x2 x3 x4 x5 x6)
    with run g show ?thesis
      by (auto intro!: implementing_gated [OF g] dest!: record_repair_application_Inr)
  next
    case (RequestReindex x1 x2 x3)
    with run g show ?thesis by (auto intro!: implementing_gated [OF g] dest!: request_reindex_Inr)
  next
    case (AdoptIndexJob x1 x2 x3 x4)
    with run g show ?thesis by (auto intro!: implementing_gated [OF g] dest!: adopt_index_job_Inr)
  next
    case (EvaluateExpectedActual x1 x2)
    with run have "evaluate_expected_actual env c = Inr (c', payload, name)" by simp
    from evaluate_expected_actual_Inr [OF this] show ?thesis using evaluate_gated [OF g] by auto
  next
    case (VerifyChange x1 x2 x3)
    with run have "verify_change env rs c x2 = Inr (c', payload, name)" by simp
    from verify_change_Inr [OF this] show ?thesis
      using verified_gated [OF g _ verify_gated] by auto
  next
    case (CloseChange x1 x2 x3)
    with run have "close_change env rs c x2 = Inr (c', payload, name)" by simp
    from close_change_Inr [OF this] show ?thesis using closed_gated [OF g] by auto
  next
    case (AbandonChange x1 x2 x3)
    with run none show ?thesis by (auto intro!: early_gated dest!: abandon_change_Inr)
  qed (use run in simp_all)
qed

section \<open>Steps keep the ledger\<close>

lemma chained_append:
  "chained s n (xs @ [r]) \<longleftrightarrow> chained s n xs \<and> rc_sequence r = n + int (length xs) \<and>
     rc_state_before r = (if xs = [] then s else Some (rc_state_after (last xs)))"
  by (induction xs arbitrary: s n) auto

lemma history_append:
  "rs_receipts rs' = rs_receipts rs @ [rc] \<Longrightarrow>
   history rs' cid = history rs cid @ (if rc_change_id rc = cid then [rc] else [])"
  by (simp add: history_def)

lemma make_receipt_fields [simp]:
  "rc_change_id (make_receipt env i c n name actor s p) = ch_id c"
  "rc_sequence (make_receipt env i c n name actor s p) = n"
  "rc_state_before (make_receipt env i c n name actor s p) = s"
  "rc_state_after (make_receipt env i c n name actor s p) = state_value (ch_state c)"
  "rc_command (make_receipt env i c n name actor s p) = name"
  "rc_actor (make_receipt env i c n name actor s p) = actor"
  by (simp_all add: make_receipt_def Let_def)

lemma owned_history: "owned rs \<Longrightarrow> map_of (rs_changes rs) cid = None \<Longrightarrow> history rs cid = []"
  by (auto simp: owned_def history_def list_all_iff filter_empty_conv)

lemma ledger_extend:
  assumes "ledger_ok rs c" and "ch_id c' = ch_id c" and "ch_version c' = ch_version c + 1"
    and "rs_receipts rs' = rs_receipts rs @ [rc]" and "rc_change_id rc = ch_id c"
    and "rc_sequence rc = ch_version c + 1" and "rc_state_before rc = Some (state_value (ch_state c))"
    and "rc_state_after rc = state_value (ch_state c')"
  shows "ledger_ok rs' c'"
  using assms by (simp add: ledger_ok_def Let_def history_append [OF assms(4)] chained_append)

lemma ledger_frame:
  "history rs' (ch_id c) = history rs (ch_id c) \<Longrightarrow> ledger_ok rs' c = ledger_ok rs c"
  by (simp add: ledger_ok_def)

lemma repo_get_known: "repo_get rs cid = Inr (Some c) \<Longrightarrow> map_of (rs_changes rs) cid \<noteq> None"
  by (auto simp: repo_get_def split: option.splits)

lemma repo_okD:
  "repo_ok rs \<Longrightarrow> repo_get rs cid = Inr (Some c) \<Longrightarrow> gated rs c \<and> ledger_ok rs c \<and> criteria_ok c \<and> ch_id c = cid"
  using repo_get_Some by (auto simp: repo_ok_def change_ok_def)

lemma empty_repo_ok: "repo_ok empty_repo"
  by (simp add: repo_ok_def empty_repo_def table_ok_def owned_def repo_get_def)

text \<open>A transaction that writes one change: the others keep their rows and their history.\<close>

lemma repo_ok_write:
  assumes ok: "repo_ok rs" and tab: "table_ok rs'" and new: "change_ok rs' c"
    and get: "\<And>k. repo_get rs' k = (if k = ch_id c then Inr (Some c) else repo_get rs k)"
    and receipts: "rs_receipts rs' = rs_receipts rs @ [rc]" and rc: "rc_change_id rc = ch_id c"
    and keys: "\<And>k. map_of (rs_changes rs) k \<noteq> None \<or> k = ch_id c \<Longrightarrow> map_of (rs_changes rs') k \<noteq> None"
    and same: "rs_tests rs' = rs_tests rs" "rs_approvals rs' = rs_approvals rs"
  shows "repo_ok rs'"
proof -
  have "owned rs'"
    using ok rc keys by (auto simp: repo_ok_def owned_def receipts list_all_iff)
  moreover have "change_ok rs' d" if d: "repo_get rs' cid = Inr (Some d)" for cid d
  proof (cases "cid = ch_id c")
    case True
    with d get new show ?thesis by simp
  next
    case False
    with d get have old: "repo_get rs cid = Inr (Some d)" by simp
    from repo_okD [OF ok old] have g: "gated rs d" and l: "ledger_ok rs d" and cid: "ch_id d = cid" by auto
    have "gated rs' d" by (rule gated_mono [OF g]) (simp_all add: same)
    moreover have "history rs' (ch_id d) = history rs (ch_id d)"
      using False rc by (simp add: history_append [OF receipts] cid)
    ultimately show ?thesis using l ledger_frame [of rs' d rs] by (simp add: change_ok_def)
  qed
  ultimately show ?thesis using tab by (simp add: repo_ok_def)
qed

lemma open_change_Inr:
  assumes "open_change env repo_id base intent scope criteria actor arch flow rs = Inr (c, rs')"
  shows "ch_state c = OPEN \<and> ch_version c = 1 \<and> ch_acceptance_criteria c = criteria \<and>
    ch_close_receipt c = None \<and> ch_repo_id c = repo_id \<and> ch_scope c = scope \<and>
    (\<exists>payload. repo_insert c (make_receipt env 2 c 1 ''open_change'' actor None payload) rs = Inr rs')"
  using assms by (auto simp: open_change_def opened_change_def and_then_Inr Let_def)

lemma opened_ok:
  assumes ok: "repo_ok rs" and op: "open_change env repo_id base intent scope criteria actor arch flow rs = Inr (c, rs')"
    and crit: "list_all (\<lambda>a. check_criterion a = Inr a) criteria"
  shows "repo_ok rs'"
proof -
  from open_change_Inr [OF op] obtain payload where st: "ch_state c = OPEN" "ch_version c = 1"
      "ch_acceptance_criteria c = criteria" "ch_close_receipt c = None"
    and ins: "repo_insert c (make_receipt env 2 c 1 ''open_change'' actor None payload) rs = Inr rs'"
    by blast
  let ?rc = "make_receipt env 2 c 1 ''open_change'' actor None payload"
  have cok: "criteria_ok c" using crit st by (simp add: criteria_ok_def)
  from repo_insert_Inr [OF ins] have none: "map_of (rs_changes rs) (ch_id c) = None"
    and rs': "rs' = rs\<lparr>rs_changes := rs_changes rs @ [(ch_id c, row_of c)],
      rs_revisions := rs_revisions rs @ [ch_design_revision c], rs_receipts := rs_receipts rs @ [?rc]\<rparr>"
    by blast+
  have receipts: "rs_receipts rs' = rs_receipts rs @ [?rc]" by (simp add: rs')
  have "history rs (ch_id c) = []"
    using ok none owned_history by (simp add: repo_ok_def)
  then have "change_ok rs' c"
    using st by (simp add: change_ok_def early_gated ledger_ok_def Let_def history_append [OF receipts])
  moreover have "table_ok rs'" using table_ok_insert [OF _ cok ins] ok by (simp add: repo_ok_def)
  moreover have "map_of (rs_changes rs') k \<noteq> None" if "map_of (rs_changes rs) k \<noteq> None \<or> k = ch_id c" for k
    using that by (cases "map_of (rs_changes rs) k") (auto simp: rs' map_add_def)
  moreover have "rs_tests rs' = rs_tests rs" "rs_approvals rs' = rs_approvals rs" by (simp_all add: rs')
  ultimately show ?thesis
    by (intro repo_ok_write [OF ok _ _ repo_get_insert [OF cok ins] receipts]) simp_all
qed

lemma commanded_ok:
  assumes ok: "repo_ok rs" and ap: "apply_command env cid cmd rs = Inr (c', rs')"
  shows "repo_ok rs'"
proof -
  from ap obtain c payload name where c: "repo_get rs cid = Inr (Some c)" and adm: "admitted env rs c cmd = Inr ()"
    and run: "run_command env rs c cmd = Inr (c', payload, name)"
    and up: "repo_update (ch_version c) c' (make_receipt env 1 c' (ch_version c + 1) name
      (actor_of cmd) (Some (state_value (ch_state c))) payload) rs = Inr rs'"
    by (rule apply_command_Inr)
  let ?rc = "make_receipt env 1 c' (ch_version c + 1) name (actor_of cmd) (Some (state_value (ch_state c))) payload"
  from repo_okD [OF ok c] have old: "gated rs c" "ledger_ok rs c" "criteria_ok c" "ch_id c = cid" by auto
  from run_command_identity [OF run] have same: "same_identity c c'" "ch_version c' = ch_version c + 1" by auto
  then have cok: "criteria_ok c'" and cid: "ch_id c' = ch_id c" and repo: "ch_repo_id c' = ch_repo_id c"
    using old(3) by (simp_all add: same_identity_def criteria_ok_def)
  from repo_update_Inr [OF up] obtain row where row: "map_of (rs_changes rs) (ch_id c') = Some row"
    and rs': "rs' = rs\<lparr>rs_changes := dict_set (ch_id c') (updated_row row c') (rs_changes rs),
      rs_revisions := with_revision (ch_design_revision c') (rs_revisions rs),
      rs_receipts := rs_receipts rs @ [?rc]\<rparr>" by blast
  have receipts: "rs_receipts rs' = rs_receipts rs @ [?rc]" by (simp add: rs')
  have "gated rs c'"
    using run_command_gated [OF old(1) _ run] admitted_Inr [OF adm] by blast
  then have "gated rs' c'" by (rule gated_mono) (simp_all add: rs')
  moreover have "ledger_ok rs' c'"
    by (rule ledger_extend [OF old(2) cid same(2) receipts]) (simp_all add: cid)
  moreover have "table_ok rs'"
    by (rule table_ok_update [OF _ cok up]) (use ok c old(4) cid repo in \<open>auto simp: repo_ok_def\<close>)
  moreover have "map_of (rs_changes rs') k \<noteq> None" if "map_of (rs_changes rs) k \<noteq> None \<or> k = ch_id c'" for k
    using that by (auto simp: rs' map_of_dict_set)
  moreover have "rs_tests rs' = rs_tests rs" "rs_approvals rs' = rs_approvals rs" by (simp_all add: rs')
  ultimately show ?thesis
    by (intro repo_ok_write [OF ok _ _ repo_get_update [OF cok up] receipts]) (simp_all add: change_ok_def)
qed

text \<open>An independent receipt changes neither the changes nor their ledger.\<close>

lemma repo_ok_receipt:
  assumes "repo_ok rs" and "rs_changes rs' = rs_changes rs" and "rs_receipts rs' = rs_receipts rs"
    and "set (rs_tests rs) \<subseteq> set (rs_tests rs')" and "set (rs_approvals rs) \<subseteq> set (rs_approvals rs')"
  shows "repo_ok rs'"
proof -
  have get: "repo_get rs' = repo_get rs" by (rule ext) (simp add: repo_get_def assms(2))
  have hist: "history rs' = history rs" by (rule ext) (simp add: history_def assms(3))
  show ?thesis
    using assms gated_mono [OF _ assms(4,5)]
    by (auto simp: repo_ok_def get change_ok_def ledger_ok_def hist table_ok_def owned_def)
qed

lemma record_test_run_Inr:
  assumes "record_test_run env cid run_id rs = Inr (t, rs')"
  shows "rs' = rs\<lparr>rs_tests := rs_tests rs @ [t]\<rparr>"
  using assms by (auto simp: record_test_run_def and_then_Inr Let_def append_test_receipt_def split: if_splits)

lemma record_approval_Inr:
  assumes "record_approval env cid identity decision v rs = Inr (a, rs')"
  shows "rs' = rs\<lparr>rs_approvals := rs_approvals rs @ [a]\<rparr>"
proof -
  from assms have "append_approval_receipt a rs = Inr rs'"
    by (auto simp: record_approval_def Let_def and_then_Inr split: option.splits)
  then show ?thesis by (auto simp: append_approval_receipt_def split: if_splits)
qed

lemma lc_step_ok: "lc_step rs rs' \<Longrightarrow> repo_ok rs \<Longrightarrow> repo_ok rs'"
proof (induction rule: lc_step.induct)
  case (opened env repo_id base intent scope criteria actor arch flow rs c rs')
  then show ?case by (blast intro: opened_ok)
next
  case (commanded env cid cmd rs c rs')
  then show ?case by (blast intro: commanded_ok)
next
  case (tested env cid run_id rs t rs')
  then show ?case using record_test_run_Inr [OF tested(1)] by (auto intro: repo_ok_receipt)
next
  case (approving env cid identity decision v rs a rs')
  then show ?case using record_approval_Inr [OF approving(1)] by (auto intro: repo_ok_receipt)
qed

lemma reachable_ok: "reachable rs \<Longrightarrow> repo_ok rs"
  unfolding reachable_def by (induction rule: rtranclp_induct) (auto intro: empty_repo_ok lc_step_ok)

section \<open>Ended changes\<close>

text \<open>No step touches a change that is closed or abandoned, nor its history.\<close>

lemma lc_step_terminal:
  assumes "lc_step rs rs'" and "repo_ok rs" and "repo_get rs cid = Inr (Some c)" and "terminal c"
  shows "repo_get rs' cid = Inr (Some c) \<and> history rs' cid = history rs cid"
  using assms
proof (induction rule: lc_step.induct)
  case (opened env repo_id base intent scope criteria actor arch flow rs d rs')
  from open_change_Inr [OF opened(1)] obtain payload where
      crit: "ch_acceptance_criteria d = criteria" and
      ins: "repo_insert d (make_receipt env 2 d 1 ''open_change'' actor None payload) rs = Inr rs'" by blast
  from repo_insert_Inr [OF ins] have "map_of (rs_changes rs) (ch_id d) = None"
    and receipts: "rs_receipts rs' = rs_receipts rs @ [make_receipt env 2 d 1 ''open_change'' actor None payload]"
    by auto
  then have "ch_id d \<noteq> cid" using repo_get_known [OF opened(4)] by auto
  moreover have "criteria_ok d" using opened(2) crit by (simp add: criteria_ok_def)
  ultimately show ?case
    using opened(4) repo_get_insert [OF _ ins, of cid] by (simp add: history_append [OF receipts])
next
  case (commanded env k cmd rs d rs')
  from commanded(1) obtain b payload name where b: "repo_get rs k = Inr (Some b)" and adm: "admitted env rs b cmd = Inr ()"
    and run: "run_command env rs b cmd = Inr (d, payload, name)"
    and up: "repo_update (ch_version b) d (make_receipt env 1 d (ch_version b + 1) name
      (actor_of cmd) (Some (state_value (ch_state b))) payload) rs = Inr rs'"
    by (rule apply_command_Inr)
  have "k \<noteq> cid" using b commanded(3,4) admitted_Inr [OF adm] by auto
  moreover from repo_okD [OF commanded(2) b] run_command_identity [OF run]
  have "ch_id d = k" "criteria_ok d" by (auto simp: same_identity_def criteria_ok_def)
  moreover have "rs_receipts rs' = rs_receipts rs @ [make_receipt env 1 d (ch_version b + 1) name
      (actor_of cmd) (Some (state_value (ch_state b))) payload]"
    using repo_update_Inr [OF up] by auto
  ultimately show ?case
    using commanded(3) repo_get_update [OF _ up, of cid] by (simp add: history_append)
next
  case (tested env k run_id rs t rs')
  then show ?case using record_test_run_Inr [OF tested(1)] by (simp add: repo_get_def history_def)
next
  case (approving env k identity decision v rs a rs')
  then show ?case using record_approval_Inr [OF approving(1)] by (simp add: repo_get_def history_def)
qed

lemma steps_terminal:
  assumes "lc_step\<^sup>*\<^sup>* rs rs'" and "repo_ok rs" and "repo_get rs cid = Inr (Some c)" and "terminal c"
  shows "repo_get rs' cid = Inr (Some c) \<and> history rs' cid = history rs cid \<and> repo_ok rs'"
  using assms(1)
proof (induction rule: rtranclp_induct)
  case base
  show ?case using assms by simp
next
  case (step y z)
  then show ?case using lc_step_terminal [OF step(2) _ _ assms(4), of cid] lc_step_ok [OF step(2)] by auto
qed

section \<open>Enabling a command\<close>

lemma sequence_free:
  assumes ok: "repo_ok rs" and c: "repo_get rs cid = Inr (Some c)" and r: "r \<in> set (rs_receipts rs)"
    and cid: "rc_change_id r = cid"
  shows "rc_sequence r \<le> ch_version c"
proof -
  have bound: "chained s n h \<Longrightarrow> r \<in> set h \<Longrightarrow> rc_sequence r \<le> n + int (length h) - 1" for s n h
    by (induction h arbitrary: s n) fastforce+
  from repo_okD [OF ok c] have "ledger_ok rs c" and "ch_id c = cid" by auto
  then have "chained None 1 (history rs cid)" and "ch_version c = int (length (history rs cid))"
    by (simp_all add: ledger_ok_def Let_def)
  moreover have "r \<in> set (history rs cid)" using r cid by (simp add: history_def)
  ultimately show ?thesis using bound [of None 1 "history rs cid"] by simp
qed

text \<open>A command whose gate is open and whose body succeeds is committed, given a fresh receipt id.\<close>

lemma apply_command_succeeds:
  assumes ok: "repo_ok rs" and c: "repo_get rs cid = Inr (Some c)" and adm: "admitted env rs c cmd = Inr ()"
    and run: "run_command env rs c cmd = Inr (c', payload, name)"
    and fresh: "''receipt-'' @ en_uuid env 1 \<notin> rc_id ` set (rs_receipts rs)"
  shows "\<exists>rs'. apply_command env cid cmd rs = Inr (c', rs') \<and>
    rc_id ` set (rs_receipts rs') = insert (''receipt-'' @ en_uuid env 1) (rc_id ` set (rs_receipts rs)) \<and>
    rs_tests rs' = rs_tests rs \<and> rs_approvals rs' = rs_approvals rs"
proof -
  let ?rc = "make_receipt env 1 c' (ch_version c + 1) name (actor_of cmd) (Some (state_value (ch_state c))) payload"
  have rcid: "rc_id ?rc = ''receipt-'' @ en_uuid env 1" by (simp add: make_receipt_def Let_def)
  from run_command_identity [OF run] repo_okD [OF ok c] have cid: "ch_id c' = cid"
    by (auto simp: same_identity_def)
  from ok have "table_ok rs" by (simp add: repo_ok_def)
  from repo_get_Some [OF this c] obtain row
    where row: "map_of (rs_changes rs) cid = Some row" "rw_version row = ch_version c" by blast
  have free: "\<not> list_ex (same_slot ?rc) (rs_receipts rs)"
    using fresh rcid sequence_free [OF ok c] cid
    by (fastforce simp: list_ex_iff same_slot_def)
  let ?mid = "rs\<lparr>rs_changes := dict_set cid (updated_row row c') (rs_changes rs)\<rparr>"
  obtain revs where ens: "ensure_revision (ch_design_revision c') ?mid = Inr (?mid\<lparr>rs_revisions := revs\<rparr>)"
  proof (cases "rv_id (ch_design_revision c') \<in> rv_id ` set (rs_revisions rs)")
    case True
    then show ?thesis using that [of "rs_revisions rs"] by (simp add: ensure_revision_def known_revision)
  next
    case False
    then show ?thesis using that [of "rs_revisions rs @ [ch_design_revision c']"]
      by (simp add: ensure_revision_def known_revision insert_revision_def)
  qed
  let ?rs' = "?mid\<lparr>rs_revisions := revs, rs_receipts := rs_receipts rs @ [?rc]\<rparr>"
  have "repo_update (ch_version c) c' ?rc rs = Inr ?rs'"
    using row free by (simp add: repo_update_def cid ens append_receipt_def)
  then have "apply_command env cid cmd rs = Inr (c', ?rs')"
    using c adm run by (simp add: apply_command_def get_change_def)
  then show ?thesis using rcid by (intro exI [of _ ?rs'] conjI) simp_all
qed

end
