(* ===== verification/Lifecycle_Sample.thy ===== *)
theory Lifecycle_Sample
  imports Lifecycle_Invariant
begin

text \<open>
  One change taken through the whole lifecycle, from opening to closing, with an independent test
  receipt and an authenticated approval. The states of this run are where the properties of
  \<open>Lifecycle_Properties\<close> are applied; the run itself shows that the gates can all be passed.
\<close>

section \<open>The environment of the run\<close>

definition sample_snapshot :: snapshot_row where
  "sample_snapshot = \<lparr>sn_id = ''s'', sn_repo_id = ''r'', sn_parent_id = None,
     sn_publication_status = Some ''published'', sn_created_at = 0, sn_meta = []\<rparr>"

definition sample_job :: "string \<Rightarrow> jdict" where
  "sample_job status = [(''repo_id'', JStr ''r''), (''kind'', JStr ''index''), (''status'', JStr status),
     (''result'', JObj [(''repo_id'', JStr ''r''), (''run_id'', JStr ''n''), (''snapshot_id'', JStr ''s'')])]"

definition sample_run :: jdict where
  "sample_run = [(''run_id'', JStr ''n''), (''canonical_revision'', JStr ''s''), (''result'', JStr ''PASS''),
     (''test_identity'', JStr ''t''), (''evidence_refs'', JList [JStr ''log''])]"

definition sample_auth :: jdict where
  "sample_auth = [(''permission'', JStr ''approve_design''), (''principal_type'', JStr ''LOCAL_OWNER''),
     (''auth_method'', JStr ''BOOTSTRAP_TOKEN''), (''subject'', JStr ''o''), (''policy_version'', JStr ''1''),
     (''authorization_id'', JStr ''z''), (''principal_id'', JStr ''p''), (''auth_session_id'', JStr ''q''),
     (''rintel_instance_id'', JStr ''i'')]"

text \<open>The identifiers of a call are all its uid; the job is pending or done.\<close>

definition sample_env :: "string \<Rightarrow> string \<Rightarrow> lc_env" where
  "sample_env uid status = \<lparr>
     en_hash = (\<lambda>s. []), en_clock = int, en_uuid = (\<lambda>i. uid),
     en_snapshot = (\<lambda>s. if s = ''s'' then Some sample_snapshot else None),
     en_snapshots = (\<lambda>r. [sample_snapshot]),
     en_all_nodes = (\<lambda>r s. []), en_all_edges = (\<lambda>r s. []), en_evidence_for = (\<lambda>r s i. []),
     en_flow_models = (\<lambda>r. None), en_runtime_provider = (\<lambda>r s d. []),
     en_reference_provider = (\<lambda>r s d. []),
     en_job_lookup = Some (\<lambda>j. Some (sample_job status)),
     en_authorization_lookup = Some (\<lambda>i c. Some sample_auth),
     en_test_run_lookup = Some (\<lambda>i. Some sample_run),
     en_lvs_runner = (\<lambda>c. [(''overall_status'', JStr ''MATCH'')]),
     en_design_mutation = (\<lambda>c cmd. Inl IntegrityError),
     en_coverage_certificates = (\<lambda>r s i k. []),
     en_applicable_complete = (\<lambda>cert r s f. (False, ''no_exact_direct_call_certificate''))\<rparr>"

lemma sample_env_fields [simp]:
  "digest (sample_env uid status) j = []" "en_clock (sample_env uid status) = int"
  "en_uuid (sample_env uid status) i = uid"
  "en_snapshot (sample_env uid status) s = (if s = ''s'' then Some sample_snapshot else None)"
  "en_all_nodes (sample_env uid status) r s = []" "en_all_edges (sample_env uid status) r s = []"
  "en_flow_models (sample_env uid status) r = None"
  "en_runtime_provider (sample_env uid status) r s d = []"
  "en_reference_provider (sample_env uid status) r s d = []"
  "en_job_lookup (sample_env uid status) = Some (\<lambda>j. Some (sample_job status))"
  "en_authorization_lookup (sample_env uid status) = Some (\<lambda>i c. Some sample_auth)"
  "en_test_run_lookup (sample_env uid status) = Some (\<lambda>i. Some sample_run)"
  "en_lvs_runner (sample_env uid status) c = [(''overall_status'', JStr ''MATCH'')]"
  "active_revision (sample_env uid status) r = JStr ''s''"
proof -
  have "parents [sample_snapshot] = []" by (simp add: parents_def List.map_filter_simps sample_snapshot_def)
  then show "active_revision (sample_env uid status) r = JStr ''s''"
    by (simp add: sample_env_def active_revision_def active_of_def tips_def published_def sample_snapshot_def)
qed (simp_all add: sample_env_def digest_def)

definition sample_criterion :: acceptance_criterion where
  "sample_criterion = \<lparr>ac_id = ''k'', ac_kind = ''test'', ac_required = True, ac_description = []\<rparr>"

definition sample_scope :: jdict where
  "sample_scope = [(''approval_required'', JBool True)]"

section \<open>The run\<close>

text \<open>A state the run reaches, with the change in it and the receipt identifiers used so far.\<close>

definition staged :: "repo_state \<Rightarrow> design_change \<Rightarrow> string set \<Rightarrow> bool" where
  "staged rs c ids = (reachable rs \<and> repo_get rs (ch_id c) = Inr (Some c) \<and>
     rc_id ` set (rs_receipts rs) = ids)"

lemma reachable_step: "reachable rs \<Longrightarrow> lc_step rs rs' \<Longrightarrow> reachable rs'"
  unfolding reachable_def by (rule rtranclp.rtrancl_into_rtrancl)

lemma staged_receipt:
  assumes "staged rs c ids" and "lc_step rs rs'" and "rs_changes rs' = rs_changes rs"
    and "rs_receipts rs' = rs_receipts rs"
  shows "staged rs' c ids"
  using assms reachable_step by (auto simp: staged_def repo_get_def)

lemma staged_command:
  assumes st: "staged rs c ids" and adm: "admitted env rs c cmd = Inr ()"
    and run: "run_command env rs c cmd = Inr (c', payload, name)"
    and fresh: "''receipt-'' @ en_uuid env 1 \<notin> ids"
  shows "\<exists>rs'. staged rs' c' (insert (''receipt-'' @ en_uuid env 1) ids) \<and> rs_tests rs' = rs_tests rs \<and>
    rs_approvals rs' = rs_approvals rs \<and> lc_step rs rs' \<and> apply_command env (ch_id c) cmd rs = Inr (c', rs')"
proof -
  from st have r: "reachable rs" and c: "repo_get rs (ch_id c) = Inr (Some c)"
    and ids: "rc_id ` set (rs_receipts rs) = ids" by (simp_all add: staged_def)
  from apply_command_succeeds [OF reachable_ok [OF r] c adm run] fresh ids
  obtain rs' where ap: "apply_command env (ch_id c) cmd rs = Inr (c', rs')"
    and rest: "rc_id ` set (rs_receipts rs') = insert (''receipt-'' @ en_uuid env 1) ids"
      "rs_tests rs' = rs_tests rs" "rs_approvals rs' = rs_approvals rs" by auto
  have step: "lc_step rs rs'" by (rule lc_step.commanded [OF ap])
  with r have r': "reachable rs'" by (simp add: reachable_def)
  from run_command_identity [OF run] repo_okD [OF reachable_ok [OF r] c]
  have d: "ch_id c' = ch_id c" "criteria_ok c'" by (auto simp: same_identity_def criteria_ok_def)
  obtain v r where "repo_update v c' r rs = Inr rs'"
    by (rule apply_command_Inr [OF ap])
  from repo_get_update [OF d(2) this, of "ch_id c'"]
  have "staged rs' c' (insert (''receipt-'' @ en_uuid env 1) ids)" using r' rest by (simp add: staged_def)
  with rest step ap show ?thesis by blast
qed

lemma admittedI:
  assumes "denial_reasons env rs c cmd = []" and "\<not> terminal c" and "cm_expected_version cmd = None"
    and "design_revision_pin cmd = None"
  shows "admitted env rs c cmd = Inr ()"
  using assms by (simp add: admitted_def guard_def)

lemmas gate_simps = denial_reasons_def command_reasons_def preflight_actions_def action_states_def
  action_reasons_def gate_reasons_def terminal_def require_state_def guard_def design_revision_pin_def

definition sample_subject :: "design_change \<Rightarrow> bool" where
  "sample_subject c = (ch_id c = ''change-a'' \<and> ch_repo_id c = ''r'' \<and> ch_scope c = sample_scope \<and>
     ch_acceptance_criteria c = [sample_criterion] \<and> ch_base_canonical_revision c = ''s'')"

lemma subject_kept: "sample_subject c \<Longrightarrow> same_identity c c' \<Longrightarrow> sample_subject c'"
  by (simp add: sample_subject_def same_identity_def)

lemma sample_opened:
  "\<exists>c rs. open_change (sample_env ''a'' ''pending'') ''r'' ''s'' ''i'' sample_scope [sample_criterion] ''u''
      None None empty_repo = Inr (c, rs) \<and> ch_state c = OPEN \<and> sample_subject c \<and>
    staged rs c {''receipt-a''} \<and> rs_tests rs = [] \<and> rs_approvals rs = []"
proof -
  let ?env = "sample_env ''a'' ''pending''"
  let ?open = "open_change ?env ''r'' ''s'' ''i'' sample_scope [sample_criterion] ''u'' None None empty_repo"
  have brief: "\<exists>b. build_brief ?env ''r'' ''s'' sample_scope = Inr b"
    by (simp add: build_brief_def scope_set_def set_of_def sample_scope_def get_or_def iterate_def)
  have intent: "\<not> blank ''i''" by (simp add: blank_def is_space_def)
  from brief obtain b where b: "build_brief ?env ''r'' ''s'' sample_scope = Inr b" by blast
  let ?c = "opened_change ?env ''r'' ''s'' ''i'' sample_scope [sample_criterion] None None b"
  have c: "ch_state ?c = OPEN" "sample_subject ?c"
    by (simp_all add: opened_change_def Let_def sample_subject_def)
  obtain rs where op: "?open = Inr (?c, rs)" and rs: "rc_id ` set (rs_receipts rs) = {''receipt-a''}"
      "rs_tests rs = []" "rs_approvals rs = []"
    by (simp add: open_change_def intent guard_def sample_snapshot_def b repo_insert_def insert_revision_def
        append_receipt_def empty_repo_def Let_def make_receipt_def)
  from open_change_Inr [OF op] obtain payload where
    ins: "repo_insert ?c (make_receipt ?env 2 ?c 1 ''open_change'' ''u'' None payload) empty_repo = Inr rs" by blast
  have crit: "list_all (\<lambda>a. check_criterion a = Inr a) (ch_acceptance_criteria ?c)"
    using c(2) by (simp add: sample_subject_def check_criterion_def sample_criterion_def)
  have "lc_step empty_repo rs"
    by (rule lc_step.opened [OF op]) (simp add: check_criterion_def sample_criterion_def)
  then have "reachable rs" by (simp add: reachable_def)
  moreover have "repo_get rs (ch_id ?c) = Inr (Some ?c)"
    using repo_get_insert [OF _ ins, of "ch_id ?c"] crit by (simp add: criteria_ok_def)
  ultimately show ?thesis using op c rs by (auto simp: staged_def)
qed

lemma sample_drc: "\<exists>d. run_design_drc [] sample_scope = Inr d \<and> truthy (jget d ''acceptable'')"
proof -
  obtain r where r: "run_engine (design_context [] sample_scope) [lifecycle_rule] = Inr r"
    and ok: "acceptable_run r \<longleftrightarrow> lifecycle_rule_run (design_context [] sample_scope) = Inr []"
    by (rule run_design_drc_run)
  have "acceptable_run r"
    unfolding ok rule_run_Nil
    by (simp add: design_context_def design_limits_of_def attr_get_def get_or_def sample_scope_def set_of_def
        tuples_of_def iterate_def hashed_def planned_edges_def acyclic_def)
  with r show ?thesis by (simp add: run_design_drc_def run_to_dict_def jget_def get_or_def)
qed

text \<open>A reachable state of the run, by its receipts and what holds of the change in it. A command that is
  not denied and whose body gives a change with \<open>Q\<close> takes the run one stage further.\<close>

definition stands :: "string set \<Rightarrow> (test_receipt list \<Rightarrow> approval_receipt list \<Rightarrow> design_change \<Rightarrow> bool) \<Rightarrow> bool" where
  "stands ids P = (\<exists>rs c. staged rs c ids \<and> sample_subject c \<and> P (rs_tests rs) (rs_approvals rs) c)"

lemma stage:
  assumes at: "stands ids P" and fresh: "''receipt-'' @ en_uuid env 1 \<notin> ids"
    and free: "cm_expected_version cmd = None" "design_revision_pin cmd = None"
    and live: "\<And>ts as c. P ts as c \<Longrightarrow> \<not> terminal c"
    and gate: "\<And>rs c. P (rs_tests rs) (rs_approvals rs) c \<Longrightarrow> sample_subject c \<Longrightarrow> denial_reasons env rs c cmd = []"
    and run: "\<And>rs c. P (rs_tests rs) (rs_approvals rs) c \<Longrightarrow> sample_subject c \<Longrightarrow>
      \<exists>c' p n. run_command env rs c cmd = Inr (c', p, n) \<and> Q (rs_tests rs) (rs_approvals rs) c'"
  shows "stands (insert (''receipt-'' @ en_uuid env 1) ids) Q"
proof -
  obtain rs c where sg: "staged rs c ids" and sub: "sample_subject c" and p: "P (rs_tests rs) (rs_approvals rs) c"
    using at by (auto simp: stands_def)
  from run [OF p sub] obtain c' payload name where r: "run_command env rs c cmd = Inr (c', payload, name)"
    and q: "Q (rs_tests rs) (rs_approvals rs) c'" by blast
  have "sample_subject c'" using run_command_identity [OF r] sub subject_kept by blast
  with staged_command [OF sg admittedI [OF gate [OF p sub] live [OF p] free] r fresh] q show ?thesis
    unfolding stands_def by metis
qed

abbreviation no_receipts :: "(design_change \<Rightarrow> bool) \<Rightarrow> test_receipt list \<Rightarrow> approval_receipt list \<Rightarrow> design_change \<Rightarrow> bool"
where
  "no_receipts P ts as c \<equiv> ts = [] \<and> as = [] \<and> P c"

definition planned :: "design_change \<Rightarrow> bool" where
  "planned c = (ch_state c = PLANNED \<and> drc_acceptable c \<and> rv_expected_changes (ch_design_revision c) = [])"

lemma sample_planned:
  "stands {''receipt-b'', ''receipt-a''} (no_receipts planned)"
proof -
  let ?env = "sample_env ''b'' ''pending''" and ?cmd = "PlanChange ''u'' [] None None None"
  obtain d where d: "run_design_drc [] sample_scope = Inr d" "truthy (jget d ''acceptable'')"
    using sample_drc by blast
  have start: "stands {''receipt-a''} (no_receipts (\<lambda>c. ch_state c = OPEN))"
    using sample_opened by (auto simp: stands_def)
  have "stands (insert (''receipt-'' @ en_uuid ?env 1) {''receipt-a''})
      (no_receipts planned)"
    by (rule stage [OF start, where cmd = ?cmd])
      (use d in \<open>auto simp: gate_simps plan_change_def Let_def sample_subject_def drc_acceptable_def planned_def\<close>)
  then show ?thesis by simp
qed

definition begun :: "design_change \<Rightarrow> bool" where
  "begun c = (ch_state c = IMPLEMENTING \<and> drc_acceptable c \<and> rv_expected_changes (ch_design_revision c) = [] \<and>
     (\<exists>impl. ch_implementation c = Some impl \<and> jget impl ''index_job'' = JNull))"

lemma sample_begun:
  "stands {''receipt-c'', ''receipt-b'', ''receipt-a''} (no_receipts begun)"
proof -
  let ?env = "sample_env ''c'' ''pending''" and ?cmd = "BeginImplementation ''u'' [] None"
  have "stands (insert (''receipt-'' @ en_uuid ?env 1) {''receipt-b'', ''receipt-a''}) (no_receipts begun)"
    by (rule stage [OF sample_planned, where cmd = ?cmd])
      (auto simp: gate_simps begin_implementation_def Let_def begun_def planned_def drc_acceptable_def jget_def get_or_def)
  then show ?thesis by simp
qed

definition sample_link :: "design_change \<Rightarrow> jdict" where
  "sample_link c = [(''job_id'', JStr ''j''), (''requested_design_revision'', JStr (rv_id (ch_design_revision c))),
     (''input_canonical_revision'', JStr ''s''), (''requested_at'', JInt 0)]"

definition requested :: "design_change \<Rightarrow> bool" where
  "requested c = (ch_state c = IMPLEMENTING \<and> drc_acceptable c \<and> rv_expected_changes (ch_design_revision c) = [] \<and>
     (\<exists>impl. ch_implementation c = Some impl \<and> jget impl ''index_job'' = JObj (sample_link c)))"

lemmas link_simps = linked_job_def jobj_def as_mapping_def impl_of_def sample_link_def jget_def get_or_def
  index_job_def sample_job_def request_reasons_def adopt_reasons_def

lemma dict_update_get: "jget (dict_update d [(k, v), (k', v')]) x =
    (if x = k' then v' else if x = k then v else jget d x)"
  by (simp add: dict_update_def jget_dict_set)

lemma sample_requested:
  "stands {''receipt-d'', ''receipt-c'', ''receipt-b'', ''receipt-a''} (no_receipts requested)"
proof -
  let ?env = "sample_env ''d'' ''pending''" and ?cmd = "RequestReindex ''u'' ''j'' None"
  have body: "\<exists>c' p n. request_reindex ?env c ''j'' = Inr (c', p, n) \<and> requested c'"
    if b: "begun c" "sample_subject c" for c
  proof -
    from b obtain impl where impl: "ch_implementation c = Some impl" "linked_job c = []" "ch_state c = IMPLEMENTING"
      by (auto simp: begun_def linked_job_def jobj_def impl_of_def as_mapping_def)
    from b have "index_job ?env (JStr ''j'') (ch_repo_id c) = Inr (sample_job ''pending'')"
      "jget (sample_job ''pending'') ''status'' = JStr ''pending''"
      by (simp_all add: index_job_def sample_job_def sample_subject_def jget_def get_or_def)
    with b impl show ?thesis
      by (simp add: request_reindex_def prior_job_settled_def require_state_def guard_def Let_def requested_def
          impl_of_def drc_acceptable_def begun_def dict_update_get sample_link_def)
        (simp add: jget_def get_or_def)
  qed
  have gate: "denial_reasons ?env rs c ?cmd = []" if b: "begun c" "sample_subject c" for rs c
    using b by (auto simp: gate_simps begun_def sample_subject_def link_simps split: json.splits)
  have "stands (insert (''receipt-'' @ en_uuid ?env 1) {''receipt-c'', ''receipt-b'', ''receipt-a''})
      (no_receipts requested)"
    by (rule stage [OF sample_begun, where cmd = ?cmd])
      (use body gate in \<open>auto simp: design_revision_pin_def terminal_def begun_def\<close>)
  then show ?thesis by simp
qed

definition holds_actual :: "design_change \<Rightarrow> bool" where
  "holds_actual c = (drc_acceptable c \<and> (\<exists>impl. ch_implementation c = Some impl \<and> impl \<noteq> [] \<and>
     jget impl ''current_evidence_revision'' = JStr ''s'' \<and> jget impl ''observation_status'' = JStr ''recorded''))"

definition adopted :: "design_change \<Rightarrow> bool" where
  "adopted c = (ch_state c = IMPLEMENTING \<and> holds_actual c \<and> rv_expected_changes (ch_design_revision c) = [] \<and>
     jget (impl_of c) ''actual_evidence'' = objs [])"

lemma dict_set_nonempty [simp]: "dict_set k v d \<noteq> []"
  by (cases d) (auto split: if_splits)

lemma sample_finished:
  assumes "requested c" and "sample_subject c"
  shows "job_output (sample_env uid ''done'') c ''j'' =
    Inr ([(''repo_id'', JStr ''r''), (''run_id'', JStr ''n''), (''snapshot_id'', JStr ''s'')], ''s'')"
proof -
  let ?result = "[(''repo_id'', JStr ''r''), (''run_id'', JStr ''n''), (''snapshot_id'', JStr ''s'')]"
  from assms have link: "linked_job c = sample_link c"
    by (auto simp: requested_def linked_job_def jobj_def impl_of_def as_mapping_def)
  have repo: "ch_repo_id c = ''r''" using assms(2) by (simp add: sample_subject_def)
  have job: "index_job (sample_env uid ''done'') (JStr ''j'') ''r'' = Inr (sample_job ''done'')"
    "jget (sample_job ''done'') ''status'' = JStr ''done''" "jget (sample_job ''done'') ''result'' = JObj ?result"
    by (simp_all add: index_job_def sample_job_def jget_def get_or_def)
  have fields: "jget (sample_link c) ''job_id'' = JStr ''j''"
    "jget (sample_link c) ''requested_design_revision'' = JStr (rv_id (ch_design_revision c))"
    "jget (sample_link c) ''input_canonical_revision'' = JStr ''s''" "jget (sample_link c) ''adopted_at'' = JNull"
    "jget ?result ''repo_id'' = JStr ''r''" "jget ?result ''run_id'' = JStr ''n''"
    "jget ?result ''snapshot_id'' = JStr ''s''"
    by (simp_all add: sample_link_def jget_def get_or_def)
  have "finished_job (sample_env uid ''done'') c ''j'' = Inr ?result"
    by (simp add: finished_job_def link fields job jobj_def as_mapping_def guard_def repo)
  moreover have "published_output (sample_env uid ''done'') c ?result = Inr ''s''"
    by (simp add: published_output_def link fields guard_def repo snapshot_at_def sample_snapshot_def)
  ultimately show ?thesis by (simp add: job_output_def)
qed

lemma sample_adoption:
  assumes "requested c" and "sample_subject c"
  shows "\<exists>c' p n. adopt_index_job (sample_env uid ''done'') c ''j'' [] = Inr (c', p, n) \<and> adopted c'"
  using sample_finished [OF assms] assms(1)
  by (simp add: adopt_index_job_def require_state_def guard_def requested_def implementation_from_index_result_def
      canonicalize_actual_evidence_def get_or_def Let_def adopted_def holds_actual_def impl_of_def drc_acceptable_def
      jget_dict_set recorded_result_fields)

lemma sample_adopted:
  "stands {''receipt-e'', ''receipt-d'', ''receipt-c'', ''receipt-b'', ''receipt-a''} (no_receipts adopted)"
proof -
  let ?env = "sample_env ''e'' ''done''" and ?cmd = "AdoptIndexJob ''u'' ''j'' [] None"
  note body = sample_adoption [where uid = "''e''"]
  have gate: "denial_reasons ?env rs c ?cmd = []" if b: "requested c" "sample_subject c" for rs c
    using b by (auto simp: gate_simps requested_def sample_subject_def link_simps)
  have "stands (insert (''receipt-'' @ en_uuid ?env 1) {''receipt-d'', ''receipt-c'', ''receipt-b'', ''receipt-a''})
      (no_receipts adopted)"
    by (rule stage [OF sample_requested, where cmd = ?cmd])
      (use body gate in \<open>auto simp: design_revision_pin_def terminal_def requested_def\<close>)
  then show ?thesis by simp
qed

definition matched_stage :: "change_state \<Rightarrow> design_change \<Rightarrow> bool" where
  "matched_stage s c = (ch_state c = s \<and> holds_actual c \<and> (\<exists>ea lvs. ch_expected_actual c = Some ea \<and>
     ch_lvs_result c = Some lvs \<and> evidence_matches ea lvs))"

lemma sample_comparison:
  assumes "adopted c" and "sample_subject c" and "expected_facts d = Inr fs"
    and "ch_scope d = ch_scope c" and "impl_of d = impl_of c"
  shows "\<exists>cp. comparison_of (sample_env uid status) d = Inr cp \<and> cp_expected cp = fs \<and> cp_rows cp = []"
proof -
  let ?env = "sample_env uid status"
  have known: "map_of d k = Some v" if "jget d k = v" "v \<noteq> JNull" for d k v
    using that by (auto simp: jget_def get_or_def split: option.splits)
  from assms(1) have actual: "map_of (impl_of c) ''actual_evidence'' = Some (objs [])"
    "map_of (impl_of c) ''current_evidence_revision'' = Some (JStr ''s'')"
    by (auto simp: adopted_def holds_actual_def impl_of_def intro!: known)
  have "selected_facts d = Inr []" "field as_text (impl_of d) ''current_evidence_revision'' = Inr ''s''"
    by (simp_all add: assms(5) selected_facts_def get_or_def actual field_def jindex_def)
  moreover have "scoped_node_ids ?env d ''s'' = Inr []"
    using assms(2,4) by (simp add: scoped_node_ids_def sample_subject_def sample_scope_def scope_set_def set_of_def
        iterate_def get_or_def)
  ultimately show ?thesis
    by (simp add: comparison_of_def Let_def graph_rows_def assms(3))
qed

lemma sample_evaluated:
  assumes "adopted c" and "sample_subject c"
  shows "\<exists>ea. evaluate_change (sample_env uid status) c = Inr ea \<and> jget ea ''outcome'' = JStr ''MATCHED''"
proof -
  let ?env = "sample_env uid status"
  have "expected_facts c = Inr []" using assms(1) by (simp add: expected_facts_def adopted_def)
  from sample_comparison [OF assms this refl refl]
  obtain cp where cp: "comparison_of ?env c = Inr cp" "cp_expected cp = []" "cp_rows cp = []" by blast
  have "set (missing_keys cp) = {}" "set (unexpected_keys cp) = {}"
    unfolding missing_set unexpected_set by (simp_all add: cp)
  then have "outcome_of ?env c cp = MATCHED"
    by (simp add: outcome_of_def unknown_missing_def proved_missing_def)
  then have "jget (evaluation_json ?env c cp) ''outcome'' = JStr ''MATCHED''"
    by (simp add: evaluation_json_def Let_def jget_def get_or_def)
  then show ?thesis using cp(1) by (simp add: evaluate_change_def)
qed

lemma current_actual:
  "holds_actual c \<Longrightarrow> require_actual_current (sample_env uid status) c = Inr ()"
  by (auto simp: holds_actual_def require_actual_current_def impl_of_def guard_def Let_def)

lemma sample_matched:
  "stands {''receipt-f'', ''receipt-e'', ''receipt-d'', ''receipt-c'', ''receipt-b'', ''receipt-a''}
     (no_receipts (matched_stage EVIDENCE_MATCHED))"
proof -
  let ?env = "sample_env ''f'' ''done''" and ?cmd = "EvaluateExpectedActual ''u'' None"
  have rec: "recorded c \<and> impl_of c \<noteq> []" if "holds_actual c" for c
    using that by (auto simp: holds_actual_def recorded_def impl_of_def)
  have body: "\<exists>c' p n. evaluate_expected_actual ?env c = Inr (c', p, n) \<and> matched_stage EVIDENCE_MATCHED c'"
    if b: "adopted c" "sample_subject c" for c
  proof -
    from sample_evaluated [OF b] obtain ea where ea: "evaluate_change ?env c = Inr ea" "jget ea ''outcome'' = JStr ''MATCHED''"
      by blast
    have m: "evidence_matches ea [(''overall_status'', JStr ''MATCH'')]"
      using ea(2) by (simp add: evidence_matches_def jget_def get_or_def)
    from b have st: "ch_state c = IMPLEMENTING" "holds_actual c" by (simp_all add: adopted_def)
    show ?thesis
      using st rec [OF st(2)] by (simp add: evaluate_expected_actual_def require_state_def guard_def current_actual ea m
          Let_def matched_stage_def) (simp add: holds_actual_def drc_acceptable_def)
  qed
  have gate: "denial_reasons ?env rs c ?cmd = []" if b: "adopted c" for rs c
    using b rec [of c] by (simp add: gate_simps adopted_def current_actual code_of_def)
  have "stands (insert (''receipt-'' @ en_uuid ?env 1) {''receipt-e'', ''receipt-d'', ''receipt-c'', ''receipt-b'', ''receipt-a''})
      (no_receipts (matched_stage EVIDENCE_MATCHED))"
    by (rule stage [OF sample_adopted, where cmd = ?cmd])
      (use body gate in \<open>auto simp: design_revision_pin_def terminal_def adopted_def\<close>)
  then show ?thesis by simp
qed

section \<open>Independent receipts and the end of the run\<close>

definition test_passed :: "change_state \<Rightarrow> test_receipt list \<Rightarrow> design_change \<Rightarrow> bool" where
  "test_passed s ts c = (matched_stage s c \<and> (\<exists>t. ts = [t] \<and> tr_id t = ''test-receipt-g'' \<and>
     tr_change_id t = ch_id c \<and> current_pass c t))"

lemma sample_run_fields:
  "jget sample_run ''run_id'' = JStr ''n''" "jget sample_run ''canonical_revision'' = JStr ''s''"
  "jget sample_run ''result'' = JStr ''PASS''" "jget sample_run ''test_identity'' = JStr ''t''"
  "jget sample_run ''evidence_refs'' = JList [JStr ''log'']" "jget sample_run ''change_id'' = JNull"
  "jget sample_run ''design_revision'' = JNull" "jget sample_run ''timestamp'' = JNull" "sample_run \<noteq> []"
  by (simp_all add: sample_run_def jget_def get_or_def)

lemma holds_actual_revision:
  "holds_actual c \<Longrightarrow> jget (impl_of c) ''current_evidence_revision'' = JStr ''s'' \<and> recorded c \<and> impl_of c \<noteq> []"
  by (auto simp: holds_actual_def impl_of_def recorded_def)

lemma sample_checked:
  assumes "matched_stage EVIDENCE_MATCHED c"
  shows "checked_run (sample_env uid status) c ''n'' = Inr sample_run"
proof -
  from assms have "\<not> terminal c" and "holds_actual c" by (simp_all add: matched_stage_def terminal_def)
  with holds_actual_revision [of c] show ?thesis
    by (simp add: checked_run_def sample_run_fields guard_def Let_def unbound_or_def)
qed

lemma sample_tested:
  "stands {''receipt-f'', ''receipt-e'', ''receipt-d'', ''receipt-c'', ''receipt-b'', ''receipt-a''}
     (\<lambda>ts as c. as = [] \<and> test_passed EVIDENCE_MATCHED ts c)"
proof -
  let ?env = "sample_env ''g'' ''done''"
  let ?ids = "{''receipt-f'', ''receipt-e'', ''receipt-d'', ''receipt-c'', ''receipt-b'', ''receipt-a''}"
  obtain rs c where sg: "staged rs c ?ids"
    and sub: "sample_subject c" and m: "matched_stage EVIDENCE_MATCHED c" and none: "rs_tests rs = []" "rs_approvals rs = []"
    using sample_matched by (auto simp: stands_def)
  from sg have r: "reachable rs" and c: "repo_get rs (ch_id c) = Inr (Some c)" by (simp_all add: staged_def)
  from m have rev: "jget (impl_of c) ''current_evidence_revision'' = JStr ''s''"
    using holds_actual_revision by (simp add: matched_stage_def)
  let ?t = "\<lparr>tr_id = ''test-receipt-g'', tr_change_id = ch_id c, tr_run_identity = ''n'', tr_subject = ch_id c,
    tr_design_revision = rv_id (ch_design_revision c), tr_canonical_revision = JStr ''s'',
    tr_test_identity = JStr ''t'', tr_result = JStr ''PASS'', tr_timestamp = JInt 0,
    tr_evidence_refs = [JStr ''log'']\<rparr>"
  let ?rs = "rs\<lparr>rs_tests := [?t]\<rparr>"
  have run: "record_test_run ?env (ch_id c) ''n'' rs = Inr (?t, ?rs)"
    by (simp add: record_test_run_def get_change_def c sample_checked [OF m] sample_run_fields py_list_def iterate_def
        append_test_receipt_def none rev Let_def)
  have step: "lc_step rs ?rs" by (rule lc_step.tested [OF run])
  have "staged ?rs c ?ids"
    by (rule staged_receipt [OF sg step]) simp_all
  moreover have "test_passed EVIDENCE_MATCHED [?t] c"
    using m by (simp add: test_passed_def current_pass_def rev)
  ultimately show ?thesis using sub none unfolding stands_def by (intro exI [of _ ?rs] exI [of _ c]) simp
qed

definition sample_results :: "jdict list" where
  "sample_results = [[(''criterion_id'', JStr ''k''), (''status'', JStr ''PASS''),
     (''evidence_refs'', JList [JStr ''test-receipt-g''])]]"

lemma sample_verified:
  "stands {''receipt-h'', ''receipt-f'', ''receipt-e'', ''receipt-d'', ''receipt-c'', ''receipt-b'', ''receipt-a''}
     (\<lambda>ts as c. as = [] \<and> test_passed VERIFIED ts c \<and> ch_verification c \<noteq> [])"
proof -
  let ?env = "sample_env ''h'' ''done''" and ?cmd = "VerifyChange ''u'' sample_results None"
  let ?by = "results_by_id sample_results"
  have result: "get_or ?by ''k'' d = hd sample_results" for d
    by (simp add: results_by_id_def sample_results_def dict_of_def jget_def get_or_def py_str_def)
  have fields: "jget (hd sample_results) ''status'' = JStr ''PASS''"
    "jget (hd sample_results) ''evidence_refs'' = JList [JStr ''test-receipt-g'']"
    "get_or (hd sample_results) ''evidence_refs'' d = JList [JStr ''test-receipt-g'']" for d
    by (simp_all add: sample_results_def jget_def get_or_def)
  have parts: "needs_test c \<and> list_ex (current_pass c) (test_receipts rs (ch_id c)) \<and>
      proves rs c (JStr ''test-receipt-g'') \<and> require_actual_current ?env c = Inr () \<and> ch_state c = EVIDENCE_MATCHED"
    if "test_passed EVIDENCE_MATCHED (rs_tests rs) c" "sample_subject c" for rs c
    using that by (auto simp: test_passed_def needs_test_def sample_subject_def sample_criterion_def test_receipts_def
        proves_def matched_stage_def intro!: current_actual)
  have body: "\<exists>c' p n. verify_change ?env rs c sample_results = Inr (c', p, n) \<and>
      test_passed VERIFIED (rs_tests rs) c' \<and> ch_verification c' \<noteq> []"
    if b: "test_passed EVIDENCE_MATCHED (rs_tests rs) c" "sample_subject c" for rs c
    using parts [OF b] b
    by (simp add: verify_change_def require_state_def guard_def Let_def sample_subject_def criterion_result_def
        sample_criterion_def not_passed_def result fields check_test_def py_list_def iterate_def hashed_def)
      (auto simp: test_passed_def matched_stage_def holds_actual_def current_pass_def drc_acceptable_def impl_of_def)
  have gate: "denial_reasons ?env rs c ?cmd = []"
    if b: "test_passed EVIDENCE_MATCHED (rs_tests rs) c" "sample_subject c" for rs c
    using parts [OF b] b(2) by (simp add: gate_simps code_of_def sample_subject_def sample_criterion_def unmet_def result fields)
  have "stands (insert (''receipt-'' @ en_uuid ?env 1) {''receipt-f'', ''receipt-e'', ''receipt-d'', ''receipt-c'', ''receipt-b'', ''receipt-a''})
      (\<lambda>ts as c. as = [] \<and> test_passed VERIFIED ts c \<and> ch_verification c \<noteq> [])"
    by (rule stage [OF sample_tested, where cmd = ?cmd])
      (use body gate in \<open>auto simp: design_revision_pin_def terminal_def test_passed_def matched_stage_def\<close>)
  then show ?thesis by simp
qed

definition sample_approval :: "design_change \<Rightarrow> approval_receipt list \<Rightarrow> bool" where
  "sample_approval c as = (\<exists>a. as = [a] \<and> approval_of c (ch_version c) a)"

lemma sample_auth_fields:
  "jget sample_auth ''principal_id'' = JStr ''p''" "jget sample_auth ''auth_session_id'' = JStr ''q''"
  "jget sample_auth ''rintel_instance_id'' = JStr ''i''"
  "approval_authorization (sample_env uid status) c (Some ''o'') = Some sample_auth"
  by (simp_all add: approval_authorization_def sample_auth_def jget_def get_or_def)

lemma sample_approved:
  "stands {''receipt-h'', ''receipt-f'', ''receipt-e'', ''receipt-d'', ''receipt-c'', ''receipt-b'', ''receipt-a''}
     (\<lambda>ts as c. sample_approval c as \<and> test_passed VERIFIED ts c \<and> ch_verification c \<noteq> [])"
proof -
  let ?env = "sample_env ''i'' ''done''"
  let ?ids = "{''receipt-h'', ''receipt-f'', ''receipt-e'', ''receipt-d'', ''receipt-c'', ''receipt-b'', ''receipt-a''}"
  obtain rs c where sg: "staged rs c ?ids" and sub: "sample_subject c" and none: "rs_approvals rs = []"
    and m: "test_passed VERIFIED (rs_tests rs) c" "ch_verification c \<noteq> []"
    using sample_verified by (auto simp: stands_def)
  from sg have r: "reachable rs" and c: "repo_get rs (ch_id c) = Inr (Some c)" by (simp_all add: staged_def)
  from m have live: "\<not> terminal c" by (simp add: test_passed_def matched_stage_def terminal_def)
  let ?a = "sealed_approval ?env (approval_draft ?env rs c sample_auth ''APPROVE'')"
  let ?rs = "rs\<lparr>rs_approvals := [?a]\<rparr>"
  have run: "record_approval ?env (ch_id c) (Some ''o'') ''APPROVE'' (ch_version c) rs = Inr (?a, ?rs)"
    using live by (simp add: record_approval_def get_change_def c guard_def sample_auth_fields append_approval_receipt_def none Let_def)
  have step: "lc_step rs ?rs" by (rule lc_step.approving [OF run])
  have "staged ?rs c ?ids" by (rule staged_receipt [OF sg step]) simp_all
  moreover have "sample_approval c [?a]"
    by (simp add: sample_approval_def approval_of_def sealed_approval_def approval_draft_def sample_auth_fields)
  ultimately show ?thesis using sub m unfolding stands_def by (intro exI [of _ ?rs] exI [of _ c]) simp
qed

lemma sample_closable:
  assumes "sample_approval c (rs_approvals rs)" and "test_passed VERIFIED (rs_tests rs) c" and "ch_verification c \<noteq> []"
  shows "assert_closable rs c = Inr ()"
proof -
  from assms(1) obtain a where a: "rs_approvals rs = [a]" "approval_of c (ch_version c) a"
    by (auto simp: sample_approval_def)
  then have "approved rs c"
    by (simp add: approved_def approval_receipts_def approval_of_def)
  moreover from assms(2,3) have "filter (\<lambda>(name, ok). \<not> ok) (closable_checks c) = []"
    by (auto simp: closable_checks_def test_passed_def matched_stage_def holds_actual_def evidence_matches_def)
  ultimately show ?thesis by (simp add: assert_closable_def guard_def)
qed

lemma sample_closed:
  "stands {''receipt-j'', ''receipt-h'', ''receipt-f'', ''receipt-e'', ''receipt-d'', ''receipt-c'', ''receipt-b'', ''receipt-a''}
     (\<lambda>ts as c. ch_state c = CLOSED)"
proof -
  let ?env = "sample_env ''j'' ''done''" and ?cmd = "CloseChange ''u'' [] None"
  let ?P = "\<lambda>ts as c. sample_approval c as \<and> test_passed VERIFIED ts c \<and> ch_verification c \<noteq> []"
  have parts: "assert_closable rs c = Inr () \<and> require_actual_current ?env c = Inr () \<and> ch_state c = VERIFIED \<and>
      (\<exists>j. jindex (impl_of c) ''current_evidence_revision'' = Inr j)"
    if p: "?P (rs_tests rs) (rs_approvals rs) c" for rs c
  proof -
    from p have h: "ch_state c = VERIFIED" "holds_actual c" by (simp_all add: test_passed_def matched_stage_def)
    from holds_actual_revision [OF h(2)] have "\<exists>j. jindex (impl_of c) ''current_evidence_revision'' = Inr j"
      by (auto simp: jindex_def jget_def get_or_def split: option.splits)
    with h p sample_closable [of c rs] current_actual show ?thesis by simp
  qed
  have body: "\<exists>c' p n. close_change ?env rs c [] = Inr (c', p, n) \<and> ch_state c' = CLOSED"
    if p: "?P (rs_tests rs) (rs_approvals rs) c" for rs c
    using parts [OF p] by (auto simp: close_change_def require_state_def guard_def Let_def)
  have gate: "denial_reasons ?env rs c ?cmd = []" if p: "?P (rs_tests rs) (rs_approvals rs) c" for rs c
    using parts [OF p] by (simp add: gate_simps code_of_def)
  have "stands (insert (''receipt-'' @ en_uuid ?env 1) {''receipt-h'', ''receipt-f'', ''receipt-e'', ''receipt-d'',
      ''receipt-c'', ''receipt-b'', ''receipt-a''}) (\<lambda>ts as c. ch_state c = CLOSED)"
    by (rule stage [OF sample_approved, where cmd = ?cmd])
      (use body gate in \<open>auto simp: design_revision_pin_def terminal_def test_passed_def matched_stage_def\<close>)
  then show ?thesis by simp
qed

text \<open>A reachable state with a closed change, and one with an open change.\<close>

lemma closed_reachable:
  obtains rs c where "reachable rs" and "repo_get rs ''change-a'' = Inr (Some c)" and "ch_state c = CLOSED"
    and "sample_subject c"
  using sample_closed by (auto simp: stands_def staged_def sample_subject_def)

lemma open_reachable:
  obtains rs c where "reachable rs" and "repo_get rs ''change-a'' = Inr (Some c)" and "ch_state c = OPEN"
    and "rc_id ` set (rs_receipts rs) = {''receipt-a''}" and "lc_step empty_repo rs"
proof -
  obtain c rs where op: "open_change (sample_env ''a'' ''pending'') ''r'' ''s'' ''i'' sample_scope [sample_criterion] ''u''
      None None empty_repo = Inr (c, rs)" and c: "ch_state c = OPEN" "sample_subject c"
    and sg: "staged rs c {''receipt-a''}"
    using sample_opened by blast
  have "lc_step empty_repo rs"
    by (rule lc_step.opened [OF op]) (simp add: check_criterion_def sample_criterion_def)
  with that [of rs c] sg c show thesis by (simp add: staged_def sample_subject_def)
qed

lemma open_step:
  obtains rs c rs' c' where "reachable rs" and "repo_get rs ''change-a'' = Inr (Some c)" and "ch_state c = OPEN"
    and "apply_command (sample_env ''b'' ''done'') ''change-a'' (AbandonChange ''u'' [] None) rs = Inr (c', rs')"
    and "ch_state c' = ABANDONED" and "lc_step rs rs'"
proof -
  let ?env = "sample_env ''b'' ''done''" and ?cmd = "AbandonChange ''u'' [] None"
  obtain c rs where sg: "staged rs c {''receipt-a''}" and st: "ch_state c = OPEN" and sub: "sample_subject c"
    using sample_opened by blast
  have adm: "admitted ?env rs c ?cmd = Inr ()" by (rule admittedI) (simp_all add: gate_simps st)
  have run: "run_command ?env rs c ?cmd = Inr ((bump ?env c)\<lparr>ch_state := ABANDONED\<rparr>, [(''reason'', JStr [])], ''abandon'')"
    by (simp add: abandon_change_def)
  from staged_command [OF sg adm run] obtain rs' where "lc_step rs rs'"
    and "apply_command ?env (ch_id c) ?cmd rs = Inr ((bump ?env c)\<lparr>ch_state := ABANDONED\<rparr>, rs')" by auto
  with that [of rs c "(bump ?env c)\<lparr>ch_state := ABANDONED\<rparr>" rs'] sg st sub show thesis
    by (simp add: staged_def sample_subject_def)
qed

text \<open>A change that expects a call the published graph does not have.\<close>

definition sample_expectation :: jdict where
  "sample_expectation = [(''kind'', JStr ''CALLS''), (''source'', JStr ''f''), (''target'', JStr ''g'')]"

definition expecting :: "design_change \<Rightarrow> design_change" where
  "expecting c = c\<lparr>ch_design_revision := ch_design_revision c
     \<lparr>rv_expected_changes := [[(''expected_evidence'', JObj sample_expectation)]]\<rparr>\<rparr>"

lemma expecting_compared:
  obtains c cp where "comparison_of (sample_env ''k'' ''done'') c = Inr cp"
    and "cp_expected cp = [sample_expectation]" and "cp_rows cp = []"
proof -
  obtain c where c: "adopted c" "sample_subject c" using sample_adopted by (auto simp: stands_def)
  have "expected_facts (expecting c) = Inr [sample_expectation]"
    by (simp add: expected_facts_def expecting_def jget_def get_or_def sample_expectation_def)
  from sample_comparison [OF c this] that show thesis by (auto simp: expecting_def impl_of_def)
qed

end
