(* ===== verification/Lifecycle_Properties.thy ===== *)
theory Lifecycle_Properties
  imports Lifecycle_Sample
begin

text \<open>
  The properties of the design lifecycle: what a closed change has behind it, the ledger, the
  refinement of the abstract machine, optimistic locking, progress, and the soundness of the
  evidence the commands take in.
\<close>

section \<open>Closing\<close>

text \<open>C1: closed means proved: in every reachable state of the lifecycle, whatever the environments of its
  calls, a closed change has an acceptable design DRC, a recorded observation with outcome MATCHED
  and LVS verdict MATCH, a passed result with evidence for every required criterion, an independent
  PASS receipt on the current design and revision if it requires a test, an authenticated approval of
  exactly the version that was closed if its scope requires one, and a close receipt.\<close>

lemma closed_change_proved:
  assumes "reachable rs" and "repo_get rs cid = Inr (Some c)" and "ch_state c = CLOSED"
  shows "(\<exists>drc. ch_design_drc c = Some drc \<and> truthy (jget drc ''acceptable'')) \<and>
    (\<exists>impl ea lvs. ch_implementation c = Some impl \<and> jget impl ''observation_status'' = JStr ''recorded'' \<and>
       ch_expected_actual c = Some ea \<and> jget ea ''outcome'' = JStr ''MATCHED'' \<and>
       ch_lvs_result c = Some lvs \<and> jget lvs ''overall_status'' = JStr ''MATCH'') \<and>
    ch_verification c \<noteq> [] \<and> list_all2 passes (ch_acceptance_criteria c) (ch_verification c) \<and>
    (needs_test c \<longrightarrow> list_ex (current_pass c) (test_receipts rs cid)) \<and>
    (truthy (jget (ch_scope c) ''approval_required'') \<longrightarrow>
       list_ex (approval_of c (ch_version c - 1)) (rs_approvals rs)) \<and>
    ch_close_receipt c \<noteq> None"
proof -
  from repo_okD [OF reachable_ok [OF assms(1)] assms(2)] have g: "gated rs c" and cid: "ch_id c = cid" by auto
  from g have parts: "drc_acceptable c" "ch_implementation c \<noteq> None" "matched_evidence c" "verified_by c"
      "test_proved rs c" "ch_verification c \<noteq> []" "ch_close_receipt c \<noteq> None"
      "truthy (jget (ch_scope c) ''approval_required'') \<longrightarrow> list_ex (approval_of c (ch_version c - 1)) (rs_approvals rs)"
    by (simp_all add: gated_def past_simps assms(3))
  have "\<exists>drc. ch_design_drc c = Some drc \<and> truthy (jget drc ''acceptable'')"
    using parts(1) by (auto simp: drc_acceptable_def split: option.splits)
  moreover have "\<exists>impl ea lvs. ch_implementation c = Some impl \<and> jget impl ''observation_status'' = JStr ''recorded'' \<and>
       ch_expected_actual c = Some ea \<and> jget ea ''outcome'' = JStr ''MATCHED'' \<and>
       ch_lvs_result c = Some lvs \<and> jget lvs ''overall_status'' = JStr ''MATCH''"
    using parts(2,3) by (auto simp: matched_evidence_def recorded_def impl_of_def evidence_matches_def)
  ultimately show ?thesis
    using parts by (simp add: verified_by_def test_proved_def cid)
qed

lemma closed_change_proved_witness:
  "\<exists>rs c. reachable rs \<and> repo_get rs ''change-a'' = Inr (Some c) \<and> ch_state c = CLOSED \<and>
     list_ex (approval_of c (ch_version c - 1)) (rs_approvals rs) \<and>
     list_ex (current_pass c) (test_receipts rs ''change-a'')"
proof -
  obtain rs c where c: "reachable rs" "repo_get rs ''change-a'' = Inr (Some c)" "ch_state c = CLOSED" "sample_subject c"
    by (rule closed_reachable)
  then have "truthy (jget (ch_scope c) ''approval_required'')" "needs_test c"
    by (simp_all add: sample_subject_def sample_scope_def jget_def get_or_def needs_test_def sample_criterion_def)
  with closed_change_proved [OF c(1-3)] c show ?thesis by blast
qed

section \<open>The ledger\<close>

text \<open>C23: the receipts of a change are a complete ledger: in every reachable state they are numbered from 1
  to the version of the change without a gap, the first one has no state before it, every other one
  starts in the state the previous one ended in, and the last one ends in the state of the change.\<close>

lemma receipts_gapless:
  assumes "reachable rs" and "repo_get rs cid = Inr (Some c)"
  shows "map rc_sequence (history rs cid) = [1..ch_version c] \<and> chained None 1 (history rs cid) \<and>
    history rs cid \<noteq> [] \<and> rc_state_after (last (history rs cid)) = state_value (ch_state c)"
proof -
  have seqs: "chained s n h \<Longrightarrow> map rc_sequence h = [n..n + int (length h) - 1]" for s n h
  proof (induction h arbitrary: s n)
    case Nil
    then show ?case by simp
  next
    case (Cons r h)
    then have "map rc_sequence h = [n + 1..n + 1 + int (length h) - 1]" by (auto intro: Cons.IH)
    with Cons.prems show ?case by (simp add: upto_rec1 algebra_simps)
  qed
  from repo_okD [OF reachable_ok [OF assms(1)] assms(2)] have "ledger_ok rs c" and "ch_id c = cid" by auto
  then show ?thesis
    using seqs [of None 1 "history rs cid"] by (simp add: ledger_ok_def Let_def)
qed

lemma receipts_gapless_witness:
  "\<exists>rs c. repo_get rs ''change-a'' = Inr (Some c) \<and> map rc_sequence (history rs ''change-a'') = [1..ch_version c] \<and>
     rc_state_after (last (history rs ''change-a'')) = ''CLOSED''"
proof -
  obtain rs c where c: "reachable rs" "repo_get rs ''change-a'' = Inr (Some c)" "ch_state c = CLOSED"
    by (rule closed_reachable)
  from receipts_gapless [OF c(1,2)] c show ?thesis by auto
qed

section \<open>Ended changes\<close>

text \<open>C2: an ended change is immutable: from a reachable state on, no sequence of steps of the service changes
  a change that is closed or abandoned or adds to its history, and every further command,
  test run and approval on it is refused with an error.\<close>

lemma ended_change_immutable:
  assumes "reachable rs" and "repo_get rs cid = Inr (Some c)" and "ch_state c \<in> {CLOSED, ABANDONED}"
    and "lc_step\<^sup>*\<^sup>* rs rs'"
  shows "repo_get rs' cid = Inr (Some c) \<and> history rs' cid = history rs cid \<and>
    \<not> is_ok (apply_command env cid cmd rs') \<and> \<not> is_ok (record_test_run env cid run_id rs') \<and>
    \<not> is_ok (record_approval env cid identity decision v rs')"
proof -
  have ended: "terminal c" using assms(3) by (simp add: terminal_def)
  from steps_terminal [OF assms(4) reachable_ok [OF assms(1)] assms(2) ended]
  have c: "repo_get rs' cid = Inr (Some c)" and h: "history rs' cid = history rs cid" by auto
  have "\<not> is_ok (apply_command env cid cmd rs')"
    using c ended admitted_Inr [of env rs' c cmd]
    by (cases "admitted env rs' c cmd") (auto simp: apply_command_def get_change_def)
  moreover have "\<not> is_ok (record_test_run env cid run_id rs')" "\<not> is_ok (record_approval env cid identity decision v rs')"
    using c ended by (simp_all add: record_test_run_def record_approval_def get_change_def checked_run_def guard_def)
  ultimately show ?thesis using c h by blast
qed

lemma ended_change_immutable_witness:
  "\<exists>rs. reachable rs \<and>
     \<not> is_ok (apply_command (sample_env ''z'' ''done'') ''change-a'' (AbandonChange ''u'' [] None) rs)"
proof -
  obtain rs c where c: "reachable rs" "repo_get rs ''change-a'' = Inr (Some c)" "ch_state c = CLOSED"
    by (rule closed_reachable)
  from c(3) have ended: "ch_state c \<in> {CLOSED, ABANDONED}" by simp
  from ended_change_immutable [OF c(1,2) ended rtranclp.rtrancl_refl] c(1) show ?thesis by blast
qed

section \<open>Refinement\<close>

text \<open>C3: the service refines the abstract state machine: every step of the service from a reachable state
  leaves each existing change as it is or makes one move of the abstract machine on it, with the
  next version and its identity, scope, criteria and brief unchanged, and a change that appears is OPEN.\<close>

lemma service_refines_moves:
  assumes "reachable rs" and "lc_step rs rs'"
  shows "(case repo_get rs cid of
      Inr (Some c) \<Rightarrow> \<exists>c'. repo_get rs' cid = Inr (Some c') \<and>
        (c' = c \<or> (moves (ch_state c) (ch_state c') \<and> ch_version c' = ch_version c + 1 \<and> same_identity c c'))
    | _ \<Rightarrow> (case repo_get rs' cid of Inr (Some c') \<Rightarrow> ch_state c' = OPEN | _ \<Rightarrow> True))"
  using assms(2)
proof cases
  case (opened env repo_id base intent scope criteria actor arch flow d)
  from open_change_Inr [OF opened(1)] obtain payload where st: "ch_state d = OPEN"
    and crit: "ch_acceptance_criteria d = criteria" and
      ins: "repo_insert d (make_receipt env 2 d 1 ''open_change'' actor None payload) rs = Inr rs'" by blast
  have "criteria_ok d" using opened(2) crit by (simp add: criteria_ok_def)
  note get = repo_get_insert [OF this ins, of cid]
  from repo_insert_Inr [OF ins] have none: "map_of (rs_changes rs) (ch_id d) = None" by blast
  show ?thesis
  proof (cases "cid = ch_id d")
    case True
    with none have "repo_get rs cid = Inr None" by (simp add: repo_get_def)
    with True get st show ?thesis by simp
  next
    case False
    with get show ?thesis by (auto split: sum.splits option.splits)
  qed
next
  case (commanded env k cmd d)
  from commanded obtain b payload name where b: "repo_get rs k = Inr (Some b)" and adm: "admitted env rs b cmd = Inr ()"
    and run: "run_command env rs b cmd = Inr (d, payload, name)"
    and up: "repo_update (ch_version b) d (make_receipt env 1 d (ch_version b + 1) name
      (actor_of cmd) (Some (state_value (ch_state b))) payload) rs = Inr rs'"
    by (rule apply_command_Inr)
  from repo_okD [OF reachable_ok [OF assms(1)] b] have "criteria_ok b" "ch_id b = k" by auto
  with run_command_identity [OF run] have d: "criteria_ok d" "ch_id d = k" "same_identity b d" "ch_version d = ch_version b + 1"
    by (auto simp: same_identity_def criteria_ok_def)
  note get = repo_get_update [OF d(1) up, of cid]
  have mv: "moves (ch_state b) (ch_state d)" using run_command_moves [OF run] admitted_Inr [OF adm] by blast
  show ?thesis
  proof (cases "cid = k")
    case True
    with b get d mv show ?thesis by simp
  next
    case False
    with get d show ?thesis by (auto split: sum.splits option.splits)
  qed
next
  case (tested env k run_id t)
  then have "repo_get rs' cid = repo_get rs cid"
    using record_test_run_Inr [OF tested] by (simp add: repo_get_def)
  then show ?thesis by (auto split: sum.splits option.splits)
next
  case (approving env k identity decision v a)
  then have "repo_get rs' cid = repo_get rs cid"
    using record_approval_Inr [OF approving] by (simp add: repo_get_def)
  then show ?thesis by (auto split: sum.splits option.splits)
qed

lemma service_refines_moves_witness:
  "\<exists>rs rs' c c'. lc_step rs rs' \<and> repo_get rs ''change-a'' = Inr (Some c) \<and>
     repo_get rs' ''change-a'' = Inr (Some c') \<and> ch_state c = OPEN \<and> (c' = c \<or> moves OPEN (ch_state c'))"
proof -
  obtain rs c rs' c' where r: "reachable rs" "repo_get rs ''change-a'' = Inr (Some c)" "ch_state c = OPEN" "lc_step rs rs'"
    by (rule open_step)
  from service_refines_moves [OF r(1,4), of "''change-a''"] r show ?thesis by auto
qed

section \<open>Optimistic locking\<close>

text \<open>Of two writers only the first wins: once a command on a change has succeeded, a command prepared
  against the version before it is refused as a stale preflight, and so is the write of any other
  result computed from that version.\<close>

lemma second_writer_refused:
  assumes "reachable rs" and "apply_command env cid cmd rs = Inr (c', rs')"
    and "cm_expected_version cmd' = Some (ch_version c' - 1)"
  shows "apply_command env' cid cmd' rs' = Inl (DesignLifecycleError ''stale_preflight'' ''stale preflight''
      [(''change_version'', JInt (ch_version c'))]) \<and>
    \<not> is_ok (repo_update (ch_version c' - 1) (d\<lparr>ch_id := cid\<rparr>) receipt rs')"
proof -
  note ok = reachable_ok [OF assms(1)]
  from assms(2) obtain c payload name where c: "repo_get rs cid = Inr (Some c)"
    and run: "run_command env rs c cmd = Inr (c', payload, name)"
    and up: "repo_update (ch_version c) c' (make_receipt env 1 c' (ch_version c + 1) name
      (actor_of cmd) (Some (state_value (ch_state c))) payload) rs = Inr rs'"
    by (rule apply_command_Inr)
  from repo_okD [OF ok c] run_command_identity [OF run]
  have c': "ch_id c' = cid" "ch_version c' = ch_version c + 1" "criteria_ok c'" "ch_repo_id c' = ch_repo_id c"
    by (auto simp: same_identity_def criteria_ok_def)
  then have "storable rs c'" using c by (simp add: storable_def)
  then have lost: "repo_update (ch_version c) (d\<lparr>ch_id := cid\<rparr>) receipt rs' \<noteq> Inr rs''" for rs''
    using ok c' by (intro changes.no_lost_update [OF _ _ up]) (simp_all add: repo_ok_def)
  have "repo_get rs' cid = Inr (Some c')" using repo_get_update [OF c'(3) up] c' by simp
  then have "apply_command env' cid cmd' rs' = Inl (DesignLifecycleError ''stale_preflight'' ''stale preflight''
      [(''change_version'', JInt (ch_version c'))])"
    using assms(3) by (simp add: apply_command_def get_change_def admitted_def denial_reasons_def replace_char_def)
  moreover have "\<not> is_ok (repo_update (ch_version c' - 1) (d\<lparr>ch_id := cid\<rparr>) receipt rs')"
    using lost is_okE c' by fastforce
  ultimately show ?thesis by blast
qed

lemma second_writer_refused_witness:
  "\<exists>rs c' rs'. apply_command (sample_env ''b'' ''done'') ''change-a'' (AbandonChange ''u'' [] None) rs = Inr (c', rs') \<and>
     \<not> is_ok (apply_command (sample_env ''z'' ''done'') ''change-a''
       (CloseChange ''v'' [] (Some (ch_version c' - 1))) rs')"
proof -
  obtain rs c rs' c' where r: "reachable rs"
    and ap: "apply_command (sample_env ''b'' ''done'') ''change-a'' (AbandonChange ''u'' [] None) rs = Inr (c', rs')"
    by (rule open_step)
  from second_writer_refused [OF r ap, of "CloseChange ''v'' [] (Some (ch_version c' - 1))"
    "sample_env ''z'' ''done''"]
  have "\<not> is_ok (apply_command (sample_env ''z'' ''done'') ''change-a''
       (CloseChange ''v'' [] (Some (ch_version c' - 1))) rs')" by simp
  with ap show ?thesis by blast
qed

section \<open>Progress\<close>

text \<open>C24: no change gets stuck: in every reachable state a change that has not ended can be abandoned at once,
  whatever its state and its environment, as long as the new receipt identifier is unused.\<close>

lemma live_change_abandonable:
  assumes "reachable rs" and "repo_get rs cid = Inr (Some c)" and "ch_state c \<notin> {CLOSED, ABANDONED}"
    and "''receipt-'' @ en_uuid env 1 \<notin> rc_id ` set (rs_receipts rs)"
  shows "\<exists>c' rs'. apply_command env cid (AbandonChange actor reason None) rs = Inr (c', rs') \<and>
    ch_state c' = ABANDONED \<and> reachable rs'"
proof -
  let ?cmd = "AbandonChange actor reason None"
  have live: "\<not> terminal c" using assms(3) by (simp add: terminal_def)
  then have "denial_reasons env rs c ?cmd = []"
    by (simp add: denial_reasons_def command_reasons_def preflight_actions_def action_states_def Let_def)
  then have adm: "admitted env rs c ?cmd = Inr ()"
    using live by (simp add: admitted_def design_revision_pin_def guard_def)
  have run: "run_command env rs c ?cmd = Inr ((bump env c)\<lparr>ch_state := ABANDONED\<rparr>, [(''reason'', JStr reason)], ''abandon'')"
    by (simp add: abandon_change_def)
  from apply_command_succeeds [OF reachable_ok [OF assms(1)] assms(2) adm run assms(4)]
  obtain rs' where rs': "apply_command env cid ?cmd rs = Inr ((bump env c)\<lparr>ch_state := ABANDONED\<rparr>, rs')" by blast
  moreover have "reachable rs'"
    using assms(1) lc_step.commanded [OF rs'] by (auto simp: reachable_def)
  ultimately show ?thesis by auto
qed

lemma live_change_abandonable_witness:
  "\<exists>rs c' rs'. apply_command (sample_env ''z'' ''done'') ''change-a'' (AbandonChange ''u'' ''late'' None) rs = Inr (c', rs') \<and>
     ch_state c' = ABANDONED \<and> reachable rs'"
proof -
  obtain rs c where r: "reachable rs" "repo_get rs ''change-a'' = Inr (Some c)" "ch_state c = OPEN"
    and ids: "rc_id ` set (rs_receipts rs) = {''receipt-a''}"
    by (rule open_reachable)
  have "ch_state c \<notin> {CLOSED, ABANDONED}" "''receipt-'' @ en_uuid (sample_env ''z'' ''done'') 1 \<notin> rc_id ` set (rs_receipts rs)"
    using r(3) by (simp_all add: ids)
  from live_change_abandonable [OF r(1,2) this] show ?thesis by blast
qed

section \<open>Persistence\<close>

text \<open>C25: a change survives persistence: the aggregate a row stores is read back as the same change, every
  field, revision, criterion and brief included.\<close>

lemma change_roundtrip:
  assumes "list_all (\<lambda>a. check_criterion a = Inr a) (ch_acceptance_criteria c)"
  shows "change_from_dict (change_to_dict c) = Inr c"
  using assms by (intro aggregate_back) (simp add: criteria_ok_def)

lemma change_roundtrip_witness:
  "\<exists>c. ch_state c = CLOSED \<and> ch_acceptance_criteria c = [sample_criterion] \<and>
     change_from_dict (change_to_dict c) = Inr c"
proof -
  obtain rs c where c: "ch_state c = CLOSED" "sample_subject c"
    by (rule closed_reachable)
  then have criteria: "list_all (\<lambda>a. check_criterion a = Inr a) (ch_acceptance_criteria c)"
    by (simp add: sample_subject_def check_criterion_def sample_criterion_def)
  from change_roundtrip [OF criteria] c show ?thesis by (auto simp: sample_subject_def)
qed

section \<open>Evidence\<close>

text \<open>C19: the comparison is honest about absence: MATCHED says every expected fact is an edge of the
  published graph at the pinned revision and every searched edge was expected or is in the base;
  MISSING_IMPLEMENTATION says a fact is missing and every missing one has a certificate that applies;
  one missing fact without such a certificate makes the outcome UNKNOWN.\<close>

lemma evaluation_honest:
  assumes "evaluate_change env c = Inr ea"
  shows "\<exists>cp. comparison_of env c = Inr cp \<and> jget ea ''outcome'' = JStr (outcome_value (outcome_of env c cp)) \<and>
    (let expected = fact_key ` set (cp_expected cp); searched = row_key ` set (cp_rows cp);
         base = row_key ` set (en_all_edges env (ch_repo_id c) (ch_base_canonical_revision c));
         certified = (\<lambda>k. \<exists>cert. certificates_for env c cp k \<noteq> [] \<and> hd (certificates_for env c cp k) = cert \<and>
           fst (en_applicable_complete env cert (ch_repo_id c) (cp_revision cp) (get_or (expected_by cp) k [])))
     in set (cp_rows cp) \<subseteq> set (en_all_edges env (ch_repo_id c) (cp_revision cp)) \<and>
      (case outcome_of env c cp of
         MATCHED \<Rightarrow> expected \<subseteq> searched \<and> searched - expected \<subseteq> base
       | MISSING_IMPLEMENTATION \<Rightarrow> \<not> expected \<subseteq> searched \<and> Ball (expected - searched) certified
       | UNEXPECTED_IMPLEMENTATION \<Rightarrow> expected \<subseteq> searched \<and> \<not> searched - expected \<subseteq> base
       | UNKNOWN_OUTCOME \<Rightarrow> \<not> Ball (expected - searched) certified))"
proof -
  from assms obtain cp where cp: "comparison_of env c = Inr cp" and ea: "ea = evaluation_json env c cp"
    by (auto simp: evaluate_change_def and_then_Inr)
  have out: "jget ea ''outcome'' = JStr (outcome_value (outcome_of env c cp))"
    by (simp add: ea evaluation_json_def Let_def jget_def get_or_def)
  from comparison_of_Inr [OF cp] have base: "set (cp_base_keys cp) =
      row_key ` set (en_all_edges env (ch_repo_id c) (ch_base_canonical_revision c))"
    and rows: "set (cp_rows cp) \<subseteq> set (en_all_edges env (ch_repo_id c) (cp_revision cp))"
    by (auto simp: graph_rows_def)
  have app: "fst (applicability env c cp k) \<longleftrightarrow> (\<exists>cert. certificates_for env c cp k \<noteq> [] \<and>
      hd (certificates_for env c cp k) = cert \<and>
      fst (en_applicable_complete env cert (ch_repo_id c) (cp_revision cp) (get_or (expected_by cp) k [])))" for k
    by (cases "certificates_for env c cp k") (simp_all add: applicability_def)
  show ?thesis
    using cp out rows outcome_table [of cp env c]
    unfolding missing_set unexpected_set base app Let_def
    by (cases "outcome_of env c cp") auto
qed

lemma evaluation_honest_witness:
  "\<exists>c ea. evaluate_change (sample_env ''k'' ''done'') c = Inr ea \<and> jget ea ''outcome'' = JStr ''UNKNOWN''"
proof -
  let ?env = "sample_env ''k'' ''done''"
  obtain c cp where cp: "comparison_of ?env c = Inr cp" "cp_expected cp = [sample_expectation]" "cp_rows cp = []"
    by (rule expecting_compared)
  then have ev: "evaluate_change ?env c = Inr (evaluation_json ?env c cp)" by (simp add: evaluate_change_def)
  have none: "certificates_for ?env c cp k = []" for k by (simp add: certificates_for_def sample_env_def)
  from evaluation_honest [OF ev] cp have "jget (evaluation_json ?env c cp) ''outcome'' = JStr ''UNKNOWN''"
    by (cases "outcome_of ?env c cp") (auto simp: none ev Let_def)
  with ev show ?thesis by blast
qed

text \<open>What a finished job and its published output have passed.\<close>

lemma finished_job_done:
  assumes "finished_job env c job_id = Inr result"
  obtains job where "index_job env (JStr job_id) (ch_repo_id c) = Inr job" "jget job ''status'' = JStr ''done''"
    "result = jobj job ''result''" "jget result ''repo_id'' = JStr (ch_repo_id c)" "truthy (jget result ''run_id'')"
  using assms unfolding finished_job_def Let_def and_then_Inr guard_Inr by auto

lemma published_output_of:
  assumes "published_output env c result = Inr revision"
  obtains snap where "en_snapshot env revision = Some snap" "sn_repo_id snap = ch_repo_id c"
    "sn_publication_status snap = Some ''published''" "jget result ''snapshot_id'' = JStr revision"
    "JStr revision = jget (linked_job c) ''input_canonical_revision'' \<or>
     (jget (sn_meta snap) ''run_id'' = jget result ''run_id'' \<and>
      jopt JStr (sn_parent_id snap) = jget (linked_job c) ''input_canonical_revision'')"
proof -
  from assms obtain snap where at: "snapshot_at env (jget result ''snapshot_id'') = Some (revision, snap)"
    and ok: "sn_repo_id snap = ch_repo_id c" "sn_publication_status snap = Some ''published''"
      "JStr revision = jget (linked_job c) ''input_canonical_revision'' \<or>
       (jget (sn_meta snap) ''run_id'' = jget result ''run_id'' \<and>
        jopt JStr (sn_parent_id snap) = jget (linked_job c) ''input_canonical_revision'')"
    by (auto simp: published_output_def and_then_Inr split: option.splits)
  from at have "en_snapshot env revision = Some snap" "jget result ''snapshot_id'' = JStr revision"
    by (auto simp: snapshot_at_def split: json.splits if_splits)
  with ok that show thesis by blast
qed

text \<open>C20: ACTUAL advances only by proof: when an index job is adopted, it is the job requested for the current design
  revision and not adopted before, its record says done with a result for the repository and a run; the
  snapshot the result names is published, active and of the repository, and is either the revision the
  request started from or its successor made by the same run; the recorded revision is that snapshot, and
  every recorded fact is an edge of its graph with no claim of truth of its own.\<close>

lemma adopted_evidence_canonical:
  assumes "adopt_index_job env c job_id selectors = Inr (c', payload, name)"
  shows "\<exists>impl job revision snap evidence. ch_implementation c' = Some impl \<and>
    jget (linked_job c) ''requested_design_revision'' = JStr (rv_id (ch_design_revision c)) \<and>
    jget (linked_job c) ''job_id'' = JStr job_id \<and> \<not> truthy (jget (linked_job c) ''adopted_at'') \<and>
    index_job env (JStr job_id) (ch_repo_id c) = Inr job \<and> jget job ''status'' = JStr ''done'' \<and>
    jget (jobj job ''result'') ''repo_id'' = JStr (ch_repo_id c) \<and> truthy (jget (jobj job ''result'') ''run_id'') \<and>
    jget (jobj job ''result'') ''snapshot_id'' = JStr revision \<and>
    en_snapshot env revision = Some snap \<and> sn_repo_id snap = ch_repo_id c \<and>
    sn_publication_status snap = Some ''published'' \<and> active_revision env (ch_repo_id c) = JStr revision \<and>
    (JStr revision = jget (linked_job c) ''input_canonical_revision'' \<or>
     (jget (sn_meta snap) ''run_id'' = jget (jobj job ''result'') ''run_id'' \<and>
      jopt JStr (sn_parent_id snap) = jget (linked_job c) ''input_canonical_revision'')) \<and>
    jget impl ''current_evidence_revision'' = JStr revision \<and>
    jget impl ''observation_status'' = JStr ''recorded'' \<and> jget impl ''actual_evidence'' = objs evidence \<and>
    list_all (\<lambda>x. fact_key x \<in> row_key ` set (en_all_edges env (ch_repo_id c) revision) \<and>
      jget x ''truth_class'' = JStr ''UNKNOWN'' \<and> jget x ''coverage'' = JStr ''UNKNOWN'') evidence"
proof -
  from assms obtain result revision impl0 where out: "job_output env c job_id = Inr (result, revision)"
    and im: "implementation_from_index_result env c result revision selectors = Inr impl0"
    and c': "ch_implementation c' = Some (dict_set ''index_job''
      (JObj (dict_set ''adopted_at'' (JInt (en_clock env 0)) (linked_job c))) impl0)"
    by (auto simp: adopt_index_job_def and_then_Inr Let_def)
  from im obtain evidence files where canon: "canonicalize_actual_evidence env (ch_repo_id c) revision selectors = Inr evidence"
    and impl0: "impl0 = recorded_result (impl_of c) result files revision evidence"
    by (auto simp: implementation_from_index_result_def and_then_Inr)
  from job_output_Inr [OF out] have fin: "finished_job env c job_id = Inr result"
    and pub: "published_output env c result = Inr revision" .
  from finished_job_done [OF fin] obtain job where job: "index_job env (JStr job_id) (ch_repo_id c) = Inr job"
    "jget job ''status'' = JStr ''done''" "result = jobj job ''result''" "jget result ''repo_id'' = JStr (ch_repo_id c)"
    "truthy (jget result ''run_id'')" .
  from published_output_of [OF pub] obtain snap where snap: "en_snapshot env revision = Some snap" "sn_repo_id snap = ch_repo_id c"
    "sn_publication_status snap = Some ''published''" "jget result ''snapshot_id'' = JStr revision"
    "JStr revision = jget (linked_job c) ''input_canonical_revision'' \<or>
     (jget (sn_meta snap) ''run_id'' = jget result ''run_id'' \<and>
      jopt JStr (sn_parent_id snap) = jget (linked_job c) ''input_canonical_revision'')" .
  have "list_all (\<lambda>x. fact_key x \<in> row_key ` set (en_all_edges env (ch_repo_id c) revision) \<and>
      jget x ''truth_class'' = JStr ''UNKNOWN'' \<and> jget x ''coverage'' = JStr ''UNKNOWN'') evidence"
    using map_err_member [OF canon [unfolded canonicalize_actual_evidence_def]] canonical_claim_Inr
    by (fastforce simp: list_all_iff)
  with finished_job_Inr [OF fin] published_output_Inr(2) [OF pub] job snap show ?thesis
    unfolding c' impl0
    by (intro exI [of _ job] exI [of _ revision] exI [of _ snap] exI [of _ evidence] conjI
        exI [of _ "dict_set ''index_job'' _ (recorded_result _ _ _ _ _)"])
      (rule refl, simp_all only: jget_dict_set recorded_result_fields refl simp_thms if_False char.inject list.inject list.distinct)
qed

lemma adopted_evidence_canonical_witness:
  "\<exists>c c' p n. adopt_index_job (sample_env ''e'' ''done'') c ''j'' [] = Inr (c', p, n) \<and>
     jget (impl_of c') ''observation_status'' = JStr ''recorded''"
proof -
  obtain c where c: "requested c" "sample_subject c" using sample_requested by (auto simp: stands_def)
  from sample_adoption [OF c] obtain c' p n where run: "adopt_index_job (sample_env ''e'' ''done'') c ''j'' [] = Inr (c', p, n)"
    by blast
  from adopted_evidence_canonical [OF run] obtain impl where "ch_implementation c' = Some impl"
    and "jget impl ''observation_status'' = JStr ''recorded''" by blast
  then have "jget (impl_of c') ''observation_status'' = JStr ''recorded''" by (simp add: impl_of_def)
  with run show ?thesis by blast
qed

end
