(* ===== verification/Coverage_Audit.thy ===== *)
theory Coverage_Audit
  imports Design_Drc
begin

text \<open>
  The audit behind a certificate of absence (\<open>coverage_authority/audit.py\<close>): one walk over the
  syntax tree of a translation unit that proves every call in one C function body to be a direct
  call that the provider reported and the canonical graph holds.

  A syntax tree is the JSON dictionary the compiler prints. Whether a file name of a location is the
  audited source (a question to the file system) is the parameter \<open>in_tu\<close>, and the resolution of a
  function name to a canonical identity is \<open>resolve\<close>, as in the code. A malformed tree raises
  \<open>TypeError\<close>.
\<close>

section \<open>Walking a tree\<close>

definition mappings :: "json list \<Rightarrow> jdict list" where
  "mappings xs = List.map_filter (\<lambda>j. case j of JObj d \<Rightarrow> Some d | _ \<Rightarrow> None) xs"

definition children :: "jdict \<Rightarrow> ev_error + jdict list" where
  "children d = and_then (py_list (get_or d ''inner'' (JList []))) (\<lambda>xs. Inr (mappings xs))"

lemma map_err_cong [fundef_cong]:
  "xs = ys \<Longrightarrow> (\<And>x. x \<in> set ys \<Longrightarrow> f x = g x) \<Longrightarrow> map_err f xs = map_err g ys"
  by (induction ys arbitrary: xs) auto

lemma and_then_cong [fundef_cong]:
  "m = n \<Longrightarrow> (\<And>a. n = Inr a \<Longrightarrow> f a = g a) \<Longrightarrow> and_then m f = and_then n g"
  by (cases n) auto

lemma mappings_member: "d \<in> set (mappings xs) \<longleftrightarrow> JObj d \<in> set xs"
proof -
  have "(case j of JObj d \<Rightarrow> Some d | _ \<Rightarrow> None) = Some d \<longleftrightarrow> j = JObj d" for j
    by (cases j) auto
  then show ?thesis by (auto simp: mappings_def set_map_filter)
qed

lemma children_inner:
  assumes "children d = Inr cs" and "c \<in> set cs"
  shows "\<exists>xs. map_of d ''inner'' = Some (JList xs) \<and> JObj c \<in> set xs"
  using assms
  by (auto simp: children_def and_then_Inr py_list_def iterate_def get_or_def mappings_member
      split: option.splits json.splits prod.splits)

lemma child_smaller:
  assumes "children d = Inr cs" and "c \<in> set cs"
  shows "size (JObj c) < size (JObj d)"
proof -
  from children_inner [OF assms] obtain xs where "map_of d ''inner'' = Some (JList xs)" and c: "JObj c \<in> set xs"
    by blast
  then have "(''inner'', JList xs) \<in> set d" by (simp add: map_of_SomeD)
  then have "size (JList xs) < size (JObj d)"
    by (simp add: size_list_estimation' [where f = "size_prod (\<lambda>_. 0) size"] less_Suc_eq_le)
  moreover have "size (JObj c) < size (JList xs)"
    using c by (simp add: size_list_estimation' less_Suc_eq_le)
  ultimately show ?thesis by simp
qed

function walk :: "jdict \<Rightarrow> ev_error + jdict list" where
  "walk d = and_then (children d) (\<lambda>cs. and_then (map_err walk cs) (\<lambda>ts. Inr (d # concat ts)))"
  by pat_completeness auto
termination
  by (relation "measure (\<lambda>d. size (JObj d))") (use child_smaller in auto)

declare walk.simps [simp del]

text \<open>The nodes below a node.\<close>

inductive inside :: "jdict \<Rightarrow> jdict \<Rightarrow> bool" where
  here: "inside d d"
| below: "children d = Inr cs \<Longrightarrow> c \<in> set cs \<Longrightarrow> inside c e \<Longrightarrow> inside d e"

lemma walk_inside: "walk d = Inr ns \<Longrightarrow> e \<in> set ns \<longleftrightarrow> inside d e"
proof (induction d arbitrary: ns rule: walk.induct)
  case (1 d)
  from "1.prems" obtain cs ts where cs: "children d = Inr cs" and ts: "map_err walk cs = Inr ts"
    and ns: "ns = d # concat ts"
    by (subst (asm) walk.simps) (auto simp: and_then_Inr)
  have child: "e \<in> set t \<longleftrightarrow> inside c e" if "c \<in> set cs" "walk c = Inr t" for c t
    using "1.IH" [OF cs that] .
  show ?case
  proof
    assume "e \<in> set ns"
    then consider "e = d" | t where "t \<in> set ts" "e \<in> set t" using ns by auto
    then show "inside d e"
    proof cases
      case 1
      then show ?thesis by (simp add: inside.here)
    next
      case 2
      with map_err_member [OF ts] obtain c where "c \<in> set cs" "walk c = Inr t" by blast
      with child 2 cs show ?thesis by (blast intro: inside.below)
    qed
  next
    assume "inside d e"
    then show "e \<in> set ns"
    proof cases
      case here
      then show ?thesis by (simp add: ns)
    next
      case (below cs' c)
      with cs have "c \<in> set cs" by simp
      with map_err_source [OF ts] obtain t where "t \<in> set ts" "walk c = Inr t" by blast
      with child below cs show ?thesis by (auto simp: ns)
    qed
  qed
qed

section \<open>The audit\<close>

definition remove_prefix :: "string \<Rightarrow> string \<Rightarrow> string" where
  "remove_prefix p s = (if starts_with p s then drop (length p) s else s)"

definition contains :: "string \<Rightarrow> string \<Rightarrow> bool" where
  "contains p s = list_ex (\<lambda>i. starts_with p (drop i s)) [0..<Suc (length s)]"

definition audited_name :: "string \<Rightarrow> string option \<Rightarrow> string" where
  "audited_name subject_id subject_name =
     (case subject_name of
        Some n \<Rightarrow> (if n = [] then remove_prefix ''node:FUNCTION:'' subject_id else n)
      | None \<Rightarrow> remove_prefix ''node:FUNCTION:'' subject_id)"

text \<open>The findings of the compiler.\<close>

definition result_reasons :: "json \<Rightarrow> ev_error + string list" where
  "result_reasons j = (case j of
     JObj r \<Rightarrow> (case hashed (jget r ''level'') of
         Inl _ \<Rightarrow> Inl TypeError
       | Inr level \<Rightarrow> Inr (if level \<in> {JStr ''error'', JStr ''fatal''} then [''clang_error_diagnostic''] else []))
   | _ \<Rightarrow> Inr [''clang_error_diagnostic''])"

definition run_reasons :: "json \<Rightarrow> ev_error + string list" where
  "run_reasons j = (case j of
     JObj run \<Rightarrow> and_then (py_list (get_or run ''results'' (JList []))) (\<lambda>results.
       and_then (map_err result_reasons results) (\<lambda>rs. Inr (concat rs)))
   | _ \<Rightarrow> Inr [''malformed_diagnostic_run''])"

definition diagnostic_reasons :: "jdict \<Rightarrow> ev_error + string list" where
  "diagnostic_reasons diagnostics =
     and_then (py_list (get_or diagnostics ''runs'' (JList []))) (\<lambda>runs.
     and_then (map_err run_reasons runs) (\<lambda>rs. Inr (concat rs)))"

text \<open>What one node of the tree contributes to the bodies of the subject: a reason, or its compound
  statements when it declares the subject in the audited source itself.\<close>

definition is_integer :: "json \<Rightarrow> bool" where
  "is_integer j = (case j of JInt i \<Rightarrow> True | JBool b \<Rightarrow> True | _ \<Rightarrow> False)"

definition located_in :: "(string \<Rightarrow> bool) \<Rightarrow> jdict \<Rightarrow> bool" where
  "located_in in_tu node = (case jget node ''loc'' of
     JObj loc \<Rightarrow> map_of loc ''includedFrom'' = None \<and>
       (case jget loc ''file'' of JStr f \<Rightarrow> in_tu f | _ \<Rightarrow> is_integer (jget loc ''offset''))
   | _ \<Rightarrow> False)"

definition compounds :: "jdict \<Rightarrow> ev_error + jdict list" where
  "compounds node = and_then (children node) (\<lambda>cs.
     Inr (filter (\<lambda>c. jget c ''kind'' = JStr ''CompoundStmt'') cs))"

definition declares :: "string \<Rightarrow> jdict \<Rightarrow> bool" where
  "declares name node = (jget node ''kind'' = JStr ''FunctionDecl'' \<and> jget node ''name'' = JStr name)"

definition subject_bodies :: "(string \<Rightarrow> bool) \<Rightarrow> string \<Rightarrow> jdict \<Rightarrow> ev_error + string list \<times> jdict list" where
  "subject_bodies in_tu name node =
     (if \<not> declares name node then Inr ([], [])
      else if jget node ''storageClass'' = JStr ''static''
        then Inr ([''static_subject_outside_first_issuer''], [])
      else if \<not> located_in in_tu node then Inr ([], [])
      else and_then (compounds node) (\<lambda>bs. Inr ([], bs)))"

text \<open>The function a call expression names: the one declaration its callee expression refers to.\<close>

definition references :: "jdict list \<Rightarrow> json list" where
  "references nodes = map (\<lambda>n. jget n ''referencedDecl'') (filter (\<lambda>n. jget n ''kind'' = JStr ''DeclRefExpr'') nodes)"

definition referenced_function :: "json list \<Rightarrow> string option" where
  "referenced_function refs = (case refs of
     [JObj ref] \<Rightarrow> (case jget ref ''name'' of
         JStr n \<Rightarrow> if jget ref ''kind'' = JStr ''FunctionDecl'' then Some n else None
       | _ \<Rightarrow> None)
   | _ \<Rightarrow> None)"

definition plain_location :: "jdict \<Rightarrow> bool" where
  "plain_location node = (case jget node ''range'' of
     JObj r \<Rightarrow> (case jget r ''begin'' of JObj b \<Rightarrow> map_of b ''expansionLoc'' = None | _ \<Rightarrow> False)
   | _ \<Rightarrow> False)"

definition callee_expression :: "jdict \<Rightarrow> jdict option" where
  "callee_expression node = (case jget node ''inner'' of
     JList (JObj callee # rest) \<Rightarrow> Some callee | _ \<Rightarrow> None)"

definition call_target :: "(string \<Rightarrow> string option) \<Rightarrow> jdict \<Rightarrow> ev_error + string list \<times> string list" where
  "call_target resolve node =
     (if \<not> plain_location node then Inr ([''macro_or_missing_call_location''], [])
      else case callee_expression node of
        None \<Rightarrow> Inr ([''call_callee_shape_unknown''], [])
      | Some callee \<Rightarrow> and_then (walk callee) (\<lambda>ns.
          case referenced_function (references ns) of
            None \<Rightarrow> Inr ([''indirect_or_ambiguous_callee''], [])
          | Some name \<Rightarrow> (case resolve name of
              None \<Rightarrow> Inr ([''direct_target_identity_unresolved''], [])
            | Some target \<Rightarrow> Inr ([], [target]))))"

definition other_calls :: "json set" where
  "other_calls = {JStr ''CXXMemberCallExpr'', JStr ''CXXOperatorCallExpr'', JStr ''CUDAKernelCallExpr''}"

definition audit_node :: "(string \<Rightarrow> string option) \<Rightarrow> jdict \<Rightarrow> ev_error + string list \<times> string list" where
  "audit_node resolve node =
     (case hashed (jget node ''kind'') of
        Inl _ \<Rightarrow> Inl TypeError
      | Inr kind \<Rightarrow>
          if kind \<in> other_calls then Inr ([''unsupported_call_expression_kind''], [])
          else if kind \<noteq> JStr ''CallExpr'' then Inr ([], [])
          else call_target resolve node)"

record audit =
  au_exhaustive :: bool
  au_reasons :: "string list"
  au_direct :: "string list"

definition call_edge :: "string \<Rightarrow> string \<Rightarrow> string" where
  "call_edge subject_id target = ''edge:CALLS:'' @ subject_id @ '':'' @ target"

definition staged_calls :: "string \<Rightarrow> evidence_candidate list \<Rightarrow> string list" where
  "staged_calls subject_id candidates = map (\<lambda>c. py_str (ec_object c))
     (filter (\<lambda>c. ec_subject c = subject_id \<and> ec_predicate c = ''CALL'' \<and> ec_resolution c = EXACT) candidates)"

text \<open>The comparison of the calls of the body with the candidates and the graph.\<close>

definition compared_reasons :: "string \<Rightarrow> evidence_candidate list \<Rightarrow> string set \<Rightarrow> string list \<Rightarrow> string list" where
  "compared_reasons subject_id candidates edges direct =
     (if mset (staged_calls subject_id candidates) \<noteq> mset direct
        then [''ast_direct_calls_differ_from_rpp_candidates''] else []) @
     (if list_ex (\<lambda>t. call_edge subject_id t \<notin> edges) direct
        then [''compiler_direct_call_absent_from_canonical_graph''] else [])"

definition name_reasons :: "string \<Rightarrow> string \<Rightarrow> string list" where
  "name_reasons name subject_id =
     (if name = [] \<or> name = subject_id \<or> contains ''::'' name then [''subject_not_global_c_function''] else [])"

definition audit_body :: "(string \<Rightarrow> string option) \<Rightarrow> string \<Rightarrow> evidence_candidate list \<Rightarrow> string set \<Rightarrow>
    string list \<Rightarrow> jdict \<Rightarrow> ev_error + audit" where
  "audit_body resolve subject_id candidates edges reasons body =
     and_then (walk body) (\<lambda>ns.
     and_then (map_err (audit_node resolve) ns) (\<lambda>calls.
       let direct = concat (map snd calls);
           all = reasons @ concat (map fst calls) @ compared_reasons subject_id candidates edges direct
       in Inr \<lparr>au_exhaustive = (all = []), au_reasons = sort (remdups all), au_direct = direct\<rparr>))"

definition audit_direct_body :: "(string \<Rightarrow> bool) \<Rightarrow> (string \<Rightarrow> string option) \<Rightarrow> jdict \<Rightarrow> jdict \<Rightarrow> string \<Rightarrow>
    evidence_candidate list \<Rightarrow> string set \<Rightarrow> string option \<Rightarrow> ev_error + audit" where
  "audit_direct_body in_tu resolve ast diagnostics subject_id candidates edges subject_name =
     and_then (diagnostic_reasons diagnostics) (\<lambda>drs.
     and_then (walk ast) (\<lambda>nodes.
     let name = audited_name subject_id subject_name in
     and_then (map_err (subject_bodies in_tu name) nodes) (\<lambda>found.
       let reasons = drs @ name_reasons name subject_id @ concat (map fst found) in
       case concat (map snd found) of
         [body] \<Rightarrow> audit_body resolve subject_id candidates edges reasons body
       | _ \<Rightarrow> Inr \<lparr>au_exhaustive = False,
           au_reasons = sort (remdups (reasons @ [''subject_body_not_unique_in_exact_tu''])), au_direct = []\<rparr>)))"

section \<open>What an exhaustive audit says\<close>

definition direct_call :: "(string \<Rightarrow> string option) \<Rightarrow> jdict \<Rightarrow> string \<Rightarrow> bool" where
  "direct_call resolve node target = (\<exists>callee refs name. callee_expression node = Some callee \<and>
     walk callee = Inr refs \<and> referenced_function (references refs) = Some name \<and> resolve name = Some target)"

text \<open>A body of the subject: a compound statement of its declaration in the audited source.\<close>

definition body_in :: "(string \<Rightarrow> bool) \<Rightarrow> string \<Rightarrow> jdict \<Rightarrow> jdict \<Rightarrow> bool" where
  "body_in in_tu name ast body = (\<exists>node bs. inside ast node \<and> declares name node \<and> located_in in_tu node \<and>
     compounds node = Inr bs \<and> body \<in> set bs)"

lemma concat_fst_Nil: "concat (map fst ps) = [] \<longleftrightarrow> (\<forall>p \<in> set ps. fst p = [])"
  by auto

lemma audit_node_clean:
  assumes "audit_node resolve node = Inr ([], ts)"
  shows "jget node ''kind'' \<notin> other_calls"
    and "jget node ''kind'' = JStr ''CallExpr'' \<Longrightarrow> \<exists>t. ts = [t] \<and> direct_call resolve node t"
proof -
  have kind: "hashed j = Inr l \<Longrightarrow> l = j" for j l
    by (auto simp: hashed_def split: json.splits)
  show "jget node ''kind'' \<notin> other_calls"
    using assms by (auto simp: audit_node_def dest: kind split: sum.splits if_splits)
  assume call: "jget node ''kind'' = JStr ''CallExpr''"
  then have "call_target resolve node = Inr ([], ts)"
    using assms by (simp add: audit_node_def hashed_def other_calls_def)
  then obtain callee refs name t where "callee_expression node = Some callee" "walk callee = Inr refs"
    "referenced_function (references refs) = Some name" "resolve name = Some t" "ts = [t]"
    by (auto simp: call_target_def and_then_Inr split: if_splits option.splits)
  then show "\<exists>t. ts = [t] \<and> direct_call resolve node t" by (auto simp: direct_call_def)
qed

lemma audit_body_exhaustive:
  assumes a: "audit_body resolve subject_id candidates edges reasons body = Inr a" and ex: "au_exhaustive a"
  shows "reasons = [] \<and> mset (au_direct a) = mset (staged_calls subject_id candidates) \<and>
    (\<forall>t \<in> set (au_direct a). call_edge subject_id t \<in> edges) \<and>
    (\<forall>e. inside body e \<longrightarrow> jget e ''kind'' \<notin> other_calls \<and>
      (jget e ''kind'' = JStr ''CallExpr'' \<longrightarrow> (\<exists>t \<in> set (au_direct a). direct_call resolve e t)))"
proof -
  from a obtain ns calls where ns: "walk body = Inr ns" and calls: "map_err (audit_node resolve) ns = Inr calls"
    and direct: "au_direct a = concat (map snd calls)"
    and none: "reasons @ concat (map fst calls) @ compared_reasons subject_id candidates edges (au_direct a) = []"
    using ex by (auto simp: audit_body_def and_then_Inr Let_def)
  have cmp: "compared_reasons subject_id candidates edges (au_direct a) = []" using none by simp
  have node: "jget e ''kind'' \<notin> other_calls \<and>
      (jget e ''kind'' = JStr ''CallExpr'' \<longrightarrow> (\<exists>t \<in> set (au_direct a). direct_call resolve e t))"
    if "inside body e" for e
  proof -
    from that walk_inside [OF ns] have "e \<in> set ns" by blast
    from map_err_source [OF calls this] obtain rs ts where p: "(rs, ts) \<in> set calls" "audit_node resolve e = Inr (rs, ts)"
      by auto
    have "rs = []" using none p(1) by auto
    with p(2) have clean: "audit_node resolve e = Inr ([], ts)" by simp
    have "set ts \<subseteq> set (au_direct a)" using p(1) direct by auto
    then have "t \<in> set (au_direct a)" if "ts = [t]" for t using that by simp
    with audit_node_clean [OF clean] show ?thesis by blast
  qed
  have "mset (au_direct a) = mset (staged_calls subject_id candidates)"
    using cmp by (simp add: compared_reasons_def split: if_splits)
  moreover have "\<forall>t \<in> set (au_direct a). call_edge subject_id t \<in> edges"
    using cmp by (auto simp: compared_reasons_def list_ex_iff split: if_splits)
  ultimately show ?thesis using node none by simp
qed

lemma subject_bodies_compound:
  assumes "subject_bodies in_tu name node = Inr ([], bs)"
  shows "declares name node \<Longrightarrow> located_in in_tu node \<Longrightarrow> compounds node = Inr bs"
    and "b \<in> set bs \<Longrightarrow> declares name node \<and> located_in in_tu node \<and> compounds node = Inr bs"
  using assms by (auto simp: subject_bodies_def and_then_Inr split: if_splits)

lemma audit_exhaustive_facts:
  assumes a: "audit_direct_body in_tu resolve ast diagnostics subject_id candidates edges subject_name = Inr a"
    and ex: "au_exhaustive a"
  shows "\<exists>body. (\<forall>b. body_in in_tu (audited_name subject_id subject_name) ast b \<longleftrightarrow> b = body) \<and>
    (\<forall>e. inside body e \<longrightarrow> jget e ''kind'' \<notin> other_calls \<and>
      (jget e ''kind'' = JStr ''CallExpr'' \<longrightarrow>
        (\<exists>t. direct_call resolve e t \<and> call_edge subject_id t \<in> edges \<and> t \<in> set (staged_calls subject_id candidates)))) \<and>
    mset (au_direct a) = mset (staged_calls subject_id candidates) \<and> diagnostic_reasons diagnostics = Inr []"
proof -
  let ?name = "audited_name subject_id subject_name"
  from a obtain drs nodes found where drs: "diagnostic_reasons diagnostics = Inr drs" and nodes: "walk ast = Inr nodes"
    and found: "map_err (subject_bodies in_tu ?name) nodes = Inr found"
    and rest: "(case concat (map snd found) of
         [body] \<Rightarrow> audit_body resolve subject_id candidates edges
           (drs @ name_reasons ?name subject_id @ concat (map fst found)) body
       | _ \<Rightarrow> Inr \<lparr>au_exhaustive = False, au_reasons = sort (remdups ((drs @ name_reasons ?name subject_id @
           concat (map fst found)) @ [''subject_body_not_unique_in_exact_tu''])), au_direct = []\<rparr>) = Inr a"
    unfolding audit_direct_body_def Let_def and_then_Inr by blast
  from rest ex obtain body where one: "concat (map snd found) = [body]"
    and body: "audit_body resolve subject_id candidates edges
      (drs @ name_reasons ?name subject_id @ concat (map fst found)) body = Inr a"
    by (auto split: list.splits)
  note clean = audit_body_exhaustive [OF body ex]
  have silent: "fst p = []" if "p \<in> set found" for p using clean that by auto
  have "body_in in_tu ?name ast b \<longleftrightarrow> b = body" for b
  proof
    assume "body_in in_tu ?name ast b"
    then obtain node bs where n: "inside ast node" "declares ?name node" "located_in in_tu node" "compounds node = Inr bs"
      "b \<in> set bs" by (auto simp: body_in_def)
    then have "node \<in> set nodes" using walk_inside [OF nodes] by blast
    from map_err_source [OF found this] obtain p where p: "p \<in> set found" "subject_bodies in_tu ?name node = Inr p" by blast
    with silent have "subject_bodies in_tu ?name node = Inr ([], snd p)" by (metis prod.collapse)
    from subject_bodies_compound(1) [OF this n(2,3)] n have "b \<in> set (concat (map snd found))" using p(1) by auto
    then show "b = body" by (simp add: one)
  next
    assume "b = body"
    then have "b \<in> set (concat (map snd found))" by (simp add: one)
    then obtain p where p: "p \<in> set found" "b \<in> set (snd p)" by auto
    from map_err_member [OF found p(1)] obtain node where n: "node \<in> set nodes" "subject_bodies in_tu ?name node = Inr p"
      by blast
    with silent [OF p(1)] have "subject_bodies in_tu ?name node = Inr ([], snd p)" by (metis prod.collapse)
    from subject_bodies_compound(2) [OF this p(2)] p(2) n(1) walk_inside [OF nodes]
    show "body_in in_tu ?name ast b" by (auto simp: body_in_def)
  qed
  moreover have "drs = []" using clean by simp
  moreover have "t \<in> set (au_direct a) \<Longrightarrow> t \<in> set (staged_calls subject_id candidates)" for t
    using clean mset_eq_setD by blast
  ultimately show ?thesis using clean drs by (intro exI [of _ body]) blast
qed

text \<open>An exhaustive audit is a proof of completeness: the tree has exactly one body of the subject in
  the audited source, that body has no call but direct calls of functions with a known identity,
  each of them is an edge of the canonical graph, and the provider reported exactly these calls.\<close>

lemma audit_exhaustive:
  assumes a: "audit_direct_body in_tu resolve ast diagnostics subject_id candidates edges subject_name = Inr a"
    and ex: "au_exhaustive a"
  shows "\<exists>body. (\<forall>b. body_in in_tu (audited_name subject_id subject_name) ast b \<longleftrightarrow> b = body) \<and>
    (\<forall>e. inside body e \<longrightarrow> jget e ''kind'' \<notin> other_calls \<and>
      (jget e ''kind'' = JStr ''CallExpr'' \<longrightarrow>
        (\<exists>t. direct_call resolve e t \<and> call_edge subject_id t \<in> edges \<and> t \<in> set (staged_calls subject_id candidates)))) \<and>
    mset (au_direct a) = mset (staged_calls subject_id candidates) \<and> diagnostic_reasons diagnostics = Inr []"
  using assms by (rule audit_exhaustive_facts)

text \<open>One function that calls one function, as the compiler prints it.\<close>

definition sample_ast :: jdict where
  "sample_ast = [(''kind'', JStr ''TranslationUnitDecl''), (''inner'', JList [JObj [
     (''kind'', JStr ''FunctionDecl''), (''name'', JStr ''f''), (''loc'', JObj [(''offset'', JInt 4)]),
     (''inner'', JList [JObj [(''kind'', JStr ''CompoundStmt''), (''inner'', JList [JObj [
       (''kind'', JStr ''CallExpr''), (''range'', JObj [(''begin'', JObj [])]),
       (''inner'', JList [JObj [(''kind'', JStr ''DeclRefExpr''),
         (''referencedDecl'', JObj [(''kind'', JStr ''FunctionDecl''), (''name'', JStr ''g'')])]])]])]])]])]"

definition sample_calls :: "evidence_candidate list" where
  "sample_calls = [\<lparr>ec_provider_id = ''p'', ec_provider_fact_id = ''1'', ec_subject = ''id'', ec_predicate = ''CALL'',
     ec_object = JStr ''g'', ec_source_span = None, ec_truth_class = OBSERVED, ec_coverage = UNKNOWN_COVERAGE,
     ec_resolution = EXACT, ec_revision_input = ''r'', ec_execution_modality = MAY, ec_confidence = None,
     ec_witness = [], ec_object_is_identity = True\<rparr>]"

lemma sample_audit:
  "audit_direct_body (\<lambda>f. False) Some sample_ast [] ''id'' sample_calls {''edge:CALLS:id:g''} (Some ''f'') =
     Inr \<lparr>au_exhaustive = True, au_reasons = [], au_direct = [''g'']\<rparr>"
  by code_simp

lemma audit_exhaustive_witness:
  "\<exists>body. \<forall>b. body_in (\<lambda>f. False) ''f'' sample_ast b \<longleftrightarrow> b = body"
  using audit_exhaustive [OF sample_audit] by (auto simp: audited_name_def)

end
