(* ===== verification/Clang_Context.thy ===== *)
theory Clang_Context
  imports Coverage_Audit Evidence_Model
begin

text \<open>
  The exact build context of a translation unit (\<open>clang_provider/compile_context.py\<close>): how the
  arguments of a compile command are read, which of them the analysis keeps, and the digests that
  identify the command; and the choice of the one row of a compilation database
  (\<open>coverage_authority/validation.py\<close>).

  A path is its text. \<open>Path.resolve\<close>, \<open>Path.is_file\<close> and the digest of a file are questions to the
  file system and are fields of the record \<open>file_system\<close>; \<open>shlex.split\<close> and the suffix of a path
  are modelled.
\<close>

section \<open>Paths and shell words\<close>

record file_system =
  fs_resolve :: "string \<Rightarrow> string"
  fs_is_file :: "string \<Rightarrow> bool"
  fs_sha :: "string \<Rightarrow> string"

fun split_at :: "char \<Rightarrow> string \<Rightarrow> string list" where
  "split_at sep [] = [[]]"
| "split_at sep (c # cs) = (if c = sep then [] # split_at sep cs
     else (case split_at sep cs of [] \<Rightarrow> [[c]] | p # ps \<Rightarrow> (c # p) # ps))"

definition path_parts :: "string \<Rightarrow> string list" where
  "path_parts s = filter (\<lambda>p. p \<noteq> [] \<and> p \<noteq> ''.'') (split_at CHR ''/'' s)"

definition is_absolute :: "string \<Rightarrow> bool" where
  "is_absolute s = starts_with ''/'' s"

text \<open>\<open>p / q\<close> on paths.\<close>

definition path_join :: "string \<Rightarrow> string \<Rightarrow> string" where
  "path_join p q = (if is_absolute q then q else p @ ''/'' @ q)"

definition suffix_of :: "string \<Rightarrow> string" where
  "suffix_of s = (let name = (if path_parts s = [] then [] else last (path_parts s));
       tail = takeWhile (\<lambda>c. c \<noteq> CHR ''.'') (rev name)
     in if length tail = length name \<or> tail = [] \<or> Suc (length tail) = length name then []
        else CHR ''.'' # rev tail)"

text \<open>\<open>shlex.split(s)\<close>: POSIX words, no comments. The mode is the state of the scanner: between words,
  in a word, in quotes, or after a backslash in one of these.\<close>

datatype shell_mode = Between | Word | Quoted char | Escaped "char option"

definition shell_space :: "char \<Rightarrow> bool" where
  "shell_space c = (c \<in> {CHR '' '', CHR 9, CHR 13, CHR 10})"

definition backslash :: char where
  "backslash = CHR 0x5C"

fun shlex :: "shell_mode \<Rightarrow> string \<Rightarrow> bool \<Rightarrow> string \<Rightarrow> ev_error + string list" where
  "shlex Between w q [] = Inr []"
| "shlex Word w q [] = Inr (if w \<noteq> [] \<or> q then [w] else [])"
| "shlex (Quoted c) w q [] = Inl ValueError"
| "shlex (Escaped c) w q [] = Inl ValueError"
| "shlex Between w q (c # cs) =
     (if shell_space c then shlex Between [] False cs
      else if c = backslash then shlex (Escaped None) [] False cs
      else if c \<in> {CHR 0x22, CHR 0x27} then shlex (Quoted c) [] False cs
      else shlex Word [c] False cs)"
| "shlex Word w q (c # cs) =
     (if shell_space c then and_then (shlex Between [] False cs) (\<lambda>ws. Inr (if w \<noteq> [] \<or> q then w # ws else ws))
      else if c = backslash then shlex (Escaped None) w q cs
      else if c \<in> {CHR 0x22, CHR 0x27} then shlex (Quoted c) w q cs
      else shlex Word (w @ [c]) q cs)"
| "shlex (Quoted d) w q (c # cs) =
     (if c = d then shlex Word w True cs
      else if c = backslash \<and> d = CHR 0x22 then shlex (Escaped (Some d)) w True cs
      else shlex (Quoted d) (w @ [c]) True cs)"
| "shlex (Escaped None) w q (c # cs) = shlex Word (w @ [c]) q cs"
| "shlex (Escaped (Some d)) w q (c # cs) =
     shlex (Quoted d) (w @ (if c \<noteq> backslash \<and> c \<noteq> d then [backslash, c] else [c])) q cs"

definition shell_split :: "string \<Rightarrow> ev_error + string list" where
  "shell_split s = shlex Between [] False s"

section \<open>The arguments of a compile command\<close>

definition all_texts :: "json list \<Rightarrow> string list option" where
  "all_texts xs = (if list_all (\<lambda>j. case j of JStr s \<Rightarrow> True | _ \<Rightarrow> False) xs
     then Some (map (\<lambda>j. case j of JStr s \<Rightarrow> s | _ \<Rightarrow> []) xs) else None)"

definition compile_arguments :: "jdict \<Rightarrow> ev_error + string list" where
  "compile_arguments row =
     (let given = (case jget row ''arguments'' of
           JList xs \<Rightarrow> all_texts xs | _ \<Rightarrow> None)
      in case given of
        Some ws \<Rightarrow> Inr ws
      | None \<Rightarrow> (case jget row ''command'' of JStr s \<Rightarrow> shell_split s | _ \<Rightarrow> Inl ValueError))"

definition source_suffixes :: "string list" where
  "source_suffixes = [''.c'', ''.cc'', ''.cpp'', ''.cxx'']"

definition drop_with_operand :: "string list" where
  "drop_with_operand = [''-o'', ''-MF'', ''-MT'', ''-MQ'', ''-MJ'']"

definition drop_exact :: "string list" where
  "drop_exact = [''-c'', ''-M'', ''-MM'', ''-MD'', ''-MMD'', ''-MP'']"

text \<open>A word that only names an output, a source or a library.\<close>

definition dropped :: "string \<Rightarrow> bool" where
  "dropped t = (t \<in> set drop_exact \<or> lower (suffix_of t) \<in> set source_suffixes \<or>
     list_ex (\<lambda>p. starts_with p t) [''-l'', ''-L'', ''-Wl,''])"

fun kept_arguments :: "string list \<Rightarrow> ev_error + string list" where
  "kept_arguments [] = Inr []"
| "kept_arguments [t] = (if t \<in> set drop_with_operand then Inl ValueError
     else Inr (if dropped t then [] else [t]))"
| "kept_arguments (t # u # ts) =
     (if t \<in> set drop_with_operand then kept_arguments ts
      else if dropped t then kept_arguments (u # ts)
      else and_then (kept_arguments (u # ts)) (\<lambda>r. Inr (t # r)))"

definition analysis_flags :: "string list" where
  "analysis_flags = [''-fsyntax-only'', ''-Xclang'', ''-ast-dump=json'', ''-fdiagnostics-format=sarif'',
     ''-Wno-sarif-format-unstable'']"

definition analysis_arguments :: "string list \<Rightarrow> string \<Rightarrow> string \<Rightarrow> ev_error + string list" where
  "analysis_arguments argv source executable =
     (if argv = [] then Inl ValueError
      else and_then (kept_arguments (tl argv)) (\<lambda>kept.
        Inr (executable # kept @ analysis_flags @ [source])))"

section \<open>The dimensions of the analysis\<close>

record dimensions =
  dm_defines :: "string list"
  dm_includes :: "string list"
  dm_standard :: string
  dm_target :: string
  dm_flags :: "string list"

definition takes_operand :: "string \<Rightarrow> bool" where
  "takes_operand t = (t \<in> {''-D'', ''-I'', ''-std'', ''-target'', ''--target''})"

definition with_operand :: "(string \<Rightarrow> string) \<Rightarrow> string \<Rightarrow> string \<Rightarrow> dimensions \<Rightarrow> dimensions" where
  "with_operand locate t u d =
     (if t = ''-D'' then d\<lparr>dm_defines := dm_defines d @ [u]\<rparr>
      else if t = ''-I'' then d\<lparr>dm_includes := dm_includes d @ [locate u]\<rparr>
      else if t = ''-std'' then d\<lparr>dm_standard := u\<rparr>
      else d\<lparr>dm_target := u\<rparr>)"

definition alone :: "(string \<Rightarrow> string) \<Rightarrow> string \<Rightarrow> dimensions \<Rightarrow> dimensions" where
  "alone locate t d =
     (if starts_with ''-D'' t \<and> 2 < length t then d\<lparr>dm_defines := dm_defines d @ [drop 2 t]\<rparr>
      else if starts_with ''-I'' t \<and> 2 < length t then d\<lparr>dm_includes := dm_includes d @ [locate (drop 2 t)]\<rparr>
      else if starts_with ''-std='' t then d\<lparr>dm_standard := drop 5 t\<rparr>
      else if starts_with ''--target='' t then d\<lparr>dm_target := drop 9 t\<rparr>
      else if starts_with ''-'' t \<and> t \<notin> set analysis_flags then d\<lparr>dm_flags := dm_flags d @ [t]\<rparr>
      else d)"

fun read_dimensions :: "(string \<Rightarrow> string) \<Rightarrow> string list \<Rightarrow> dimensions \<Rightarrow> dimensions" where
  "read_dimensions locate [] d = d"
| "read_dimensions locate [t] d = alone locate t d"
| "read_dimensions locate (t # u # ts) d =
     (if takes_operand t then read_dimensions locate ts (with_operand locate t u d)
      else read_dimensions locate (u # ts) (alone locate t d))"

definition no_dimensions :: dimensions where
  "no_dimensions = \<lparr>dm_defines = [], dm_includes = [], dm_standard = [], dm_target = [], dm_flags = []\<rparr>"

definition dimensions_of :: "file_system \<Rightarrow> string list \<Rightarrow> string \<Rightarrow> dimensions" where
  "dimensions_of fs argv directory =
     read_dimensions (\<lambda>p. fs_resolve fs (path_join directory p)) (tl argv) no_dimensions"

section \<open>Translation units\<close>

record clang_identity =
  ci_executable :: string
  ci_version :: string
  ci_target :: string
  ci_binary_sha256 :: string

definition clang_dict :: "clang_identity \<Rightarrow> jdict" where
  "clang_dict c = [(''executable'', JStr (ci_executable c)), (''version'', JStr (ci_version c)),
     (''target'', JStr (ci_target c)), (''binary_sha256'', JStr (ci_binary_sha256 c))]"

record translation_unit =
  tu_source :: string
  tu_directory :: string
  tu_build_compiler :: string
  tu_raw_arguments :: "string list"
  tu_analysis_arguments :: "string list"
  tu_source_digest :: string
  tu_raw_command_digest :: string
  tu_semantic_command_digest :: string
  tu_identity :: string
  tu_language :: string
  tu_dimensions :: dimensions
  tu_clang :: clang_identity

text \<open>\<open>str(row.get(k, ""))\<close>.\<close>

definition row_text :: "jdict \<Rightarrow> string \<Rightarrow> string" where
  "row_text row k = py_str (get_or row k (JStr []))"

definition raw_payload :: "string \<Rightarrow> string list \<Rightarrow> string \<Rightarrow> json" where
  "raw_payload directory argv source = JObj [(''directory'', JStr directory), (''arguments'', jstrs argv),
     (''source'', JStr source)]"

definition semantic_payload :: "string \<Rightarrow> string \<Rightarrow> string list \<Rightarrow> string \<Rightarrow> dimensions \<Rightarrow> json" where
  "semantic_payload compiler directory analysis language d = JObj [
     (''build_compiler'', JStr compiler), (''directory'', JStr directory),
     (''analysis_arguments'', jstrs analysis), (''language'', JStr language),
     (''defines'', jstrs (dm_defines d)), (''include_paths'', jstrs (dm_includes d)),
     (''language_standard'', JStr (dm_standard d)), (''target'', JStr (dm_target d)),
     (''relevant_flags'', jstrs (dm_flags d))]"

definition identity_payload :: "string \<Rightarrow> string \<Rightarrow> string \<Rightarrow> clang_identity \<Rightarrow> string \<Rightarrow> string \<Rightarrow> json" where
  "identity_payload raw semantic source clang version schema = JObj [
     (''raw_command_digest'', JStr raw), (''semantic_command_digest'', JStr semantic),
     (''source_digest'', JStr source), (''clang'', JObj (clang_dict clang)),
     (''provider_version'', JStr version), (''semantic_schema_version'', JStr schema)]"

definition load_translation_unit :: "(string \<Rightarrow> string) \<Rightarrow> file_system \<Rightarrow> jdict \<Rightarrow> clang_identity \<Rightarrow> string \<Rightarrow>
    string \<Rightarrow> ev_error + translation_unit" where
  "load_translation_unit H fs row clang version schema =
     (let directory = fs_resolve fs (row_text row ''directory'');
          source = fs_resolve fs (path_join directory (row_text row ''file''))
      in if \<not> fs_is_file fs source then Inl ValueError
         else and_then (compile_arguments row) (\<lambda>argv.
           and_then (analysis_arguments argv source (ci_executable clang)) (\<lambda>analysis.
             let d = dimensions_of fs analysis directory;
                 source_digest = ''sha256:'' @ fs_sha fs source;
                 raw = stable_digest H (raw_payload directory argv source);
                 suffix = lower (suffix_of source);
                 semantic = stable_digest H (semantic_payload (hd argv) directory analysis suffix d)
             in Inr \<lparr>tu_source = source, tu_directory = directory, tu_build_compiler = hd argv,
               tu_raw_arguments = argv, tu_analysis_arguments = analysis, tu_source_digest = source_digest,
               tu_raw_command_digest = raw, tu_semantic_command_digest = semantic,
               tu_identity = stable_digest H (identity_payload raw semantic source_digest clang version schema),
               tu_language = (if suffix = ''.c'' then ''c'' else ''c++''), tu_dimensions = d,
               tu_clang = clang\<rparr>)))"

section \<open>The exact row of a compilation database\<close>

text \<open>The directory of a row and the source it compiles; \<open>home\<close> is the directory of the database.\<close>

definition row_directory :: "file_system \<Rightarrow> string \<Rightarrow> jdict \<Rightarrow> string" where
  "row_directory fs home row = (let directory = row_text row ''directory'' in
     if is_absolute directory then directory else fs_resolve fs (path_join home directory))"

definition row_source :: "file_system \<Rightarrow> string \<Rightarrow> jdict \<Rightarrow> string" where
  "row_source fs home row = fs_resolve fs (path_join (row_directory fs home row) (row_text row ''file''))"

definition exact_compile_row :: "file_system \<Rightarrow> string \<Rightarrow> json \<Rightarrow> string \<Rightarrow> ev_error + jdict" where
  "exact_compile_row fs home database source =
     (case database of
        JList values \<Rightarrow>
          if list_ex (\<lambda>v. case v of JObj d \<Rightarrow> False | _ \<Rightarrow> True) values then Inl ValueError
          else (case filter (\<lambda>row. row_source fs home row = fs_resolve fs source) (mappings values) of
              [row] \<Rightarrow> Inr (dict_set ''directory'' (JStr (row_directory fs home row)) row)
            | _ \<Rightarrow> Inl ValueError)
      | _ \<Rightarrow> Inl ValueError)"

end
