(* ===== verification/Coverage_Certificate.thy ===== *)
theory Coverage_Certificate
  imports Clang_Context Authority Lifecycle_Brief
begin

text \<open>
  Certificates of absence: the registry of what an analyzer may certify and the sealed certificate
  (\<open>coverage_authority/model.py\<close>), the check that a certificate still applies
  (\<open>coverage_authority/validation.py\<close>), and the two writers and the reader of the certificate table
  (\<open>design_lifecycle/repository.py\<close>).

  The certificate is the dictionary its text encodes; reading the text back gives the canonical
  form of the dictionary. Python compares dictionaries up to the order of keys: \<open>canon\<close>.
\<close>

section \<open>Certificates\<close>

definition coverage_rule_version :: string where
  "coverage_rule_version = ''coverage-authority/direct-static-call/1''"

definition issuer_id :: string where
  "issuer_id = ''rintel-clang-direct-call-issuer/1''"

definition provider_id :: string where
  "provider_id = ''rintel-clang''"

definition provider_version :: string where
  "provider_version = ''provider-clang0.1''"

definition provider_config_digest :: "(string \<Rightarrow> string) \<Rightarrow> string" where
  "provider_config_digest H = stable_digest H (JObj [(''provider'', JStr provider_id),
     (''version'', JStr provider_version), (''frontend'', JStr ''clang-json-ast+sarif'')])"

definition capability_registry :: "jdict list" where
  "capability_registry = [
     [(''analyzer'', JStr ''legacy/tree-sitter''), (''relation'', JStr ''CALLS''),
      (''scope'', JStr ''file or repository''), (''maximum'', JStr ''PARTIAL''),
      (''reason'', JStr ''Shallow extraction is not a completeness proof.'')],
     [(''analyzer'', JStr ''rintel-clang''), (''relation'', JStr ''DIRECT_STATIC_CALL''),
      (''scope'', JStr ''EXACT_TU_FUNCTION_BODY''), (''language'', JStr ''c''), (''maximum'', JStr ''COMPLETE''),
      (''reason'', JStr (''Only a validated exact Clang TU and fully audited direct-call body'' @ '' may qualify.''))],
     [(''analyzer'', JStr ''rintel-clang''), (''relation'', JStr ''DIRECT_STATIC_CALL''),
      (''scope'', JStr ''EXACT_TU_FUNCTION_BODY''), (''language'', JStr ''c++''), (''maximum'', JStr ''PARTIAL''),
      (''reason'', JStr ''C++ member, virtual and overload dispatch are outside this issuer.'')],
     [(''analyzer'', JStr ''runtime_trace''), (''relation'', JStr ''OBSERVED_CALL''),
      (''scope'', JStr ''observed run''), (''maximum'', JStr ''PARTIAL''),
      (''reason'', JStr ''Unobserved execution is not a negative static fact.'')],
     [(''analyzer'', JStr ''flang_reference''), (''relation'', JStr ''CALL''),
      (''scope'', JStr ''bounded reference''), (''maximum'', JStr ''UNKNOWN''),
      (''reason'', JStr ''REFERENCE_ONLY; no production issuer.'')],
     [(''analyzer'', JStr ''ripwire_reference''), (''relation'', JStr ''CALL''),
      (''scope'', JStr ''broad reference''), (''maximum'', JStr ''UNKNOWN''),
      (''reason'', JStr ''REFERENCE_ONLY heuristic call graph; no production issuer.'')]]"

definition capability_registry_version :: "(string \<Rightarrow> string) \<Rightarrow> string" where
  "capability_registry_version H = stable_digest H (JList (map JObj capability_registry))"

text \<open>\<open>str(identity).split(":", 1)[-1][:32]\<close>.\<close>

definition short_identity :: "string \<Rightarrow> string" where
  "short_identity s = take 32 (case dropWhile (\<lambda>c. c \<noteq> CHR '':'') s of [] \<Rightarrow> s | c # rest \<Rightarrow> rest)"

definition canonical_dict :: "jdict \<Rightarrow> jdict" where
  "canonical_dict d = as_mapping (canon (JObj d))"

text \<open>\<open>_issue\<close> followed by \<open>to_dict\<close>.\<close>

definition issue_certificate :: "(string \<Rightarrow> string) \<Rightarrow> jdict \<Rightarrow> jdict" where
  "issue_certificate H payload =
     (let identity = stable_digest H (JObj payload);
          value = dict_set ''receipt_identity'' (JStr identity) payload
      in canonical_dict (dict_set ''id'' (JStr (''coverage-'' @ short_identity identity)) value))"

section \<open>Whether a certificate applies\<close>

definition same_dict :: "json \<Rightarrow> jdict \<Rightarrow> bool" where
  "same_dict j d = (case j of JObj e \<Rightarrow> canon j = canon (JObj d) | _ \<Rightarrow> False)"

definition capable :: "jdict \<Rightarrow> bool" where
  "capable cert = list_ex (\<lambda>row.
     jget row ''analyzer'' = jget cert ''analyzer'' \<and> jget row ''relation'' = jget cert ''relation_kind'' \<and>
     jget row ''scope'' = jget cert ''subject_scope'' \<and> jget row ''language'' = jget cert ''language'' \<and>
     jget row ''maximum'' = JStr ''COMPLETE'') capability_registry"

definition exact_domain :: "jdict \<Rightarrow> jdict" where
  "exact_domain cert = [(''scope_type'', JStr ''EXACT_TU_FUNCTION_BODY''),
     (''translation_unit'', jget cert ''translation_unit''), (''subject'', jget cert ''subject''),
     (''relation'', JStr ''DIRECT_STATIC_CALL'')]"

definition receipt_payload :: "jdict \<Rightarrow> jdict" where
  "receipt_payload cert = filter (\<lambda>(k, v). k \<notin> {''id'', ''receipt_identity''}) cert"

definition receipt_valid :: "(string \<Rightarrow> string) \<Rightarrow> jdict \<Rightarrow> bool" where
  "receipt_valid H cert = (let identity = stable_digest H (JObj (receipt_payload cert)) in
     jget cert ''receipt_identity'' = JStr identity \<and>
     jget cert ''id'' = JStr (''coverage-'' @ short_identity identity))"

text \<open>The checks that need only the certificate and the query: each refuses with its reason.\<close>

definition static_checks :: "(string \<Rightarrow> string) \<Rightarrow> jdict \<Rightarrow> string \<Rightarrow> string \<Rightarrow> jdict \<Rightarrow> (bool \<times> string) list" where
  "static_checks H cert repo_id revision expected = [
     (jget expected ''kind'' = JStr ''CALLS'' \<and> jget expected ''call_semantics'' = JStr ''DIRECT_STATIC_CALL'',
        ''query_not_explicitly_direct_static''),
     (jget cert ''schema_version'' = JStr ''coverage-certificate/1'' \<and> jget cert ''issuer'' = JStr issuer_id \<and>
        jget cert ''completeness'' = JStr ''COMPLETE'', ''not_production_complete_certificate''),
     (capable cert, ''issuer_capability_not_complete''),
     (jget cert ''repo_id'' = JStr repo_id \<and> jget cert ''canonical_revision'' = JStr revision \<and>
        jget cert ''relation_kind'' = JStr ''DIRECT_STATIC_CALL'' \<and> jget cert ''subject'' = jget expected ''source'',
        ''query_outside_certificate_domain''),
     (jget expected ''translation_unit'' \<in> {JNull, jget cert ''translation_unit''}, ''query_translation_unit_mismatch''),
     (jget expected ''build_context'' \<in> {JNull, jget cert ''build_context''}, ''query_build_context_mismatch''),
     (same_dict (jget cert ''included_domain'') (exact_domain cert), ''domain_identity_mismatch''),
     (\<not> truthy (jget cert ''unsupported_constructs'') \<and> jget cert ''parse_status'' = JStr ''COMPLETE'' \<and>
        jget cert ''analysis_status'' = JStr ''COMPLETE'', ''analysis_not_exhaustive''),
     (jget cert ''rule_version'' = JStr coverage_rule_version \<and>
        jget cert ''registry_version'' = JStr (rg_version (eg_registry default_engine)) \<and>
        jget cert ''capability_registry_version'' = JStr (capability_registry_version H) \<and>
        jget cert ''provider_version'' = JStr provider_version \<and>
        jget cert ''provider_config_digest'' = JStr (provider_config_digest H), ''issuer_or_authority_version_changed''),
     (receipt_valid H cert, ''certificate_receipt_identity_mismatch'')]"

definition first_failure :: "(bool \<times> string) list \<Rightarrow> string option" where
  "first_failure checks = map_option snd (find (\<lambda>(ok, reason). \<not> ok) checks)"

text \<open>What the check reads from outside. \<open>cv_root\<close> is the root path of a registered repository,
  \<open>cv_inside\<close> whether a resolved path lies below the root, \<open>cv_clang\<close> the identity of an executable,
  \<open>cv_database\<close> a parsed compilation database with its directory; \<open>None\<close> is a failure to read.\<close>

record cov_env =
  cv_hash :: "string \<Rightarrow> string"
  cv_fs :: file_system
  cv_snapshot :: "string \<Rightarrow> snapshot_row option"
  cv_root :: "string \<Rightarrow> string option"
  cv_inside :: "string \<Rightarrow> string \<Rightarrow> bool"
  cv_clang :: "string \<Rightarrow> clang_identity option"
  cv_database :: "string \<Rightarrow> (string \<times> json) option"
  cv_node :: "string \<Rightarrow> string \<Rightarrow> string \<Rightarrow> jdict option"
  cv_supports :: "string \<Rightarrow> string \<Rightarrow> string \<Rightarrow> jdict list"

definition file_digest :: "cov_env \<Rightarrow> string \<Rightarrow> string" where
  "file_digest env path = ''sha256:'' @ fs_sha (cv_fs env) path"

definition cert_unit :: "jdict \<Rightarrow> string" where
  "cert_unit cert = text_at cert ''translation_unit''"

definition posix_path :: "string \<Rightarrow> string" where
  "posix_path p = (if path_parts p = [] then ''.'' else join ''/'' (path_parts p))"

text \<open>The dependencies that changed or vanished since the analysis.\<close>

definition dependencies_current :: "cov_env \<Rightarrow> jdict \<Rightarrow> bool" where
  "dependencies_current env deps =
     list_all (\<lambda>(p, d). fs_is_file (cv_fs env) p \<and> JStr (file_digest env p) = d) deps"

definition reloaded_unit :: "cov_env \<Rightarrow> jdict \<Rightarrow> string \<Rightarrow> clang_identity \<Rightarrow> ev_error + translation_unit" where
  "reloaded_unit env cert source clang =
     (case jindex cert ''compile_commands_path'' of
        Inr (JStr path) \<Rightarrow> (case cv_database env path of
            None \<Rightarrow> Inl ValueError
          | Some (home, database) \<Rightarrow>
              and_then (exact_compile_row (cv_fs env) home database source) (\<lambda>row.
                load_translation_unit (cv_hash env) (cv_fs env) row clang provider_version ''clang-ast-v1''))
      | _ \<Rightarrow> Inl KeyError)"

definition unit_matches :: "jdict \<Rightarrow> translation_unit \<Rightarrow> bool" where
  "unit_matches cert u =
     (JStr (tu_source_digest u) = jget cert ''source_digest'' \<and>
      JStr (tu_raw_command_digest u) = jget cert ''compile_command_digest'' \<and>
      JStr (tu_semantic_command_digest u) = jget cert ''build_context'' \<and>
      JStr (tu_identity u) = jget cert ''tu_identity'')"

text \<open>The inputs of the analysis as they are now: \<open>None\<close> when they are the ones of the certificate.\<close>

definition changed_input :: "cov_env \<Rightarrow> jdict \<Rightarrow> string \<Rightarrow> ev_error + string option" where
  "changed_input env cert base =
     (let source = fs_resolve (cv_fs env) (path_join base (cert_unit cert)) in
      if \<not> cv_inside env base source then Inl ValueError
      else if \<not> fs_is_file (cv_fs env) source \<or> JStr (file_digest env source) \<noteq> jget cert ''source_digest''
        then Inr (Some ''source_digest_changed'')
      else case jget cert ''dependency_digests'' of
        JObj deps \<Rightarrow>
          if \<not> dependencies_current env deps then Inr (Some ''dependency_digest_changed'')
          else and_then (jindex cert ''analyzer_executable'') (\<lambda>exe. case cv_clang env (py_str exe) of
              None \<Rightarrow> Inl ValueError
            | Some clang \<Rightarrow>
                if \<not> same_dict (jget cert ''analyzer_identity'') (clang_dict clang)
                then Inr (Some ''analyzer_binary_or_version_changed'')
                else and_then (reloaded_unit env cert source clang) (\<lambda>u.
                  Inr (if unit_matches cert u then None
                    else Some ''build_context_or_compile_command_changed'')))
      | _ \<Rightarrow> Inr (Some ''dependency_manifest_malformed''))"

text \<open>\<open>x in value\<close>.\<close>

definition py_in :: "json \<Rightarrow> json \<Rightarrow> ev_error + bool" where
  "py_in x j = (case j of
     JList xs \<Rightarrow> Inr (x \<in> set xs)
   | JObj d \<Rightarrow> (case hashed x of Inl _ \<Rightarrow> Inl TypeError | Inr _ \<Rightarrow> Inr (\<exists>k \<in> set (keys d). x = JStr k))
   | JStr s \<Rightarrow> (case x of JStr t \<Rightarrow> Inr (contains t s) | _ \<Rightarrow> Inl TypeError)
   | _ \<Rightarrow> Inl TypeError)"

text \<open>A canonical support receipt of the analyzer run of the certificate; the first one found decides.\<close>

definition supports_run :: "jdict \<Rightarrow> jdict \<Rightarrow> bool" where
  "supports_run cert item = (jget item ''lane_id'' = JStr ''clang_provider'' \<and>
     jget (as_mapping (jget item ''provenance'')) ''analysis_id'' = jget cert ''analyzer_run_id'')"

fun supported :: "jdict \<Rightarrow> jdict list \<Rightarrow> ev_error + bool" where
  "supported cert [] = Inr False"
| "supported cert (item # items) =
     and_then (py_in (jget item ''support_receipt_id'') (get_or cert ''support_receipt_ids'' (JList []))) (\<lambda>listed.
       if listed \<and> supports_run cert item then Inr True else supported cert items)"

definition store_checks :: "cov_env \<Rightarrow> jdict \<Rightarrow> string \<Rightarrow> string \<Rightarrow> (bool \<times> string) list" where
  "store_checks env cert repo_id revision = [
     ((case cv_snapshot env revision of None \<Rightarrow> False
        | Some s \<Rightarrow> sn_repo_id s = repo_id \<and> sn_publication_status s = Some ''published''),
        ''canonical_revision_unavailable''),
     (cv_root env repo_id \<noteq> None, ''repository_unavailable''),
     (\<not> is_absolute (cert_unit cert) \<and> ''..'' \<notin> set (path_parts (cert_unit cert)),
        ''translation_unit_outside_repository'')]"

definition subject_row :: "cov_env \<Rightarrow> jdict \<Rightarrow> string \<Rightarrow> string \<Rightarrow> jdict \<Rightarrow> jdict option" where
  "subject_row env cert repo_id revision expected =
     (case cv_node env repo_id revision (py_str (jget expected ''source'')) of
        None \<Rightarrow> None
      | Some node \<Rightarrow> if jget node ''path'' = JStr (posix_path (cert_unit cert)) \<and>
          jget node ''kind'' = JStr ''FUNCTION'' then Some node else None)"

definition applicable_complete :: "cov_env \<Rightarrow> jdict \<Rightarrow> string \<Rightarrow> string \<Rightarrow> jdict \<Rightarrow> ev_error + bool \<times> string" where
  "applicable_complete env cert repo_id revision expected =
     (case first_failure (static_checks (cv_hash env) cert repo_id revision expected @
          store_checks env cert repo_id revision) of
        Some reason \<Rightarrow> Inr (False, reason)
      | None \<Rightarrow> (case changed_input env cert (case cv_root env repo_id of None \<Rightarrow> [] | Some r \<Rightarrow> fs_resolve (cv_fs env) r) of
          Inl _ \<Rightarrow> Inr (False, ''current_input_identity_unavailable'')
        | Inr (Some reason) \<Rightarrow> Inr (False, reason)
        | Inr None \<Rightarrow> (case subject_row env cert repo_id revision expected of
            None \<Rightarrow> Inr (False, ''subject_not_in_exact_tu'')
          | Some node \<Rightarrow> and_then (jindex node ''id'') (\<lambda>subject.
              and_then (supported cert (cv_supports env repo_id revision (py_str subject))) (\<lambda>found.
                Inr (if found then (True, ''bounded_direct_static_domain_complete'')
                  else (False, ''analyzer_run_lacks_canonical_support'')))))))"

section \<open>The certificate table\<close>

record cert_row =
  ct_id :: string
  ct_repo_id :: string
  ct_revision :: string
  ct_subject :: string
  ct_relation :: string
  ct_payload :: jdict
  ct_created_at :: int

type_synonym cert_table = "cert_row list"

definition same_domain :: "string \<Rightarrow> string \<Rightarrow> string \<Rightarrow> string \<Rightarrow> cert_row \<Rightarrow> bool" where
  "same_domain repo_id revision subject relation r = (ct_repo_id r = repo_id \<and> ct_revision r = revision \<and>
     ct_subject r = subject \<and> ct_relation r = relation)"

text \<open>\<open>coverage_certificates\<close>: the newest first, then by descending id.\<close>

definition cert_rows :: "cert_table \<Rightarrow> string \<Rightarrow> string \<Rightarrow> string \<Rightarrow> string \<Rightarrow> cert_row list" where
  "cert_rows tab repo_id revision subject relation =
     rev (sort_key (\<lambda>r. (ct_created_at r, ct_id r)) (filter (same_domain repo_id revision subject relation) tab))"

definition coverage_certificates :: "cert_table \<Rightarrow> string \<Rightarrow> string \<Rightarrow> string \<Rightarrow> string \<Rightarrow> jdict list" where
  "coverage_certificates tab repo_id revision subject relation =
     map ct_payload (cert_rows tab repo_id revision subject relation)"

definition insert_cert :: "cert_row \<Rightarrow> cert_table \<Rightarrow> lc_error + cert_table" where
  "insert_cert r tab = (if list_ex (\<lambda>x. ct_id x = ct_id r) tab then Inl IntegrityError else Inr (tab @ [r]))"

definition value_error :: "bool \<Rightarrow> lc_error + unit" where
  "value_error ok = lifted (if ok then Inr () else Inl ValueError)"

definition is_published :: "cov_env \<Rightarrow> string \<Rightarrow> string \<Rightarrow> bool" where
  "is_published env repo_id revision = (case cv_snapshot env revision of None \<Rightarrow> False
     | Some s \<Rightarrow> sn_repo_id s = repo_id \<and> sn_publication_status s = Some ''published'')"

definition snapshot_meta :: "cov_env \<Rightarrow> string \<Rightarrow> jdict" where
  "snapshot_meta env revision = (case cv_snapshot env revision of None \<Rightarrow> [] | Some s \<Rightarrow> sn_meta s)"

record cert_request =
  cq_repo_id :: string
  cq_revision :: string
  cq_subject :: string
  cq_relation :: string
  cq_build_context :: string
  cq_provider :: string
  cq_provider_config_digest :: string
  cq_rule_version :: string
  cq_excluded_domains :: "string list"
  cq_completeness :: string
  cq_receipt_id :: string

definition request_dict :: "cert_request \<Rightarrow> string \<Rightarrow> int \<Rightarrow> jdict" where
  "request_dict q uuid now = [
     (''id'', JStr (''coverage-'' @ uuid)), (''repo_id'', JStr (cq_repo_id q)),
     (''canonical_revision'', JStr (cq_revision q)), (''subject'', JStr (cq_subject q)),
     (''relation_kind'', JStr (cq_relation q)), (''provider'', JStr (cq_provider q)),
     (''build_context'', JStr (cq_build_context q)),
     (''provider_config_digest'', JStr (cq_provider_config_digest q)),
     (''rule_version'', JStr (cq_rule_version q)), (''excluded_domains'', jstrs (cq_excluded_domains q)),
     (''completeness'', JStr (cq_completeness q)), (''receipt_id'', JStr (cq_receipt_id q)),
     (''created_at'', JInt now)]"

definition bound_request :: "cert_request \<Rightarrow> bool" where
  "bound_request q = list_all (\<lambda>s. s \<noteq> []) [cq_subject q, cq_relation q, cq_rule_version q, cq_receipt_id q,
     cq_provider_config_digest q]"

text \<open>The caller's writer. The domain is empty when it gets to the clock, so the time is the clock's, or 0.\<close>

definition record_coverage_certificate :: "cov_env \<Rightarrow> string \<Rightarrow> int \<Rightarrow> cert_request \<Rightarrow> cert_table \<Rightarrow>
    lc_error + jdict \<times> cert_table" where
  "record_coverage_certificate env uuid now q tab =
     (let meta = snapshot_meta env (cq_revision q);
          identity = as_mapping (jget meta ''analysis_identity'');
          certificate = request_dict q uuid (max now 0)
      in and_then (value_error (cq_completeness q \<in> {''COMPLETE'', ''PARTIAL'', ''UNKNOWN''})) (\<lambda>_.
      and_then (value_error (cq_completeness q \<noteq> ''COMPLETE'')) (\<lambda>_.
      and_then (value_error (is_published env (cq_repo_id q) (cq_revision q))) (\<lambda>_.
      and_then (value_error (jget identity ''build_context_id'' = JStr (cq_build_context q) \<and>
          jget identity ''provider_id'' = JStr (cq_provider q) \<and>
          jget identity ''provider_config_digest'' = JStr (cq_provider_config_digest q))) (\<lambda>_.
      and_then (value_error (bound_request q)) (\<lambda>_.
      and_then (value_error (jget meta ''run_id'' = JStr (cq_receipt_id q))) (\<lambda>_.
      and_then (value_error (coverage_certificates tab (cq_repo_id q) (cq_revision q) (cq_subject q)
          (cq_relation q) = [])) (\<lambda>_.
      and_then (insert_cert \<lparr>ct_id = ''coverage-'' @ uuid, ct_repo_id = cq_repo_id q, ct_revision = cq_revision q,
          ct_subject = cq_subject q, ct_relation = cq_relation q, ct_payload = certificate,
          ct_created_at = max now 0\<rparr> tab) (\<lambda>tab'. Inr (certificate, tab'))))))))))"

text \<open>The issuer's writer; the certificate has text fields and an integer time, as the issuer gives it.\<close>

definition linked_support :: "jdict \<Rightarrow> jdict \<Rightarrow> bool" where
  "linked_support cert item =
     ((case jget cert ''support_receipt_ids'' of
         JList ids \<Rightarrow> jget item ''support_receipt_id'' \<in> set ids | _ \<Rightarrow> False) \<and> supports_run cert item)"

definition creation_time :: "jdict \<Rightarrow> int" where
  "creation_time cert = (case jget cert ''created_at'' of JInt t \<Rightarrow> t | _ \<Rightarrow> 0)"

definition record_issued_certificate :: "cov_env \<Rightarrow> jdict \<Rightarrow> cert_table \<Rightarrow> lc_error + cert_table" where
  "record_issued_certificate env cert tab =
     (let field = text_at cert; repo_id = field ''repo_id''; revision = field ''canonical_revision'';
          subject = field ''subject''; relation = field ''relation_kind''
      in and_then (value_error (is_published env repo_id revision)) (\<lambda>_.
      and_then (value_error (jget (snapshot_meta env revision) ''run_id'' = jget cert ''analyzer_run_id'')) (\<lambda>_.
      and_then (value_error (list_ex (linked_support cert) (cv_supports env repo_id revision subject))) (\<lambda>_.
      and_then (value_error (coverage_certificates tab repo_id revision subject relation = [])) (\<lambda>_.
        insert_cert \<lparr>ct_id = field ''id'', ct_repo_id = repo_id, ct_revision = revision, ct_subject = subject,
          ct_relation = relation, ct_payload = cert, ct_created_at = creation_time cert\<rparr> tab)))))"

end
