(* ===== verification/Coverage_Properties.thy ===== *)
theory Coverage_Properties
  imports Coverage_Certificate Lifecycle_Evaluate
begin

text \<open>
  The properties of certificates of absence: what a certificate that applies has been checked against,
  that it stops applying when an input of its analysis changes, that it cannot be altered, what the
  certificate table keeps, and the verdict the lifecycle takes from it.
\<close>

section \<open>Canonical dictionaries\<close>

lemma canon_idem: "canon (canon j) = canon j"
proof (induction j rule: canon.induct)
  case (2 kvs)
  define g where "g = (\<lambda>(k :: string, v). (k, canon v))"
  have comm: "sort_key fst (map g xs) = map g (sort_key fst xs)" for xs
    unfolding g_def by (rule sort_key_map_fst)
  have "map g (map g kvs) = map g kvs" using 2 by (auto simp: g_def)
  then have "sort_key fst (map g (map g (sort_key fst kvs))) = sort_key fst (map g kvs)"
    by (simp only: comm [symmetric] sort_key_id_if_sorted [OF sorted_sort_key])
  then show ?case by (simp add: g_def [symmetric] comm)
qed auto

lemma map_of_filter_key: "map_of xs k = map_of (filter (\<lambda>p. fst p = k) xs) k"
  by (induction xs) auto

lemma map_of_sort: "map_of (sort_key fst xs) k = map_of xs k"
  using map_of_filter_key [of "sort_key fst xs" k] map_of_filter_key [of xs k]
  by (simp add: sort_key_stable)

lemma canonical_lookup: "map_of (canonical_dict d) k = map_option canon (map_of d k)"
proof -
  have "map_of (map (\<lambda>(k, v). (k, canon v)) d) k = map_option canon (map_of d k)"
    by (induction d) auto
  then show ?thesis by (simp add: canonical_dict_def as_mapping_def map_of_sort)
qed

lemma canon_filter_keys:
  "canon (JObj (filter (\<lambda>(k, v). k \<notin> K) (canonical_dict d))) = canon (JObj (filter (\<lambda>(k, v). k \<notin> K) d))"
proof -
  define g where "g = (\<lambda>(k :: string, v). (k, canon v))"
  define P where "P = (\<lambda>(k :: string, v :: json). k \<notin> K)"
  have "filter P (canonical_dict d) = as_mapping (canon (JObj (filter P d)))"
    by (simp add: canonical_dict_def as_mapping_def g_def [symmetric] filter_sort filter_map)
      (simp add: P_def g_def o_def case_prod_unfold)
  then have "canon (JObj (filter P (canonical_dict d))) = canon (canon (JObj (filter P d)))"
    by (simp add: as_mapping_def)
  then show ?thesis by (simp only: P_def canon_idem)
qed

lemma dict_set_filtered: "k \<in> K \<Longrightarrow> filter (\<lambda>(k, v). k \<notin> K) (dict_set k v d) = filter (\<lambda>(k, v). k \<notin> K) d"
  by (induction k v d rule: dict_set.induct) auto

section \<open>An issued certificate\<close>

lemma issued_lookup:
  "k \<notin> {''id'', ''receipt_identity''} \<Longrightarrow> map_of (issue_certificate H payload) k = map_option canon (map_of payload k)"
  by (simp add: issue_certificate_def Let_def canonical_lookup map_of_dict_set)

lemma issued_field:
  "k \<notin> {''id'', ''receipt_identity''} \<Longrightarrow> jget (issue_certificate H payload) k = canon (jget payload k)"
  by (simp add: jget_def get_or_def issued_lookup split: option.splits)

lemma issued_receipt_valid:
  assumes "''id'' \<notin> fst ` set payload" and "''receipt_identity'' \<notin> fst ` set payload"
  shows "receipt_valid H (issue_certificate H payload)"
proof -
  let ?identity = "stable_digest H (JObj payload)"
  let ?sealed = "dict_set ''id'' (JStr (''coverage-'' @ short_identity ?identity))
    (dict_set ''receipt_identity'' (JStr ?identity) payload)"
  have cert: "issue_certificate H payload = canonical_dict ?sealed" by (simp add: issue_certificate_def Let_def)
  have "filter (\<lambda>(k, v). k \<notin> {''id'', ''receipt_identity''}) payload = payload"
    using assms by (force simp: filter_id_conv)
  then have "filter (\<lambda>(k, v). k \<notin> {''id'', ''receipt_identity''}) ?sealed = payload"
    unfolding dict_set_filtered [OF insertI1] dict_set_filtered [OF insertI2 [OF insertI1]] .
  then have "canon (JObj (receipt_payload (issue_certificate H payload))) = canon (JObj payload)"
    unfolding receipt_payload_def cert canon_filter_keys by (rule arg_cong)
  then have identity: "stable_digest H (JObj (receipt_payload (issue_certificate H payload))) = ?identity"
    by (simp only: stable_digest_def dumps_def)
  have "jget (issue_certificate H payload) ''receipt_identity'' = JStr ?identity"
    "jget (issue_certificate H payload) ''id'' = JStr (''coverage-'' @ short_identity ?identity)"
    by (simp_all add: cert jget_def get_or_def canonical_lookup map_of_dict_set)
  then show ?thesis by (simp add: receipt_valid_def identity)
qed

section \<open>The chain of checks\<close>

lemma first_failure_None: "first_failure checks = None \<longleftrightarrow> list_all fst checks"
  by (induction checks) (auto simp: first_failure_def)

lemma py_in_listed: "py_in x j = Inr True \<Longrightarrow> j = JList xs \<Longrightarrow> x \<in> set xs"
  by (simp add: py_in_def)

lemma supported_True:
  assumes "supported cert items = Inr True"
  shows "\<exists>item \<in> set items. supports_run cert item \<and>
    py_in (jget item ''support_receipt_id'') (get_or cert ''support_receipt_ids'' (JList [])) = Inr True"
  using assms
  by (induction items) (auto simp: and_then_Inr split: if_splits)

text \<open>The state of the inputs at which a certificate applies.\<close>

definition inputs_unchanged :: "cov_env \<Rightarrow> jdict \<Rightarrow> string \<Rightarrow> bool" where
  "inputs_unchanged env cert base = (\<exists>deps clang u exe.
     (let source = fs_resolve (cv_fs env) (path_join base (cert_unit cert)) in
      cv_inside env base source \<and> fs_is_file (cv_fs env) source \<and>
      jget cert ''source_digest'' = JStr (file_digest env source) \<and>
      jget cert ''dependency_digests'' = JObj deps \<and> dependencies_current env deps \<and>
      jindex cert ''analyzer_executable'' = Inr exe \<and> cv_clang env (py_str exe) = Some clang \<and>
      canon (jget cert ''analyzer_identity'') = canon (JObj (clang_dict clang)) \<and>
      reloaded_unit env cert source clang = Inr u \<and> unit_matches cert u))"

lemma changed_input_None:
  assumes "changed_input env cert base = Inr None"
  shows "inputs_unchanged env cert base"
proof -
  let ?source = "fs_resolve (cv_fs env) (path_join base (cert_unit cert))"
  from assms have inside: "cv_inside env base ?source" and isf: "fs_is_file (cv_fs env) ?source"
    and dig: "jget cert ''source_digest'' = JStr (file_digest env ?source)"
    unfolding changed_input_def Let_def by (auto split: if_splits)
  with assms obtain deps where deps: "jget cert ''dependency_digests'' = JObj deps" "dependencies_current env deps"
    and rest: "and_then (jindex cert ''analyzer_executable'') (\<lambda>exe. case cv_clang env (py_str exe) of
        None \<Rightarrow> Inl ValueError
      | Some clang \<Rightarrow>
          if \<not> same_dict (jget cert ''analyzer_identity'') (clang_dict clang)
          then Inr (Some ''analyzer_binary_or_version_changed'')
          else and_then (reloaded_unit env cert ?source clang) (\<lambda>u.
            Inr (if unit_matches cert u then None else Some ''build_context_or_compile_command_changed''))) = Inr None"
    unfolding changed_input_def Let_def by (auto split: if_splits json.splits)
  from rest obtain exe clang where exe: "jindex cert ''analyzer_executable'' = Inr exe"
    and clang: "cv_clang env (py_str exe) = Some clang"
    and rest: "(if \<not> same_dict (jget cert ''analyzer_identity'') (clang_dict clang)
          then Inr (Some ''analyzer_binary_or_version_changed'')
          else and_then (reloaded_unit env cert ?source clang) (\<lambda>u.
            Inr (if unit_matches cert u then None else Some ''build_context_or_compile_command_changed''))) =
          (Inr None :: ev_error + string option)"
    by (auto simp: and_then_Inr split: option.splits)
  from rest have "same_dict (jget cert ''analyzer_identity'') (clang_dict clang)" by (auto split: if_splits)
  moreover from rest obtain u where "reloaded_unit env cert ?source clang = Inr u" "unit_matches cert u"
    by (auto simp: and_then_Inr split: if_splits)
  ultimately show ?thesis
    unfolding inputs_unchanged_def Let_def
    using inside isf dig deps exe clang
    by (auto simp: same_dict_def split: json.splits intro!: exI [of _ deps] exI [of _ clang] exI [of _ u] exI [of _ exe])
qed

definition base_of :: "cov_env \<Rightarrow> string \<Rightarrow> string" where
  "base_of env repo_id = (case cv_root env repo_id of None \<Rightarrow> [] | Some r \<Rightarrow> fs_resolve (cv_fs env) r)"

lemma applicable_chain:
  assumes "applicable_complete env cert repo_id revision expected = Inr (True, reason)"
  shows "list_all fst (static_checks (cv_hash env) cert repo_id revision expected)"
    and "list_all fst (store_checks env cert repo_id revision)"
    and "inputs_unchanged env cert (base_of env repo_id)"
    and "\<exists>node subject. subject_row env cert repo_id revision expected = Some node \<and> jindex node ''id'' = Inr subject \<and>
      supported cert (cv_supports env repo_id revision (py_str subject)) = Inr True"
proof -
  from assms have ok: "first_failure (static_checks (cv_hash env) cert repo_id revision expected @
      store_checks env cert repo_id revision) = None"
    unfolding applicable_complete_def by (auto split: option.splits)
  then show "list_all fst (static_checks (cv_hash env) cert repo_id revision expected)"
    "list_all fst (store_checks env cert repo_id revision)"
    by (simp_all add: first_failure_None)
  from assms ok have unchanged: "changed_input env cert (base_of env repo_id) = Inr None"
    unfolding applicable_complete_def base_of_def by (auto split: sum.splits option.splits)
  then show "inputs_unchanged env cert (base_of env repo_id)" by (rule changed_input_None)
  from assms ok unchanged show "\<exists>node subject. subject_row env cert repo_id revision expected = Some node \<and>
      jindex node ''id'' = Inr subject \<and> supported cert (cv_supports env repo_id revision (py_str subject)) = Inr True"
    unfolding applicable_complete_def base_of_def
    by (auto simp: and_then_Inr split: option.splits if_splits)
qed

text \<open>The one row of the capability registry that allows COMPLETE.\<close>

lemma capable_row:
  "capable cert \<longleftrightarrow> jget cert ''analyzer'' = JStr provider_id \<and> jget cert ''relation_kind'' = JStr ''DIRECT_STATIC_CALL'' \<and>
     jget cert ''subject_scope'' = JStr ''EXACT_TU_FUNCTION_BODY'' \<and> jget cert ''language'' = JStr ''c''"
  by (auto simp: capable_def capability_registry_def provider_id_def jget_def [of "(_, _) # _"] get_or_def)

section \<open>What an applicable certificate says\<close>

lemma applicable_facts:
  assumes "applicable_complete env cert repo_id revision expected = Inr (True, reason)"
  shows "jget cert ''analyzer'' = JStr provider_id \<and> jget cert ''language'' = JStr ''c'' \<and>
    jget cert ''relation_kind'' = JStr ''DIRECT_STATIC_CALL'' \<and> jget cert ''completeness'' = JStr ''COMPLETE'' \<and>
    \<not> truthy (jget cert ''unsupported_constructs'') \<and>
    jget cert ''subject'' = jget expected ''source'' \<and> jget cert ''repo_id'' = JStr repo_id \<and>
    jget cert ''canonical_revision'' = JStr revision \<and> receipt_valid (cv_hash env) cert \<and>
    is_published env repo_id revision \<and> inputs_unchanged env cert (base_of env repo_id) \<and>
    (\<exists>node subject. cv_node env repo_id revision (py_str (jget expected ''source'')) = Some node \<and>
      jget node ''kind'' = JStr ''FUNCTION'' \<and> jget node ''path'' = JStr (posix_path (cert_unit cert)) \<and>
      jindex node ''id'' = Inr subject \<and>
      (\<exists>item \<in> set (cv_supports env repo_id revision (py_str subject)). supports_run cert item))"
proof -
  note chain = applicable_chain [OF assms]
  from chain(4) obtain node subject where node: "subject_row env cert repo_id revision expected = Some node"
    and subject: "jindex node ''id'' = Inr subject"
    and found: "supported cert (cv_supports env repo_id revision (py_str subject)) = Inr True" by blast
  from supported_True [OF found] have "\<exists>item \<in> set (cv_supports env repo_id revision (py_str subject)). supports_run cert item"
    by blast
  moreover from node have "cv_node env repo_id revision (py_str (jget expected ''source'')) = Some node"
    "jget node ''kind'' = JStr ''FUNCTION''" "jget node ''path'' = JStr (posix_path (cert_unit cert))"
    by (auto simp: subject_row_def split: option.splits if_splits)
  moreover from chain(2) have "is_published env repo_id revision"
    by (simp add: store_checks_def is_published_def)
  moreover from chain(1) have "capable cert" by (simp add: static_checks_def)
  moreover note chain(1,3) subject
  ultimately show ?thesis
    unfolding capable_row static_checks_def by simp
qed

text \<open>C5: a certificate proves absence only when everything it was issued for still holds: it is a COMPLETE
  certificate of the C direct-call issuer for exactly the subject, repository and revision of the query,
  its receipt identity is the hash of its content, the revision is published, source, dependencies,
  analyzer and compile command are those of the analysis, the subject is a function of that translation
  unit, and a canonical support receipt comes from the same analyzer run.\<close>

lemma applicable_sound:
  assumes "applicable_complete env cert repo_id revision expected = Inr (True, reason)"
  shows "jget cert ''analyzer'' = JStr provider_id \<and> jget cert ''language'' = JStr ''c'' \<and>
    jget cert ''relation_kind'' = JStr ''DIRECT_STATIC_CALL'' \<and> jget cert ''completeness'' = JStr ''COMPLETE'' \<and>
    \<not> truthy (jget cert ''unsupported_constructs'') \<and>
    jget cert ''subject'' = jget expected ''source'' \<and> jget cert ''repo_id'' = JStr repo_id \<and>
    jget cert ''canonical_revision'' = JStr revision \<and> receipt_valid (cv_hash env) cert \<and>
    is_published env repo_id revision \<and> inputs_unchanged env cert (base_of env repo_id) \<and>
    (\<exists>node subject. cv_node env repo_id revision (py_str (jget expected ''source'')) = Some node \<and>
      jget node ''kind'' = JStr ''FUNCTION'' \<and> jget node ''path'' = JStr (posix_path (cert_unit cert)) \<and>
      jindex node ''id'' = Inr subject \<and>
      (\<exists>item \<in> set (cv_supports env repo_id revision (py_str subject)). supports_run cert item))"
  using assms by (rule applicable_facts)

section \<open>Freshness\<close>

lemma loaded_unit_digest:
  "load_translation_unit H fs row clang version schema = Inr u \<Longrightarrow>
    tu_raw_command_digest u = stable_digest H (raw_payload (tu_directory u) (tu_raw_arguments u) (tu_source u))"
  by (auto simp: load_translation_unit_def and_then_Inr Let_def split: if_splits)

lemma unit_digests:
  assumes "reloaded_unit env cert source clang = Inr u"
  shows "tu_raw_command_digest u = stable_digest (cv_hash env) (raw_payload (tu_directory u) (tu_raw_arguments u) (tu_source u))"
  using assms
  by (auto simp: reloaded_unit_def and_then_Inr dest: loaded_unit_digest split: sum.splits json.splits option.splits)

lemma raw_payload_inj:
  assumes "canon (raw_payload d args s) = canon (raw_payload d' args' s')"
  shows "args = args' \<and> d = d' \<and> s = s'"
proof -
  have "map canon (map JStr xs) = map JStr xs" for xs by simp
  then have "canon (raw_payload d args s) = JObj [(''arguments'', jstrs args), (''directory'', JStr d), (''source'', JStr s)]"
    for d args s by (simp add: raw_payload_def jstrs_def)
  moreover have "map JStr xs = map JStr ys \<Longrightarrow> xs = ys" for xs ys by (simp add: inj_map_eq_map inj_def)
  ultimately show ?thesis using assms by (simp add: jstrs_def)
qed

lemma float_free_raw: "float_free (raw_payload d args s)"
  by (simp add: raw_payload_def jstrs_def list_all_iff)

text \<open>C29: a certificate outlives no change of its inputs: at any two times at which the same certificate
  applies, the source and every dependency have the same digest, the analyzer is the same binary, and
  the compile command has the same arguments, directory and source.\<close>

lemma certificate_pins_inputs:
  assumes "applicable_complete env cert repo_id revision expected = Inr (True, reason)"
    and "applicable_complete env' cert repo_id' revision' expected' = Inr (True, reason')"
    and "cv_hash env' = cv_hash env" and "inj (cv_hash env)"
  shows "file_digest env (fs_resolve (cv_fs env) (path_join (base_of env repo_id) (cert_unit cert))) =
      file_digest env' (fs_resolve (cv_fs env') (path_join (base_of env' repo_id') (cert_unit cert))) \<and>
    (\<exists>deps. jget cert ''dependency_digests'' = JObj deps \<and>
      (\<forall>p \<in> fst ` set deps. file_digest env p = file_digest env' p)) \<and>
    (\<exists>exe clang u u'. jindex cert ''analyzer_executable'' = Inr exe \<and> cv_clang env (py_str exe) = Some clang \<and>
      cv_clang env' (py_str exe) = Some clang \<and>
      reloaded_unit env cert (fs_resolve (cv_fs env) (path_join (base_of env repo_id) (cert_unit cert))) clang = Inr u \<and>
      reloaded_unit env' cert (fs_resolve (cv_fs env') (path_join (base_of env' repo_id') (cert_unit cert))) clang = Inr u' \<and>
      tu_raw_arguments u = tu_raw_arguments u' \<and> tu_directory u = tu_directory u' \<and> tu_source u = tu_source u')"
proof -
  let ?s = "fs_resolve (cv_fs env) (path_join (base_of env repo_id) (cert_unit cert))"
  let ?s' = "fs_resolve (cv_fs env') (path_join (base_of env' repo_id') (cert_unit cert))"
  from applicable_chain(3) [OF assms(1)] obtain deps clang u exe where
    a: "jget cert ''source_digest'' = JStr (file_digest env ?s)" "jget cert ''dependency_digests'' = JObj deps"
      "dependencies_current env deps" "jindex cert ''analyzer_executable'' = Inr exe"
      "cv_clang env (py_str exe) = Some clang"
      "canon (jget cert ''analyzer_identity'') = canon (JObj (clang_dict clang))"
      "reloaded_unit env cert ?s clang = Inr u" "unit_matches cert u"
    unfolding inputs_unchanged_def Let_def by blast
  from applicable_chain(3) [OF assms(2)] obtain deps' clang' u' exe' where
    b: "jget cert ''source_digest'' = JStr (file_digest env' ?s')" "jget cert ''dependency_digests'' = JObj deps'"
      "dependencies_current env' deps'" "jindex cert ''analyzer_executable'' = Inr exe'"
      "cv_clang env' (py_str exe') = Some clang'"
      "canon (jget cert ''analyzer_identity'') = canon (JObj (clang_dict clang'))"
      "reloaded_unit env' cert ?s' clang' = Inr u'" "unit_matches cert u'"
    unfolding inputs_unchanged_def Let_def by blast
  from a b have same: "deps' = deps" "exe' = exe" by simp_all
  from a(6) b(6) have "clang' = clang" by (simp add: clang_dict_def)
  moreover have "\<forall>p \<in> fst ` set deps. file_digest env p = file_digest env' p"
    using a(3) b(3) by (fastforce simp: dependencies_current_def list_all_iff same)
  moreover have "tu_raw_arguments u = tu_raw_arguments u' \<and> tu_directory u = tu_directory u' \<and> tu_source u = tu_source u'"
  proof -
    note d = unit_digests [OF a(7)] and d' = unit_digests [OF b(7)]
    have "JStr (tu_raw_command_digest u) = JStr (tu_raw_command_digest u')"
      using a(8) b(8) unfolding unit_matches_def by metis
    then have "dumps False (raw_payload (tu_directory u) (tu_raw_arguments u) (tu_source u)) =
        dumps False (raw_payload (tu_directory u') (tu_raw_arguments u') (tu_source u'))"
      using assms(4) by (simp add: d d' assms(3) stable_digest_def inj_eq)
    then have "canon (raw_payload (tu_directory u) (tu_raw_arguments u) (tu_source u)) =
        canon (raw_payload (tu_directory u') (tu_raw_arguments u') (tu_source u'))"
      by (simp only: dumps_eq_iff [OF float_free_raw float_free_raw])
    from raw_payload_inj [OF this] show ?thesis by blast
  qed
  moreover have "file_digest env ?s = file_digest env' ?s'" using a(1) b(1) by simp
  ultimately show ?thesis using a b same by blast
qed

section \<open>A sample certificate\<close>

definition sample_clang :: clang_identity where
  "sample_clang = \<lparr>ci_executable = ''cc'', ci_version = ''1'', ci_target = ''t'', ci_binary_sha256 = ''b''\<rparr>"

definition sample_files :: file_system where
  "sample_files = \<lparr>fs_resolve = (\<lambda>s. s), fs_is_file = (\<lambda>s. True), fs_sha = (\<lambda>s. ''9'')\<rparr>"

definition sample_command :: jdict where
  "sample_command = [(''directory'', JStr ''/r''), (''file'', JStr ''a.c''),
     (''arguments'', jstrs [''cc'', ''-c'', ''a.c''])]"

definition sample_support :: jdict where
  "sample_support = [(''support_receipt_id'', JStr ''p1''), (''lane_id'', JStr ''clang_provider''),
     (''provenance'', JObj [(''analysis_id'', JStr ''run'')])]"

definition sample_cov :: "(string \<Rightarrow> string) \<Rightarrow> cov_env" where
  "sample_cov H = \<lparr>cv_hash = H, cv_fs = sample_files,
     cv_snapshot = (\<lambda>s. Some \<lparr>sn_id = s, sn_repo_id = ''r'', sn_parent_id = None,
       sn_publication_status = Some ''published'', sn_created_at = 1, sn_meta = [(''run_id'', JStr ''run'')]\<rparr>),
     cv_root = (\<lambda>r. Some ''/r''), cv_inside = (\<lambda>b p. True), cv_clang = (\<lambda>e. Some sample_clang),
     cv_database = (\<lambda>p. Some (''/r'', JList [JObj sample_command])),
     cv_node = (\<lambda>r s n. Some [(''id'', JStr ''f''), (''path'', JStr ''a.c''), (''kind'', JStr ''FUNCTION'')]),
     cv_supports = (\<lambda>r s n. [sample_support])\<rparr>"

definition sample_unit :: "(string \<Rightarrow> string) \<Rightarrow> translation_unit option" where
  "sample_unit H = (case load_translation_unit H sample_files sample_command sample_clang provider_version ''clang-ast-v1'' of
     Inl e \<Rightarrow> None | Inr u \<Rightarrow> Some u)"

definition sample_payload :: "(string \<Rightarrow> string) \<Rightarrow> translation_unit \<Rightarrow> jdict" where
  "sample_payload H u = [(''schema_version'', JStr ''coverage-certificate/1''), (''issuer'', JStr issuer_id),
     (''repo_id'', JStr ''r''), (''canonical_revision'', JStr ''s1''), (''analyzer_run_id'', JStr ''run''),
     (''analyzer'', JStr provider_id), (''provider_version'', JStr provider_version),
     (''provider_config_digest'', JStr (provider_config_digest H)), (''analyzer_executable'', JStr ''cc''),
     (''analyzer_identity'', JObj (clang_dict sample_clang)), (''language'', JStr (tu_language u)),
     (''relation_kind'', JStr ''DIRECT_STATIC_CALL''), (''subject'', JStr ''f''),
     (''subject_scope'', JStr ''EXACT_TU_FUNCTION_BODY''), (''translation_unit'', JStr ''a.c''),
     (''build_context'', JStr (tu_semantic_command_digest u)),
     (''compile_command_digest'', JStr (tu_raw_command_digest u)), (''compile_commands_path'', JStr ''db''),
     (''tu_identity'', JStr (tu_identity u)), (''source_digest'', JStr (tu_source_digest u)),
     (''dependency_digests'', JObj [(''/r/a.h'', JStr ''sha256:9'')]),
     (''included_domain'', JObj [(''scope_type'', JStr ''EXACT_TU_FUNCTION_BODY''),
       (''translation_unit'', JStr ''a.c''), (''subject'', JStr ''f''), (''relation'', JStr ''DIRECT_STATIC_CALL'')]),
     (''parse_status'', JStr ''COMPLETE''), (''analysis_status'', JStr ''COMPLETE''),
     (''unsupported_constructs'', JList []), (''completeness'', JStr ''COMPLETE''),
     (''rule_version'', JStr coverage_rule_version), (''registry_version'', JStr (rg_version (eg_registry default_engine))),
     (''capability_registry_version'', JStr (capability_registry_version H)),
     (''support_receipt_ids'', jstrs [''p1'']), (''created_at'', JInt 7)]"

definition sample_certificate :: "(string \<Rightarrow> string) \<Rightarrow> jdict" where
  "sample_certificate H = (case sample_unit H of None \<Rightarrow> [] | Some u \<Rightarrow> issue_certificate H (sample_payload H u))"

definition sample_query :: jdict where
  "sample_query = [(''kind'', JStr ''CALLS''), (''source'', JStr ''f''), (''target'', JStr ''g''),
     (''call_semantics'', JStr ''DIRECT_STATIC_CALL'')]"

lemma sample_reloaded:
  "\<exists>u. sample_unit H = Some u \<and> tu_language u = ''c'' \<and> tu_source_digest u = ''sha256:9''"
proof -
  have args: "compile_arguments sample_command = Inr [''cc'', ''-c'', ''a.c'']" by code_simp
  have "analysis_arguments [''cc'', ''-c'', ''a.c''] ''/r/a.c'' ''cc'' = Inr ([''cc''] @ analysis_flags @ [''/r/a.c''])"
    by code_simp
  moreover have "path_join ''/r'' ''a.c'' = ''/r/a.c''" "row_text sample_command ''directory'' = ''/r''"
    "row_text sample_command ''file'' = ''a.c''" "lower (suffix_of ''/r/a.c'') = ''.c''" by code_simp+
  ultimately show ?thesis
    by (simp add: sample_unit_def load_translation_unit_def args sample_files_def sample_clang_def Let_def)
qed

lemma sample_row: "exact_compile_row sample_files ''/r'' (JList [JObj sample_command]) ''/r/a.c'' = Inr sample_command"
  by code_simp

lemma sample_selectors:
  "cv_hash (sample_cov H) = H" "cv_fs (sample_cov H) = sample_files" "cv_root (sample_cov H) r = Some ''/r''"
  "cv_inside (sample_cov H) b p" "cv_clang (sample_cov H) e = Some sample_clang"
  "cv_database (sample_cov H) d = Some (''/r'', JList [JObj sample_command])"
  "cv_node (sample_cov H) r sid n = Some [(''id'', JStr ''f''), (''path'', JStr ''a.c''), (''kind'', JStr ''FUNCTION'')]"
  "cv_supports (sample_cov H) r sid n = [sample_support]"
  "fs_resolve sample_files p = p" "fs_is_file sample_files p" "fs_sha sample_files p = ''9''"
  by (simp_all add: sample_cov_def sample_files_def)

lemma sample_paths:
  "path_join ''/r'' ''a.c'' = ''/r/a.c''" "\<not> is_absolute ''a.c''" "path_parts ''a.c'' = [''a.c'']"
  "posix_path ''a.c'' = ''a.c''"
  by code_simp+

lemma sample_cert_unit:
  assumes "sample_unit H = Some u"
  shows "k \<notin> {''id'', ''receipt_identity''} \<Longrightarrow> jget (sample_certificate H) k = canon (jget (sample_payload H u) k)"
    and "k \<notin> {''id'', ''receipt_identity''} \<Longrightarrow>
      map_of (sample_certificate H) k = map_option canon (map_of (sample_payload H u) k)"
    and "receipt_valid H (sample_certificate H)"
    and "cert_unit (sample_certificate H) = ''a.c''"
proof -
  have cert: "sample_certificate H = issue_certificate H (sample_payload H u)"
    using assms by (simp add: sample_certificate_def)
  show field: "jget (sample_certificate H) k = canon (jget (sample_payload H u) k)"
    if "k \<notin> {''id'', ''receipt_identity''}" for k
    unfolding cert using that by (rule issued_field)
  show "map_of (sample_certificate H) k = map_option canon (map_of (sample_payload H u) k)"
    if "k \<notin> {''id'', ''receipt_identity''}" for k
    unfolding cert using that by (rule issued_lookup)
  show "receipt_valid H (sample_certificate H)"
    unfolding cert by (rule issued_receipt_valid) (simp_all add: sample_payload_def)
  have "jget (sample_payload H u) ''translation_unit'' = JStr ''a.c''"
    by (simp add: sample_payload_def jget_def get_or_def)
  then show "cert_unit (sample_certificate H) = ''a.c''"
    by (simp add: cert_unit_def text_at_def field py_str_def)
qed

lemma sample_static:
  assumes "sample_unit H = Some u" and "tu_language u = ''c''"
  shows "list_all fst (static_checks H (sample_certificate H) ''r'' ''s1'' sample_query)"
  using assms sample_cert_unit(3) [OF assms(1)]
  by (simp add: static_checks_def capable_row sample_cert_unit(1) [OF assms(1)] sample_query_def same_dict_def
      exact_domain_def sample_payload_def jget_def [of "(_, _) # _"] get_or_def)

lemma sample_unchanged:
  assumes u: "sample_unit H = Some u" and "tu_source_digest u = ''sha256:9''"
  shows "changed_input (sample_cov H) (sample_certificate H) ''/r'' = Inr None"
proof -
  from u have load: "load_translation_unit H sample_files sample_command sample_clang provider_version ''clang-ast-v1'' = Inr u"
    by (auto simp: sample_unit_def split: sum.splits)
  note eval = sample_cert_unit(1) [OF u] sample_payload_def jget_def [of "(_, _) # _"] get_or_def [of "(_, _) # _"]
  have idx: "jindex (sample_certificate H) ''compile_commands_path'' = Inr (JStr ''db'')"
    "jindex (sample_certificate H) ''analyzer_executable'' = Inr (JStr ''cc'')"
    by (simp_all add: jindex_def sample_cert_unit(2) [OF u] sample_payload_def)
  have fields: "jget (sample_certificate H) ''source_digest'' = JStr ''sha256:9''"
    "jget (sample_certificate H) ''dependency_digests'' = JObj [(''/r/a.h'', JStr ''sha256:9'')]"
    "jget (sample_certificate H) ''analyzer_identity'' = canon (JObj (clang_dict sample_clang))"
    using assms(2) by (simp_all add: eval)
  have "reloaded_unit (sample_cov H) (sample_certificate H) ''/r/a.c'' sample_clang = Inr u"
    using sample_row load by (simp add: reloaded_unit_def idx sample_selectors)
  moreover have "unit_matches (sample_certificate H) u" by (simp add: unit_matches_def eval)
  moreover have "same_dict (canon (JObj (clang_dict sample_clang))) (clang_dict sample_clang)"
    using canon_idem [of "JObj (clang_dict sample_clang)"] by (simp add: same_dict_def)
  ultimately show ?thesis
    by (simp only: changed_input_def Let_def sample_cert_unit(4) [OF u] sample_paths sample_selectors fields idx
        file_digest_def dependencies_current_def) (simp add: py_str_def)
qed

lemma sample_supported:
  assumes u: "sample_unit H = Some u"
  shows "supported (sample_certificate H) [sample_support] = Inr True"
proof -
  have "get_or (sample_certificate H) ''support_receipt_ids'' (JList []) = jstrs [''p1'']"
    by (simp add: get_or_def sample_cert_unit(2) [OF u] sample_payload_def jstrs_def)
  moreover have "jget (sample_certificate H) ''analyzer_run_id'' = JStr ''run''"
    by (simp add: sample_cert_unit(1) [OF u]) (simp add: sample_payload_def jget_def get_or_def)
  ultimately show ?thesis
    by (simp add: supports_run_def py_in_def sample_support_def as_mapping_def jstrs_def jget_def [of "(_, _) # _"]
        get_or_def [of "(_, _) # _"])
qed

lemma sample_applies:
  "applicable_complete (sample_cov H) (sample_certificate H) ''r'' ''s1'' sample_query =
    Inr (True, ''bounded_direct_static_domain_complete'')"
proof -
  obtain u where u: "sample_unit H = Some u" "tu_language u = ''c''" "tu_source_digest u = ''sha256:9''"
    using sample_reloaded by blast
  have "list_all fst (store_checks (sample_cov H) (sample_certificate H) ''r'' ''s1'')"
    by (simp add: store_checks_def sample_cert_unit(4) [OF u(1)] sample_paths sample_selectors)
      (simp add: sample_cov_def)
  with sample_static [OF u(1,2)] have "first_failure (static_checks H (sample_certificate H) ''r'' ''s1'' sample_query @
      store_checks (sample_cov H) (sample_certificate H) ''r'' ''s1'') = None"
    by (simp add: first_failure_None)
  moreover have "subject_row (sample_cov H) (sample_certificate H) ''r'' ''s1'' sample_query =
      Some [(''id'', JStr ''f''), (''path'', JStr ''a.c''), (''kind'', JStr ''FUNCTION'')]"
    by (simp add: subject_row_def sample_cert_unit(4) [OF u(1)] sample_paths sample_selectors jget_def get_or_def)
  moreover have "jindex [(''id'', JStr ''f''), (''path'', JStr ''a.c''), (''kind'', JStr ''FUNCTION'')] ''id'' = Inr (JStr ''f'')"
    by (simp add: jindex_def)
  moreover note sample_unchanged [OF u(1,3)] sample_supported [OF u(1)]
  ultimately show ?thesis
    by (simp only: applicable_complete_def sample_selectors option.case sum.case and_then.simps if_True)
qed

lemma applicable_sound_witness:
  "is_published (sample_cov id) ''r'' ''s1'' \<and> inputs_unchanged (sample_cov id) (sample_certificate id) (base_of (sample_cov id) ''r'')"
  using applicable_sound [OF sample_applies [of id]] by blast

lemma certificate_pins_inputs_witness:
  "\<exists>exe u. jindex (sample_certificate id) ''analyzer_executable'' = Inr exe \<and>
    reloaded_unit (sample_cov id) (sample_certificate id) (path_join (base_of (sample_cov id) ''r'')
      (cert_unit (sample_certificate id))) sample_clang = Inr u"
  using certificate_pins_inputs [OF sample_applies [of id] sample_applies [of id]]
  by (auto simp: sample_selectors)

section \<open>Altered certificates\<close>

text \<open>A certificate cannot be altered: with a collision-free hash, two certificates that both apply and
  carry the same receipt identity have the same content up to the order of keys.\<close>

lemma certificate_unalterable:
  assumes "applicable_complete env cert repo_id revision expected = Inr (True, reason)"
    and "applicable_complete env' cert' repo_id' revision' expected' = Inr (True, reason')"
    and "cv_hash env' = cv_hash env" and "inj (cv_hash env)"
    and "jget cert ''receipt_identity'' = jget cert' ''receipt_identity''"
    and "float_free (JObj (receipt_payload cert))" and "float_free (JObj (receipt_payload cert'))"
  shows "canon (JObj (receipt_payload cert)) = canon (JObj (receipt_payload cert'))"
proof -
  have "receipt_valid (cv_hash env) cert" "receipt_valid (cv_hash env) cert'"
    using applicable_facts [OF assms(1)] applicable_facts [OF assms(2)] assms(3) by simp_all
  then have "stable_digest (cv_hash env) (JObj (receipt_payload cert)) =
      stable_digest (cv_hash env) (JObj (receipt_payload cert'))"
    using assms(5) by (simp add: receipt_valid_def Let_def)
  with assms(4) have "dumps False (JObj (receipt_payload cert)) = dumps False (JObj (receipt_payload cert'))"
    by (simp add: stable_digest_def inj_eq)
  then show ?thesis by (simp only: dumps_eq_iff [OF assms(6,7)])
qed

section \<open>The certificate table\<close>

text \<open>The two writers, in any order and with any environment and caller.\<close>

inductive cert_reachable :: "jdict set \<Rightarrow> cert_table \<Rightarrow> bool" where
  none: "cert_reachable {} []"
| caller: "cert_reachable issued tab \<Longrightarrow> record_coverage_certificate env uuid now q tab = Inr (cert, tab') \<Longrightarrow>
    cert_reachable issued tab'"
| issuer: "cert_reachable issued tab \<Longrightarrow> record_issued_certificate env cert tab = Inr tab' \<Longrightarrow>
    cert_reachable (insert cert issued) tab'"

definition domain_of :: "cert_row \<Rightarrow> string \<times> string \<times> string \<times> string" where
  "domain_of r = (ct_repo_id r, ct_revision r, ct_subject r, ct_relation r)"

lemma free_domain:
  assumes "coverage_certificates tab repo_id revision subject relation = []"
  shows "(repo_id, revision, subject, relation) \<notin> domain_of ` set tab"
proof -
  have "length (cert_rows tab repo_id revision subject relation) =
      length (filter (same_domain repo_id revision subject relation) tab)"
    by (simp add: cert_rows_def)
  with assms have "filter (same_domain repo_id revision subject relation) tab = []"
    by (simp add: coverage_certificates_def)
  then show ?thesis by (auto simp: filter_empty_conv same_domain_def domain_of_def)
qed

lemma taken_id: "list_ex (\<lambda>x. ct_id x = ct_id r) tab \<longleftrightarrow> ct_id r \<in> ct_id ` set tab"
  by (induction tab) auto

lemma insert_cert_Inr: "insert_cert r tab = Inr tab' \<longleftrightarrow> tab' = tab @ [r] \<and> ct_id r \<notin> ct_id ` set tab"
  by (auto simp: insert_cert_def taken_id)

lemma value_error_Inr [simp]: "value_error ok = Inr u \<longleftrightarrow> ok"
  by (auto simp: value_error_def)

lemma caller_row:
  assumes "record_coverage_certificate env uuid now q tab = Inr (cert, tab')"
  shows "\<exists>r. tab' = tab @ [r] \<and> ct_id r \<notin> ct_id ` set tab \<and> domain_of r \<notin> domain_of ` set tab \<and>
    jget (ct_payload r) ''completeness'' \<in> {JStr ''PARTIAL'', JStr ''UNKNOWN''}"
proof -
  from assms have ok: "cq_completeness q \<in> {''COMPLETE'', ''PARTIAL'', ''UNKNOWN''}" "cq_completeness q \<noteq> ''COMPLETE''"
    and free: "coverage_certificates tab (cq_repo_id q) (cq_revision q) (cq_subject q) (cq_relation q) = []"
    and ins: "insert_cert \<lparr>ct_id = ''coverage-'' @ uuid, ct_repo_id = cq_repo_id q, ct_revision = cq_revision q,
          ct_subject = cq_subject q, ct_relation = cq_relation q, ct_payload = request_dict q uuid (max now 0),
          ct_created_at = max now 0\<rparr> tab = Inr tab'"
    unfolding record_coverage_certificate_def Let_def and_then_Inr value_error_Inr by auto
  have "jget (request_dict q uuid (max now 0)) ''completeness'' = JStr (cq_completeness q)"
    by (simp add: request_dict_def jget_def get_or_def)
  with ok free_domain [OF free] ins show ?thesis by (auto simp: insert_cert_Inr domain_of_def)
qed

lemma issuer_row:
  assumes "record_issued_certificate env cert tab = Inr tab'"
  shows "\<exists>r. tab' = tab @ [r] \<and> ct_id r \<notin> ct_id ` set tab \<and> domain_of r \<notin> domain_of ` set tab \<and> ct_payload r = cert"
proof -
  let ?r = "\<lparr>ct_id = text_at cert ''id'', ct_repo_id = text_at cert ''repo_id'',
      ct_revision = text_at cert ''canonical_revision'', ct_subject = text_at cert ''subject'',
      ct_relation = text_at cert ''relation_kind'', ct_payload = cert, ct_created_at = creation_time cert\<rparr>"
  from assms have free: "coverage_certificates tab (text_at cert ''repo_id'') (text_at cert ''canonical_revision'')
        (text_at cert ''subject'') (text_at cert ''relation_kind'') = []"
    and ins: "insert_cert ?r tab = Inr tab'"
    unfolding record_issued_certificate_def Let_def and_then_Inr value_error_Inr by auto
  have "tab' = tab @ [?r]" "ct_id ?r \<notin> ct_id ` set tab" using iffD1 [OF insert_cert_Inr ins] by blast+
  moreover have "domain_of ?r \<notin> domain_of ` set tab" using free_domain [OF free] by (simp add: domain_of_def)
  ultimately show ?thesis by (intro exI [of _ ?r]) simp
qed

lemma table_invariant:
  assumes "cert_reachable issued tab"
  shows "distinct (map domain_of tab) \<and> distinct (map ct_id tab) \<and>
    (\<forall>r \<in> set tab. jget (ct_payload r) ''completeness'' = JStr ''COMPLETE'' \<longrightarrow> ct_payload r \<in> issued)"
  using assms
proof induction
  case none
  then show ?case by simp
next
  case (caller issued tab env uuid now q cert tab')
  from caller_row [OF caller.hyps(2)] caller.IH show ?case by auto
next
  case (issuer issued tab env cert tab')
  from issuer_row [OF issuer.hyps(2)] issuer.IH show ?case by auto
qed

text \<open>C30: over any sequence of writes the table holds at most one certificate for a domain of repository,
  revision, subject and relation, ids are unique, and a COMPLETE one was handed over by the issuer:
  no caller can write absence.\<close>

lemma one_certificate_per_domain:
  assumes "cert_reachable issued tab"
  shows "distinct (map domain_of tab) \<and> distinct (map ct_id tab) \<and>
    (\<forall>r \<in> set tab. jget (ct_payload r) ''completeness'' = JStr ''COMPLETE'' \<longrightarrow> ct_payload r \<in> issued)"
  using assms by (rule table_invariant)

lemma sample_recorded: "\<exists>tab r. record_issued_certificate (sample_cov H) (sample_certificate H) [] = Inr tab \<and> tab = [r] \<and>
    ct_payload r = sample_certificate H \<and> domain_of r = (''r'', ''s1'', ''f'', ''DIRECT_STATIC_CALL'')"
proof -
  obtain u where u: "sample_unit H = Some u" using sample_reloaded by blast
  note field = sample_cert_unit(1) [OF u]
  have "jget (sample_payload H u) ''repo_id'' = JStr ''r''" "jget (sample_payload H u) ''canonical_revision'' = JStr ''s1''"
    "jget (sample_payload H u) ''subject'' = JStr ''f''" "jget (sample_payload H u) ''relation_kind'' = JStr ''DIRECT_STATIC_CALL''"
    "jget (sample_payload H u) ''analyzer_run_id'' = JStr ''run''" "jget (sample_payload H u) ''support_receipt_ids'' = jstrs [''p1'']"
    by (simp_all add: sample_payload_def jget_def get_or_def)
  then have texts: "text_at (sample_certificate H) ''repo_id'' = ''r''" "text_at (sample_certificate H) ''canonical_revision'' = ''s1''"
    "text_at (sample_certificate H) ''subject'' = ''f''" "text_at (sample_certificate H) ''relation_kind'' = ''DIRECT_STATIC_CALL''"
    and run: "jget (sample_certificate H) ''analyzer_run_id'' = JStr ''run''"
    and ids: "jget (sample_certificate H) ''support_receipt_ids'' = jstrs [''p1'']"
    by (simp_all add: text_at_def field py_str_def jstrs_def)
  have "is_published (sample_cov H) ''r'' ''s1''" "snapshot_meta (sample_cov H) ''s1'' = [(''run_id'', JStr ''run'')]"
    by (simp_all add: is_published_def snapshot_meta_def sample_cov_def)
  moreover have "linked_support (sample_certificate H) sample_support"
    by (simp add: linked_support_def ids jstrs_def supports_run_def run sample_support_def jget_def [of "(_, _) # _"]
        get_or_def [of "(_, _) # _"] as_mapping_def)
  moreover have "coverage_certificates [] a b c d = []" for a b c d
    by (simp add: coverage_certificates_def cert_rows_def)
  ultimately show ?thesis
    by (simp add: record_issued_certificate_def texts run sample_selectors value_error_def insert_cert_def
        jget_def [of "(_, _) # _"] get_or_def [of "(_, _) # _"] domain_of_def Let_def)
qed

lemma one_certificate_per_domain_witness:
  "\<exists>r. distinct (map domain_of [r]) \<and> ct_payload r = sample_certificate id \<and>
    cert_reachable {sample_certificate id} [r]"
proof -
  obtain r where r: "record_issued_certificate (sample_cov id) (sample_certificate id) [] = Inr [r]"
    and cert: "ct_payload r = sample_certificate id" using sample_recorded [of id] by blast
  have reach: "cert_reachable {sample_certificate id} [r]"
    using cert_reachable.issuer [OF cert_reachable.none r] .
  from one_certificate_per_domain [OF this] reach cert show ?thesis by blast
qed

lemma float_free_dict_set: "float_free (JObj d) \<Longrightarrow> float_free v \<Longrightarrow> float_free (JObj (dict_set k v d))"
  by (induction k v d rule: dict_set.induct) auto

lemma float_free_issued: "float_free (JObj payload) \<Longrightarrow> float_free (JObj (receipt_payload (issue_certificate H payload)))"
proof -
  assume free: "float_free (JObj payload)"
  define dv where "dv = dict_set ''id'' (JStr (''coverage-'' @ short_identity (stable_digest H (JObj payload))))
    (dict_set ''receipt_identity'' (JStr (stable_digest H (JObj payload))) payload)"
  have "float_free (JObj dv)" unfolding dv_def by (intro float_free_dict_set free) simp_all
  then have "float_free (canon (JObj dv))" by (rule float_free_canon)
  then have "float_free (JObj (issue_certificate H payload))"
    by (simp add: issue_certificate_def dv_def Let_def canonical_dict_def as_mapping_def)
  then show ?thesis by (auto simp: receipt_payload_def list_all_iff)
qed

lemma certificate_unalterable_witness:
  "canon (JObj (receipt_payload (sample_certificate id))) = canon (JObj (receipt_payload (sample_certificate id)))"
proof (rule certificate_unalterable [OF sample_applies [of id] sample_applies [of id]])
  obtain u where u: "sample_unit id = Some u" using sample_reloaded by blast
  have "float_free (JObj (sample_payload id u))"
    by (simp add: sample_payload_def clang_dict_def jstrs_def)
  then show "float_free (JObj (receipt_payload (sample_certificate id)))"
    by (simp only: sample_certificate_def u option.case float_free_issued)
  then show "float_free (JObj (receipt_payload (sample_certificate id)))" .
qed (simp_all add: sample_selectors)

section \<open>The verdict of the lifecycle\<close>

text \<open>An environment of the lifecycle whose certificates are those of the table and whose check is the
  check of this component; a check that raises counts as one that refuses.\<close>

definition with_coverage :: "cov_env \<Rightarrow> cert_table \<Rightarrow> lc_env \<Rightarrow> lc_env" where
  "with_coverage cov tab env = env\<lparr>en_coverage_certificates := coverage_certificates tab,
     en_applicable_complete := (\<lambda>cert repo_id revision expected.
       case applicable_complete cov cert repo_id revision expected of Inr p \<Rightarrow> p | Inl _ \<Rightarrow> (False, ''raised''))\<rparr>"

text \<open>C7: the lifecycle says MISSING_IMPLEMENTATION only on issued proof: for every missing fact the table
  holds a certificate of the issuer for the source of the fact at the compared revision, which applies
  with unchanged inputs and no unsupported construct.\<close>

lemma missing_verdict_certified:
  assumes "cert_reachable issued tab" and "outcome_of (with_coverage cov tab env) c cp = MISSING_IMPLEMENTATION"
    and "k \<in> set (missing_keys cp)"
  shows "\<exists>r \<in> set tab. ct_payload r \<in> issued \<and>
    domain_of r = (ch_repo_id c, cp_revision cp, fst (snd k), ''DIRECT_STATIC_CALL'') \<and>
    jget (ct_payload r) ''subject'' = jget (get_or (expected_by cp) k []) ''source'' \<and>
    \<not> truthy (jget (ct_payload r) ''unsupported_constructs'') \<and>
    inputs_unchanged cov (ct_payload r) (base_of cov (ch_repo_id c))"
proof -
  let ?env = "with_coverage cov tab env" and ?f = "get_or (expected_by cp) k []"
  from outcome_table [of cp ?env c] assms(2,3) have "fst (applicability ?env c cp k)" by simp
  then obtain cert certs where certs: "certificates_for ?env c cp k = cert # certs"
    and app: "fst (en_applicable_complete ?env cert (ch_repo_id c) (cp_revision cp) ?f)"
    by (auto simp: applicability_def split: list.splits)
  from app obtain reason where ok: "applicable_complete cov cert (ch_repo_id c) (cp_revision cp) ?f = Inr (True, reason)"
    by (auto simp: with_coverage_def split: sum.splits)
  from certs have "cert \<in> set (coverage_certificates tab (ch_repo_id c) (cp_revision cp) (fst (snd k)) ''DIRECT_STATIC_CALL'')"
    by (auto simp: certificates_for_def with_coverage_def split: if_splits)
  then obtain r where r: "r \<in> set tab" "ct_payload r = cert"
    "domain_of r = (ch_repo_id c, cp_revision cp, fst (snd k), ''DIRECT_STATIC_CALL'')"
    by (auto simp: coverage_certificates_def cert_rows_def same_domain_def domain_of_def)
  note facts = applicable_facts [OF ok]
  from table_invariant [OF assms(1)] r facts have "ct_payload r \<in> issued" by blast
  with r facts show ?thesis by blast
qed

lemma missing_verdict_certified_witness:
  "\<exists>r env c cp. outcome_of (with_coverage (sample_cov id) [r] env) c cp = MISSING_IMPLEMENTATION \<and>
    ct_payload r = sample_certificate id \<and> inputs_unchanged (sample_cov id) (ct_payload r) (base_of (sample_cov id) (ch_repo_id c))"
proof -
  obtain r where r: "record_issued_certificate (sample_cov id) (sample_certificate id) [] = Inr [r]"
    and cert: "ct_payload r = sample_certificate id" and dom: "domain_of r = (''r'', ''s1'', ''f'', ''DIRECT_STATIC_CALL'')"
    using sample_recorded [of id] by blast
  obtain c :: design_change where c: "ch_repo_id c = ''r''"
    using that [of "undefined\<lparr>ch_repo_id := ''r''\<rparr>"] by simp
  fix env :: lc_env
  define cp where "cp = \<lparr>cp_revision = ''s1'', cp_expected = [sample_query], cp_rows = [], cp_kinds = [], cp_sources = [],
    cp_base_keys = []\<rparr>"
  let ?env = "with_coverage (sample_cov id) [r] env"
  let ?k = "fact_key sample_query"
  have key: "fst (snd ?k) = ''f''"
    by (simp add: fact_key_def source_text_def sample_query_def jget_def get_or_def py_str_def)
  have ebk: "expected_by cp = [(?k, sample_query)]" by (simp add: expected_by_def cp_def dict_of_def)
  have none: "actual_by cp = []" by (simp add: actual_by_def cp_def dict_of_def)
  have missing: "missing_keys cp = [?k]"
    by (simp add: missing_keys_def ebk none keys_def)
  have "coverage_certificates [r] ''r'' ''s1'' ''f'' ''DIRECT_STATIC_CALL'' = [sample_certificate id]"
    using dom cert by (simp add: coverage_certificates_def cert_rows_def same_domain_def domain_of_def)
  moreover have "jget sample_query ''call_semantics'' = JStr ''DIRECT_STATIC_CALL''"
    by (simp add: sample_query_def jget_def get_or_def)
  ultimately have certs: "certificates_for ?env c cp ?k = [sample_certificate id]"
    by (simp add: certificates_for_def ebk with_coverage_def key c get_or_def) (simp add: cp_def)
  have "en_applicable_complete ?env (sample_certificate id) ''r'' ''s1'' sample_query =
      (True, ''bounded_direct_static_domain_complete'')"
    using sample_applies [of id] by (simp add: with_coverage_def)
  moreover have "cp_revision cp = ''s1''" by (simp add: cp_def)
  ultimately have "applicability ?env c cp ?k = (True, ''bounded_direct_static_domain_complete'')"
    by (simp add: applicability_def certs c ebk get_or_def)
  then have out: "outcome_of ?env c cp = MISSING_IMPLEMENTATION"
    by (simp add: outcome_of_def unknown_missing_def proved_missing_def missing)
  have "?k \<in> set (missing_keys cp)" by (simp add: missing)
  from missing_verdict_certified [OF cert_reachable.issuer [OF cert_reachable.none r] out this] out cert c
  show ?thesis by (intro exI [of _ r] exI [of _ env] exI [of _ c] exI [of _ cp]) simp
qed

end
