(* ===== verification/Graph_Store.thy ===== *)
theory Graph_Store
  imports Authority Lifecycle_Evaluate Coverage_Audit
begin

text \<open>
  The canonical graph of a repository as the SQLite store keeps it (\<open>db.py\<close>, the tables
  \<open>snapshots\<close>, \<open>nodes\<close>, \<open>edges\<close> and \<open>canonical_support_receipts\<close> of \<open>schema.py\<close>): a revision is
  created in staging, filled, supported by receipts and published.

  A table is the list of its rows in \<open>rowid\<close> order; a column that holds JSON text is the value it
  encodes. A violated primary key raises \<open>GraphIntegrityError\<close>. A handler works on the rows of the
  open transaction; its caller commits or rolls back.
\<close>

section \<open>Rows\<close>

datatype graph_error = GraphRuntimeError | GraphIntegrityError | GraphRaised ev_error

fun raised :: "ev_error + 'a \<Rightarrow> graph_error + 'a" where
  "raised (Inl e) = Inl (GraphRaised e)"
| "raised (Inr a) = Inr a"

lemma raised_Inr [simp, err_elims]: "raised m = Inr a \<longleftrightarrow> m = Inr a"
  by (cases m) auto

definition demand :: "bool \<Rightarrow> graph_error \<Rightarrow> graph_error + unit" where
  "demand ok e = (if ok then Inr () else Inl e)"

lemma demand_Inr [simp, err_elims]: "demand ok e = Inr u \<longleftrightarrow> ok"
  by (simp add: demand_def)

record stored_snapshot =
  ss_id :: string
  ss_repo_id :: string
  ss_parent_id :: "string option"
  ss_commit :: "string option"
  ss_status :: string
  ss_created_at :: int
  ss_meta :: jdict

record stored_node =
  nd_repo_id :: string
  nd_snapshot_id :: string
  nd_id :: string
  nd_kind :: string
  nd_name :: string
  nd_qname :: string
  nd_language :: string
  nd_schema_version :: string
  nd_path :: string
  nd_start_line :: "int option"
  nd_start_col :: "int option"
  nd_end_line :: "int option"
  nd_end_col :: "int option"
  nd_meta :: jdict

record stored_edge =
  ed_repo_id :: string
  ed_snapshot_id :: string
  ed_id :: string
  ed_kind :: string
  ed_src_id :: string
  ed_dst_id :: string
  ed_confidence :: string
  ed_meta :: jdict

record stored_support =
  su_repo_id :: string
  su_snapshot_id :: string
  su_receipt_id :: string
  su_fact_id :: string
  su_fact_type :: string
  su_owner_path :: string
  su_receipt :: jdict

record graph =
  gr_snapshots :: "stored_snapshot list"
  gr_nodes :: "stored_node list"
  gr_edges :: "stored_edge list"
  gr_supports :: "stored_support list"

text \<open>\<open>Node\<close> of \<open>model.py\<close>.\<close>

record graph_node =
  gn_kind :: string
  gn_name :: string
  gn_qname :: string
  gn_language :: string
  gn_path :: string
  gn_start_line :: "int option"
  gn_start_col :: "int option"
  gn_end_line :: "int option"
  gn_end_col :: "int option"
  gn_meta :: jdict

definition legacy_schema :: string where
  "legacy_schema = ''symbol-identity/v1''"

definition identity_schema_version :: "string \<Rightarrow> string" where
  "identity_schema_version kind = (if kind \<in> set synthetic_kinds then legacy_schema else ''symbol-identity/v2'')"

definition canonical_id :: "(string \<Rightarrow> string) \<Rightarrow> graph_node \<Rightarrow> ev_error + string" where
  "canonical_id H n = canonical_node_id H (gn_kind n) (gn_qname n) (gn_language n) (gn_path n) (gn_meta n)"

section \<open>Revisions\<close>

definition snapshots_of :: "string \<Rightarrow> graph \<Rightarrow> stored_snapshot list" where
  "snapshots_of repo g = filter (\<lambda>s. ss_repo_id s = repo) (gr_snapshots g)"

definition newest :: "string \<Rightarrow> graph \<Rightarrow> int" where
  "newest repo g = (if snapshots_of repo g = [] then 0 else Max (ss_created_at ` set (snapshots_of repo g)))"

definition new_snapshot :: "string \<Rightarrow> int \<Rightarrow> string \<Rightarrow> string option \<Rightarrow> string option \<Rightarrow> jdict \<Rightarrow> graph \<Rightarrow>
    graph_error + graph" where
  "new_snapshot sid now repo parent commit meta g =
     and_then (demand (sid \<notin> ss_id ` set (gr_snapshots g)) GraphIntegrityError) (\<lambda>_.
       Inr (g\<lparr>gr_snapshots := gr_snapshots g @ [\<lparr>ss_id = sid, ss_repo_id = repo, ss_parent_id = parent,
         ss_commit = commit, ss_status = ''staging'', ss_created_at = max now (newest repo g + 1),
         ss_meta = meta\<rparr>]\<rparr>))"

definition snapshot :: "graph \<Rightarrow> string \<Rightarrow> stored_snapshot option" where
  "snapshot g sid = find (\<lambda>s. ss_id s = sid) (gr_snapshots g)"

definition published_of :: "string \<Rightarrow> graph \<Rightarrow> stored_snapshot list" where
  "published_of repo g = filter (\<lambda>s. ss_status s = ''published'') (snapshots_of repo g)"

text \<open>\<open>ORDER BY created_at DESC, rowid DESC LIMIT 1\<close>.\<close>

definition current_snapshot :: "string \<Rightarrow> graph \<Rightarrow> string option" where
  "current_snapshot repo g = (case rev (sort_key ss_created_at (published_of repo g)) of
     [] \<Rightarrow> None | s # _ \<Rightarrow> Some (ss_id s))"

definition may_publish :: "string \<Rightarrow> string \<Rightarrow> stored_snapshot \<Rightarrow> bool" where
  "may_publish repo sid s = (ss_repo_id s = repo \<and> ss_id s = sid \<and> ss_status s = ''staging'')"

definition publish_snapshot :: "string \<Rightarrow> string \<Rightarrow> graph \<Rightarrow> graph_error + graph" where
  "publish_snapshot repo sid g =
     and_then (demand (length (filter (may_publish repo sid) (gr_snapshots g)) = 1) GraphRuntimeError) (\<lambda>_.
       Inr (g\<lparr>gr_snapshots := map (\<lambda>s. if may_publish repo sid s then s\<lparr>ss_status := ''published''\<rparr> else s)
         (gr_snapshots g)\<rparr>))"

section \<open>Nodes\<close>

definition node_at :: "string \<Rightarrow> string \<Rightarrow> stored_node \<Rightarrow> bool" where
  "node_at repo sid n = (nd_repo_id n = repo \<and> nd_snapshot_id n = sid)"

definition all_nodes :: "graph \<Rightarrow> string \<Rightarrow> string \<Rightarrow> stored_node list" where
  "all_nodes g repo sid = filter (node_at repo sid) (gr_nodes g)"

definition node_row :: "graph \<Rightarrow> string \<Rightarrow> string \<Rightarrow> string \<Rightarrow> stored_node option" where
  "node_row g repo sid nid = find (\<lambda>n. nd_id n = nid) (all_nodes g repo sid)"

definition node_by_qname :: "graph \<Rightarrow> string \<Rightarrow> string \<Rightarrow> string \<Rightarrow> stored_node option" where
  "node_by_qname g repo sid qname =
     (case filter (\<lambda>n. nd_qname n = qname) (all_nodes g repo sid) of [n] \<Rightarrow> Some n | _ \<Rightarrow> None)"

text \<open>\<open>text.partition(":")\<close>, without the separator.\<close>

definition before_colon :: "string \<Rightarrow> string" where
  "before_colon s = takeWhile (\<lambda>c. c \<noteq> CHR '':'') s"

definition after_colon :: "string \<Rightarrow> string" where
  "after_colon s = tl (dropWhile (\<lambda>c. c \<noteq> CHR '':'') s)"

definition nodes_by_legacy_id :: "graph \<Rightarrow> string \<Rightarrow> string \<Rightarrow> string \<Rightarrow> stored_node list" where
  "nodes_by_legacy_id g repo sid legacy =
     (if \<not> starts_with ''node:'' legacy \<or> contains '':v2:'' legacy then []
      else let rest = drop 5 legacy in
        if after_colon rest = [] then []
        else take 200 (filter (\<lambda>n. nd_kind n = before_colon rest \<and> nd_qname n = after_colon rest)
          (all_nodes g repo sid)))"

definition node_by_id :: "graph \<Rightarrow> string \<Rightarrow> string \<Rightarrow> string \<Rightarrow> stored_node option" where
  "node_by_id g repo sid nid = (case node_row g repo sid nid of
     Some n \<Rightarrow> Some n
   | None \<Rightarrow> (case nodes_by_legacy_id g repo sid nid of [n] \<Rightarrow> Some n | _ \<Rightarrow> None))"

text \<open>\<open>nodes_by_path_prefix\<close>: the directory itself and everything below it.\<close>

definition nodes_by_path_prefix :: "graph \<Rightarrow> string \<Rightarrow> string \<Rightarrow> string \<Rightarrow> stored_node list" where
  "nodes_by_path_prefix g repo sid path_prefix =
     (let base = rstrip_of [CHR ''/''] path_prefix in
      filter (\<lambda>n. nd_path n = base \<or> starts_with (base @ ''/'') (nd_path n)) (all_nodes g repo sid))"

definition int_or_null :: "int option \<Rightarrow> json" where
  "int_or_null x = jopt JInt x"

definition location_of :: "graph_node \<Rightarrow> json" where
  "location_of n = JObj [(''path'', JStr (gn_path n)), (''start_line'', int_or_null (gn_start_line n)),
     (''start_col'', int_or_null (gn_start_col n)), (''end_line'', int_or_null (gn_end_line n)),
     (''end_col'', int_or_null (gn_end_col n))]"

definition defined_in :: "jdict \<Rightarrow> bool" where
  "defined_in meta = (jget meta ''defined'' = JBool True)"

text \<open>The locations of a node: the rows of the store hold a list of dictionaries.\<close>

definition locations :: "jdict \<Rightarrow> json list" where
  "locations meta = (case jget meta ''locations'' of JList xs \<Rightarrow> xs | _ \<Rightarrow> [])"

definition located_at :: "string \<Rightarrow> json \<Rightarrow> bool" where
  "located_at path l = (jget (as_mapping l) ''path'' = JStr path)"

definition merged_locations :: "stored_node \<Rightarrow> graph_node \<Rightarrow> json list" where
  "merged_locations row n =
     (let old = locations (nd_meta row);
          kept = (if nd_path row = gn_path n then filter (\<lambda>l. \<not> located_at (gn_path n) l) old else old)
      in if list_ex (\<lambda>l. canon l = canon (location_of n)) kept then kept else kept @ [location_of n])"

definition merged_meta :: "stored_node \<Rightarrow> graph_node \<Rightarrow> jdict" where
  "merged_meta row n =
     (let meta = dict_update (gn_meta n) (dict_set ''locations'' (JList (merged_locations row n)) (nd_meta row))
      in if map_of meta ''defined'' = None then meta
         else dict_set ''defined'' (JBool (defined_in (nd_meta row) \<or> defined_in (gn_meta n))) meta)"

definition callable_kinds :: "string list" where
  "callable_kinds = [''FUNCTION'', ''METHOD'', ''SUBROUTINE'']"

definition merged_node :: "stored_node \<Rightarrow> graph_node \<Rightarrow> stored_node" where
  "merged_node row n =
     (let meta = merged_meta row n in
      if defined_in (gn_meta n) \<or> (nd_path row = gn_path n \<and> \<not> defined_in (nd_meta row))
      then row\<lparr>nd_name := gn_name n, nd_language := gn_language n, nd_path := gn_path n,
        nd_start_line := gn_start_line n, nd_start_col := gn_start_col n, nd_end_line := gn_end_line n,
        nd_end_col := gn_end_col n, nd_meta := meta\<rparr>
      else row\<lparr>nd_meta := meta\<rparr>)"

definition fresh_node :: "string \<Rightarrow> string \<Rightarrow> string \<Rightarrow> graph_node \<Rightarrow> stored_node" where
  "fresh_node repo sid nid n = \<lparr>nd_repo_id = repo, nd_snapshot_id = sid, nd_id = nid, nd_kind = gn_kind n,
     nd_name = gn_name n, nd_qname = gn_qname n, nd_language = gn_language n,
     nd_schema_version = identity_schema_version (gn_kind n), nd_path = gn_path n,
     nd_start_line = gn_start_line n, nd_start_col = gn_start_col n, nd_end_line = gn_end_line n,
     nd_end_col = gn_end_col n,
     nd_meta = dict_set ''locations'' (JList (locations (gn_meta n) @ [location_of n])) (gn_meta n)\<rparr>"

definition same_descriptor :: "stored_node \<Rightarrow> graph_node \<Rightarrow> bool" where
  "same_descriptor row n = (nd_language row = gn_language n \<and> nd_kind row = gn_kind n \<and> nd_qname row = gn_qname n)"

definition second_definition :: "stored_node \<Rightarrow> graph_node \<Rightarrow> bool" where
  "second_definition row n = (nd_path row \<noteq> gn_path n \<and> defined_in (nd_meta row) \<and> defined_in (gn_meta n) \<and>
     gn_kind n \<in> set callable_kinds)"

definition replace_node :: "stored_node \<Rightarrow> graph \<Rightarrow> graph" where
  "replace_node row g = g\<lparr>gr_nodes := map (\<lambda>n. if node_at (nd_repo_id row) (nd_snapshot_id row) n \<and>
     nd_id n = nd_id row then row else n) (gr_nodes g)\<rparr>"

text \<open>The id of the node and whether it is new; \<open>IDENTITY_COLLISION\<close> is a \<open>ValueError\<close>.\<close>

definition upsert_node :: "(string \<Rightarrow> string) \<Rightarrow> graph_node \<Rightarrow> string \<Rightarrow> string \<Rightarrow> graph \<Rightarrow>
    graph_error + (string \<times> bool) \<times> graph" where
  "upsert_node H n repo sid g =
     and_then (raised (canonical_id H n)) (\<lambda>nid.
       case node_row g repo sid nid of
         None \<Rightarrow> Inr ((nid, True), g\<lparr>gr_nodes := gr_nodes g @ [fresh_node repo sid nid n]\<rparr>)
       | Some row \<Rightarrow>
           and_then (demand (same_descriptor row n \<and> \<not> second_definition row n) (GraphRaised ValueError)) (\<lambda>_.
             Inr ((nid, False), replace_node (merged_node row n) g)))"

definition delete_nodes_in_paths_except :: "string \<Rightarrow> string \<Rightarrow> string list \<Rightarrow> string list \<Rightarrow> graph \<Rightarrow> graph" where
  "delete_nodes_in_paths_except repo sid paths keep g = g\<lparr>gr_nodes := filter
     (\<lambda>n. \<not> (node_at repo sid n \<and> nd_path n \<in> set paths \<and> nd_id n \<notin> set keep)) (gr_nodes g)\<rparr>"

section \<open>Edges\<close>

definition edge_at :: "string \<Rightarrow> string \<Rightarrow> stored_edge \<Rightarrow> bool" where
  "edge_at repo sid e = (ed_repo_id e = repo \<and> ed_snapshot_id e = sid)"

definition all_edges :: "graph \<Rightarrow> string \<Rightarrow> string \<Rightarrow> stored_edge list" where
  "all_edges g repo sid = filter (edge_at repo sid) (gr_edges g)"

definition edge_id :: "string \<Rightarrow> string \<Rightarrow> string \<Rightarrow> string" where
  "edge_id kind src dst = ''edge:'' @ kind @ '':'' @ src @ '':'' @ dst"

definition clashes :: "stored_edge \<Rightarrow> stored_edge \<Rightarrow> bool" where
  "clashes e f = (ed_repo_id e = ed_repo_id f \<and> ed_snapshot_id e = ed_snapshot_id f \<and> (ed_id e = ed_id f \<or>
     (ed_kind e = ed_kind f \<and> ed_src_id e = ed_src_id f \<and> ed_dst_id e = ed_dst_id f)))"

text \<open>\<open>INSERT OR IGNORE\<close>: whether the edge is new.\<close>

definition add_edge_raw :: "string \<Rightarrow> string \<Rightarrow> string \<Rightarrow> string \<Rightarrow> string \<Rightarrow> string \<Rightarrow> jdict \<Rightarrow> graph \<Rightarrow>
    bool \<times> graph" where
  "add_edge_raw kind src dst repo sid confidence meta g =
     (let e = \<lparr>ed_repo_id = repo, ed_snapshot_id = sid, ed_id = edge_id kind src dst, ed_kind = kind,
            ed_src_id = src, ed_dst_id = dst, ed_confidence = confidence, ed_meta = meta\<rparr>
      in if list_ex (clashes e) (gr_edges g) then (False, g)
         else (True, g\<lparr>gr_edges := gr_edges g @ [e]\<rparr>))"

definition delete_edges_from_paths :: "string \<Rightarrow> string \<Rightarrow> string list \<Rightarrow> graph \<Rightarrow> graph" where
  "delete_edges_from_paths repo sid paths g =
     (let sources = map nd_id (filter (\<lambda>n. nd_path n \<in> set paths) (all_nodes g repo sid)) in
      g\<lparr>gr_edges := filter (\<lambda>e. \<not> (edge_at repo sid e \<and> ed_src_id e \<in> set sources)) (gr_edges g)\<rparr>)"

definition delete_edges_in_snapshot :: "string \<Rightarrow> string \<Rightarrow> string list \<Rightarrow> graph \<Rightarrow> graph" where
  "delete_edges_in_snapshot repo sid kinds g =
     g\<lparr>gr_edges := filter (\<lambda>e. \<not> (edge_at repo sid e \<and> ed_kind e \<in> set kinds)) (gr_edges g)\<rparr>"

text \<open>\<open>INSERT \<dots> SELECT\<close> of the rows of a revision under another one. The column list of the nodes
  leaves out \<open>identity_schema_version\<close>, so the copy takes the default of the column.\<close>

definition copied_node :: "string \<Rightarrow> stored_node \<Rightarrow> stored_node" where
  "copied_node sid n = n\<lparr>nd_snapshot_id := sid, nd_schema_version := legacy_schema\<rparr>"

definition copied_edge :: "string \<Rightarrow> stored_edge \<Rightarrow> stored_edge" where
  "copied_edge sid e = e\<lparr>ed_snapshot_id := sid\<rparr>"

definition copy_nodes_edges :: "string \<Rightarrow> string \<Rightarrow> string \<Rightarrow> graph \<Rightarrow> graph_error + graph" where
  "copy_nodes_edges repo parent sid g =
     (let nodes = map (copied_node sid) (all_nodes g repo parent);
          edges = map (copied_edge sid) (all_edges g repo parent)
      in and_then (demand (set (map nd_id nodes) \<inter> set (map nd_id (all_nodes g repo sid)) = {})
          GraphIntegrityError) (\<lambda>_.
        and_then (demand (\<not> list_ex (\<lambda>e. list_ex (clashes e) (gr_edges g)) edges) GraphIntegrityError) (\<lambda>_.
          Inr (g\<lparr>gr_nodes := gr_nodes g @ nodes, gr_edges := gr_edges g @ edges\<rparr>))))"

section \<open>Support receipts\<close>

definition support_at :: "string \<Rightarrow> string \<Rightarrow> stored_support \<Rightarrow> bool" where
  "support_at repo sid r = (su_repo_id r = repo \<and> su_snapshot_id r = sid)"

definition all_supports :: "graph \<Rightarrow> string \<Rightarrow> string \<Rightarrow> stored_support list" where
  "all_supports g repo sid = filter (support_at repo sid) (gr_supports g)"

text \<open>\<open>_require_staging_support\<close>.\<close>

definition is_staging :: "graph \<Rightarrow> string \<Rightarrow> string \<Rightarrow> bool" where
  "is_staging g repo sid = (case find (\<lambda>s. ss_repo_id s = repo \<and> ss_id s = sid) (gr_snapshots g) of
     None \<Rightarrow> False | Some s \<Rightarrow> ss_status s = ''staging'')"

definition fact_kind_of :: "graph \<Rightarrow> string \<Rightarrow> string \<Rightarrow> string \<Rightarrow> string \<Rightarrow> string option" where
  "fact_kind_of g repo sid fact_type fact_id =
     (if fact_type = ''node'' then map_option nd_kind (find (\<lambda>n. nd_id n = fact_id) (all_nodes g repo sid))
      else map_option ed_kind (find (\<lambda>e. ed_id e = fact_id) (all_edges g repo sid)))"

definition support_row :: "string \<Rightarrow> string \<Rightarrow> jdict \<Rightarrow> stored_support" where
  "support_row repo sid r = \<lparr>su_repo_id = repo, su_snapshot_id = sid, su_receipt_id = text_at r ''support_receipt_id'',
     su_fact_id = text_at r ''canonical_fact_id'', su_fact_type = text_at r ''canonical_fact_type'',
     su_owner_path = text_at r ''owner_path'', su_receipt = r\<rparr>"

definition insert_support :: "stored_support \<Rightarrow> graph \<Rightarrow> graph_error + graph" where
  "insert_support r g =
     and_then (demand (\<not> list_ex (\<lambda>x. support_at (su_repo_id r) (su_snapshot_id r) x \<and>
        su_receipt_id x = su_receipt_id r) (gr_supports g)) GraphIntegrityError) (\<lambda>_.
     and_then (demand (su_fact_type r \<in> {''node'', ''edge''}) GraphIntegrityError) (\<lambda>_.
       Inr (g\<lparr>gr_supports := gr_supports g @ [r]\<rparr>)))"

text \<open>A receipt is the dictionary \<open>issue_fact_support\<close> gives: its key fields are texts.\<close>

definition add_support_receipt :: "string \<Rightarrow> string \<Rightarrow> jdict \<Rightarrow> graph \<Rightarrow> graph_error + graph" where
  "add_support_receipt repo sid receipt g =
     and_then (demand (is_staging g repo sid) (GraphRaised ValueError)) (\<lambda>_.
     and_then (demand (jget receipt ''canonical_revision'' = JStr sid) (GraphRaised ValueError)) (\<lambda>_.
     and_then (demand (fact_kind_of g repo sid (text_at receipt ''canonical_fact_type'')
         (text_at receipt ''canonical_fact_id'') = Some (text_at receipt ''canonical_fact_kind''))
         (GraphRaised ValueError)) (\<lambda>_.
       insert_support (support_row repo sid receipt) g)))"

definition support_receipts :: "graph \<Rightarrow> string \<Rightarrow> string \<Rightarrow> string \<Rightarrow> jdict list" where
  "support_receipts g repo sid fact_id = map su_receipt (sort_key su_receipt_id
     (filter (\<lambda>r. su_fact_id r = fact_id) (all_supports g repo sid)))"

fun insert_supports :: "stored_support list \<Rightarrow> graph \<Rightarrow> graph_error + graph" where
  "insert_supports [] g = Inr g"
| "insert_supports (r # rs) g = and_then (insert_support r g) (insert_supports rs)"

definition copy_support_receipts :: "(string \<Rightarrow> string) \<Rightarrow> string \<Rightarrow> string \<Rightarrow> string \<Rightarrow> graph \<Rightarrow> graph_error + graph" where
  "copy_support_receipts H repo parent sid g =
     and_then (demand (is_staging g repo sid) (GraphRaised ValueError)) (\<lambda>_.
     and_then (demand (case snapshot g parent of None \<Rightarrow> False | Some s \<Rightarrow> ss_status s = ''published'')
         (GraphRaised ValueError)) (\<lambda>_.
     and_then (raised (map_err (\<lambda>r. reuse_receipt H (su_receipt r) sid) (all_supports g repo parent))) (\<lambda>copies.
       insert_supports (map (support_row repo sid) copies) g)))"

definition delete_support_owned_by_paths :: "string \<Rightarrow> string \<Rightarrow> string list \<Rightarrow> graph \<Rightarrow> graph_error + graph" where
  "delete_support_owned_by_paths repo sid paths g =
     (if paths = [] then Inr g
      else and_then (demand (is_staging g repo sid) (GraphRaised ValueError)) (\<lambda>_.
        Inr (g\<lparr>gr_supports := filter (\<lambda>r. \<not> (support_at repo sid r \<and> su_owner_path r \<in> set paths))
          (gr_supports g)\<rparr>)))"

definition orphan :: "graph \<Rightarrow> stored_support \<Rightarrow> bool" where
  "orphan g r =
     (su_fact_type r = ''node'' \<and> su_fact_id r \<notin> nd_id ` set (all_nodes g (su_repo_id r) (su_snapshot_id r)) \<or>
      su_fact_type r = ''edge'' \<and> su_fact_id r \<notin> ed_id ` set (all_edges g (su_repo_id r) (su_snapshot_id r)))"

definition prune_orphan_support :: "string \<Rightarrow> string \<Rightarrow> graph \<Rightarrow> graph_error + graph" where
  "prune_orphan_support repo sid g =
     and_then (demand (is_staging g repo sid) (GraphRaised ValueError)) (\<lambda>_.
       Inr (g\<lparr>gr_supports := filter (\<lambda>r. \<not> (support_at repo sid r \<and> orphan g r)) (gr_supports g)\<rparr>))"

definition fact_ids :: "graph \<Rightarrow> string \<Rightarrow> string \<Rightarrow> string list" where
  "fact_ids g repo sid = map nd_id (all_nodes g repo sid) @ map ed_id (all_edges g repo sid)"

definition unsupported_new_facts :: "graph \<Rightarrow> string \<Rightarrow> string \<Rightarrow> string option \<Rightarrow> string list" where
  "unsupported_new_facts g repo sid parent =
     (let supported = map su_fact_id (all_supports g repo sid);
          old = (case parent of None \<Rightarrow> [] | Some p \<Rightarrow> if p = [] then [] else fact_ids g repo p)
      in sort (filter (\<lambda>f. f \<notin> set supported \<and> f \<notin> set old) (remdups (fact_ids g repo sid))))"

section \<open>Publishing what an indexing run built\<close>

text \<open>\<open>Indexer._copy_previous\<close> on these tables, and the end of \<open>Indexer.index\<close>: receipts without a fact go,
  a new fact without a receipt stops the publication.\<close>

definition copy_previous :: "(string \<Rightarrow> string) \<Rightarrow> string \<Rightarrow> string \<Rightarrow> string \<Rightarrow> graph \<Rightarrow> graph_error + graph" where
  "copy_previous H repo sid parent g =
     and_then (copy_nodes_edges repo parent sid g) (copy_support_receipts H repo parent sid)"

definition publish_supported :: "string \<Rightarrow> string \<Rightarrow> string option \<Rightarrow> graph \<Rightarrow> graph_error + graph" where
  "publish_supported repo sid parent g =
     and_then (prune_orphan_support repo sid g) (\<lambda>g1.
     and_then (demand (unsupported_new_facts g1 repo sid parent = []) GraphRuntimeError) (\<lambda>_.
       publish_snapshot repo sid g1))"

end
