(* ===== verification/Graph_Steps.thy ===== *)
theory Graph_Steps
  imports Graph_Store
begin

text \<open>
  The operations of the graph store as steps, and what every sequence of them keeps: keys stay unique,
  the revisions of a repository stay ordered by their creation, and the support of a revision that is
  no longer in staging never changes. An operation that raises is rolled back and is no step.
\<close>

section \<open>Steps\<close>

datatype graph_op =
    NewSnapshot string int string "string option" "string option" jdict
  | Publish string string
  | UpsertNode graph_node string string
  | DeleteNodes string string "string list" "string list"
  | AddEdge string string string string string string jdict
  | DeleteEdgesFrom string string "string list"
  | DeleteEdgesOf string string "string list"
  | CopyGraph string string string
  | AddSupport string string jdict
  | CopySupport string string string
  | DeleteSupport string string "string list"
  | PruneSupport string string

fun graph_step :: "(string \<Rightarrow> string) \<Rightarrow> graph_op \<Rightarrow> graph \<Rightarrow> graph_error + graph" where
  "graph_step H (NewSnapshot sid now repo parent commit meta) g = new_snapshot sid now repo parent commit meta g"
| "graph_step H (Publish repo sid) g = publish_snapshot repo sid g"
| "graph_step H (UpsertNode n repo sid) g = and_then (upsert_node H n repo sid g) (\<lambda>r. Inr (snd r))"
| "graph_step H (DeleteNodes repo sid paths keep) g = Inr (delete_nodes_in_paths_except repo sid paths keep g)"
| "graph_step H (AddEdge kind src dst repo sid confidence meta) g =
     Inr (snd (add_edge_raw kind src dst repo sid confidence meta g))"
| "graph_step H (DeleteEdgesFrom repo sid paths) g = Inr (delete_edges_from_paths repo sid paths g)"
| "graph_step H (DeleteEdgesOf repo sid kinds) g = Inr (delete_edges_in_snapshot repo sid kinds g)"
| "graph_step H (CopyGraph repo parent sid) g = copy_nodes_edges repo parent sid g"
| "graph_step H (AddSupport repo sid receipt) g = add_support_receipt repo sid receipt g"
| "graph_step H (CopySupport repo parent sid) g = copy_support_receipts H repo parent sid g"
| "graph_step H (DeleteSupport repo sid paths) g = delete_support_owned_by_paths repo sid paths g"
| "graph_step H (PruneSupport repo sid) g = prune_orphan_support repo sid g"

inductive evolves :: "(string \<Rightarrow> string) \<Rightarrow> graph \<Rightarrow> graph \<Rightarrow> bool" for H where
  stay: "evolves H g g"
| move: "graph_step H op g = Inr g' \<Longrightarrow> evolves H g' g'' \<Longrightarrow> evolves H g g''"

definition empty_graph :: graph where
  "empty_graph = \<lparr>gr_snapshots = [], gr_nodes = [], gr_edges = [], gr_supports = []\<rparr>"

text \<open>An invariant of the steps is an invariant of what they reach.\<close>

locale graph_invariant =
  fixes H :: "string \<Rightarrow> string" and I :: "graph \<Rightarrow> bool"
  assumes kept: "graph_step H op g = Inr g' \<Longrightarrow> I g \<Longrightarrow> I g'"
begin

lemma reachable: "evolves H g g' \<Longrightarrow> I g \<Longrightarrow> I g'"
  by (induction rule: evolves.induct) (auto intro: kept)

end

section \<open>What a step leaves alone\<close>

lemma insert_support_other:
  assumes "insert_support r g = Inr g'"
  shows "g' = g\<lparr>gr_supports := gr_supports g @ [r]\<rparr>"
  using assms by (auto simp: insert_support_def and_then_Inr)

lemma insert_supports_rows:
  "insert_supports rs g = Inr g' \<Longrightarrow> g' = g\<lparr>gr_supports := gr_supports g @ rs\<rparr>"
  by (induction rs arbitrary: g) (fastforce simp: and_then_Inr dest: insert_support_other)+

text \<open>Only the two operations on revisions touch the table of revisions.\<close>

lemma step_snapshots:
  assumes "graph_step H op g = Inr g'"
  shows "gr_snapshots g' = gr_snapshots g \<or>
    (\<exists>sid now repo parent commit meta. op = NewSnapshot sid now repo parent commit meta) \<or>
    (\<exists>repo sid. op = Publish repo sid)"
  using assms
  by (cases op)
    (auto simp: and_then_Inr upsert_node_def replace_node_def delete_nodes_in_paths_except_def add_edge_raw_def
      delete_edges_from_paths_def delete_edges_in_snapshot_def copy_nodes_edges_def add_support_receipt_def
      copy_support_receipts_def delete_support_owned_by_paths_def prune_orphan_support_def Let_def
      dest!: insert_support_other insert_supports_rows split: option.splits if_splits)

lemma snapshot_row_of_step:
  assumes "graph_step H op g = Inr g'" and "s \<in> set (gr_snapshots g)" and "ss_status s \<noteq> ''staging''"
  shows "s \<in> set (gr_snapshots g')"
  using step_snapshots [OF assms(1)] assms
  by (auto simp: new_snapshot_def publish_snapshot_def may_publish_def and_then_Inr image_iff)

section \<open>Revisions are ordered\<close>

definition created_before :: "stored_snapshot \<Rightarrow> stored_snapshot \<Rightarrow> bool" where
  "created_before s t = (ss_repo_id s = ss_repo_id t \<longrightarrow> ss_created_at s < ss_created_at t)"

definition ordered_revisions :: "graph \<Rightarrow> bool" where
  "ordered_revisions g = (distinct (map ss_id (gr_snapshots g)) \<and> sorted_wrt created_before (gr_snapshots g))"

lemma newest_bound: "s \<in> set (gr_snapshots g) \<Longrightarrow> ss_repo_id s = repo \<Longrightarrow> ss_created_at s \<le> newest repo g"
proof -
  assume "s \<in> set (gr_snapshots g)" and "ss_repo_id s = repo"
  then have "s \<in> set (snapshots_of repo g)" by (simp add: snapshots_of_def)
  then show ?thesis by (auto simp: newest_def)
qed

lemma new_snapshot_ordered:
  assumes "new_snapshot sid now repo parent commit meta g = Inr g'" and "ordered_revisions g"
  shows "ordered_revisions g'"
  using assms
  by (auto simp: new_snapshot_def and_then_Inr ordered_revisions_def sorted_wrt_append created_before_def
      less_max_iff_disj dest: newest_bound)

lemma publish_ordered:
  assumes "publish_snapshot repo sid g = Inr g'" and "ordered_revisions g"
  shows "ordered_revisions g'"
proof -
  define f where "f s = (if may_publish repo sid s then s\<lparr>ss_status := ''published''\<rparr> else s)" for s
  have same: "ss_id (f s) = ss_id s" "ss_repo_id (f s) = ss_repo_id s" "ss_created_at (f s) = ss_created_at s" for s
    by (simp_all add: f_def)
  have "gr_snapshots g' = map f (gr_snapshots g)"
    using assms(1) by (auto simp: publish_snapshot_def and_then_Inr f_def)
  moreover have "created_before (f s) (f t) = created_before s t" for s t
    by (simp add: created_before_def same)
  ultimately show ?thesis
    using assms(2) by (simp add: ordered_revisions_def sorted_wrt_map same o_def)
qed

lemma step_ordered:
  assumes "graph_step H op g = Inr g'" and "ordered_revisions g"
  shows "ordered_revisions g'"
proof -
  from step_snapshots [OF assms(1)] consider "gr_snapshots g' = gr_snapshots g"
    | sid now repo parent commit meta where "op = NewSnapshot sid now repo parent commit meta"
    | repo sid where "op = Publish repo sid" by blast
  then show ?thesis
  proof cases
    case 1
    with assms(2) show ?thesis by (simp add: ordered_revisions_def)
  next
    case 2
    with assms show ?thesis by (auto intro: new_snapshot_ordered)
  next
    case 3
    with assms show ?thesis by (auto intro: publish_ordered)
  qed
qed

interpretation ordering: graph_invariant H ordered_revisions for H
  by unfold_locales (rule step_ordered)

lemma current_is_last:
  assumes "ordered_revisions g"
  shows "current_snapshot repo g = (if published_of repo g = [] then None else Some (ss_id (last (published_of repo g))))"
proof -
  have sorted: "sorted_wrt created_before (published_of repo g)"
    using assms by (simp add: ordered_revisions_def published_of_def snapshots_of_def sorted_wrt_filter)
  have repo: "ss_repo_id s = repo" if "s \<in> set (published_of repo g)" for s
    using that by (simp add: published_of_def snapshots_of_def)
  have "sorted (map ss_created_at (published_of repo g))"
    unfolding sorted_map
    by (rule sorted_wrt_mono_rel [OF _ sorted]) (simp add: created_before_def repo)
  then have "sort_key ss_created_at (published_of repo g) = published_of repo g"
    by (rule sort_key_id_if_sorted)
  then show ?thesis
    by (cases "published_of repo g" rule: rev_cases) (simp_all add: current_snapshot_def)
qed

section \<open>The support of a published revision is frozen\<close>

definition left_staging :: "graph \<Rightarrow> string \<Rightarrow> string \<Rightarrow> bool" where
  "left_staging g repo sid = (\<exists>s \<in> set (gr_snapshots g). ss_id s = sid \<and> ss_repo_id s = repo \<and> ss_status s \<noteq> ''staging'')"

lemma left_staging_not:
  assumes "ordered_revisions g" and "left_staging g repo sid"
  shows "\<not> is_staging g repo sid"
proof -
  from assms(2) obtain s where s: "s \<in> set (gr_snapshots g)" "ss_id s = sid" "ss_repo_id s = repo"
    "ss_status s \<noteq> ''staging''" by (auto simp: left_staging_def)
  from assms(1) have inj: "inj_on ss_id (set (gr_snapshots g))"
    by (simp add: ordered_revisions_def distinct_map)
  have same: "t = s" if "t \<in> set (gr_snapshots g)" "ss_id t = sid" for t
    by (rule inj_onD [OF inj _ that(1) s(1)]) (simp add: that(2) s(2))
  show ?thesis
  proof (cases "find (\<lambda>t. ss_repo_id t = repo \<and> ss_id t = sid) (gr_snapshots g)")
    case None
    then show ?thesis by (simp add: is_staging_def)
  next
    case (Some t)
    with find_SomeD [OF Some] same have "t = s" by blast
    with Some s(4) show ?thesis by (simp add: is_staging_def)
  qed
qed

lemma support_needs_staging:
  assumes "graph_step H op g = Inr g'" and "\<not> is_staging g repo sid"
  shows "all_supports g' repo sid = all_supports g repo sid"
proof -
  have other: "filter (support_at repo sid) (map (support_row r s) rs) = []" if "is_staging g r s" for r s rs
    using that assms(2) by (auto simp: filter_empty_conv support_at_def support_row_def)
  have kept: "filter (\<lambda>x. (support_at r s x \<longrightarrow> P x) \<and> support_at repo sid x) rows =
      filter (support_at repo sid) rows" if "is_staging g r s" for r s P rows
    using that assms(2) by (auto simp: support_at_def intro!: filter_cong)
  have one: "\<not> support_at repo sid (support_row r s x)" if "is_staging g r s" for r s x
    using that assms(2) by (auto simp: support_at_def support_row_def)
  from assms(1) show ?thesis
    unfolding all_supports_def
    by (cases op)
      (auto simp: and_then_Inr upsert_node_def replace_node_def delete_nodes_in_paths_except_def add_edge_raw_def
        delete_edges_from_paths_def delete_edges_in_snapshot_def copy_nodes_edges_def add_support_receipt_def
        copy_support_receipts_def delete_support_owned_by_paths_def prune_orphan_support_def Let_def
        new_snapshot_def publish_snapshot_def kept other one
        dest!: insert_support_other insert_supports_rows split: option.splits if_splits)
qed

definition frozen :: "string \<Rightarrow> string \<Rightarrow> stored_support list \<Rightarrow> graph \<Rightarrow> bool" where
  "frozen repo sid rows g = (ordered_revisions g \<and> left_staging g repo sid \<and> all_supports g repo sid = rows)"

lemma step_frozen: "graph_step H op g = Inr g' \<Longrightarrow> frozen repo sid rows g \<Longrightarrow> frozen repo sid rows g'"
proof -
  assume step: "graph_step H op g = Inr g'" and "frozen repo sid rows g"
  then have ord: "ordered_revisions g" and left: "left_staging g repo sid" and rows: "all_supports g repo sid = rows"
    by (simp_all add: frozen_def)
  from left have "left_staging g' repo sid"
    unfolding left_staging_def by (blast intro: snapshot_row_of_step [OF step])
  moreover have "all_supports g' repo sid = rows"
    by (simp only: support_needs_staging [OF step left_staging_not [OF ord left]] rows)
  ultimately show ?thesis by (simp add: frozen_def step_ordered [OF step ord])
qed

interpretation freezing: graph_invariant H "frozen repo sid rows" for H repo sid rows
  by unfold_locales (rule step_frozen)

section \<open>Keys\<close>

definition node_key :: "stored_node \<Rightarrow> string \<times> string \<times> string" where
  "node_key n = (nd_repo_id n, nd_snapshot_id n, nd_id n)"

definition edge_key_of :: "stored_edge \<Rightarrow> string \<times> string \<times> string" where
  "edge_key_of e = (ed_repo_id e, ed_snapshot_id e, ed_id e)"

definition support_key :: "stored_support \<Rightarrow> string \<times> string \<times> string" where
  "support_key r = (su_repo_id r, su_snapshot_id r, su_receipt_id r)"

definition keys_unique :: "graph \<Rightarrow> bool" where
  "keys_unique g = (distinct (map node_key (gr_nodes g)) \<and> distinct (map edge_key_of (gr_edges g)) \<and>
     distinct (map support_key (gr_supports g)))"

lemma taken_support_key:
  "list_ex (\<lambda>x. support_at (su_repo_id r) (su_snapshot_id r) x \<and> su_receipt_id x = su_receipt_id r) rows \<longleftrightarrow>
    support_key r \<in> support_key ` set rows"
  by (induction rows) (auto simp: support_at_def support_key_def)

lemma insert_support_keys: "insert_support r g = Inr g' \<Longrightarrow> keys_unique g \<Longrightarrow> keys_unique g'"
  by (auto simp: insert_support_def and_then_Inr keys_unique_def taken_support_key)

lemma insert_supports_keys: "insert_supports rs g = Inr g' \<Longrightarrow> keys_unique g \<Longrightarrow> keys_unique g'"
  by (induction rs arbitrary: g) (auto simp: and_then_Inr intro: insert_support_keys)

lemma node_row_None: "node_row g repo sid nid = None \<longleftrightarrow> (repo, sid, nid) \<notin> node_key ` set (gr_nodes g)"
  by (auto simp: node_row_def all_nodes_def node_at_def node_key_def find_None_iff)

lemma node_row_Some:
  "node_row g repo sid nid = Some n \<Longrightarrow> n \<in> set (gr_nodes g) \<and> node_key n = (repo, sid, nid)"
  by (auto simp: node_row_def all_nodes_def node_at_def node_key_def dest!: find_SomeD)

lemma merged_node_key: "node_key (merged_node row n) = node_key row"
  by (simp add: merged_node_def Let_def node_key_def)

lemma replace_node_keys: "map node_key (gr_nodes (replace_node row g)) = map node_key (gr_nodes g)"
  by (auto simp: replace_node_def node_at_def node_key_def)

lemma replace_node_rest:
  "gr_edges (replace_node row g) = gr_edges g" "gr_supports (replace_node row g) = gr_supports g"
  "gr_snapshots (replace_node row g) = gr_snapshots g"
  by (simp_all add: replace_node_def)

lemma upsert_keys:
  assumes "upsert_node H n repo sid g = Inr (r, g')" and "keys_unique g"
  shows "keys_unique g'"
proof -
  from assms(1) consider nid where "node_row g repo sid nid = None"
      "g' = g\<lparr>gr_nodes := gr_nodes g @ [fresh_node repo sid nid n]\<rparr>"
    | row where "g' = replace_node row g"
    by (auto simp: upsert_node_def and_then_Inr split: option.splits)
  then show ?thesis
  proof cases
    case (1 nid)
    moreover have "node_key (fresh_node repo sid nid n) = (repo, sid, nid)"
      by (simp add: fresh_node_def node_key_def)
    ultimately show ?thesis using assms(2) by (simp add: node_row_None keys_unique_def)
  next
    case (2 row)
    with assms(2) show ?thesis
      by (simp add: keys_unique_def replace_node_keys replace_node_rest)
  qed
qed

lemma distinct_copied:
  assumes "distinct (map key rows)" and "inj_on key' (set rows')" and "rows' = filter P rows"
  shows "distinct (map key' rows')"
  using assms by (simp add: distinct_map)

lemma copy_keys:
  assumes "copy_nodes_edges repo parent sid g = Inr g'" and "keys_unique g"
  shows "keys_unique g'"
proof -
  let ?nodes = "map (copied_node sid) (all_nodes g repo parent)"
  let ?edges = "map (copied_edge sid) (all_edges g repo parent)"
  from assms(1) have fresh: "set (map nd_id ?nodes) \<inter> set (map nd_id (all_nodes g repo sid)) = {}"
    and free: "\<not> list_ex (\<lambda>e. list_ex (clashes e) (gr_edges g)) ?edges"
    and g': "g' = g\<lparr>gr_nodes := gr_nodes g @ ?nodes, gr_edges := gr_edges g @ ?edges\<rparr>"
    by (auto simp: copy_nodes_edges_def and_then_Inr Let_def)
  have key: "node_key (copied_node sid n) = (nd_repo_id n, sid, nd_id n)"
    "edge_key_of (copied_edge sid e) = (ed_repo_id e, sid, ed_id e)" for n e
    by (simp_all add: node_key_def copied_node_def edge_key_of_def copied_edge_def)
  from assms(2) have nodes: "inj_on node_key (set (gr_nodes g))" "distinct (gr_nodes g)"
    and edges: "inj_on edge_key_of (set (gr_edges g))" "distinct (gr_edges g)"
    by (simp_all add: keys_unique_def distinct_map)
  have "inj_on (\<lambda>n. (nd_repo_id n, sid, nd_id n)) (set (all_nodes g repo parent))"
    using nodes(1) by (auto simp: inj_on_def all_nodes_def node_at_def node_key_def)
  then have dn: "distinct (map node_key ?nodes)"
    using nodes(2) by (simp add: o_def key distinct_map all_nodes_def)
  have "inj_on (\<lambda>e. (ed_repo_id e, sid, ed_id e)) (set (all_edges g repo parent))"
    using edges(1) by (auto simp: inj_on_def all_edges_def edge_at_def edge_key_of_def)
  then have de: "distinct (map edge_key_of ?edges)"
    using edges(2) by (simp add: o_def key distinct_map all_edges_def)
  have apart: "node_key (copied_node sid m) \<noteq> node_key n"
    if "m \<in> set (all_nodes g repo parent)" "n \<in> set (gr_nodes g)" for m n
  proof
    assume same: "node_key (copied_node sid m) = node_key n"
    then have "n \<in> set (all_nodes g repo sid)" "nd_id n = nd_id m"
      using that by (auto simp: copied_node_def node_key_def all_nodes_def node_at_def)
    with fresh that(1) show False by (auto simp: copied_node_def)
  qed
  have loose: "edge_key_of (copied_edge sid d) \<noteq> edge_key_of e"
    if "d \<in> set (all_edges g repo parent)" "e \<in> set (gr_edges g)" for d e
    using free that by (fastforce simp: list_ex_iff clashes_def edge_key_of_def)
  have "set (map node_key (gr_nodes g)) \<inter> set (map node_key ?nodes) = {}"
    using apart by fastforce
  moreover have "set (map edge_key_of (gr_edges g)) \<inter> set (map edge_key_of ?edges) = {}"
    using loose by fastforce
  ultimately show ?thesis
    using assms(2) dn de by (simp add: keys_unique_def g')
qed

lemma distinct_filter_map: "distinct (map f xs) \<Longrightarrow> distinct (map f (filter P xs))"
  by (rule distinct_map_filter)

lemma step_keys:
  assumes "graph_step H op g = Inr g'" and "keys_unique g"
  shows "keys_unique g'"
proof (cases op)
  case (UpsertNode n repo sid)
  with assms show ?thesis by (auto simp: and_then_Inr intro: upsert_keys)
next
  case (CopyGraph repo parent sid)
  with assms show ?thesis by (auto intro: copy_keys)
next
  case (AddSupport repo sid receipt)
  with assms show ?thesis by (auto simp: add_support_receipt_def and_then_Inr intro: insert_support_keys)
next
  case (CopySupport repo parent sid)
  with assms show ?thesis by (auto simp: copy_support_receipts_def and_then_Inr intro: insert_supports_keys)
next
  case (AddEdge kind src dst repo sid confidence meta)
  with assms show ?thesis
    by (auto simp: add_edge_raw_def keys_unique_def edge_key_of_def clashes_def list_ex_iff Let_def split: if_splits)
qed (use assms in \<open>auto simp: keys_unique_def new_snapshot_def publish_snapshot_def and_then_Inr
    delete_nodes_in_paths_except_def delete_edges_from_paths_def delete_edges_in_snapshot_def
    delete_support_owned_by_paths_def prune_orphan_support_def Let_def intro: distinct_filter_map
    split: if_splits\<close>)

interpretation keying: graph_invariant H keys_unique for H
  by unfold_locales (rule step_keys)

end
