(* ===== verification/Graph_Properties.thy ===== *)
theory Graph_Properties
  imports Graph_Steps
begin

text \<open>
  The properties of the graph store: which revision is current, what freezes when a revision is
  published, what publication demands, what a copied revision inherits, and indexing a node twice.
\<close>

section \<open>A sample run\<close>

fun graph_run :: "(string \<Rightarrow> string) \<Rightarrow> graph_op list \<Rightarrow> graph \<Rightarrow> graph_error + graph" where
  "graph_run H [] g = Inr g"
| "graph_run H (op # ops) g = and_then (graph_step H op g) (graph_run H ops)"

lemma run_evolves: "graph_run H ops g = Inr g' \<Longrightarrow> evolves H g g'"
  by (induction ops arbitrary: g) (auto simp: and_then_Inr intro: evolves.intros)

definition sample_hash :: "string \<Rightarrow> string" where
  "sample_hash s = ''0''"

definition sample_function :: graph_node where
  "sample_function = \<lparr>gn_kind = ''FUNCTION'', gn_name = ''f'', gn_qname = ''m.f'', gn_language = ''python'',
     gn_path = ''m.py'', gn_start_line = Some 1, gn_start_col = Some 1, gn_end_line = Some 2, gn_end_col = Some 1,
     gn_meta = [(''defined'', JBool True)]\<rparr>"

definition sample_receipt :: jdict where
  "sample_receipt = [(''support_receipt_id'', JStr ''support:1''), (''canonical_revision'', JStr ''s1''),
     (''canonical_fact_id'', JStr ''node:FUNCTION:v2:0''), (''canonical_fact_kind'', JStr ''FUNCTION''),
     (''canonical_fact_type'', JStr ''node''), (''owner_path'', JStr ''m.py'')]"

definition staged_ops :: "graph_op list" where
  "staged_ops = [NewSnapshot ''s1'' 5 ''r'' None None [], UpsertNode sample_function ''r'' ''s1'',
     AddSupport ''r'' ''s1'' sample_receipt]"

definition sample_row :: stored_node where
  "sample_row = fresh_node ''r'' ''s1'' ''node:FUNCTION:v2:0'' sample_function"

definition staged_graph :: graph where
  "staged_graph = \<lparr>gr_snapshots = [\<lparr>ss_id = ''s1'', ss_repo_id = ''r'', ss_parent_id = None, ss_commit = None,
       ss_status = ''staging'', ss_created_at = 5, ss_meta = []\<rparr>],
     gr_nodes = [sample_row], gr_edges = [], gr_supports = [support_row ''r'' ''s1'' sample_receipt]\<rparr>"

definition published_graph :: graph where
  "published_graph = staged_graph\<lparr>gr_snapshots := [\<lparr>ss_id = ''s1'', ss_repo_id = ''r'', ss_parent_id = None,
     ss_commit = None, ss_status = ''published'', ss_created_at = 5, ss_meta = []\<rparr>]\<rparr>"

lemma staged_run: "graph_run sample_hash staged_ops empty_graph = Inr staged_graph"
  by code_simp

lemma published_run: "graph_run sample_hash (staged_ops @ [Publish ''r'' ''s1'']) empty_graph = Inr published_graph"
  by code_simp

lemmas staged_evolves = run_evolves [OF staged_run]
lemmas published_evolves = run_evolves [OF published_run]

section \<open>The current revision\<close>

lemma empty_ordered: "ordered_revisions empty_graph"
  by (simp add: ordered_revisions_def empty_graph_def)

text \<open>C32: whatever the clock says and in whatever order revisions are created, filled and published, the
  current revision of a repository is the published one that was created last, and creation times
  grow in the order of creation.\<close>

lemma current_is_newest_published:
  assumes "evolves H empty_graph g"
  shows "current_snapshot repo g =
      (if published_of repo g = [] then None else Some (ss_id (last (published_of repo g)))) \<and>
    sorted_wrt (\<lambda>s t. ss_created_at s < ss_created_at t) (snapshots_of repo g)"
proof -
  from ordering.reachable [OF assms empty_ordered] have ord: "ordered_revisions g" .
  have repo: "ss_repo_id s = repo" if "s \<in> set (snapshots_of repo g)" for s
    using that by (simp add: snapshots_of_def)
  have "sorted_wrt created_before (snapshots_of repo g)"
    using ord by (simp add: ordered_revisions_def snapshots_of_def sorted_wrt_filter)
  then have "sorted_wrt (\<lambda>s t. ss_created_at s < ss_created_at t) (snapshots_of repo g)"
    by (rule sorted_wrt_mono_rel [rotated]) (simp add: created_before_def repo)
  with current_is_last [OF ord] show ?thesis by blast
qed

lemma current_is_newest_published_witness: "current_snapshot ''r'' published_graph = Some ''s1''"
  using current_is_newest_published [OF published_evolves, of "''r''"]
  by (simp add: published_of_def snapshots_of_def published_graph_def staged_graph_def)

section \<open>Published support\<close>

text \<open>C31: once a revision is published, no sequence of operations of the store changes its support
  receipts or its row in the table of revisions.\<close>

lemma published_support_frozen:
  assumes "evolves H empty_graph g" and "s \<in> set (published_of repo g)" and "evolves H g g'"
  shows "s \<in> set (gr_snapshots g') \<and> all_supports g' repo (ss_id s) = all_supports g repo (ss_id s)"
proof -
  from ordering.reachable [OF assms(1) empty_ordered] have ord: "ordered_revisions g" .
  from assms(2) have s: "s \<in> set (gr_snapshots g)" "ss_repo_id s = repo" "ss_status s \<noteq> ''staging''"
    by (auto simp: published_of_def snapshots_of_def)
  then have "frozen repo (ss_id s) (all_supports g repo (ss_id s)) g"
    using ord by (auto simp: frozen_def left_staging_def)
  with freezing.reachable [OF assms(3)] have "frozen repo (ss_id s) (all_supports g repo (ss_id s)) g'" .
  moreover have "s \<in> set (gr_snapshots g')"
    using assms(3) s(1) s(3) by (induction rule: evolves.induct) (auto intro: snapshot_row_of_step)
  ultimately show ?thesis by (simp add: frozen_def)
qed

definition next_graph :: graph where
  "next_graph = published_graph\<lparr>gr_snapshots := gr_snapshots published_graph @
     [\<lparr>ss_id = ''s2'', ss_repo_id = ''r'', ss_parent_id = Some ''s1'', ss_commit = None, ss_status = ''staging'',
       ss_created_at = 6, ss_meta = []\<rparr>]\<rparr>"

lemma next_evolves: "evolves sample_hash published_graph next_graph"
proof -
  have "graph_run sample_hash [NewSnapshot ''s2'' 3 ''r'' (Some ''s1'') None []] published_graph = Inr next_graph"
    by code_simp
  then show ?thesis by (rule run_evolves)
qed

lemma published_support_frozen_witness:
  "all_supports next_graph ''r'' ''s1'' = [support_row ''r'' ''s1'' sample_receipt]"
proof -
  define s where "s = \<lparr>ss_id = ''s1'', ss_repo_id = ''r'', ss_parent_id = None, ss_commit = None,
    ss_status = ''published'', ss_created_at = 5, ss_meta = []\<rparr>"
  have pub: "s \<in> set (published_of ''r'' published_graph)"
    by (simp add: s_def published_of_def snapshots_of_def published_graph_def)
  have "all_supports published_graph ''r'' ''s1'' = [support_row ''r'' ''s1'' sample_receipt]"
    by (simp add: all_supports_def published_graph_def staged_graph_def support_at_def support_row_def)
  with published_support_frozen [OF published_evolves pub next_evolves] show ?thesis by (simp add: s_def)
qed

text \<open>C28: a revision goes out only whole: after a supported publication it is published, each of its facts has
  an admitted receipt or is a fact of the parent revision, and each of its receipts names one of its
  facts; it cannot be published a second time.\<close>

lemma publication_is_supported:
  assumes "publish_supported repo sid parent g = Inr g'"
  shows "(\<exists>s \<in> set (published_of repo g'). ss_id s = sid) \<and>
    (\<forall>f \<in> set (fact_ids g' repo sid). f \<in> su_fact_id ` set (all_supports g' repo sid) \<or>
       (\<exists>p. parent = Some p \<and> f \<in> set (fact_ids g' repo p))) \<and>
    (\<forall>r \<in> set (all_supports g' repo sid). \<not> orphan g' r) \<and>
    publish_snapshot repo sid g' = Inl GraphRuntimeError"
proof -
  from assms obtain g1 where pruned: "g1 = g\<lparr>gr_supports := filter (\<lambda>r. \<not> (support_at repo sid r \<and> orphan g r)) (gr_supports g)\<rparr>"
    and new: "unsupported_new_facts g1 repo sid parent = []" and pub: "publish_snapshot repo sid g1 = Inr g'"
    by (auto simp: publish_supported_def prune_orphan_support_def and_then_Inr)
  from pub have one: "length (filter (may_publish repo sid) (gr_snapshots g1)) = 1"
    and g': "g' = g1\<lparr>gr_snapshots := map (\<lambda>s. if may_publish repo sid s then s\<lparr>ss_status := ''published''\<rparr> else s)
      (gr_snapshots g1)\<rparr>" by (auto simp: publish_snapshot_def and_then_Inr)
  have same: "fact_ids g' = fact_ids g1" "all_supports g' = all_supports g1" "all_nodes g' = all_nodes g"
    "all_edges g' = all_edges g"
    by (simp_all add: g' pruned fun_eq_iff fact_ids_def all_nodes_def all_edges_def all_supports_def)
  from one have "filter (may_publish repo sid) (gr_snapshots g1) \<noteq> []" by auto
  then obtain s where "s \<in> set (gr_snapshots g1)" "may_publish repo sid s" by (auto simp: filter_empty_conv)
  then have "s\<lparr>ss_status := ''published''\<rparr> \<in> set (published_of repo g')"
    by (auto simp: g' published_of_def snapshots_of_def may_publish_def image_iff intro!: bexI [of _ s])
  with \<open>may_publish repo sid s\<close> have public: "\<exists>s \<in> set (published_of repo g'). ss_id s = sid"
    by (auto simp: may_publish_def intro!: bexI [of _ "s\<lparr>ss_status := ''published''\<rparr>"])
  have sup: "f \<in> su_fact_id ` set (all_supports g' repo sid) \<or> (\<exists>p. parent = Some p \<and> f \<in> set (fact_ids g' repo p))"
    if "f \<in> set (fact_ids g' repo sid)" for f
    using new that
    by (auto simp: same unsupported_new_facts_def filter_empty_conv sort_key_Nil Let_def
        split: option.splits if_splits)
  have own: "\<not> orphan g' r" if "r \<in> set (all_supports g' repo sid)" for r
    using that by (auto simp: same all_supports_def pruned orphan_def)
  have "\<not> may_publish repo sid (if may_publish repo sid t then t\<lparr>ss_status := ''published''\<rparr> else t)" for t
    by (simp add: may_publish_def)
  moreover have "gr_snapshots g' = map (\<lambda>s. if may_publish repo sid s then s\<lparr>ss_status := ''published''\<rparr> else s)
      (gr_snapshots g1)" by (simp add: g')
  ultimately have "filter (may_publish repo sid) (gr_snapshots g') = []" by (simp only: filter_empty_conv set_map ball_simps not_False_eq_True) simp
  then have twice: "publish_snapshot repo sid g' = Inl GraphRuntimeError"
    by (simp add: publish_snapshot_def demand_def)
  show ?thesis by (intro conjI ballI public sup own twice)
qed

lemma publication_is_supported_witness:
  "map su_fact_id (all_supports published_graph ''r'' ''s1'') = [''node:FUNCTION:v2:0''] \<and>
    publish_snapshot ''r'' ''s1'' published_graph = Inl GraphRuntimeError"
proof -
  have "publish_supported ''r'' ''s1'' None staged_graph = Inr published_graph" by code_simp
  moreover have "map su_fact_id (all_supports published_graph ''r'' ''s1'') = [''node:FUNCTION:v2:0'']" by code_simp
  ultimately show ?thesis using publication_is_supported by blast
qed

section \<open>Inherited facts\<close>

lemma reuse_receipt_fields:
  assumes "reuse_receipt H prior sid = Inr r"
  shows "jget r ''canonical_revision'' = JStr sid"
    and "k \<notin> {''reuse_rule_version'', ''reuse_source_receipt_id'', ''canonical_revision'', ''support_receipt_id''} \<Longrightarrow>
      jget r k = jget prior k"
    and "jget r ''reuse_source_receipt_id'' = JStr (py_str (jget prior ''support_receipt_id''))"
  using assms by (auto simp: reuse_receipt_def and_then_Inr jget_dict_set Let_def jindex_def split: option.splits)
    (simp add: jget_def get_or_def)

definition reuses :: "string \<Rightarrow> stored_support \<Rightarrow> stored_support \<Rightarrow> bool" where
  "reuses sid r old = (su_fact_id r = text_at (su_receipt old) ''canonical_fact_id'' \<and>
     su_owner_path r = text_at (su_receipt old) ''owner_path'' \<and>
     jget (su_receipt r) ''admission_id'' = jget (su_receipt old) ''admission_id'' \<and>
     jget (su_receipt r) ''canonical_revision'' = JStr sid \<and>
     jget (su_receipt r) ''reuse_source_receipt_id'' = JStr (py_str (jget (su_receipt old) ''support_receipt_id'')))"

lemma reused_row: "reuse_receipt H (su_receipt old) sid = Inr c \<Longrightarrow> reuses sid (support_row repo sid c) old"
  by (simp add: reuses_def support_row_def text_at_def reuse_receipt_fields)

lemma copy_nodes_edges_Inr:
  assumes "copy_nodes_edges repo parent sid g = Inr g'"
  shows "g' = g\<lparr>gr_nodes := gr_nodes g @ map (copied_node sid) (all_nodes g repo parent),
    gr_edges := gr_edges g @ map (copied_edge sid) (all_edges g repo parent)\<rparr>"
  using assms unfolding copy_nodes_edges_def Let_def and_then_Inr demand_Inr by simp

lemma copied_rows:
  assumes "sid \<noteq> parent"
  shows "filter (node_at repo sid) (map (copied_node sid) (all_nodes g repo parent)) =
      map (copied_node sid) (all_nodes g repo parent)"
    and "filter (node_at repo parent) (map (copied_node sid) (all_nodes g repo parent)) = []"
    and "filter (edge_at repo sid) (map (copied_edge sid) (all_edges g repo parent)) =
      map (copied_edge sid) (all_edges g repo parent)"
    and "filter (edge_at repo parent) (map (copied_edge sid) (all_edges g repo parent)) = []"
  using assms
  by (auto simp: filter_id_conv filter_empty_conv all_nodes_def node_at_def copied_node_def
      all_edges_def edge_at_def copied_edge_def)

lemma copy_previous_rows:
  assumes "copy_previous H repo sid parent g = Inr g'"
  obtains copies where "list_all2 (\<lambda>old c. reuse_receipt H (su_receipt old) sid = Inr c) (all_supports g repo parent) copies"
    and "gr_nodes g' = gr_nodes g @ map (copied_node sid) (all_nodes g repo parent)"
    and "gr_edges g' = gr_edges g @ map (copied_edge sid) (all_edges g repo parent)"
    and "gr_supports g' = gr_supports g @ map (support_row repo sid) copies"
proof -
  from assms obtain g1 copies where g1: "copy_nodes_edges repo parent sid g = Inr g1"
    and copies: "map_err (\<lambda>r. reuse_receipt H (su_receipt r) sid) (all_supports g1 repo parent) = Inr copies"
    and ins: "insert_supports (map (support_row repo sid) copies) g1 = Inr g'"
    unfolding copy_previous_def copy_support_receipts_def and_then_Inr demand_Inr raised_Inr by blast
  from copy_nodes_edges_Inr [OF g1] have "all_supports g1 = all_supports g" by (simp add: fun_eq_iff all_supports_def)
  with copies have "list_all2 (\<lambda>old c. reuse_receipt H (su_receipt old) sid = Inr c) (all_supports g repo parent) copies"
    by (simp add: map_err_Inr)
  with that insert_supports_rows [OF ins] copy_nodes_edges_Inr [OF g1] show ?thesis by simp
qed

text \<open>An incremental revision starts as a copy of its parent: the same node and edge identities, and for
  every receipt of the parent one bound to the new revision with the same fact, admission and owner
  that names the receipt it reuses; the parent is untouched.\<close>

lemma copy_inherits:
  assumes "copy_previous H repo sid parent g = Inr g'" and "all_supports g repo sid = []" and "sid \<noteq> parent"
    and "all_nodes g repo sid = []" and "all_edges g repo sid = []"
  shows "fact_ids g' repo sid = fact_ids g repo parent \<and> fact_ids g' repo parent = fact_ids g repo parent \<and>
    all_supports g' repo parent = all_supports g repo parent \<and>
    list_all2 (reuses sid) (all_supports g' repo sid) (all_supports g repo parent)"
proof -
  from assms(1) obtain copies
    where re: "list_all2 (\<lambda>old c. reuse_receipt H (su_receipt old) sid = Inr c) (all_supports g repo parent) copies"
    and n: "gr_nodes g' = gr_nodes g @ map (copied_node sid) (all_nodes g repo parent)"
    and e: "gr_edges g' = gr_edges g @ map (copied_edge sid) (all_edges g repo parent)"
    and s: "gr_supports g' = gr_supports g @ map (support_row repo sid) copies"
    by (rule copy_previous_rows)
  have supports: "filter (support_at repo sid) (map (support_row repo sid) copies) = map (support_row repo sid) copies"
      "filter (support_at repo parent) (map (support_row repo sid) copies) = []"
    using assms(3) by (auto simp: filter_id_conv filter_empty_conv support_at_def support_row_def)
  have here: "all_supports g' repo sid = map (support_row repo sid) copies"
    "all_supports g' repo parent = all_supports g repo parent"
    using assms(2) supports by (simp_all add: s all_supports_def)
  have an: "all_nodes g' repo s = all_nodes g repo s @ filter (node_at repo s) (map (copied_node sid) (all_nodes g repo parent))"
    for s unfolding all_nodes_def [of g' repo s] n filter_append all_nodes_def [of g repo s, symmetric] by (rule refl)
  have ae: "all_edges g' repo s = all_edges g repo s @ filter (edge_at repo s) (map (copied_edge sid) (all_edges g repo parent))"
    for s unfolding all_edges_def [of g' repo s] e filter_append all_edges_def [of g repo s, symmetric] by (rule refl)
  have ids: "nd_id \<circ> copied_node sid = nd_id" "ed_id \<circ> copied_edge sid = ed_id"
    by (simp_all add: fun_eq_iff copied_node_def copied_edge_def)
  have facts: "fact_ids g' repo sid = fact_ids g repo parent" "fact_ids g' repo parent = fact_ids g repo parent"
    unfolding fact_ids_def an ae copied_rows [OF assms(3)] assms(4,5) by (simp_all add: ids)
  from re have "list_all2 (reuses sid) (map (support_row repo sid) copies) (all_supports g repo parent)"
    unfolding list_all2_map1 by (subst list.rel_flip [symmetric]) (erule list_all2_mono, simp add: reused_row)
  with here facts show ?thesis by simp
qed

lemma copy_inherits_witness:
  "\<exists>g'. copy_previous sample_hash ''r'' ''s2'' ''s1'' next_graph = Inr g' \<and>
    fact_ids g' ''r'' ''s2'' = [''node:FUNCTION:v2:0''] \<and> length (all_supports g' ''r'' ''s2'') = 1"
proof -
  have "is_ok (copy_previous sample_hash ''r'' ''s2'' ''s1'' next_graph)" by code_simp
  then obtain g' where g': "copy_previous sample_hash ''r'' ''s2'' ''s1'' next_graph = Inr g'" by (auto dest: is_okE)
  have empty: "all_supports next_graph ''r'' ''s2'' = []" "all_nodes next_graph ''r'' ''s2'' = []"
    "all_edges next_graph ''r'' ''s2'' = []" by code_simp+
  have parent: "fact_ids next_graph ''r'' ''s1'' = [''node:FUNCTION:v2:0'']"
    "length (all_supports next_graph ''r'' ''s1'') = 1" by code_simp+
  from copy_inherits [OF g' empty(1) _ empty(2,3)] g' parent show ?thesis
    by (auto dest: list_all2_lengthD)
qed

text \<open>C35: the copy of a node does not keep the version of its identity schema: a symbol stored under the
  current schema is, in the next incremental revision, stored under the same identity but reported as
  symbol-identity/v1.\<close>

lemma copy_forgets_schema_version:
  assumes "upsert_node H n repo parent g = Inr ((nid, True), g1)" and "gn_kind n \<notin> set synthetic_kinds"
    and "copy_nodes_edges repo parent sid g1 = Inr g2"
  shows "(\<exists>m \<in> set (all_nodes g1 repo parent). nd_id m = nid \<and> nd_schema_version m = ''symbol-identity/v2'') \<and>
    (\<exists>m \<in> set (all_nodes g2 repo sid). nd_id m = nid \<and> nd_schema_version m = ''symbol-identity/v1'')"
proof -
  let ?m = "fresh_node repo parent nid n"
  from assms(1) have g1: "g1 = g\<lparr>gr_nodes := gr_nodes g @ [?m]\<rparr>"
    by (auto simp: upsert_node_def and_then_Inr split: option.splits)
  then have m: "?m \<in> set (all_nodes g1 repo parent)" by (simp add: all_nodes_def node_at_def fresh_node_def)
  then have "copied_node sid ?m \<in> set (all_nodes g2 repo sid)"
    unfolding copy_nodes_edges_Inr [OF assms(3)] by (auto simp: all_nodes_def node_at_def copied_node_def)
  then have "\<exists>m \<in> set (all_nodes g2 repo sid). nd_id m = nid \<and> nd_schema_version m = ''symbol-identity/v1''"
    by (rule bexI [rotated]) (simp add: copied_node_def fresh_node_def legacy_schema_def)
  moreover have "\<exists>m \<in> set (all_nodes g1 repo parent). nd_id m = nid \<and> nd_schema_version m = ''symbol-identity/v2''"
    using m by (rule bexI [rotated]) (simp add: fresh_node_def identity_schema_version_def assms(2))
  ultimately show ?thesis by blast
qed

lemma copy_forgets_schema_version_witness:
  "\<exists>g1 g2. upsert_node sample_hash sample_function ''r'' ''s1'' empty_graph = Inr ((''node:FUNCTION:v2:0'', True), g1) \<and>
    copy_nodes_edges ''r'' ''s1'' ''s2'' g1 = Inr g2 \<and>
    (\<exists>m \<in> set (all_nodes g2 ''r'' ''s2''). nd_schema_version m = ''symbol-identity/v1'')"
proof -
  let ?g1 = "empty_graph\<lparr>gr_nodes := [sample_row]\<rparr>"
  have up: "upsert_node sample_hash sample_function ''r'' ''s1'' empty_graph = Inr ((''node:FUNCTION:v2:0'', True), ?g1)"
    by code_simp
  have "is_ok (copy_nodes_edges ''r'' ''s1'' ''s2'' ?g1)" by code_simp
  then obtain g2 where g2: "copy_nodes_edges ''r'' ''s1'' ''s2'' ?g1 = Inr g2" by (auto dest: is_okE)
  have "gn_kind sample_function \<notin> set synthetic_kinds" by code_simp
  from copy_forgets_schema_version [OF up this g2] up g2 show ?thesis by blast
qed

section \<open>Indexing a node again\<close>

lemma find_append: "find P (xs @ ys) = (case find P xs of None \<Rightarrow> find P ys | Some x \<Rightarrow> Some x)"
  by (induction xs) auto

lemma dict_set_same: "map_of d k = Some v \<Longrightarrow> dict_set k v d = d"
  by (induction k v d rule: dict_set.induct) (auto split: if_splits)

lemma dict_update_entries:
  assumes "\<And>k v. (k, v) \<in> set e \<Longrightarrow> map_of d k = Some v"
  shows "fold (\<lambda>(k, v). dict_set k v) e d = d"
  using assms by (induction e) (auto simp: dict_set_same)

lemma dict_update_extends:
  assumes "distinct (map fst d)" and "k \<notin> fst ` set d"
  shows "dict_update d (d @ [(k, v)]) = d @ [(k, v)]"
proof -
  have "dict_set k v e = e @ [(k, v)]" if "k \<notin> fst ` set e" for e :: jdict
    using that by (induction k v e rule: dict_set.induct) auto
  then show ?thesis
    using assms by (simp add: dict_update_def dict_update_entries)
qed

text \<open>Indexing an unchanged definition again changes nothing: the second upsert of a node finds the
  row the first one stored and leaves the graph as it is, its locations included.\<close>

lemma upsert_idempotent:
  assumes "upsert_node H n repo sid g = Inr ((nid, True), g1)" and "distinct (map fst (gn_meta n))"
    and "map_of (gn_meta n) ''locations'' = None"
    and "map_of (gn_meta n) ''defined'' \<in> {None, Some (JBool True), Some (JBool False)}"
  shows "upsert_node H n repo sid g1 = Inr ((nid, False), g1)"
proof -
  let ?m = "fresh_node repo sid nid n"
  from assms(1) have id: "canonical_id H n = Inr nid" and none: "node_row g repo sid nid = None"
    and g1: "g1 = g\<lparr>gr_nodes := gr_nodes g @ [?m]\<rparr>"
    by (auto simp: upsert_node_def and_then_Inr split: option.splits)
  have at: "node_at repo sid ?m" "nd_id ?m = nid" by (simp_all add: node_at_def fresh_node_def)
  have row: "node_row g1 repo sid nid = Some ?m"
    using none at by (auto simp: node_row_def all_nodes_def g1 find_append split: option.splits)
  have locs: "locations (gn_meta n) = []" using assms(3) by (simp add: locations_def jget_def get_or_def)
  have new: "''locations'' \<notin> fst ` set (gn_meta n)" using assms(3) by (simp add: map_of_eq_None_iff)
  have append: "dict_set ''locations'' j e = e @ [(''locations'', j)]" if "''locations'' \<notin> fst ` set e" for j and e :: jdict
    using that by (induction "''locations''" j e rule: dict_set.induct) auto
  have meta: "nd_meta ?m = gn_meta n @ [(''locations'', JList [location_of n])]"
    by (simp add: fresh_node_def locs append new)
  have at_path: "located_at (gn_path n) (location_of n)"
    by (simp add: located_at_def location_of_def as_mapping_def jget_def get_or_def)
  have "locations (nd_meta ?m) = [location_of n]"
    using assms(3) by (simp add: meta locations_def jget_def get_or_def map_add_def)
  then have "merged_locations ?m n = [location_of n]"
    by (simp add: merged_locations_def at_path fresh_node_def)
  moreover have "dict_set ''locations'' (JList [location_of n]) (nd_meta ?m) = nd_meta ?m"
    using assms(3) by (intro dict_set_same) (simp add: meta map_add_def)
  ultimately have upd: "dict_update (gn_meta n) (dict_set ''locations'' (JList (merged_locations ?m n)) (nd_meta ?m)) = nd_meta ?m"
    by (simp add: meta dict_update_extends assms(2) new)
  have def: "map_of (nd_meta ?m) ''defined'' = map_of (gn_meta n) ''defined''"
    by (simp add: meta map_add_def split: option.split)
  then have dd: "defined_in (nd_meta ?m) = defined_in (gn_meta n)" by (simp add: defined_in_def jget_def get_or_def)
  have mm: "merged_meta ?m n = nd_meta ?m"
    unfolding merged_meta_def upd Let_def dd def
    using assms(4) by (auto simp: defined_in_def jget_def get_or_def def intro: dict_set_same)
  have "merged_node ?m n = ?m"
    by (simp add: merged_node_def mm Let_def) (simp add: fresh_node_def)
  moreover have "same_descriptor ?m n" "\<not> second_definition ?m n"
    by (simp_all add: same_descriptor_def second_definition_def fresh_node_def)
  moreover have "replace_node ?m g1 = g1"
  proof -
    have "x \<in> set (gr_nodes g) \<Longrightarrow> node_at repo sid x \<Longrightarrow> nd_id x \<noteq> nid" for x
      using none by (auto simp: node_row_def all_nodes_def find_None_iff)
    then have "map (\<lambda>x. if node_at repo sid x \<and> nd_id x = nid then ?m else x) (gr_nodes g) = gr_nodes g"
      by (intro map_idI) auto
    then show ?thesis by (simp add: replace_node_def g1) (simp add: fresh_node_def node_at_def)
  qed
  ultimately show ?thesis by (simp add: upsert_node_def id row demand_def)
qed

lemma upsert_idempotent_witness:
  "upsert_node sample_hash sample_function ''r'' ''s1'' (empty_graph\<lparr>gr_nodes := [sample_row]\<rparr>) =
    Inr ((''node:FUNCTION:v2:0'', False), empty_graph\<lparr>gr_nodes := [sample_row]\<rparr>)"
proof (rule upsert_idempotent)
  show "upsert_node sample_hash sample_function ''r'' ''s1'' empty_graph =
      Inr ((''node:FUNCTION:v2:0'', True), empty_graph\<lparr>gr_nodes := [sample_row]\<rparr>)" by code_simp
qed (simp_all add: sample_function_def)

end
