(* ===== verification/Coverage_Issuer.thy ===== *)
theory Coverage_Issuer
  imports Coverage_Properties Graph_Properties
begin

text \<open>
  The issuing run of a certificate of absence (\<open>coverage_authority/issuer.py\<close>): the preconditions on the
  graph and the source, the external analyses, the audit, the publication of a support overlay as a new
  revision, and the certificate.

  The provider run (\<open>ProviderHost.run_analysis\<close>), the compiler's tree and diagnostics
  (\<open>ClangFrontend.analyze\<close>) and its dependency list (\<open>dependency_paths\<close>) are parameters of the run, as are
  fresh identifiers and the clock. The file system is read twice, before and after the analyses; the
  graph is read at the start and again when the publication begins, and may have moved in between.
  A run that raises leaves the tables as they were: the store rolls back.
\<close>

section \<open>What a run reads\<close>

record host_result =
  hr_staged :: bool
  hr_facts :: "evidence_candidate list option"
  hr_provider :: "(string \<times> string \<times> string) option"
  hr_coverage :: jdict
  hr_fact_count :: int

record issue_env =
  ie_cov :: cov_env
  ie_files_after :: file_system
  ie_file_state :: "string \<Rightarrow> string \<Rightarrow> jdict option"
  ie_clang_executable :: string
  ie_dependencies :: "translation_unit \<Rightarrow> ev_error + string list"
  ie_host :: "translation_unit \<Rightarrow> host_result"
  ie_ast :: "translation_unit \<Rightarrow> jdict"
  ie_diagnostics :: "translation_unit \<Rightarrow> jdict"
  ie_run_id :: string
  ie_new_revision :: string
  ie_now :: int
  ie_certified_at :: int

datatype issue_error = CoverageUnavailable string | IssueRaised ev_error | IssueGraph graph_error | IssueTable lc_error

fun from_ev :: "ev_error + 'a \<Rightarrow> issue_error + 'a" where
  "from_ev (Inl e) = Inl (IssueRaised e)"
| "from_ev (Inr a) = Inr a"

fun from_graph :: "graph_error + 'a \<Rightarrow> issue_error + 'a" where
  "from_graph (Inl e) = Inl (IssueGraph e)"
| "from_graph (Inr a) = Inr a"

fun from_table :: "lc_error + 'a \<Rightarrow> issue_error + 'a" where
  "from_table (Inl e) = Inl (IssueTable e)"
| "from_table (Inr a) = Inr a"

lemma from_Inr [simp, err_elims]:
  "from_ev m = Inr a \<longleftrightarrow> m = Inr a" "from_graph n = Inr a \<longleftrightarrow> n = Inr a" "from_table t = Inr a \<longleftrightarrow> t = Inr a"
  by (cases m; cases n; cases t; simp)+

definition require :: "bool \<Rightarrow> string \<Rightarrow> issue_error + unit" where
  "require ok reason = (if ok then Inr () else Inl (CoverageUnavailable reason))"

lemma require_Inr [simp, err_elims]: "require ok reason = Inr u \<longleftrightarrow> ok"
  by (simp add: require_def)

record issue_request =
  ir_repo_id :: string
  ir_base_revision :: string
  ir_compile_commands :: string
  ir_translation_unit :: string
  ir_subject_id :: string

section \<open>Preconditions and the translation unit\<close>

definition current_revision :: "cov_env \<Rightarrow> graph \<Rightarrow> issue_request \<Rightarrow> bool" where
  "current_revision cov g q = (cv_root cov (ir_repo_id q) \<noteq> None \<and>
     (case snapshot g (ir_base_revision q) of None \<Rightarrow> False
      | Some s \<Rightarrow> ss_repo_id s = ir_repo_id q \<and> ss_status s = ''published'') \<and>
     current_snapshot (ir_repo_id q) g = Some (ir_base_revision q))"

definition subject_node :: "graph \<Rightarrow> issue_request \<Rightarrow> stored_node option" where
  "subject_node g q = (case node_by_id g (ir_repo_id q) (ir_base_revision q) (ir_subject_id q) of
     None \<Rightarrow> None
   | Some n \<Rightarrow> if nd_kind n = ''FUNCTION'' \<and> nd_path n = posix_path (ir_translation_unit q) then Some n else None)"

text \<open>What the first phase settles before the analyses run.\<close>

record unit_input =
  ui_subject :: stored_node
  ui_source :: string
  ui_database :: string
  ui_database_digest :: string
  ui_clang :: clang_identity
  ui_unit :: translation_unit
  ui_dependencies :: jdict

definition compile_unit :: "cov_env \<Rightarrow> string \<Rightarrow> string \<Rightarrow> clang_identity \<Rightarrow> ev_error + translation_unit" where
  "compile_unit cov database source clang = (case cv_database cov database of
     None \<Rightarrow> Inl ValueError
   | Some (home, rows) \<Rightarrow> and_then (exact_compile_row (cv_fs cov) home rows source) (\<lambda>row.
       load_translation_unit (cv_hash cov) (cv_fs cov) row clang provider_version ''clang-ast-v1''))"

definition indexed_source :: "issue_env \<Rightarrow> issue_request \<Rightarrow> translation_unit \<Rightarrow> bool" where
  "indexed_source env q u = (case ie_file_state env (ir_repo_id q) (posix_path (ir_translation_unit q)) of
     None \<Rightarrow> False
   | Some row \<Rightarrow> jget row ''hash'' = JStr (remove_prefix ''sha256:'' (tu_source_digest u)))"

definition digests_of :: "cov_env \<Rightarrow> string \<Rightarrow> string list \<Rightarrow> jdict" where
  "digests_of cov source paths = dict_of (\<lambda>p. p) (\<lambda>p. JStr (file_digest cov p))
     (filter (\<lambda>p. fs_resolve (cv_fs cov) p \<noteq> source) paths)"

definition prepare_unit :: "issue_env \<Rightarrow> graph \<Rightarrow> issue_request \<Rightarrow> issue_error + unit_input" where
  "prepare_unit env g q =
     (let cov = ie_cov env; fs = cv_fs cov; relative = ir_translation_unit q; home = base_of cov (ir_repo_id q);
          source = fs_resolve fs (path_join home relative); database = fs_resolve fs (ir_compile_commands q)
      in and_then (require (current_revision cov g q) ''exact current production revision required'') (\<lambda>_.
      and_then (require (\<not> is_absolute relative \<and> ''..'' \<notin> set (path_parts relative))
         ''translation unit must be within repository'') (\<lambda>_.
      and_then (require (cv_inside cov home source) ''translation unit escapes repository'') (\<lambda>_.
      and_then (require (fs_is_file fs source) ''translation unit unavailable'') (\<lambda>_.
      case subject_node g q of
        None \<Rightarrow> Inl (CoverageUnavailable ''subject is not a canonical function in exact TU'')
      | Some subject \<Rightarrow> (case cv_clang cov (ie_clang_executable env) of
          None \<Rightarrow> Inl (IssueRaised ValueError)
        | Some clang \<Rightarrow>
            and_then (from_ev (compile_unit cov database source clang)) (\<lambda>u.
            and_then (require (indexed_source env q u) ''source differs from current canonical index input'') (\<lambda>_.
            and_then (from_ev (ie_dependencies env u)) (\<lambda>paths.
              Inr \<lparr>ui_subject = subject, ui_source = source, ui_database = database,
                ui_database_digest = file_digest cov database, ui_clang = clang, ui_unit = u,
                ui_dependencies = digests_of cov source paths\<rparr>)))))))))"

section \<open>The analyses\<close>

definition complete_run :: "host_result \<Rightarrow> string \<Rightarrow> bool" where
  "complete_run r config = (hr_staged r \<and> hr_facts r \<noteq> None \<and> jget (hr_coverage r) ''level'' = JStr ''COMPLETE'' \<and>
     hr_provider r = Some (provider_id, provider_version, config))"

definition c_functions :: "graph \<Rightarrow> issue_request \<Rightarrow> stored_node list" where
  "c_functions g q = filter (\<lambda>n. nd_kind n = ''FUNCTION'' \<and> nd_language n = ''c'')
     (all_nodes g (ir_repo_id q) (ir_base_revision q))"

definition resolve_c_name :: "graph \<Rightarrow> issue_request \<Rightarrow> string \<Rightarrow> string option" where
  "resolve_c_name g q name = (case filter (\<lambda>n. nd_qname n = name) (c_functions g q) of
     [n] \<Rightarrow> Some (nd_id n) | _ \<Rightarrow> None)"

definition bind_provider_id :: "graph \<Rightarrow> issue_request \<Rightarrow> string \<Rightarrow> issue_error + string" where
  "bind_provider_id g q value_id =
     (if \<not> starts_with ''node:FUNCTION:'' value_id \<or> contains '':v2:'' value_id then Inr value_id
      else case resolve_c_name g q (remove_prefix ''node:FUNCTION:'' value_id) of
        None \<Rightarrow> Inl (CoverageUnavailable ''Clang provider identity not uniquely bound'')
      | Some bound \<Rightarrow> Inr bound)"

definition local_kind :: "evidence_candidate \<Rightarrow> json" where
  "local_kind f = jget (as_mapping (jget (ec_witness f) ''provider_local'')) ''kind''"

definition bind_object :: "graph \<Rightarrow> issue_request \<Rightarrow> evidence_candidate \<Rightarrow> issue_error + json" where
  "bind_object g q f = (case ec_object f of
     JStr s \<Rightarrow> if ec_object_is_identity f then and_then (bind_provider_id g q s) (\<lambda>t. Inr (JStr t)) else Inr (JStr s)
   | j \<Rightarrow> Inr j)"

definition bind_fact :: "graph \<Rightarrow> issue_request \<Rightarrow> evidence_candidate \<Rightarrow> issue_error + evidence_candidate" where
  "bind_fact g q f =
     (if local_kind f = JStr ''Function'' \<or> ec_predicate f = ''CALL''
      then and_then (bind_provider_id g q (ec_subject f)) (\<lambda>s.
        and_then (bind_object g q f) (\<lambda>ob.
          from_ev (check_candidate (f\<lparr>ec_subject := s, ec_object := ob\<rparr>))))
      else Inr f)"

text \<open>Whether a file of a location is the audited source; \<open>path_parent\<close> is \<open>Path.parent\<close>.\<close>

definition path_parent :: "string \<Rightarrow> string" where
  "path_parent p = (let parts = path_parts p in
     if is_absolute p then ''/'' @ join ''/'' (butlast parts)
     else if butlast parts = [] then ''.'' else join ''/'' (butlast parts))"

definition same_source :: "file_system \<Rightarrow> string \<Rightarrow> string \<Rightarrow> bool" where
  "same_source fs source f = (fs_resolve fs (path_join (path_parent source) f) = fs_resolve fs source)"

definition function_facts :: "issue_request \<Rightarrow> evidence_candidate list \<Rightarrow> evidence_candidate list" where
  "function_facts q candidates = filter (\<lambda>f. ec_subject f = ir_subject_id q \<and> local_kind f = JStr ''Function'' \<and>
     (case nonempty (ec_source_span f) of None \<Rightarrow> False
      | Some sp \<Rightarrow> jget sp ''file'' = JStr (posix_path (ir_translation_unit q)))) candidates"

definition inputs_still :: "issue_env \<Rightarrow> unit_input \<Rightarrow> bool" where
  "inputs_still env ui = (let sha = (\<lambda>p. ''sha256:'' @ fs_sha (ie_files_after env) p) in
     sha (ui_database ui) = ui_database_digest ui \<and> sha (ui_source ui) = tu_source_digest (ui_unit ui) \<and>
     list_all (\<lambda>(p, d). JStr (sha p) = d) (ui_dependencies ui))"

record analysis =
  an_input :: unit_input
  an_candidates :: "evidence_candidate list"
  an_function_fact :: evidence_candidate
  an_audit :: audit
  an_unsupported :: "string list"

definition analyse :: "issue_env \<Rightarrow> graph \<Rightarrow> issue_request \<Rightarrow> issue_error + analysis" where
  "analyse env g q =
     and_then (prepare_unit env g q) (\<lambda>ui.
     let u = ui_unit ui; run = ie_host env u; cov = ie_cov env in
     and_then (require (complete_run run (provider_config_digest (cv_hash cov))) ''external Clang RPP run not complete'') (\<lambda>_.
     and_then (map_err (bind_fact g q) (case hr_facts run of None \<Rightarrow> [] | Some fs \<Rightarrow> fs)) (\<lambda>candidates.
     and_then (from_ev (audit_direct_body (same_source (cv_fs cov) (ui_source ui)) (resolve_c_name g q)
         (ie_ast env u) (ie_diagnostics env u) (ir_subject_id q) candidates
         (ed_id ` set (all_edges g (ir_repo_id q) (ir_base_revision q))) (Some (nd_name (ui_subject ui))))) (\<lambda>a.
     case function_facts q candidates of
       [ff] \<Rightarrow>
         and_then (require (inputs_still env ui)
            ''compile command, source, or dependency changed during analysis'') (\<lambda>_.
           Inr \<lparr>an_input = ui, an_candidates = candidates, an_function_fact = ff, an_audit = a,
             an_unsupported = sort (remdups (au_reasons a @
               (if tu_language u \<noteq> ''c'' then [''cxx_outside_first_complete_capability''] else [])))\<rparr>)
     | _ \<Rightarrow> Inl (CoverageUnavailable ''Clang subject function identity not unique'')))))"

definition completeness_of :: "analysis \<Rightarrow> string" where
  "completeness_of a = (if au_exhaustive (an_audit a) \<and> an_unsupported a = [] then ''COMPLETE'' else ''PARTIAL'')"

section \<open>The support overlay\<close>

text \<open>The arrow of the witness text is a character above 255: its UTF-8 bytes stand for it.\<close>

definition arrow :: string where
  "arrow = [CHR 0xE2, CHR 0x86, CHR 0x92]"

definition support_claim :: "evidence_candidate \<Rightarrow> bool \<Rightarrow> string \<Rightarrow> string option \<Rightarrow> translation_unit \<Rightarrow> claim_payload" where
  "support_claim f is_node fact_kind qname u = \<lparr>cl_claim_id = ec_provider_fact_id f, cl_subject = ec_subject f,
     cl_predicate = (if is_node then ''NODE'' else fact_kind),
     cl_object = (if is_node then JObj [(''kind'', JStr fact_kind), (''qname'', jopt JStr qname)] else ec_object f),
     cl_source_span = Some (or_empty (ec_source_span f)), cl_truth_class = OBSERVED, cl_resolution = EXACT,
     cl_coverage = UNKNOWN_COVERAGE, cl_execution_modality = (if is_node then UNKNOWN_MODALITY else MAY),
     cl_revision_input = tu_identity u, cl_object_is_identity = (\<not> is_node), cl_confidence = None,
     cl_witness = Some [(''source_provider_fact_id'', JStr (ec_provider_fact_id f)),
       (''adapted_relation'', JStr (if is_node then ''Function'' @ arrow @ ''FUNCTION node'' else ''CALL'' @ arrow @ ''CALLS''))]\<rparr>"

definition support_provenance :: "evidence_candidate \<Rightarrow> string \<Rightarrow> unit_input \<Rightarrow> jdict" where
  "support_provenance f run_id ui = (let u = ui_unit ui in
     dict_update (as_mapping (jget (ec_witness f) ''provenance'')) [
       (''analysis_id'', JStr run_id), (''clang_binary_sha256'', JStr (ci_binary_sha256 (tu_clang u))),
       (''clang_executable'', JStr (ci_executable (tu_clang u))), (''compile_commands_path'', JStr (ui_database ui)),
       (''compile_commands_sha256'', JStr (ui_database_digest ui)), (''dependency_digests'', JObj (ui_dependencies ui)),
       (''raw_command_digest'', JStr (tu_raw_command_digest u)), (''source_digest'', JStr (tu_source_digest u)),
       (''tu_identity'', JStr (tu_identity u))])"

definition support_candidate :: "(string \<Rightarrow> string) \<Rightarrow> unit_input \<Rightarrow> string \<Rightarrow> canonical_state \<Rightarrow> string \<Rightarrow> string \<Rightarrow>
    string \<Rightarrow> evidence_candidate \<Rightarrow> bool \<Rightarrow> string \<Rightarrow> string \<Rightarrow> (string \<times> string) option \<Rightarrow> string option \<Rightarrow> graph \<Rightarrow>
    issue_error + string \<times> graph" where
  "support_candidate H ui run_id state repo_id revision owner f is_node fact_kind fact_id source_ids qname g =
     and_then (from_ev (check_claim (support_claim f is_node fact_kind qname (ui_unit ui)))) (\<lambda>claim.
     and_then (from_ev (for_claim ''clang_provider'' provider_id provider_version [owner]
         (support_provenance f run_id ui)
         [''PILOT_ONLY Clang AST interface'', ''positive fact support is not absence completeness''] claim)) (\<lambda>envelope.
     and_then (from_ev (admit H default_engine envelope state)) (\<lambda>admission.
     and_then (from_ev (issue_fact_support H default_engine admission envelope revision fact_id fact_kind
         (if is_node then ''node'' else ''edge'') owner (tu_semantic_command_digest (ui_unit ui))
         (Some (tu_source_digest (ui_unit ui))) source_ids None)) (\<lambda>receipt.
     and_then (from_graph (add_support_receipt repo_id revision receipt g)) (\<lambda>g'.
       Inr (text_at receipt ''support_receipt_id'', g'))))))"

text \<open>The call facts of the subject that the audit has confirmed, supported in order.\<close>

definition confirmed_calls :: "issue_request \<Rightarrow> analysis \<Rightarrow> (evidence_candidate \<times> string) list" where
  "confirmed_calls q a = List.map_filter (\<lambda>f. case ec_object f of
       JStr t \<Rightarrow> if ec_subject f = ir_subject_id q \<and> ec_predicate f = ''CALL'' \<and> t \<in> set (au_direct (an_audit a))
         then Some (f, t) else None
     | _ \<Rightarrow> None) (an_candidates a)"

fun support_calls :: "(graph \<Rightarrow> evidence_candidate \<times> string \<Rightarrow> issue_error + string \<times> graph) \<Rightarrow>
    (evidence_candidate \<times> string) list \<Rightarrow> graph \<Rightarrow> issue_error + string list \<times> graph" where
  "support_calls add [] g = Inr ([], g)"
| "support_calls add (c # cs) g = and_then (add g c) (\<lambda>(i, g1).
     and_then (support_calls add cs g1) (\<lambda>(is, g2). Inr (i # is, g2)))"

definition overlay_meta :: "issue_env \<Rightarrow> issue_request \<Rightarrow> jdict \<Rightarrow> jdict" where
  "overlay_meta env q meta = dict_update meta [(''run_id'', JStr (ie_run_id env)),
     (''mode'', JStr ''coverage_support_overlay''), (''coverage_parent_revision'', JStr (ir_base_revision q))]"

definition support_call :: "issue_env \<Rightarrow> issue_request \<Rightarrow> analysis \<Rightarrow> canonical_state \<Rightarrow> graph \<Rightarrow>
    evidence_candidate \<times> string \<Rightarrow> issue_error + string \<times> graph" where
  "support_call env q a state g c = support_candidate (cv_hash (ie_cov env)) (an_input a) (ie_run_id env) state
     (ir_repo_id q) (ie_new_revision env) (posix_path (ir_translation_unit q)) (fst c) False ''CALLS''
     (call_edge (ir_subject_id q) (snd c)) (Some (ir_subject_id q, snd c)) None g"

definition overlay_supports :: "issue_env \<Rightarrow> issue_request \<Rightarrow> analysis \<Rightarrow> graph \<Rightarrow> issue_error + string list \<times> graph" where
  "overlay_supports env q a g =
     and_then (from_ev (mk_canonical_state (ir_base_revision q) (''snapshot-ref:'' @ ir_base_revision q) [])) (\<lambda>state.
     and_then (support_candidate (cv_hash (ie_cov env)) (an_input a) (ie_run_id env) state (ir_repo_id q)
         (ie_new_revision env) (posix_path (ir_translation_unit q)) (an_function_fact a) True ''FUNCTION''
         (ir_subject_id q) None (Some (nd_qname (ui_subject (an_input a)))) g) (\<lambda>(i, g1).
     and_then (if au_exhaustive (an_audit a) then support_calls (support_call env q a state) (confirmed_calls q a) g1
         else Inr ([], g1)) (\<lambda>(is, g2). Inr (i # is, g2))))"

definition publish_overlay :: "issue_env \<Rightarrow> issue_request \<Rightarrow> stored_snapshot \<Rightarrow> analysis \<Rightarrow> graph \<Rightarrow>
    issue_error + string list \<times> graph" where
  "publish_overlay env q snap a g =
     (let repo_id = ir_repo_id q; base = ir_base_revision q; revision = ie_new_revision env in
      and_then (require (current_snapshot repo_id g = Some base) ''canonical CURRENT moved during analyzer run'') (\<lambda>_.
      and_then (from_graph (new_snapshot revision (ie_now env) repo_id (Some base) (ss_commit snap)
          (overlay_meta env q (ss_meta snap)) g)) (\<lambda>g1.
      and_then (from_graph (copy_previous (cv_hash (ie_cov env)) repo_id revision base g1)) (\<lambda>g2.
      and_then (overlay_supports env q a g2) (\<lambda>(supports, g3).
      and_then (require (unsupported_new_facts g3 repo_id revision (Some base) = [])
          ''support overlay lost canonical lineage'') (\<lambda>_.
      and_then (from_graph (publish_snapshot repo_id revision g3)) (\<lambda>g4. Inr (supports, g4))))))))"

section \<open>The certificate\<close>

definition excluded_domain :: "string list" where
  "excluded_domain = [''indirect/function-pointer calls'', ''virtual dispatch'',
     ''callbacks and runtime-generated calls'', ''whole-program behavior'', ''cross-language calls'',
     ''dynamic loading and JIT'']"

definition call_counts :: "string list \<Rightarrow> jdict" where
  "call_counts targets = map (\<lambda>t. (t, JInt (int (count_list targets t)))) (sort (remdups targets))"

definition certificate_payload :: "issue_env \<Rightarrow> issue_request \<Rightarrow> analysis \<Rightarrow> string list \<Rightarrow> jdict" where
  "certificate_payload env q a supports =
     (let H = cv_hash (ie_cov env); ui = an_input a; u = ui_unit ui; run = ie_host env u;
          relative = posix_path (ir_translation_unit q)
      in [(''schema_version'', JStr ''coverage-certificate/1''), (''issuer'', JStr issuer_id),
        (''repo_id'', JStr (ir_repo_id q)), (''canonical_revision'', JStr (ie_new_revision env)),
        (''analyzer_run_id'', JStr (ie_run_id env)), (''analyzer'', JStr provider_id), (''provider'', JStr provider_id),
        (''provider_version'', JStr provider_version), (''provider_config_digest'', JStr (provider_config_digest H)),
        (''analyzer_executable'', JStr (ci_executable (ui_clang ui))),
        (''analyzer_identity'', JObj (clang_dict (ui_clang ui))), (''language'', JStr (tu_language u)),
        (''relation_kind'', JStr ''DIRECT_STATIC_CALL''), (''subject'', JStr (ir_subject_id q)),
        (''subject_scope'', JStr ''EXACT_TU_FUNCTION_BODY''), (''translation_unit'', JStr relative),
        (''build_context'', JStr (tu_semantic_command_digest u)),
        (''compile_command_digest'', JStr (tu_raw_command_digest u)),
        (''compile_commands_path'', JStr (ui_database ui)), (''tu_identity'', JStr (tu_identity u)),
        (''source_digest'', JStr (tu_source_digest u)), (''dependency_digests'', JObj (ui_dependencies ui)),
        (''included_domain'', JObj [(''scope_type'', JStr ''EXACT_TU_FUNCTION_BODY''),
          (''translation_unit'', JStr relative), (''subject'', JStr (ir_subject_id q)),
          (''relation'', JStr ''DIRECT_STATIC_CALL'')]),
        (''excluded_domain'', jstrs excluded_domain), (''parse_status'', JStr ''COMPLETE''),
        (''analysis_status'', JStr ''COMPLETE''), (''unsupported_constructs'', jstrs (an_unsupported a)),
        (''completeness'', JStr (completeness_of a)), (''rule_version'', JStr coverage_rule_version),
        (''registry_version'', JStr (rg_version (eg_registry default_engine))),
        (''capability_registry_version'', JStr (capability_registry_version H)),
        (''support_receipt_ids'', jstrs supports), (''direct_call_targets'', JObj (call_counts (au_direct (an_audit a)))),
        (''rpp_fact_count'', JInt (hr_fact_count run)), (''rpp_run_coverage'', JObj (hr_coverage run)),
        (''ast_digest'', JStr (stable_digest H (JObj (ie_ast env u)))),
        (''diagnostics_digest'', JStr (stable_digest H (JObj (ie_diagnostics env u)))),
        (''created_at'', JInt (ie_certified_at env))])"

text \<open>What the certificate table reads from the graph of the open transaction.\<close>

definition node_dict :: "stored_node \<Rightarrow> jdict" where
  "node_dict n = [(''id'', JStr (nd_id n)), (''kind'', JStr (nd_kind n)), (''name'', JStr (nd_name n)),
     (''qname'', JStr (nd_qname n)), (''language'', JStr (nd_language n)), (''path'', JStr (nd_path n))]"

definition reads_graph :: "cov_env \<Rightarrow> graph \<Rightarrow> cov_env" where
  "reads_graph cov g = cov\<lparr>
     cv_snapshot := (\<lambda>sid. map_option (\<lambda>s. \<lparr>sn_id = ss_id s, sn_repo_id = ss_repo_id s, sn_parent_id = ss_parent_id s,
       sn_publication_status = Some (ss_status s), sn_created_at = ss_created_at s, sn_meta = ss_meta s\<rparr>) (snapshot g sid)),
     cv_node := (\<lambda>repo sid nid. map_option node_dict (node_by_id g repo sid nid)),
     cv_supports := support_receipts g\<rparr>"

text \<open>\<open>issue_direct_static_call\<close>: \<open>g\<close> is the graph the run reads, \<open>g'\<close> the one it publishes on.\<close>

definition issue_direct_static_call :: "issue_env \<Rightarrow> issue_request \<Rightarrow> graph \<Rightarrow> graph \<Rightarrow> cert_table \<Rightarrow>
    issue_error + jdict \<times> graph \<times> cert_table" where
  "issue_direct_static_call env q g g' tab =
     and_then (analyse env g q) (\<lambda>a.
     case snapshot g (ir_base_revision q) of
       None \<Rightarrow> Inl (CoverageUnavailable ''exact current production revision required'')
     | Some snap \<Rightarrow>
         and_then (publish_overlay env q snap a g') (\<lambda>(supports, g1).
         let cert = issue_certificate (cv_hash (ie_cov env)) (certificate_payload env q a supports) in
         and_then (from_table (record_issued_certificate (reads_graph (ie_cov env) g1) cert tab)) (\<lambda>tab'.
           Inr (cert, g1, tab'))))"

end
