(* ===== verification/Issuer_Properties.thy ===== *)
theory Issuer_Properties
  imports Coverage_Issuer
begin

text \<open>
  The properties of the issuing run: a COMPLETE certificate rests on an exhaustive audit of the one body of
  its subject, and the overlay revision it is issued for.
\<close>

section \<open>What the phases establish\<close>

lemma prepare_unit_Inr:
  assumes "prepare_unit env g q = Inr ui"
  shows "current_revision (ie_cov env) g q"
    and "\<not> is_absolute (ir_translation_unit q)" and "''..'' \<notin> set (path_parts (ir_translation_unit q))"
    and "ui_source ui = fs_resolve (cv_fs (ie_cov env)) (path_join (base_of (ie_cov env) (ir_repo_id q)) (ir_translation_unit q))"
    and "cv_inside (ie_cov env) (base_of (ie_cov env) (ir_repo_id q)) (ui_source ui)"
    and "fs_is_file (cv_fs (ie_cov env)) (ui_source ui)"
    and "subject_node g q = Some (ui_subject ui)"
    and "cv_clang (ie_cov env) (ie_clang_executable env) = Some (ui_clang ui)"
    and "compile_unit (ie_cov env) (ui_database ui) (ui_source ui) (ui_clang ui) = Inr (ui_unit ui)"
proof -
  from assms show "current_revision (ie_cov env) g q"
    "\<not> is_absolute (ir_translation_unit q)" "''..'' \<notin> set (path_parts (ir_translation_unit q))"
    unfolding prepare_unit_def Let_def and_then_Inr require_Inr by blast+
  let ?source = "fs_resolve (cv_fs (ie_cov env)) (path_join (base_of (ie_cov env) (ir_repo_id q)) (ir_translation_unit q))"
  from assms have inside: "cv_inside (ie_cov env) (base_of (ie_cov env) (ir_repo_id q)) ?source"
    and isf: "fs_is_file (cv_fs (ie_cov env)) ?source"
    unfolding prepare_unit_def Let_def and_then_Inr require_Inr by blast+
  from assms have rest: "(case subject_node g q of
        None \<Rightarrow> Inl (CoverageUnavailable ''subject is not a canonical function in exact TU'')
      | Some subject \<Rightarrow> (case cv_clang (ie_cov env) (ie_clang_executable env) of
          None \<Rightarrow> Inl (IssueRaised ValueError)
        | Some clang \<Rightarrow>
            and_then (from_ev (compile_unit (ie_cov env) (fs_resolve (cv_fs (ie_cov env)) (ir_compile_commands q)) ?source clang)) (\<lambda>u.
            and_then (require (indexed_source env q u) ''source differs from current canonical index input'') (\<lambda>_.
            and_then (from_ev (ie_dependencies env u)) (\<lambda>paths.
              Inr \<lparr>ui_subject = subject, ui_source = ?source, ui_database = fs_resolve (cv_fs (ie_cov env)) (ir_compile_commands q),
                ui_database_digest = file_digest (ie_cov env) (fs_resolve (cv_fs (ie_cov env)) (ir_compile_commands q)),
                ui_clang = clang, ui_unit = u,
                ui_dependencies = digests_of (ie_cov env) ?source paths\<rparr>))))) = Inr ui"
    unfolding prepare_unit_def Let_def and_then_Inr require_Inr by blast
  then obtain subject clang where s: "subject_node g q = Some subject"
    and c: "cv_clang (ie_cov env) (ie_clang_executable env) = Some clang"
    by (auto split: option.splits)
  with rest obtain u paths where u: "compile_unit (ie_cov env) (fs_resolve (cv_fs (ie_cov env)) (ir_compile_commands q)) ?source clang = Inr u"
    and ui: "ui = \<lparr>ui_subject = subject, ui_source = ?source, ui_database = fs_resolve (cv_fs (ie_cov env)) (ir_compile_commands q),
                ui_database_digest = file_digest (ie_cov env) (fs_resolve (cv_fs (ie_cov env)) (ir_compile_commands q)),
                ui_clang = clang, ui_unit = u,
                ui_dependencies = digests_of (ie_cov env) ?source paths\<rparr>"
    by (auto simp: and_then_Inr)
  show "ui_source ui = ?source" "subject_node g q = Some (ui_subject ui)"
    "cv_clang (ie_cov env) (ie_clang_executable env) = Some (ui_clang ui)"
    "compile_unit (ie_cov env) (ui_database ui) (ui_source ui) (ui_clang ui) = Inr (ui_unit ui)"
    "cv_inside (ie_cov env) (base_of (ie_cov env) (ir_repo_id q)) (ui_source ui)"
    "fs_is_file (cv_fs (ie_cov env)) (ui_source ui)"
    using s c u inside isf by (simp_all only: ui unit_input.select_convs)
qed

abbreviation audited_by :: "issue_env \<Rightarrow> graph \<Rightarrow> issue_request \<Rightarrow> analysis \<Rightarrow> ev_error + audit" where
  "audited_by env g q a \<equiv> audit_direct_body (same_source (cv_fs (ie_cov env)) (ui_source (an_input a))) (resolve_c_name g q)
     (ie_ast env (ui_unit (an_input a))) (ie_diagnostics env (ui_unit (an_input a))) (ir_subject_id q) (an_candidates a)
     (ed_id ` set (all_edges g (ir_repo_id q) (ir_base_revision q))) (Some (nd_name (ui_subject (an_input a))))"

lemma analyse_Inr:
  assumes "analyse env g q = Inr a"
  shows "prepare_unit env g q = Inr (an_input a)" and "audited_by env g q a = Inr (an_audit a)"
    and "inputs_still env (an_input a)" and "function_facts q (an_candidates a) = [an_function_fact a]"
    and "an_unsupported a = [] \<Longrightarrow> tu_language (ui_unit (an_input a)) = ''c''"
proof -
  from assms obtain ui candidates au where prep: "prepare_unit env g q = Inr ui"
    and au: "audit_direct_body (same_source (cv_fs (ie_cov env)) (ui_source ui)) (resolve_c_name g q)
         (ie_ast env (ui_unit ui)) (ie_diagnostics env (ui_unit ui)) (ir_subject_id q) candidates
         (ed_id ` set (all_edges g (ir_repo_id q) (ir_base_revision q))) (Some (nd_name (ui_subject ui))) = Inr au"
    and rest: "(case function_facts q candidates of
       [ff] \<Rightarrow>
         and_then (require (inputs_still env ui)
            ''compile command, source, or dependency changed during analysis'') (\<lambda>_.
           Inr \<lparr>an_input = ui, an_candidates = candidates, an_function_fact = ff, an_audit = au,
             an_unsupported = sort (remdups (au_reasons au @
               (if tu_language (ui_unit ui) \<noteq> ''c'' then [''cxx_outside_first_complete_capability''] else [])))\<rparr>)
     | _ \<Rightarrow> Inl (CoverageUnavailable ''Clang subject function identity not unique'')) = Inr a"
    unfolding analyse_def Let_def and_then_Inr from_Inr by blast
  from rest obtain ff where ff: "function_facts q candidates = [ff]" and still: "inputs_still env ui"
    and a: "a = \<lparr>an_input = ui, an_candidates = candidates, an_function_fact = ff, an_audit = au,
             an_unsupported = sort (remdups (au_reasons au @
               (if tu_language (ui_unit ui) \<noteq> ''c'' then [''cxx_outside_first_complete_capability''] else [])))\<rparr>"
    by (auto simp: and_then_Inr split: list.splits)
  show "prepare_unit env g q = Inr (an_input a)" "audited_by env g q a = Inr (an_audit a)"
    "inputs_still env (an_input a)" "function_facts q (an_candidates a) = [an_function_fact a]"
    using prep au ff still by (simp_all only: a analysis.select_convs)
  show "tu_language (ui_unit (an_input a)) = ''c''" if "an_unsupported a = []"
    using that by (auto simp: a sort_key_Nil split: if_splits)
qed

lemma issue_Inr:
  assumes "issue_direct_static_call env q g g' tab = Inr (cert, g1, tab')"
  obtains a snap supports where "analyse env g q = Inr a" "snapshot g (ir_base_revision q) = Some snap"
    "publish_overlay env q snap a g' = Inr (supports, g1)"
    "cert = issue_certificate (cv_hash (ie_cov env)) (certificate_payload env q a supports)"
    "record_issued_certificate (reads_graph (ie_cov env) g1) cert tab = Inr tab'"
  using assms
  by (auto simp: issue_direct_static_call_def and_then_Inr Let_def split: option.splits prod.splits)

lemma payload_field:
  assumes "cert = issue_certificate H (certificate_payload env q a supports)"
    and "k \<notin> {''id'', ''receipt_identity''}"
  shows "jget cert k = canon (jget (certificate_payload env q a supports) k)"
  using assms by (simp add: issued_field)

lemmas payload_eval = certificate_payload_def Let_def jget_def [of "(_, _) # _"] get_or_def [of "(_, _) # _"]

section \<open>What COMPLETE rests on\<close>

abbreviation exhaustively_audited :: "issue_env \<Rightarrow> graph \<Rightarrow> issue_request \<Rightarrow> unit_input \<Rightarrow> bool" where
  "exhaustively_audited env g q ui \<equiv> tu_language (ui_unit ui) = ''c'' \<and> inputs_still env ui \<and>
    diagnostic_reasons (ie_diagnostics env (ui_unit ui)) = Inr [] \<and>
    (\<exists>body. (\<forall>b. body_in (same_source (cv_fs (ie_cov env)) (ui_source ui))
        (audited_name (ir_subject_id q) (Some (nd_name (ui_subject ui)))) (ie_ast env (ui_unit ui)) b \<longleftrightarrow> b = body) \<and>
    (\<forall>e. inside body e \<longrightarrow> jget e ''kind'' \<notin> other_calls \<and> (jget e ''kind'' = JStr ''CallExpr'' \<longrightarrow>
      (\<exists>t. direct_call (resolve_c_name g q) e t \<and>
        call_edge (ir_subject_id q) t \<in> ed_id ` set (all_edges g (ir_repo_id q) (ir_base_revision q))))))"

lemma complete_analysis_facts:
  assumes "analyse env g q = Inr a" and "completeness_of a = ''COMPLETE''"
  shows "current_revision (ie_cov env) g q \<and> prepare_unit env g q = Inr (an_input a) \<and> exhaustively_audited env g q (an_input a)"
proof -
  from assms(2) have ex: "au_exhaustive (an_audit a)" and un: "an_unsupported a = []"
    by (auto simp: completeness_of_def split: if_splits)
  note facts = analyse_Inr [OF assms(1)]
  note audited = audit_exhaustive_facts [OF facts(2) ex]
  from audited have clean: "diagnostic_reasons (ie_diagnostics env (ui_unit (an_input a))) = Inr []" by blast
  from audited obtain body where
    "\<forall>b. body_in (same_source (cv_fs (ie_cov env)) (ui_source (an_input a)))
        (audited_name (ir_subject_id q) (Some (nd_name (ui_subject (an_input a)))))
        (ie_ast env (ui_unit (an_input a))) b \<longleftrightarrow> b = body"
    "\<forall>e. inside body e \<longrightarrow> jget e ''kind'' \<notin> other_calls \<and>
      (jget e ''kind'' = JStr ''CallExpr'' \<longrightarrow> (\<exists>t. direct_call (resolve_c_name g q) e t \<and>
        call_edge (ir_subject_id q) t \<in> ed_id ` set (all_edges g (ir_repo_id q) (ir_base_revision q)) \<and>
        t \<in> set (staged_calls (ir_subject_id q) (an_candidates a))))"
    by blast
  then have "\<exists>body. (\<forall>b. body_in (same_source (cv_fs (ie_cov env)) (ui_source (an_input a)))
        (audited_name (ir_subject_id q) (Some (nd_name (ui_subject (an_input a))))) (ie_ast env (ui_unit (an_input a))) b \<longleftrightarrow> b = body) \<and>
    (\<forall>e. inside body e \<longrightarrow> jget e ''kind'' \<notin> other_calls \<and> (jget e ''kind'' = JStr ''CallExpr'' \<longrightarrow>
      (\<exists>t. direct_call (resolve_c_name g q) e t \<and>
        call_edge (ir_subject_id q) t \<in> ed_id ` set (all_edges g (ir_repo_id q) (ir_base_revision q)))))"
    by (intro exI [of _ body]) blast
  with clean prepare_unit_Inr(1) [OF facts(1)] facts(1,3) facts(5) [OF un] show ?thesis by simp
qed

text \<open>C6: an analysis is COMPLETE only after an exhaustive audit of current inputs: the revision analysed is the
  current one, the unit is C, the compiler tree of the unit has exactly one body of the subject in the
  audited source, every call in that body is a direct call whose target resolves to a unique C function
  and is an edge of the revision, the compiler reported no error, and source, compile commands and
  dependencies still had the digests of the start when the analysis ended.\<close>

lemma complete_analysis_audited:
  assumes "analyse env g q = Inr a" and "completeness_of a = ''COMPLETE''"
  shows "current_revision (ie_cov env) g q \<and> prepare_unit env g q = Inr (an_input a) \<and> exhaustively_audited env g q (an_input a)"
  using assms by (rule complete_analysis_facts)

text \<open>So is a certificate that says COMPLETE.\<close>

lemma complete_certificate_audited:
  assumes "issue_direct_static_call env q g g' tab = Inr (cert, g1, tab')"
    and "jget cert ''completeness'' = JStr ''COMPLETE''"
  shows "\<exists>a. analyse env g q = Inr a \<and> exhaustively_audited env g q (an_input a)"
proof -
  from assms(1) obtain a snap supports where a: "analyse env g q = Inr a"
    and cert: "cert = issue_certificate (cv_hash (ie_cov env)) (certificate_payload env q a supports)"
    by (rule issue_Inr)
  have "jget cert ''completeness'' = canon (jget (certificate_payload env q a supports) ''completeness'')"
    by (rule payload_field [OF cert]) simp
  then have "completeness_of a = ''COMPLETE''"
    using assms(2) by (simp add: payload_eval)
  with complete_analysis_facts [OF a] a show ?thesis by blast
qed

section \<open>A sample analysis\<close>

definition issue_facts :: "evidence_candidate list" where
  "issue_facts = [\<lparr>ec_provider_id = ''p'', ec_provider_fact_id = ''1'', ec_subject = ''F'', ec_predicate = ''NODE'',
     ec_object = JNull, ec_source_span = Some [(''file'', JStr ''a.c'')], ec_truth_class = OBSERVED, ec_coverage = UNKNOWN_COVERAGE,
     ec_resolution = EXACT, ec_revision_input = ''r'', ec_execution_modality = MAY, ec_confidence = None,
     ec_witness = [(''provider_local'', JObj [(''kind'', JStr ''Function'')]), (''provenance'', JObj [])], ec_object_is_identity = False\<rparr>,
    \<lparr>ec_provider_id = ''p'', ec_provider_fact_id = ''2'', ec_subject = ''F'', ec_predicate = ''CALL'',
     ec_object = JStr ''G'', ec_source_span = Some [(''file'', JStr ''a.c'')], ec_truth_class = OBSERVED, ec_coverage = UNKNOWN_COVERAGE,
     ec_resolution = EXACT, ec_revision_input = ''r'', ec_execution_modality = MAY, ec_confidence = None,
     ec_witness = [(''provenance'', JObj [])], ec_object_is_identity = True\<rparr>]"

definition issue_node :: "string \<Rightarrow> string \<Rightarrow> stored_node" where
  "issue_node i name = \<lparr>nd_repo_id = ''r'', nd_snapshot_id = ''s1'', nd_id = i, nd_kind = ''FUNCTION'', nd_name = name,
     nd_qname = name, nd_language = ''c'', nd_schema_version = ''v'', nd_path = ''a.c'', nd_start_line = None,
     nd_start_col = None, nd_end_line = None, nd_end_col = None, nd_meta = []\<rparr>"

definition issue_graph :: graph where
  "issue_graph = \<lparr>gr_snapshots = [\<lparr>ss_id = ''s1'', ss_repo_id = ''r'', ss_parent_id = None, ss_commit = None,
       ss_status = ''published'', ss_created_at = 5, ss_meta = []\<rparr>],
     gr_nodes = [issue_node ''F'' ''f'', issue_node ''G'' ''g''],
     gr_edges = [\<lparr>ed_repo_id = ''r'', ed_snapshot_id = ''s1'', ed_id = ''edge:CALLS:F:G'', ed_kind = ''CALLS'',
       ed_src_id = ''F'', ed_dst_id = ''G'', ed_confidence = ''x'', ed_meta = []\<rparr>], gr_supports = []\<rparr>"

definition issue_sample :: "(string \<Rightarrow> string) \<Rightarrow> issue_env" where
  "issue_sample H = \<lparr>ie_cov = sample_cov H, ie_files_after = sample_files,
     ie_file_state = (\<lambda>r p. Some [(''hash'', JStr ''9'')]), ie_clang_executable = ''cc'',
     ie_dependencies = (\<lambda>u. Inr [''/r/a.h'']),
     ie_host = (\<lambda>u. \<lparr>hr_staged = True, hr_facts = Some issue_facts,
       hr_provider = Some (provider_id, provider_version, provider_config_digest H), hr_coverage = [(''level'', JStr ''COMPLETE'')], hr_fact_count = 2\<rparr>),
     ie_ast = (\<lambda>u. sample_ast), ie_diagnostics = (\<lambda>u. []), ie_run_id = ''run'', ie_new_revision = ''s2'',
     ie_now = 6, ie_certified_at = 7\<rparr>"

definition issue_query :: issue_request where
  "issue_query = \<lparr>ir_repo_id = ''r'', ir_base_revision = ''s1'', ir_compile_commands = ''db'', ir_translation_unit = ''a.c'',
     ir_subject_id = ''F''\<rparr>"


lemma issue_selectors:
  "ie_cov (issue_sample H) = sample_cov H" "ie_file_state (issue_sample H) r p = Some [(''hash'', JStr ''9'')]"
  "ie_clang_executable (issue_sample H) = ''cc''" "ie_dependencies (issue_sample H) u = Inr [''/r/a.h'']"
  "ie_ast (issue_sample H) u = sample_ast" "ie_diagnostics (issue_sample H) u = []"
  "ie_files_after (issue_sample H) = sample_files"
  by (simp_all add: issue_sample_def)

lemma issue_query_selectors:
  "ir_repo_id issue_query = ''r''" "ir_base_revision issue_query = ''s1''" "ir_compile_commands issue_query = ''db''"
  "ir_translation_unit issue_query = ''a.c''" "ir_subject_id issue_query = ''F''"
  by (simp_all add: issue_query_def)

lemma issue_graph_facts:
  "(case snapshot issue_graph ''s1'' of None \<Rightarrow> False | Some s \<Rightarrow> ss_repo_id s = ''r'' \<and> ss_status s = ''published'')"
  "current_snapshot ''r'' issue_graph = Some ''s1''"
  "subject_node issue_graph issue_query = Some (issue_node ''F'' ''f'')"
  by code_simp+

lemma sample_issue_unit:
  assumes u: "sample_unit H = Some u"
  shows "prepare_unit (issue_sample H) issue_graph issue_query = Inr \<lparr>ui_subject = issue_node ''F'' ''f'', ui_source = ''/r/a.c'',
    ui_database = ''db'', ui_database_digest = ''sha256:9'', ui_clang = sample_clang, ui_unit = u,
    ui_dependencies = [(''/r/a.h'', JStr ''sha256:9'')]\<rparr>"
proof -
  from u have load: "load_translation_unit H sample_files sample_command sample_clang provider_version ''clang-ast-v1'' = Inr u"
    by (auto simp: sample_unit_def split: sum.splits)
  from sample_reloaded [of H] u have d: "tu_source_digest u = ''sha256:9''" by simp
  have "compile_unit (sample_cov H) ''db'' ''/r/a.c'' sample_clang = Inr u"
    by (simp add: compile_unit_def sample_selectors sample_row load)
  moreover have "base_of (sample_cov H) ''r'' = ''/r''" by (simp add: base_of_def sample_selectors)
  moreover have "indexed_source (issue_sample H) issue_query u"
    by (simp add: indexed_source_def issue_selectors d jget_def get_or_def remove_prefix_def)
  moreover have "digests_of (sample_cov H) ''/r/a.c'' [''/r/a.h''] = [(''/r/a.h'', JStr ''sha256:9'')]"
    by (simp add: digests_of_def sample_selectors file_digest_def dict_of_def)
  moreover have "current_revision (sample_cov H) issue_graph issue_query"
    using issue_graph_facts(1,2)
    by (simp add: current_revision_def issue_query_selectors sample_selectors split: option.splits)
  ultimately show ?thesis
    by (simp add: prepare_unit_def Let_def issue_selectors issue_query_selectors sample_selectors sample_paths
        issue_graph_facts(3) require_def file_digest_def)
qed

lemma sample_bound: "map_err (bind_fact issue_graph issue_query) issue_facts = Inr issue_facts"
  by code_simp

lemma sample_issue_audit:
  "audit_direct_body (same_source sample_files ''/r/a.c'') (resolve_c_name issue_graph issue_query) sample_ast [] ''F'' issue_facts
     (ed_id ` set (all_edges issue_graph ''r'' ''s1'')) (Some ''f'') =
   Inr \<lparr>au_exhaustive = True, au_reasons = [], au_direct = [''G'']\<rparr>"
  by code_simp

lemma sample_function_fact: "function_facts issue_query issue_facts = [hd issue_facts]"
  by code_simp

lemma sample_analysis:
  assumes u: "sample_unit H = Some u"
  shows "\<exists>a. analyse (issue_sample H) issue_graph issue_query = Inr a \<and> completeness_of a = ''COMPLETE'' \<and>
    ui_unit (an_input a) = u"
proof -
  from sample_reloaded [of H] u have d: "tu_source_digest u = ''sha256:9''" "tu_language u = ''c''" by simp_all
  let ?run = "\<lparr>hr_staged = True, hr_facts = Some issue_facts,
    hr_provider = Some (provider_id, provider_version, provider_config_digest H),
    hr_coverage = [(''level'', JStr ''COMPLETE'')], hr_fact_count = 2\<rparr>"
  have host: "ie_host (issue_sample H) u = ?run" by (simp add: issue_sample_def)
  have run: "complete_run ?run (provider_config_digest H)" by (simp add: complete_run_def jget_def get_or_def)
  let ?ui = "\<lparr>ui_subject = issue_node ''F'' ''f'', ui_source = ''/r/a.c'',
    ui_database = ''db'', ui_database_digest = ''sha256:9'', ui_clang = sample_clang, ui_unit = u,
    ui_dependencies = [(''/r/a.h'', JStr ''sha256:9'')]\<rparr>"
  have still: "inputs_still (issue_sample H) ?ui"
    by (simp add: inputs_still_def issue_selectors sample_selectors d Let_def)
  let ?a = "\<lparr>an_input = ?ui, an_candidates = issue_facts, an_function_fact = hd issue_facts,
    an_audit = \<lparr>au_exhaustive = True, au_reasons = [], au_direct = [''G'']\<rparr>, an_unsupported = []\<rparr>"
  have name: "nd_name (issue_node ''F'' ''f'') = ''f''" by (simp add: issue_node_def)
  have "analyse (issue_sample H) issue_graph issue_query = Inr ?a"
    unfolding analyse_def sample_issue_unit [OF u]
    by (simp add: host run still sample_bound sample_issue_audit issue_selectors issue_query_selectors sample_selectors
        sample_function_fact d require_def name sort_key_Nil del: hd_conv_nth)
  then show ?thesis by (intro exI [of _ ?a]) (simp add: completeness_of_def)
qed

lemma complete_analysis_audited_witness:
  "\<exists>a. analyse (issue_sample id) issue_graph issue_query = Inr a \<and>
    exhaustively_audited (issue_sample id) issue_graph issue_query (an_input a)"
proof -
  obtain u where "sample_unit id = Some u" using sample_reloaded by blast
  from sample_analysis [OF this] obtain a where a: "analyse (issue_sample id) issue_graph issue_query = Inr a"
    "completeness_of a = ''COMPLETE''" by blast
  from complete_analysis_audited [OF a] a show ?thesis by blast
qed

section \<open>The published overlay\<close>

lemma supported_eq:
  assumes "get_or cert ''support_receipt_ids'' (JList []) = JList xs"
  shows "supported cert items = Inr (\<exists>item \<in> set items. jget item ''support_receipt_id'' \<in> set xs \<and> supports_run cert item)"
  by (induction items) (auto simp: py_in_def assms)

lemma support_candidate_Inr:
  assumes "support_candidate H ui run_id state repo_id revision owner f is_node fact_kind fact_id source_ids qname g = Inr (i, g1)"
  obtains receipt where "g1 = g\<lparr>gr_supports := gr_supports g @ [support_row repo_id revision receipt]\<rparr>"
    and "jget receipt ''support_receipt_id'' = JStr i" and "jget receipt ''canonical_fact_id'' = JStr fact_id"
    and "jget receipt ''lane_id'' = JStr ''clang_provider''"
    and "jget receipt ''provenance'' = JObj (support_provenance f run_id ui)"
    and "is_node \<Longrightarrow> fact_kind_of g repo_id revision ''node'' fact_id = Some fact_kind"
proof -
  from assms obtain claim envelope admission receipt where
    env: "for_claim ''clang_provider'' provider_id provider_version [owner] (support_provenance f run_id ui)
         [''PILOT_ONLY Clang AST interface'', ''positive fact support is not absence completeness''] claim = Inr envelope"
    and receipt: "issue_fact_support H default_engine admission envelope revision fact_id fact_kind
         (if is_node then ''node'' else ''edge'') owner (tu_semantic_command_digest (ui_unit ui))
         (Some (tu_source_digest (ui_unit ui))) source_ids None = Inr receipt"
    and add: "add_support_receipt repo_id revision receipt g = Inr g1"
    and i: "i = text_at receipt ''support_receipt_id''"
    unfolding support_candidate_def and_then_Inr from_Inr by blast
  from env have envelope: "en_lane_id envelope = ''clang_provider''" "en_provenance envelope = support_provenance f run_id ui"
    by (auto simp: for_claim_def check_envelope_def split: if_splits)
  have fields: "\<exists>s. jget receipt ''support_receipt_id'' = JStr s \<and> s \<noteq> []"
    "jget receipt ''canonical_fact_id'' = JStr fact_id" "jget receipt ''lane_id'' = JStr (en_lane_id envelope)"
    "jget receipt ''provenance'' = JObj (en_provenance envelope)"
    "jget receipt ''canonical_fact_kind'' = JStr fact_kind"
    "jget receipt ''canonical_fact_type'' = JStr (if is_node then ''node'' else ''edge'')"
    using receipt unfolding issue_fact_support_def Let_def
    by (auto simp: and_then_Inr jget_def get_or_def support_id_def split: if_splits option.splits)
  from fields(1) i have id: "jget receipt ''support_receipt_id'' = JStr i" by (auto simp: text_at_def py_str_def)
  from add have rows: "g1 = g\<lparr>gr_supports := gr_supports g @ [support_row repo_id revision receipt]\<rparr>"
    and kind: "fact_kind_of g repo_id revision (text_at receipt ''canonical_fact_type'')
      (text_at receipt ''canonical_fact_id'') = Some (text_at receipt ''canonical_fact_kind'')"
    unfolding add_support_receipt_def and_then_Inr demand_Inr by (auto dest: insert_support_other)
  have "text_at receipt k = s" if "jget receipt k = JStr s" for k s
    using that by (auto simp: text_at_def py_str_def)
  with kind fields have "is_node \<Longrightarrow> fact_kind_of g repo_id revision ''node'' fact_id = Some fact_kind" by simp
  with that rows id fields envelope show ?thesis by simp
qed

lemma support_calls_rows:
  assumes "support_calls (support_call env q a state) cs g = Inr (is, g1)"
  shows "\<exists>rows. g1 = g\<lparr>gr_supports := gr_supports g @ rows\<rparr>"
  using assms
proof (induction cs arbitrary: g "is")
  case Nil
  then show ?case by (intro exI [of _ "[]"]) simp
next
  case (Cons c cs)
  from Cons.prems obtain i g2 js where one: "support_call env q a state g c = Inr (i, g2)"
    and rest: "support_calls (support_call env q a state) cs g2 = Inr (js, g1)"
    by (auto simp: and_then_Inr split: prod.splits)
  from one obtain receipt where "g2 = g\<lparr>gr_supports := gr_supports g @ [support_row (ir_repo_id q) (ie_new_revision env) receipt]\<rparr>"
    unfolding support_call_def by (rule support_candidate_Inr)
  moreover from Cons.IH [OF rest] obtain rows where "g1 = g2\<lparr>gr_supports := gr_supports g2 @ rows\<rparr>" by blast
  ultimately show ?case
    by (intro exI [of _ "support_row (ir_repo_id q) (ie_new_revision env) receipt # rows"]) simp
qed

lemma overlay_supports_Inr:
  assumes "overlay_supports env q a g = Inr (ids, g1)"
  obtains receipt rows i where
    "g1 = g\<lparr>gr_supports := gr_supports g @ support_row (ir_repo_id q) (ie_new_revision env) receipt # rows\<rparr>"
    and "i \<in> set ids" and "jget receipt ''support_receipt_id'' = JStr i"
    and "jget receipt ''canonical_fact_id'' = JStr (ir_subject_id q)"
    and "jget receipt ''lane_id'' = JStr ''clang_provider''"
    and "jget receipt ''provenance'' = JObj (support_provenance (an_function_fact a) (ie_run_id env) (an_input a))"
    and "fact_kind_of g (ir_repo_id q) (ie_new_revision env) ''node'' (ir_subject_id q) = Some ''FUNCTION''"
proof -
  from assms obtain state i g2 js where
    one: "support_candidate (cv_hash (ie_cov env)) (an_input a) (ie_run_id env) state (ir_repo_id q)
         (ie_new_revision env) (posix_path (ir_translation_unit q)) (an_function_fact a) True ''FUNCTION''
         (ir_subject_id q) None (Some (nd_qname (ui_subject (an_input a)))) g = Inr (i, g2)"
    and rest: "(if au_exhaustive (an_audit a) then support_calls (support_call env q a state) (confirmed_calls q a) g2
         else Inr ([], g2)) = Inr (js, g1)"
    and ids: "ids = i # js"
    unfolding overlay_supports_def by (auto simp: and_then_Inr split: prod.splits)
  from rest obtain rows where rows: "g1 = g2\<lparr>gr_supports := gr_supports g2 @ rows\<rparr>"
    using support_calls_rows by (cases "au_exhaustive (an_audit a)") (fastforce intro: exI [of _ "[]"])+
  from one show ?thesis
    by (rule support_candidate_Inr) (rule that [where i = i and rows = rows], auto simp: ids rows)
qed

lemma publish_overlay_Inr:
  assumes "publish_overlay env q snap a g = Inr (supports, g4)"
  obtains g1 g2 g3 where
    "new_snapshot (ie_new_revision env) (ie_now env) (ir_repo_id q) (Some (ir_base_revision q)) (ss_commit snap)
       (overlay_meta env q (ss_meta snap)) g = Inr g1"
    and "copy_previous (cv_hash (ie_cov env)) (ir_repo_id q) (ie_new_revision env) (ir_base_revision q) g1 = Inr g2"
    and "overlay_supports env q a g2 = Inr (supports, g3)"
    and "publish_snapshot (ir_repo_id q) (ie_new_revision env) g3 = Inr g4"
  using assms unfolding publish_overlay_def Let_def
  by (auto simp: and_then_Inr split: prod.splits)

text \<open>What the new revision looks like in the published graph.\<close>

lemma overlay_revision:
  assumes "publish_overlay env q snap a g = Inr (supports, g4)"
  obtains s where "snapshot g4 (ie_new_revision env) = Some s" and "ss_repo_id s = ir_repo_id q"
    and "ss_status s = ''published''" and "ss_meta s = overlay_meta env q (ss_meta snap)"
    and "ie_new_revision env \<notin> ss_id ` set (gr_snapshots g)"
    and "all_nodes g4 (ir_repo_id q) (ie_new_revision env) = all_nodes g (ir_repo_id q) (ie_new_revision env) @
      filter (node_at (ir_repo_id q) (ie_new_revision env)) (map (copied_node (ie_new_revision env))
        (all_nodes g (ir_repo_id q) (ir_base_revision q)))"
    and "\<exists>receipt i. support_row (ir_repo_id q) (ie_new_revision env) receipt \<in> set (gr_supports g4) \<and> i \<in> set supports \<and>
      jget receipt ''support_receipt_id'' = JStr i \<and> jget receipt ''canonical_fact_id'' = JStr (ir_subject_id q) \<and>
      jget receipt ''lane_id'' = JStr ''clang_provider'' \<and>
      jget receipt ''provenance'' = JObj (support_provenance (an_function_fact a) (ie_run_id env) (an_input a))"
    and "fact_kind_of g4 (ir_repo_id q) (ie_new_revision env) ''node'' (ir_subject_id q) = Some ''FUNCTION''"
proof -
  let ?rev = "ie_new_revision env" and ?repo = "ir_repo_id q" and ?base = "ir_base_revision q"
  from assms obtain g1 g2 g3 where
    n: "new_snapshot ?rev (ie_now env) ?repo (Some ?base) (ss_commit snap) (overlay_meta env q (ss_meta snap)) g = Inr g1"
    and c: "copy_previous (cv_hash (ie_cov env)) ?repo ?rev ?base g1 = Inr g2"
    and o: "overlay_supports env q a g2 = Inr (supports, g3)"
    and p: "publish_snapshot ?repo ?rev g3 = Inr g4"
    by (rule publish_overlay_Inr)
  define new where "new = \<lparr>ss_id = ?rev, ss_repo_id = ?repo, ss_parent_id = Some ?base, ss_commit = ss_commit snap,
    ss_status = ''staging'', ss_created_at = max (ie_now env) (newest ?repo g + 1), ss_meta = overlay_meta env q (ss_meta snap)\<rparr>"
  from n have fresh: "?rev \<notin> ss_id ` set (gr_snapshots g)" and g1: "g1 = g\<lparr>gr_snapshots := gr_snapshots g @ [new]\<rparr>"
    unfolding new_snapshot_def and_then_Inr demand_Inr new_def by auto
  from c obtain copies where g2: "gr_nodes g2 = gr_nodes g1 @ map (copied_node ?rev) (all_nodes g1 ?repo ?base)"
    by (rule copy_previous_rows)
  from c have s2: "gr_snapshots g2 = gr_snapshots g1"
    unfolding copy_previous_def and_then_Inr copy_support_receipts_def
    by (auto dest!: copy_nodes_edges_Inr insert_supports_rows)
  from o obtain receipt rows i where
    g3: "g3 = g2\<lparr>gr_supports := gr_supports g2 @ support_row ?repo ?rev receipt # rows\<rparr>"
    and r: "i \<in> set supports" "jget receipt ''support_receipt_id'' = JStr i"
      "jget receipt ''canonical_fact_id'' = JStr (ir_subject_id q)" "jget receipt ''lane_id'' = JStr ''clang_provider''"
      "jget receipt ''provenance'' = JObj (support_provenance (an_function_fact a) (ie_run_id env) (an_input a))"
    and kind: "fact_kind_of g2 ?repo ?rev ''node'' (ir_subject_id q) = Some ''FUNCTION''"
    by (rule overlay_supports_Inr)
  from p have g4: "g4 = g3\<lparr>gr_snapshots := map (\<lambda>s. if may_publish ?repo ?rev s then s\<lparr>ss_status := ''published''\<rparr> else s)
      (gr_snapshots g3)\<rparr>" unfolding publish_snapshot_def and_then_Inr by auto
  have others: "map (\<lambda>s. if may_publish ?repo ?rev s then s\<lparr>ss_status := ''published''\<rparr> else s) (gr_snapshots g) = gr_snapshots g"
  proof (rule map_idI)
    fix s assume "s \<in> set (gr_snapshots g)"
    then have "ss_id s \<in> ss_id ` set (gr_snapshots g)" by (rule imageI)
    with fresh have "ss_id s \<noteq> ?rev" by (cases "ss_id s = ?rev") simp_all
    then show "(if may_publish ?repo ?rev s then s\<lparr>ss_status := ''published''\<rparr> else s) = s"
      by (simp add: may_publish_def)
  qed
  have "gr_snapshots g3 = gr_snapshots g @ [new]" by (simp add: g3 s2 g1)
  then have "gr_snapshots g4 = gr_snapshots g @ [new\<lparr>ss_status := ''published''\<rparr>]"
    by (simp add: g4 others) (simp add: may_publish_def new_def)
  moreover have "find (\<lambda>s. ss_id s = ?rev) (gr_snapshots g) = None"
    using fresh by (auto simp: find_None_iff image_iff)
  ultimately have snap: "snapshot g4 ?rev = Some (new\<lparr>ss_status := ''published''\<rparr>)"
    by (simp add: snapshot_def find_append new_def)
  have nodes: "all_nodes g4 ?repo ?rev = all_nodes g ?repo ?rev @
      filter (node_at ?repo ?rev) (map (copied_node ?rev) (all_nodes g ?repo ?base))"
    by (simp add: g4 g3 g2 g1 all_nodes_def)
  have "fact_kind_of g4 ?repo ?rev ''node'' (ir_subject_id q) = Some ''FUNCTION''"
    using kind by (simp add: fact_kind_of_def all_nodes_def g4 g3)
  moreover have "support_row ?repo ?rev receipt \<in> set (gr_supports g4)" by (simp add: g4 g3)
  ultimately show ?thesis
    using that [OF snap] fresh nodes r by (auto simp: new_def)
qed

end
