(* ===== verification/Arch_Store.thy ===== *)
theory Arch_Store
  imports Graph_Store
begin

text \<open>
  The architecture plane of the store (\<open>db.py\<close>, the tables \<open>arch_*\<close> of \<open>schema.py\<close>): workspaces with an
  AS-IS model and proposals, their component hierarchy, relations, mappings to the evidence graph and
  layouts.

  A table is the list of its rows in the order of insertion, which is also the order among equal keys
  of an \<open>ORDER BY\<close>. The constraints of the schema are checked where a statement changes a row: a
  violated one is an \<open>IntegrityError\<close> of the database, which the methods report or let through as the
  code does. A method that fails leaves the tables as they were: its transaction is rolled back.
\<close>

section \<open>Rows\<close>

record arch_workspace =
  ws_id :: string
  ws_repo_id :: string
  ws_name :: string
  ws_description :: string
  ws_created_at :: int
  ws_updated_at :: int

record arch_component =
  co_id :: string
  co_workspace_id :: string
  co_model_id :: string
  co_origin_id :: "string option"
  co_kind :: string
  co_name :: string
  co_description :: string
  co_parent_id :: "string option"
  co_sort_order :: int
  co_created_at :: int
  co_updated_at :: int

record arch_relation =
  rl_id :: string
  rl_workspace_id :: string
  rl_model_id :: string
  rl_kind :: string
  rl_src_id :: string
  rl_dst_id :: string
  rl_label :: "string option"
  rl_created_at :: int
  rl_updated_at :: int

record arch_mapping =
  mp_id :: string
  mp_workspace_id :: string
  mp_component_id :: string
  mp_entity_type :: string
  mp_entity_id :: string
  mp_snapshot_id :: "string option"
  mp_note :: string
  mp_created_at :: int
  mp_updated_at :: int

text \<open>The frozen baseline of a proposal, which the column \<open>baseline_json\<close> holds as JSON text.\<close>

record baseline_mapping =
  bm_entity_type :: string
  bm_entity_id :: string
  bm_snapshot_id :: "string option"
  bm_note :: string

record baseline_component =
  bc_id :: string
  bc_kind :: string
  bc_name :: string
  bc_description :: string
  bc_parent_id :: "string option"
  bc_sort_order :: int
  bc_mappings :: "baseline_mapping list"

record baseline_relation =
  br_id :: string
  br_kind :: string
  br_src_id :: string
  br_dst_id :: string
  br_label :: "string option"

record arch_baseline =
  bl_schema_version :: int
  bl_forked_at :: int
  bl_snapshot_id :: "string option"
  bl_components :: "baseline_component list"
  bl_relations :: "baseline_relation list"

record arch_model_row =
  mo_id :: string
  mo_workspace_id :: string
  mo_kind :: string
  mo_name :: string
  mo_description :: string
  mo_status :: string
  mo_parent_model_id :: "string option"
  mo_base_snapshot_id :: "string option"
  mo_baseline :: "arch_baseline option"
  mo_baseline_version :: int
  mo_created_at :: int
  mo_updated_at :: int

record arch_layout_row =
  ly_workspace_id :: string
  ly_model_id :: string
  ly_layout :: jdict
  ly_updated_at :: int

record arch =
  az_workspaces :: "arch_workspace list"
  az_models :: "arch_model_row list"
  az_components :: "arch_component list"
  az_relations :: "arch_relation list"
  az_mappings :: "arch_mapping list"
  az_layouts :: "arch_layout_row list"

definition empty_arch :: arch where
  "empty_arch = \<lparr>az_workspaces = [], az_models = [], az_components = [], az_relations = [], az_mappings = [],
     az_layouts = []\<rparr>"

text \<open>
  What a method reads besides its tables: the clock, the identifiers it draws in order, the repositories
  and the evidence graph.
\<close>

record arch_env =
  ae_now :: int
  ae_fresh :: "nat \<Rightarrow> string"
  ae_repo :: "string \<Rightarrow> bool"
  ae_graph :: graph

datatype arch_error = ArchError string | DesignRefused string | StoreIntegrity | AssertionFailed | MissingKey

definition arch_demand :: "bool \<Rightarrow> arch_error \<Rightarrow> arch_error + unit" where
  "arch_demand ok e = (if ok then Inr () else Inl e)"

lemma arch_demand_Inr [simp, err_elims]: "arch_demand ok e = Inr u \<longleftrightarrow> ok"
  by (simp add: arch_demand_def)

text \<open>\<open>except sqlite3.IntegrityError: raise ArchError(code)\<close>.\<close>

fun on_integrity :: "string \<Rightarrow> arch_error + 'a \<Rightarrow> arch_error + 'a" where
  "on_integrity code (Inl StoreIntegrity) = Inl (ArchError code)"
| "on_integrity code r = r"

lemma on_integrity_Inr [simp, err_elims]: "on_integrity code r = Inr a \<longleftrightarrow> r = Inr a"
  by (cases "(code, r)" rule: on_integrity.cases) auto

section \<open>Queries\<close>

definition arch_workspaces :: "arch \<Rightarrow> arch_workspace list" where
  "arch_workspaces st = sort_key ws_created_at (az_workspaces st)"

definition arch_workspace_row :: "arch \<Rightarrow> string \<Rightarrow> arch_workspace option" where
  "arch_workspace_row st ws = find (\<lambda>w. ws_id w = ws) (az_workspaces st)"

definition arch_models :: "arch \<Rightarrow> string \<Rightarrow> arch_model_row list" where
  "arch_models st ws = sort_key mo_created_at (filter (\<lambda>m. mo_workspace_id m = ws) (az_models st))"

definition arch_model_by :: "arch \<Rightarrow> string \<Rightarrow> string \<Rightarrow> arch_model_row option" where
  "arch_model_by st ws m = find (\<lambda>x. mo_workspace_id x = ws \<and> mo_id x = m) (az_models st)"

definition model_baseline :: "arch \<Rightarrow> string \<Rightarrow> string \<Rightarrow> arch_baseline option" where
  "model_baseline st ws m = (case arch_model_by st ws m of None \<Rightarrow> None | Some r \<Rightarrow> mo_baseline r)"

definition component_in :: "string \<Rightarrow> string \<Rightarrow> arch_component \<Rightarrow> bool" where
  "component_in ws m c = (co_workspace_id c = ws \<and> co_model_id c = m)"

text \<open>\<open>ORDER BY sort_order, created_at\<close>.\<close>

definition in_order :: "arch_component list \<Rightarrow> arch_component list" where
  "in_order cs = sort_key co_sort_order (sort_key co_created_at cs)"

definition arch_components :: "arch \<Rightarrow> string \<Rightarrow> string \<Rightarrow> arch_component list" where
  "arch_components st ws m = in_order (filter (component_in ws m) (az_components st))"

definition arch_component_in :: "arch \<Rightarrow> string \<Rightarrow> string \<Rightarrow> string \<Rightarrow> arch_component option" where
  "arch_component_in st ws m c = find (\<lambda>x. component_in ws m x \<and> co_id x = c) (az_components st)"

definition arch_component_any :: "arch \<Rightarrow> string \<Rightarrow> string \<Rightarrow> arch_component option" where
  "arch_component_any st ws c = find (\<lambda>x. co_workspace_id x = ws \<and> co_id x = c) (az_components st)"

definition arch_component_children :: "arch \<Rightarrow> string \<Rightarrow> string \<Rightarrow> arch_component list" where
  "arch_component_children st ws c =
     in_order (filter (\<lambda>x. co_workspace_id x = ws \<and> co_parent_id x = Some c) (az_components st))"

definition arch_relations :: "arch \<Rightarrow> string \<Rightarrow> string \<Rightarrow> arch_relation list" where
  "arch_relations st ws m =
     sort_key rl_created_at (filter (\<lambda>r. rl_workspace_id r = ws \<and> rl_model_id r = m) (az_relations st))"

definition arch_relation_in :: "arch \<Rightarrow> string \<Rightarrow> string \<Rightarrow> string \<Rightarrow> arch_relation option" where
  "arch_relation_in st ws m i = find (\<lambda>r. rl_workspace_id r = ws \<and> rl_model_id r = m \<and> rl_id r = i) (az_relations st)"

definition touches :: "string \<Rightarrow> string set \<Rightarrow> arch_relation \<Rightarrow> bool" where
  "touches ws cs r = (rl_workspace_id r = ws \<and> (rl_src_id r \<in> cs \<or> rl_dst_id r \<in> cs))"

definition arch_relations_touching :: "arch \<Rightarrow> string \<Rightarrow> string \<Rightarrow> arch_relation list" where
  "arch_relations_touching st ws c = sort_key rl_created_at (filter (touches ws {c}) (az_relations st))"

definition arch_mappings :: "arch \<Rightarrow> string \<Rightarrow> string \<Rightarrow> arch_mapping list" where
  "arch_mappings st ws m = sort_key mp_created_at
     (filter (\<lambda>x. list_ex (\<lambda>c. co_id c = mp_component_id x \<and> component_in ws m c) (az_components st)) (az_mappings st))"

definition arch_mappings_for_component :: "arch \<Rightarrow> string \<Rightarrow> string \<Rightarrow> arch_mapping list" where
  "arch_mappings_for_component st ws c =
     sort_key mp_created_at (filter (\<lambda>x. mp_workspace_id x = ws \<and> mp_component_id x = c) (az_mappings st))"

definition arch_mapping_exists :: "arch \<Rightarrow> string \<Rightarrow> string \<Rightarrow> string \<Rightarrow> bool" where
  "arch_mapping_exists st c etype eid =
     list_ex (\<lambda>x. mp_component_id x = c \<and> mp_entity_type x = etype \<and> mp_entity_id x = eid) (az_mappings st)"

definition arch_layout :: "arch \<Rightarrow> string \<Rightarrow> string \<Rightarrow> arch_layout_row option" where
  "arch_layout st ws m = find (\<lambda>l. ly_workspace_id l = ws \<and> ly_model_id l = m) (az_layouts st)"

definition entity_exists :: "graph \<Rightarrow> string \<Rightarrow> string \<Rightarrow> string \<Rightarrow> string \<Rightarrow> bool" where
  "entity_exists g repo sid etype eid =
     (if etype = ''node'' then list_ex (\<lambda>n. nd_id n = eid) (all_nodes g repo sid)
      else if etype = ''edge'' then list_ex (\<lambda>x. ed_id x = eid) (all_edges g repo sid)
      else False)"

section \<open>Statements and their constraints\<close>

definition component_kinds :: "string list" where
  "component_kinds = [''component'', ''subsystem'', ''layer'', ''service'', ''boundary'', ''interface'',
     ''datastore'', ''external_system'', ''group'']"

text \<open>The foreign keys and checks of one row against the tables.\<close>

definition model_known :: "arch \<Rightarrow> string \<Rightarrow> string \<Rightarrow> bool" where
  "model_known st ws m = list_ex (\<lambda>x. mo_workspace_id x = ws \<and> mo_id x = m) (az_models st)"

definition component_known :: "arch \<Rightarrow> string \<Rightarrow> string \<Rightarrow> string \<Rightarrow> bool" where
  "component_known st ws m c = list_ex (\<lambda>x. component_in ws m x \<and> co_id x = c) (az_components st)"

definition component_ok :: "arch \<Rightarrow> arch_component \<Rightarrow> bool" where
  "component_ok st c = (co_kind c \<in> set component_kinds \<and> model_known st (co_workspace_id c) (co_model_id c) \<and>
     (case co_parent_id c of None \<Rightarrow> True
      | Some p \<Rightarrow> component_known st (co_workspace_id c) (co_model_id c) p))"

definition relation_ok :: "arch \<Rightarrow> arch_relation \<Rightarrow> bool" where
  "relation_ok st r = (model_known st (rl_workspace_id r) (rl_model_id r) \<and>
     component_known st (rl_workspace_id r) (rl_model_id r) (rl_src_id r) \<and>
     component_known st (rl_workspace_id r) (rl_model_id r) (rl_dst_id r))"

definition workspace_known :: "arch \<Rightarrow> string \<Rightarrow> bool" where
  "workspace_known st ws = list_ex (\<lambda>w. ws_id w = ws) (az_workspaces st)"

definition mapping_ok :: "arch \<Rightarrow> arch_mapping \<Rightarrow> bool" where
  "mapping_ok st x = (mp_entity_type x \<in> {''node'', ''edge''} \<and> workspace_known st (mp_workspace_id x) \<and>
     list_ex (\<lambda>c. co_id c = mp_component_id x) (az_components st))"

definition model_ok :: "arch \<Rightarrow> arch_model_row \<Rightarrow> bool" where
  "model_ok st m = (mo_kind m \<in> {''as_is'', ''proposal''} \<and> mo_status m \<in> {''active'', ''superseded''} \<and>
     workspace_known st (mo_workspace_id m) \<and>
     (case mo_parent_model_id m of None \<Rightarrow> True | Some p \<Rightarrow> list_ex (\<lambda>x. mo_id x = p) (az_models st)))"

definition insert_workspace :: "arch_env \<Rightarrow> arch_workspace \<Rightarrow> arch \<Rightarrow> arch_error + arch" where
  "insert_workspace e w st =
     and_then (arch_demand (\<not> workspace_known st (ws_id w) \<and> ae_repo e (ws_repo_id w)) StoreIntegrity) (\<lambda>_.
       Inr (st\<lparr>az_workspaces := az_workspaces st @ [w]\<rparr>))"

definition insert_model :: "arch_model_row \<Rightarrow> arch \<Rightarrow> arch_error + arch" where
  "insert_model m st =
     and_then (arch_demand (mo_id m \<notin> mo_id ` set (az_models st) \<and> model_ok st m \<and>
       (mo_kind m = ''as_is'' \<longrightarrow>
          \<not> list_ex (\<lambda>x. mo_workspace_id x = mo_workspace_id m \<and> mo_kind x = ''as_is'') (az_models st))) StoreIntegrity) (\<lambda>_.
       Inr (st\<lparr>az_models := az_models st @ [m]\<rparr>))"

text \<open>The parent of a row may be the row itself: a foreign key is checked when the statement is done.\<close>

definition insert_component :: "arch_component \<Rightarrow> arch \<Rightarrow> arch_error + arch" where
  "insert_component c st = (let st' = st\<lparr>az_components := az_components st @ [c]\<rparr> in
     and_then (arch_demand (co_id c \<notin> co_id ` set (az_components st) \<and> component_ok st' c) StoreIntegrity) (\<lambda>_. Inr st'))"

definition insert_relation :: "arch_relation \<Rightarrow> arch \<Rightarrow> arch_error + arch" where
  "insert_relation r st =
     and_then (arch_demand (rl_id r \<notin> rl_id ` set (az_relations st) \<and> relation_ok st r) StoreIntegrity) (\<lambda>_.
       Inr (st\<lparr>az_relations := az_relations st @ [r]\<rparr>))"

definition same_mapping :: "arch_mapping \<Rightarrow> arch_mapping \<Rightarrow> bool" where
  "same_mapping x y = (mp_component_id x = mp_component_id y \<and> mp_entity_type x = mp_entity_type y \<and>
     mp_entity_id x = mp_entity_id y)"

definition insert_mapping :: "arch_mapping \<Rightarrow> arch \<Rightarrow> arch_error + arch" where
  "insert_mapping x st =
     and_then (arch_demand (mp_id x \<notin> mp_id ` set (az_mappings st) \<and> \<not> list_ex (same_mapping x) (az_mappings st) \<and>
       mapping_ok st x) StoreIntegrity) (\<lambda>_. Inr (st\<lparr>az_mappings := az_mappings st @ [x]\<rparr>))"

fun insert_all :: "('a \<Rightarrow> arch \<Rightarrow> arch_error + arch) \<Rightarrow> 'a list \<Rightarrow> arch \<Rightarrow> arch_error + arch" where
  "insert_all ins [] st = Inr st"
| "insert_all ins (x # xs) st = and_then (ins x st) (insert_all ins xs)"

definition layout_known :: "arch \<Rightarrow> string \<Rightarrow> string \<Rightarrow> bool" where
  "layout_known st ws m = (workspace_known st ws \<and> list_ex (\<lambda>x. mo_id x = m) (az_models st))"

text \<open>\<open>INSERT ... ON CONFLICT(workspace_id, model_id) DO UPDATE\<close>.\<close>

definition upsert_layout :: "arch_layout_row \<Rightarrow> arch \<Rightarrow> arch_error + arch" where
  "upsert_layout l st = (case arch_layout st (ly_workspace_id l) (ly_model_id l) of
     Some _ \<Rightarrow> Inr (st\<lparr>az_layouts := map (\<lambda>x. if ly_workspace_id x = ly_workspace_id l \<and> ly_model_id x = ly_model_id l
       then l else x) (az_layouts st)\<rparr>)
   | None \<Rightarrow> and_then (arch_demand (layout_known st (ly_workspace_id l) (ly_model_id l)) StoreIntegrity) (\<lambda>_.
       Inr (st\<lparr>az_layouts := az_layouts st @ [l]\<rparr>)))"

text \<open>\<open>UPDATE arch_components ... WHERE workspace_id=? AND model_id=? AND id=?\<close>.\<close>

definition update_component :: "string \<Rightarrow> string \<Rightarrow> string \<Rightarrow> (arch_component \<Rightarrow> arch_component) \<Rightarrow> arch \<Rightarrow>
    arch_error + arch" where
  "update_component ws m c f st =
     (let hit = (\<lambda>x. component_in ws m x \<and> co_id x = c);
          st' = st\<lparr>az_components := map (\<lambda>x. if hit x then f x else x) (az_components st)\<rparr>
      in and_then (arch_demand (list_all (\<lambda>x. hit x \<longrightarrow> component_ok st' (f x)) (az_components st)) StoreIntegrity) (\<lambda>_.
        Inr st'))"

text \<open>
  \<open>DELETE FROM arch_components\<close>: restricted by children and relations, cascading to the mappings.
\<close>

definition restricted :: "arch \<Rightarrow> arch_component \<Rightarrow> bool" where
  "restricted st c = (list_ex (\<lambda>x. co_workspace_id x = co_workspace_id c \<and> co_model_id x = co_model_id c \<and>
       co_parent_id x = Some (co_id c)) (az_components st) \<or>
     list_ex (\<lambda>r. rl_workspace_id r = co_workspace_id c \<and> rl_model_id r = co_model_id c \<and>
       (rl_src_id r = co_id c \<or> rl_dst_id r = co_id c)) (az_relations st))"

definition delete_component_row :: "string \<Rightarrow> string \<Rightarrow> arch \<Rightarrow> arch_error + arch" where
  "delete_component_row ws c st =
     (let hit = (\<lambda>x. co_workspace_id x = ws \<and> co_id x = c) in
      and_then (arch_demand (\<not> list_ex (\<lambda>x. hit x \<and> restricted st x) (az_components st)) StoreIntegrity) (\<lambda>_.
        Inr (st\<lparr>az_components := filter (\<lambda>x. \<not> hit x) (az_components st),
          az_mappings := filter (\<lambda>x. \<not> list_ex (\<lambda>y. hit y \<and> co_id y = mp_component_id x) (az_components st))
            (az_mappings st)\<rparr>)))"

end
