(* ===== verification/Arch_Baseline.thy ===== *)
theory Arch_Baseline
  imports Arch_Store
begin

text \<open>
  The frozen baseline of a proposal and its diff (\<open>archmodel.py\<close>): the baseline is written once when the
  proposal is forked, and the diff compares the working model with it through \<open>origin_id\<close>.
\<close>

section \<open>The baseline\<close>

type_synonym mappings_by = "(string, arch_mapping list) dict"

definition norm_mapping :: "arch_mapping \<Rightarrow> baseline_mapping" where
  "norm_mapping m = \<lparr>bm_entity_type = mp_entity_type m, bm_entity_id = mp_entity_id m,
     bm_snapshot_id = mp_snapshot_id m, bm_note = mp_note m\<rparr>"

definition baseline_component_of :: "mappings_by \<Rightarrow> arch_component \<Rightarrow> baseline_component" where
  "baseline_component_of maps c = \<lparr>bc_id = co_id c, bc_kind = co_kind c, bc_name = co_name c,
     bc_description = co_description c, bc_parent_id = co_parent_id c, bc_sort_order = co_sort_order c,
     bc_mappings = map norm_mapping (get_or maps (co_id c) [])\<rparr>"

definition baseline_relation_of :: "arch_relation \<Rightarrow> baseline_relation" where
  "baseline_relation_of r = \<lparr>br_id = rl_id r, br_kind = rl_kind r, br_src_id = rl_src_id r, br_dst_id = rl_dst_id r,
     br_label = rl_label r\<rparr>"

definition build_baseline :: "arch_component list \<Rightarrow> arch_relation list \<Rightarrow> mappings_by \<Rightarrow> string option \<Rightarrow> int \<Rightarrow>
    arch_baseline" where
  "build_baseline components relations maps sid now = \<lparr>bl_schema_version = 1, bl_forked_at = now, bl_snapshot_id = sid,
     bl_components = map (baseline_component_of maps) (in_order components),
     bl_relations = map baseline_relation_of relations\<rparr>"

section \<open>The diff\<close>

record moved_component =
  mv_working :: arch_component
  mv_baseline :: baseline_component
  mv_from_parent :: "string option"
  mv_from_parent_name :: "string option"
  mv_to_parent :: "string option"
  mv_to_parent_name :: "string option"

record arch_diff =
  df_added_components :: "arch_component list"
  df_removed_components :: "baseline_component list"
  df_modified_components :: "(arch_component \<times> baseline_component \<times> string list) list"
  df_moved_components :: "moved_component list"
  df_added_relations :: "arch_relation list"
  df_removed_relations :: "baseline_relation list"
  df_mapping_changes :: "(arch_component \<times> baseline_component \<times> baseline_mapping list \<times> baseline_mapping list) list"

text \<open>The three dictionaries of the comparison; the empty origin counts as none.\<close>

definition baseline_by_id :: "arch_baseline \<Rightarrow> (string, baseline_component) dict" where
  "baseline_by_id b = dict_of bc_id (\<lambda>c. c) (bl_components b)"

definition relation_key :: "baseline_relation \<Rightarrow> string \<times> string \<times> string" where
  "relation_key r = (br_kind r, br_src_id r, br_dst_id r)"

definition baseline_relations :: "arch_baseline \<Rightarrow> (string \<times> string \<times> string, baseline_relation) dict" where
  "baseline_relations b = dict_of relation_key (\<lambda>r. r) (bl_relations b)"

definition working_by_id :: "arch_component list \<Rightarrow> (string, arch_component) dict" where
  "working_by_id cs = dict_of co_id (\<lambda>c. c) cs"

definition origin_of :: "arch_component \<Rightarrow> string option" where
  "origin_of c = (case co_origin_id c of None \<Rightarrow> None | Some i \<Rightarrow> if i = [] then None else Some i)"

definition remember_origin :: "arch_component \<Rightarrow> (string, arch_component) dict \<Rightarrow> (string, arch_component) dict" where
  "remember_origin c d = (case origin_of c of None \<Rightarrow> d
     | Some i \<Rightarrow> if map_of d i = None then dict_set i c d else d)"

definition working_by_origin :: "arch_component list \<Rightarrow> (string, arch_component) dict" where
  "working_by_origin cs = fold remember_origin cs []"

definition has_counterpart :: "arch_baseline \<Rightarrow> arch_component \<Rightarrow> bool" where
  "has_counterpart b c = (case origin_of c of None \<Rightarrow> False | Some i \<Rightarrow> map_of (baseline_by_id b) i \<noteq> None)"

definition changed_fields :: "arch_component \<Rightarrow> baseline_component \<Rightarrow> string list" where
  "changed_fields c b = (if co_kind c \<noteq> bc_kind b then [''kind''] else []) @
     (if co_name c \<noteq> bc_name b then [''name''] else []) @
     (if co_description c \<noteq> bc_description b then [''description''] else [])"

definition known_parent :: "arch_component list \<Rightarrow> arch_component \<Rightarrow> arch_component option" where
  "known_parent cs c = (case co_parent_id c of None \<Rightarrow> None
     | Some p \<Rightarrow> if p = [] then None else map_of (working_by_id cs) p)"

text \<open>The stored origin of the parent: here an empty one is not the same as none.\<close>

definition parent_origin :: "arch_component list \<Rightarrow> arch_component \<Rightarrow> string option" where
  "parent_origin cs c = (case known_parent cs c of None \<Rightarrow> None | Some p \<Rightarrow> co_origin_id p)"

definition is_moved :: "arch_component list \<Rightarrow> arch_component \<Rightarrow> baseline_component \<Rightarrow> bool" where
  "is_moved cs c b =
     (if co_parent_id c = None then bc_parent_id b \<noteq> None
      else if parent_origin cs c \<noteq> None then parent_origin cs c \<noteq> bc_parent_id b
      else True)"

definition baseline_parent_name :: "arch_baseline \<Rightarrow> baseline_component \<Rightarrow> string option" where
  "baseline_parent_name b c = (case bc_parent_id c of None \<Rightarrow> None
     | Some p \<Rightarrow> if p = [] then None else map_option bc_name (map_of (baseline_by_id b) p))"

definition moved_of :: "arch_baseline \<Rightarrow> arch_component list \<Rightarrow> arch_component \<times> baseline_component \<Rightarrow>
    moved_component option" where
  "moved_of b cs = (\<lambda>(c, bc). if is_moved cs c bc
     then Some \<lparr>mv_working = c, mv_baseline = bc, mv_from_parent = bc_parent_id bc,
       mv_from_parent_name = baseline_parent_name b bc, mv_to_parent = co_parent_id c,
       mv_to_parent_name = map_option co_name (known_parent cs c)\<rparr>
     else None)"

definition modified_of :: "arch_component \<times> baseline_component \<Rightarrow> (arch_component \<times> baseline_component \<times> string list) option" where
  "modified_of = (\<lambda>(c, bc). if changed_fields c bc = [] then None else Some (c, bc, changed_fields c bc))"

text \<open>The key of a working relation in terms of the baseline, if both ends have a counterpart.\<close>

definition end_origin :: "arch_baseline \<Rightarrow> arch_component list \<Rightarrow> string \<Rightarrow> string option" where
  "end_origin b cs i = (case map_of (working_by_id cs) i of None \<Rightarrow> None
     | Some c \<Rightarrow> if has_counterpart b c then origin_of c else None)"

definition working_key :: "arch_baseline \<Rightarrow> arch_component list \<Rightarrow> arch_relation \<Rightarrow> (string \<times> string \<times> string) option" where
  "working_key b cs r = (case (end_origin b cs (rl_src_id r), end_origin b cs (rl_dst_id r)) of
     (Some s, Some d) \<Rightarrow> Some (rl_kind r, s, d) | _ \<Rightarrow> None)"

definition is_added_relation :: "arch_baseline \<Rightarrow> arch_component list \<Rightarrow> arch_relation \<Rightarrow> bool" where
  "is_added_relation b cs r = (case working_key b cs r of None \<Rightarrow> True
     | Some k \<Rightarrow> map_of (baseline_relations b) k = None)"

definition mapping_pair :: "baseline_mapping \<Rightarrow> string \<times> string" where
  "mapping_pair m = (bm_entity_type m, bm_entity_id m)"

definition mapping_change :: "mappings_by \<Rightarrow> arch_component \<times> baseline_component \<Rightarrow>
    (arch_component \<times> baseline_component \<times> baseline_mapping list \<times> baseline_mapping list) option" where
  "mapping_change maps = (\<lambda>(c, bc).
     let mine = map norm_mapping (get_or maps (co_id c) []); theirs = bc_mappings bc;
         added = filter (\<lambda>m. mapping_pair m \<notin> mapping_pair ` set theirs) mine;
         removed = filter (\<lambda>m. mapping_pair m \<notin> mapping_pair ` set mine) theirs
     in if mapping_pair ` set mine = mapping_pair ` set theirs then None
        else if added \<noteq> [] \<or> removed \<noteq> [] then Some (c, bc, added, removed) else None)"

text \<open>A component whose origin the baseline does not know is added, and then looked up: \<open>b_comps[oid]\<close> raises.\<close>

definition counterparts :: "arch_baseline \<Rightarrow> arch_component list \<Rightarrow>
    arch_error + (arch_component \<times> baseline_component) list" where
  "counterparts b cs = map_err (\<lambda>(i, c). case map_of (baseline_by_id b) i of None \<Rightarrow> Inl MissingKey
     | Some bc \<Rightarrow> Inr (c, bc)) (working_by_origin cs)"

definition compute_diff :: "arch_baseline \<Rightarrow> arch_component list \<Rightarrow> arch_relation list \<Rightarrow> mappings_by \<Rightarrow>
    arch_error + arch_diff" where
  "compute_diff b cs rs maps =
     and_then (counterparts b cs) (\<lambda>pairs.
       let keys = set (List.map_filter (working_key b cs) rs) in
       Inr \<lparr>df_added_components = filter (\<lambda>c. \<not> has_counterpart b c) cs,
         df_removed_components = map snd (filter (\<lambda>(i, bc). map_of (working_by_origin cs) i = None) (baseline_by_id b)),
         df_modified_components = List.map_filter modified_of pairs,
         df_moved_components = List.map_filter (moved_of b cs) pairs,
         df_added_relations = filter (is_added_relation b cs) rs,
         df_removed_relations = map snd (filter (\<lambda>(k, r). k \<notin> keys) (baseline_relations b)),
         df_mapping_changes = List.map_filter (mapping_change maps) pairs\<rparr>)"

definition no_difference :: "arch_diff \<Rightarrow> bool" where
  "no_difference d = (df_added_components d = [] \<and> df_removed_components d = [] \<and> df_modified_components d = [] \<and>
     df_moved_components d = [] \<and> df_added_relations d = [] \<and> df_removed_relations d = [] \<and> df_mapping_changes d = [])"

end
