(* ===== verification/Arch_Methods.thy ===== *)
theory Arch_Methods
  imports Arch_Baseline
begin

text \<open>
  The methods of the architecture plane (\<open>db.py\<close>, \<open>arch_create_workspace\<close> to \<open>arch_put_layout\<close>) over the
  tables of \<open>Arch_Store\<close>. Each gives its result and the new tables, or the error it raises.
\<close>

section \<open>Workspaces and models\<close>

definition fresh_model :: "arch_env \<Rightarrow> string \<Rightarrow> string \<Rightarrow> string \<Rightarrow> string \<Rightarrow> string \<Rightarrow> arch_model_row" where
  "fresh_model e i ws kind name description = \<lparr>mo_id = i, mo_workspace_id = ws, mo_kind = kind, mo_name = name,
     mo_description = description, mo_status = ''active'', mo_parent_model_id = None, mo_base_snapshot_id = None,
     mo_baseline = None, mo_baseline_version = 1, mo_created_at = ae_now e, mo_updated_at = ae_now e\<rparr>"

definition arch_create_workspace :: "arch_env \<Rightarrow> string \<Rightarrow> string \<Rightarrow> string \<Rightarrow> arch \<Rightarrow> arch_error + arch_workspace \<times> arch" where
  "arch_create_workspace e repo name description st =
     (let w = \<lparr>ws_id = ae_fresh e 0, ws_repo_id = repo, ws_name = name, ws_description = description,
        ws_created_at = ae_now e, ws_updated_at = ae_now e\<rparr>
      in and_then (insert_workspace e w st) (\<lambda>st1.
         and_then (insert_model (fresh_model e (ae_fresh e 1) (ws_id w) ''as_is'' ''AS-IS'' []) st1) (\<lambda>st2.
           Inr (w, st2))))"

section \<open>Forking the AS-IS model\<close>

definition fresh_component :: "arch_env \<Rightarrow> string \<Rightarrow> string \<Rightarrow> string \<Rightarrow> string \<Rightarrow> string \<Rightarrow> string \<Rightarrow> string option \<Rightarrow>
    arch_component" where
  "fresh_component e i ws m kind name description parent = \<lparr>co_id = i, co_workspace_id = ws, co_model_id = m,
     co_origin_id = None, co_kind = kind, co_name = name, co_description = description, co_parent_id = parent,
     co_sort_order = 0, co_created_at = ae_now e, co_updated_at = ae_now e\<rparr>"

text \<open>
  The identifiers of a fork in the order they are drawn: the model, the components, the relations, the
  mappings. \<open>idmap\<close> takes a source component to its copy.
\<close>

definition fork_ids :: "arch_env \<Rightarrow> arch_component list \<Rightarrow> (string, string) dict" where
  "fork_ids e cs = dict_of fst snd (map (\<lambda>(i, c). (co_id c, ae_fresh e (Suc i))) (List.enumerate 0 cs))"

definition forked_component :: "arch_env \<Rightarrow> string \<Rightarrow> string \<Rightarrow> nat \<times> arch_component \<Rightarrow> arch_component" where
  "forked_component e ws m = (\<lambda>(i, c). (fresh_component e (ae_fresh e (Suc i)) ws m (co_kind c) (co_name c)
     (co_description c) None)\<lparr>co_origin_id := Some (co_id c), co_sort_order := co_sort_order c\<rparr>)"

text \<open>The second phase links the copies of the parents.\<close>

definition forked_parent :: "(string, string) dict \<Rightarrow> arch_component \<Rightarrow> string option" where
  "forked_parent idmap c = (case co_parent_id c of None \<Rightarrow> None | Some p \<Rightarrow> if p = [] then None else map_of idmap p)"

definition link_parent :: "string \<Rightarrow> string \<Rightarrow> (string, string) dict \<Rightarrow> arch_component \<Rightarrow> arch \<Rightarrow> arch_error + arch" where
  "link_parent ws m idmap c st = (case (map_of idmap (co_id c), forked_parent idmap c) of
     (Some nid, Some p) \<Rightarrow> update_component ws m nid (\<lambda>x. x\<lparr>co_parent_id := Some p\<rparr>) st
   | (None, _) \<Rightarrow> Inl MissingKey
   | _ \<Rightarrow> Inr st)"

definition forked_relation :: "arch_env \<Rightarrow> string \<Rightarrow> string \<Rightarrow> (string, string) dict \<Rightarrow> nat \<Rightarrow> nat \<times> arch_relation \<Rightarrow>
    arch_error + arch_relation" where
  "forked_relation e ws m idmap n = (\<lambda>(i, r). case (map_of idmap (rl_src_id r), map_of idmap (rl_dst_id r)) of
     (Some s, Some d) \<Rightarrow> Inr \<lparr>rl_id = ae_fresh e (n + i), rl_workspace_id = ws, rl_model_id = m, rl_kind = rl_kind r,
       rl_src_id = s, rl_dst_id = d, rl_label = rl_label r, rl_created_at = ae_now e, rl_updated_at = ae_now e\<rparr>
   | _ \<Rightarrow> Inl MissingKey)"

definition forked_mapping :: "arch_env \<Rightarrow> string \<Rightarrow> (string, string) dict \<Rightarrow> nat \<Rightarrow> nat \<times> arch_mapping \<Rightarrow>
    arch_error + arch_mapping" where
  "forked_mapping e ws idmap n = (\<lambda>(i, x). case map_of idmap (mp_component_id x) of
     Some c \<Rightarrow> Inr (x\<lparr>mp_id := ae_fresh e (n + i), mp_workspace_id := ws, mp_component_id := c,
       mp_created_at := ae_now e, mp_updated_at := ae_now e\<rparr>)
   | None \<Rightarrow> Inl MissingKey)"

definition forked_layout :: "arch_env \<Rightarrow> string \<Rightarrow> string \<Rightarrow> (string, string) dict \<Rightarrow> arch_layout_row \<Rightarrow> arch_layout_row" where
  "forked_layout e ws m idmap l = \<lparr>ly_workspace_id = ws, ly_model_id = m,
     ly_layout = dict_of (\<lambda>(k, v). case map_of idmap k of None \<Rightarrow> k | Some k' \<Rightarrow> k') snd (ly_layout l),
     ly_updated_at = ae_now e\<rparr>"

definition mappings_of :: "arch \<Rightarrow> string \<Rightarrow> arch_component list \<Rightarrow> mappings_by" where
  "mappings_of st ws cs = dict_of co_id (\<lambda>c. arch_mappings_for_component st ws (co_id c)) cs"

definition proposal_row :: "arch_env \<Rightarrow> string \<Rightarrow> string \<Rightarrow> string \<Rightarrow> string \<Rightarrow> string option \<Rightarrow> arch_baseline \<Rightarrow> arch_model_row" where
  "proposal_row e ws source name description sid doc =
     (fresh_model e (ae_fresh e 0) ws ''proposal'' name description)\<lparr>mo_parent_model_id := Some source,
       mo_base_snapshot_id := sid, mo_baseline := Some doc\<rparr>"

definition fork_rows :: "arch_env \<Rightarrow> string \<Rightarrow> string \<Rightarrow> arch_component list \<Rightarrow> arch_relation list \<Rightarrow> arch_mapping list \<Rightarrow>
    arch \<Rightarrow> arch_error + arch" where
  "fork_rows e ws m cs rs ms st =
     (let idmap = fork_ids e cs; n = length cs; k = length rs in
      and_then (insert_all insert_component (map (forked_component e ws m) (List.enumerate 0 cs)) st) (\<lambda>st1.
      and_then (insert_all (link_parent ws m idmap) cs st1) (\<lambda>st2.
      and_then (map_err (forked_relation e ws m idmap (Suc n)) (List.enumerate 0 rs)) (\<lambda>rs'.
      and_then (insert_all insert_relation rs' st2) (\<lambda>st3.
      and_then (map_err (forked_mapping e ws idmap (Suc (n + k))) (List.enumerate 0 ms)) (\<lambda>ms'.
        insert_all insert_mapping ms' st3))))))"

definition arch_fork_model :: "arch_env \<Rightarrow> string \<Rightarrow> string \<Rightarrow> string \<Rightarrow> string \<Rightarrow> arch \<Rightarrow> arch_error + arch_model_row \<times> arch" where
  "arch_fork_model e ws source name description st = (case arch_model_by st ws source of
     None \<Rightarrow> Inl (ArchError ''model_not_found'')
   | Some src \<Rightarrow>
       and_then (arch_demand (mo_kind src = ''as_is'') (ArchError ''fork_source_not_as_is'')) (\<lambda>_.
       case arch_workspace_row st ws of
         None \<Rightarrow> Inl AssertionFailed
       | Some w \<Rightarrow>
           (let sid = current_snapshot (ws_repo_id w) (ae_graph e); cs = arch_components st ws source;
                rs = arch_relations st ws source; maps = mappings_of st ws cs;
                row = proposal_row e ws source name description sid (build_baseline cs rs maps sid (ae_now e))
            in and_then (insert_model row st) (\<lambda>st1.
               and_then (fork_rows e ws (mo_id row) cs rs
                 (concat (map (\<lambda>c. get_or maps (co_id c) []) cs)) st1) (\<lambda>st2.
               and_then (case arch_layout st2 ws source of None \<Rightarrow> Inr st2
                 | Some l \<Rightarrow> upsert_layout (forked_layout e ws (mo_id row) (fork_ids e cs) l) st2) (\<lambda>st3.
                 Inr (row, st3)))))))"

section \<open>Components\<close>

definition arch_create_component :: "arch_env \<Rightarrow> string \<Rightarrow> string \<Rightarrow> string \<Rightarrow> string \<Rightarrow> string \<Rightarrow> string option \<Rightarrow> arch \<Rightarrow>
    arch_error + arch_component \<times> arch" where
  "arch_create_component e ws m kind name description parent st =
     (let c = fresh_component e (ae_fresh e 0) ws m kind name description parent in
      and_then (on_integrity ''cross_model_reference'' (insert_component c st)) (\<lambda>st'. Inr (c, st')))"

record component_update =
  cu_kind :: "string option"
  cu_name :: "string option"
  cu_description :: "string option"
  cu_parent_id :: "string option"
  cu_clear_parent :: bool
  cu_sort_order :: "int option"

definition nothing_to_update :: "component_update \<Rightarrow> bool" where
  "nothing_to_update u = (cu_kind u = None \<and> cu_name u = None \<and> cu_description u = None \<and> cu_parent_id u = None \<and>
     \<not> cu_clear_parent u \<and> cu_sort_order u = None)"

definition or_keep :: "'a option \<Rightarrow> 'a \<Rightarrow> 'a" where
  "or_keep x a = (case x of None \<Rightarrow> a | Some b \<Rightarrow> b)"

definition updated_component :: "arch_env \<Rightarrow> component_update \<Rightarrow> arch_component \<Rightarrow> arch_component" where
  "updated_component e u c = c\<lparr>co_kind := or_keep (cu_kind u) (co_kind c), co_name := or_keep (cu_name u) (co_name c),
     co_description := or_keep (cu_description u) (co_description c),
     co_parent_id := (if cu_clear_parent u then None
       else case cu_parent_id u of None \<Rightarrow> co_parent_id c | Some p \<Rightarrow> Some p),
     co_sort_order := or_keep (cu_sort_order u) (co_sort_order c), co_updated_at := ae_now e\<rparr>"

definition arch_update_component :: "arch_env \<Rightarrow> string \<Rightarrow> string \<Rightarrow> string \<Rightarrow> component_update \<Rightarrow> arch \<Rightarrow>
    arch_error + arch_component \<times> arch" where
  "arch_update_component e ws m c u st =
     and_then (arch_demand (\<not> nothing_to_update u) (ArchError ''no_fields'')) (\<lambda>_.
     and_then (on_integrity ''cross_model_reference'' (update_component ws m c (updated_component e u) st)) (\<lambda>st'.
       case arch_component_in st' ws m c of None \<Rightarrow> Inl AssertionFailed | Some x \<Rightarrow> Inr (x, st')))"

definition fresh_mapping :: "arch_env \<Rightarrow> string \<Rightarrow> string \<Rightarrow> nat \<times> string \<times> string \<times> string \<Rightarrow> arch_mapping" where
  "fresh_mapping e ws c = (\<lambda>(i, etype, eid, note). \<lparr>mp_id = ae_fresh e i, mp_workspace_id = ws, mp_component_id = c,
     mp_entity_type = etype, mp_entity_id = eid, mp_snapshot_id = None, mp_note = note, mp_created_at = ae_now e,
     mp_updated_at = ae_now e\<rparr>)"

definition arch_batch_component :: "arch_env \<Rightarrow> string \<Rightarrow> string \<Rightarrow> string \<Rightarrow> string \<Rightarrow> string \<Rightarrow> string option \<Rightarrow>
    (string \<times> string \<times> string) list \<Rightarrow> arch \<Rightarrow> arch_error + (arch_component \<times> arch_mapping list) \<times> arch" where
  "arch_batch_component e ws m kind name description parent entities st =
     (let c = fresh_component e (ae_fresh e 0) ws m kind name description parent;
          ms = map (fresh_mapping e ws (co_id c)) (List.enumerate 1 entities)
      in on_integrity ''cross_model_reference''
        (and_then (insert_component c st) (\<lambda>st1.
         and_then (insert_all insert_mapping ms st1) (\<lambda>st2. Inr ((c, ms), st2)))))"

section \<open>Deleting components\<close>

text \<open>
  \<open>WITH RECURSIVE sub ... UNION ALL\<close>: the database keeps a queue of rows; the children of each row it
  takes are put at the end. On a cyclic hierarchy it does not end.
\<close>

definition children_of :: "arch \<Rightarrow> string \<Rightarrow> string \<Rightarrow> string \<Rightarrow> string list" where
  "children_of st ws m i = map co_id (filter (\<lambda>c. component_in ws m c \<and> co_parent_id c = Some i) (az_components st))"

partial_function (option) subtree_from :: "arch \<Rightarrow> string \<Rightarrow> string \<Rightarrow> (string \<times> nat) list \<Rightarrow>
    (string \<times> nat) list option" where
  "subtree_from st ws m queue = (if queue = [] then Some []
     else Option.bind
       (subtree_from st ws m (tl queue @ map (\<lambda>c. (c, Suc (snd (hd queue)))) (children_of st ws m (fst (hd queue)))))
       (\<lambda>rows. Some (hd queue # rows)))"

definition subtree_rows :: "arch \<Rightarrow> string \<Rightarrow> string \<Rightarrow> string \<Rightarrow> (string \<times> nat) list option" where
  "subtree_rows st ws m c = map_option (sort_key (\<lambda>(i, d). - int d))
     (subtree_from st ws m (if component_known st ws m c then [(c, 0)] else []))"

record deletion_counts =
  dc_components :: nat
  dc_relations :: nat
  dc_mappings :: nat

definition delete_one :: "string \<Rightarrow> string \<Rightarrow> arch \<Rightarrow> arch_error + deletion_counts \<times> arch" where
  "delete_one ws c st =
     and_then (arch_demand (arch_component_children st ws c = [] \<and> arch_relations_touching st ws c = [])
       (ArchError ''delete_restricted'')) (\<lambda>_.
     and_then (on_integrity ''delete_restricted'' (delete_component_row ws c st)) (\<lambda>st'.
       Inr (\<lparr>dc_components = 1, dc_relations = 0,
         dc_mappings = length (filter (\<lambda>x. mp_component_id x = c) (az_mappings st))\<rparr>, st')))"

definition delete_members :: "string \<Rightarrow> string list \<Rightarrow> arch \<Rightarrow> arch_error + deletion_counts \<times> arch" where
  "delete_members ws members st =
     (let st1 = st\<lparr>az_relations := filter (\<lambda>r. \<not> touches ws (set members) r) (az_relations st),
        az_mappings := filter (\<lambda>x. mp_component_id x \<notin> set members) (az_mappings st)\<rparr>
      in and_then (on_integrity ''delete_restricted'' (insert_all (delete_component_row ws) members st1)) (\<lambda>st2.
        Inr (\<lparr>dc_components = length members,
          dc_relations = length (filter (touches ws (set members)) (az_relations st)),
          dc_mappings = length (filter (\<lambda>x. mp_component_id x \<in> set members) (az_mappings st))\<rparr>, st2)))"

text \<open>\<open>None\<close> is a query that does not return.\<close>

definition arch_delete_component :: "string \<Rightarrow> string \<Rightarrow> string \<Rightarrow> bool \<Rightarrow> arch \<Rightarrow>
    (arch_error + deletion_counts \<times> arch) option" where
  "arch_delete_component ws m c subtree st =
     (if \<not> subtree then Some (delete_one ws c st)
      else map_option (\<lambda>rows. delete_members ws (map fst rows) st) (subtree_rows st ws m c))"

section \<open>Relations\<close>

definition arch_create_relation :: "arch_env \<Rightarrow> string \<Rightarrow> string \<Rightarrow> string \<Rightarrow> string \<Rightarrow> string \<Rightarrow> string option \<Rightarrow> arch \<Rightarrow>
    arch_error + arch_relation \<times> arch" where
  "arch_create_relation e ws m kind src dst label st =
     (let r = \<lparr>rl_id = ae_fresh e 0, rl_workspace_id = ws, rl_model_id = m, rl_kind = kind, rl_src_id = src,
        rl_dst_id = dst, rl_label = label, rl_created_at = ae_now e, rl_updated_at = ae_now e\<rparr>
      in and_then (on_integrity ''cross_model_reference'' (insert_relation r st)) (\<lambda>st'. Inr (r, st')))"

definition updated_relation :: "arch_env \<Rightarrow> string option \<Rightarrow> string option \<Rightarrow> bool \<Rightarrow> arch_relation \<Rightarrow> arch_relation" where
  "updated_relation e kind label clear r = r\<lparr>rl_kind := or_keep kind (rl_kind r),
     rl_label := (if clear then None else case label of None \<Rightarrow> rl_label r | Some l \<Rightarrow> Some l),
     rl_updated_at := ae_now e\<rparr>"

definition arch_update_relation :: "arch_env \<Rightarrow> string \<Rightarrow> string \<Rightarrow> string \<Rightarrow> string option \<Rightarrow> string option \<Rightarrow> bool \<Rightarrow> arch \<Rightarrow>
    arch_error + arch_relation \<times> arch" where
  "arch_update_relation e ws m i kind label clear st =
     and_then (arch_demand (kind \<noteq> None \<or> clear \<or> label \<noteq> None) (ArchError ''no_fields'')) (\<lambda>_.
       let st' = st\<lparr>az_relations := map (\<lambda>r. if rl_workspace_id r = ws \<and> rl_model_id r = m \<and> rl_id r = i
             then updated_relation e kind label clear r else r) (az_relations st)\<rparr>
       in case arch_relation_in st' ws m i of None \<Rightarrow> Inl AssertionFailed | Some r \<Rightarrow> Inr (r, st'))"

definition arch_delete_relation :: "string \<Rightarrow> string \<Rightarrow> arch \<Rightarrow> arch" where
  "arch_delete_relation ws i st = st\<lparr>az_relations :=
     filter (\<lambda>r. \<not> (rl_workspace_id r = ws \<and> rl_id r = i)) (az_relations st)\<rparr>"

section \<open>Mappings and layouts\<close>

definition arch_batch_mappings :: "arch_env \<Rightarrow> string \<Rightarrow> string \<Rightarrow> (string \<times> string \<times> string) list \<Rightarrow> arch \<Rightarrow>
    arch_error + arch_mapping list \<times> arch" where
  "arch_batch_mappings e ws c entities st =
     (let ms = map (fresh_mapping e ws c) (List.enumerate 0 entities) in
      and_then (on_integrity ''mapping_exists'' (insert_all insert_mapping ms st)) (\<lambda>st'. Inr (ms, st')))"

definition arch_delete_mapping :: "string \<Rightarrow> string \<Rightarrow> arch \<Rightarrow> arch" where
  "arch_delete_mapping ws i st = st\<lparr>az_mappings :=
     filter (\<lambda>x. \<not> (mp_workspace_id x = ws \<and> mp_id x = i)) (az_mappings st)\<rparr>"

definition arch_put_layout :: "arch_env \<Rightarrow> string \<Rightarrow> string \<Rightarrow> jdict \<Rightarrow> int option \<Rightarrow> arch \<Rightarrow> arch_error + int \<times> arch" where
  "arch_put_layout e ws m layout expected st =
     and_then (arch_demand (case (arch_layout st ws m, expected) of
         (Some l, Some t) \<Rightarrow> ly_updated_at l = t | _ \<Rightarrow> True) (ArchError ''layout_conflict'')) (\<lambda>_.
     and_then (upsert_layout \<lparr>ly_workspace_id = ws, ly_model_id = m, ly_layout = layout, ly_updated_at = ae_now e\<rparr> st)
       (\<lambda>st'. Inr (ae_now e, st')))"

end
