(* ===== verification/Arch_Service.thy ===== *)
theory Arch_Service
  imports Arch_Methods
begin

text \<open>
  The architecture mutations of a design change (\<open>design_lifecycle/service.py\<close>,
  \<open>_apply_architecture_mutation\<close> and its validators): the only writer of the architecture plane behind
  the public interface.

  A mutation is the operation with the fields of its payload. The store methods commit by themselves, so
  a mutation gives the tables it leaves behind beside its outcome: an error raised after a method has
  returned does not undo it.
\<close>

section \<open>Rows as dictionaries\<close>

definition jtext :: "string option \<Rightarrow> json" where
  "jtext x = jopt JStr x"

definition workspace_dict :: "arch_workspace \<Rightarrow> jdict" where
  "workspace_dict w = [(''id'', JStr (ws_id w)), (''repo_id'', JStr (ws_repo_id w)), (''name'', JStr (ws_name w)),
     (''description'', JStr (ws_description w)), (''created_at'', JInt (ws_created_at w)),
     (''updated_at'', JInt (ws_updated_at w))]"

definition model_dict :: "arch_model_row \<Rightarrow> jdict" where
  "model_dict m = [(''id'', JStr (mo_id m)), (''workspace_id'', JStr (mo_workspace_id m)), (''kind'', JStr (mo_kind m)),
     (''name'', JStr (mo_name m)), (''description'', JStr (mo_description m)), (''status'', JStr (mo_status m)),
     (''parent_model_id'', jtext (mo_parent_model_id m)),
     (''base_evidence_snapshot_id'', jtext (mo_base_snapshot_id m)),
     (''baseline_schema_version'', JInt (mo_baseline_version m)), (''created_at'', JInt (mo_created_at m)),
     (''updated_at'', JInt (mo_updated_at m))]"

definition component_dict :: "arch_component \<Rightarrow> jdict" where
  "component_dict c = [(''id'', JStr (co_id c)), (''workspace_id'', JStr (co_workspace_id c)),
     (''model_id'', JStr (co_model_id c)), (''origin_id'', jtext (co_origin_id c)), (''kind'', JStr (co_kind c)),
     (''name'', JStr (co_name c)), (''description'', JStr (co_description c)), (''parent_id'', jtext (co_parent_id c)),
     (''sort_order'', JInt (co_sort_order c)), (''created_at'', JInt (co_created_at c)),
     (''updated_at'', JInt (co_updated_at c))]"

definition relation_dict :: "arch_relation \<Rightarrow> jdict" where
  "relation_dict r = [(''id'', JStr (rl_id r)), (''workspace_id'', JStr (rl_workspace_id r)),
     (''model_id'', JStr (rl_model_id r)), (''kind'', JStr (rl_kind r)), (''src_id'', JStr (rl_src_id r)),
     (''dst_id'', JStr (rl_dst_id r)), (''label'', jtext (rl_label r)), (''created_at'', JInt (rl_created_at r)),
     (''updated_at'', JInt (rl_updated_at r))]"

definition mapping_dict :: "arch_mapping \<Rightarrow> jdict" where
  "mapping_dict x = [(''id'', JStr (mp_id x)), (''workspace_id'', JStr (mp_workspace_id x)),
     (''component_id'', JStr (mp_component_id x)), (''evidence_entity_type'', JStr (mp_entity_type x)),
     (''evidence_entity_id'', JStr (mp_entity_id x)), (''evidence_snapshot_id'', jtext (mp_snapshot_id x)),
     (''note'', JStr (mp_note x)), (''created_at'', JInt (mp_created_at x)), (''updated_at'', JInt (mp_updated_at x))]"

definition layout_dict :: "arch_layout_row \<Rightarrow> jdict" where
  "layout_dict l = [(''layout'', JObj (ly_layout l)), (''updated_at'', JInt (ly_updated_at l))]"

definition architecture_state :: "arch \<Rightarrow> string \<Rightarrow> string \<Rightarrow> jdict option" where
  "architecture_state st ws m = (case arch_model_by st ws m of None \<Rightarrow> None
   | Some row \<Rightarrow> Some [
       (''workspace'', jopt (\<lambda>w. JObj (workspace_dict w)) (arch_workspace_row st ws)),
       (''model'', JObj (model_dict row)),
       (''components'', JList (map (\<lambda>c. JObj (component_dict c)) (arch_components st ws m))),
       (''relations'', JList (map (\<lambda>r. JObj (relation_dict r)) (arch_relations st ws m))),
       (''mappings'', JList (map (\<lambda>x. JObj (mapping_dict x)) (arch_mappings st ws m))),
       (''layout'', jopt (\<lambda>l. JObj (layout_dict l)) (arch_layout st ws m))])"

section \<open>Validators\<close>

abbreviation refuse :: "string \<Rightarrow> arch_error + 'a" where
  "refuse code \<equiv> Inl (DesignRefused code)"

definition require_arch_model :: "arch \<Rightarrow> string \<Rightarrow> string \<Rightarrow> arch_error + arch_model_row" where
  "require_arch_model st ws m = (case arch_model_by st ws m of None \<Rightarrow> refuse ''model_not_found'' | Some r \<Rightarrow> Inr r)"

definition require_component :: "arch \<Rightarrow> string \<Rightarrow> string \<Rightarrow> string \<Rightarrow> arch_error + unit" where
  "require_component st ws m c =
     (if arch_component_in st ws m c \<noteq> None then Inr ()
      else if arch_component_any st ws c \<noteq> None then refuse ''cross_model_reference''
      else refuse ''component_not_found'')"

definition validate_arch_parent :: "arch \<Rightarrow> string \<Rightarrow> string \<Rightarrow> string option \<Rightarrow> arch_error + unit" where
  "validate_arch_parent st ws m parent = (case parent of None \<Rightarrow> Inr () | Some p \<Rightarrow> require_component st ws m p)"

definition validate_relation_endpoints :: "arch \<Rightarrow> string \<Rightarrow> string \<Rightarrow> string \<Rightarrow> string \<Rightarrow> arch_error + unit" where
  "validate_relation_endpoints st ws m src dst =
     and_then (require_component st ws m src) (\<lambda>_. require_component st ws m dst)"

text \<open>The loop of \<open>_assert_no_arch_cycle\<close>: whether the component is met above the node.\<close>

function meets :: "arch \<Rightarrow> string \<Rightarrow> string \<Rightarrow> string \<Rightarrow> string list \<Rightarrow> string \<Rightarrow> bool" where
  "meets st ws m c seen i = (case arch_component_in st ws m i of
     None \<Rightarrow> False
   | Some n \<Rightarrow>
       if co_id n = c then True
       else if co_id n \<in> set seen then False
       else case co_parent_id n of
         None \<Rightarrow> False
       | Some p \<Rightarrow> if p = [] then False else meets st ws m c (co_id n # seen) p)"
  by pat_completeness auto

lemma arch_component_in_Some:
  "arch_component_in st ws m i = Some n \<Longrightarrow> n \<in> set (az_components st) \<and> component_in ws m n \<and> co_id n = i"
  unfolding arch_component_in_def by (auto dest: find_SomeD)

termination meets
proof (relation "measure (\<lambda>(st, ws, m, c, seen, i). card (co_id ` set (az_components st) - set seen))", simp)
  fix st ws m c seen i n p
  assume "arch_component_in st ws m i = Some n" and "co_id n \<notin> set seen"
  then have known: "co_id n \<in> co_id ` set (az_components st) - set seen"
    by (auto dest: arch_component_in_Some)
  have "card (co_id ` set (az_components st) - insert (co_id n) (set seen)) < card (co_id ` set (az_components st) - set seen)"
    using known by (intro psubset_card_mono) auto
  then show "((st, ws, m, c, co_id n # seen, p), st, ws, m, c, seen, i)
      \<in> measure (\<lambda>(st, ws, m, c, seen, i). card (co_id ` set (az_components st) - set seen))"
    by simp
qed

declare meets.simps [simp del]

definition assert_no_arch_cycle :: "arch \<Rightarrow> string \<Rightarrow> string \<Rightarrow> string \<Rightarrow> string \<Rightarrow> arch_error + unit" where
  "assert_no_arch_cycle st ws m c p = arch_demand (\<not> meets st ws m c [] p) (DesignRefused ''hierarchy_cycle'')"

definition validate_canonical_entities :: "arch_env \<Rightarrow> string \<Rightarrow> (string \<times> string \<times> string) list \<Rightarrow> arch_error + unit" where
  "validate_canonical_entities e repo entities =
     (let sid = current_snapshot repo (ae_graph e);
          absent = (\<lambda>(etype, eid, note). case sid of None \<Rightarrow> True
            | Some s \<Rightarrow> s = [] \<or> \<not> entity_exists (ae_graph e) repo s etype eid)
      in arch_demand (filter absent entities = []) (DesignRefused ''invalid_entity''))"

text \<open>The loop over the entities of a mapping.\<close>

definition expected_type :: "string \<Rightarrow> string option" where
  "expected_type eid = (if starts_with ''node:'' eid then Some ''node''
     else if starts_with ''edge:'' eid then Some ''edge'' else None)"

fun check_entities :: "arch \<Rightarrow> string \<Rightarrow> (string \<times> string \<times> string) list \<Rightarrow> arch_error + unit" where
  "check_entities st c [] = Inr ()"
| "check_entities st c ((etype, eid, note) # es) =
     (if expected_type eid \<noteq> Some etype then refuse ''invalid_entity''
      else if arch_mapping_exists st c etype eid then refuse ''mapping_exists''
      else check_entities st c es)"

section \<open>The operations\<close>

datatype arch_op =
    CreateWorkspace string string string
  | ForkProposal "string option" string string
  | CreateComponent string string string string "string option"
  | BatchComponent string string string string "string option" "(string \<times> string \<times> string) list"
  | UpdateComponent string string component_update
  | DeleteComponent string string bool
  | CreateRelation string string string string "string option"
  | UpdateRelation string string "string option" "string option" bool
  | DeleteRelation string string
  | CreateMapping string "(string \<times> string \<times> string) list"
  | BatchMappings string "(string \<times> string \<times> string) list"
  | DeleteMapping string
  | PutLayout string jdict "int option"

text \<open>The outcome of the write: the result, the identity of the model, and the new tables.\<close>

type_synonym arch_written = "arch_error + (jdict \<times> string) \<times> arch"

definition written :: "('r \<Rightarrow> jdict) \<Rightarrow> string \<Rightarrow> arch_error + 'r \<times> arch \<Rightarrow> arch_written" where
  "written f identity r = and_then r (\<lambda>(x, st'). Inr ((f x, identity), st'))"

definition fork_source :: "arch \<Rightarrow> string \<Rightarrow> string option \<Rightarrow> string option" where
  "fork_source st ws source = (case source of Some (i # is) \<Rightarrow> Some (i # is)
     | _ \<Rightarrow> map_option mo_id (find (\<lambda>m. mo_kind m = ''as_is'') (arch_models st ws)))"

definition write_workspace :: "arch_env \<Rightarrow> string \<Rightarrow> string \<Rightarrow> string \<Rightarrow> string \<Rightarrow> arch \<Rightarrow> arch_error + (jdict \<times> string \<times> string) \<times> arch" where
  "write_workspace e change_repo repo name description st =
     and_then (arch_demand (repo = change_repo) (DesignRefused ''design_repo_mismatch'')) (\<lambda>_.
     and_then (arch_demand (ae_repo e change_repo) (DesignRefused ''repo_not_found'')) (\<lambda>_.
     and_then (arch_create_workspace e repo name description st) (\<lambda>(w, st').
       case arch_models st' (ws_id w) of
         [] \<Rightarrow> Inl MissingKey
       | m # _ \<Rightarrow> Inr (([(''workspace'', JObj (workspace_dict w)), (''model'', JObj (model_dict m))], ws_id w, mo_id m), st'))))"

definition write_fork :: "arch_env \<Rightarrow> string \<Rightarrow> string option \<Rightarrow> string \<Rightarrow> string \<Rightarrow> arch \<Rightarrow> arch_written" where
  "write_fork e ws source name description st = (case fork_source st ws source of
     None \<Rightarrow> refuse ''model_not_found''
   | Some src \<Rightarrow> and_then (arch_fork_model e ws src name description st) (\<lambda>(m, st').
       Inr ((model_dict m, mo_id m), st')))"

definition write_component :: "arch_env \<Rightarrow> string \<Rightarrow> string \<Rightarrow> string \<Rightarrow> string \<Rightarrow> string \<Rightarrow> string option \<Rightarrow> arch \<Rightarrow> arch_written" where
  "write_component e ws m kind name description parent st =
     and_then (require_arch_model st ws m) (\<lambda>_.
     and_then (validate_arch_parent st ws m parent) (\<lambda>_.
       written component_dict m (arch_create_component e ws m kind name description parent st)))"

definition write_batch_component :: "arch_env \<Rightarrow> string \<Rightarrow> string \<Rightarrow> string \<Rightarrow> string \<Rightarrow> string \<Rightarrow> string \<Rightarrow> string option \<Rightarrow>
    (string \<times> string \<times> string) list \<Rightarrow> arch \<Rightarrow> arch_written" where
  "write_batch_component e repo ws m kind name description parent entities st =
     and_then (require_arch_model st ws m) (\<lambda>_.
     and_then (validate_arch_parent st ws m parent) (\<lambda>_.
     and_then (validate_canonical_entities e repo entities) (\<lambda>_.
       written (\<lambda>(c, ms). [(''component'', JObj (component_dict c)),
           (''mappings'', JList (map (\<lambda>x. JObj (mapping_dict x)) ms))]) m
         (arch_batch_component e ws m kind name description parent entities st))))"

definition write_update :: "arch_env \<Rightarrow> string \<Rightarrow> string \<Rightarrow> string \<Rightarrow> component_update \<Rightarrow> arch \<Rightarrow> arch_written" where
  "write_update e ws m c u st =
     and_then (arch_demand (arch_component_in st ws m c \<noteq> None) (DesignRefused ''component_not_found'')) (\<lambda>_.
     and_then (case cu_parent_id u of None \<Rightarrow> Inr ()
        | Some p \<Rightarrow> and_then (validate_arch_parent st ws m (Some p)) (\<lambda>_. assert_no_arch_cycle st ws m c p)) (\<lambda>_.
       written component_dict m (arch_update_component e ws m c u st)))"

definition counts_dict :: "deletion_counts \<Rightarrow> jdict" where
  "counts_dict d = [(''components'', JInt (int (dc_components d))), (''relations'', JInt (int (dc_relations d))),
     (''mappings'', JInt (int (dc_mappings d)))]"

definition write_delete :: "string \<Rightarrow> string \<Rightarrow> string \<Rightarrow> bool \<Rightarrow> arch \<Rightarrow> arch_written option" where
  "write_delete ws m c subtree st =
     (if arch_component_in st ws m c = None then Some (refuse ''component_not_found'')
      else map_option (written counts_dict m) (arch_delete_component ws m c subtree st))"

definition write_relation :: "arch_env \<Rightarrow> string \<Rightarrow> string \<Rightarrow> string \<Rightarrow> string \<Rightarrow> string \<Rightarrow> string option \<Rightarrow> arch \<Rightarrow> arch_written" where
  "write_relation e ws m kind src dst label st =
     and_then (require_arch_model st ws m) (\<lambda>_.
     and_then (validate_relation_endpoints st ws m src dst) (\<lambda>_.
     and_then (arch_demand (src \<noteq> dst) (DesignRefused ''relation_self_loop'')) (\<lambda>_.
     and_then (arch_demand (\<not> list_ex (\<lambda>r. rl_kind r = kind \<and> rl_src_id r = src \<and> rl_dst_id r = dst)
         (arch_relations st ws m)) (DesignRefused ''relation_exists'')) (\<lambda>_.
       written relation_dict m (arch_create_relation e ws m kind src dst label st)))))"

definition write_relation_update :: "arch_env \<Rightarrow> string \<Rightarrow> string \<Rightarrow> string \<Rightarrow> string option \<Rightarrow> string option \<Rightarrow> bool \<Rightarrow> arch \<Rightarrow>
    arch_written" where
  "write_relation_update e ws m i kind label clear st =
     and_then (arch_demand (arch_relation_in st ws m i \<noteq> None) (DesignRefused ''relation_not_found'')) (\<lambda>_.
       written relation_dict m (arch_update_relation e ws m i kind label clear st))"

definition write_mappings :: "arch_env \<Rightarrow> string \<Rightarrow> string \<Rightarrow> bool \<Rightarrow> string \<Rightarrow> (string \<times> string \<times> string) list \<Rightarrow> arch \<Rightarrow> arch_written" where
  "write_mappings e repo ws batch c entities st = (case arch_component_any st ws c of
     None \<Rightarrow> refuse ''component_not_found''
   | Some x \<Rightarrow>
       and_then (check_entities st c entities) (\<lambda>_.
       and_then (if batch then validate_canonical_entities e repo entities else Inr ()) (\<lambda>_.
         written (\<lambda>ms. [(''mappings'', JList (map (\<lambda>y. JObj (mapping_dict y)) ms))]) (co_model_id x)
           (arch_batch_mappings e ws c entities st))))"

definition write_mapping_deletion :: "string \<Rightarrow> string \<Rightarrow> arch \<Rightarrow> arch_written" where
  "write_mapping_deletion ws i st =
     (case find (\<lambda>m. list_ex (\<lambda>x. mp_id x = i) (arch_mappings st ws (mo_id m))) (arch_models st ws) of
        None \<Rightarrow> refuse ''mapping_not_found''
      | Some m \<Rightarrow> Inr (([(''deleted'', JStr i)], mo_id m), arch_delete_mapping ws i st))"

definition write_layout :: "arch_env \<Rightarrow> string \<Rightarrow> string \<Rightarrow> jdict \<Rightarrow> int option \<Rightarrow> arch \<Rightarrow> arch_written" where
  "write_layout e ws m layout expected st =
     written (\<lambda>t. [(''model_id'', JStr m), (''updated_at'', JInt t)]) m (arch_put_layout e ws m layout expected st)"

text \<open>The operations inside a workspace, which must be one of the repository of the change.\<close>

definition write_op :: "arch_env \<Rightarrow> string \<Rightarrow> string \<Rightarrow> arch_op \<Rightarrow> arch \<Rightarrow> arch_written option" where
  "write_op e repo ws op st = (case op of
     CreateWorkspace r n d \<Rightarrow> Some (Inl MissingKey)
   | ForkProposal src n d \<Rightarrow> Some (write_fork e ws src n d st)
   | CreateComponent m k n d p \<Rightarrow> Some (write_component e ws m k n d p st)
   | BatchComponent m k n d p es \<Rightarrow> Some (write_batch_component e repo ws m k n d p es st)
   | UpdateComponent m c u \<Rightarrow> Some (write_update e ws m c u st)
   | DeleteComponent m c sub \<Rightarrow> write_delete ws m c sub st
   | CreateRelation m k s d l \<Rightarrow> Some (write_relation e ws m k s d l st)
   | UpdateRelation m i k l clr \<Rightarrow> Some (write_relation_update e ws m i k l clr st)
   | DeleteRelation m i \<Rightarrow> Some (Inr (([(''deleted'', JStr i)], m), arch_delete_relation ws i st))
   | CreateMapping c es \<Rightarrow> Some (write_mappings e repo ws False c es st)
   | BatchMappings c es \<Rightarrow> Some (write_mappings e repo ws True c es st)
   | DeleteMapping i \<Rightarrow> Some (write_mapping_deletion ws i st)
   | PutLayout m l t \<Rightarrow> Some (write_layout e ws m l t st))"

definition write_in_workspace :: "arch_env \<Rightarrow> string \<Rightarrow> string \<Rightarrow> arch_op \<Rightarrow> arch \<Rightarrow> arch_written option" where
  "write_in_workspace e repo ws op st = (case arch_workspace_row st ws of
     None \<Rightarrow> Some (refuse ''workspace_not_found'')
   | Some w \<Rightarrow> if ws_repo_id w \<noteq> repo then Some (refuse ''design_repo_mismatch'') else write_op e repo ws op st)"

text \<open>The design reference of the result: the identity of the model and the digest of its state.\<close>

definition arch_ref :: "(string \<Rightarrow> string) \<Rightarrow> string \<Rightarrow> jdict \<times> string \<Rightarrow> arch \<Rightarrow> (arch_error + jdict \<times> string \<times> string) \<times> arch" where
  "arch_ref H ws r st = (case architecture_state st ws (snd r) of
     None \<Rightarrow> (refuse ''model_not_found'', st)
   | Some state \<Rightarrow> (Inr (fst r, snd r, H (dumps True (JObj state))), st))"

definition architecture_mutation :: "(string \<Rightarrow> string) \<Rightarrow> arch_env \<Rightarrow> string \<Rightarrow> string \<Rightarrow> arch_op \<Rightarrow> arch \<Rightarrow>
    ((arch_error + jdict \<times> string \<times> string) \<times> arch) option" where
  "architecture_mutation H e repo ws op st = (case op of
     CreateWorkspace r n d \<Rightarrow> Some (case write_workspace e repo r n d st of
       Inl err \<Rightarrow> (Inl err, st)
     | Inr ((result, w, m), st') \<Rightarrow> arch_ref H w (result, m) st')
   | _ \<Rightarrow> map_option (\<lambda>out. case out of Inl err \<Rightarrow> (Inl err, st) | Inr (r, st') \<Rightarrow> arch_ref H ws r st')
       (write_in_workspace e repo ws op st))"

end
