(* ===== verification/Arch_Invariant.thy ===== *)
theory Arch_Invariant
  imports Arch_Service "HOL-Library.Multiset"
begin

text \<open>
  The invariant of the architecture plane: keys, references inside one model, and a component hierarchy
  without cycles, which every mutation keeps. On such tables the climb of the cycle check is exact and
  the recursive query of a subtree ends.
\<close>

section \<open>The invariant\<close>

text \<open>The hierarchy has no cycles: a rank grows from every parent to its children.\<close>

definition ranked :: "arch \<Rightarrow> (string \<Rightarrow> nat) \<Rightarrow> bool" where
  "ranked st rank = (\<forall>c \<in> set (az_components st). \<forall>p. co_parent_id c = Some p \<longrightarrow> rank p < rank (co_id c))"

definition keyed_rows :: "arch \<Rightarrow> bool" where
  "keyed_rows st = (distinct (map mo_id (az_models st)) \<and> distinct (map co_id (az_components st)) \<and>
     distinct (map rl_id (az_relations st)) \<and> distinct (map mp_id (az_mappings st)))"

definition rows_ok :: "arch \<Rightarrow> bool" where
  "rows_ok st = (list_all (component_ok st) (az_components st) \<and> list_all (relation_ok st) (az_relations st) \<and>
     list_all (mapping_ok st) (az_mappings st) \<and> list_all (\<lambda>c. co_id c \<noteq> []) (az_components st))"

definition arch_ok :: "arch \<Rightarrow> bool" where
  "arch_ok st = (keyed_rows st \<and> rows_ok st \<and> (\<exists>rank. ranked st rank))"

definition up :: "arch \<Rightarrow> (string \<times> string) set" where
  "up st = {(co_id c, p) | c p. c \<in> set (az_components st) \<and> co_parent_id c = Some p}"

lemma upI: "c \<in> set (az_components st) \<Longrightarrow> co_parent_id c = Some p \<Longrightarrow> (co_id c, p) \<in> up st"
  by (auto simp: up_def)

lemma upE:
  assumes "(i, p) \<in> up st"
  obtains c where "c \<in> set (az_components st)" "co_id c = i" "co_parent_id c = Some p"
  using assms by (auto simp: up_def)

lemma ranked_up: "ranked st rank \<Longrightarrow> (i, p) \<in> up st \<Longrightarrow> rank p < rank i"
  by (auto simp: ranked_def up_def)

lemma ranked_up_trancl: "(i, p) \<in> (up st)\<^sup>+ \<Longrightarrow> ranked st rank \<Longrightarrow> rank p < rank i"
  by (induction rule: trancl.induct) (auto dest: ranked_up)

lemma ranked_up_rtrancl: "(i, p) \<in> (up st)\<^sup>* \<Longrightarrow> ranked st rank \<Longrightarrow> rank p \<le> rank i"
  by (induction rule: rtrancl.induct) (auto dest: ranked_up)

lemma ok_acyclic: "arch_ok st \<Longrightarrow> acyclic (up st)"
  using ranked_up_trancl by (fastforce simp: arch_ok_def acyclic_def)

lemma arch_okD:
  assumes "arch_ok st"
  shows "distinct (map co_id (az_components st))" and "c \<in> set (az_components st) \<Longrightarrow> component_ok st c"
    and "c \<in> set (az_components st) \<Longrightarrow> co_id c \<noteq> []" and "r \<in> set (az_relations st) \<Longrightarrow> relation_ok st r"
    and "x \<in> set (az_mappings st) \<Longrightarrow> mapping_ok st x" and "distinct (map mo_id (az_models st))"
    and "distinct (map rl_id (az_relations st))" and "distinct (map mp_id (az_mappings st))"
  using assms by (auto simp: arch_ok_def keyed_rows_def rows_ok_def list_all_iff)

lemma same_component:
  assumes "arch_ok st" and "c \<in> set (az_components st)" and "d \<in> set (az_components st)" and "co_id c = co_id d"
  shows "c = d"
proof -
  have "inj_on co_id (set (az_components st))" using arch_okD(1) [OF assms(1)] by (simp add: distinct_map)
  from inj_onD [OF this assms(4,2,3)] show ?thesis .
qed

lemma up_unique:
  assumes "arch_ok st" and "(i, p) \<in> up st" and "(i, q) \<in> up st"
  shows "p = q"
proof -
  from assms(2) obtain c where c: "c \<in> set (az_components st)" "co_id c = i" "co_parent_id c = Some p" by (rule upE)
  from assms(3) obtain d where d: "d \<in> set (az_components st)" "co_id d = i" "co_parent_id d = Some q" by (rule upE)
  have "c = d" using c d by (intro same_component [OF assms(1)]) simp_all
  with c d show ?thesis by simp
qed

lemma known_iff: "component_known st ws m c \<longleftrightarrow> (\<exists>x \<in> set (az_components st). component_in ws m x \<and> co_id x = c)"
  by (simp add: component_known_def list_ex_iff)

lemma up_star_step:
  assumes "arch_ok st" and edge: "(i, p) \<in> up st"
  shows "(i, c) \<in> (up st)\<^sup>* \<longleftrightarrow> i = c \<or> (p, c) \<in> (up st)\<^sup>*"
proof
  assume "(i, c) \<in> (up st)\<^sup>*"
  then show "i = c \<or> (p, c) \<in> (up st)\<^sup>*"
  proof (cases rule: converse_rtranclE)
    case (step y)
    with up_unique [OF assms(1) edge step(1)] show ?thesis by simp
  qed simp
next
  assume "i = c \<or> (p, c) \<in> (up st)\<^sup>*"
  then show "(i, c) \<in> (up st)\<^sup>*" using edge by (auto intro: converse_rtrancl_into_rtrancl)
qed

text \<open>A parent is in the model of its child.\<close>

lemma parent_known:
  assumes "arch_ok st" and "c \<in> set (az_components st)" and "component_in ws m c" and "co_parent_id c = Some p"
  shows "component_known st ws m p"
  using arch_okD(2) [OF assms(1,2)] assms(3,4) by (auto simp: component_ok_def component_in_def)

lemma component_in_Some_iff:
  assumes "arch_ok st"
  shows "arch_component_in st ws m i = Some n \<longleftrightarrow> n \<in> set (az_components st) \<and> component_in ws m n \<and> co_id n = i"
proof
  show "arch_component_in st ws m i = Some n \<Longrightarrow> n \<in> set (az_components st) \<and> component_in ws m n \<and> co_id n = i"
    by (rule arch_component_in_Some)
next
  assume n: "n \<in> set (az_components st) \<and> component_in ws m n \<and> co_id n = i"
  then have "arch_component_in st ws m i \<noteq> None" by (auto simp: arch_component_in_def find_None_iff)
  then obtain k where k: "arch_component_in st ws m i = Some k" by blast
  with arch_component_in_Some [OF k] n same_component [OF assms] show "arch_component_in st ws m i = Some n" by metis
qed

lemma known_Some: "component_known st ws m i \<longleftrightarrow> arch_component_in st ws m i \<noteq> None"
  unfolding known_iff arch_component_in_def find_None_iff by blast

section \<open>The cycle check\<close>

text \<open>On valid tables the climb meets a component exactly when it is the node or above it.\<close>

lemma meets_exact_from:
  assumes "arch_ok st" and "ranked st rank"
  shows "component_known st ws m i \<Longrightarrow> \<forall>s \<in> set seen. rank i < rank s \<Longrightarrow>
    meets st ws m c seen i \<longleftrightarrow> (i, c) \<in> (up st)\<^sup>*"
proof (induction "rank i" arbitrary: i seen rule: less_induct)
  case less
  from less.prems(1) obtain n where n: "arch_component_in st ws m i = Some n" by (auto simp: known_Some)
  from arch_component_in_Some [OF n] have n': "n \<in> set (az_components st)" "component_in ws m n" "co_id n = i"
    by auto
  have unseen: "i \<notin> set seen" using less.prems(2) by auto
  show ?case
  proof (cases "co_parent_id n")
    case None
    have "(i, q) \<notin> up st" for q
    proof
      assume "(i, q) \<in> up st"
      then obtain d where d: "d \<in> set (az_components st)" "co_id d = i" "co_parent_id d = Some q" by (rule upE)
      have "d = n" using d n' by (intro same_component [OF assms(1)]) simp_all
      with d None show False by simp
    qed
    then have "(i, c) \<in> (up st)\<^sup>* \<longleftrightarrow> i = c" by (meson converse_rtranclE rtrancl.rtrancl_refl)
    moreover have "meets st ws m c seen i \<longleftrightarrow> i = c"
      using n' None unseen by (subst meets.simps) (simp add: n)
    ultimately show ?thesis by simp
  next
    case (Some p)
    have known: "component_known st ws m p" using parent_known [OF assms(1) n'(1,2) Some] .
    then have "p \<noteq> []" using arch_okD(3) [OF assms(1)] by (auto simp: known_iff)
    moreover have edge: "(i, p) \<in> up st" using upI [OF n'(1) Some] n'(3) by simp
    moreover have "rank p < rank i" by (rule ranked_up [OF assms(2) edge])
    moreover from this known less.prems(2) have "meets st ws m c (i # seen) p \<longleftrightarrow> (p, c) \<in> (up st)\<^sup>*"
      by (intro less.hyps) auto
    moreover have "(i, c) \<in> (up st)\<^sup>* \<longleftrightarrow> i = c \<or> (p, c) \<in> (up st)\<^sup>*"
      by (rule up_star_step [OF assms(1) edge])
    moreover have "meets st ws m c seen i \<longleftrightarrow> i = c \<or> meets st ws m c (i # seen) p"
      using n' Some unseen \<open>p \<noteq> []\<close> by (subst meets.simps) (simp add: n)
    ultimately show ?thesis by blast
  qed
qed

lemma meets_exact:
  assumes "arch_ok st" and "component_known st ws m p"
  shows "meets st ws m c [] p \<longleftrightarrow> (p, c) \<in> (up st)\<^sup>*"
proof -
  from assms(1) obtain rank where "ranked st rank" by (auto simp: arch_ok_def)
  from meets_exact_from [OF assms(1) this assms(2)] show ?thesis by simp
qed

end
