(* ===== verification/Arch_Subtree.thy ===== *)
theory Arch_Subtree
  imports Arch_Invariant
begin

text \<open>
  The recursive query of a subtree and the deletion built on it: the query returns on every valid table,
  lists a component and its descendants once each, and the deletion of a subtree cannot be refused.
\<close>

section \<open>Children\<close>

lemma set_children: "c \<in> set (children_of st ws m i) \<longleftrightarrow>
    (\<exists>x \<in> set (az_components st). component_in ws m x \<and> co_id x = c \<and> co_parent_id x = Some i)"
  by (auto simp: children_of_def)

lemma children_up:
  assumes "arch_ok st" and "component_known st ws m i"
  shows "c \<in> set (children_of st ws m i) \<longleftrightarrow> (c, i) \<in> up st"
proof
  show "c \<in> set (children_of st ws m i) \<Longrightarrow> (c, i) \<in> up st" by (auto simp: set_children up_def)
next
  assume "(c, i) \<in> up st"
  then obtain x where x: "x \<in> set (az_components st)" "co_id x = c" "co_parent_id x = Some i" by (rule upE)
  then have "component_known st (co_workspace_id x) (co_model_id x) i"
    using parent_known [OF assms(1) x(1) _ x(3)] by (simp add: component_in_def)
  then obtain y where y: "y \<in> set (az_components st)" "component_in (co_workspace_id x) (co_model_id x) y" "co_id y = i"
    by (auto simp: known_iff)
  from assms(2) obtain z where z: "z \<in> set (az_components st)" "component_in ws m z" "co_id z = i" by (auto simp: known_iff)
  have "y = z" using y z by (intro same_component [OF assms(1)]) simp_all
  with y z have "component_in ws m x" by (simp add: component_in_def)
  with x show "c \<in> set (children_of st ws m i)" by (auto simp: set_children)
qed

lemma children_known: "c \<in> set (children_of st ws m i) \<Longrightarrow> component_known st ws m c"
  by (auto simp: set_children known_iff)

lemma distinct_children: "arch_ok st \<Longrightarrow> distinct (children_of st ws m i)"
  unfolding children_of_def by (rule distinct_map_filter) (rule arch_okD(1))

lemma wf_up: "arch_ok st \<Longrightarrow> wf (up st)"
proof (rule finite_acyclic_wf)
  have "up st \<subseteq> (\<lambda>c. (co_id c, the (co_parent_id c))) ` set (az_components st)" by (force simp: up_def)
  then show "finite (up st)" by (rule finite_subset) simp
qed (rule ok_acyclic)

section \<open>The query returns\<close>

text \<open>Each turn replaces a component by its children: the queue falls in the multiset order.\<close>

lemma subtree_returns:
  assumes "arch_ok st"
  shows "\<forall>i \<in> set (map fst queue). component_known st ws m i \<Longrightarrow> subtree_from st ws m queue \<noteq> None"
proof (induction "mset (map fst queue)" arbitrary: queue rule: wf_induct_rule [OF wf_mult [OF wf_up [OF assms]]])
  case less: 1
  show ?case
  proof (cases queue)
    case Nil
    then show ?thesis by (subst subtree_from.simps) simp
  next
    case (Cons q rest)
    let ?next = "rest @ map (\<lambda>c. (c, Suc (snd q))) (children_of st ws m (fst q))"
    have known: "component_known st ws m (fst q)" using less.prems Cons by simp
    have split: "mset (map fst ?next) = mset (map fst rest) + mset (children_of st ws m (fst q))"
      by (simp add: comp_def)
    have "(mset (map fst rest) + mset (children_of st ws m (fst q)), mset (map fst rest) + {#fst q#}) \<in> mult (up st)"
      using children_up [OF assms known] by (intro one_step_implies_mult) auto
    then have "(mset (map fst ?next), mset (map fst queue)) \<in> mult (up st)"
      unfolding split by (simp add: Cons)
    moreover have "\<forall>i \<in> set (map fst ?next). component_known st ws m i"
      using less.prems Cons children_known by auto
    ultimately have "subtree_from st ws m ?next \<noteq> None" by (rule less.hyps)
    then obtain rows where "subtree_from st ws m ?next = Some rows" by blast
    then show ?thesis by (subst subtree_from.simps) (simp add: Cons)
  qed
qed

section \<open>What the query returns\<close>

lemma subtree_cases:
  assumes "subtree_from st ws m queue = Some rows"
  obtains "queue = []" "rows = []"
  | q rest rows' where "queue = q # rest" "rows = q # rows'"
      "subtree_from st ws m (rest @ map (\<lambda>c. (c, Suc (snd q))) (children_of st ws m (fst q))) = Some rows'"
proof (cases queue)
  case Nil
  with assms have "rows = []" by (subst (asm) subtree_from.simps) simp
  with Nil that(1) show ?thesis by blast
next
  case (Cons q rest)
  with assms obtain rows' where
    "subtree_from st ws m (rest @ map (\<lambda>c. (c, Suc (snd q))) (children_of st ws m (fst q))) = Some rows'" "rows = q # rows'"
    by (subst (asm) subtree_from.simps) (auto split: Option.bind_splits)
  with Cons that(2) show ?thesis by blast
qed

text \<open>The rows are the queue and everything below it; a child comes with the next depth.\<close>

lemma subtree_below:
  assumes "arch_ok st"
  shows "subtree_from st ws m queue = Some rows \<Longrightarrow> \<forall>i \<in> set (map fst queue). component_known st ws m i \<Longrightarrow>
    (\<forall>j. j \<in> fst ` set rows \<longleftrightarrow> (\<exists>i \<in> fst ` set queue. (j, i) \<in> (up st)\<^sup>*)) \<and>
    (\<forall>j d k. (j, d) \<in> set rows \<and> (k, j) \<in> up st \<longrightarrow> (k, Suc d) \<in> set rows) \<and> set queue \<subseteq> set rows"
proof (induction rows arbitrary: queue)
  case Nil
  then show ?case by (auto elim: subtree_cases)
next
  case (Cons r rows)
  from Cons.prems(1) obtain q rest where q: "queue = q # rest" "r = q"
    and tail: "subtree_from st ws m (rest @ map (\<lambda>c. (c, Suc (snd q))) (children_of st ws m (fst q))) = Some rows"
    by (auto elim: subtree_cases)
  let ?next = "rest @ map (\<lambda>c. (c, Suc (snd q))) (children_of st ws m (fst q))"
  have known: "component_known st ws m (fst q)" using Cons.prems(2) q by simp
  have "\<forall>i \<in> set (map fst ?next). component_known st ws m i" using Cons.prems(2) q children_known by auto
  note IH = Cons.IH [OF tail this]
  have star: "(j, fst q) \<in> (up st)\<^sup>* \<longleftrightarrow> j = fst q \<or> (\<exists>c. (c, fst q) \<in> up st \<and> (j, c) \<in> (up st)\<^sup>*)" for j
    by (meson rtrancl.simps rtranclE)
  have onward: "i \<in> fst ` set ?next \<longleftrightarrow> i \<in> fst ` set rest \<or> (i, fst q) \<in> up st" for i
    using children_up [OF assms known, of i] by (auto simp: image_Un image_image)
  have "j \<in> fst ` set (r # rows) \<longleftrightarrow> (\<exists>i \<in> fst ` set queue. (j, i) \<in> (up st)\<^sup>*)" for j
  proof -
    have "j \<in> fst ` set (r # rows) \<longleftrightarrow> j = fst q \<or> (\<exists>i \<in> fst ` set ?next. (j, i) \<in> (up st)\<^sup>*)"
      using IH q by auto
    also have "\<dots> \<longleftrightarrow> j = fst q \<or> (\<exists>i \<in> fst ` set rest. (j, i) \<in> (up st)\<^sup>*) \<or> (\<exists>c. (c, fst q) \<in> up st \<and> (j, c) \<in> (up st)\<^sup>*)"
      unfolding Bex_def onward by blast
    also have "\<dots> \<longleftrightarrow> (\<exists>i \<in> fst ` set queue. (j, i) \<in> (up st)\<^sup>*)" using star [of j] q by auto
    finally show ?thesis .
  qed
  moreover have "(k, Suc d) \<in> set (r # rows)" if "(j, d) \<in> set (r # rows)" "(k, j) \<in> up st" for j d k
  proof (cases "(j, d) = r")
    case True
    with that(2) q have "(k, Suc d) \<in> set ?next" using children_up [OF assms known, of k] by auto
    with IH show ?thesis by auto
  next
    case False
    with that IH show ?thesis by auto
  qed
  moreover have "set queue \<subseteq> set (r # rows)" using IH q by auto
  ultimately show ?case by blast
qed

text \<open>Nothing is listed twice when nothing in the queue is above anything else in it.\<close>

definition independent :: "arch \<Rightarrow> string list \<Rightarrow> bool" where
  "independent st is = (distinct is \<and> (\<forall>i \<in> set is. \<forall>j \<in> set is. (i, j) \<in> (up st)\<^sup>* \<longrightarrow> i = j))"

lemma independent_next:
  assumes "arch_ok st" and "component_known st ws m i" and "independent st (i # is)"
  shows "independent st (is @ children_of st ws m i)"
    and "\<forall>j \<in> set (is @ children_of st ws m i). (i, j) \<notin> (up st)\<^sup>*"
proof -
  note acyclic = ok_acyclic [OF assms(1)] and kids = children_up [OF assms(1,2)]
  have child: "(c, j) \<in> (up st)\<^sup>* \<longleftrightarrow> c = j \<or> (i, j) \<in> (up st)\<^sup>*" if "c \<in> set (children_of st ws m i)" for c j
    using up_star_step [OF assms(1)] kids that by blast
  have up_i: "(i, c) \<notin> (up st)\<^sup>*" if "c \<in> set (children_of st ws m i)" for c
  proof
    assume "(i, c) \<in> (up st)\<^sup>*"
    with kids that have "(i, i) \<in> (up st)\<^sup>+" by (auto intro: rtrancl_into_trancl1)
    with acyclic show False by (simp add: acyclic_def)
  qed
  have other: "(i, j) \<notin> (up st)\<^sup>*" "(j, i) \<notin> (up st)\<^sup>*" if "j \<in> set is" for j
    using assms(3) that by (auto simp: independent_def)
  have "(j, c) \<notin> (up st)\<^sup>*" if "j \<in> set is" "c \<in> set (children_of st ws m i)" for j c
    using other(2) [OF that(1)] kids that(2) by (meson rtrancl.rtrancl_into_rtrancl)
  moreover have "(c, j) \<notin> (up st)\<^sup>*" if "j \<in> set is" "c \<in> set (children_of st ws m i)" for j c
    using child [OF that(2), of j] other(1) [OF that(1)] calculation [OF that] by auto
  moreover have "c = d" if "c \<in> set (children_of st ws m i)" "d \<in> set (children_of st ws m i)" "(c, d) \<in> (up st)\<^sup>*" for c d
    using child [OF that(1), of d] up_i [OF that(2)] that(3) by blast
  moreover have "set is \<inter> set (children_of st ws m i) = {}"
    using calculation(1) by blast
  ultimately show "independent st (is @ children_of st ws m i)"
    using assms(3) distinct_children [OF assms(1), of ws m i] by (simp add: independent_def) blast
  show "\<forall>j \<in> set (is @ children_of st ws m i). (i, j) \<notin> (up st)\<^sup>*"
    using other(1) up_i by auto
qed

lemma subtree_distinct:
  assumes "arch_ok st"
  shows "subtree_from st ws m queue = Some rows \<Longrightarrow> \<forall>i \<in> set (map fst queue). component_known st ws m i \<Longrightarrow>
    independent st (map fst queue) \<Longrightarrow> distinct (map fst rows)"
proof (induction rows arbitrary: queue)
  case (Cons r rows)
  from Cons.prems(1) obtain q rest where q: "queue = q # rest" "r = q"
    and tail: "subtree_from st ws m (rest @ map (\<lambda>c. (c, Suc (snd q))) (children_of st ws m (fst q))) = Some rows"
    by (auto elim: subtree_cases)
  let ?next = "rest @ map (\<lambda>c. (c, Suc (snd q))) (children_of st ws m (fst q))"
  have onward: "map fst ?next = map fst rest @ children_of st ws m (fst q)" by (simp add: comp_def)
  have known: "component_known st ws m (fst q)" using Cons.prems(2) q by simp
  have "independent st (fst q # map fst rest)" using Cons.prems(3) q by simp
  note ind = independent_next [OF assms known this]
  have all: "\<forall>i \<in> set (map fst ?next). component_known st ws m i" using Cons.prems(2) q children_known by auto
  have "distinct (map fst rows)" using Cons.IH [OF tail all] ind(1) unfolding onward by blast
  moreover have "fst q \<notin> fst ` set rows"
  proof
    assume "fst q \<in> fst ` set rows"
    with subtree_below [OF assms tail all] obtain i where "i \<in> fst ` set ?next" "(fst q, i) \<in> (up st)\<^sup>*" by blast
    then show False using ind(2) onward by (metis list.set_map)
  qed
  ultimately show ?case using q by simp
qed simp

section \<open>Deleting a subtree\<close>

lemma earlier_in_order:
  assumes "sorted (map f xs)" and "a \<in> set xs" and "b \<in> set xs" and "f a < f b" and "distinct (map fst xs)"
  shows "fst a \<in> set (takeWhile (\<lambda>i. i \<noteq> fst b) (map fst xs))"
proof -
  from assms(3) obtain ps qs where xs: "xs = ps @ b # qs" by (auto dest: split_list)
  from assms(1) have "\<forall>q \<in> set qs. f b \<le> f q" by (simp add: xs sorted_append)
  with assms(2,4) have "a \<in> set ps" by (auto simp: xs)
  moreover have "fst b \<notin> set (map fst ps)" using assms(5) by (auto simp: xs)
  then have "takeWhile (\<lambda>i. i \<noteq> fst b) (map fst xs) = map fst ps"
    by (simp add: xs) (metis (mono_tags, lifting) append.right_neutral list.set_map takeWhile.simps(2) takeWhile_append2)
  ultimately show ?thesis by simp
qed

lemma delete_rows_in_order:
  assumes "distinct xs" and "\<forall>r \<in> set (az_relations st). \<not> touches ws (set xs) r"
    and "\<forall>y \<in> set (az_mappings st). mp_component_id y \<notin> set xs"
    and "\<forall>y \<in> set (az_components st). co_id y \<in> set xs \<longrightarrow> co_workspace_id y = ws"
    and "\<forall>y \<in> set (az_components st). \<forall>z \<in> set xs. co_parent_id y = Some z \<longrightarrow> co_id y \<in> set (takeWhile (\<lambda>i. i \<noteq> z) xs)"
  shows "insert_all (delete_component_row ws) xs st =
    Inr (st\<lparr>az_components := filter (\<lambda>y. co_id y \<notin> set xs) (az_components st)\<rparr>)"
  using assms
proof (induction xs arbitrary: st)
  case (Cons x xs)
  let ?hit = "\<lambda>y. co_workspace_id y = ws \<and> co_id y = x"
  have free: "\<not> list_ex (\<lambda>y. ?hit y \<and> restricted st y) (az_components st)"
    using Cons.prems(2,5) by (fastforce simp: list_ex_iff restricted_def touches_def)
  have maps: "filter (\<lambda>y. \<not> list_ex (\<lambda>z. ?hit z \<and> co_id z = mp_component_id y) (az_components st)) (az_mappings st) =
      az_mappings st"
    using Cons.prems(3) by (auto simp: filter_id_conv list_ex_iff)
  have comps: "filter (\<lambda>y. \<not> ?hit y) (az_components st) = filter (\<lambda>y. co_id y \<noteq> x) (az_components st)"
    using Cons.prems(4) by (intro filter_cong) auto
  let ?st = "st\<lparr>az_components := filter (\<lambda>y. co_id y \<noteq> x) (az_components st)\<rparr>"
  have one: "delete_component_row ws x st = Inr ?st"
    using free maps comps by (simp add: delete_component_row_def arch_demand_def)
  have "insert_all (delete_component_row ws) xs ?st =
      Inr (?st\<lparr>az_components := filter (\<lambda>y. co_id y \<notin> set xs) (az_components ?st)\<rparr>)"
  proof (rule Cons.IH)
    show "distinct xs" using Cons.prems(1) by simp
    show "\<forall>r \<in> set (az_relations ?st). \<not> touches ws (set xs) r" using Cons.prems(2) by (auto simp: touches_def)
    show "\<forall>y \<in> set (az_mappings ?st). mp_component_id y \<notin> set xs" using Cons.prems(3) by auto
    show "\<forall>y \<in> set (az_components ?st). co_id y \<in> set xs \<longrightarrow> co_workspace_id y = ws" using Cons.prems(4) by auto
    show "\<forall>y \<in> set (az_components ?st). \<forall>z \<in> set xs. co_parent_id y = Some z \<longrightarrow> co_id y \<in> set (takeWhile (\<lambda>i. i \<noteq> z) xs)"
    proof (intro ballI impI)
      fix y z assume y: "y \<in> set (az_components ?st)" and z: "z \<in> set xs" and p: "co_parent_id y = Some z"
      then have "co_id y \<in> set (takeWhile (\<lambda>i. i \<noteq> z) (x # xs))" using Cons.prems(5) by auto
      moreover have "x \<noteq> z" using Cons.prems(1) z by auto
      ultimately show "co_id y \<in> set (takeWhile (\<lambda>i. i \<noteq> z) xs)" using y by auto
    qed
  qed
  then show ?case by (simp add: one conj_commute)
qed simp

lemma queue_of_one: "independent st [c]"
  by (simp add: independent_def)

lemma subtree_rows_facts:
  assumes "arch_ok st" and "component_known st ws m c"
  obtains rows where "subtree_rows st ws m c = Some rows" and "distinct (map fst rows)"
    and "set (map fst rows) = {i. (i, c) \<in> (up st)\<^sup>*}" and "sorted (map (\<lambda>(i, d). - int d) rows)"
    and "\<And>j d k. (j, d) \<in> set rows \<Longrightarrow> (k, j) \<in> up st \<Longrightarrow> (k, Suc d) \<in> set rows"
proof -
  have known: "\<forall>i \<in> set (map fst [(c, 0)]). component_known st ws m i" using assms(2) by simp
  from subtree_returns [OF assms(1) known] obtain rs where rs: "subtree_from st ws m [(c, 0)] = Some rs" by blast
  note below = subtree_below [OF assms(1) rs known]
  have "distinct (map fst rs)" using subtree_distinct [OF assms(1) rs known] queue_of_one by simp
  moreover have "distinct (map fst (sort_key f rs)) = distinct (map fst rs)" for f :: "string \<times> nat \<Rightarrow> int"
    by (intro mset_eq_imp_distinct_iff) simp
  ultimately show ?thesis
    using that [of "sort_key (\<lambda>(i, d). - int d) rs"] below assms(2) rs
    by (auto simp: subtree_rows_def)
qed

lemma descendants_workspace:
  assumes "arch_ok st" and "component_known st ws m c" and "(i, c) \<in> (up st)\<^sup>*"
  shows "component_known st ws m i"
  using assms(3)
proof (induction rule: converse_rtrancl_induct)
  case (step i j)
  with children_up [OF assms(1) step.IH] children_known show ?case by blast
qed (rule assms(2))

lemma known_workspace:
  assumes "arch_ok st" and "component_known st ws m i" and "y \<in> set (az_components st)" and "co_id y = i"
  shows "component_in ws m y"
proof -
  from assms(2) obtain z where z: "z \<in> set (az_components st)" "component_in ws m z" "co_id z = i" by (auto simp: known_iff)
  have "y = z" using assms(3,4) z by (intro same_component [OF assms(1)]) simp_all
  with z show ?thesis by simp
qed

lemma relation_in_workspace:
  assumes "arch_ok st" and "r \<in> set (az_relations st)" and "component_known st ws m i" and "rl_src_id r = i \<or> rl_dst_id r = i"
  shows "rl_workspace_id r = ws"
proof -
  from arch_okD(4) [OF assms(1,2)] assms(4) have "component_known st (rl_workspace_id r) (rl_model_id r) i"
    by (auto simp: relation_ok_def)
  then obtain y where "y \<in> set (az_components st)" "component_in (rl_workspace_id r) (rl_model_id r) y" "co_id y = i"
    by (auto simp: known_iff)
  with known_workspace [OF assms(1,3)] show ?thesis by (auto simp: component_in_def)
qed

lemma delete_subtree_exact:
  assumes ok: "arch_ok st" and known: "component_known st ws m c"
  defines "D \<equiv> {i. (i, c) \<in> (up st)\<^sup>*}"
  shows "arch_delete_component ws m c True st = Some (Inr (\<lparr>dc_components = card D,
      dc_relations = length (filter (\<lambda>r. rl_src_id r \<in> D \<or> rl_dst_id r \<in> D) (az_relations st)),
      dc_mappings = length (filter (\<lambda>x. mp_component_id x \<in> D) (az_mappings st))\<rparr>,
    st\<lparr>az_components := filter (\<lambda>x. co_id x \<notin> D) (az_components st),
      az_relations := filter (\<lambda>r. rl_src_id r \<notin> D \<and> rl_dst_id r \<notin> D) (az_relations st),
      az_mappings := filter (\<lambda>x. mp_component_id x \<notin> D) (az_mappings st)\<rparr>))"
proof -
  from subtree_rows_facts [OF ok known] obtain rows where rows: "subtree_rows st ws m c = Some rows"
    and dist: "distinct (map fst rows)" and members: "set (map fst rows) = D"
    and sorted: "sorted (map (\<lambda>(i, d). - int d) rows)"
    and deeper: "\<And>j d k. (j, d) \<in> set rows \<Longrightarrow> (k, j) \<in> up st \<Longrightarrow> (k, Suc d) \<in> set rows"
    unfolding D_def by metis
  have size: "length (map fst rows) = card D" using distinct_card [OF dist] members by simp
  have inD: "component_known st ws m i" if "i \<in> D" for i
    using descendants_workspace [OF ok known] that by (simp add: D_def)
  have touching: "touches ws D r \<longleftrightarrow> rl_src_id r \<in> D \<or> rl_dst_id r \<in> D" if "r \<in> set (az_relations st)" for r
    using relation_in_workspace [OF ok that] inD by (auto simp: touches_def)
  let ?st1 = "st\<lparr>az_relations := filter (\<lambda>r. \<not> touches ws D r) (az_relations st),
    az_mappings := filter (\<lambda>x. mp_component_id x \<notin> D) (az_mappings st)\<rparr>"
  have "insert_all (delete_component_row ws) (map fst rows) ?st1 =
      Inr (?st1\<lparr>az_components := filter (\<lambda>y. co_id y \<notin> set (map fst rows)) (az_components ?st1)\<rparr>)"
  proof (rule delete_rows_in_order [OF dist], unfold members)
    show "\<forall>r \<in> set (az_relations ?st1). \<not> touches ws D r" by simp
    show "\<forall>y \<in> set (az_mappings ?st1). mp_component_id y \<notin> D" by simp
    show "\<forall>y \<in> set (az_components ?st1). co_id y \<in> D \<longrightarrow> co_workspace_id y = ws"
      using known_workspace [OF ok inD] by (auto simp: component_in_def)
    show "\<forall>y \<in> set (az_components ?st1). \<forall>z \<in> D. co_parent_id y = Some z \<longrightarrow>
        co_id y \<in> set (takeWhile (\<lambda>i. i \<noteq> z) (map fst rows))"
    proof (intro ballI impI)
      fix y z assume y: "y \<in> set (az_components ?st1)" and z: "z \<in> D" and p: "co_parent_id y = Some z"
      from z members obtain d where d: "(z, d) \<in> set rows" by auto
      have "(co_id y, z) \<in> up st" using y p by (auto intro: upI)
      from deeper [OF d this] have "(co_id y, Suc d) \<in> set rows" .
      from earlier_in_order [OF sorted this d _ dist] show "co_id y \<in> set (takeWhile (\<lambda>i. i \<noteq> z) (map fst rows))"
        by simp
    qed
  qed
  moreover have "filter (\<lambda>r. \<not> touches ws D r) (az_relations st) =
      filter (\<lambda>r. rl_src_id r \<notin> D \<and> rl_dst_id r \<notin> D) (az_relations st)"
    using touching by (intro filter_cong) auto
  moreover have "filter (touches ws D) (az_relations st) = filter (\<lambda>r. rl_src_id r \<in> D \<or> rl_dst_id r \<in> D) (az_relations st)"
    using touching by (intro filter_cong) auto
  ultimately show ?thesis
    using size members by (simp add: arch_delete_component_def rows delete_members_def Let_def)
qed

end
