(* ===== verification/Arch_Steps.thy ===== *)
theory Arch_Steps
  imports Arch_Subtree
begin

text \<open>
  Every mutation keeps the tables of the architecture plane valid: the rows of each statement, then the
  methods, then the mutations of a design change.
\<close>

section \<open>Growing tables\<close>

text \<open>What other rows may rely on is only added to.\<close>

definition grows :: "arch \<Rightarrow> arch \<Rightarrow> bool" where
  "grows st st' = ((\<forall>ws m. model_known st ws m \<longrightarrow> model_known st' ws m) \<and>
     (\<forall>ws m c. component_known st ws m c \<longrightarrow> component_known st' ws m c) \<and>
     (\<forall>ws. workspace_known st ws \<longrightarrow> workspace_known st' ws) \<and>
     co_id ` set (az_components st) \<subseteq> co_id ` set (az_components st'))"

lemma grown_rows:
  assumes "grows st st'"
  shows "component_ok st c \<Longrightarrow> component_ok st' c" and "relation_ok st r \<Longrightarrow> relation_ok st' r"
    and "mapping_ok st x \<Longrightarrow> mapping_ok st' x"
proof -
  show "component_ok st c \<Longrightarrow> component_ok st' c"
    using assms by (auto simp: component_ok_def grows_def split: option.splits)
  show "relation_ok st r \<Longrightarrow> relation_ok st' r" using assms by (auto simp: relation_ok_def grows_def)
  assume x: "mapping_ok st x"
  then obtain c where "c \<in> set (az_components st)" "mp_component_id x = co_id c" by (auto simp: mapping_ok_def list_ex_iff)
  then have "mp_component_id x \<in> co_id ` set (az_components st)" by simp
  then have "mp_component_id x \<in> co_id ` set (az_components st')" using assms by (auto simp: grows_def)
  then show "mapping_ok st' x" using x assms by (auto simp: mapping_ok_def grows_def list_ex_iff)
qed

lemma grown_lists:
  assumes "grows st st'"
  shows "list_all (component_ok st) cs \<Longrightarrow> list_all (component_ok st') cs"
    and "list_all (relation_ok st) rs \<Longrightarrow> list_all (relation_ok st') rs"
    and "list_all (mapping_ok st) xs \<Longrightarrow> list_all (mapping_ok st') xs"
  using grown_rows [OF assms] by (auto simp: list_all_iff)

lemma grows_same: "az_models st' = az_models st \<Longrightarrow> az_components st' = az_components st \<Longrightarrow>
    az_workspaces st' = az_workspaces st \<Longrightarrow> grows st st'"
  by (simp add: grows_def model_known_def component_known_def workspace_known_def)

lemma okI:
  assumes "keyed_rows st" and "rows_ok st" and "ranked st rank"
  shows "arch_ok st"
  using assms by (auto simp: arch_ok_def)

lemma okE:
  assumes "arch_ok st"
  obtains rank where "keyed_rows st" "rows_ok st" "ranked st rank"
  using assms by (auto simp: arch_ok_def)

section \<open>Inserted rows\<close>

lemma insert_workspace_ok:
  assumes "insert_workspace e w st = Inr st'" and "arch_ok st"
  shows "arch_ok st'"
proof -
  from assms(1) have st': "st' = st\<lparr>az_workspaces := az_workspaces st @ [w]\<rparr>"
    by (auto simp: insert_workspace_def and_then_Inr)
  have "grows st st'" by (auto simp: st' grows_def model_known_def component_known_def workspace_known_def)
  from grown_lists [OF this] assms(2) show ?thesis
    by (auto simp: arch_ok_def keyed_rows_def rows_ok_def ranked_def st')
qed

lemma insert_model_ok:
  assumes "insert_model m st = Inr st'" and "arch_ok st"
  shows "arch_ok st'"
proof -
  from assms(1) have st': "st' = st\<lparr>az_models := az_models st @ [m]\<rparr>" and free: "mo_id m \<notin> mo_id ` set (az_models st)"
    by (auto simp: insert_model_def and_then_Inr)
  have "grows st st'" by (auto simp: st' grows_def model_known_def component_known_def workspace_known_def)
  from grown_lists [OF this] assms(2) free show ?thesis
    by (auto simp: arch_ok_def keyed_rows_def rows_ok_def ranked_def st')
qed

text \<open>A component is nobody's parent when it is inserted.\<close>

lemma insert_component_Inr:
  assumes "insert_component c st = Inr st'"
  shows "st' = st\<lparr>az_components := az_components st @ [c]\<rparr>" and "co_id c \<notin> co_id ` set (az_components st)"
    and "component_ok st' c"
  using assms by (auto simp: insert_component_def and_then_Inr Let_def)

lemma insert_component_rows:
  assumes "insert_component c st = Inr st'" and "keyed_rows st" and "rows_ok st" and "co_id c \<noteq> []"
  shows "keyed_rows st' \<and> rows_ok st' \<and> grows st st'"
proof -
  note ins = insert_component_Inr [OF assms(1)]
  have grows: "grows st st'" by (auto simp: ins(1) grows_def model_known_def component_known_def workspace_known_def)
  from grown_lists [OF this] assms(2-4) ins(2,3) have "keyed_rows st' \<and> rows_ok st'"
    by (auto simp: keyed_rows_def rows_ok_def ins(1))
  with grows show ?thesis by blast
qed

lemma parents_known:
  assumes "rows_ok st" and "c \<in> set (az_components st)" and "co_parent_id c = Some p"
  shows "p \<in> co_id ` set (az_components st)"
proof -
  have "component_ok st c" using assms(1,2) by (simp add: rows_ok_def list_all_iff)
  with assms(3) have "component_known st (co_workspace_id c) (co_model_id c) p" by (simp add: component_ok_def)
  then show ?thesis by (auto simp: known_iff)
qed

lemma insert_component_ok:
  assumes "insert_component c st = Inr st'" and "arch_ok st" and "co_id c \<noteq> []" and "co_parent_id c \<noteq> Some (co_id c)"
  shows "arch_ok st'"
proof -
  note ins = insert_component_Inr [OF assms(1)]
  from assms(2) obtain rank where ok: "keyed_rows st" "rows_ok st" "ranked st rank" by (rule okE)
  define rank' where "rank' = rank(co_id c := (case co_parent_id c of None \<Rightarrow> 0 | Some p \<Rightarrow> Suc (rank p)))"
  have "ranked st' rank'"
    unfolding ranked_def
  proof (intro ballI allI impI)
    fix x p assume x: "x \<in> set (az_components st')" and p: "co_parent_id x = Some p"
    show "rank' p < rank' (co_id x)"
    proof (cases "x = c")
      case True
      with p assms(4) show ?thesis by (auto simp: rank'_def)
    next
      case False
      with x have old: "x \<in> set (az_components st)" by (simp add: ins(1))
      then have "p \<in> co_id ` set (az_components st)" "co_id x \<in> co_id ` set (az_components st)"
        using parents_known [OF ok(2) _ p] by simp_all
      then have "p \<noteq> co_id c" "co_id x \<noteq> co_id c" using ins(2) by metis+
      with ok(3) old p show ?thesis by (auto simp: rank'_def ranked_def)
    qed
  qed
  with insert_component_rows [OF assms(1) ok(1,2) assms(3)] show ?thesis by (auto intro: okI)
qed

lemma insert_relation_rows:
  assumes "insert_relation r st = Inr st'"
  shows "st' = st\<lparr>az_relations := az_relations st @ [r]\<rparr>" and "keyed_rows st \<Longrightarrow> keyed_rows st'"
    and "rows_ok st \<Longrightarrow> rows_ok st'"
proof -
  from assms have st': "st' = st\<lparr>az_relations := az_relations st @ [r]\<rparr>" and new: "rl_id r \<notin> rl_id ` set (az_relations st)"
    and r: "relation_ok st r"
    by (auto simp: insert_relation_def and_then_Inr)
  have grows: "grows st st'" by (simp add: grows_same st')
  show "st' = st\<lparr>az_relations := az_relations st @ [r]\<rparr>" by (rule st')
  show "keyed_rows st \<Longrightarrow> keyed_rows st'" using new by (auto simp: keyed_rows_def st')
  show "rows_ok st \<Longrightarrow> rows_ok st'" using grown_lists [OF grows] grown_rows [OF grows] r by (auto simp: rows_ok_def st')
qed

lemma insert_mapping_rows:
  assumes "insert_mapping x st = Inr st'"
  shows "st' = st\<lparr>az_mappings := az_mappings st @ [x]\<rparr>" and "keyed_rows st \<Longrightarrow> keyed_rows st'"
    and "rows_ok st \<Longrightarrow> rows_ok st'"
proof -
  from assms have st': "st' = st\<lparr>az_mappings := az_mappings st @ [x]\<rparr>" and new: "mp_id x \<notin> mp_id ` set (az_mappings st)"
    and x: "mapping_ok st x"
    by (auto simp: insert_mapping_def and_then_Inr)
  have grows: "grows st st'" by (simp add: grows_same st')
  show "st' = st\<lparr>az_mappings := az_mappings st @ [x]\<rparr>" by (rule st')
  show "keyed_rows st \<Longrightarrow> keyed_rows st'" using new by (auto simp: keyed_rows_def st')
  show "rows_ok st \<Longrightarrow> rows_ok st'" using grown_lists [OF grows] grown_rows [OF grows] x by (auto simp: rows_ok_def st')
qed

text \<open>Insertions of relations and mappings leave the hierarchy alone.\<close>

lemma insert_all_keeps:
  assumes "insert_all ins xs st = Inr st'" and "P st" and "\<And>x s s'. x \<in> set xs \<Longrightarrow> ins x s = Inr s' \<Longrightarrow> P s \<Longrightarrow> P s'"
  shows "P st'"
  using assms by (induction xs arbitrary: st) (auto simp: and_then_Inr)

lemma ranked_cong: "az_components st' = az_components st \<Longrightarrow> ranked st' rank = ranked st rank"
  by (simp add: ranked_def)

lemma insert_relation_ok: "insert_relation r st = Inr st' \<Longrightarrow> arch_ok st \<Longrightarrow> arch_ok st'"
  using insert_relation_rows [of r st st'] ranked_cong [of st' st] by (auto simp: arch_ok_def)

lemma insert_mapping_ok: "insert_mapping x st = Inr st' \<Longrightarrow> arch_ok st \<Longrightarrow> arch_ok st'"
  using insert_mapping_rows [of x st st'] ranked_cong [of st' st] by (auto simp: arch_ok_def)

lemma upsert_layout_ok: "upsert_layout l st = Inr st' \<Longrightarrow> arch_ok st \<Longrightarrow> arch_ok st'"
proof -
  assume u: "upsert_layout l st = Inr st'" and ok: "arch_ok st"
  from u obtain ls where st': "st' = st\<lparr>az_layouts := ls\<rparr>"
    by (auto simp: upsert_layout_def and_then_Inr split: option.splits)
  have "grows st st'" by (simp add: grows_same st')
  from grown_lists [OF this] ok show "arch_ok st'" by (auto simp: arch_ok_def keyed_rows_def rows_ok_def ranked_def st')
qed

section \<open>Updated and deleted rows\<close>

lemma update_component_rows:
  assumes u: "update_component ws m c f st = Inr st'" and "keyed_rows st" and "rows_ok st"
    and keep: "\<And>x. co_id (f x) = co_id x \<and> co_workspace_id (f x) = co_workspace_id x \<and> co_model_id (f x) = co_model_id x"
  shows "keyed_rows st' \<and> rows_ok st' \<and> grows st st' \<and>
    az_components st' = map (\<lambda>x. if component_in ws m x \<and> co_id x = c then f x else x) (az_components st)"
proof -
  let ?g = "\<lambda>x. if component_in ws m x \<and> co_id x = c then f x else x"
  from u have st': "st' = st\<lparr>az_components := map ?g (az_components st)\<rparr>"
    and checked: "\<forall>x \<in> set (az_components st). component_in ws m x \<and> co_id x = c \<longrightarrow> component_ok st' (f x)"
    by (auto simp: update_component_def and_then_Inr Let_def list_all_iff)
  have comps: "az_components st' = map ?g (az_components st)" by (simp add: st')
  have same: "co_id (?g x) = co_id x" "component_in w n (?g x) = component_in w n x" for x w n
    using keep by (simp_all add: component_in_def)
  have ids: "map co_id (az_components st') = map co_id (az_components st)" using same(1) by (simp add: st' comp_def)
  have known: "component_known st' w n i = component_known st w n i" for w n i
    unfolding component_known_def comps list_ex_map same ..
  have other: "az_models st' = az_models st" "az_workspaces st' = az_workspaces st" by (simp_all add: st')
  have ids_set: "co_id ` set (az_components st') = co_id ` set (az_components st)" using arg_cong [OF ids, of set] by simp
  have grows: "grows st st'"
    by (simp only: grows_def model_known_def workspace_known_def other known ids_set) simp
  have "component_ok st' (?g x)" if "x \<in> set (az_components st)" for x
    using checked that grown_rows(1) [OF grows] assms(3) by (auto simp: rows_ok_def list_all_iff)
  then have "list_all (component_ok st') (az_components st')" unfolding comps list_all_iff set_map by blast
  moreover have "[] \<notin> co_id ` set (az_components st')" using assms(3) unfolding ids_set by (auto simp: rows_ok_def list_all_iff)
  then have "list_all (\<lambda>c. co_id c \<noteq> []) (az_components st')" unfolding list_all_iff by (metis imageI)
  moreover have "list_all (relation_ok st') (az_relations st')" "list_all (mapping_ok st') (az_mappings st')"
    using assms(3) grown_lists(2,3) [OF grows] by (simp_all add: rows_ok_def st')
  ultimately have "rows_ok st'" by (simp add: rows_ok_def)
  moreover have "keyed_rows st'" using assms(2) ids by (simp add: keyed_rows_def) (simp add: st')
  ultimately show ?thesis using grows by (simp add: st')
qed

text \<open>A new parent that the component is not above.\<close>

definition lifted_rank :: "arch \<Rightarrow> (string \<Rightarrow> nat) \<Rightarrow> string \<Rightarrow> string \<Rightarrow> string \<Rightarrow> nat" where
  "lifted_rank st rank c p i = (if (i, c) \<in> (up st)\<^sup>* then rank i + rank p + 1 else rank i)"

lemma reparent_ranked:
  assumes ok: "arch_ok st" and rank: "ranked st rank" and apart: "(p, c) \<notin> (up st)\<^sup>*"
    and comps: "\<forall>x' \<in> set (az_components st'). \<exists>x \<in> set (az_components st). co_id x' = co_id x \<and>
      (co_parent_id x' = co_parent_id x \<or> co_parent_id x' = None \<or> (co_id x = c \<and> co_parent_id x' = Some p))"
  shows "ranked st' (lifted_rank st rank c p)"
  unfolding ranked_def
proof (intro ballI allI impI)
  fix x' q assume x': "x' \<in> set (az_components st')" and q: "co_parent_id x' = Some q"
  from comps x' obtain x where x: "x \<in> set (az_components st)" "co_id x' = co_id x"
    and cases: "co_parent_id x' = co_parent_id x \<or> co_parent_id x' = None \<or> (co_id x = c \<and> co_parent_id x' = Some p)"
    by blast
  show "lifted_rank st rank c p q < lifted_rank st rank c p (co_id x')"
  proof (cases "co_parent_id x' = co_parent_id x")
    case True
    with q x have edge: "(co_id x, q) \<in> up st" by (auto intro: upI)
    from up_star_step [OF ok edge, of c] ranked_up [OF rank edge] show ?thesis
      using ranked_up_rtrancl [OF _ rank, of q c] ranked_up_rtrancl [OF _ rank, of "co_id x" c] edge
      by (auto simp: lifted_rank_def x(2))
  next
    case False
    with cases q have "co_id x = c" "q = p" by auto
    with apart x(2) show ?thesis by (simp add: lifted_rank_def)
  qed
qed

text \<open>Removing components together with what refers to them.\<close>

lemma filtered_ok:
  assumes ok: "arch_ok st" and same: "az_models st' = az_models st" "az_workspaces st' = az_workspaces st"
    and comps: "az_components st' = filter P (az_components st)"
    and rels: "az_relations st' = filter Q (az_relations st)" and maps: "az_mappings st' = filter R (az_mappings st)"
    and parents: "\<And>c d. c \<in> set (az_components st) \<Longrightarrow> d \<in> set (az_components st) \<Longrightarrow> P c \<Longrightarrow>
      co_parent_id c = Some (co_id d) \<Longrightarrow> P d"
    and ends: "\<And>r d. r \<in> set (az_relations st) \<Longrightarrow> d \<in> set (az_components st) \<Longrightarrow> Q r \<Longrightarrow>
      rl_src_id r = co_id d \<or> rl_dst_id r = co_id d \<Longrightarrow> P d"
    and targets: "\<And>x d. x \<in> set (az_mappings st) \<Longrightarrow> d \<in> set (az_components st) \<Longrightarrow> R x \<Longrightarrow>
      mp_component_id x = co_id d \<Longrightarrow> P d"
  shows "arch_ok st'"
proof -
  have models: "model_known st' = model_known st" "workspace_known st' = workspace_known st"
    by (simp_all add: fun_eq_iff model_known_def workspace_known_def same)
  have stays: "component_known st' ws m (co_id d)" if "d \<in> set (az_components st)" "component_in ws m d" "P d" for ws m d
    using that by (auto simp: known_iff comps)
  have comp: "component_ok st' c" if c: "c \<in> set (az_components st)" "P c" for c
  proof (cases "co_parent_id c")
    case None
    with arch_okD(2) [OF ok c(1)] show ?thesis by (simp add: component_ok_def models)
  next
    case (Some p)
    with arch_okD(2) [OF ok c(1)] have "component_known st (co_workspace_id c) (co_model_id c) p"
      by (simp add: component_ok_def)
    then obtain d where d: "d \<in> set (az_components st)" "component_in (co_workspace_id c) (co_model_id c) d" "co_id d = p"
      by (auto simp: known_iff)
    with parents [OF c(1) d(1) c(2)] Some have "component_known st' (co_workspace_id c) (co_model_id c) p"
      using stays [OF d(1,2)] by simp
    with arch_okD(2) [OF ok c(1)] Some show ?thesis by (simp add: component_ok_def models)
  qed
  have rel: "relation_ok st' r" if r: "r \<in> set (az_relations st)" "Q r" for r
  proof -
    have end_known: "component_known st' (rl_workspace_id r) (rl_model_id r) i" if i: "i = rl_src_id r \<or> i = rl_dst_id r" for i
    proof -
      from arch_okD(4) [OF ok r(1)] i have "component_known st (rl_workspace_id r) (rl_model_id r) i"
        by (auto simp: relation_ok_def)
      then obtain d where d: "d \<in> set (az_components st)" "component_in (rl_workspace_id r) (rl_model_id r) d" "co_id d = i"
        by (auto simp: known_iff)
      with ends [OF r(1) d(1) r(2)] i stays [OF d(1,2)] show ?thesis by auto
    qed
    with arch_okD(4) [OF ok r(1)] show ?thesis by (simp add: relation_ok_def models)
  qed
  have map: "mapping_ok st' x" if x: "x \<in> set (az_mappings st)" "R x" for x
  proof -
    from arch_okD(5) [OF ok x(1)] obtain d where d: "d \<in> set (az_components st)" "mp_component_id x = co_id d"
      by (auto simp: mapping_ok_def list_ex_iff)
    with targets [OF x(1) d(1) x(2)] have "d \<in> set (az_components st')" by (simp add: comps)
    with arch_okD(5) [OF ok x(1)] d(2) show ?thesis by (auto simp: mapping_ok_def models list_ex_iff)
  qed
  from ok obtain rank where rank: "ranked st rank" by (rule okE)
  show ?thesis
  proof (rule okI)
    show "keyed_rows st'"
      using ok by (auto simp: arch_ok_def keyed_rows_def same comps rels maps distinct_map_filter)
    show "rows_ok st'" using comp rel map arch_okD(3) [OF ok] by (auto simp: rows_ok_def list_all_iff comps rels maps)
    show "ranked st' rank" using rank by (auto simp: ranked_def comps)
  qed
qed

lemma delete_subtree_ok:
  assumes "arch_ok st" and "component_known st ws m c" and "arch_delete_component ws m c True st = Some (Inr (n, st'))"
  shows "arch_ok st'"
proof -
  let ?D = "{i. (i, c) \<in> (up st)\<^sup>*}"
  from delete_subtree_exact [OF assms(1,2)] assms(3) have
    st': "st' = st\<lparr>az_components := filter (\<lambda>x. co_id x \<notin> ?D) (az_components st),
      az_relations := filter (\<lambda>r. rl_src_id r \<notin> ?D \<and> rl_dst_id r \<notin> ?D) (az_relations st),
      az_mappings := filter (\<lambda>x. mp_component_id x \<notin> ?D) (az_mappings st)\<rparr>" by simp
  show ?thesis
  proof (rule filtered_ok [OF assms(1), where P = "\<lambda>x. co_id x \<notin> ?D" and Q = "\<lambda>r. rl_src_id r \<notin> ?D \<and> rl_dst_id r \<notin> ?D"
        and R = "\<lambda>x. mp_component_id x \<notin> ?D"])
    fix x d assume "x \<in> set (az_components st)" "co_id x \<notin> ?D" "co_parent_id x = Some (co_id d)"
    then show "co_id d \<notin> ?D" by (auto intro: converse_rtrancl_into_rtrancl upI)
  qed (auto simp: st')
qed

lemma delete_one_ok:
  assumes ok: "arch_ok st" and d: "delete_one ws c st = Inr (n, st')" and known: "component_known st ws m c"
  shows "arch_ok st'"
proof -
  from d have free: "arch_component_children st ws c = []" "arch_relations_touching st ws c = []"
    and del: "delete_component_row ws c st = Inr st'"
    by (auto simp: delete_one_def and_then_Inr)
  let ?hit = "\<lambda>x. co_workspace_id x = ws \<and> co_id x = c"
  from del have st': "st' = st\<lparr>az_components := filter (\<lambda>x. \<not> ?hit x) (az_components st),
      az_mappings := filter (\<lambda>x. \<not> list_ex (\<lambda>y. ?hit y \<and> co_id y = mp_component_id x) (az_components st)) (az_mappings st)\<rparr>"
    by (auto simp: delete_component_row_def and_then_Inr Let_def)
  have inws: "co_workspace_id x = ws" if "x \<in> set (az_components st)" "co_id x = c" for x
    using known_workspace [OF ok known that] by (simp add: component_in_def)
  show ?thesis
  proof (rule filtered_ok [OF ok, where P = "\<lambda>x. \<not> ?hit x" and Q = "\<lambda>r. True"
        and R = "\<lambda>x. \<not> list_ex (\<lambda>y. ?hit y \<and> co_id y = mp_component_id x) (az_components st)"])
    fix x d assume x: "x \<in> set (az_components st)" "d \<in> set (az_components st)" "co_parent_id x = Some (co_id d)"
    show "\<not> ?hit d"
    proof
      assume "?hit d"
      with x(3) have "(co_id x, c) \<in> up st" using x(1) by (auto intro: upI)
      then have "co_id x \<in> set (children_of st ws m c)" using children_up [OF ok known] by blast
      then obtain y where "y \<in> set (az_components st)" "component_in ws m y" "co_parent_id y = Some c"
        by (auto simp: set_children)
      with free(1) show False
        by (auto simp: arch_component_children_def in_order_def filter_empty_conv component_in_def sort_key_Nil)
    qed
  next
    fix r d assume r: "r \<in> set (az_relations st)" "d \<in> set (az_components st)" "rl_src_id r = co_id d \<or> rl_dst_id r = co_id d"
    show "\<not> ?hit d"
    proof
      assume "?hit d"
      with r relation_in_workspace [OF ok r(1) known] have "touches ws {c} r" by (auto simp: touches_def)
      with free(2) r(1) show False by (auto simp: arch_relations_touching_def sort_key_Nil filter_empty_conv)
    qed
  qed (auto simp: st' list_ex_iff)
qed

end
