(* ===== verification/Arch_Fork.thy ===== *)
theory Arch_Fork
  imports Arch_Steps
begin

text \<open>
  The fork of the AS-IS model: what its rows are, that they keep the tables valid, and that a proposal
  just forked does not differ from its baseline.
\<close>

section \<open>The copies of the components\<close>

definition copies :: "arch_env \<Rightarrow> string \<Rightarrow> string \<Rightarrow> arch_component list \<Rightarrow> arch_component list" where
  "copies e ws m cs = map (forked_component e ws m) (List.enumerate 0 cs)"

lemma copies_nth:
  "length (copies e ws m cs) = length cs"
  "i < length cs \<Longrightarrow> copies e ws m cs ! i = forked_component e ws m (i, cs ! i)"
  by (simp_all add: copies_def nth_enumerate_eq)

lemma copy_fields:
  "co_id (forked_component e ws m (i, c)) = ae_fresh e (Suc i)"
  "component_in w n (forked_component e ws m (i, c)) \<longleftrightarrow> w = ws \<and> n = m"
  "co_origin_id (forked_component e ws m (i, c)) = Some (co_id c)" "co_parent_id (forked_component e ws m (i, c)) = None"
  "co_kind (forked_component e ws m (i, c)) = co_kind c" "co_name (forked_component e ws m (i, c)) = co_name c"
  "co_description (forked_component e ws m (i, c)) = co_description c"
  by (auto simp: forked_component_def fresh_component_def component_in_def)

lemma inserted_components:
  assumes "insert_all insert_component xs st = Inr st'" and "keyed_rows st" and "rows_ok st" and "\<forall>x \<in> set xs. co_id x \<noteq> []"
  shows "st' = st\<lparr>az_components := az_components st @ xs\<rparr>" and "keyed_rows st'" and "rows_ok st'"
  using assms
proof (induction xs arbitrary: st)
  case Nil
  { case 1 then show ?case by simp }
  { case 2 then show ?case by simp }
  { case 3 then show ?case by simp }
next
  case (Cons x xs)
  {
    case 1
    then obtain s where s: "insert_component x st = Inr s" "insert_all insert_component xs s = Inr st'" by (auto simp: and_then_Inr)
    note rows = insert_component_rows [OF s(1) 1(2,3)]
    show ?case using Cons.IH(1) [OF s(2)] rows 1(4) insert_component_Inr(1) [OF s(1)] by simp
  next
    case 2
    then obtain s where s: "insert_component x st = Inr s" "insert_all insert_component xs s = Inr st'" by (auto simp: and_then_Inr)
    show ?case using Cons.IH(2) [OF s(2)] insert_component_rows [OF s(1) 2(2,3)] 2(4) by simp
  next
    case 3
    then obtain s where s: "insert_component x st = Inr s" "insert_all insert_component xs s = Inr st'" by (auto simp: and_then_Inr)
    show ?case using Cons.IH(3) [OF s(2)] insert_component_rows [OF s(1) 3(2,3)] 3(4) by simp
  }
qed

text \<open>The identifiers of the copies.\<close>

definition nid :: "arch_env \<Rightarrow> nat \<Rightarrow> string" where
  "nid e i = ae_fresh e (Suc i)"

lemma fork_ids_lookup:
  assumes "distinct (map co_id cs)" and "i < length cs"
  shows "map_of (fork_ids e cs) (co_id (cs ! i)) = Some (nid e i)"
proof -
  let ?ps = "map (\<lambda>(i, c). (co_id c, ae_fresh e (Suc i))) (List.enumerate 0 cs)"
  have "map fst ?ps = map co_id cs"
    by (rule nth_equalityI) (simp_all add: nth_enumerate_eq)
  then have "distinct (map fst ?ps)" using assms(1) by simp
  moreover have "(co_id (cs ! i), nid e i) \<in> set ?ps"
    using assms(2) by (force simp: set_conv_nth nth_enumerate_eq nid_def)
  ultimately show ?thesis
    using dict_of_lookup_inj [of fst ?ps "(co_id (cs ! i), nid e i)" snd] by (simp add: fork_ids_def)
qed

lemma fork_ids_None: "i \<notin> co_id ` set cs \<Longrightarrow> map_of (fork_ids e cs) i = None"
proof -
  assume i: "i \<notin> co_id ` set cs"
  have "fst ` set (fork_ids e cs) \<subseteq> co_id ` set cs"
    unfolding fork_ids_def dict_of_keys
    by (auto simp: set_conv_nth nth_enumerate_eq)
  with i show ?thesis by (auto simp: map_of_eq_None_iff)
qed

section \<open>The links to the copied parents\<close>

definition linked :: "(string, string) dict \<Rightarrow> arch_component list \<Rightarrow> string \<Rightarrow> string \<Rightarrow> arch_component \<Rightarrow> arch_component" where
  "linked idmap ds ws m x = (case find (\<lambda>d. component_in ws m x \<and> map_of idmap (co_id d) = Some (co_id x) \<and>
     forked_parent idmap d \<noteq> None) ds of
     None \<Rightarrow> x | Some d \<Rightarrow> x\<lparr>co_parent_id := forked_parent idmap d\<rparr>)"

lemma link_parent_Inr:
  assumes "link_parent ws m idmap c st = Inr st'" and "keyed_rows st" and "rows_ok st"
  obtains i where "map_of idmap (co_id c) = Some i" and "keyed_rows st'" and "rows_ok st'"
    and "st' = st\<lparr>az_components := map (linked idmap [c] ws m) (az_components st)\<rparr>"
proof -
  from assms(1) obtain i where i: "map_of idmap (co_id c) = Some i"
    by (auto simp: link_parent_def split: option.splits)
  show ?thesis
  proof (cases "forked_parent idmap c")
    case None
    have "st' = st" using assms(1) i None by (simp add: link_parent_def)
    moreover have "linked idmap [c] ws m = (\<lambda>x. x)" using None by (simp add: fun_eq_iff linked_def)
    then have "st = st\<lparr>az_components := map (linked idmap [c] ws m) (az_components st)\<rparr>" by simp
    ultimately show ?thesis using that [OF i] assms(2,3) by blast
  next
    case (Some p)
    have u: "update_component ws m i (\<lambda>x. x\<lparr>co_parent_id := Some p\<rparr>) st = Inr st'"
      using assms(1) i Some by (simp add: link_parent_def)
    have f: "(\<lambda>x. if component_in ws m x \<and> co_id x = i then x\<lparr>co_parent_id := Some p\<rparr> else x) = linked idmap [c] ws m"
      using i Some by (auto simp: fun_eq_iff linked_def)
    have "st' = st\<lparr>az_components := map (linked idmap [c] ws m) (az_components st)\<rparr>"
      using u unfolding f [symmetric] by (auto simp: update_component_def and_then_Inr Let_def)
    moreover have "keyed_rows st' \<and> rows_ok st'"
      using update_component_rows [OF u assms(2,3)] by simp
    ultimately show ?thesis using that [OF i] by blast
  qed
qed

lemma linked_fields:
  "co_id (linked idmap ds ws m x) = co_id x" "component_in w n (linked idmap ds ws m x) = component_in w n x"
  "co_origin_id (linked idmap ds ws m x) = co_origin_id x" "co_kind (linked idmap ds ws m x) = co_kind x"
  "co_name (linked idmap ds ws m x) = co_name x" "co_description (linked idmap ds ws m x) = co_description x"
  by (simp_all add: linked_def component_in_def split: option.splits)

lemma linked_Cons:
  assumes "\<forall>d' \<in> set ds. map_of idmap (co_id d') \<noteq> map_of idmap (co_id d)"
  shows "linked idmap ds ws m (linked idmap [d] ws m x) = linked idmap (d # ds) ws m x"
proof (cases "component_in ws m x \<and> map_of idmap (co_id d) = Some (co_id x) \<and> forked_parent idmap d \<noteq> None")
  case True
  then have "find (\<lambda>d'. component_in ws m x \<and> map_of idmap (co_id d') = Some (co_id x) \<and> forked_parent idmap d' \<noteq> None) ds = None"
    using assms by (auto simp: find_None_iff)
  with True show ?thesis by (simp add: linked_def component_in_def)
next
  case False
  then have "linked idmap [d] ws m x = x" by (simp only: linked_def find.simps if_not_P [OF False] if_False option.case)
  then show ?thesis by (simp only: linked_def find.simps if_not_P [OF False] if_False)
qed

lemma linked_components:
  assumes "insert_all (link_parent ws m idmap) ds st = Inr st'" and "keyed_rows st" and "rows_ok st"
    and "distinct (map (\<lambda>d. map_of idmap (co_id d)) ds)"
  shows "keyed_rows st' \<and> rows_ok st' \<and> st' = st\<lparr>az_components := map (linked idmap ds ws m) (az_components st)\<rparr>"
  using assms
proof (induction ds arbitrary: st)
  case Nil
  have "linked idmap [] ws m = (\<lambda>x. x)" by (simp add: fun_eq_iff linked_def)
  with Nil show ?case by simp
next
  case (Cons d ds)
  from Cons.prems(1) obtain s where s: "link_parent ws m idmap d st = Inr s" "insert_all (link_parent ws m idmap) ds s = Inr st'"
    by (auto simp: and_then_Inr)
  from link_parent_Inr [OF s(1) Cons.prems(2,3)] have one: "keyed_rows s" "rows_ok s"
    "s = st\<lparr>az_components := map (linked idmap [d] ws m) (az_components st)\<rparr>" by metis+
  have "map_of idmap (co_id d) \<notin> (\<lambda>d. map_of idmap (co_id d)) ` set ds" using Cons.prems(4) by simp
  then have "\<forall>d' \<in> set ds. map_of idmap (co_id d') \<noteq> map_of idmap (co_id d)" by (metis imageI)
  from linked_Cons [OF this] have "linked idmap ds ws m \<circ> linked idmap [d] ws m = linked idmap (d # ds) ws m"
    by (simp add: fun_eq_iff)
  moreover have "distinct (map (\<lambda>d. map_of idmap (co_id d)) ds)" using Cons.prems(4) by simp
  note IH = Cons.IH [OF s(2) one(1,2) this]
  from IH have "st' = s\<lparr>az_components := map (linked idmap ds ws m) (az_components s)\<rparr>" by blast
  ultimately have "st' = st\<lparr>az_components := map (linked idmap (d # ds) ws m) (az_components st)\<rparr>"
    by (simp add: one(3))
  with IH show ?case by blast
qed

section \<open>The rows of a fork\<close>

definition fork_component :: "arch_env \<Rightarrow> string \<Rightarrow> string \<Rightarrow> arch_component list \<Rightarrow> nat \<Rightarrow> arch_component" where
  "fork_component e ws m cs i = (forked_component e ws m (i, cs ! i))\<lparr>co_parent_id := forked_parent (fork_ids e cs) (cs ! i)\<rparr>"

lemma inserted_relations: "insert_all insert_relation xs s = Inr s' \<Longrightarrow> s' = s\<lparr>az_relations := az_relations s @ xs\<rparr>"
proof (induction xs arbitrary: s)
  case (Cons x xs)
  then obtain s1 where s1: "insert_relation x s = Inr s1" "insert_all insert_relation xs s1 = Inr s'" by (auto simp: and_then_Inr)
  with Cons.IH [OF s1(2)] insert_relation_rows(1) [OF s1(1)] show ?case by simp
qed simp

lemma fork_rows_Inr:
  assumes "fork_rows e ws m cs rs ms st = Inr st'"
  obtains st1 st2 rs' ms' where
    "insert_all insert_component (copies e ws m cs) st = Inr st1"
    "insert_all (link_parent ws m (fork_ids e cs)) cs st1 = Inr st2"
    "map_err (forked_relation e ws m (fork_ids e cs) (Suc (length cs))) (List.enumerate 0 rs) = Inr rs'"
    "map_err (forked_mapping e ws (fork_ids e cs) (Suc (length cs + length rs))) (List.enumerate 0 ms) = Inr ms'"
    "insert_all insert_mapping ms' (st2\<lparr>az_relations := az_relations st2 @ rs'\<rparr>) = Inr st'"
    "insert_all insert_relation rs' st2 = Inr (st2\<lparr>az_relations := az_relations st2 @ rs'\<rparr>)"
proof -
  from assms obtain st1 st2 rs' st3 ms' where
    "insert_all insert_component (copies e ws m cs) st = Inr st1"
    "insert_all (link_parent ws m (fork_ids e cs)) cs st1 = Inr st2"
    "map_err (forked_relation e ws m (fork_ids e cs) (Suc (length cs))) (List.enumerate 0 rs) = Inr rs'"
    "map_err (forked_mapping e ws (fork_ids e cs) (Suc (length cs + length rs))) (List.enumerate 0 ms) = Inr ms'"
    and ms: "insert_all insert_mapping ms' st3 = Inr st'" and rs: "insert_all insert_relation rs' st2 = Inr st3"
    unfolding fork_rows_def Let_def copies_def by (auto simp: and_then_Inr)
  with inserted_relations [OF rs] that show thesis by simp
qed

lemma inserted_mappings: "insert_all insert_mapping xs s = Inr s' \<Longrightarrow> s' = s\<lparr>az_mappings := az_mappings s @ xs\<rparr>"
proof (induction xs arbitrary: s)
  case (Cons x xs)
  then obtain s1 where s1: "insert_mapping x s = Inr s1" "insert_all insert_mapping xs s1 = Inr s'" by (auto simp: and_then_Inr)
  with Cons.IH [OF s1(2)] insert_mapping_rows(1) [OF s1(1)] show ?case by simp
qed simp

section \<open>The source of a fork\<close>

lemma in_order_set [simp]: "set (in_order cs) = set cs"
  by (simp add: in_order_def)

lemma in_order_ids: "distinct (map co_id (in_order cs)) = distinct (map co_id cs)"
  by (rule mset_eq_imp_distinct_iff) (simp add: in_order_def)

lemma source_components:
  assumes "arch_ok st"
  shows "set (arch_components st ws src) = {c \<in> set (az_components st). component_in ws src c}"
    and "distinct (map co_id (arch_components st ws src))"
    and "c \<in> set (arch_components st ws src) \<Longrightarrow> co_parent_id c = Some p \<Longrightarrow>
      p \<noteq> [] \<and> (\<exists>d \<in> set (arch_components st ws src). co_id d = p)"
proof -
  show members: "set (arch_components st ws src) = {c \<in> set (az_components st). component_in ws src c}"
    by (auto simp: arch_components_def)
  show "distinct (map co_id (arch_components st ws src))"
    unfolding arch_components_def in_order_ids by (rule distinct_map_filter) (rule arch_okD(1) [OF assms])
  assume c: "c \<in> set (arch_components st ws src)" and p: "co_parent_id c = Some p"
  then have "component_known st ws src p" using parent_known [OF assms _ _ p] members by auto
  then obtain d where d: "d \<in> set (az_components st)" "component_in ws src d" "co_id d = p" by (auto simp: known_iff)
  with members arch_okD(3) [OF assms d(1)] show "p \<noteq> [] \<and> (\<exists>d \<in> set (arch_components st ws src). co_id d = p)"
    by auto
qed

text \<open>A list of components closed under parents, with distinct keys.\<close>

definition closed_list :: "arch_component list \<Rightarrow> bool" where
  "closed_list cs = (distinct (map co_id cs) \<and>
     (\<forall>c \<in> set cs. \<forall>p. co_parent_id c = Some p \<longrightarrow> p \<noteq> [] \<and> (\<exists>d \<in> set cs. co_id d = p)))"

lemma source_closed: "arch_ok st \<Longrightarrow> closed_list (arch_components st ws src)"
  using source_components [of st] unfolding closed_list_def by blast

lemma closed_parent:
  assumes "closed_list cs" and "i < length cs" and "co_parent_id (cs ! i) = Some p"
  obtains j where "j < length cs" "co_id (cs ! j) = p" "forked_parent (fork_ids e cs) (cs ! i) = Some (nid e j)"
proof -
  have "cs ! i \<in> set cs" using assms(2) by simp
  with assms(1,3) obtain d where d: "p \<noteq> []" "d \<in> set cs" "co_id d = p" unfolding closed_list_def by blast
  then obtain j where j: "j < length cs" "cs ! j = d" by (auto simp: in_set_conv_nth)
  with d fork_ids_lookup [of cs j e] assms(1) have "map_of (fork_ids e cs) p = Some (nid e j)" by (simp add: closed_list_def)
  with d j assms(3) that show ?thesis by (simp add: forked_parent_def)
qed

lemma no_parent: "co_parent_id c = None \<Longrightarrow> forked_parent idmap c = None"
  by (simp add: forked_parent_def)

section \<open>The tables after a fork\<close>

lemma linked_copy:
  assumes "distinct (map co_id cs)" and "i < length cs" and "inj_on (nid e) {..<length cs}"
  shows "linked (fork_ids e cs) cs ws m (forked_component e ws m (i, cs ! i)) = fork_component e ws m cs i"
proof -
  let ?x = "forked_component e ws m (i, cs ! i)"
  let ?P = "\<lambda>d. component_in ws m ?x \<and> map_of (fork_ids e cs) (co_id d) = Some (co_id ?x) \<and> forked_parent (fork_ids e cs) d \<noteq> None"
  have id: "co_id ?x = nid e i" by (simp add: copy_fields nid_def)
  have only: "d = cs ! i" if d: "d \<in> set cs" "map_of (fork_ids e cs) (co_id d) = Some (nid e i)" for d
  proof -
    from d(1) obtain j where j: "j < length cs" "cs ! j = d" by (auto simp: in_set_conv_nth)
    with fork_ids_lookup [OF assms(1) j(1), of e] d(2) have "nid e j = nid e i" by simp
    then have "j = i" using assms(2,3) j(1) by (auto simp: inj_on_def)
    with j show ?thesis by simp
  qed
  have self: "map_of (fork_ids e cs) (co_id (cs ! i)) = Some (nid e i)" by (rule fork_ids_lookup [OF assms(1,2)])
  show ?thesis
  proof (cases "find ?P cs")
    case None
    then have "forked_parent (fork_ids e cs) (cs ! i) = None"
      using assms(2) self id by (auto simp: find_None_iff copy_fields)
    with None show ?thesis by (simp add: linked_def fork_component_def forked_component_def fresh_component_def)
  next
    case (Some d)
    with find_SomeD [OF Some] only [of d] id have "d = cs ! i" by simp
    with Some show ?thesis by (simp add: linked_def fork_component_def)
  qed
qed

lemma linked_old:
  assumes "\<not> component_in ws m x"
  shows "linked idmap ds ws m x = x"
  using assms by (simp add: linked_def find_None_iff split: option.splits) (auto dest: find_SomeD)

lemma fork_tables:
  assumes ok: "arch_ok st" and cs: "closed_list cs" "set cs \<subseteq> set (az_components st)"
    and fresh: "\<forall>i. ae_fresh e i \<noteq> []" and free: "\<forall>c \<in> set (az_components st). \<not> component_in ws m c"
    and run: "fork_rows e ws m cs rs ms st = Inr st'"
  obtains rs' ms' where
    "map_err (forked_relation e ws m (fork_ids e cs) (Suc (length cs))) (List.enumerate 0 rs) = Inr rs'"
    "map_err (forked_mapping e ws (fork_ids e cs) (Suc (length cs + length rs))) (List.enumerate 0 ms) = Inr ms'"
    "st' = st\<lparr>az_components := az_components st @ map (fork_component e ws m cs) [0..<length cs],
      az_relations := az_relations st @ rs', az_mappings := az_mappings st @ ms'\<rparr>"
    "inj_on (nid e) {..<length cs}" "\<forall>i < length cs. nid e i \<notin> co_id ` set (az_components st)"
    "keyed_rows st'" "rows_ok st'"
proof -
  from run obtain st1 st2 rs' ms' where
    ins: "insert_all insert_component (copies e ws m cs) st = Inr st1"
    and link: "insert_all (link_parent ws m (fork_ids e cs)) cs st1 = Inr st2"
    and rs': "map_err (forked_relation e ws m (fork_ids e cs) (Suc (length cs))) (List.enumerate 0 rs) = Inr rs'"
    and ms': "map_err (forked_mapping e ws (fork_ids e cs) (Suc (length cs + length rs))) (List.enumerate 0 ms) = Inr ms'"
    and maps: "insert_all insert_mapping ms' (st2\<lparr>az_relations := az_relations st2 @ rs'\<rparr>) = Inr st'"
    and rels: "insert_all insert_relation rs' st2 = Inr (st2\<lparr>az_relations := az_relations st2 @ rs'\<rparr>)"
    by (rule fork_rows_Inr)
  from ok have start: "keyed_rows st" "rows_ok st" by (simp_all add: arch_ok_def)
  have named: "\<forall>x \<in> set (copies e ws m cs). co_id x \<noteq> []"
    using fresh by (auto simp: copies_def copy_fields in_set_enumerate_eq)
  note one = inserted_components [OF ins start named]
  have ids: "map co_id (copies e ws m cs) = map (nid e) [0..<length cs]"
    by (rule nth_equalityI) (simp_all add: copies_nth copy_fields nid_def)
  have "distinct (map co_id (az_components st @ copies e ws m cs))" using one(1,2) by (simp add: keyed_rows_def)
  then have "distinct (map (nid e) [0..<length cs])" and apart: "co_id ` set (az_components st) \<inter> nid e ` {..<length cs} = {}"
    unfolding map_append ids distinct_append by (auto simp: lessThan_atLeast0)
  then have inj: "inj_on (nid e) {..<length cs}" by (simp add: distinct_map lessThan_atLeast0)
  have dist: "distinct (map co_id cs)" using cs(1) by (simp add: closed_list_def)
  have "map (\<lambda>d. map_of (fork_ids e cs) (co_id d)) cs = map (\<lambda>i. Some (nid e i)) [0..<length cs]"
    by (rule nth_equalityI) (simp_all add: fork_ids_lookup [OF dist])
  moreover have "distinct (map (\<lambda>i. Some (nid e i)) [0..<length cs])" using inj by (auto simp: distinct_map inj_on_def)
  ultimately have "distinct (map (\<lambda>d. map_of (fork_ids e cs) (co_id d)) cs)" by simp
  note two = linked_components [OF link one(2,3) this]
  have "map (linked (fork_ids e cs) cs ws m) (copies e ws m cs) = map (fork_component e ws m cs) [0..<length cs]"
    by (rule nth_equalityI) (simp_all add: copies_nth linked_copy [OF dist _ inj])
  moreover have "map (linked (fork_ids e cs) cs ws m) (az_components st) = az_components st"
    using free linked_old by (intro map_idI) blast
  ultimately have st2: "st2 = st\<lparr>az_components := az_components st @ map (fork_component e ws m cs) [0..<length cs]\<rparr>"
    using two one(1) by simp
  let ?st3 = "st2\<lparr>az_relations := az_relations st2 @ rs'\<rparr>"
  have three: "keyed_rows ?st3 \<and> rows_ok ?st3"
    using two by (rule_tac insert_all_keeps [OF rels]) (auto dest: insert_relation_rows(2,3))
  have "keyed_rows st' \<and> rows_ok st'"
    using three by (rule_tac insert_all_keeps [OF maps]) (auto dest: insert_mapping_rows(2,3))
  moreover have "st' = st\<lparr>az_components := az_components st @ map (fork_component e ws m cs) [0..<length cs],
      az_relations := az_relations st @ rs', az_mappings := az_mappings st @ ms'\<rparr>"
    using inserted_mappings [OF maps] by (simp add: st2)
  moreover have "\<forall>i < length cs. nid e i \<notin> co_id ` set (az_components st)" using apart by auto
  ultimately show ?thesis using that [OF rs' ms' _ inj] by blast
qed

section \<open>A fork keeps the tables valid\<close>

lemma fork_component_fields:
  "co_id (fork_component e ws m cs i) = nid e i" "component_in w n (fork_component e ws m cs i) \<longleftrightarrow> w = ws \<and> n = m"
  "co_origin_id (fork_component e ws m cs i) = Some (co_id (cs ! i))"
  "co_parent_id (fork_component e ws m cs i) = forked_parent (fork_ids e cs) (cs ! i)"
  "co_kind (fork_component e ws m cs i) = co_kind (cs ! i)" "co_name (fork_component e ws m cs i) = co_name (cs ! i)"
  "co_description (fork_component e ws m cs i) = co_description (cs ! i)"
  by (auto simp: fork_component_def copy_fields nid_def component_in_def forked_component_def fresh_component_def)

lemma fork_ranked:
  assumes rank: "ranked st rank" and rows: "rows_ok st" and cs: "closed_list cs" "set cs \<subseteq> set (az_components st)"
    and inj: "inj_on (nid e) {..<length cs}" and new: "\<forall>i < length cs. nid e i \<notin> co_id ` set (az_components st)"
    and st': "az_components st' = az_components st @ map (fork_component e ws m cs) [0..<length cs]"
  shows "\<exists>rank'. ranked st' rank'"
proof -
  define rank' where "rank' j = (if j \<in> nid e ` {..<length cs}
    then rank (co_id (cs ! the_inv_into {..<length cs} (nid e) j)) else rank j)" for j
  have copy: "rank' (nid e i) = rank (co_id (cs ! i))" if "i < length cs" for i
    using that the_inv_into_f_f [OF inj, of i] by (simp add: rank'_def)
  have old: "rank' j = rank j" if "j \<in> co_id ` set (az_components st)" for j
  proof -
    have "j \<notin> nid e ` {..<length cs}"
    proof
      assume "j \<in> nid e ` {..<length cs}"
      then obtain i where "i < length cs" "j = nid e i" by auto
      with new that show False by simp
    qed
    then show ?thesis by (simp add: rank'_def)
  qed
  have "rank' p < rank' (co_id x)" if x: "x \<in> set (az_components st')" "co_parent_id x = Some p" for x p
  proof (cases "x \<in> set (az_components st)")
    case True
    then have "rank p < rank (co_id x)" using rank x(2) by (simp add: ranked_def)
    with old [OF parents_known [OF rows True x(2)]] old [of "co_id x"] True show ?thesis by simp
  next
    case False
    with x(1) obtain i where i: "i < length cs" "x = fork_component e ws m cs i" by (auto simp: st')
    show ?thesis
    proof (cases "co_parent_id (cs ! i)")
      case None
      with i x(2) show ?thesis by (simp add: fork_component_fields no_parent)
    next
      case (Some q)
      from closed_parent [OF cs(1) i(1) Some] obtain j where
        j: "j < length cs" "co_id (cs ! j) = q" "forked_parent (fork_ids e cs) (cs ! i) = Some (nid e j)" by metis
      have "cs ! i \<in> set (az_components st)" using i(1) cs(2) by auto
      with rank Some have "rank q < rank (co_id (cs ! i))" by (simp add: ranked_def)
      moreover have "p = nid e j" using i(2) x(2) j(3) by (simp add: fork_component_fields)
      ultimately show ?thesis using i copy [OF i(1)] copy [OF j(1)] j(2) by (simp add: fork_component_fields)
    qed
  qed
  then show ?thesis unfolding ranked_def by blast
qed

lemma fork_rows_ok:
  assumes ok: "arch_ok st" and cs: "closed_list cs" "set cs \<subseteq> set (az_components st)"
    and fresh: "\<forall>i. ae_fresh e i \<noteq> []" and free: "\<forall>c \<in> set (az_components st). \<not> component_in ws m c"
    and run: "fork_rows e ws m cs rs ms st = Inr st'"
  shows "arch_ok st'"
proof -
  from ok obtain rank where rank: "rows_ok st" "ranked st rank" by (rule okE)
  from fork_tables [OF assms] obtain rs' ms' where
    st': "st' = st\<lparr>az_components := az_components st @ map (fork_component e ws m cs) [0..<length cs],
      az_relations := az_relations st @ rs', az_mappings := az_mappings st @ ms'\<rparr>"
    and inj: "inj_on (nid e) {..<length cs}" "\<forall>i < length cs. nid e i \<notin> co_id ` set (az_components st)"
    and rows: "keyed_rows st'" "rows_ok st'" by metis
  from fork_ranked [OF rank(2,1) cs inj, where st' = st' and ws = ws and m = m] st' have "\<exists>rank'. ranked st' rank'" by simp
  with rows show ?thesis by (auto simp: arch_ok_def)
qed

lemma fork_model_Inr:
  assumes "arch_fork_model e ws source name description st = Inr (row, st')"
  obtains w st1 st2 sid where "arch_workspace_row st ws = Some w" "sid = current_snapshot (ws_repo_id w) (ae_graph e)"
    and "row = proposal_row e ws source name description sid (build_baseline (arch_components st ws source)
      (arch_relations st ws source) (mappings_of st ws (arch_components st ws source)) sid (ae_now e))"
    and "insert_model row st = Inr st1"
    and "fork_rows e ws (mo_id row) (arch_components st ws source) (arch_relations st ws source)
      (concat (map (\<lambda>c. get_or (mappings_of st ws (arch_components st ws source)) (co_id c) []) (arch_components st ws source))) st1 =
      Inr st2"
    and "(case arch_layout st2 ws source of None \<Rightarrow> Inr st2
      | Some l \<Rightarrow> upsert_layout (forked_layout e ws (mo_id row) (fork_ids e (arch_components st ws source)) l) st2) = Inr st'"
  using assms unfolding arch_fork_model_def Let_def
  by (auto simp: and_then_Inr split: option.splits)

lemma new_model_empty:
  assumes "arch_ok st" and "insert_model row st = Inr st1"
  shows "az_components st1 = az_components st" and "c \<in> set (az_components st) \<Longrightarrow> \<not> component_in ws (mo_id row) c"
proof -
  from assms(2) have "mo_id row \<notin> mo_id ` set (az_models st)" by (auto simp: insert_model_def and_then_Inr)
  moreover assume "c \<in> set (az_components st)"
  then have "model_known st (co_workspace_id c) (co_model_id c)" using arch_okD(2) [OF assms(1)] by (auto simp: component_ok_def)
  then have "co_model_id c \<in> mo_id ` set (az_models st)" unfolding model_known_def list_ex_iff by (metis imageI)
  ultimately show "\<not> component_in ws (mo_id row) c" by (auto simp: component_in_def)
qed (use assms(2) in \<open>auto simp: insert_model_def and_then_Inr\<close>)

lemma fork_model_ok:
  assumes ok: "arch_ok st" and fresh: "\<forall>i. ae_fresh e i \<noteq> []"
    and run: "arch_fork_model e ws source name description st = Inr (row, st')"
  shows "arch_ok st'"
proof -
  from run obtain st1 st2 where m: "insert_model row st = Inr st1"
    and rows: "fork_rows e ws (mo_id row) (arch_components st ws source) (arch_relations st ws source)
      (concat (map (\<lambda>c. get_or (mappings_of st ws (arch_components st ws source)) (co_id c) []) (arch_components st ws source))) st1 =
      Inr st2"
    and lay: "(case arch_layout st2 ws source of None \<Rightarrow> Inr st2
      | Some l \<Rightarrow> upsert_layout (forked_layout e ws (mo_id row) (fork_ids e (arch_components st ws source)) l) st2) = Inr st'"
    by (rule fork_model_Inr)
  note empty = new_model_empty [OF ok m]
  have "arch_ok st1" by (rule insert_model_ok [OF m ok])
  then have "arch_ok st2"
    using source_components(1) [OF ok] empty
    by (intro fork_rows_ok [OF _ source_closed [OF ok] _ fresh _ rows]) auto
  with lay show ?thesis by (auto split: option.splits intro: upsert_layout_ok)
qed

end
