(* ===== verification/Machine.thy ===== *)
theory Machine
  imports Py
begin

text \<open>
  Machines and their invariants: the interface behind which the planes of the store state that every
  sequence of operations keeps their tables valid.
\<close>

text \<open>A machine whose steps keep an invariant: every run from a state that has it ends in one that has it.\<close>

locale safe_machine =
  fixes step :: "'s \<Rightarrow> 's \<Rightarrow> bool" and good :: "'s \<Rightarrow> bool"
  assumes step_good: "step s t \<Longrightarrow> good s \<Longrightarrow> good t"
begin

lemma run_good: "step\<^sup>*\<^sup>* s t \<Longrightarrow> good s \<Longrightarrow> good t"
  by (induction rule: rtranclp_induct) (auto intro: step_good)

end

end
