(* ===== verification/Arch_Machine.thy ===== *)
theory Arch_Machine
  imports Arch_Fork Machine
begin

text \<open>
  The architecture plane as a machine: any sequence of mutations, by any change, in any environment. The
  locale is the contract of a machine whose steps keep an invariant; the interpretation discharges it
  for the mutations and the valid tables.
\<close>

section \<open>The mutations keep the tables valid\<close>

lemma written_Inr: "written f i r = Inr ((d, j), st') \<longleftrightarrow> (\<exists>x. r = Inr (x, st') \<and> d = f x \<and> j = i)"
  by (auto simp: written_def and_then_Inr)

lemma require_component_Inr: "require_component st ws m c = Inr u \<longleftrightarrow> component_known st ws m c"
  by (auto simp: require_component_def known_Some)

lemma fresh_component_fields:
  "co_id (fresh_component e i ws m k n d p) = i" "co_parent_id (fresh_component e i ws m k n d p) = p"
  by (simp_all add: fresh_component_def)

text \<open>A parent that is already there is not the row being inserted.\<close>

lemma insert_child_ok:
  assumes "arch_ok st" and "insert_component (fresh_component e i ws m k n d p) st = Inr st'" and "i \<noteq> []"
    and "validate_arch_parent st ws m p = Inr u"
  shows "arch_ok st'"
proof (rule insert_component_ok [OF assms(2,1)])
  show "co_id (fresh_component e i ws m k n d p) \<noteq> []" using assms(3) by (simp add: fresh_component_fields)
  show "co_parent_id (fresh_component e i ws m k n d p) \<noteq> Some (co_id (fresh_component e i ws m k n d p))"
  proof
    assume "co_parent_id (fresh_component e i ws m k n d p) = Some (co_id (fresh_component e i ws m k n d p))"
    then have "p = Some i" by (simp add: fresh_component_fields)
    with assms(4) have "component_known st ws m i" by (simp add: validate_arch_parent_def require_component_Inr)
    then obtain x where "x \<in> set (az_components st)" "co_id x = i" by (auto simp: known_iff)
    then have "i \<in> co_id ` set (az_components st)" by blast
    with insert_component_Inr(2) [OF assms(2)] show False by (simp add: fresh_component_fields)
  qed
qed

lemma create_workspace_ok: "arch_create_workspace e repo n d st = Inr (w, st') \<Longrightarrow> arch_ok st \<Longrightarrow> arch_ok st'"
  by (auto simp: arch_create_workspace_def and_then_Inr Let_def intro: insert_model_ok insert_workspace_ok)

lemma write_component_ok:
  assumes "write_component e ws m k n d p st = Inr (r, st')" and "arch_ok st" and "\<forall>i. ae_fresh e i \<noteq> []"
  shows "arch_ok st'"
proof -
  from assms(1) obtain u where "validate_arch_parent st ws m p = Inr u"
    "insert_component (fresh_component e (ae_fresh e 0) ws m k n d p) st = Inr st'"
    by (cases r) (auto simp: write_component_def and_then_Inr written_Inr arch_create_component_def Let_def)
  with assms(2,3) show ?thesis by (blast intro: insert_child_ok)
qed

lemma write_batch_component_ok:
  assumes "write_batch_component e repo ws m k n d p es st = Inr (r, st')" and "arch_ok st" and "\<forall>i. ae_fresh e i \<noteq> []"
  shows "arch_ok st'"
proof -
  from assms(1) obtain u st1 ms where parent: "validate_arch_parent st ws m p = Inr u"
    and c: "insert_component (fresh_component e (ae_fresh e 0) ws m k n d p) st = Inr st1"
    and ms: "insert_all insert_mapping ms st1 = Inr st'"
    by (cases r) (auto simp: write_batch_component_def and_then_Inr written_Inr arch_batch_component_def Let_def)
  from insert_child_ok [OF assms(2) c _ parent] assms(3) have "arch_ok st1" by blast
  from insert_all_keeps [OF ms, where P = arch_ok, OF this] show ?thesis by (blast intro: insert_mapping_ok)
qed

lemma updated_fields:
  "co_id (updated_component e u x) = co_id x" "co_workspace_id (updated_component e u x) = co_workspace_id x"
  "co_model_id (updated_component e u x) = co_model_id x"
  "co_parent_id (updated_component e u x) = (if cu_clear_parent u then None
     else case cu_parent_id u of None \<Rightarrow> co_parent_id x | Some p \<Rightarrow> Some p)"
  by (simp_all add: updated_component_def)

lemma write_update_Inr:
  assumes "write_update e ws m c u st = Inr (r, st')"
  shows "update_component ws m c (updated_component e u) st = Inr st'"
    and "cu_parent_id u = Some p \<Longrightarrow> component_known st ws m p \<and> \<not> meets st ws m c [] p"
  using assms
  by (cases r, auto simp: write_update_def and_then_Inr written_Inr arch_update_component_def validate_arch_parent_def
      require_component_Inr assert_no_arch_cycle_def split: option.splits)+

lemma write_update_ok:
  assumes w: "write_update e ws m c u st = Inr (r, st')" and ok: "arch_ok st"
  shows "arch_ok st'"
proof -
  note upd = write_update_Inr [OF w]
  from ok obtain rank where start: "keyed_rows st" "rows_ok st" "ranked st rank" by (rule okE)
  have rows: "keyed_rows st' \<and> rows_ok st' \<and> az_components st' =
      map (\<lambda>x. if component_in ws m x \<and> co_id x = c then updated_component e u x else x) (az_components st)"
    using update_component_rows [OF upd(1) start(1,2)] updated_fields(1-3) by blast
  then have comps: "\<exists>x \<in> set (az_components st). co_id x' = co_id x \<and> (co_parent_id x' = co_parent_id x \<or>
      (co_id x = c \<and> co_parent_id x' = co_parent_id (updated_component e u x)))" if "x' \<in> set (az_components st')" for x'
    using that by (auto simp: updated_fields(1) split: if_splits)
  have "\<exists>rank'. ranked st' rank'"
  proof (cases "cu_parent_id u")
    case None
    have "ranked st' rank"
      unfolding ranked_def
    proof (intro ballI allI impI)
      fix x' q assume x': "x' \<in> set (az_components st')" "co_parent_id x' = Some q"
      from comps [OF x'(1)] x'(2) None obtain x where "x \<in> set (az_components st)" "co_id x' = co_id x" "co_parent_id x = Some q"
        by (auto simp: updated_fields(4) split: if_splits)
      with start(3) show "rank q < rank (co_id x')" by (simp add: ranked_def)
    qed
    then show ?thesis by blast
  next
    case (Some p)
    with upd(2) have "(p, c) \<notin> (up st)\<^sup>*" using meets_exact [OF ok] by blast
    moreover have "\<forall>x' \<in> set (az_components st'). \<exists>x \<in> set (az_components st). co_id x' = co_id x \<and>
        (co_parent_id x' = co_parent_id x \<or> co_parent_id x' = None \<or> (co_id x = c \<and> co_parent_id x' = Some p))"
    proof
      fix x' assume "x' \<in> set (az_components st')"
      from comps [OF this] obtain x where x: "x \<in> set (az_components st)" "co_id x' = co_id x"
        and par: "co_parent_id x' = co_parent_id x \<or> (co_id x = c \<and> co_parent_id x' = co_parent_id (updated_component e u x))"
        by blast
      with Some have "co_parent_id x' = co_parent_id x \<or> co_parent_id x' = None \<or> (co_id x = c \<and> co_parent_id x' = Some p)"
        by (auto simp: updated_fields(4))
      with x show "\<exists>x \<in> set (az_components st). co_id x' = co_id x \<and>
        (co_parent_id x' = co_parent_id x \<or> co_parent_id x' = None \<or> (co_id x = c \<and> co_parent_id x' = Some p))" by blast
    qed
    ultimately show ?thesis using reparent_ranked [OF ok start(3)] by blast
  qed
  with rows show ?thesis by (auto simp: arch_ok_def)
qed

lemma write_delete_ok:
  assumes "write_delete ws m c subtree st = Some (Inr (r, st'))" and "arch_ok st"
  shows "arch_ok st'"
proof -
  from assms(1) have known: "component_known st ws m c" by (auto simp: write_delete_def known_Some split: if_splits)
  from assms(1) obtain n where "arch_delete_component ws m c subtree st = Some (Inr (n, st'))"
    by (cases r) (auto simp: write_delete_def written_Inr split: if_splits)
  then show ?thesis
    using delete_subtree_ok [OF assms(2) known] delete_one_ok [OF assms(2) _ known]
    by (cases subtree) (auto simp: arch_delete_component_def)
qed

lemma dropped_relations_ok:
  "arch_ok st \<Longrightarrow> arch_ok (st\<lparr>az_relations := filter Q (az_relations st)\<rparr>)"
  by (rule filtered_ok [where P = "\<lambda>x. True" and Q = Q and R = "\<lambda>x. True"]) simp_all

lemma dropped_mappings_ok:
  "arch_ok st \<Longrightarrow> arch_ok (st\<lparr>az_mappings := filter R (az_mappings st)\<rparr>)"
  by (rule filtered_ok [where P = "\<lambda>x. True" and Q = "\<lambda>x. True" and R = R]) simp_all

lemma write_relation_ok: "write_relation e ws m k s d l st = Inr (r, st') \<Longrightarrow> arch_ok st \<Longrightarrow> arch_ok st'"
  by (cases r) (auto simp: write_relation_def and_then_Inr written_Inr arch_create_relation_def Let_def
      intro: insert_relation_ok)

lemma relation_updated_ok:
  assumes "arch_ok st" and "\<And>r. rl_id (f r) = rl_id r \<and> rl_workspace_id (f r) = rl_workspace_id r \<and>
      rl_model_id (f r) = rl_model_id r \<and> rl_src_id (f r) = rl_src_id r \<and> rl_dst_id (f r) = rl_dst_id r"
  shows "arch_ok (st\<lparr>az_relations := map f (az_relations st)\<rparr>)"
proof -
  let ?st = "st\<lparr>az_relations := map f (az_relations st)\<rparr>"
  have grows: "grows st ?st" by (simp add: grows_same)
  have "rl_id \<circ> f = rl_id" using assms(2) by (simp add: fun_eq_iff)
  then have ids: "map rl_id (map f (az_relations st)) = map rl_id (az_relations st)" by simp
  have "relation_ok ?st (f r)" if "r \<in> set (az_relations st)" for r
    using grown_rows(2) [OF grows] arch_okD(4) [OF assms(1) that] assms(2) by (simp add: relation_ok_def)
  then have "rows_ok ?st" using assms(1) grown_lists [OF grows] by (auto simp: arch_ok_def rows_ok_def list_all_iff)
  moreover have "keyed_rows ?st" using assms(1) by (simp add: arch_ok_def keyed_rows_def ids del: map_map)
  ultimately show ?thesis using assms(1) by (auto simp: arch_ok_def ranked_def)
qed

lemma write_relation_update_ok:
  assumes "write_relation_update e ws m i k l clr st = Inr (r, st')" and "arch_ok st"
  shows "arch_ok st'"
proof -
  let ?f = "\<lambda>x. if rl_workspace_id x = ws \<and> rl_model_id x = m \<and> rl_id x = i then updated_relation e k l clr x else x"
  from assms(1) have "st' = st\<lparr>az_relations := map ?f (az_relations st)\<rparr>"
    by (cases r) (auto simp: write_relation_update_def and_then_Inr written_Inr arch_update_relation_def Let_def
        split: option.splits)
  with relation_updated_ok [OF assms(2), of ?f] show ?thesis by (simp add: updated_relation_def)
qed

lemma write_mappings_ok: "write_mappings e repo ws b c es st = Inr (r, st') \<Longrightarrow> arch_ok st \<Longrightarrow> arch_ok st'"
proof -
  assume w: "write_mappings e repo ws b c es st = Inr (r, st')" and ok: "arch_ok st"
  from w obtain ms where "insert_all insert_mapping ms st = Inr st'"
    by (cases r) (auto simp: write_mappings_def and_then_Inr written_Inr arch_batch_mappings_def Let_def split: option.splits)
  from insert_all_keeps [OF this, where P = arch_ok, OF ok] show "arch_ok st'" by (blast intro: insert_mapping_ok)
qed

lemma write_layout_ok: "write_layout e ws m l t st = Inr (r, st') \<Longrightarrow> arch_ok st \<Longrightarrow> arch_ok st'"
  by (cases r) (auto simp: write_layout_def written_Inr arch_put_layout_def and_then_Inr intro: upsert_layout_ok)

lemma write_fork_ok:
  assumes "write_fork e ws src n d st = Inr (r, st')" and "arch_ok st" and "\<forall>i. ae_fresh e i \<noteq> []"
  shows "arch_ok st'"
  using assms fork_model_ok by (auto simp: write_fork_def and_then_Inr split: option.splits)

lemma write_op_ok:
  assumes w: "write_op e repo ws op st = Some (Inr (r, st'))" and ok: "arch_ok st" and fresh: "\<forall>i. ae_fresh e i \<noteq> []"
  shows "arch_ok st'"
proof (cases op)
  case (UpdateComponent m c u)
  with w ok show ?thesis by (auto simp: write_op_def intro: write_update_ok)
next
  case (DeleteComponent m c s)
  with w ok show ?thesis by (auto simp: write_op_def intro: write_delete_ok)
next
  case (DeleteRelation m i)
  with w ok show ?thesis by (auto simp: write_op_def arch_delete_relation_def intro: dropped_relations_ok)
next
  case (DeleteMapping i)
  with w ok show ?thesis
    by (auto simp: write_op_def write_mapping_deletion_def arch_delete_mapping_def split: option.splits intro: dropped_mappings_ok)
next
  case (BatchComponent m k n d p es)
  with w ok fresh show ?thesis by (auto simp: write_op_def intro: write_batch_component_ok)
next
  case (CreateComponent m k n d p)
  with w ok fresh show ?thesis by (auto simp: write_op_def intro: write_component_ok)
next
  case (ForkProposal src n d)
  with w ok fresh show ?thesis by (auto simp: write_op_def intro: write_fork_ok)
next
  case (CreateRelation m k s d l)
  with w ok show ?thesis by (auto simp: write_op_def intro: write_relation_ok)
next
  case (UpdateRelation m i k l clr)
  with w ok show ?thesis by (auto simp: write_op_def intro: write_relation_update_ok)
next
  case (CreateMapping c es)
  with w ok show ?thesis by (auto simp: write_op_def intro: write_mappings_ok)
next
  case (BatchMappings c es)
  with w ok show ?thesis by (auto simp: write_op_def intro: write_mappings_ok)
next
  case (PutLayout m l t)
  with w ok show ?thesis by (auto simp: write_op_def intro: write_layout_ok)
qed (use w in \<open>simp add: write_op_def\<close>)

lemma write_workspace_ok:
  assumes "write_workspace e repo r n d st = Inr (x, s)" and "arch_ok st"
  shows "arch_ok s"
proof -
  from assms(1) obtain w b where w: "arch_create_workspace e r n d st = Inr (w, b)"
    and rest: "(case arch_models b (ws_id w) of [] \<Rightarrow> Inl MissingKey
       | m # _ \<Rightarrow> Inr (([(''workspace'', JObj (workspace_dict w)), (''model'', JObj (model_dict m))], ws_id w, mo_id m), b)) = Inr (x, s)"
    unfolding write_workspace_def and_then_Inr by (auto split: prod.splits)
  have "b = s" using rest by (cases "arch_models b (ws_id w)") simp_all
  with create_workspace_ok [OF w assms(2)] show ?thesis by simp
qed

lemma arch_ref_tables: "snd (arch_ref H ws r st) = st"
  by (simp add: arch_ref_def split: option.splits)

lemma mutation_ok:
  assumes m: "architecture_mutation H e repo ws op st = Some (out, st')" and ok: "arch_ok st" and fresh: "\<forall>i. ae_fresh e i \<noteq> []"
  shows "arch_ok st'"
proof (cases "\<exists>r n d. op = CreateWorkspace r n d")
  case True
  then obtain r n d where op: "op = CreateWorkspace r n d" by blast
  show ?thesis
  proof (cases "write_workspace e repo r n d st")
    case (Inl err)
    with m op ok show ?thesis by (simp add: architecture_mutation_def)
  next
    case (Inr x)
    then obtain result w i s where x: "x = ((result, w, i), s)" by (cases x) auto
    from Inr x have "arch_ok s" using write_workspace_ok ok by blast
    moreover have "st' = s" using m op Inr x arch_ref_tables [of H w "(result, i)" s] by (simp add: architecture_mutation_def)
    ultimately show ?thesis by simp
  qed
next
  case False
  then have "architecture_mutation H e repo ws op st = map_option (\<lambda>out. case out of Inl err \<Rightarrow> (Inl err, st)
      | Inr (r, st') \<Rightarrow> arch_ref H ws r st') (write_in_workspace e repo ws op st)"
    by (cases op) (auto simp: architecture_mutation_def)
  with m obtain res where res: "write_in_workspace e repo ws op st = Some res"
    and out: "(out, st') = (case res of Inl err \<Rightarrow> (Inl err, st) | Inr (r, st') \<Rightarrow> arch_ref H ws r st')" by auto
  show ?thesis
  proof (cases res)
    case (Inl err)
    with out ok show ?thesis by simp
  next
    case (Inr x)
    then obtain r s where x: "x = (r, s)" by (cases x)
    with res Inr have "write_op e repo ws op st = Some (Inr (r, s))"
      by (auto simp: write_in_workspace_def split: option.splits if_splits)
    from write_op_ok [OF this ok fresh] have "arch_ok s" .
    moreover have "st' = s" using out Inr x arch_ref_tables [of H ws r s] by (metis snd_conv old.prod.case old.sum.simps(6))
    ultimately show ?thesis by simp
  qed
qed

section \<open>The machine\<close>

text \<open>Identifiers are drawn at random, and never empty.\<close>

inductive arch_step :: "arch \<Rightarrow> arch \<Rightarrow> bool" where
  mutate: "architecture_mutation H e repo ws op st = Some (out, st') \<Longrightarrow> \<forall>i. ae_fresh e i \<noteq> [] \<Longrightarrow> arch_step st st'"

interpretation architecture: safe_machine arch_step arch_ok
  by unfold_locales (auto elim!: arch_step.cases intro: mutation_ok)

abbreviation arch_reachable :: "arch \<Rightarrow> bool" where
  "arch_reachable st \<equiv> arch_step\<^sup>*\<^sup>* empty_arch st"

lemma empty_arch_ok: "arch_ok empty_arch"
  by (simp add: arch_ok_def keyed_rows_def rows_ok_def ranked_def empty_arch_def)

lemma arch_reachable_ok: "arch_reachable st \<Longrightarrow> arch_ok st"
  using architecture.run_good empty_arch_ok by blast

end
