(* ===== verification/Arch_Diff.thy ===== *)
theory Arch_Diff
  imports Arch_Machine
begin

text \<open>
  The diff of a proposal against its frozen baseline: its dictionaries, and that a proposal just forked
  does not differ from its baseline.
\<close>

section \<open>The dictionaries of the diff\<close>

lemma map_filter_Nil: "(\<And>x. x \<in> set xs \<Longrightarrow> f x = None) \<Longrightarrow> List.map_filter f xs = []"
  by (induction xs) (simp_all add: List.map_filter_simps)

lemma get_mappings_of:
  assumes "distinct (map co_id cs)" and "c \<in> set cs"
  shows "get_or (mappings_of st ws cs) (co_id c) [] = arch_mappings_for_component st ws (co_id c)"
  using dict_of_lookup_inj [OF assms, of "\<lambda>c. arch_mappings_for_component st ws (co_id c)"]
  by (simp add: mappings_of_def get_or_def)

lemma baseline_lookup:
  assumes "distinct (map co_id cs)" and "c \<in> set cs"
  shows "map_of (baseline_by_id (build_baseline cs rs maps sid now)) (co_id c) = Some (baseline_component_of maps c)"
proof -
  let ?bs = "map (baseline_component_of maps) (in_order cs)"
  have "map bc_id ?bs = map co_id (in_order cs)" by (simp add: baseline_component_of_def)
  then have "distinct (map bc_id ?bs)" using assms(1) by (simp add: in_order_ids del: map_map)
  moreover have "baseline_component_of maps c \<in> set ?bs" using assms(2) by simp
  ultimately have "map_of (dict_of bc_id (\<lambda>c. c) ?bs) (bc_id (baseline_component_of maps c)) = Some (baseline_component_of maps c)"
    by (rule dict_of_lookup_inj)
  then show ?thesis by (simp add: baseline_by_id_def build_baseline_def baseline_component_of_def)
qed

lemma baseline_entry:
  "(k, bc) \<in> set (baseline_by_id (build_baseline cs rs maps sid now)) \<Longrightarrow>
    \<exists>c \<in> set cs. k = co_id c \<and> bc = baseline_component_of maps c"
  unfolding baseline_by_id_def by (drule dict_of_member) (auto simp: build_baseline_def baseline_component_of_def)

lemma working_lookup: "distinct (map co_id cs) \<Longrightarrow> c \<in> set cs \<Longrightarrow> map_of (working_by_id cs) (co_id c) = Some c"
  unfolding working_by_id_def by (rule dict_of_lookup_inj)

text \<open>The dictionary of origins has the origins that occur, each with a component that has it.\<close>

lemma remembered:
  "(k, c) \<in> set (remember_origin x d) \<Longrightarrow> (k, c) \<in> set d \<or> (c = x \<and> origin_of x = Some k)"
  "fst ` set (remember_origin x d) = fst ` set d \<union> {k. origin_of x = Some k}"
  using subsetD [OF dict_set_subset]
  by (fastforce simp: remember_origin_def split: option.splits if_splits)
    (auto simp: remember_origin_def set_fst_dict_set map_of_eq_None_iff split: option.splits)

lemma origin_entries:
  "(k, c) \<in> set (fold remember_origin cs d) \<Longrightarrow> (k, c) \<in> set d \<or> (c \<in> set cs \<and> origin_of c = Some k)"
  by (induction cs arbitrary: d) (auto dest: remembered(1))

lemma origin_keys:
  "fst ` set (fold remember_origin cs d) = fst ` set d \<union> {k. \<exists>c \<in> set cs. origin_of c = Some k}"
  by (induction cs arbitrary: d) (auto simp: remembered(2))

lemma working_origins:
  shows "(k, c) \<in> set (working_by_origin cs) \<Longrightarrow> c \<in> set cs \<and> origin_of c = Some k"
    and "map_of (working_by_origin cs) k = None \<longleftrightarrow> (\<forall>c \<in> set cs. origin_of c \<noteq> Some k)"
  using origin_entries [of k c cs "[]"] origin_keys [of cs "[]"] by (auto simp: working_by_origin_def map_of_eq_None_iff)

section \<open>A copy of the baseline\<close>

text \<open>
  \<open>N\<close> takes a source component to its copy: the working model is such a copy when its components and
  relations are the copies of those of the source and the mappings name the same entities.
\<close>

definition copies_relation :: "(arch_component \<Rightarrow> arch_component) \<Rightarrow> arch_component list \<Rightarrow> arch_relation \<Rightarrow> arch_relation \<Rightarrow> bool" where
  "copies_relation N cs r r' = (rl_kind r' = rl_kind r \<and> (\<exists>s \<in> set cs. \<exists>d \<in> set cs. rl_src_id r = co_id s \<and>
     rl_dst_id r = co_id d \<and> rl_src_id r' = co_id (N s) \<and> rl_dst_id r' = co_id (N d)))"

definition copies_baseline :: "(arch_component \<Rightarrow> arch_component) \<Rightarrow> arch_component list \<Rightarrow> arch_relation list \<Rightarrow>
    mappings_by \<Rightarrow> arch_component list \<Rightarrow> arch_relation list \<Rightarrow> mappings_by \<Rightarrow> bool" where
  "copies_baseline N cs rs maps cs' rs' maps' =
     (closed_list cs \<and> (\<forall>c \<in> set cs. co_id c \<noteq> []) \<and> set cs' = N ` set cs \<and> distinct (map co_id cs') \<and>
      (\<forall>c \<in> set cs. co_id (N c) \<noteq> [] \<and> co_origin_id (N c) = Some (co_id c) \<and> co_kind (N c) = co_kind c \<and>
         co_name (N c) = co_name c \<and> co_description (N c) = co_description c \<and>
         (case co_parent_id c of None \<Rightarrow> co_parent_id (N c) = None
          | Some p \<Rightarrow> \<exists>d \<in> set cs. co_id d = p \<and> co_parent_id (N c) = Some (co_id (N d))) \<and>
         (\<lambda>x. (mp_entity_type x, mp_entity_id x)) ` set (get_or maps' (co_id (N c)) []) =
           (\<lambda>x. (mp_entity_type x, mp_entity_id x)) ` set (get_or maps (co_id c) [])) \<and>
      (\<forall>r' \<in> set rs'. \<exists>r \<in> set rs. copies_relation N cs r r') \<and>
      (\<forall>r \<in> set rs. \<exists>r' \<in> set rs'. copies_relation N cs r r'))"

lemma copy_no_difference:
  assumes copy: "copies_baseline N cs rs maps cs' rs' maps'"
  shows "\<exists>d. compute_diff (build_baseline cs rs maps sid now) cs' rs' maps' = Inr d \<and> no_difference d"
proof -
  let ?b = "build_baseline cs rs maps sid now"
  from copy have cs: "closed_list cs" "\<forall>c \<in> set cs. co_id c \<noteq> []" "set cs' = N ` set cs" "distinct (map co_id cs')"
    by (simp_all add: copies_baseline_def)
  have dist: "distinct (map co_id cs)" using cs(1) by (simp add: closed_list_def)
  have N: "co_id (N c) \<noteq> []" "co_origin_id (N c) = Some (co_id c)" "co_kind (N c) = co_kind c" "co_name (N c) = co_name c"
    "co_description (N c) = co_description c"
    "case co_parent_id c of None \<Rightarrow> co_parent_id (N c) = None
     | Some p \<Rightarrow> \<exists>d \<in> set cs. co_id d = p \<and> co_parent_id (N c) = Some (co_id (N d))"
    "(\<lambda>x. (mp_entity_type x, mp_entity_id x)) ` set (get_or maps' (co_id (N c)) []) =
       (\<lambda>x. (mp_entity_type x, mp_entity_id x)) ` set (get_or maps (co_id c) [])"
    if "c \<in> set cs" for c
    using copy that unfolding copies_baseline_def by blast+
  have origin: "origin_of (N c) = Some (co_id c)" if "c \<in> set cs" for c
    using N(2) [OF that] cs(2) that by (simp add: origin_of_def)
  have counterpart: "has_counterpart ?b (N c)" if "c \<in> set cs" for c
    using origin [OF that] baseline_lookup [OF dist that] by (simp add: has_counterpart_def)
  have entry: "\<exists>c \<in> set cs. k = co_id c \<and> x = N c" if "(k, x) \<in> set (working_by_origin cs')" for k x
    using working_origins(1) [OF that] cs(3) origin by auto
  have "\<exists>y. (case map_of (baseline_by_id ?b) i of None \<Rightarrow> Inl MissingKey | Some bc \<Rightarrow> Inr (x, bc)) = Inr y"
    if "(i, x) \<in> set (working_by_origin cs')" for i x
    using entry [OF that] baseline_lookup [OF dist] by auto
  then obtain pairs where pairs: "counterparts ?b cs' = Inr pairs"
    unfolding counterparts_def using map_err_total [of "working_by_origin cs'"] by (metis (no_types, lifting) case_prod_conv surj_pair)
  have pair: "\<exists>c \<in> set cs. p = (N c, baseline_component_of maps c)" if p: "p \<in> set pairs" for p
  proof -
    from map_err_member [OF pairs [unfolded counterparts_def] p] obtain i x where ix: "(i, x) \<in> set (working_by_origin cs')"
      and r: "(case map_of (baseline_by_id ?b) i of None \<Rightarrow> Inl MissingKey | Some bc \<Rightarrow> Inr (x, bc)) = Inr p" by auto
    from entry [OF ix] obtain c where "c \<in> set cs" "i = co_id c" "x = N c" by blast
    with r baseline_lookup [OF dist] show ?thesis by auto
  qed
  have added: "filter (\<lambda>c. \<not> has_counterpart ?b c) cs' = []"
    using counterpart cs(3) by (auto simp: filter_empty_conv)
  have removed: "filter (\<lambda>(i, bc). map_of (working_by_origin cs') i = None) (baseline_by_id ?b) = []"
    using baseline_entry [of _ _ cs rs maps sid now] origin cs(3)
    by (force simp: filter_empty_conv working_origins(2))
  have modified: "List.map_filter modified_of pairs = []"
  proof (rule map_filter_Nil)
    fix p assume "p \<in> set pairs"
    from pair [OF this] obtain c where c: "c \<in> set cs" "p = (N c, baseline_component_of maps c)" by blast
    with N(3-5) [OF c(1)] show "modified_of p = None"
      by (simp add: modified_of_def changed_fields_def baseline_component_of_def)
  qed
  have known: "map_of (working_by_id cs') (co_id (N c)) = Some (N c)" if "c \<in> set cs" for c
    using working_lookup [OF cs(4)] that cs(3) by simp
  have moved: "List.map_filter (moved_of ?b cs') pairs = []"
  proof (rule map_filter_Nil)
    fix p assume "p \<in> set pairs"
    from pair [OF this] obtain c where c: "c \<in> set cs" "p = (N c, baseline_component_of maps c)" by blast
    have "\<not> is_moved cs' (N c) (baseline_component_of maps c)"
    proof (cases "co_parent_id c")
      case None
      with N(6) [OF c(1)] show ?thesis by (simp add: is_moved_def baseline_component_of_def)
    next
      case (Some q)
      with N(6) [OF c(1)] obtain d where d: "d \<in> set cs" "co_id d = q" "co_parent_id (N c) = Some (co_id (N d))" by auto
      have "parent_origin cs' (N c) = Some q"
        using d known [OF d(1)] N(1,2) [OF d(1)] by (simp add: parent_origin_def known_parent_def)
      with d(3) Some show ?thesis by (simp add: is_moved_def baseline_component_of_def)
    qed
    with c(2) show "moved_of ?b cs' p = None" by (simp add: moved_of_def)
  qed
  have end_origin: "end_origin ?b cs' (co_id (N c)) = Some (co_id c)" if "c \<in> set cs" for c
    using known [OF that] counterpart [OF that] origin [OF that] by (simp add: end_origin_def)
  have key: "working_key ?b cs' r' = Some (rl_kind r, rl_src_id r, rl_dst_id r)" if "copies_relation N cs r r'" for r r'
    using that end_origin by (auto simp: working_key_def copies_relation_def)
  have backward: "\<forall>r' \<in> set rs'. \<exists>r \<in> set rs. copies_relation N cs r r'"
    and forward: "\<forall>r \<in> set rs. \<exists>r' \<in> set rs'. copies_relation N cs r r'"
    using copy unfolding copies_baseline_def by - (elim conjE, assumption)+
  have base_keys: "fst ` set (baseline_relations ?b) = (\<lambda>r. (rl_kind r, rl_src_id r, rl_dst_id r)) ` set rs"
    unfolding baseline_relations_def dict_of_keys
    by (auto simp: build_baseline_def baseline_relation_of_def relation_key_def image_image)
  have fresh_rels: "filter (is_added_relation ?b cs') rs' = []"
  proof -
    have "\<not> is_added_relation ?b cs' r'" if r': "r' \<in> set rs'" for r'
    proof -
      from backward r' obtain r where r: "r \<in> set rs" and e: "copies_relation N cs r r'" by blast
      have "(rl_kind r, rl_src_id r, rl_dst_id r) \<in> fst ` set (baseline_relations ?b)" unfolding base_keys using r by blast
      then show ?thesis using key [OF e] by (simp add: is_added_relation_def map_of_eq_None_iff)
    qed
    then show ?thesis by (simp add: filter_empty_conv)
  qed
  let ?keys = "set (List.map_filter (working_key ?b cs') rs')"
  have gone_rels: "filter (\<lambda>(k, r). k \<notin> ?keys) (baseline_relations ?b) = []"
  proof -
    have "k \<in> ?keys" if k: "k \<in> fst ` set (baseline_relations ?b)" for k
    proof -
      from k obtain r where r: "r \<in> set rs" "k = (rl_kind r, rl_src_id r, rl_dst_id r)" unfolding base_keys by blast
      from forward r(1) obtain r' where r': "r' \<in> set rs'" and e: "copies_relation N cs r r'" by blast
      from key [OF e] r(2) r' show ?thesis unfolding set_map_filter by blast
    qed
    then have "k \<in> ?keys" if "(k, r) \<in> set (baseline_relations ?b)" for k r
      using imageI [OF that, of fst] by simp
    then show ?thesis by (auto simp: filter_empty_conv)
  qed
  have maps: "List.map_filter (mapping_change maps') pairs = []"
  proof (rule map_filter_Nil)
    fix p assume "p \<in> set pairs"
    from pair [OF this] obtain c where c: "c \<in> set cs" "p = (N c, baseline_component_of maps c)" by blast
    have pairs_of: "mapping_pair ` set (map norm_mapping xs) = (\<lambda>x. (mp_entity_type x, mp_entity_id x)) ` set xs" for xs
      by (simp add: image_image mapping_pair_def norm_mapping_def)
    have "mapping_pair ` set (map norm_mapping (get_or maps' (co_id (N c)) [])) =
        mapping_pair ` set (bc_mappings (baseline_component_of maps c))"
      using N(7) [OF c(1)] unfolding pairs_of by (simp add: baseline_component_of_def image_image mapping_pair_def norm_mapping_def)
    then show "mapping_change maps' p = None" unfolding c(2) mapping_change_def Let_def by simp
  qed
  show ?thesis
    unfolding compute_diff_def pairs and_then.simps Let_def added removed modified moved fresh_rels gone_rels maps
    by (simp add: no_difference_def)
qed

section \<open>A proposal just forked\<close>

text \<open>The diff of a model as the API asks for it (\<open>_diff_dto\<close>).\<close>

definition model_diff :: "arch \<Rightarrow> string \<Rightarrow> string \<Rightarrow> arch_error + arch_diff" where
  "model_diff st ws m = (case model_baseline st ws m of
     None \<Rightarrow> Inl (ArchError ''not_a_proposal'')
   | Some b \<Rightarrow> compute_diff b (arch_components st ws m) (arch_relations st ws m)
       (mappings_of st ws (arch_components st ws m)))"

lemma forked_relation_Inr:
  assumes "forked_relation e ws m idmap n (i, r) = Inr r'"
  shows "rl_kind r' = rl_kind r" "map_of idmap (rl_src_id r) = Some (rl_src_id r')"
    "map_of idmap (rl_dst_id r) = Some (rl_dst_id r')" "rl_workspace_id r' = ws" "rl_model_id r' = m"
  using assms by (auto simp: forked_relation_def split: option.splits)

lemma forked_mapping_Inr:
  assumes "forked_mapping e ws idmap n (i, x) = Inr x'"
  shows "mp_entity_type x' = mp_entity_type x" "mp_entity_id x' = mp_entity_id x"
    "map_of idmap (mp_component_id x) = Some (mp_component_id x')" "mp_workspace_id x' = ws"
  using assms by (auto simp: forked_mapping_def split: option.splits)

lemma enumerated: "x \<in> set xs \<longleftrightarrow> (\<exists>i. (i, x) \<in> set (List.enumerate n xs))"
proof
  assume "x \<in> set xs"
  then obtain i where "i < length xs" "xs ! i = x" by (auto simp: in_set_conv_nth)
  then have "(n + i, x) \<in> set (List.enumerate n xs)" by (simp add: in_set_enumerate_eq)
  then show "\<exists>i. (i, x) \<in> set (List.enumerate n xs)" ..
next
  assume "\<exists>i. (i, x) \<in> set (List.enumerate n xs)"
  then show "x \<in> set xs" by (auto simp: in_set_enumerate_eq)
qed

lemma source_relation:
  assumes "arch_ok st" and "r \<in> set (arch_relations st ws src)"
  shows "\<exists>s \<in> set (arch_components st ws src). \<exists>d \<in> set (arch_components st ws src). rl_src_id r = co_id s \<and> rl_dst_id r = co_id d"
proof -
  from assms(2) have r: "r \<in> set (az_relations st)" "rl_workspace_id r = ws" "rl_model_id r = src" by (auto simp: arch_relations_def)
  from arch_okD(4) [OF assms(1) r(1)] r(2,3) have "component_known st ws src (rl_src_id r)" "component_known st ws src (rl_dst_id r)"
    by (auto simp: relation_ok_def)
  then obtain s d where "s \<in> set (az_components st)" "component_in ws src s" "co_id s = rl_src_id r"
    "d \<in> set (az_components st)" "component_in ws src d" "co_id d = rl_dst_id r" by (auto simp: known_iff)
  then have "s \<in> set (arch_components st ws src)" "rl_src_id r = co_id s" "d \<in> set (arch_components st ws src)" "rl_dst_id r = co_id d"
    using source_components(1) [OF assms(1), of ws src] by simp_all
  then show ?thesis by blast
qed

text \<open>The copies that a fork makes, as the function from a source component to its copy.\<close>

definition copy_of :: "arch_env \<Rightarrow> string \<Rightarrow> string \<Rightarrow> arch_component list \<Rightarrow> arch_component \<Rightarrow> arch_component" where
  "copy_of e ws m cs c = fork_component e ws m cs (length (takeWhile (\<lambda>d. d \<noteq> c) cs))"

lemma copy_of_nth:
  assumes "distinct cs" and "i < length cs"
  shows "copy_of e ws m cs (cs ! i) = fork_component e ws m cs i"
proof -
  have "takeWhile (\<lambda>d. d \<noteq> cs ! i) cs = take i cs"
    using assms by (intro takeWhile_eq_take_P_nth) (auto simp: nth_eq_iff_index_eq)
  then have "length (takeWhile (\<lambda>d. d \<noteq> cs ! i) cs) = i" using assms(2) by simp
  then show ?thesis by (simp add: copy_of_def)
qed

lemma copy_of_fields:
  assumes "closed_list cs" and "c \<in> set cs"
  shows "map_of (fork_ids e cs) (co_id c) = Some (co_id (copy_of e ws m cs c))"
    and "co_origin_id (copy_of e ws m cs c) = Some (co_id c)" and "co_kind (copy_of e ws m cs c) = co_kind c"
    and "co_name (copy_of e ws m cs c) = co_name c" and "co_description (copy_of e ws m cs c) = co_description c"
    and "case co_parent_id c of None \<Rightarrow> co_parent_id (copy_of e ws m cs c) = None
      | Some p \<Rightarrow> \<exists>d \<in> set cs. co_id d = p \<and> co_parent_id (copy_of e ws m cs c) = Some (co_id (copy_of e ws m cs d))"
proof -
  have dist: "distinct cs" "distinct (map co_id cs)" using assms(1) by (auto simp: closed_list_def distinct_map)
  from assms(2) obtain i where i: "i < length cs" "cs ! i = c" by (auto simp: in_set_conv_nth)
  have copy: "copy_of e ws m cs c = fork_component e ws m cs i" using copy_of_nth [OF dist(1) i(1)] i(2) by simp
  show "map_of (fork_ids e cs) (co_id c) = Some (co_id (copy_of e ws m cs c))"
    using fork_ids_lookup [OF dist(2) i(1), of e] i(2) by (simp add: copy fork_component_fields)
  show "co_origin_id (copy_of e ws m cs c) = Some (co_id c)" "co_kind (copy_of e ws m cs c) = co_kind c"
    "co_name (copy_of e ws m cs c) = co_name c" "co_description (copy_of e ws m cs c) = co_description c"
    using i(2) by (simp_all add: copy fork_component_fields)
  show "case co_parent_id c of None \<Rightarrow> co_parent_id (copy_of e ws m cs c) = None
      | Some p \<Rightarrow> \<exists>d \<in> set cs. co_id d = p \<and> co_parent_id (copy_of e ws m cs c) = Some (co_id (copy_of e ws m cs d))"
  proof (cases "co_parent_id c")
    case None
    then show ?thesis using i(2) by (simp add: copy fork_component_fields no_parent)
  next
    case (Some p)
    with i have "co_parent_id (cs ! i) = Some p" by simp
    from closed_parent [OF assms(1) i(1) this] obtain j where
      j: "j < length cs" "co_id (cs ! j) = p" "forked_parent (fork_ids e cs) (cs ! i) = Some (nid e j)" by metis
    have "co_parent_id (copy_of e ws m cs c) = Some (co_id (copy_of e ws m cs (cs ! j)))"
      using j(3) by (simp add: copy copy_of_nth [OF dist(1) j(1)] fork_component_fields)
    moreover have "cs ! j \<in> set cs" using j(1) by simp
    ultimately show ?thesis using Some j(2) by auto
  qed
qed

lemma fork_copies_baseline:
  assumes ok: "arch_ok st" and fresh: "\<forall>i. ae_fresh e i \<noteq> []"
    and cs: "cs = arch_components st ws src" and rs: "rs = arch_relations st ws src" and maps: "maps = mappings_of st ws cs"
    and same: "az_components st1 = az_components st" "az_relations st1 = az_relations st" "az_mappings st1 = az_mappings st"
    and ok1: "arch_ok st1" and new: "\<not> model_known st ws m"
    and run: "fork_rows e ws m cs rs (concat (map (\<lambda>c. get_or maps (co_id c) []) cs)) st1 = Inr st2"
    and ok2: "arch_ok st2"
  shows "copies_baseline (copy_of e ws m cs) cs rs maps (arch_components st2 ws m) (arch_relations st2 ws m)
    (mappings_of st2 ws (arch_components st2 ws m))"
proof -
  let ?N = "copy_of e ws m cs" and ?ms = "concat (map (\<lambda>c. get_or maps (co_id c) []) cs)"
  have closed: "closed_list cs" unfolding cs by (rule source_closed [OF ok])
  have dist: "distinct cs" "distinct (map co_id cs)" using closed by (auto simp: closed_list_def distinct_map)
  have members: "set cs = {c \<in> set (az_components st). component_in ws src c}" unfolding cs by (rule source_components(1) [OF ok])
  have named: "\<forall>c \<in> set cs. co_id c \<noteq> []" using members arch_okD(3) [OF ok] by auto
  have empty: "\<not> component_in ws m c" if "c \<in> set (az_components st)" for c
    using arch_okD(2) [OF ok that] new by (auto simp: component_ok_def component_in_def)
  have sub: "set cs \<subseteq> set (az_components st1)" unfolding same using members by blast
  have free: "\<forall>c \<in> set (az_components st1). \<not> component_in ws m c" unfolding same using empty by blast
  obtain rs' ms' where
    rels: "map_err (forked_relation e ws m (fork_ids e cs) (Suc (length cs))) (List.enumerate 0 rs) = Inr rs'"
    and mps: "map_err (forked_mapping e ws (fork_ids e cs) (Suc (length cs + length rs))) (List.enumerate 0 ?ms) = Inr ms'"
    and st2: "st2 = st1\<lparr>az_components := az_components st1 @ map (fork_component e ws m cs) [0..<length cs],
      az_relations := az_relations st1 @ rs', az_mappings := az_mappings st1 @ ms'\<rparr>"
    and inj: "inj_on (nid e) {..<length cs}" and apart1: "\<forall>i < length cs. nid e i \<notin> co_id ` set (az_components st1)"
    by (rule fork_tables [OF ok1 closed sub fresh free run])
  note apart = apart1 [unfolded same]
  have "fork_component e ws m cs ` {..<length cs} = ?N ` set cs"
    using copy_of_nth [OF dist(1)] by (force simp: set_conv_nth image_iff)
  then have all: "set (az_components st2) = set (az_components st) \<union> ?N ` set cs"
    by (simp add: st2 same lessThan_atLeast0)
  have "component_in ws m (?N c)" for c by (simp add: copy_of_def fork_component_fields(2))
  then have working: "set (arch_components st2 ws m) = ?N ` set cs"
    unfolding source_components(1) [OF ok2] all using empty by auto
  have wdist: "distinct (map co_id (arch_components st2 ws m))" by (rule source_components(2) [OF ok2])
  have idmap: "map_of (fork_ids e cs) (co_id c) = Some (co_id (?N c))" if "c \<in> set cs" for c
    by (rule copy_of_fields(1) [OF closed that])
  have nid_of: "\<exists>i < length cs. co_id (?N c) = nid e i \<and> cs ! i = c" if "c \<in> set cs" for c
    using that copy_of_nth [OF dist(1)] by (auto simp: in_set_conv_nth fork_component_fields)
  have copy_inj: "c = d" if "c \<in> set cs" "d \<in> set cs" "co_id (?N c) = co_id (?N d)" for c d
  proof -
    from nid_of [OF that(1)] nid_of [OF that(2)] obtain i j where ij: "i < length cs" "co_id (?N c) = nid e i" "cs ! i = c"
      "j < length cs" "co_id (?N d) = nid e j" "cs ! j = d" by blast
    then have "i = j" using inj that(3) by (auto simp: inj_on_def)
    with ij show ?thesis by simp
  qed
  have copies: "copies_relation ?N cs r r'" if r: "r \<in> set rs" and f: "forked_relation e ws m (fork_ids e cs) n (i, r) = Inr r'" for r r' n i
  proof -
    from source_relation [OF ok r [unfolded rs]] obtain s d where sd: "s \<in> set cs" "d \<in> set cs" "rl_src_id r = co_id s" "rl_dst_id r = co_id d"
      unfolding cs by blast
    note ids = forked_relation_Inr [OF f]
    have "rl_src_id r' = co_id (?N s)" "rl_dst_id r' = co_id (?N d)"
      using ids(2,3) sd idmap [OF sd(1)] idmap [OF sd(2)] by simp_all
    with ids(1) sd show ?thesis unfolding copies_relation_def by blast
  qed
  have wrels: "set (arch_relations st2 ws m) = set rs'"
  proof -
    have "\<not> (rl_workspace_id r = ws \<and> rl_model_id r = m)" if "r \<in> set (az_relations st)" for r
      using arch_okD(4) [OF ok that] new by (auto simp: relation_ok_def)
    moreover have "rl_workspace_id r' = ws \<and> rl_model_id r' = m" if "r' \<in> set rs'" for r'
      using map_err_member [OF rels that] by (auto dest: forked_relation_Inr(4,5))
    ultimately show ?thesis by (auto simp: arch_relations_def st2 same)
  qed
  have backward: "\<exists>r \<in> set rs. copies_relation ?N cs r r'" if "r' \<in> set rs'" for r'
  proof -
    from map_err_member [OF rels that] obtain i r where ir: "(i, r) \<in> set (List.enumerate 0 rs)"
      and f: "forked_relation e ws m (fork_ids e cs) (Suc (length cs)) (i, r) = Inr r'" by auto
    then have "r \<in> set rs" using enumerated [of r rs 0] by blast
    with copies [OF this f] show ?thesis by blast
  qed
  have forward: "\<exists>r' \<in> set rs'. copies_relation ?N cs r r'" if r: "r \<in> set rs" for r
  proof -
    from r obtain i where "(i, r) \<in> set (List.enumerate 0 rs)" unfolding enumerated [of r rs 0] by blast
    from map_err_source [OF rels this] copies [OF r] show ?thesis by blast
  qed
  let ?pair = "\<lambda>x. (mp_entity_type x, mp_entity_id x)"
  have old_maps: "get_or maps (co_id c) [] = arch_mappings_for_component st ws (co_id c)" if "c \<in> set cs" for c
    unfolding maps by (rule get_mappings_of [OF dist(2) that])
  have mapped: "?pair ` set (get_or (mappings_of st2 ws (arch_components st2 ws m)) (co_id (?N c)) []) =
      ?pair ` set (get_or maps (co_id c) [])" if c: "c \<in> set cs" for c
  proof -
    have "?N c \<in> set (arch_components st2 ws m)" using working c by simp
    from get_mappings_of [OF wdist this] have lhs: "get_or (mappings_of st2 ws (arch_components st2 ws m)) (co_id (?N c)) [] =
        arch_mappings_for_component st2 ws (co_id (?N c))" .
    have other: "mp_component_id x \<noteq> co_id (?N c)" if x: "x \<in> set (az_mappings st)" for x
    proof -
      from arch_okD(5) [OF ok x] obtain d where "d \<in> set (az_components st)" "mp_component_id x = co_id d"
        by (auto simp: mapping_ok_def list_ex_iff)
      then have "mp_component_id x \<in> co_id ` set (az_components st)" by simp
      with nid_of [OF c] apart show ?thesis by auto
    qed
    have source: "\<exists>d \<in> set cs. x \<in> set (get_or maps (co_id d) []) \<and> mp_component_id x = co_id d" if "x \<in> set ?ms" for x
      using that old_maps by (auto simp: arch_mappings_for_component_def)
    have "mp_workspace_id x = ws" if "x \<in> set ms'" for x
      using map_err_member [OF mps that] by (auto dest: forked_mapping_Inr(4))
    then have "set (arch_mappings_for_component st2 ws (co_id (?N c))) = {x' \<in> set ms'. mp_component_id x' = co_id (?N c)}"
      using other by (auto simp: arch_mappings_for_component_def st2 same)
    moreover have "?pair ` {x' \<in> set ms'. mp_component_id x' = co_id (?N c)} = ?pair ` set (get_or maps (co_id c) [])"
    proof (intro equalityI subsetI)
      fix p assume "p \<in> ?pair ` {x' \<in> set ms'. mp_component_id x' = co_id (?N c)}"
      then obtain x' where x': "x' \<in> set ms'" "mp_component_id x' = co_id (?N c)" "p = ?pair x'" by blast
      from map_err_member [OF mps x'(1)] obtain i x where x: "(i, x) \<in> set (List.enumerate 0 ?ms)"
        and f: "forked_mapping e ws (fork_ids e cs) (Suc (length cs + length rs)) (i, x) = Inr x'" by auto
      then have "x \<in> set ?ms" using enumerated [of x ?ms 0] by blast
      from source [OF this] obtain d where d: "d \<in> set cs" "x \<in> set (get_or maps (co_id d) [])" "mp_component_id x = co_id d" by blast
      with forked_mapping_Inr(3) [OF f] idmap [OF d(1)] x'(2) have "co_id (?N d) = co_id (?N c)" by simp
      with copy_inj [OF d(1) c] have "d = c" by simp
      with d(2) x'(3) forked_mapping_Inr(1,2) [OF f] show "p \<in> ?pair ` set (get_or maps (co_id c) [])"
        by (metis (no_types, lifting) imageI)
    next
      fix p assume "p \<in> ?pair ` set (get_or maps (co_id c) [])"
      then obtain x where x: "x \<in> set (get_or maps (co_id c) [])" "p = ?pair x" by blast
      then have "x \<in> set ?ms" using c by auto
      then obtain i where "(i, x) \<in> set (List.enumerate 0 ?ms)" unfolding enumerated [of x ?ms 0] by blast
      from map_err_source [OF mps this] obtain x' where x': "x' \<in> set ms'"
        and f: "forked_mapping e ws (fork_ids e cs) (Suc (length cs + length rs)) (i, x) = Inr x'" by blast
      have "mp_component_id x = co_id c" using x(1) old_maps [OF c] by (auto simp: arch_mappings_for_component_def)
      with forked_mapping_Inr(3) [OF f] idmap [OF c] have "mp_component_id x' = co_id (?N c)" by simp
      with x' x(2) forked_mapping_Inr(1,2) [OF f] show "p \<in> ?pair ` {x' \<in> set ms'. mp_component_id x' = co_id (?N c)}"
        by (intro image_eqI [of _ _ x']) simp_all
    qed
    ultimately show ?thesis unfolding lhs by simp
  qed
  have nonempty: "co_id (?N c) \<noteq> []" if "c \<in> set cs" for c
    using nid_of [OF that] fresh by (metis nid_def)
  show ?thesis
    unfolding copies_baseline_def wrels
    using closed named working wdist nonempty copy_of_fields(2-6) [OF closed] mapped backward forward
    by (intro conjI ballI) blast+
qed

end
