(* ===== verification/Arch_Sample.thy ===== *)
theory Arch_Sample
  imports Arch_Diff Graph_Steps
begin

text \<open>
  A small run of the architecture plane, on which the properties of it are instantiated: a workspace
  with two components, one below the other, a relation between them, and a proposal.
\<close>

definition sample_env :: "string \<Rightarrow> arch_env" where
  "sample_env p = \<lparr>ae_now = 1, ae_fresh = (\<lambda>i. p @ replicate i (CHR ''x'')), ae_repo = (\<lambda>r. r = ''r''),
     ae_graph = empty_graph\<rparr>"

lemma sample_fresh: "p \<noteq> [] \<Longrightarrow> \<forall>i. ae_fresh (sample_env p) i \<noteq> []"
  by (simp add: sample_env_def)

text \<open>The tables after a mutation.\<close>

definition tables_after :: "arch_env \<Rightarrow> string \<Rightarrow> string \<Rightarrow> arch_op \<Rightarrow> arch \<Rightarrow> arch" where
  "tables_after e repo ws op st = (case architecture_mutation (\<lambda>_. []) e repo ws op st of
     None \<Rightarrow> st | Some (out, st') \<Rightarrow> st')"

lemma tables_after_reachable:
  assumes "arch_reachable st" and "\<forall>i. ae_fresh e i \<noteq> []"
  shows "arch_reachable (tables_after e repo ws op st)"
proof (cases "architecture_mutation (\<lambda>_. []) e repo ws op st")
  case None
  then show ?thesis using assms(1) by (simp add: tables_after_def)
next
  case (Some x)
  then obtain out st' where "architecture_mutation (\<lambda>_. []) e repo ws op st = Some (out, st')" by (cases x) auto
  then have "arch_step st st'" and "tables_after e repo ws op st = st'"
    using assms(2) by (auto intro: arch_step.mutate simp: tables_after_def)
  with assms(1) show ?thesis by simp
qed

fun arch_run :: "(string \<times> arch_op) list \<Rightarrow> arch \<Rightarrow> arch" where
  "arch_run [] st = st"
| "arch_run ((p, op) # ops) st = arch_run ops (tables_after (sample_env p) ''r'' ''w'' op st)"

lemma run_reachable: "arch_reachable st \<Longrightarrow> list_all (\<lambda>(p, op). p \<noteq> []) ops \<Longrightarrow> arch_reachable (arch_run ops st)"
  by (induction ops st rule: arch_run.induct) (simp_all add: tables_after_reachable sample_fresh)

lemma tables_of_workspace [simp]:
  "tables_after e repo ws (CreateWorkspace r n d) st =
     (case write_workspace e repo r n d st of Inl err \<Rightarrow> st | Inr (x, s) \<Rightarrow> s)"
  using arch_ref_tables by (auto simp: tables_after_def architecture_mutation_def split: sum.splits prod.splits)
    (metis snd_conv)

lemma tables_of_write:
  assumes "\<And>r n d. op \<noteq> CreateWorkspace r n d"
  shows "tables_after e repo ws op st = (case write_in_workspace e repo ws op st of
     Some (Inr (x, s)) \<Rightarrow> s | _ \<Rightarrow> st)"
proof -
  have "architecture_mutation H e repo ws op st = map_option (\<lambda>out. case out of Inl err \<Rightarrow> (Inl err, st)
      | Inr (r, st') \<Rightarrow> arch_ref H ws r st') (write_in_workspace e repo ws op st)" for H
    using assms by (cases op) (auto simp: architecture_mutation_def)
  then show ?thesis
    using arch_ref_tables by (auto simp: tables_after_def split: option.splits sum.splits prod.splits) (metis snd_conv)
qed

lemma tables_of_component [simp]: "tables_after e repo ws (CreateComponent m k n d p) st =
    (case write_in_workspace e repo ws (CreateComponent m k n d p) st of Some (Inr (x, s)) \<Rightarrow> s | _ \<Rightarrow> st)"
  and tables_of_relation [simp]: "tables_after e repo ws (CreateRelation m k i j l) st =
    (case write_in_workspace e repo ws (CreateRelation m k i j l) st of Some (Inr (x, s)) \<Rightarrow> s | _ \<Rightarrow> st)"
  by (simp_all add: tables_of_write)

definition sample_ops :: "(string \<times> arch_op) list" where
  "sample_ops = [(''w'', CreateWorkspace ''r'' ''N'' []), (''a'', CreateComponent ''wx'' ''service'' ''A'' [] None),
     (''b'', CreateComponent ''wx'' ''service'' ''B'' [] (Some ''a'')),
     (''k'', CreateRelation ''wx'' ''calls'' ''b'' ''a'' None)]"

definition sample_component :: "string \<Rightarrow> string \<Rightarrow> string option \<Rightarrow> arch_component" where
  "sample_component i n p = fresh_component (sample_env i) i ''w'' ''wx'' ''service'' n [] p"

definition sample_arch :: arch where
  "sample_arch = \<lparr>az_workspaces = [\<lparr>ws_id = ''w'', ws_repo_id = ''r'', ws_name = ''N'', ws_description = [],
       ws_created_at = 1, ws_updated_at = 1\<rparr>],
     az_models = [fresh_model (sample_env ''w'') ''wx'' ''w'' ''as_is'' ''AS-IS'' []],
     az_components = [sample_component ''a'' ''A'' None, sample_component ''b'' ''B'' (Some ''a'')],
     az_relations = [\<lparr>rl_id = ''k'', rl_workspace_id = ''w'', rl_model_id = ''wx'', rl_kind = ''calls'', rl_src_id = ''b'',
       rl_dst_id = ''a'', rl_label = None, rl_created_at = 1, rl_updated_at = 1\<rparr>],
     az_mappings = [], az_layouts = []\<rparr>"

lemma sample_run: "arch_run sample_ops empty_arch = sample_arch"
  unfolding sample_ops_def arch_run.simps tables_of_workspace tables_of_component tables_of_relation
  by code_simp

lemma sample_reachable: "arch_reachable sample_arch"
  unfolding sample_run [symmetric] by (rule run_reachable) (simp_all add: sample_ops_def)

end
