(* ===== verification/Arch_Properties.thy ===== *)
theory Arch_Properties
  imports Arch_Sample
begin

text \<open>
  The properties of the architecture plane, each with a witness on the sample run.
\<close>

section \<open>Facts behind the properties\<close>

lemma known_iff_in: "component_known st ws m i \<longleftrightarrow> i \<in> co_id ` {c \<in> set (az_components st). component_in ws m c}"
  by (auto simp: known_iff)

lemma valid_facts:
  assumes "arch_ok st"
  shows "acyclic (up st)" and "distinct (map co_id (az_components st))"
    and "\<forall>c \<in> set (az_components st). case co_parent_id c of None \<Rightarrow> True
      | Some p \<Rightarrow> component_known st (co_workspace_id c) (co_model_id c) p"
    and "\<forall>r \<in> set (az_relations st). component_known st (rl_workspace_id r) (rl_model_id r) (rl_src_id r) \<and>
      component_known st (rl_workspace_id r) (rl_model_id r) (rl_dst_id r)"
    and "\<forall>x \<in> set (az_mappings st). mp_component_id x \<in> co_id ` set (az_components st)"
  using arch_okD(1-5) [OF assms] ok_acyclic [OF assms]
  by (auto simp: component_ok_def relation_ok_def mapping_ok_def list_ex_iff image_iff split: option.splits) metis+

lemma delete_returns: "arch_ok st \<Longrightarrow> write_delete ws m c sub st \<noteq> None"
proof (cases "arch_component_in st ws m c = None \<or> \<not> sub")
  case True
  then show ?thesis by (auto simp: write_delete_def arch_delete_component_def)
next
  case False
  moreover assume "arch_ok st"
  ultimately show ?thesis
    using delete_subtree_exact [of st ws m c] by (auto simp: write_delete_def known_Some)
qed

lemma write_returns: "arch_ok st \<Longrightarrow> write_op e repo ws op st \<noteq> None"
  using delete_returns by (cases op) (simp_all add: write_op_def)

lemma mutation_returns: "arch_ok st \<Longrightarrow> architecture_mutation H e repo ws op st \<noteq> None"
  using write_returns [of st e repo ws op]
  by (cases op) (simp_all add: architecture_mutation_def write_in_workspace_def split: option.splits if_splits)

text \<open>Below a node, its own link up plays no part.\<close>

lemma below_without: "(p, c) \<in> (r - {c} \<times> UNIV)\<^sup>* \<longleftrightarrow> (p, c) \<in> r\<^sup>*"
proof
  show "(p, c) \<in> (r - {c} \<times> UNIV)\<^sup>* \<Longrightarrow> (p, c) \<in> r\<^sup>*"
    using rtrancl_mono [of "r - {c} \<times> UNIV" r] by blast
  show "(p, c) \<in> r\<^sup>* \<Longrightarrow> (p, c) \<in> (r - {c} \<times> UNIV)\<^sup>*"
  proof (induction rule: converse_rtrancl_induct)
    case (step y z)
    then show ?case by (cases "y = c") (auto intro: converse_rtrancl_into_rtrancl)
  qed simp
qed

lemma cycle_check_facts:
  assumes "arch_ok st" and "component_known st ws m p"
  shows "assert_no_arch_cycle st ws m c p = Inr () \<longleftrightarrow> acyclic (insert (c, p) (up st - {c} \<times> UNIV))"
proof -
  have "acyclic (up st - {c} \<times> UNIV)" by (rule acyclic_subset [OF ok_acyclic [OF assms(1)]]) blast
  then show ?thesis
    using meets_exact [OF assms] by (simp add: assert_no_arch_cycle_def acyclic_insert below_without)
qed

lemma kept_by_layout: "upsert_layout l st = Inr st' \<Longrightarrow> \<exists>ls. st' = st\<lparr>az_layouts := ls\<rparr>"
  by (auto simp: upsert_layout_def and_then_Inr split: option.splits)

lemma diff_without_layouts: "model_diff (st\<lparr>az_layouts := ls\<rparr>) ws m = model_diff st ws m"
proof -
  let ?s = "st\<lparr>az_layouts := ls\<rparr>"
  have "model_baseline ?s ws m = model_baseline st ws m" by (simp add: model_baseline_def arch_model_by_def)
  moreover have "arch_components ?s ws m = arch_components st ws m" by (simp add: arch_components_def)
  moreover have "arch_relations ?s ws m = arch_relations st ws m" by (simp add: arch_relations_def)
  moreover have "mappings_of ?s ws cs = mappings_of st ws cs" for cs by (simp add: mappings_of_def arch_mappings_for_component_def)
  ultimately show ?thesis unfolding model_diff_def by (simp only:)
qed

lemma fork_diff_facts:
  assumes ok: "arch_ok st" and fresh: "\<forall>i. ae_fresh e i \<noteq> []"
    and run: "arch_fork_model e ws source name description st = Inr (row, st')"
  shows "\<exists>d. model_diff st' ws (mo_id row) = Inr d \<and> no_difference d"
proof -
  let ?cs = "arch_components st ws source" and ?rs = "arch_relations st ws source"
  let ?maps = "mappings_of st ws ?cs"
  from run obtain st1 st2 sid where
    row: "row = proposal_row e ws source name description sid (build_baseline ?cs ?rs ?maps sid (ae_now e))"
    and m: "insert_model row st = Inr st1"
    and rows: "fork_rows e ws (mo_id row) ?cs ?rs (concat (map (\<lambda>c. get_or ?maps (co_id c) []) ?cs)) st1 = Inr st2"
    and lay: "(case arch_layout st2 ws source of None \<Rightarrow> Inr st2
      | Some l \<Rightarrow> upsert_layout (forked_layout e ws (mo_id row) (fork_ids e ?cs) l) st2) = Inr st'"
    by (rule fork_model_Inr)
  note ok1 = insert_model_ok [OF m ok]
  have st1: "st1 = st\<lparr>az_models := az_models st @ [row]\<rparr>" and unknown: "mo_id row \<notin> mo_id ` set (az_models st)"
    using m by (auto simp: insert_model_def and_then_Inr)
  have new: "\<not> model_known st ws (mo_id row)"
  proof
    assume "model_known st ws (mo_id row)"
    then obtain x where "x \<in> set (az_models st)" "mo_id x = mo_id row" by (auto simp: model_known_def list_ex_iff)
    with unknown show False by (metis imageI)
  qed
  have sub: "set ?cs \<subseteq> set (az_components st1)" using source_components(1) [OF ok] by (auto simp: st1)
  have free: "\<forall>c \<in> set (az_components st1). \<not> component_in ws (mo_id row) c"
    using new_model_empty [OF ok m] by (auto simp: st1)
  have ok2: "arch_ok st2" by (rule fork_rows_ok [OF ok1 source_closed [OF ok] sub fresh free rows])
  have copy: "copies_baseline (copy_of e ws (mo_id row) ?cs) ?cs ?rs ?maps (arch_components st2 ws (mo_id row))
    (arch_relations st2 ws (mo_id row)) (mappings_of st2 ws (arch_components st2 ws (mo_id row)))"
    by (rule fork_copies_baseline [OF ok fresh refl refl refl _ _ _ ok1 new rows ok2]) (simp_all add: st1)
  have "az_models st2 = az_models st @ [row]"
    by (rule fork_tables [OF ok1 source_closed [OF ok] sub fresh free rows]) (simp add: st1)
  moreover have "mo_workspace_id row = ws" by (simp add: row proposal_row_def fresh_model_def)
  moreover have "mo_id (az_models st ! j) \<noteq> mo_id row" if "j < length (az_models st)" for j
    using unknown that by (metis imageI nth_mem)
  ultimately have model: "arch_model_by st2 ws (mo_id row) = Some row"
    unfolding arch_model_by_def find_Some_iff by (intro exI [of _ "length (az_models st)"]) (auto simp: nth_append)
  have kept: "\<exists>ls. st' = st2\<lparr>az_layouts := ls\<rparr>"
  proof (cases "arch_layout st2 ws source")
    case None
    with lay have "st' = st2\<lparr>az_layouts := az_layouts st2\<rparr>" by simp
    then show ?thesis by blast
  qed (use lay kept_by_layout in simp)
  then have same: "model_diff st' ws (mo_id row) = model_diff st2 ws (mo_id row)"
    using diff_without_layouts by auto
  have "mo_baseline row = Some (build_baseline ?cs ?rs ?maps sid (ae_now e))" by (simp add: row proposal_row_def)
  then have "model_diff st2 ws (mo_id row) = compute_diff (build_baseline ?cs ?rs ?maps sid (ae_now e))
      (arch_components st2 ws (mo_id row)) (arch_relations st2 ws (mo_id row))
      (mappings_of st2 ws (arch_components st2 ws (mo_id row)))"
    by (simp add: model_diff_def model_baseline_def model)
  then show ?thesis unfolding same using copy_no_difference [OF copy] by simp
qed

lemma found_workspace: "arch_workspace_row st ws = Some w \<Longrightarrow> ws_repo_id w = repo \<Longrightarrow>
    write_in_workspace e repo ws op st = write_op e repo ws op st"
  by (simp add: write_in_workspace_def)

section \<open>The properties\<close>

text \<open>C9: In every reachable state of the architecture plane, whatever sequence of mutations of any
  repositories led to it, the component hierarchy has no cycle, component and relation identifiers are
  unique, a component lies below one of its own model, both ends of a relation are components of the
  model of the relation, and every mapping belongs to a component.\<close>

lemma architecture_valid:
  assumes "arch_reachable st"
  shows "acyclic (up st) \<and> distinct (map co_id (az_components st)) \<and> distinct (map rl_id (az_relations st)) \<and>
    (\<forall>c \<in> set (az_components st). case co_parent_id c of None \<Rightarrow> True
      | Some p \<Rightarrow> component_known st (co_workspace_id c) (co_model_id c) p) \<and>
    (\<forall>r \<in> set (az_relations st). component_known st (rl_workspace_id r) (rl_model_id r) (rl_src_id r) \<and>
      component_known st (rl_workspace_id r) (rl_model_id r) (rl_dst_id r)) \<and>
    (\<forall>x \<in> set (az_mappings st). mp_component_id x \<in> co_id ` set (az_components st))"
  using valid_facts [OF arch_reachable_ok [OF assms]] arch_okD(7) [OF arch_reachable_ok [OF assms]] by blast

lemma architecture_valid_witness: "acyclic (up sample_arch) \<and> length (az_components sample_arch) = 2"
  using architecture_valid [OF sample_reachable] by (simp add: sample_arch_def)

text \<open>C10: Every mutation of the architecture plane returns from every reachable state, with a result or
  an error: the climb of the cycle check ends, and so does the recursive query of a subtree deletion,
  which would run forever on a cyclic hierarchy.\<close>

lemma every_mutation_returns:
  assumes "arch_reachable st"
  shows "\<exists>out st'. architecture_mutation H e repo ws op st = Some (out, st')"
  using mutation_returns [OF arch_reachable_ok [OF assms]] by (metis not_None_eq surj_pair)

lemma every_mutation_returns_witness:
  "\<exists>out st'. architecture_mutation (\<lambda>_. []) (sample_env ''c'') ''r'' ''w'' (DeleteComponent ''wx'' ''a'' True) sample_arch =
    Some (out, st')"
  by (rule every_mutation_returns [OF sample_reachable])

text \<open>C11: Deleting a component with its subtree always succeeds in a reachable state, and removes exactly
  the components at or below it, the relations that touch one of them and the mappings of one of them;
  the counts it reports are the numbers of rows removed.\<close>

lemma subtree_deletion_exact:
  assumes "arch_reachable st" and "component_known st ws m c" and "D = {i. (i, c) \<in> (up st)\<^sup>*}"
  shows "arch_delete_component ws m c True st = Some (Inr (\<lparr>dc_components = card D,
      dc_relations = length (filter (\<lambda>r. rl_src_id r \<in> D \<or> rl_dst_id r \<in> D) (az_relations st)),
      dc_mappings = length (filter (\<lambda>x. mp_component_id x \<in> D) (az_mappings st))\<rparr>,
    st\<lparr>az_components := filter (\<lambda>x. co_id x \<notin> D) (az_components st),
      az_relations := filter (\<lambda>r. rl_src_id r \<notin> D \<and> rl_dst_id r \<notin> D) (az_relations st),
      az_mappings := filter (\<lambda>x. mp_component_id x \<notin> D) (az_mappings st)\<rparr>))"
  unfolding assms(3) by (rule delete_subtree_exact [OF arch_reachable_ok [OF assms(1)] assms(2)])

lemma sample_known: "component_known sample_arch ''w'' ''wx'' ''a''" "component_known sample_arch ''w'' ''wx'' ''b''"
  by (simp_all add: component_known_def component_in_def sample_arch_def sample_component_def fresh_component_def)

lemma sample_up: "up sample_arch = {(''b'', ''a'')}"
proof -
  have "up sample_arch = {(co_id c, p) | c p. c \<in> {sample_component ''a'' ''A'' None, sample_component ''b'' ''B'' (Some ''a'')} \<and>
      co_parent_id c = Some p}" by (simp add: up_def sample_arch_def)
  then show ?thesis by (auto simp: sample_component_def fresh_component_def) (metis (no_types, lifting) arch_component.select_convs(1,8))
qed

lemma subtree_deletion_exact_witness:
  "\<exists>d s. arch_delete_component ''w'' ''wx'' ''a'' True sample_arch = Some (Inr (d, s)) \<and> az_components s = [] \<and> az_relations s = []"
proof -
  have "(''b'', ''a'') \<in> (up sample_arch)\<^sup>*" by (simp add: sample_up r_into_rtrancl)
  then show ?thesis
    using subtree_deletion_exact [OF sample_reachable sample_known(1) refl]
    by (simp add: sample_arch_def sample_component_def fresh_component_def)
qed

text \<open>C12: The cycle check lets a new parent through exactly when the hierarchy with the component linked
  to that parent, in place of the parent it had, has no cycle.\<close>

lemma cycle_check_exact:
  assumes "arch_reachable st" and "component_known st ws m p"
  shows "assert_no_arch_cycle st ws m c p = Inr () \<longleftrightarrow> acyclic (insert (c, p) (up st - {c} \<times> UNIV))"
  by (rule cycle_check_facts [OF arch_reachable_ok [OF assms(1)] assms(2)])

lemma cycle_check_exact_witness: "assert_no_arch_cycle sample_arch ''w'' ''wx'' ''a'' ''b'' \<noteq> Inr ()"
proof -
  have "(''b'', ''a'') \<in> (up sample_arch - {''a''} \<times> UNIV)\<^sup>*" by (simp add: sample_up r_into_rtrancl)
  then show ?thesis using cycle_check_exact [OF sample_reachable sample_known(2)] by (simp add: acyclic_insert)
qed

text \<open>C13: A proposal just forked from a model does not differ from its frozen baseline: the diff the API
  computes for it succeeds and is empty, whatever hierarchy, relations and mappings the source has.\<close>

lemma fork_no_difference:
  assumes "arch_reachable st" and "\<forall>i. ae_fresh e i \<noteq> []"
    and "arch_fork_model e ws source name description st = Inr (row, st')"
  shows "\<exists>d. model_diff st' ws (mo_id row) = Inr d \<and> no_difference d"
  by (rule fork_diff_facts [OF arch_reachable_ok [OF assms(1)] assms(2,3)])

lemma sample_fork: "case arch_fork_model (sample_env ''f'') ''w'' ''wx'' ''P'' [] sample_arch of Inl err \<Rightarrow> False
    | Inr (row, s) \<Rightarrow> length (arch_components s ''w'' (mo_id row)) = 2 \<and> length (arch_relations s ''w'' (mo_id row)) = 1"
  by code_simp

lemma fork_no_difference_witness:
  "\<exists>row s d. arch_fork_model (sample_env ''f'') ''w'' ''wx'' ''P'' [] sample_arch = Inr (row, s) \<and>
    length (arch_components s ''w'' (mo_id row)) = 2 \<and> model_diff s ''w'' (mo_id row) = Inr d \<and> no_difference d"
proof -
  from sample_fork obtain row s where run: "arch_fork_model (sample_env ''f'') ''w'' ''wx'' ''P'' [] sample_arch = Inr (row, s)"
    and size: "length (arch_components s ''w'' (mo_id row)) = 2" by (auto split: sum.splits)
  have "\<exists>d. model_diff s ''w'' (mo_id row) = Inr d \<and> no_difference d"
    by (rule fork_no_difference [OF sample_reachable sample_fresh run]) simp
  with run size show ?thesis by blast
qed

text \<open>C33: Deleting a relation with a model identifier that names no model reports that the model is not found after
  the relation is gone: the store has committed the deletion, so the error does not undo it.\<close>

lemma failed_deletion_commits:
  assumes "arch_workspace_row st ws = Some w" and "ws_repo_id w = repo" and "arch_model_by st ws m = None"
  shows "architecture_mutation H e repo ws (DeleteRelation m i) st =
      Some (Inl (DesignRefused ''model_not_found''), arch_delete_relation ws i st) \<and>
    filter (\<lambda>r. rl_workspace_id r = ws \<and> rl_id r = i) (az_relations (arch_delete_relation ws i st)) = []"
  using assms(3) by (simp add: architecture_mutation_def found_workspace [OF assms(1,2)] write_op_def arch_ref_def
    architecture_state_def arch_delete_relation_def arch_model_by_def filter_empty_conv)

lemma failed_deletion_commits_witness:
  "\<exists>s. architecture_mutation (\<lambda>_. []) (sample_env ''c'') ''r'' ''w'' (DeleteRelation [] ''k'') sample_arch =
      Some (Inl (DesignRefused ''model_not_found''), s) \<and> az_relations s = [] \<and> length (az_relations sample_arch) = 1"
  using failed_deletion_commits [of sample_arch "''w''" _ "''r''" "[]" "\<lambda>_. []" "sample_env ''c''" "''k''"]
  by (simp add: sample_arch_def arch_workspace_row_def arch_model_by_def fresh_model_def arch_delete_relation_def)

end
