(* ===== verification/Flow_Store.thy ===== *)
theory Flow_Store
  imports Graph_Store
begin

text \<open>
  The flow plane of the store (\<open>db.py\<close>, the tables \<open>flow_*\<close> of \<open>schema.py\<close>): flow models with their blocks,
  ports, nets, bindings and layouts.

  A table is the list of its rows in the order of insertion. A violated constraint of the schema is
  \<open>FlowIntegrity\<close>, an error of the database that the methods let through; a cascade of the schema is part
  of the deletion that triggers it. A method that fails leaves the tables as they were. The columns
  \<open>*_json\<close> hold the dictionary whose text they store.
\<close>

section \<open>Rows\<close>

record flow_model_row =
  fm_id :: string
  fm_workspace_id :: "string option"
  fm_arch_model_id :: "string option"
  fm_repo_id :: string
  fm_name :: string
  fm_scope_symbol_id :: "string option"
  fm_root_block_id :: "string option"
  fm_snapshot_id :: string
  fm_status :: string
  fm_version :: int
  fm_created_at :: int
  fm_updated_at :: int
  fm_meta :: jdict

record flow_block_row =
  fb_id :: string
  fb_flow_id :: string
  fb_parent_id :: "string option"
  fb_kind :: string
  fb_name :: string
  fb_state :: string
  fb_code :: "string option"
  fb_meta :: jdict
  fb_created_at :: int
  fb_updated_at :: int

record flow_port_row =
  fp_id :: string
  fp_flow_id :: string
  fp_block_id :: string
  fp_name :: string
  fp_direction :: string
  fp_kind :: string
  fp_code_type :: "string option"
  fp_order :: int
  fp_meta :: jdict
  fp_created_at :: int

record flow_net_row =
  fn_id :: string
  fn_flow_id :: string
  fn_source_id :: string
  fn_target_id :: string
  fn_kind :: string
  fn_label :: "string option"
  fn_meta :: jdict
  fn_created_at :: int

record flow_binding_row =
  fx_id :: string
  fx_flow_id :: string
  fx_block_id :: string
  fx_snapshot_id :: string
  fx_symbol_id :: string
  fx_kind :: string
  fx_created_at :: int
  fx_updated_at :: int

record flow_layout_row =
  fl_flow_id :: string
  fl_layout :: jdict
  fl_updated_at :: int

record flows =
  fs_models :: "flow_model_row list"
  fs_blocks :: "flow_block_row list"
  fs_ports :: "flow_port_row list"
  fs_nets :: "flow_net_row list"
  fs_bindings :: "flow_binding_row list"
  fs_layouts :: "flow_layout_row list"

definition empty_flows :: flows where
  "empty_flows = \<lparr>fs_models = [], fs_blocks = [], fs_ports = [], fs_nets = [], fs_bindings = [], fs_layouts = []\<rparr>"

text \<open>What an operation reads besides its tables: the clock, the identifiers it draws, the repositories.\<close>

record flow_env =
  fe_now :: int
  fe_fresh :: "nat \<Rightarrow> string"
  fe_repo :: "string \<Rightarrow> bool"

datatype flow_error = FlowError string | FlowIntegrity | FlowAssertion

definition flow_demand :: "bool \<Rightarrow> flow_error \<Rightarrow> flow_error + unit" where
  "flow_demand ok e = (if ok then Inr () else Inl e)"

lemma flow_demand_Inr [simp, err_elims]: "flow_demand ok e = Inr u \<longleftrightarrow> ok"
  by (simp add: flow_demand_def)

definition or_old :: "'a option \<Rightarrow> 'a \<Rightarrow> 'a" where
  "or_old x old = (case x of None \<Rightarrow> old | Some y \<Rightarrow> y)"

section \<open>The vocabularies\<close>

definition block_kinds :: "string list" where
  "block_kinds = [''function'', ''object'', ''composite'', ''proposed'']"

definition block_states :: "string list" where
  "block_states = [''existing'', ''modified'', ''proposed'']"

definition port_directions :: "string list" where
  "port_directions = [''input'', ''output'']"

definition semantic_kinds :: "string list" where
  "semantic_kinds = [''data'', ''control'', ''event'', ''error'', ''resource'']"

definition net_kinds :: "string list" where
  "net_kinds = [''data'', ''control'', ''event'', ''error'', ''resource'']"

section \<open>Queries\<close>

definition flow_model :: "flows \<Rightarrow> string \<Rightarrow> flow_model_row option" where
  "flow_model st f = find (\<lambda>m. fm_id m = f) (fs_models st)"

definition flow_models :: "flows \<Rightarrow> string option \<Rightarrow> flow_model_row list" where
  "flow_models st repo = sort_key fm_created_at (case repo of
     Some (c # cs) \<Rightarrow> filter (\<lambda>m. fm_repo_id m = c # cs) (fs_models st) | _ \<Rightarrow> fs_models st)"

definition flow_blocks :: "flows \<Rightarrow> string \<Rightarrow> flow_block_row list" where
  "flow_blocks st f = sort_key fb_created_at (filter (\<lambda>b. fb_flow_id b = f) (fs_blocks st))"

definition flow_block :: "flows \<Rightarrow> string \<Rightarrow> string \<Rightarrow> flow_block_row option" where
  "flow_block st f i = find (\<lambda>b. fb_flow_id b = f \<and> fb_id b = i) (fs_blocks st)"

definition flow_ports :: "flows \<Rightarrow> string \<Rightarrow> flow_port_row list" where
  "flow_ports st f = sort_key (\<lambda>p. (fp_block_id p, fp_order p, fp_id p)) (filter (\<lambda>p. fp_flow_id p = f) (fs_ports st))"

definition flow_port :: "flows \<Rightarrow> string \<Rightarrow> string \<Rightarrow> flow_port_row option" where
  "flow_port st f i = find (\<lambda>p. fp_flow_id p = f \<and> fp_id p = i) (fs_ports st)"

definition flow_nets :: "flows \<Rightarrow> string \<Rightarrow> flow_net_row list" where
  "flow_nets st f = sort_key fn_created_at (filter (\<lambda>n. fn_flow_id n = f) (fs_nets st))"

definition flow_net :: "flows \<Rightarrow> string \<Rightarrow> string \<Rightarrow> flow_net_row option" where
  "flow_net st f i = find (\<lambda>n. fn_flow_id n = f \<and> fn_id n = i) (fs_nets st)"

definition flow_bindings :: "flows \<Rightarrow> string \<Rightarrow> flow_binding_row list" where
  "flow_bindings st f = sort_key fx_created_at (filter (\<lambda>x. fx_flow_id x = f) (fs_bindings st))"

definition flow_layout :: "flows \<Rightarrow> string \<Rightarrow> flow_layout_row option" where
  "flow_layout st f = find (\<lambda>l. fl_flow_id l = f) (fs_layouts st)"

section \<open>Constraints of the schema\<close>

definition block_known :: "flows \<Rightarrow> string \<Rightarrow> string \<Rightarrow> bool" where
  "block_known st f i = list_ex (\<lambda>b. fb_flow_id b = f \<and> fb_id b = i) (fs_blocks st)"

definition port_known :: "flows \<Rightarrow> string \<Rightarrow> string \<Rightarrow> bool" where
  "port_known st f i = list_ex (\<lambda>p. fp_flow_id p = f \<and> fp_id p = i) (fs_ports st)"

definition flow_known :: "flows \<Rightarrow> string \<Rightarrow> bool" where
  "flow_known st f = list_ex (\<lambda>m. fm_id m = f) (fs_models st)"

definition block_ok :: "flows \<Rightarrow> flow_block_row \<Rightarrow> bool" where
  "block_ok st b = (flow_known st (fb_flow_id b) \<and> fb_kind b \<in> set block_kinds \<and> fb_state b \<in> set block_states \<and>
     (case fb_parent_id b of None \<Rightarrow> True | Some p \<Rightarrow> block_known st (fb_flow_id b) p))"

definition port_ok :: "flows \<Rightarrow> flow_port_row \<Rightarrow> bool" where
  "port_ok st p = (block_known st (fp_flow_id p) (fp_block_id p) \<and> fp_direction p \<in> set port_directions \<and>
     fp_kind p \<in> set semantic_kinds)"

definition net_ok :: "flows \<Rightarrow> flow_net_row \<Rightarrow> bool" where
  "net_ok st n = (port_known st (fn_flow_id n) (fn_source_id n) \<and> port_known st (fn_flow_id n) (fn_target_id n) \<and>
     fn_kind n \<in> set net_kinds)"

definition binding_ok :: "flows \<Rightarrow> flow_binding_row \<Rightarrow> bool" where
  "binding_ok st x = (block_known st (fx_flow_id x) (fx_block_id x) \<and> fx_kind x = ''implementation'')"

section \<open>Models\<close>

text \<open>The column \<open>snapshot_id\<close> is \<open>NOT NULL\<close>; the repository must exist.\<close>

definition flow_create_model :: "flow_env \<Rightarrow> string \<Rightarrow> string \<Rightarrow> string option \<Rightarrow> string option \<Rightarrow> string option \<Rightarrow>
    string option \<Rightarrow> flows \<Rightarrow> flow_error + flow_model_row \<times> flows" where
  "flow_create_model e repo name revision workspace arch scope st = (case revision of
     None \<Rightarrow> Inl FlowIntegrity
   | Some sid \<Rightarrow>
       let m = \<lparr>fm_id = fe_fresh e 0, fm_workspace_id = workspace, fm_arch_model_id = arch, fm_repo_id = repo,
         fm_name = name, fm_scope_symbol_id = scope, fm_root_block_id = None, fm_snapshot_id = sid,
         fm_status = ''active'', fm_version = 1, fm_created_at = fe_now e, fm_updated_at = fe_now e, fm_meta = []\<rparr>
       in and_then (flow_demand (fe_repo e repo \<and> fm_id m \<notin> fm_id ` set (fs_models st)) FlowIntegrity) (\<lambda>_.
         Inr (m, st\<lparr>fs_models := fs_models st @ [m]\<rparr>)))"

definition flow_update_model :: "flow_env \<Rightarrow> string \<Rightarrow> string option \<Rightarrow> string option \<Rightarrow> jdict option \<Rightarrow> flows \<Rightarrow>
    flow_error + flows" where
  "flow_update_model e f name block meta st =
     and_then (flow_demand (flow_model st f \<noteq> None) (FlowError ''flow_not_found'')) (\<lambda>_.
       Inr (st\<lparr>fs_models := map (\<lambda>m. if fm_id m = f then m\<lparr>fm_name := or_old name (fm_name m),
           fm_root_block_id := (case block of None \<Rightarrow> fm_root_block_id m | Some r \<Rightarrow> Some r),
           fm_version := fm_version m + 1, fm_updated_at := fe_now e, fm_meta := or_old meta (fm_meta m)\<rparr> else m)
         (fs_models st)\<rparr>))"

section \<open>Blocks\<close>

definition check_parent :: "flows \<Rightarrow> string \<Rightarrow> string option \<Rightarrow> flow_error + unit" where
  "check_parent st f parent = (case parent of None \<Rightarrow> Inr ()
   | Some p \<Rightarrow> (case flow_block st f p of
       None \<Rightarrow> Inl (FlowError ''parent_not_in_flow'')
     | Some b \<Rightarrow> flow_demand (fb_kind b = ''composite'') (FlowError ''parent_not_composite'')))"

definition insert_block :: "flow_block_row \<Rightarrow> flows \<Rightarrow> flow_error + flows" where
  "insert_block b st =
     and_then (flow_demand (fb_id b \<notin> fb_id ` set (fs_blocks st) \<and> block_ok st b) FlowIntegrity) (\<lambda>_.
       Inr (st\<lparr>fs_blocks := fs_blocks st @ [b]\<rparr>))"

definition flow_create_block :: "flow_env \<Rightarrow> nat \<Rightarrow> string \<Rightarrow> string \<Rightarrow> string \<Rightarrow> string \<Rightarrow> string option \<Rightarrow>
    string option \<Rightarrow> jdict \<Rightarrow> flows \<Rightarrow> flow_error + flow_block_row \<times> flows" where
  "flow_create_block e i f kind name state parent code meta st =
     (let b = \<lparr>fb_id = fe_fresh e i, fb_flow_id = f, fb_parent_id = parent, fb_kind = kind, fb_name = name,
        fb_state = state, fb_code = code, fb_meta = meta, fb_created_at = fe_now e, fb_updated_at = fe_now e\<rparr>
      in and_then (check_parent st f parent) (\<lambda>_.
         and_then (insert_block b st) (\<lambda>st'. Inr (b, st'))))"

record block_update =
  bu_name :: "string option"
  bu_kind :: "string option"
  bu_state :: "string option"
  bu_parent :: "string option"
  bu_clear_parent :: bool
  bu_code :: "string option"
  bu_meta :: "jdict option"

definition new_parent :: "block_update \<Rightarrow> flow_block_row \<Rightarrow> string option" where
  "new_parent u b = (if bu_clear_parent u then None
     else case bu_parent u of None \<Rightarrow> fb_parent_id b | Some p \<Rightarrow> Some p)"

definition updated_block :: "flow_env \<Rightarrow> block_update \<Rightarrow> flow_block_row \<Rightarrow> flow_block_row" where
  "updated_block e u b = b\<lparr>fb_name := or_old (bu_name u) (fb_name b), fb_kind := or_old (bu_kind u) (fb_kind b),
     fb_state := or_old (bu_state u) (fb_state b), fb_parent_id := new_parent u b,
     fb_code := (case bu_code u of None \<Rightarrow> fb_code b | Some c \<Rightarrow> Some c), fb_meta := or_old (bu_meta u) (fb_meta b),
     fb_updated_at := fe_now e\<rparr>"

definition flow_update_block :: "flow_env \<Rightarrow> string \<Rightarrow> string \<Rightarrow> block_update \<Rightarrow> flows \<Rightarrow> flow_error + flows" where
  "flow_update_block e f i u st = (case flow_block st f i of
     None \<Rightarrow> Inl (FlowError ''block_not_found'')
   | Some b \<Rightarrow>
       and_then (check_parent st f (new_parent u b)) (\<lambda>_.
       and_then (flow_demand (block_ok st (updated_block e u b)) FlowIntegrity) (\<lambda>_.
         Inr (st\<lparr>fs_blocks := map (\<lambda>x. if fb_flow_id x = f \<and> fb_id x = i then updated_block e u b else x)
           (fs_blocks st)\<rparr>))))"

text \<open>The children move up to the parent of the block. Its ports, their nets and its binding go with it.\<close>

definition drop_ports :: "string \<Rightarrow> (flow_port_row \<Rightarrow> bool) \<Rightarrow> flows \<Rightarrow> flows" where
  "drop_ports f P st = (let gone = fp_id ` set (filter (\<lambda>p. fp_flow_id p = f \<and> P p) (fs_ports st)) in
     st\<lparr>fs_ports := filter (\<lambda>p. \<not> (fp_flow_id p = f \<and> P p)) (fs_ports st),
       fs_nets := filter (\<lambda>n. \<not> (fn_flow_id n = f \<and> (fn_source_id n \<in> gone \<or> fn_target_id n \<in> gone))) (fs_nets st)\<rparr>)"

definition lifted_block :: "flow_env \<Rightarrow> string \<Rightarrow> string \<Rightarrow> string option \<Rightarrow> flow_block_row \<Rightarrow> flow_block_row" where
  "lifted_block e f i parent b = (if fb_flow_id b = f \<and> fb_parent_id b = Some i
     then b\<lparr>fb_parent_id := parent, fb_updated_at := fe_now e\<rparr> else b)"

definition flow_delete_block :: "flow_env \<Rightarrow> string \<Rightarrow> string \<Rightarrow> flows \<Rightarrow> flows" where
  "flow_delete_block e f i st =
     (let parent = (case flow_block st f i of None \<Rightarrow> None | Some b \<Rightarrow> fb_parent_id b);
          st1 = st\<lparr>fs_blocks := filter (\<lambda>b. \<not> (fb_flow_id b = f \<and> fb_id b = i))
            (map (lifted_block e f i parent) (fs_blocks st))\<rparr>
      in (drop_ports f (\<lambda>p. fp_block_id p = i) st1)\<lparr>fs_bindings :=
        filter (\<lambda>x. \<not> (fx_flow_id x = f \<and> fx_block_id x = i)) (fs_bindings st)\<rparr>)"

section \<open>Ports\<close>

definition next_order :: "flows \<Rightarrow> string \<Rightarrow> string \<Rightarrow> string \<Rightarrow> int" where
  "next_order st f b direction =
     (let ps = filter (\<lambda>p. fp_block_id p = b \<and> fp_direction p = direction) (flow_ports st f)
      in (if ps = [] then - 1 else Max (fp_order ` set ps)) + 1)"

definition flow_create_port :: "flow_env \<Rightarrow> nat \<Rightarrow> string \<Rightarrow> string \<Rightarrow> string \<Rightarrow> string \<Rightarrow> string \<Rightarrow> string option \<Rightarrow>
    int option \<Rightarrow> jdict \<Rightarrow> flows \<Rightarrow> flow_error + flow_port_row \<times> flows" where
  "flow_create_port e i f b name direction kind code_type order meta st =
     (let p = \<lparr>fp_id = fe_fresh e i, fp_flow_id = f, fp_block_id = b, fp_name = name, fp_direction = direction,
        fp_kind = kind, fp_code_type = code_type,
        fp_order = (case order of None \<Rightarrow> next_order st f b direction | Some k \<Rightarrow> k), fp_meta = meta,
        fp_created_at = fe_now e\<rparr>
      in and_then (flow_demand (flow_block st f b \<noteq> None) (FlowError ''block_not_in_flow'')) (\<lambda>_.
         and_then (flow_demand (\<not> list_ex (\<lambda>p. fp_block_id p = b \<and> fp_name p = name) (flow_ports st f))
           (FlowError ''port_name_exists'')) (\<lambda>_.
         and_then (flow_demand (fp_id p \<notin> fp_id ` set (fs_ports st) \<and> port_ok st p) FlowIntegrity) (\<lambda>_.
           Inr (p, st\<lparr>fs_ports := fs_ports st @ [p]\<rparr>)))))"

record port_update =
  pu_name :: "string option"
  pu_kind :: "string option"
  pu_code_type :: "string option"
  pu_clear_type :: bool
  pu_order :: "int option"
  pu_meta :: "jdict option"

definition updated_port :: "port_update \<Rightarrow> flow_port_row \<Rightarrow> flow_port_row" where
  "updated_port u p = p\<lparr>fp_name := or_old (pu_name u) (fp_name p), fp_kind := or_old (pu_kind u) (fp_kind p),
     fp_code_type := (if pu_clear_type u then None
       else case pu_code_type u of None \<Rightarrow> fp_code_type p | Some t \<Rightarrow> Some t),
     fp_order := or_old (pu_order u) (fp_order p), fp_meta := or_old (pu_meta u) (fp_meta p)\<rparr>"

definition flow_update_port :: "string \<Rightarrow> string \<Rightarrow> port_update \<Rightarrow> flows \<Rightarrow> flow_error + flows" where
  "flow_update_port f i u st = (case flow_port st f i of
     None \<Rightarrow> Inl (FlowError ''port_not_found'')
   | Some p \<Rightarrow>
       and_then (flow_demand (\<not> (pu_name u \<noteq> None \<and> pu_name u \<noteq> Some (fp_name p) \<and>
           list_ex (\<lambda>q. fp_block_id q = fp_block_id p \<and> pu_name u = Some (fp_name q) \<and> fp_id q \<noteq> i) (flow_ports st f)))
         (FlowError ''port_name_exists'')) (\<lambda>_.
       and_then (flow_demand (port_ok st (updated_port u p)) FlowIntegrity) (\<lambda>_.
         Inr (st\<lparr>fs_ports := map (\<lambda>q. if fp_flow_id q = f \<and> fp_id q = i then updated_port u p else q) (fs_ports st)\<rparr>))))"

definition flow_delete_port :: "string \<Rightarrow> string \<Rightarrow> flows \<Rightarrow> flows" where
  "flow_delete_port f i st = drop_ports f (\<lambda>p. fp_id p = i) st"

section \<open>Nets\<close>

definition flow_create_net :: "flow_env \<Rightarrow> nat \<Rightarrow> string \<Rightarrow> string \<Rightarrow> string \<Rightarrow> string \<Rightarrow> string option \<Rightarrow> jdict \<Rightarrow>
    flows \<Rightarrow> flow_error + flow_net_row \<times> flows" where
  "flow_create_net e i f s t kind label meta st =
     (let n = \<lparr>fn_id = fe_fresh e i, fn_flow_id = f, fn_source_id = s, fn_target_id = t, fn_kind = kind,
        fn_label = label, fn_meta = meta, fn_created_at = fe_now e\<rparr>
      in and_then (flow_demand (flow_port st f s \<noteq> None \<and> flow_port st f t \<noteq> None) (FlowError ''port_not_in_flow'')) (\<lambda>_.
         and_then (flow_demand (\<not> list_ex (\<lambda>x. fn_source_id x = s \<and> fn_target_id x = t) (flow_nets st f))
           (FlowError ''net_exists'')) (\<lambda>_.
         and_then (flow_demand (fn_id n \<notin> fn_id ` set (fs_nets st) \<and> net_ok st n) FlowIntegrity) (\<lambda>_.
           Inr (n, st\<lparr>fs_nets := fs_nets st @ [n]\<rparr>)))))"

record net_update =
  nu_kind :: "string option"
  nu_label :: "string option"
  nu_clear_label :: bool
  nu_meta :: "jdict option"

definition updated_net :: "net_update \<Rightarrow> flow_net_row \<Rightarrow> flow_net_row" where
  "updated_net u n = n\<lparr>fn_kind := or_old (nu_kind u) (fn_kind n),
     fn_label := (if nu_clear_label u then None else case nu_label u of None \<Rightarrow> fn_label n | Some l \<Rightarrow> Some l),
     fn_meta := or_old (nu_meta u) (fn_meta n)\<rparr>"

definition flow_update_net :: "string \<Rightarrow> string \<Rightarrow> net_update \<Rightarrow> flows \<Rightarrow> flow_error + flows" where
  "flow_update_net f i u st = (case flow_net st f i of
     None \<Rightarrow> Inl (FlowError ''net_not_found'')
   | Some n \<Rightarrow>
       and_then (flow_demand (net_ok st (updated_net u n)) FlowIntegrity) (\<lambda>_.
         Inr (st\<lparr>fs_nets := map (\<lambda>x. if fn_flow_id x = f \<and> fn_id x = i then updated_net u n else x) (fs_nets st)\<rparr>)))"

definition flow_delete_net :: "string \<Rightarrow> string \<Rightarrow> flows \<Rightarrow> flows" where
  "flow_delete_net f i st = st\<lparr>fs_nets := filter (\<lambda>n. \<not> (fn_flow_id n = f \<and> fn_id n = i)) (fs_nets st)\<rparr>"

section \<open>Bindings and layouts\<close>

definition rebound :: "flow_env \<Rightarrow> string \<Rightarrow> string \<Rightarrow> string \<Rightarrow> string \<Rightarrow> flow_binding_row \<Rightarrow> flow_binding_row" where
  "rebound e f b sid symbol x = (if fx_flow_id x = f \<and> fx_block_id x = b
     then x\<lparr>fx_snapshot_id := sid, fx_symbol_id := symbol, fx_kind := ''implementation'', fx_updated_at := fe_now e\<rparr> else x)"

definition insert_binding :: "flow_binding_row \<Rightarrow> flows \<Rightarrow> flow_error + flows" where
  "insert_binding x st =
     and_then (flow_demand (fx_id x \<notin> fx_id ` set (fs_bindings st) \<and> binding_ok st x) FlowIntegrity) (\<lambda>_.
       Inr (st\<lparr>fs_bindings := fs_bindings st @ [x]\<rparr>))"

text \<open>\<open>INSERT ... ON CONFLICT(flow_model_id, block_id) DO UPDATE\<close>.\<close>

definition flow_put_binding :: "flow_env \<Rightarrow> nat \<Rightarrow> string \<Rightarrow> string \<Rightarrow> string \<Rightarrow> string \<Rightarrow> flows \<Rightarrow> flow_error + flows" where
  "flow_put_binding e i f b sid symbol st =
     and_then (flow_demand (flow_block st f b \<noteq> None) (FlowError ''block_not_in_flow'')) (\<lambda>_.
       if list_ex (\<lambda>x. fx_flow_id x = f \<and> fx_block_id x = b) (fs_bindings st)
       then Inr (st\<lparr>fs_bindings := map (rebound e f b sid symbol) (fs_bindings st)\<rparr>)
       else insert_binding \<lparr>fx_id = fe_fresh e i, fx_flow_id = f, fx_block_id = b, fx_snapshot_id = sid,
           fx_symbol_id = symbol, fx_kind = ''implementation'', fx_created_at = fe_now e, fx_updated_at = fe_now e\<rparr> st)"

definition flow_clear_binding :: "string \<Rightarrow> string \<Rightarrow> flows \<Rightarrow> flows" where
  "flow_clear_binding f b st = st\<lparr>fs_bindings := filter (\<lambda>x. \<not> (fx_flow_id x = f \<and> fx_block_id x = b)) (fs_bindings st)\<rparr>"

definition flow_put_layout :: "flow_env \<Rightarrow> string \<Rightarrow> jdict \<Rightarrow> flows \<Rightarrow> flow_error + flows" where
  "flow_put_layout e f layout st =
     (let l = \<lparr>fl_flow_id = f, fl_layout = layout, fl_updated_at = fe_now e\<rparr> in
      if flow_layout st f \<noteq> None
      then Inr (st\<lparr>fs_layouts := map (\<lambda>x. if fl_flow_id x = f then l else x) (fs_layouts st)\<rparr>)
      else and_then (flow_demand (flow_known st f) FlowIntegrity) (\<lambda>_. Inr (st\<lparr>fs_layouts := fs_layouts st @ [l]\<rparr>)))"

end
