(* ===== verification/Flow_Service.thy ===== *)
theory Flow_Service
  imports Flow_Store
begin

text \<open>
  The flow service (\<open>flow/service.py\<close>): the operations on one flow model behind a design change.

  Every method of the store commits by itself, so an operation is a run: it gives its outcome and the
  tables it leaves behind, and an error raised between two methods does not undo the first. The DTO that
  an operation returns is read from the tables afterwards (\<open>get_flow\<close>) and is not part of the model.
\<close>

section \<open>Runs\<close>

type_synonym 'a flow_run = "flows \<Rightarrow> (flow_error + 'a) \<times> flows"

text \<open>One method of the store.\<close>

definition committed :: "(flows \<Rightarrow> flow_error + 'a \<times> flows) \<Rightarrow> 'a flow_run" where
  "committed m st = (case m st of Inl err \<Rightarrow> (Inl err, st) | Inr (a, st') \<Rightarrow> (Inr a, st'))"

definition updating :: "(flows \<Rightarrow> flow_error + flows) \<Rightarrow> unit flow_run" where
  "updating m = committed (\<lambda>st. and_then (m st) (\<lambda>st'. Inr ((), st')))"

text \<open>A check that only reads.\<close>

definition reading :: "(flows \<Rightarrow> flow_error + 'a) \<Rightarrow> 'a flow_run" where
  "reading m st = (m st, st)"

definition run_then :: "'a flow_run \<Rightarrow> ('a \<Rightarrow> 'b flow_run) \<Rightarrow> 'b flow_run" where
  "run_then m k st = (case m st of (Inl err, st') \<Rightarrow> (Inl err, st') | (Inr a, st') \<Rightarrow> k a st')"

fun run_each :: "('a \<Rightarrow> 'b flow_run) \<Rightarrow> 'a list \<Rightarrow> 'b list flow_run" where
  "run_each f [] = reading (\<lambda>_. Inr [])"
| "run_each f (x # xs) = run_then (f x) (\<lambda>y. run_then (run_each f xs) (\<lambda>ys. reading (\<lambda>_. Inr (y # ys))))"

text \<open>\<open>except FlowError: pass\<close>.\<close>

definition ignoring :: "'a flow_run \<Rightarrow> unit flow_run" where
  "ignoring m st = (case m st of
     (Inl (FlowError c), st') \<Rightarrow> (Inr (), st') | (Inl err, st') \<Rightarrow> (Inl err, st') | (Inr a, st') \<Rightarrow> (Inr (), st'))"

abbreviation check :: "bool \<Rightarrow> string \<Rightarrow> unit flow_run" where
  "check ok code \<equiv> reading (\<lambda>_. flow_demand ok (FlowError code))"

abbreviation finish :: "'a \<Rightarrow> 'a flow_run" where
  "finish a \<equiv> reading (\<lambda>_. Inr a)"

section \<open>Flow models\<close>

definition require_flow :: "flows \<Rightarrow> string \<Rightarrow> flow_error + flow_model_row" where
  "require_flow st f = (case flow_model st f of None \<Rightarrow> Inl (FlowError ''flow_not_found'') | Some m \<Rightarrow> Inr m)"

definition update_flow :: "flow_env \<Rightarrow> string \<Rightarrow> string option \<Rightarrow> jdict option \<Rightarrow> jdict option \<Rightarrow> unit flow_run" where
  "update_flow e f name layout meta =
     run_then (reading (\<lambda>st. require_flow st f)) (\<lambda>_.
     run_then (if name \<noteq> None \<or> meta \<noteq> None then updating (flow_update_model e f name None meta) else finish ()) (\<lambda>_.
       case layout of None \<Rightarrow> finish () | Some l \<Rightarrow> updating (flow_put_layout e f l)))"

text \<open>\<open>x or {}\<close> and \<open>x or []\<close>; anything else of the wrong type raises where it is used.\<close>

definition object_or_new :: "json \<Rightarrow> flow_error + jdict" where
  "object_or_new j = (if \<not> truthy j then Inr [] else case j of JObj d \<Rightarrow> Inr d | _ \<Rightarrow> Inl FlowAssertion)"

definition array_or_new :: "json \<Rightarrow> flow_error + json list" where
  "array_or_new j = (if \<not> truthy j then Inr [] else case j of JList xs \<Rightarrow> Inr xs | _ \<Rightarrow> Inl FlowAssertion)"

definition with_action :: "jdict \<Rightarrow> jdict \<Rightarrow> flow_error + jdict" where
  "with_action action meta =
     and_then (object_or_new (jget meta ''log'')) (\<lambda>log.
     and_then (array_or_new (jget log ''agent_actions'')) (\<lambda>actions.
       Inr (dict_set ''log'' (JObj (dict_set ''agent_actions'' (JList (actions @ [JObj action])) log)) meta)))"

definition record_agent_action :: "flow_env \<Rightarrow> string \<Rightarrow> jdict \<Rightarrow> unit flow_run" where
  "record_agent_action e f action =
     run_then (reading (\<lambda>st. require_flow st f)) (\<lambda>m.
     run_then (reading (\<lambda>_. with_action action (fm_meta m))) (\<lambda>meta.
     run_then (updating (flow_update_model e f None None (Some meta))) (\<lambda>_.
       reading (\<lambda>_. flow_demand (map_of action ''agent_action_id'' \<noteq> None) FlowAssertion))))"

section \<open>Blocks\<close>

definition add_block :: "flow_env \<Rightarrow> nat \<Rightarrow> string \<Rightarrow> string \<Rightarrow> string \<Rightarrow> string \<Rightarrow> string option \<Rightarrow> string option \<Rightarrow>
    jdict \<Rightarrow> flow_block_row flow_run" where
  "add_block e i f kind name state parent code meta =
     run_then (reading (\<lambda>st. require_flow st f)) (\<lambda>_.
     run_then (check (kind \<in> set block_kinds) ''invalid_block_kind'') (\<lambda>_.
     run_then (check (state \<in> set block_states) ''invalid_block_state'') (\<lambda>_.
     run_then (check (strip name \<noteq> []) ''block_name_required'') (\<lambda>_.
       committed (flow_create_block e i f kind (strip name) state parent code meta)))))"

text \<open>The search of \<open>_assert_no_parent_cycle\<close>: a stack of blocks, its top first, and the blocks seen.\<close>

function below :: "flow_block_row list \<Rightarrow> string list \<Rightarrow> string list \<Rightarrow> string list" where
  "below bs [] seen = seen"
| "below bs (i # stack) seen = (if i \<in> set seen then below bs stack seen
     else below bs (rev (map fb_id (filter (\<lambda>c. fb_parent_id c = Some i) bs)) @ stack) (i # seen))"
  by pat_completeness auto

termination below
proof (relation "measures [\<lambda>(bs, stack, seen). card ((fb_id ` set bs \<union> set stack) - set seen),
    \<lambda>(bs, stack, seen). length stack]", simp)
  fix bs :: "flow_block_row list" and i :: string and stack seen :: "string list"
  assume "i \<in> set seen"
  then have "(fb_id ` set bs \<union> set (i # stack)) - set seen = (fb_id ` set bs \<union> set stack) - set seen" by auto
  then show "((bs, stack, seen), bs, i # stack, seen)
      \<in> measures [\<lambda>(bs, stack, seen). card ((fb_id ` set bs \<union> set stack) - set seen), \<lambda>(bs, stack, seen). length stack]"
    by simp
next
  fix bs :: "flow_block_row list" and i :: string and stack seen :: "string list"
  assume new: "i \<notin> set seen"
  let ?kids = "rev (map fb_id (filter (\<lambda>c. fb_parent_id c = Some i) bs))"
  have "(fb_id ` set bs \<union> set (?kids @ stack)) - set (i # seen) \<subset> (fb_id ` set bs \<union> set (i # stack)) - set seen"
    using new by auto
  then have "card ((fb_id ` set bs \<union> set (?kids @ stack)) - set (i # seen)) <
      card ((fb_id ` set bs \<union> set (i # stack)) - set seen)"
    by (rule psubset_card_mono [rotated]) simp
  then show "((bs, ?kids @ stack, i # seen), bs, i # stack, seen)
      \<in> measures [\<lambda>(bs, stack, seen). card ((fb_id ` set bs \<union> set stack) - set seen), \<lambda>(bs, stack, seen). length stack]"
    by simp
qed

declare below.simps(2) [simp del]

definition assert_no_parent_cycle :: "flows \<Rightarrow> string \<Rightarrow> string \<Rightarrow> string \<Rightarrow> flow_error + unit" where
  "assert_no_parent_cycle st f i p =
     and_then (flow_demand (i \<noteq> p) (FlowError ''parent_cycle'')) (\<lambda>_.
       flow_demand (p \<notin> set (below (flow_blocks st f) [i] [])) (FlowError ''parent_cycle''))"

definition update_block :: "flow_env \<Rightarrow> string \<Rightarrow> string \<Rightarrow> block_update \<Rightarrow> unit flow_run" where
  "update_block e f i u =
     run_then (reading (\<lambda>st. case flow_block st f i of
       None \<Rightarrow> Inl (FlowError ''block_not_found'') | Some b \<Rightarrow> Inr b)) (\<lambda>b.
     run_then (check (case bu_state u of None \<Rightarrow> True | Some s \<Rightarrow> s \<in> set block_states) ''invalid_block_state'') (\<lambda>_.
     run_then (check (case bu_kind u of None \<Rightarrow> True | Some k \<Rightarrow> k \<in> set block_kinds) ''invalid_block_kind'') (\<lambda>_.
     run_then (reading (\<lambda>st. case new_parent u b of None \<Rightarrow> Inr () | Some p \<Rightarrow> assert_no_parent_cycle st f i p)) (\<lambda>_.
       updating (flow_update_block e f i u)))))"

definition delete_block :: "flow_env \<Rightarrow> string \<Rightarrow> string \<Rightarrow> unit flow_run" where
  "delete_block e f i = run_then (reading (\<lambda>st. require_flow st f)) (\<lambda>_. updating (\<lambda>st. Inr (flow_delete_block e f i st)))"

section \<open>Ports\<close>

definition add_port :: "flow_env \<Rightarrow> nat \<Rightarrow> string \<Rightarrow> string \<Rightarrow> string \<Rightarrow> string \<Rightarrow> string \<Rightarrow> string option \<Rightarrow> int option \<Rightarrow>
    jdict \<Rightarrow> flow_port_row flow_run" where
  "add_port e i f b name direction kind code_type order meta =
     run_then (reading (\<lambda>st. require_flow st f)) (\<lambda>_.
     run_then (check (direction \<in> set port_directions) ''invalid_port_direction'') (\<lambda>_.
     run_then (check (kind \<in> set semantic_kinds) ''invalid_port_kind'') (\<lambda>_.
       committed (flow_create_port e i f b (strip name) direction kind code_type order meta))))"

definition update_port :: "string \<Rightarrow> string \<Rightarrow> port_update \<Rightarrow> unit flow_run" where
  "update_port f i u =
     run_then (reading (\<lambda>st. require_flow st f)) (\<lambda>_.
     run_then (check (case pu_kind u of None \<Rightarrow> True | Some k \<Rightarrow> k \<in> set semantic_kinds) ''invalid_port_kind'') (\<lambda>_.
     run_then (reading (\<lambda>st. flow_demand (flow_port st f i \<noteq> None) (FlowError ''port_not_found''))) (\<lambda>_.
       updating (flow_update_port f i u))))"

definition delete_port :: "string \<Rightarrow> string \<Rightarrow> unit flow_run" where
  "delete_port f i = run_then (reading (\<lambda>st. require_flow st f)) (\<lambda>_. updating (\<lambda>st. Inr (flow_delete_port f i st)))"

section \<open>Nets\<close>

definition check_net :: "flows \<Rightarrow> string \<Rightarrow> string \<Rightarrow> string \<Rightarrow> flow_error + unit" where
  "check_net st f s t = (case (flow_port st f s, flow_port st f t) of
     (Some p, Some q) \<Rightarrow>
       and_then (flow_demand (s \<noteq> t) (FlowError ''self_net'')) (\<lambda>_.
       and_then (flow_demand (fp_direction p = ''output'' \<and> fp_direction q = ''input'') (FlowError ''net_direction'')) (\<lambda>_.
         flow_demand (fp_kind p = fp_kind q) (FlowError ''net_kind_mismatch'')))
   | _ \<Rightarrow> Inl (FlowError ''port_not_in_flow''))"

definition add_net :: "flow_env \<Rightarrow> nat \<Rightarrow> string \<Rightarrow> string \<Rightarrow> string \<Rightarrow> string \<Rightarrow> string option \<Rightarrow> bool \<Rightarrow> jdict \<Rightarrow>
    flow_net_row flow_run" where
  "add_net e i f s t kind label derived meta =
     run_then (reading (\<lambda>st. require_flow st f)) (\<lambda>_.
     run_then (check (kind \<in> set net_kinds) ''invalid_net_kind'') (\<lambda>_.
     run_then (reading (\<lambda>st. check_net st f s t)) (\<lambda>_.
       committed (flow_create_net e i f s t kind label (if derived then [(''derived'', JBool True)] else meta)))))"

definition update_net :: "string \<Rightarrow> string \<Rightarrow> net_update \<Rightarrow> unit flow_run" where
  "update_net f i u =
     run_then (reading (\<lambda>st. require_flow st f)) (\<lambda>_.
     run_then (check (case nu_kind u of None \<Rightarrow> True | Some k \<Rightarrow> k \<in> set net_kinds) ''invalid_net_kind'') (\<lambda>_.
     run_then (reading (\<lambda>st. case flow_net st f i of None \<Rightarrow> Inl (FlowError ''net_not_found'') | Some n \<Rightarrow> Inr n)) (\<lambda>n.
     run_then (check (\<not> truthy (jget (fn_meta n) ''derived'')) ''net_derived_readonly'') (\<lambda>_.
       updating (flow_update_net f i u)))))"

definition delete_net :: "string \<Rightarrow> string \<Rightarrow> unit flow_run" where
  "delete_net f i = run_then (reading (\<lambda>st. require_flow st f)) (\<lambda>_. updating (\<lambda>st. Inr (flow_delete_net f i st)))"

section \<open>Composites\<close>

definition ascii_alnum :: "char \<Rightarrow> bool" where
  "ascii_alnum c = ((CHR ''A'' \<le> c \<and> c \<le> CHR ''Z'') \<or> (CHR ''a'' \<le> c \<and> c \<le> CHR ''z'') \<or> (CHR ''0'' \<le> c \<and> c \<le> CHR ''9''))"

fun words_of :: "string \<Rightarrow> string \<Rightarrow> string list" where
  "words_of w [] = (if w = [] then [] else [w])"
| "words_of w (c # cs) = (if ascii_alnum c then words_of (w @ [c]) cs
     else if w = [] then words_of [] cs else w # words_of [] cs)"

fun capitalize :: "string \<Rightarrow> string" where
  "capitalize [] = []"
| "capitalize (c # cs) = upper_char c @ lower cs"

definition camelize :: "string \<Rightarrow> string" where
  "camelize name = (let s = concat (map capitalize (words_of [] name)) in if s = [] then ''Block'' else s)"

fun check_members :: "flow_block_row list \<Rightarrow> string list \<Rightarrow> flow_error + unit" where
  "check_members bs [] = Inr ()"
| "check_members bs (i # is) = (case map_of (dict_of fb_id (\<lambda>b. b) bs) i of
     None \<Rightarrow> Inl (FlowError ''block_not_in_flow'')
   | Some b \<Rightarrow>
       and_then (flow_demand (fb_kind b \<noteq> ''composite'') (FlowError ''composite_in_composite'')) (\<lambda>_.
       and_then (flow_demand (fb_parent_id b = None) (FlowError ''block_has_parent'')) (\<lambda>_.
         check_members bs is)))"

text \<open>The boundary of the selected blocks: their ports, and the nets that cross it.\<close>

definition member_ports :: "flows \<Rightarrow> string \<Rightarrow> string list \<Rightarrow> flow_port_row list" where
  "member_ports st f ids = filter (\<lambda>p. fp_block_id p \<in> set ids) (flow_ports st f)"

definition internal_nets :: "flows \<Rightarrow> string \<Rightarrow> string list \<Rightarrow> flow_net_row list" where
  "internal_nets st f ids = (let own = fp_id ` set (member_ports st f ids) in
     filter (\<lambda>n. fn_source_id n \<in> own \<and> fn_target_id n \<in> own) (flow_nets st f))"

definition external_nets :: "flows \<Rightarrow> string \<Rightarrow> string list \<Rightarrow> flow_net_row list" where
  "external_nets st f ids = (let own = fp_id ` set (member_ports st f ids) in
     filter (\<lambda>n. (fn_source_id n \<in> own) \<noteq> (fn_target_id n \<in> own)) (flow_nets st f))"

type_synonym port_key = "string \<times> string \<times> string"

definition key_of_port :: "flow_port_row \<Rightarrow> port_key" where
  "key_of_port p = (fp_name p, fp_direction p, fp_kind p)"

definition exposed :: "flow_net_row list \<Rightarrow> flow_net_row list \<Rightarrow> flow_port_row \<Rightarrow> bool" where
  "exposed internal external p = (if fp_direction p = ''input''
     then fp_id p \<in> fn_target_id ` set external \<or> fp_id p \<notin> fn_target_id ` set internal
     else fp_id p \<in> fn_source_id ` set external \<or> fp_id p \<notin> fn_source_id ` set internal)"

definition port_needs :: "flows \<Rightarrow> string \<Rightarrow> string list \<Rightarrow> (port_key \<times> flow_port_row list) list" where
  "port_needs st f ids = group_by key_of_port (filter (exposed (internal_nets st f ids) (external_nets st f ids))
     (sort_key (\<lambda>p. (fp_block_id p, fp_order p)) (member_ports st f ids)))"

definition expose_port :: "flow_env \<Rightarrow> string \<Rightarrow> string \<Rightarrow> nat \<times> port_key \<times> flow_port_row list \<Rightarrow>
    (port_key \<times> string \<times> flow_port_row list) flow_run" where
  "expose_port e f c = (\<lambda>(i, (name, direction, kind), ps).
     run_then (add_port e (Suc i) f c name direction kind (case ps of [] \<Rightarrow> None | p # _ \<Rightarrow> fp_code_type p) (Some (int i)) []) (\<lambda>p.
       finish ((name, direction, kind), fp_id p, ps)))"

definition create_net_missing :: "flow_env \<Rightarrow> nat \<Rightarrow> string \<Rightarrow> string \<Rightarrow> string \<Rightarrow> string \<Rightarrow> string option \<Rightarrow> unit flow_run" where
  "create_net_missing e i f s t kind label =
     run_then (reading (\<lambda>st. Inr (list_ex (\<lambda>n. fn_source_id n = s \<and> fn_target_id n = t) (flow_nets st f)))) (\<lambda>present.
       if present then finish ()
       else ignoring (committed (flow_create_net e i f s t kind label
         [(''derived'', JBool True), (''redirected'', JBool True)])))"

text \<open>
  A net across the boundary goes to the port of the composite that stands_for for its end, and a net inside
  continues it. The redirected nets draw the identifiers \<open>k + 2 i\<close> and \<open>k + 2 i + 1\<close>.
\<close>

definition redirect_net :: "flow_env \<Rightarrow> string \<Rightarrow> flow_port_row list \<Rightarrow> (port_key, string) dict \<Rightarrow> nat \<Rightarrow>
    nat \<times> flow_net_row \<Rightarrow> unit flow_run" where
  "redirect_net e f own cports k = (\<lambda>(i, n).
     case find (\<lambda>p. fp_id p = fn_target_id n) own of
       Some dst \<Rightarrow> (case map_of cports (fp_name dst, ''input'', fp_kind dst) of
           None \<Rightarrow> finish ()
         | Some c \<Rightarrow>
             run_then (updating (\<lambda>st. Inr (flow_delete_net f (fn_id n) st))) (\<lambda>_.
             run_then (create_net_missing e (k + 2 * i) f (fn_source_id n) c (fn_kind n) (fn_label n)) (\<lambda>_.
               create_net_missing e (k + 2 * i + 1) f c (fp_id dst) (fn_kind n) None)))
     | None \<Rightarrow> (case find (\<lambda>p. fp_id p = fn_source_id n) own of
           None \<Rightarrow> finish ()
         | Some src \<Rightarrow> (case map_of cports (fp_name src, ''output'', fp_kind src) of
             None \<Rightarrow> finish ()
           | Some c \<Rightarrow>
               run_then (updating (\<lambda>st. Inr (flow_delete_net f (fn_id n) st))) (\<lambda>_.
               run_then (create_net_missing e (k + 2 * i) f c (fn_target_id n) (fn_kind n) (fn_label n)) (\<lambda>_.
                 create_net_missing e (k + 2 * i + 1) f (fp_id src) c (fn_kind n) None)))))"

definition composite_meta :: "string list \<Rightarrow> (port_key \<times> string \<times> flow_port_row list) list \<Rightarrow> jdict" where
  "composite_meta ids created = [(''children'', jstrs ids),
     (''exposed_ports'', JObj (dict_of (\<lambda>(k, i, ps). i) (\<lambda>(k, i, ps). JList (map (\<lambda>p.
        JObj [(''child_port_id'', JStr (fp_id p)), (''child_block_id'', JStr (fp_block_id p))]) ps)) created))]"

definition no_update :: block_update where
  "no_update = \<lparr>bu_name = None, bu_kind = None, bu_state = None, bu_parent = None, bu_clear_parent = False,
     bu_code = None, bu_meta = None\<rparr>"

text \<open>The writes of \<open>create_composite\<close>, after its checks.\<close>

definition build_composite :: "flow_env \<Rightarrow> string \<Rightarrow> string \<Rightarrow> string list \<Rightarrow> unit flow_run" where
  "build_composite e f name ids st =
     (let own = member_ports st f ids; outer = external_nets st f ids; needs = port_needs st f ids in
      run_then (committed (flow_create_block e 0 f ''composite'' name ''existing'' None None [])) (\<lambda>c.
      run_then (run_each (expose_port e f (fb_id c)) (List.enumerate 0 needs)) (\<lambda>created.
      run_then (run_each (redirect_net e f own (map (\<lambda>(k, i, ps). (k, i)) created) (Suc (length needs)))
        (List.enumerate 0 outer)) (\<lambda>_.
      run_then (updating (flow_update_block e f (fb_id c) (no_update\<lparr>bu_meta := Some (composite_meta ids created)\<rparr>))) (\<lambda>_.
      run_then (run_each (\<lambda>i. updating (flow_update_block e f i (no_update\<lparr>bu_parent := Some (fb_id c)\<rparr>))) ids) (\<lambda>_.
        finish ()))))) st)"

definition create_composite :: "flow_env \<Rightarrow> string \<Rightarrow> string \<Rightarrow> string list \<Rightarrow> unit flow_run" where
  "create_composite e f name ids =
     run_then (reading (\<lambda>st. require_flow st f)) (\<lambda>_.
     run_then (check (ids \<noteq> []) ''composite_empty'') (\<lambda>_.
     run_then (check (2 \<le> length ids) ''composite_small'') (\<lambda>_.
     run_then (reading (\<lambda>st. check_members (flow_blocks st f) ids)) (\<lambda>_.
       build_composite e f (camelize (if strip name = [] then ''Group'' else name)) ids))))"

end
