(* ===== verification/Flow_Compare.thy ===== *)
theory Flow_Compare
  imports Flow_Service
begin

text \<open>
  The comparison of a flow with the current evidence (\<open>compare_flow\<close> of \<open>flow/domain.py\<close> and
  \<open>flow/validation.py\<close>): which calls the control nets of the flow stand for, seen through composites, and
  whether the evidence has exactly these.
\<close>

section \<open>Unrolling composites\<close>

text \<open>
  \<open>_unroll_target\<close> and \<open>_unroll_source\<close> are one recursion over the map of continuations (\<open>pc\<close> or \<open>pp\<close>). The
  first argument counts the levels left: the code starts at depth 0 and gives up when the depth exceeds 8.
\<close>

fun unroll :: "nat \<Rightarrow> (string, string list) dict \<Rightarrow> (string, string) dict \<Rightarrow> string \<Rightarrow> string set" where
  "unroll 0 onward home p = {}"
| "unroll (Suc k) onward home p = (case get_or onward p [] of
     [] \<Rightarrow> (case map_of home p of None \<Rightarrow> {} | Some b \<Rightarrow> {b})
   | c # cs \<Rightarrow> \<Union> (unroll k onward home ` set (c # cs)))"

definition unroll_levels :: nat where
  "unroll_levels = 9"

section \<open>The comparison\<close>

record unbound_block =
  ub_block :: string
  ub_name :: string
  ub_reason :: string
  ub_symbol :: "string option"

definition takes_part :: "flow_block_row \<Rightarrow> bool" where
  "takes_part b = (fb_kind b \<in> {''function'', ''object''} \<and> fb_state b \<in> {''existing'', ''modified''})"

definition unbound_of :: "(string, flow_binding_row) dict \<Rightarrow> string set \<Rightarrow> string \<times> flow_block_row \<Rightarrow> unbound_block option" where
  "unbound_of bindings nodes = (\<lambda>(i, b).
     if \<not> takes_part b then None
     else case map_of bindings i of
       None \<Rightarrow> Some \<lparr>ub_block = i, ub_name = fb_name b, ub_reason = ''no_binding'', ub_symbol = None\<rparr>
     | Some x \<Rightarrow> if fx_symbol_id x \<in> nodes then None
         else Some \<lparr>ub_block = i, ub_name = fb_name b, ub_reason = ''symbol_missing'', ub_symbol = Some (fx_symbol_id x)\<rparr>)"

definition symbols_of :: "(string, flow_binding_row) dict \<Rightarrow> string set \<Rightarrow> string set" where
  "symbols_of bindings bs = \<Union> ((\<lambda>b. case map_of bindings b of None \<Rightarrow> {} | Some x \<Rightarrow> {fx_symbol_id x}) ` bs)"

text \<open>The pairs of symbols that one net stands_for for.\<close>

definition net_pairs :: "(string, flow_binding_row) dict \<Rightarrow> (string, string) dict \<Rightarrow> (string, string list) dict \<Rightarrow>
    (string, string list) dict \<Rightarrow> flow_net_row \<Rightarrow> (string \<times> string) set" where
  "net_pairs bindings home pc pp n =
     symbols_of bindings (unroll unroll_levels pp home (fn_source_id n)) \<times>
     symbols_of bindings (unroll unroll_levels pc home (fn_target_id n))"

definition expected_pairs :: "(string, flow_binding_row) dict \<Rightarrow> (string, string) dict \<Rightarrow> flow_net_row list \<Rightarrow>
    (string, string list) dict \<Rightarrow> (string, string list) dict \<Rightarrow> (string \<times> string) set" where
  "expected_pairs bindings home nets pc pp =
     \<Union> (net_pairs bindings home pc pp ` {n \<in> set nets. fn_kind n = ''control''})"

record flow_verdict =
  fv_status :: string
  fv_unbound :: "unbound_block list"
  fv_missing :: "(string \<times> string) list"
  fv_unexpected :: "(string \<times> string) list"
  fv_expected :: nat
  fv_checked :: nat

definition compare_flow :: "(string, flow_block_row) dict \<Rightarrow> (string, flow_binding_row) dict \<Rightarrow> (string, string) dict \<Rightarrow>
    flow_net_row list \<Rightarrow> (string \<times> string) set \<Rightarrow> string set \<Rightarrow> (string, string list) dict \<Rightarrow> (string, string list) dict \<Rightarrow>
    flow_verdict" where
  "compare_flow blocks bindings home nets calls nodes pc pp =
     (let unbound = List.map_filter (unbound_of bindings nodes) blocks;
          expected = expected_pairs bindings home nets pc pp;
          missing = sorted_list_of_set (expected - calls);
          unexpected = sorted_list_of_set (calls - expected)
      in \<lparr>fv_status = (if unbound \<noteq> [] then ''UNBOUND'' else if missing \<noteq> [] then ''STALE''
            else if unexpected \<noteq> [] then ''MISMATCH'' else ''MATCH''),
          fv_unbound = unbound, fv_missing = missing, fv_unexpected = unexpected,
          fv_expected = card expected, fv_checked = length bindings\<rparr>)"

section \<open>Validation\<close>

definition port_home :: "flows \<Rightarrow> string \<Rightarrow> (string, string) dict" where
  "port_home st f = dict_of fp_id fp_block_id (flow_ports st f)"

definition blocks_by_id :: "flows \<Rightarrow> string \<Rightarrow> (string, flow_block_row) dict" where
  "blocks_by_id st f = dict_of fb_id (\<lambda>b. b) (flow_blocks st f)"

definition bindings_by_block :: "flows \<Rightarrow> string \<Rightarrow> (string, flow_binding_row) dict" where
  "bindings_by_block st f = dict_of fx_block_id (\<lambda>x. x) (flow_bindings st f)"

definition on_composite :: "flows \<Rightarrow> string \<Rightarrow> string \<Rightarrow> bool" where
  "on_composite st f p = (case map_of (port_home st f) p of None \<Rightarrow> False
   | Some i \<Rightarrow> i \<noteq> [] \<and> (case map_of (blocks_by_id st f) i of None \<Rightarrow> False | Some b \<Rightarrow> fb_kind b = ''composite''))"

text \<open>\<open>setdefault(key, []).append(item)\<close> over the nets.\<close>

definition continuations :: "(flow_net_row \<Rightarrow> string) \<Rightarrow> (flow_net_row \<Rightarrow> string) \<Rightarrow> flow_net_row list \<Rightarrow>
    (string, string list) dict" where
  "continuations key item ns = fold (\<lambda>n. dict_push (key n) (item n)) ns []"

definition port_children :: "flows \<Rightarrow> string \<Rightarrow> (string, string list) dict" where
  "port_children st f = continuations fn_source_id fn_target_id
     (filter (\<lambda>n. on_composite st f (fn_source_id n)) (flow_nets st f))"

definition port_parents :: "flows \<Rightarrow> string \<Rightarrow> (string, string list) dict" where
  "port_parents st f = continuations fn_target_id fn_source_id
     (filter (\<lambda>n. on_composite st f (fn_target_id n)) (flow_nets st f))"

definition bound_symbols :: "flows \<Rightarrow> string \<Rightarrow> string set" where
  "bound_symbols st f = set (List.map_filter (\<lambda>b. if takes_part b
     then map_option fx_symbol_id (map_of (bindings_by_block st f) (fb_id b)) else None) (map snd (blocks_by_id st f)))"

definition known_symbols :: "graph \<Rightarrow> string \<Rightarrow> string \<Rightarrow> string set \<Rightarrow> string set" where
  "known_symbols g repo sid symbols = {s \<in> symbols. node_by_id g repo sid s \<noteq> None}"

definition call_pairs :: "graph \<Rightarrow> string \<Rightarrow> string \<Rightarrow> string set \<Rightarrow> (string \<times> string) set" where
  "call_pairs g repo sid symbols = (\<lambda>x. (ed_src_id x, ed_dst_id x)) `
     {x \<in> set (all_edges g repo sid). ed_kind x = ''CALLS'' \<and> ed_src_id x \<in> symbols \<and> ed_dst_id x \<in> symbols}"

record validation =
  va_verdict :: flow_verdict
  va_flow_id :: string
  va_current_snapshot :: string
  va_pinned_snapshot :: string
  va_design_nets :: nat
  va_call_pairs :: nat

definition flow_comparison :: "graph \<Rightarrow> flows \<Rightarrow> string \<Rightarrow> string \<Rightarrow> string \<Rightarrow> flow_verdict" where
  "flow_comparison g st f repo sid = compare_flow (blocks_by_id st f) (bindings_by_block st f) (port_home st f) (flow_nets st f)
     (call_pairs g repo sid (bound_symbols st f)) (known_symbols g repo sid (bound_symbols st f))
     (port_children st f) (port_parents st f)"

definition validate_flow :: "flow_env \<Rightarrow> graph \<Rightarrow> flows \<Rightarrow> string \<Rightarrow> flow_error + validation" where
  "validate_flow e g st f = (case flow_model st f of
     None \<Rightarrow> Inl (FlowError ''flow_not_found'')
   | Some m \<Rightarrow>
       and_then (flow_demand (fe_repo e (fm_repo_id m)) (FlowError ''repo_not_found'')) (\<lambda>_.
       case current_snapshot (fm_repo_id m) g of
         None \<Rightarrow> Inl (FlowError ''repo_not_indexed'')
       | Some sid \<Rightarrow>
           and_then (flow_demand (sid \<noteq> []) (FlowError ''repo_not_indexed'')) (\<lambda>_.
             Inr \<lparr>va_verdict = flow_comparison g st f (fm_repo_id m) sid, va_flow_id = f, va_current_snapshot = sid,
               va_pinned_snapshot = fm_snapshot_id m,
               va_design_nets = length (filter (\<lambda>n. fn_kind n \<noteq> ''control'') (flow_nets st f)),
               va_call_pairs = card (call_pairs g (fm_repo_id m) sid (bound_symbols st f))\<rparr>)))"

section \<open>How far the unrolling sees\<close>

definition onward_links :: "(string, string list) dict \<Rightarrow> (string \<times> string) set" where
  "onward_links d = {(p, q). q \<in> set (get_or d p [])}"

definition ends_at :: "(string, string list) dict \<Rightarrow> (string, string) dict \<Rightarrow> string \<Rightarrow> string \<Rightarrow> bool" where
  "ends_at onward home p b = (get_or onward p [] = [] \<and> map_of home p = Some b)"

lemma unroll_bound:
  "b \<in> unroll n onward home p \<longleftrightarrow> (\<exists>k q. k < n \<and> (p, q) \<in> onward_links onward ^^ k \<and> ends_at onward home q b)"
proof (induction n arbitrary: p)
  case (Suc n)
  show ?case
  proof (cases "get_or onward p []")
    case Nil
    then have stuck: "(p, x) \<notin> onward_links onward" for x by (simp add: onward_links_def)
    have "(p, q) \<in> onward_links onward ^^ k \<longleftrightarrow> k = 0 \<and> q = p" for k q
    proof (cases k)
      case (Suc j)
      have "(p, q) \<notin> onward_links onward ^^ Suc j"
      proof
        assume "(p, q) \<in> onward_links onward ^^ Suc j"
        then obtain x where "(p, x) \<in> onward_links onward" by (blast elim: relpow_Suc_E2)
        with stuck show False by blast
      qed
      with Suc show ?thesis by simp
    qed auto
    then show ?thesis using Nil by (auto simp: ends_at_def split: option.splits)
  next
    case (Cons c cs)
    have "b \<in> unroll (Suc n) onward home p \<longleftrightarrow> (\<exists>x \<in> set (get_or onward p []). b \<in> unroll n onward home x)"
      using Cons by simp
    also have "\<dots> \<longleftrightarrow> (\<exists>x. (p, x) \<in> onward_links onward \<and>
        (\<exists>k q. k < n \<and> (x, q) \<in> onward_links onward ^^ k \<and> ends_at onward home q b))"
      by (simp add: Suc.IH onward_links_def Bex_def)
    also have "\<dots> \<longleftrightarrow> (\<exists>k q. k < Suc n \<and> (p, q) \<in> onward_links onward ^^ k \<and> ends_at onward home q b)"
    proof
      assume "\<exists>x. (p, x) \<in> onward_links onward \<and> (\<exists>k q. k < n \<and> (x, q) \<in> onward_links onward ^^ k \<and> ends_at onward home q b)"
      then obtain x k q where "(p, x) \<in> onward_links onward" "k < n" "(x, q) \<in> onward_links onward ^^ k" "ends_at onward home q b"
        by blast
      then have "Suc k < Suc n \<and> (p, q) \<in> onward_links onward ^^ Suc k \<and> ends_at onward home q b"
        using relpow_Suc_I2 by (metis Suc_less_eq)
      then show "\<exists>k q. k < Suc n \<and> (p, q) \<in> onward_links onward ^^ k \<and> ends_at onward home q b" by blast
    next
      assume "\<exists>k q. k < Suc n \<and> (p, q) \<in> onward_links onward ^^ k \<and> ends_at onward home q b"
      then obtain k q where k: "k < Suc n" "(p, q) \<in> onward_links onward ^^ k" "ends_at onward home q b" by blast
      show "\<exists>x. (p, x) \<in> onward_links onward \<and> (\<exists>k q. k < n \<and> (x, q) \<in> onward_links onward ^^ k \<and> ends_at onward home q b)"
      proof (cases k)
        case 0
        with k Cons show ?thesis by (simp add: ends_at_def)
      next
        case (Suc j)
        with k(2) obtain x where "(p, x) \<in> onward_links onward" "(x, q) \<in> onward_links onward ^^ j"
          using relpow_Suc_D2 by metis
        with k Suc show ?thesis by auto
      qed
    qed
    finally show ?thesis .
  qed
qed simp

end
