(* ===== verification/Flow_Invariant.thy ===== *)
theory Flow_Invariant
  imports Flow_Compare
begin

text \<open>
  The invariant of the flow plane: keys, references inside one flow and a block hierarchy without cycles;
  and that every method of the store keeps it.
\<close>

section \<open>The invariant\<close>

definition fup :: "flow_block_row list \<Rightarrow> (string \<times> string) set" where
  "fup bs = {(fb_id b, p) | b p. b \<in> set bs \<and> fb_parent_id b = Some p}"

definition keyed_flows :: "flows \<Rightarrow> bool" where
  "keyed_flows st = (distinct (map fm_id (fs_models st)) \<and> distinct (map fb_id (fs_blocks st)) \<and>
     distinct (map fp_id (fs_ports st)) \<and> distinct (map fn_id (fs_nets st)) \<and> distinct (map fx_id (fs_bindings st)))"

definition flow_rows_ok :: "flows \<Rightarrow> bool" where
  "flow_rows_ok st = ((\<forall>b \<in> set (fs_blocks st). block_ok st b) \<and> (\<forall>p \<in> set (fs_ports st). port_ok st p) \<and>
     (\<forall>n \<in> set (fs_nets st). net_ok st n) \<and> (\<forall>x \<in> set (fs_bindings st). binding_ok st x))"

definition flow_ok :: "flows \<Rightarrow> bool" where
  "flow_ok st = (keyed_flows st \<and> flow_rows_ok st \<and> acyclic (fup (fs_blocks st)))"

lemma flow_okI:
  assumes "distinct (map fm_id (fs_models st))" "distinct (map fb_id (fs_blocks st))" "distinct (map fp_id (fs_ports st))"
    "distinct (map fn_id (fs_nets st))" "distinct (map fx_id (fs_bindings st))"
    "\<And>b. b \<in> set (fs_blocks st) \<Longrightarrow> block_ok st b" "\<And>p. p \<in> set (fs_ports st) \<Longrightarrow> port_ok st p"
    "\<And>n. n \<in> set (fs_nets st) \<Longrightarrow> net_ok st n" "\<And>x. x \<in> set (fs_bindings st) \<Longrightarrow> binding_ok st x" "acyclic (fup (fs_blocks st))"
  shows "flow_ok st"
  using assms by (simp add: flow_ok_def keyed_flows_def flow_rows_ok_def)

lemma flow_okD:
  assumes "flow_ok st"
  shows "distinct (map fm_id (fs_models st))" "distinct (map fb_id (fs_blocks st))" "distinct (map fp_id (fs_ports st))"
    "distinct (map fn_id (fs_nets st))" "distinct (map fx_id (fs_bindings st))"
    "b \<in> set (fs_blocks st) \<Longrightarrow> block_ok st b" "p \<in> set (fs_ports st) \<Longrightarrow> port_ok st p"
    "n \<in> set (fs_nets st) \<Longrightarrow> net_ok st n" "x \<in> set (fs_bindings st) \<Longrightarrow> binding_ok st x" "acyclic (fup (fs_blocks st))"
  using assms by (simp_all add: flow_ok_def keyed_flows_def flow_rows_ok_def)

lemma known_defs:
  "block_known st f i \<longleftrightarrow> (\<exists>b \<in> set (fs_blocks st). fb_flow_id b = f \<and> fb_id b = i)"
  "port_known st f i \<longleftrightarrow> (\<exists>p \<in> set (fs_ports st). fp_flow_id p = f \<and> fp_id p = i)"
  "flow_known st f \<longleftrightarrow> (\<exists>m \<in> set (fs_models st). fm_id m = f)"
  by (simp_all add: block_known_def port_known_def flow_known_def list_ex_iff)

lemma known_id: "block_known st f i \<Longrightarrow> i \<in> fb_id ` set (fs_blocks st)"
  by (auto simp: block_known_def list_ex_iff)

lemma empty_flow_ok: "flow_ok empty_flows"
  by (intro flow_okI) (simp_all add: empty_flows_def fup_def acyclic_def)

text \<open>Two rows with one key are the same row.\<close>

lemma same_row:
  assumes "distinct (map key xs)" and "x \<in> set xs" and "y \<in> set xs" and "key x = key y"
  shows "x = y"
  using assms by (auto simp: distinct_map inj_on_def)

lemma lookup_block:
  assumes "flow_ok st"
  shows "flow_block st f i = Some b \<longleftrightarrow> b \<in> set (fs_blocks st) \<and> fb_flow_id b = f \<and> fb_id b = i"
proof
  show "flow_block st f i = Some b \<Longrightarrow> b \<in> set (fs_blocks st) \<and> fb_flow_id b = f \<and> fb_id b = i"
    by (auto simp: flow_block_def dest: find_SomeD)
  assume b: "b \<in> set (fs_blocks st) \<and> fb_flow_id b = f \<and> fb_id b = i"
  then have "flow_block st f i \<noteq> None" by (auto simp: flow_block_def find_None_iff)
  then obtain c where c: "flow_block st f i = Some c" by blast
  then have "c \<in> set (fs_blocks st) \<and> fb_id c = i" by (auto simp: flow_block_def dest: find_SomeD)
  with b same_row [OF flow_okD(2) [OF assms], of c b] c show "flow_block st f i = Some b" by simp
qed

lemma lookup_port:
  assumes "flow_ok st"
  shows "flow_port st f i = Some p \<longleftrightarrow> p \<in> set (fs_ports st) \<and> fp_flow_id p = f \<and> fp_id p = i"
proof
  show "flow_port st f i = Some p \<Longrightarrow> p \<in> set (fs_ports st) \<and> fp_flow_id p = f \<and> fp_id p = i"
    by (auto simp: flow_port_def dest: find_SomeD)
  assume p: "p \<in> set (fs_ports st) \<and> fp_flow_id p = f \<and> fp_id p = i"
  then have "flow_port st f i \<noteq> None" by (auto simp: flow_port_def find_None_iff)
  then obtain c where c: "flow_port st f i = Some c" by blast
  then have "c \<in> set (fs_ports st) \<and> fp_id c = i" by (auto simp: flow_port_def dest: find_SomeD)
  with p same_row [OF flow_okD(3) [OF assms], of c p] c show "flow_port st f i = Some p" by simp
qed

text \<open>More rows with the same keys: what was known stays known.\<close>

definition knows_more :: "flows \<Rightarrow> flows \<Rightarrow> bool" where
  "knows_more st st' = (fm_id ` set (fs_models st) \<subseteq> fm_id ` set (fs_models st') \<and>
     (\<lambda>b. (fb_flow_id b, fb_id b)) ` set (fs_blocks st) \<subseteq> (\<lambda>b. (fb_flow_id b, fb_id b)) ` set (fs_blocks st') \<and>
     (\<lambda>p. (fp_flow_id p, fp_id p)) ` set (fs_ports st) \<subseteq> (\<lambda>p. (fp_flow_id p, fp_id p)) ` set (fs_ports st'))"

lemma known_pairs:
  "block_known st f i \<longleftrightarrow> (f, i) \<in> (\<lambda>b. (fb_flow_id b, fb_id b)) ` set (fs_blocks st)"
  "port_known st f i \<longleftrightarrow> (f, i) \<in> (\<lambda>p. (fp_flow_id p, fp_id p)) ` set (fs_ports st)"
  "flow_known st f \<longleftrightarrow> f \<in> fm_id ` set (fs_models st)"
  unfolding known_defs by auto

lemma knows_more_known:
  assumes "knows_more st st'"
  shows "block_known st f i \<Longrightarrow> block_known st' f i" "port_known st f i \<Longrightarrow> port_known st' f i"
    "flow_known st f \<Longrightarrow> flow_known st' f"
  using assms unfolding known_pairs knows_more_def by blast+

lemma knows_more_ok:
  assumes "knows_more st st'"
  shows "block_ok st b \<Longrightarrow> block_ok st' b" "port_ok st p \<Longrightarrow> port_ok st' p" "net_ok st n \<Longrightarrow> net_ok st' n"
    "binding_ok st x \<Longrightarrow> binding_ok st' x"
  using knows_more_known [OF assms]
  by (auto simp: block_ok_def port_ok_def net_ok_def binding_ok_def split: option.splits)

text \<open>What a constraint depends on.\<close>

lemma ok_cong:
  "fs_models s = fs_models t \<Longrightarrow> fs_blocks s = fs_blocks t \<Longrightarrow> block_ok s b = block_ok t b"
  "fs_blocks s = fs_blocks t \<Longrightarrow> port_ok s p = port_ok t p"
  "fs_ports s = fs_ports t \<Longrightarrow> net_ok s n = net_ok t n"
  "fs_blocks s = fs_blocks t \<Longrightarrow> binding_ok s x = binding_ok t x"
  by (simp_all add: block_ok_def port_ok_def net_ok_def binding_ok_def block_known_def port_known_def flow_known_def
    split: option.splits)

section \<open>Models\<close>

lemma create_model_ok:
  assumes "flow_create_model e repo name sid ws arch scope st = Inr (m, st')" and "flow_ok st"
  shows "flow_ok st'"
proof -
  from assms(1) have st': "st' = st\<lparr>fs_models := fs_models st @ [m]\<rparr>" "fm_id m \<notin> fm_id ` set (fs_models st)"
    by (auto simp: flow_create_model_def and_then_Inr Let_def split: option.splits)
  have more: "knows_more st st'" by (auto simp: knows_more_def st')
  show ?thesis
    using flow_okD [OF assms(2)] knows_more_ok [OF more] st'(2) by (intro flow_okI) (auto simp: st'(1))
qed

lemma update_model_ok:
  assumes "flow_update_model e f name block meta st = Inr st'" and "flow_ok st"
  shows "flow_ok st'"
proof -
  from assms(1) obtain g where st': "st' = st\<lparr>fs_models := map g (fs_models st)\<rparr>" and g: "\<And>m. fm_id (g m) = fm_id m"
    unfolding flow_update_model_def and_then_Inr by auto
  have more: "knows_more st st'" by (auto simp: knows_more_def st' g image_image)
  have "distinct (map fm_id (fs_models st'))" using flow_okD(1) [OF assms(2)] by (simp add: st' comp_def g)
  then show ?thesis
    using flow_okD [OF assms(2)] knows_more_ok [OF more] by (intro flow_okI) (simp_all add: st')
qed

section \<open>Blocks\<close>

lemma insert_block_ok:
  assumes ins: "insert_block b st = Inr st'" and ok: "flow_ok st"
  shows "flow_ok st'"
proof -
  from ins have st': "st' = st\<lparr>fs_blocks := fs_blocks st @ [b]\<rparr>" and new: "fb_id b \<notin> fb_id ` set (fs_blocks st)"
    and b: "block_ok st b" by (auto simp: insert_block_def and_then_Inr)
  have more: "knows_more st st'" by (auto simp: knows_more_def st')
  have unused: "(x, fb_id b) \<notin> fup (fs_blocks st)" for x
  proof
    assume "(x, fb_id b) \<in> fup (fs_blocks st)"
    then obtain y where y: "y \<in> set (fs_blocks st)" "fb_parent_id y = Some (fb_id b)" by (auto simp: fup_def)
    with flow_okD(6) [OF ok y(1)] have "block_known st (fb_flow_id y) (fb_id b)" by (simp add: block_ok_def)
    with new known_id show False by blast
  qed
  have "acyclic (fup (fs_blocks st'))"
  proof (cases "fb_parent_id b")
    case None
    then have "fup (fs_blocks st') = fup (fs_blocks st)" by (auto simp: fup_def st')
    with flow_okD(10) [OF ok] show ?thesis by simp
  next
    case (Some p)
    then have "fup (fs_blocks st') = insert (fb_id b, p) (fup (fs_blocks st))" by (auto simp: fup_def st')
    moreover have "block_known st (fb_flow_id b) p" using b Some by (simp add: block_ok_def)
    then have "p \<noteq> fb_id b" using known_id new by blast
    then have "(p, fb_id b) \<notin> (fup (fs_blocks st))\<^sup>*" using unused by (metis rtranclE)
    ultimately show ?thesis using flow_okD(10) [OF ok] by (simp add: acyclic_insert)
  qed
  then show ?thesis
    using flow_okD [OF ok] knows_more_ok [OF more] new b by (intro flow_okI) (auto simp: st')
qed

lemma create_block_ok:
  assumes "flow_create_block e i f kind name state parent code meta st = Inr (b, st')" and "flow_ok st"
  shows "flow_ok st'"
  using assms insert_block_ok by (auto simp: flow_create_block_def Let_def and_then_Inr)

text \<open>A block that gets a parent which is not below it.\<close>

lemma update_block_ok:
  assumes upd: "flow_update_block e f i u st = Inr st'" and ok: "flow_ok st"
    and safe: "\<And>b p. flow_block st f i = Some b \<Longrightarrow> new_parent u b = Some p \<Longrightarrow> (p, i) \<notin> (fup (fs_blocks st) - {i} \<times> UNIV)\<^sup>*"
  shows "flow_ok st'"
proof -
  from upd obtain b where b: "flow_block st f i = Some b" and row: "block_ok st (updated_block e u b)"
    and st': "st' = st\<lparr>fs_blocks := map (\<lambda>x. if fb_flow_id x = f \<and> fb_id x = i then updated_block e u b else x) (fs_blocks st)\<rparr>"
    by (auto simp: flow_update_block_def and_then_Inr split: option.splits)
  have bb: "b \<in> set (fs_blocks st)" "fb_flow_id b = f" "fb_id b = i" using b lookup_block [OF ok] by auto
  define g where "g = (\<lambda>x. if fb_flow_id x = f \<and> fb_id x = i then updated_block e u b else x)"
  note st' = st' [folded g_def]
  have keys: "fb_id (g x) = fb_id x" "fb_flow_id (g x) = fb_flow_id x" for x using bb by (auto simp: updated_block_def g_def)
  have more: "knows_more st st'" by (simp add: knows_more_def st' image_image keys)
  have "distinct (map fb_id (fs_blocks st'))" using flow_okD(2) [OF ok] by (simp add: st' comp_def keys)
  moreover have "block_ok st' x" if x: "x \<in> set (fs_blocks st')" for x
  proof -
    from x obtain y where "y \<in> set (fs_blocks st)" "x = g y" by (auto simp: st')
    then have "block_ok st x" using row flow_okD(6) [OF ok] by (auto simp: g_def split: if_splits)
    then show ?thesis by (rule knows_more_ok(1) [OF more])
  qed
  moreover have "acyclic (fup (fs_blocks st'))"
  proof -
    let ?R = "fup (fs_blocks st) - {i} \<times> UNIV"
    have base: "acyclic ?R" by (rule acyclic_subset [OF flow_okD(10) [OF ok]]) blast
    have edges: "fup (fs_blocks st') \<subseteq> ?R \<union> {(i, p) | p. new_parent u b = Some p}"
    proof (rule subrelI)
      fix x p assume "(x, p) \<in> fup (fs_blocks st')"
      then obtain y where y: "y \<in> set (fs_blocks st)" "x = fb_id (g y)" "fb_parent_id (g y) = Some p"
        by (auto simp: fup_def st')
      show "(x, p) \<in> ?R \<union> {(i, p) | p. new_parent u b = Some p}"
      proof (cases "fb_id y = i")
        case True
        then have "y = b" using same_row [OF flow_okD(2) [OF ok] y(1) bb(1)] bb(3) by simp
        then show ?thesis using y bb by (simp add: updated_block_def g_def)
      next
        case False
        then show ?thesis using y by (auto simp: fup_def g_def)
      qed
    qed
    show ?thesis
    proof (cases "new_parent u b")
      case None
      with edges have "fup (fs_blocks st') \<subseteq> ?R" by auto
      then show ?thesis by (rule acyclic_subset [OF base])
    next
      case (Some p)
      then have "acyclic (insert (i, p) ?R)" using base safe [OF b Some] by (simp add: acyclic_insert)
      moreover have "fup (fs_blocks st') \<subseteq> insert (i, p) ?R" using edges Some by auto
      ultimately show ?thesis by (rule acyclic_subset)
    qed
  qed
  ultimately show ?thesis
    using flow_okD [OF ok] knows_more_ok [OF more] by (intro flow_okI) (simp_all add: st')
qed

section \<open>Deletions\<close>

lemma drop_ports_known:
  "port_known (drop_ports f P st) g i \<longleftrightarrow> (\<exists>p \<in> set (fs_ports st). fp_flow_id p = g \<and> fp_id p = i \<and> \<not> (g = f \<and> P p))"
  by (auto simp: known_defs drop_ports_def Let_def)

lemma drop_ports_ok:
  assumes "distinct (map fp_id (fs_ports st))" "distinct (map fn_id (fs_nets st))"
    and ports: "\<And>p. p \<in> set (fs_ports st) \<Longrightarrow> \<not> (fp_flow_id p = f \<and> P p) \<Longrightarrow> port_ok st p"
    and nets: "\<And>n. n \<in> set (fs_nets st) \<Longrightarrow> net_ok st n"
  shows "distinct (map fp_id (fs_ports (drop_ports f P st)))" "distinct (map fn_id (fs_nets (drop_ports f P st)))"
    "p \<in> set (fs_ports (drop_ports f P st)) \<Longrightarrow> port_ok (drop_ports f P st) p"
    "n \<in> set (fs_nets (drop_ports f P st)) \<Longrightarrow> net_ok (drop_ports f P st) n"
proof -
  let ?s = "drop_ports f P st"
  show "distinct (map fp_id (fs_ports ?s))" "distinct (map fn_id (fs_nets ?s))"
    using assms(1,2) by (simp_all add: drop_ports_def Let_def distinct_map_filter)
  show "port_ok ?s p" if "p \<in> set (fs_ports ?s)"
    using ports [of p] that by (auto simp: port_ok_def block_known_def drop_ports_def Let_def)
  show "net_ok ?s n" if n: "n \<in> set (fs_nets ?s)"
  proof -
    let ?gone = "fp_id ` set (filter (\<lambda>p. fp_flow_id p = f \<and> P p) (fs_ports st))"
    from n have old: "n \<in> set (fs_nets st)" and kept: "fn_flow_id n = f \<Longrightarrow> fn_source_id n \<notin> ?gone \<and> fn_target_id n \<notin> ?gone"
      by (auto simp: drop_ports_def Let_def)
    have end_kept: "port_known ?s (fn_flow_id n) i" if known: "port_known st (fn_flow_id n) i" and "fn_flow_id n = f \<Longrightarrow> i \<notin> ?gone" for i
    proof -
      from known obtain p where "p \<in> set (fs_ports st)" "fp_flow_id p = fn_flow_id n" "fp_id p = i" by (auto simp: known_defs)
      with that(2) show ?thesis unfolding drop_ports_known by force
    qed
    show ?thesis using nets [OF old] end_kept kept by (auto simp: net_ok_def)
  qed
qed

lemma drop_ports_fields [simp]:
  "fs_models (drop_ports f P st) = fs_models st" "fs_blocks (drop_ports f P st) = fs_blocks st"
  "fs_bindings (drop_ports f P st) = fs_bindings st" "fs_layouts (drop_ports f P st) = fs_layouts st"
  by (simp_all add: drop_ports_def Let_def)

lemma delete_port_ok:
  assumes "flow_ok st"
  shows "flow_ok (flow_delete_port f i st)"
proof -
  note old = flow_okD [OF assms]
  note d = drop_ports_ok [OF old(3,4), where f = f and P = "\<lambda>p. fp_id p = i", OF old(7) old(8)]
  show ?thesis
    unfolding flow_delete_port_def using old d
    by (intro flow_okI) (simp_all add: ok_cong(1,4) [of "drop_ports f (\<lambda>p. fp_id p = i) st" st])
qed

text \<open>A child of the deleted block moves up: its new link is a path of the old hierarchy.\<close>

lemma delete_block_ok:
  assumes ok: "flow_ok st"
  shows "flow_ok (flow_delete_block e f i st)"
proof -
  define parent where "parent = (case flow_block st f i of None \<Rightarrow> None | Some b \<Rightarrow> fb_parent_id b)"
  define g where "g = lifted_block e f i parent"
  define st1 where "st1 = st\<lparr>fs_blocks := filter (\<lambda>b. \<not> (fb_flow_id b = f \<and> fb_id b = i)) (map g (fs_blocks st))\<rparr>"
  have run: "flow_delete_block e f i st = (drop_ports f (\<lambda>p. fp_block_id p = i) st1)\<lparr>fs_bindings :=
      filter (\<lambda>x. \<not> (fx_flow_id x = f \<and> fx_block_id x = i)) (fs_bindings st)\<rparr>"
    by (simp add: flow_delete_block_def Let_def parent_def g_def st1_def)
  have keys: "fb_id (g b) = fb_id b" "fb_flow_id (g b) = fb_flow_id b" "fb_kind (g b) = fb_kind b" "fb_state (g b) = fb_state b" for b
    by (simp_all add: g_def lifted_block_def)
  have link: "fb_parent_id (g b) = (if fb_flow_id b = f \<and> fb_parent_id b = Some i then parent else fb_parent_id b)" for b
    by (simp add: g_def lifted_block_def)
  have known: "block_known st1 h j \<longleftrightarrow> block_known st h j \<and> \<not> (h = f \<and> j = i)" for h j
    by (auto simp: known_defs st1_def keys)
  have up_of: "(i, p) \<in> fup (fs_blocks st)" "block_known st f p" if "parent = Some p" for p
  proof -
    from that obtain b where b: "flow_block st f i = Some b" "fb_parent_id b = Some p" by (auto simp: parent_def split: option.splits)
    then have bb: "b \<in> set (fs_blocks st)" "fb_flow_id b = f" "fb_id b = i" using lookup_block [OF ok] by auto
    show "(i, p) \<in> fup (fs_blocks st)" using bb b by (auto simp: fup_def)
    show "block_known st f p" using flow_okD(6) [OF ok bb(1)] bb b by (simp add: block_ok_def)
  qed
  have self: "(j, j) \<notin> fup (fs_blocks st)" for j using flow_okD(10) [OF ok] by (auto simp: acyclic_def)
  have rows: "block_ok st1 b" if b: "b \<in> set (fs_blocks st1)" for b
  proof -
    from b obtain x where x: "x \<in> set (fs_blocks st)" "b = g x" by (auto simp: st1_def)
    have old: "block_ok st x" by (rule flow_okD(6) [OF ok x(1)])
    have "block_known st1 (fb_flow_id b) p" if p: "fb_parent_id b = Some p" for p
    proof (cases "fb_flow_id x = f \<and> fb_parent_id x = Some i")
      case True
      with p x have "parent = Some p" by (simp add: link)
      moreover from up_of(1) [OF this] self have "p \<noteq> i" by blast
      ultimately show ?thesis using up_of(2) True x by (simp add: known keys)
    next
      case False
      with p x have "fb_parent_id x = Some p" by (simp add: link)
      with False old show ?thesis using x by (auto simp: known keys block_ok_def)
    qed
    then show ?thesis using old x by (auto simp: block_ok_def keys flow_known_def st1_def split: option.splits)
  qed
  have free: "acyclic (fup (fs_blocks st1))"
  proof -
    have "(x, p) \<in> (fup (fs_blocks st))\<^sup>+" if xp: "(x, p) \<in> fup (fs_blocks st1)" for x p
    proof -
      from xp obtain y where y: "y \<in> set (fs_blocks st)" "x = fb_id y" "fb_parent_id (g y) = Some p"
        by (auto simp: fup_def st1_def keys)
      show ?thesis
      proof (cases "fb_flow_id y = f \<and> fb_parent_id y = Some i")
        case True
        then have "(x, i) \<in> fup (fs_blocks st)" and to: "parent = Some p" using y by (auto simp: fup_def link)
        then have "(x, i) \<in> (fup (fs_blocks st))\<^sup>+" by blast
        then show ?thesis using up_of(1) [OF to] by (rule trancl_into_trancl)
      next
        case False
        then have "(x, p) \<in> fup (fs_blocks st)" using y by (auto simp: fup_def link)
        then show ?thesis by blast
      qed
    qed
    then have "fup (fs_blocks st1) \<subseteq> (fup (fs_blocks st))\<^sup>+" by auto
    moreover have "acyclic ((fup (fs_blocks st))\<^sup>+)" using flow_okD(10) [OF ok] by (simp add: acyclic_def)
    ultimately show ?thesis by (rule acyclic_subset [rotated])
  qed
  have ids: "distinct (map fb_id (fs_blocks st1))"
    unfolding st1_def using flow_okD(2) [OF ok] by (simp add: distinct_map_filter comp_def keys)
  note old = flow_okD [OF ok]
  have ports: "port_ok st1 p" if "p \<in> set (fs_ports st)" "\<not> (fp_flow_id p = f \<and> fp_block_id p = i)" for p
    using old(7) [OF that(1)] that(2) by (auto simp: port_ok_def known)
  have nets: "net_ok st1 n" if "n \<in> set (fs_nets st)" for n
    using old(8) [OF that] by (simp add: st1_def net_ok_def port_known_def)
  have bind: "binding_ok st1 x" if "x \<in> set (fs_bindings st)" "\<not> (fx_flow_id x = f \<and> fx_block_id x = i)" for x
    using old(9) [OF that(1)] that(2) by (auto simp: binding_ok_def known)
  have tabs: "fs_ports st1 = fs_ports st" "fs_nets st1 = fs_nets st" "fs_models st1 = fs_models st" by (simp_all add: st1_def)
  have d: "distinct (map fp_id (fs_ports st1))" "distinct (map fn_id (fs_nets st1))" using old(3,4) by (simp_all add: tabs)
  note dropped = drop_ports_ok [OF d, where f = f and P = "\<lambda>p. fp_block_id p = i", unfolded tabs, OF ports nets]
  let ?s = "drop_ports f (\<lambda>p. fp_block_id p = i) st1"
  let ?t = "?s\<lparr>fs_bindings := filter (\<lambda>x. \<not> (fx_flow_id x = f \<and> fx_block_id x = i)) (fs_bindings st)\<rparr>"
  have same: "block_ok ?t b = block_ok st1 b" "port_ok ?t p = port_ok ?s p" "net_ok ?t n = net_ok ?s n" "binding_ok ?t x = binding_ok st1 x"
    for b p n x by (rule ok_cong; simp)+
  show ?thesis
    unfolding run
  proof (rule flow_okI)
    show "distinct (map fm_id (fs_models ?t))" using old(1) by (simp add: tabs)
    show "distinct (map fb_id (fs_blocks ?t))" using ids by simp
    show "distinct (map fp_id (fs_ports ?t))" "distinct (map fn_id (fs_nets ?t))" using dropped(1,2) by simp_all
    show "distinct (map fx_id (fs_bindings ?t))" using old(5) by (simp add: distinct_map_filter)
    show "block_ok ?t b" if "b \<in> set (fs_blocks ?t)" for b using rows [of b] that unfolding same by simp
    show "port_ok ?t p" if "p \<in> set (fs_ports ?t)" for p using dropped(3) [of p] that unfolding same by simp
    show "net_ok ?t n" if "n \<in> set (fs_nets ?t)" for n using dropped(4) [of n] that unfolding same by simp
    show "binding_ok ?t x" if "x \<in> set (fs_bindings ?t)" for x using bind [of x] that unfolding same by simp
    show "acyclic (fup (fs_blocks ?t))" using free by simp
  qed
qed

section \<open>Ports, nets, bindings and layouts\<close>

lemma create_port_ok:
  assumes "flow_create_port e i f b name direction kind code_type order meta st = Inr (p, st')" and "flow_ok st"
  shows "flow_ok st'"
proof -
  from assms(1) have st': "st' = st\<lparr>fs_ports := fs_ports st @ [p]\<rparr>" and p: "fp_id p \<notin> fp_id ` set (fs_ports st)" "port_ok st p"
    unfolding flow_create_port_def Let_def and_then_Inr flow_demand_Inr by auto
  have more: "knows_more st st'" by (auto simp: knows_more_def st')
  show ?thesis
    using flow_okD [OF assms(2)] knows_more_ok [OF more] p by (intro flow_okI) (auto simp: st')
qed

lemma update_port_ok:
  assumes "flow_update_port f i u st = Inr st'" and ok: "flow_ok st"
  shows "flow_ok st'"
proof -
  from assms(1) obtain p where p: "flow_port st f i = Some p" and row: "port_ok st (updated_port u p)"
    and st': "st' = st\<lparr>fs_ports := map (\<lambda>q. if fp_flow_id q = f \<and> fp_id q = i then updated_port u p else q) (fs_ports st)\<rparr>"
    by (auto simp: flow_update_port_def and_then_Inr split: option.splits)
  have pp: "p \<in> set (fs_ports st)" "fp_flow_id p = f" "fp_id p = i" using p lookup_port [OF ok] by auto
  define g where "g = (\<lambda>q. if fp_flow_id q = f \<and> fp_id q = i then updated_port u p else q)"
  note st' = st' [folded g_def]
  have keys: "fp_id (g q) = fp_id q" "fp_flow_id (g q) = fp_flow_id q" for q using pp by (auto simp: updated_port_def g_def)
  have more: "knows_more st st'" by (simp add: knows_more_def st' image_image keys)
  have "distinct (map fp_id (fs_ports st'))" using flow_okD(3) [OF ok] by (simp add: st' comp_def keys)
  moreover have "port_ok st' q" if "q \<in> set (fs_ports st')" for q
    using that row flow_okD(7) [OF ok] by (intro knows_more_ok(2) [OF more]) (auto simp: st' g_def split: if_splits)
  ultimately show ?thesis
    using flow_okD [OF ok] knows_more_ok [OF more] by (intro flow_okI) (simp_all add: st')
qed

lemma create_net_ok:
  assumes "flow_create_net e i f s t kind label meta st = Inr (n, st')" and "flow_ok st"
  shows "flow_ok st'"
proof -
  from assms(1) have st': "st' = st\<lparr>fs_nets := fs_nets st @ [n]\<rparr>" and n: "fn_id n \<notin> fn_id ` set (fs_nets st)" "net_ok st n"
    unfolding flow_create_net_def Let_def and_then_Inr flow_demand_Inr by auto
  have more: "knows_more st st'" by (auto simp: knows_more_def st')
  show ?thesis
    using flow_okD [OF assms(2)] knows_more_ok [OF more] n by (intro flow_okI) (auto simp: st')
qed

lemma update_net_ok:
  assumes "flow_update_net f i u st = Inr st'" and ok: "flow_ok st"
  shows "flow_ok st'"
proof -
  from assms(1) obtain n where n: "flow_net st f i = Some n" and row: "net_ok st (updated_net u n)"
    and st': "st' = st\<lparr>fs_nets := map (\<lambda>q. if fn_flow_id q = f \<and> fn_id q = i then updated_net u n else q) (fs_nets st)\<rparr>"
    by (auto simp: flow_update_net_def and_then_Inr split: option.splits)
  have nn: "fn_flow_id n = f" "fn_id n = i" using n by (auto simp: flow_net_def dest: find_SomeD)
  define g where "g = (\<lambda>q. if fn_flow_id q = f \<and> fn_id q = i then updated_net u n else q)"
  note st' = st' [folded g_def]
  have keys: "fn_id (g q) = fn_id q" for q using nn by (auto simp: updated_net_def g_def)
  have more: "knows_more st st'" by (simp add: knows_more_def st')
  have "distinct (map fn_id (fs_nets st'))" using flow_okD(4) [OF ok] by (simp add: st' comp_def keys)
  moreover have "net_ok st' q" if "q \<in> set (fs_nets st')" for q
    using that row flow_okD(8) [OF ok] by (intro knows_more_ok(3) [OF more]) (auto simp: st' g_def split: if_splits)
  ultimately show ?thesis
    using flow_okD [OF ok] knows_more_ok [OF more] by (intro flow_okI) (simp_all add: st')
qed

lemma delete_net_ok: "flow_ok st \<Longrightarrow> flow_ok (flow_delete_net f i st)"
proof -
  assume ok: "flow_ok st"
  have more: "knows_more st (flow_delete_net f i st)" by (simp add: knows_more_def flow_delete_net_def)
  show ?thesis
    using flow_okD [OF ok] knows_more_ok [OF more] by (intro flow_okI) (auto simp: flow_delete_net_def distinct_map_filter)
qed

lemma insert_binding_ok:
  assumes "insert_binding x st = Inr st'" and "flow_ok st"
  shows "flow_ok st'"
proof -
  from assms(1) have st': "st' = st\<lparr>fs_bindings := fs_bindings st @ [x]\<rparr>" and x: "fx_id x \<notin> fx_id ` set (fs_bindings st)" "binding_ok st x"
    by (auto simp: insert_binding_def and_then_Inr)
  have more: "knows_more st st'" by (simp add: knows_more_def st')
  show ?thesis using flow_okD [OF assms(2)] knows_more_ok [OF more] x by (intro flow_okI) (auto simp: st')
qed

lemma put_binding_ok:
  assumes run: "flow_put_binding e i f b sid symbol st = Inr st'" and ok: "flow_ok st"
  shows "flow_ok st'"
proof (cases "list_ex (\<lambda>x. fx_flow_id x = f \<and> fx_block_id x = b) (fs_bindings st)")
  case True
  with run have st': "st' = st\<lparr>fs_bindings := map (rebound e f b sid symbol) (fs_bindings st)\<rparr>"
    by (auto simp: flow_put_binding_def and_then_Inr)
  have more: "knows_more st st'" by (simp add: knows_more_def st')
  have keys: "fx_id (rebound e f b sid symbol x) = fx_id x"
    "binding_ok st x \<Longrightarrow> binding_ok st (rebound e f b sid symbol x)" for x
    by (auto simp: rebound_def binding_ok_def)
  have "distinct (map fx_id (fs_bindings st'))" using flow_okD(5) [OF ok] by (simp add: st' keys comp_def)
  moreover have "binding_ok st' x" if "x \<in> set (fs_bindings st')" for x
    using that flow_okD(9) [OF ok] keys(2) by (intro knows_more_ok(4) [OF more]) (auto simp: st')
  ultimately show ?thesis
    using flow_okD [OF ok] knows_more_ok [OF more] by (intro flow_okI) (simp_all add: st')
next
  case False
  with run ok show ?thesis by (auto simp: flow_put_binding_def and_then_Inr intro: insert_binding_ok)
qed

lemma put_layout_ok:
  assumes "flow_put_layout e f l st = Inr st'" and ok: "flow_ok st"
  shows "flow_ok st'"
proof -
  from assms(1) obtain ls where st': "st' = st\<lparr>fs_layouts := ls\<rparr>"
    by (auto simp: flow_put_layout_def Let_def and_then_Inr split: if_splits)
  have more: "knows_more st st'" by (simp add: knows_more_def st')
  show ?thesis using flow_okD [OF ok] knows_more_ok [OF more] by (intro flow_okI) (auto simp: st')
qed

end
