(* ===== verification/Flow_Typing.thy ===== *)
theory Flow_Typing
  imports Flow_Invariant
begin

text \<open>
  Rules for runs, and the typing of nets: a net joins ports of one semantic kind, and goes from an output
  to an input, or along the boundary of a composite, from its input to an input or from an output to its
  output. Only composites have members. Which methods keep this.
\<close>

section \<open>Rules for runs\<close>

definition ensures :: "(flows \<Rightarrow> bool) \<Rightarrow> 'a flow_run \<Rightarrow> ('a \<Rightarrow> flows \<Rightarrow> bool) \<Rightarrow> (flows \<Rightarrow> bool) \<Rightarrow> bool" where
  "ensures P m Q E = (\<forall>st. P st \<longrightarrow> (case m st of (Inl err, st') \<Rightarrow> E st' | (Inr a, st') \<Rightarrow> Q a st'))"

abbreviation keeps :: "(flows \<Rightarrow> bool) \<Rightarrow> 'a flow_run \<Rightarrow> bool" where
  "keeps P m \<equiv> ensures P m (\<lambda>_. P) P"

lemma ensuresI: "(\<And>st. P st \<Longrightarrow> case m st of (Inl err, st') \<Rightarrow> E st' | (Inr a, st') \<Rightarrow> Q a st') \<Longrightarrow> ensures P m Q E"
  by (simp add: ensures_def)

lemma ensuresD:
  assumes "ensures P m Q E" and "P st"
  shows "m st = (Inr a, st') \<Longrightarrow> Q a st'" "m st = (Inl err, st') \<Longrightarrow> E st'"
  using assms by (auto simp: ensures_def)

lemma keeps_result: "keeps P m \<Longrightarrow> P st \<Longrightarrow> P (snd (m st))"
  by (cases "m st") (auto simp: ensures_def split: sum.splits)

lemma ensures_weaken:
  assumes "ensures P m Q E" and "\<And>st. P' st \<Longrightarrow> P st" and "\<And>a st. Q a st \<Longrightarrow> Q' a st" and "\<And>st. E st \<Longrightarrow> E' st"
  shows "ensures P' m Q' E'"
  using assms by (fastforce simp: ensures_def split: prod.splits sum.splits)

lemma ensures_reading:
  assumes "\<And>st a. P st \<Longrightarrow> m st = Inr a \<Longrightarrow> Q a st" and "\<And>st. P st \<Longrightarrow> E st"
  shows "ensures P (reading m) Q E"
  using assms by (auto simp: ensures_def reading_def split: sum.splits)

lemma ensures_committed:
  assumes "\<And>st a st'. P st \<Longrightarrow> m st = Inr (a, st') \<Longrightarrow> Q a st'" and "\<And>st. P st \<Longrightarrow> E st"
  shows "ensures P (committed m) Q E"
  using assms by (auto simp: ensures_def committed_def split: sum.splits)

lemma ensures_updating:
  assumes "\<And>st st'. P st \<Longrightarrow> m st = Inr st' \<Longrightarrow> Q () st'" and "\<And>st. P st \<Longrightarrow> E st"
  shows "ensures P (updating m) Q E"
  unfolding updating_def using assms by (intro ensures_committed) (auto simp: and_then_Inr)

lemma ensures_then:
  assumes m: "ensures P m R E" and k: "\<And>a. ensures (R a) (k a) Q E"
  shows "ensures P (run_then m k) Q E"
proof (rule ensuresI)
  fix st assume P: "P st"
  obtain r s where r: "m st = (r, s)" by (cases "m st")
  show "case run_then m k st of (Inl err, st') \<Rightarrow> E st' | (Inr a, st') \<Rightarrow> Q a st'"
  proof (cases r)
    case (Inl err)
    with ensuresD(2) [OF m P] r show ?thesis by (simp add: run_then_def)
  next
    case (Inr a)
    with ensuresD(1) [OF m P] r have "R a s" by simp
    with k [of a] Inr r show ?thesis by (simp add: run_then_def ensures_def)
  qed
qed

lemma ensures_each:
  assumes "\<And>x D. x \<in> set xs \<Longrightarrow> ensures (I D) (f x) (\<lambda>y. I (insert y D)) E" and "\<And>D st. I D st \<Longrightarrow> E st"
  shows "ensures (I D) (run_each f xs) (\<lambda>ys. I (D \<union> set ys)) E"
  using assms(1)
proof (induction xs arbitrary: D)
  case Nil
  then show ?case by (auto intro!: ensures_reading assms(2))
next
  case (Cons x xs)
  have "ensures (I (insert y D)) (run_then (run_each f xs) (\<lambda>ys. reading (\<lambda>_. Inr (y # ys)))) (\<lambda>ys. I (D \<union> set ys)) E" for y
  proof (rule ensures_then)
    show "ensures (I (insert y D)) (run_each f xs) (\<lambda>ys. I (insert y D \<union> set ys)) E"
      by (rule Cons.IH) (use Cons.prems in simp)
    show "ensures (I (insert y D \<union> set ys)) (reading (\<lambda>_. Inr (y # ys))) (\<lambda>ys. I (D \<union> set ys)) E" for ys
      by (rule ensures_reading) (auto intro: assms(2))
  qed
  with Cons.prems [of x D] show ?case by (auto intro: ensures_then)
qed

lemma keeps_each: "(\<And>x. x \<in> set xs \<Longrightarrow> keeps P (f x)) \<Longrightarrow> keeps P (run_each f xs)"
  using ensures_each [of xs "\<lambda>_. P" f P "{}"] by simp

lemma ensures_ignoring: "ensures P m (\<lambda>_. Q) Q \<Longrightarrow> ensures P (ignoring m) (\<lambda>_. Q) Q"
  by (fastforce simp: ensures_def ignoring_def split: prod.splits sum.splits flow_error.splits)

lemma keeps_finish [simp]: "keeps P (finish a)"
  by (rule ensures_reading)

lemma keeps_reading [simp]: "keeps P (reading m)"
  by (rule ensures_reading)

lemma keeps_then: "keeps P m \<Longrightarrow> (\<And>a. keeps P (k a)) \<Longrightarrow> keeps P (run_then m k)"
  by (rule ensures_then)

lemmas keeps_rules = keeps_then keeps_reading ensures_updating ensures_committed

section \<open>The typing of nets\<close>

definition composite_home :: "flows \<Rightarrow> flow_port_row \<Rightarrow> bool" where
  "composite_home st p = (\<exists>b \<in> set (fs_blocks st). fb_id b = fp_block_id p \<and> fb_kind b = ''composite'')"

definition drives :: "flows \<Rightarrow> flow_port_row \<Rightarrow> flow_port_row \<Rightarrow> bool" where
  "drives st p q = (fp_kind p = fp_kind q \<and>
     (fp_direction p = ''output'' \<and> fp_direction q = ''input'' \<or>
      fp_direction p = ''input'' \<and> fp_direction q = ''input'' \<and> composite_home st p \<or>
      fp_direction p = ''output'' \<and> fp_direction q = ''output'' \<and> composite_home st q))"

definition well_typed :: "flows \<Rightarrow> bool" where
  "well_typed st = (\<forall>n \<in> set (fs_nets st). \<forall>p \<in> set (fs_ports st). \<forall>q \<in> set (fs_ports st).
     fp_id p = fn_source_id n \<and> fp_id q = fn_target_id n \<longrightarrow> drives st p q)"

text \<open>Only composites have children.\<close>

definition housed :: "flows \<Rightarrow> bool" where
  "housed st = (\<forall>b \<in> set (fs_blocks st). \<forall>c \<in> set (fs_blocks st). fb_parent_id b = Some (fb_id c) \<longrightarrow> fb_kind c = ''composite'')"

definition typed_flows :: "flows \<Rightarrow> bool" where
  "typed_flows st = (flow_ok st \<and> well_typed st \<and> housed st)"

lemma typed_flowsD:
  assumes "typed_flows st"
  shows "flow_ok st" "well_typed st" "housed st"
  using assms by (simp_all add: typed_flows_def)

lemma housed_same: "fs_blocks st' = fs_blocks st \<Longrightarrow> housed st' = housed st"
  by (simp add: housed_def)

lemma checked_parent:
  assumes "flow_ok st" and "check_parent st f parent = Inr ()" and "c \<in> set (fs_blocks st)" and "parent = Some (fb_id c)"
  shows "fb_kind c = ''composite''"
proof -
  from assms(2,4) obtain b where b: "flow_block st f (fb_id c) = Some b" "fb_kind b = ''composite''"
    by (auto simp: check_parent_def split: option.splits)
  then have "b \<in> set (fs_blocks st)" "fb_id b = fb_id c" using lookup_block [OF assms(1)] by auto
  with same_row [OF flow_okD(2) [OF assms(1)] _ assms(3)] b(2) show ?thesis by auto
qed

lemma parent_listed:
  assumes "flow_ok st" and "b \<in> set (fs_blocks st)" and "fb_parent_id b = Some p"
  shows "p \<in> fb_id ` set (fs_blocks st)"
  using flow_okD(6) [OF assms(1,2)] assms(3) known_id by (auto simp: block_ok_def)

definition port_shape :: "flow_port_row \<Rightarrow> string \<times> string \<times> string \<times> string" where
  "port_shape p = (fp_id p, fp_block_id p, fp_direction p, fp_kind p)"

definition end_pair :: "flow_net_row \<Rightarrow> string \<times> string" where
  "end_pair n = (fn_source_id n, fn_target_id n)"

lemma typed_shapes:
  assumes "well_typed st" and nets: "end_pair ` set (fs_nets st') \<subseteq> end_pair ` set (fs_nets st)"
    and ports: "\<And>p' n. p' \<in> set (fs_ports st') \<Longrightarrow> n \<in> set (fs_nets st') \<Longrightarrow> fp_id p' \<in> {fn_source_id n, fn_target_id n} \<Longrightarrow>
      \<exists>p \<in> set (fs_ports st). port_shape p = port_shape p' \<and> (composite_home st p \<longrightarrow> composite_home st' p')"
  shows "well_typed st'"
  unfolding well_typed_def
proof (intro ballI impI)
  fix n' p' q' assume n': "n' \<in> set (fs_nets st')" and p': "p' \<in> set (fs_ports st')" and q': "q' \<in> set (fs_ports st')"
    and at: "fp_id p' = fn_source_id n' \<and> fp_id q' = fn_target_id n'"
  from n' nets obtain n where n: "n \<in> set (fs_nets st)" "end_pair n = end_pair n'" by (metis image_iff imageI subsetD)
  from ports [OF p' n'] at obtain p where p: "p \<in> set (fs_ports st)" "port_shape p = port_shape p'"
    "composite_home st p \<longrightarrow> composite_home st' p'" by auto
  from ports [OF q' n'] at obtain q where q: "q \<in> set (fs_ports st)" "port_shape q = port_shape q'"
    "composite_home st q \<longrightarrow> composite_home st' q'" by auto
  have "drives st p q"
    using assms(1) n p q at unfolding well_typed_def by (auto simp: port_shape_def end_pair_def)
  with p q show "drives st' p' q'" by (auto simp: drives_def port_shape_def)
qed

text \<open>The same ports and nets, and no composite lost.\<close>

lemma typed_blocks:
  assumes "well_typed st" and "fs_ports st' = fs_ports st" and "fs_nets st' = fs_nets st"
    and "\<And>b. b \<in> set (fs_blocks st) \<Longrightarrow> fb_kind b = ''composite'' \<Longrightarrow>
      \<exists>b' \<in> set (fs_blocks st'). fb_id b' = fb_id b \<and> fb_kind b' = ''composite''"
  shows "well_typed st'"
proof (rule typed_shapes [OF assms(1)])
  show "end_pair ` set (fs_nets st') \<subseteq> end_pair ` set (fs_nets st)" using assms(3) by simp
  fix p' assume "p' \<in> set (fs_ports st')"
  moreover have "composite_home st p' \<longrightarrow> composite_home st' p'" unfolding composite_home_def using assms(4) by metis
  ultimately show "\<exists>p \<in> set (fs_ports st). port_shape p = port_shape p' \<and> (composite_home st p \<longrightarrow> composite_home st' p')"
    using assms(2) by auto
qed

lemma typed_create_block:
  assumes "flow_create_block e i f kind name state parent code meta st = Inr (b, st')" and "typed_flows st"
  shows "typed_flows st'"
proof -
  from assms(1) have "insert_block b st = Inr st'" unfolding flow_create_block_def Let_def and_then_Inr by auto
  then have st': "st' = st\<lparr>fs_blocks := fs_blocks st @ [b]\<rparr>" by (simp add: insert_block_def and_then_Inr)
  have "well_typed st" using assms(2) by (simp add: typed_flows_def)
  then have "well_typed st'" by (rule typed_blocks) (auto simp: st')
  moreover have "housed st'"
    unfolding housed_def
  proof (intro ballI impI)
    fix a c assume a: "a \<in> set (fs_blocks st')" and c: "c \<in> set (fs_blocks st')" and up: "fb_parent_id a = Some (fb_id c)"
    note ok = typed_flowsD [OF assms(2)]
    have parent: "check_parent st f (fb_parent_id b) = Inr ()" and new: "fb_id b \<notin> fb_id ` set (fs_blocks st)"
      using assms(1) unfolding flow_create_block_def insert_block_def Let_def and_then_Inr by auto
    have known: "fb_id c \<in> fb_id ` set (fs_blocks st)"
    proof (cases "a = b")
      case True
      with parent up have "flow_block st f (fb_id c) \<noteq> None" by (auto simp: check_parent_def split: option.splits)
      then obtain r where "flow_block st f (fb_id c) = Some r" by blast
      then have "r \<in> set (fs_blocks st)" "fb_id r = fb_id c" using lookup_block [OF ok(1)] by auto
      then show ?thesis by (metis imageI)
    next
      case False
      then show ?thesis using a parent_listed [OF ok(1) _ up] by (simp add: st')
    qed
    then have c': "c \<in> set (fs_blocks st)" using c new by (auto simp: st')
    show "fb_kind c = ''composite''"
    proof (cases "a = b")
      case True
      then show ?thesis using checked_parent [OF ok(1) parent c'] up by simp
    next
      case False
      then show ?thesis using a c' up ok(3) by (auto simp: st' housed_def)
    qed
  qed
  ultimately show ?thesis using create_block_ok [OF assms(1)] typed_flowsD [OF assms(2)] by (simp add: typed_flows_def)
qed

lemma update_block_blocks:
  assumes "flow_update_block e f i u st = Inr st'" and "flow_ok st"
  obtains b where "flow_block st f i = Some b" "b \<in> set (fs_blocks st)" "fb_id b = i" "fb_flow_id b = f"
    "st' = st\<lparr>fs_blocks := map (\<lambda>x. if fb_id x = i then updated_block e u b else x) (fs_blocks st)\<rparr>"
proof -
  from assms(1) obtain b where b: "flow_block st f i = Some b"
    and st': "st' = st\<lparr>fs_blocks := map (\<lambda>x. if fb_flow_id x = f \<and> fb_id x = i then updated_block e u b else x) (fs_blocks st)\<rparr>"
    by (auto simp: flow_update_block_def and_then_Inr split: option.splits)
  have bb: "b \<in> set (fs_blocks st)" "fb_id b = i" "fb_flow_id b = f" using b lookup_block [OF assms(2)] by auto
  have "fb_flow_id x = f" if "x \<in> set (fs_blocks st)" "fb_id x = i" for x
    using same_row [OF flow_okD(2) [OF assms(2)] that(1) bb(1)] that bb by simp
  then have "map (\<lambda>x. if fb_flow_id x = f \<and> fb_id x = i then updated_block e u b else x) (fs_blocks st) =
      map (\<lambda>x. if fb_id x = i then updated_block e u b else x) (fs_blocks st)" by (intro map_cong) auto
  with that [OF b bb] st' show thesis by simp
qed

lemma typed_update_block:
  assumes upd: "flow_update_block e f i u st = Inr st'" and "typed_flows st" and "bu_kind u = None"
  shows "well_typed st' \<and> housed st'"
proof
  note ok = typed_flowsD [OF assms(2)]
  from update_block_blocks [OF upd ok(1)] obtain b where b: "flow_block st f i = Some b" "b \<in> set (fs_blocks st)" "fb_id b = i"
    and st': "st' = st\<lparr>fs_blocks := map (\<lambda>x. if fb_id x = i then updated_block e u b else x) (fs_blocks st)\<rparr>" .
  have row: "\<exists>c \<in> set (fs_blocks st). fb_id c = fb_id c' \<and> fb_kind c = fb_kind c'" if "c' \<in> set (fs_blocks st')" for c'
    using that b assms(3) by (auto simp: st' updated_block_def or_old_def split: if_splits)
  show "housed st'"
    unfolding housed_def
  proof (intro ballI impI)
    fix a c' assume a: "a \<in> set (fs_blocks st')" and c': "c' \<in> set (fs_blocks st')" and up: "fb_parent_id a = Some (fb_id c')"
    from row [OF c'] obtain c where c: "c \<in> set (fs_blocks st)" "fb_id c = fb_id c'" "fb_kind c = fb_kind c'" by blast
    have "fb_kind c = ''composite''"
    proof (cases "a = updated_block e u b")
      case True
      have "check_parent st f (new_parent u b) = Inr ()" using upd b(1) by (auto simp: flow_update_block_def and_then_Inr)
      moreover have "new_parent u b = Some (fb_id c)" using up c(2) unfolding True by (simp add: updated_block_def)
      ultimately show ?thesis using checked_parent [OF ok(1) _ c(1)] by blast
    next
      case False
      then have "a \<in> set (fs_blocks st)" using a by (auto simp: st' split: if_splits)
      then show ?thesis using ok(3) up c by (auto simp: housed_def)
    qed
    with c(3) show "fb_kind c' = ''composite''" by simp
  qed
  show "well_typed st'"
  proof (rule typed_blocks [OF ok(2)])
    fix x assume x: "x \<in> set (fs_blocks st)" "fb_kind x = ''composite''"
    show "\<exists>x' \<in> set (fs_blocks st'). fb_id x' = fb_id x \<and> fb_kind x' = ''composite''"
    proof (cases "fb_id x = i")
      case True
      then have "x = b" using same_row [OF flow_okD(2) [OF ok(1)] x(1) b(2)] b(3) by simp
      moreover have "updated_block e u b \<in> set (fs_blocks st')" using b by (auto simp: st')
      ultimately show ?thesis using x(2) assms(3) by (intro bexI) (auto simp: updated_block_def or_old_def)
    next
      case False
      then have "x \<in> set (fs_blocks st')" using x(1) by (auto simp: st')
      with x(2) show ?thesis by blast
    qed
  qed (simp_all add: st')
qed

lemma typed_drop_ports:
  assumes "well_typed st" and "fs_blocks st' = fs_blocks st" and "fs_ports st' = fs_ports (drop_ports f P st)"
    and "fs_nets st' = fs_nets (drop_ports f P st)"
  shows "well_typed st'"
proof (rule typed_shapes [OF assms(1)])
  show "end_pair ` set (fs_nets st') \<subseteq> end_pair ` set (fs_nets st)" unfolding assms(4) by (auto simp: drop_ports_def Let_def)
  fix p' assume "p' \<in> set (fs_ports st')"
  then have "p' \<in> set (fs_ports st)" unfolding assms(3) by (auto simp: drop_ports_def Let_def)
  moreover have "composite_home st p' = composite_home st' p'" by (simp add: composite_home_def assms(2))
  ultimately show "\<exists>p \<in> set (fs_ports st). port_shape p = port_shape p' \<and> (composite_home st p \<longrightarrow> composite_home st' p')" by auto
qed

lemma typed_delete_port: "typed_flows st \<Longrightarrow> typed_flows (flow_delete_port f i st)"
  using typed_drop_ports [of st "flow_delete_port f i st"] delete_port_ok [of st f i] housed_same [of "flow_delete_port f i st" st]
  by (auto simp: typed_flows_def flow_delete_port_def)

lemma typed_delete_block:
  assumes "typed_flows st"
  shows "typed_flows (flow_delete_block e f i st)"
proof -
  note ok = typed_flowsD [OF assms]
  let ?t = "flow_delete_block e f i st"
  define parent where "parent = (case flow_block st f i of None \<Rightarrow> None | Some b \<Rightarrow> fb_parent_id b)"
  have t: "fs_blocks ?t = filter (\<lambda>b. \<not> (fb_flow_id b = f \<and> fb_id b = i)) (map (lifted_block e f i parent) (fs_blocks st))"
    by (simp add: flow_delete_block_def Let_def parent_def)
  have keys: "fb_id (lifted_block e f i parent b) = fb_id b" "fb_flow_id (lifted_block e f i parent b) = fb_flow_id b"
    "fb_kind (lifted_block e f i parent b) = fb_kind b" for b by (simp_all add: lifted_block_def)
  have "housed ?t"
    unfolding housed_def
  proof (intro ballI impI)
    fix a' c' assume "a' \<in> set (fs_blocks ?t)" "c' \<in> set (fs_blocks ?t)" and up: "fb_parent_id a' = Some (fb_id c')"
    then obtain a c where a: "a \<in> set (fs_blocks st)" "a' = lifted_block e f i parent a"
      and c: "c \<in> set (fs_blocks st)" "c' = lifted_block e f i parent c" unfolding t by auto
    have "fb_parent_id a = Some (fb_id c) \<or> parent = Some (fb_id c)"
      using up unfolding a(2) c(2) keys by (auto simp: lifted_block_def split: if_splits)
    then have "fb_kind c = ''composite''"
    proof
      assume "parent = Some (fb_id c)"
      then obtain b where "flow_block st f i = Some b" "fb_parent_id b = Some (fb_id c)" by (auto simp: parent_def split: option.splits)
      then show ?thesis using ok(3) c(1) lookup_block [OF ok(1)] by (auto simp: housed_def)
    qed (use ok(3) a(1) c(1) in \<open>auto simp: housed_def\<close>)
    then show "fb_kind c' = ''composite''" unfolding c(2) keys .
  qed
  moreover have "well_typed ?t"
  proof (rule typed_shapes [OF ok(2)])
    show "end_pair ` set (fs_nets ?t) \<subseteq> end_pair ` set (fs_nets st)"
      by (auto simp: flow_delete_block_def Let_def drop_ports_def)
    fix p assume "p \<in> set (fs_ports ?t)"
    then have p: "p \<in> set (fs_ports st)" "\<not> (fp_flow_id p = f \<and> fp_block_id p = i)"
      by (auto simp: flow_delete_block_def Let_def drop_ports_def)
    have "composite_home ?t p" if "composite_home st p"
    proof -
      from that obtain b where b: "b \<in> set (fs_blocks st)" "fb_id b = fp_block_id p" "fb_kind b = ''composite''"
        by (auto simp: composite_home_def)
      from flow_okD(7) [OF ok(1) p(1)] obtain c where c: "c \<in> set (fs_blocks st)" "fb_flow_id c = fp_flow_id p" "fb_id c = fp_block_id p"
        by (auto simp: port_ok_def known_defs)
      have "b = c" using same_row [OF flow_okD(2) [OF ok(1)] b(1) c(1)] b c by simp
      with b c p(2) have stays: "\<not> (fb_flow_id b = f \<and> fb_id b = i)" by simp
      have "lifted_block e f i parent b \<in> set (fs_blocks ?t)" unfolding t using b(1) stays keys by auto
      then show ?thesis unfolding composite_home_def using keys b(2,3) by metis
    qed
    with p(1) show "\<exists>p' \<in> set (fs_ports st). port_shape p' = port_shape p \<and> (composite_home st p' \<longrightarrow> composite_home ?t p)" by blast
  qed
  ultimately show ?thesis using delete_block_ok [OF ok(1)] by (simp add: typed_flows_def)
qed

lemma net_ends_known:
  assumes "flow_ok st" and "n \<in> set (fs_nets st)"
  shows "fn_source_id n \<in> fp_id ` set (fs_ports st)" "fn_target_id n \<in> fp_id ` set (fs_ports st)"
  using flow_okD(8) [OF assms] unfolding net_ok_def known_defs by (metis imageI)+

lemma typed_create_port:
  assumes run: "flow_create_port e i f b name direction kind code_type order meta st = Inr (p, st')" and "typed_flows st"
  shows "typed_flows st'"
proof -
  have ok: "flow_ok st" "well_typed st" using assms(2) by (simp_all add: typed_flows_def)
  from run have st': "st' = st\<lparr>fs_ports := fs_ports st @ [p]\<rparr>" and p: "fp_id p \<notin> fp_id ` set (fs_ports st)"
    unfolding flow_create_port_def Let_def and_then_Inr flow_demand_Inr by auto
  have "well_typed st'"
  proof (rule typed_shapes [OF ok(2)])
    show "end_pair ` set (fs_nets st') \<subseteq> end_pair ` set (fs_nets st)" by (simp add: st')
    fix p' n assume a: "p' \<in> set (fs_ports st')" "n \<in> set (fs_nets st')" "fp_id p' \<in> {fn_source_id n, fn_target_id n}"
    then have "fp_id p' \<in> fp_id ` set (fs_ports st)" using net_ends_known [OF ok(1), of n] by (auto simp: st')
    with a(1) p have "p' \<in> set (fs_ports st)" by (auto simp: st')
    moreover have "composite_home st p' = composite_home st' p'" by (simp add: composite_home_def st')
    ultimately show "\<exists>p \<in> set (fs_ports st). port_shape p = port_shape p' \<and> (composite_home st p \<longrightarrow> composite_home st' p')" by auto
  qed
  moreover have "housed st'" using housed_same [of st' st] typed_flowsD(3) [OF assms(2)] by (simp add: st')
  ultimately show ?thesis using create_port_ok [OF run ok(1)] by (simp add: typed_flows_def)
qed

lemma typed_update_port:
  assumes run: "flow_update_port f i u st = Inr st'" and "typed_flows st" and same: "pu_kind u = None"
  shows "typed_flows st'"
proof -
  have ok: "flow_ok st" "well_typed st" using assms(2) by (simp_all add: typed_flows_def)
  from run obtain p where p: "flow_port st f i = Some p"
    and st': "st' = st\<lparr>fs_ports := map (\<lambda>q. if fp_flow_id q = f \<and> fp_id q = i then updated_port u p else q) (fs_ports st)\<rparr>"
    by (auto simp: flow_update_port_def and_then_Inr split: option.splits)
  have pp: "p \<in> set (fs_ports st)" using p lookup_port [OF ok(1)] by auto
  have "well_typed st'"
  proof (rule typed_shapes [OF ok(2)])
    show "end_pair ` set (fs_nets st') \<subseteq> end_pair ` set (fs_nets st)" by (simp add: st')
    fix q' assume "q' \<in> set (fs_ports st')"
    then have "q' = updated_port u p \<or> q' \<in> set (fs_ports st)" by (auto simp: st')
    moreover have "port_shape (updated_port u p) = port_shape p" using same by (simp add: updated_port_def port_shape_def or_old_def)
    moreover have "composite_home st q = composite_home st' q'" if "port_shape q = port_shape q'" for q
      using that by (simp add: composite_home_def st' port_shape_def)
    ultimately show "\<exists>q \<in> set (fs_ports st). port_shape q = port_shape q' \<and> (composite_home st q \<longrightarrow> composite_home st' q')"
      using pp by metis
  qed
  moreover have "housed st'" using housed_same [of st' st] typed_flowsD(3) [OF assms(2)] by (simp add: st')
  ultimately show ?thesis using update_port_ok [OF run ok(1)] by (simp add: typed_flows_def)
qed

lemma typed_create_net:
  assumes run: "flow_create_net e i f s t kind label meta st = Inr (n, st')" and "typed_flows st"
    and drives: "\<And>p q. p \<in> set (fs_ports st) \<Longrightarrow> q \<in> set (fs_ports st) \<Longrightarrow> fp_id p = s \<Longrightarrow> fp_id q = t \<Longrightarrow> drives st p q"
  shows "typed_flows st'"
proof -
  have ok: "flow_ok st" "well_typed st" using assms(2) by (simp_all add: typed_flows_def)
  from run have st': "st' = st\<lparr>fs_nets := fs_nets st @ [n]\<rparr>" and n: "fn_source_id n = s" "fn_target_id n = t"
    unfolding flow_create_net_def Let_def and_then_Inr flow_demand_Inr by auto
  have "drives st' p q = drives st p q" for p q by (simp add: drives_def composite_home_def st')
  then have "well_typed st'" using ok(2) drives n unfolding well_typed_def by (auto simp: st')
  moreover have "housed st'" using housed_same [of st' st] typed_flowsD(3) [OF assms(2)] by (simp add: st')
  ultimately show ?thesis using create_net_ok [OF run ok(1)] by (simp add: typed_flows_def)
qed

lemma typed_nets:
  assumes "typed_flows st" and "flow_ok st'" and "fs_blocks st' = fs_blocks st" and "fs_ports st' = fs_ports st"
    and "end_pair ` set (fs_nets st') \<subseteq> end_pair ` set (fs_nets st)"
  shows "typed_flows st'"
proof -
  have "well_typed st'"
  proof (rule typed_shapes [OF _ assms(5)])
    show "well_typed st" using assms(1) by (simp add: typed_flows_def)
    fix p assume "p \<in> set (fs_ports st')"
    then show "\<exists>q \<in> set (fs_ports st). port_shape q = port_shape p \<and> (composite_home st q \<longrightarrow> composite_home st' p)"
      using assms(3,4) by (auto simp: composite_home_def)
  qed
  moreover have "housed st'" using housed_same [OF assms(3)] typed_flowsD(3) [OF assms(1)] by simp
  ultimately show ?thesis using assms(2) by (simp add: typed_flows_def)
qed

lemma typed_update_net:
  assumes run: "flow_update_net f i u st = Inr st'" and ty: "typed_flows st"
  shows "typed_flows st'"
proof -
  from run obtain n where n: "flow_net st f i = Some n"
    and st': "st' = st\<lparr>fs_nets := map (\<lambda>q. if fn_flow_id q = f \<and> fn_id q = i then updated_net u n else q) (fs_nets st)\<rparr>"
    by (auto simp: flow_update_net_def and_then_Inr split: option.splits)
  have nn: "n \<in> set (fs_nets st)" using n by (auto simp: flow_net_def dest: find_SomeD)
  have "end_pair (updated_net u n) = end_pair n" by (simp add: updated_net_def end_pair_def)
  then have "end_pair ` set (fs_nets st') \<subseteq> end_pair ` set (fs_nets st)" using nn by (auto simp: st')
  moreover have "flow_ok st'" using update_net_ok [OF run] ty by (simp add: typed_flows_def)
  ultimately show ?thesis by (intro typed_nets [OF ty]) (simp_all add: st')
qed

lemma typed_delete_net: "typed_flows st \<Longrightarrow> typed_flows (flow_delete_net f i st)"
  by (rule typed_nets) (use delete_net_ok [of st f i] in \<open>auto simp: typed_flows_def flow_delete_net_def\<close>)

end
