(* ===== verification/Flow_Projection.thy ===== *)
theory Flow_Projection
  imports Flow_Typing Arch_Methods
begin

text \<open>
  The projection of evidence into a flow (\<open>flow/projection.py\<close>, the port builders of \<open>flow/domain.py\<close>):
  blocks for symbols, ports for their signatures, derived control nets for the calls between them.

  The signature of a symbol is read from the source by a third-party parser: it is a function of the node.
  Identifiers are drawn in order: the model the first, then for each symbol the block, its binding and its
  ports, then the nets.
\<close>

section \<open>What a projection reads\<close>

record flow_signature =
  sg_params :: "(string \<times> string option) list"
  sg_returns :: bool
  sg_return_type :: "string option"

record evidence_env =
  ve_graph :: graph
  ve_arch :: arch
  ve_signature :: "stored_node \<Rightarrow> flow_signature"

definition calls_from :: "graph \<Rightarrow> string \<Rightarrow> string \<Rightarrow> string \<Rightarrow> stored_edge list" where
  "calls_from g repo sid nid = filter (\<lambda>e. ed_src_id e = nid \<and> ed_kind e = ''CALLS'' \<and>
     list_ex (\<lambda>n. nd_id n = ed_dst_id e \<and> nd_snapshot_id n = sid) (gr_nodes g)) (all_edges g repo sid)"

section \<open>Ports of a signature\<close>

definition symbol_to_block_kind :: "(string, string) dict" where
  "symbol_to_block_kind = [(''FUNCTION'', ''function''), (''METHOD'', ''function''), (''SUBROUTINE'', ''function''),
     (''PROGRAM'', ''function''), (''INTERFACE'', ''function''), (''CLASS'', ''object''), (''TYPE'', ''object''),
     (''MODULE'', ''object''), (''SUBMODULE'', ''object''), (''PACKAGE'', ''object'')]"

definition projectable :: "stored_node \<Rightarrow> bool" where
  "projectable n = (map_of symbol_to_block_kind (nd_kind n) \<noteq> None)"

record port_spec =
  ps_name :: string
  ps_direction :: string
  ps_kind :: string
  ps_code_type :: "string option"

text \<open>\<open>p.get("type") if p.get("type") else None\<close>.\<close>

definition named_type :: "string option \<Rightarrow> string option" where
  "named_type t = (if t = Some [] then None else t)"

definition signature_ports :: "flow_signature \<Rightarrow> port_spec list" where
  "signature_ports s = map (\<lambda>(name, t). \<lparr>ps_name = name, ps_direction = ''input'', ps_kind = ''data'',
      ps_code_type = named_type t\<rparr>) (sg_params s) @
     (if sg_returns s then [\<lparr>ps_name = ''result'', ps_direction = ''output'', ps_kind = ''data'',
      ps_code_type = named_type (sg_return_type s)\<rparr>] else [])"

definition control_ports :: "port_spec list" where
  "control_ports = [\<lparr>ps_name = ''control_in'', ps_direction = ''input'', ps_kind = ''control'', ps_code_type = None\<rparr>,
     \<lparr>ps_name = ''control_out'', ps_direction = ''output'', ps_kind = ''control'', ps_code_type = None\<rparr>]"

definition block_ports :: "flow_signature \<Rightarrow> port_spec list" where
  "block_ports s = signature_ports s @ control_ports"

section \<open>Building\<close>

definition spec_order :: "port_spec \<Rightarrow> int" where
  "spec_order p = (if ps_kind p = ''control'' then if ps_direction p = ''output'' then 300 else 100 else 0)"

definition add_symbol :: "flow_env \<Rightarrow> evidence_env \<Rightarrow> flow_model_row \<Rightarrow> nat \<Rightarrow> stored_node \<Rightarrow> unit flow_run" where
  "add_symbol e v m k n =
     run_then (add_block e k (fm_id m) (get_or symbol_to_block_kind (nd_kind n) ''function'') (nd_name n) ''existing''
       None None []) (\<lambda>b.
     run_then (updating (flow_put_binding e (Suc k) (fm_id m) (fb_id b) (fm_snapshot_id m) (nd_id n))) (\<lambda>_.
     run_then (run_each (\<lambda>(i, p). committed (flow_create_port e (k + 2 + i) (fm_id m) (fb_id b) (ps_name p) (ps_direction p)
         (ps_kind p) (ps_code_type p) (Some (spec_order p)) []))
       (List.enumerate 0 (block_ports (ve_signature v n)))) (\<lambda>_.
       finish ())))"

fun add_symbols :: "flow_env \<Rightarrow> evidence_env \<Rightarrow> flow_model_row \<Rightarrow> nat \<Rightarrow> stored_node list \<Rightarrow> unit flow_run" where
  "add_symbols e v m k [] = finish ()"
| "add_symbols e v m k (n # ns) = run_then (add_symbol e v m k n) (\<lambda>_.
     add_symbols e v m (k + 2 + length (block_ports (ve_signature v n))) ns)"

definition add_nodes_to_flow :: "flow_env \<Rightarrow> evidence_env \<Rightarrow> flow_model_row \<Rightarrow> nat \<Rightarrow> (string, stored_node) dict \<Rightarrow>
    unit flow_run" where
  "add_nodes_to_flow e v m k nodes = add_symbols e v m k (sort_key (\<lambda>n. (nd_path n, nd_qname n)) (map snd nodes))"

text \<open>The calls that become nets: from the output control port of the caller to the input one of the callee.\<close>

definition named_port :: "flow_port_row list \<Rightarrow> string \<Rightarrow> string \<Rightarrow> string option" where
  "named_port ps b name = map_of (dict_of fp_name fp_id (filter (\<lambda>p. fp_block_id p = b) ps)) name"

definition call_ends :: "evidence_env \<Rightarrow> string \<Rightarrow> flows \<Rightarrow> string \<Rightarrow> flow_block_row \<Rightarrow> (string \<times> string) list" where
  "call_ends v repo st f b = (case map_of (bindings_by_block st f) (fb_id b) of
     None \<Rightarrow> []
   | Some x \<Rightarrow> List.map_filter (\<lambda>c.
       case map_of (dict_of snd fst (List.map_filter (\<lambda>d. map_option (\<lambda>y. (fb_id d, fx_symbol_id y))
            (map_of (bindings_by_block st f) (fb_id d))) (flow_blocks st f))) (ed_dst_id c) of
         None \<Rightarrow> None
       | Some d \<Rightarrow> (case (named_port (flow_ports st f) (fb_id b) ''control_out'', named_port (flow_ports st f) d ''control_in'') of
           (Some s, Some t) \<Rightarrow> if s = [] \<or> t = [] then None else Some (s, t)
         | _ \<Rightarrow> None))
       (calls_from (ve_graph v) repo (fx_snapshot_id x) (fx_symbol_id x)))"

definition link_control_nets :: "flow_env \<Rightarrow> evidence_env \<Rightarrow> string \<Rightarrow> nat \<Rightarrow> string \<Rightarrow> unit flow_run" where
  "link_control_nets e v f k repo st =
     run_then (run_each (\<lambda>(i, s, t). ignoring (add_net e (k + i) f s t ''control'' None True []))
       (List.enumerate 0 (concat (map (call_ends v repo st f) (flow_blocks st f))))) (\<lambda>_. finish ()) st"

text \<open>How many identifiers the nodes need.\<close>

definition draws :: "evidence_env \<Rightarrow> (string, stored_node) dict \<Rightarrow> nat" where
  "draws v nodes = sum_list (map (\<lambda>(i, n). 2 + length (block_ports (ve_signature v n))) nodes)"

text \<open>
  The block of the root symbol is looked up in rows that have no symbol (\<open>b.get("symbol")\<close> of \<open>flow_blocks\<close>
  rows), so it is never found and the model is not updated with it.
\<close>

definition build_flow :: "flow_env \<Rightarrow> evidence_env \<Rightarrow> string \<Rightarrow> string \<Rightarrow> (string, stored_node) dict \<Rightarrow> string \<Rightarrow>
    string option \<Rightarrow> string option \<Rightarrow> string option \<Rightarrow> string flow_run" where
  "build_flow e v repo sid nodes name workspace arch scope =
     run_then (check (fe_repo e repo) ''repo_not_found'') (\<lambda>_.
     run_then (committed (flow_create_model e repo name (Some sid) workspace arch scope)) (\<lambda>m.
     run_then (add_nodes_to_flow e v m 1 nodes) (\<lambda>_.
     run_then (link_control_nets e v (fm_id m) (Suc (draws v nodes)) repo) (\<lambda>_.
       finish (fm_id m)))))"

section \<open>The projections\<close>

definition resolve_node :: "graph \<Rightarrow> string \<Rightarrow> string \<Rightarrow> string \<Rightarrow> flow_error + stored_node" where
  "resolve_node g repo sid symbol =
     (let direct = (if starts_with ''node:'' symbol then node_by_id g repo sid symbol else None) in
      and_then (flow_demand (\<not> (starts_with ''node:'' symbol \<and> direct = None \<and>
          1 < length (nodes_by_legacy_id g repo sid symbol))) (FlowError ''ambiguous_legacy_id'')) (\<lambda>_.
      case direct of Some n \<Rightarrow> Inr n
      | None \<Rightarrow> (case node_by_qname g repo sid symbol of
          None \<Rightarrow> Inl (FlowError ''symbol_not_found'') | Some n \<Rightarrow> Inr n)))"

text \<open>\<open>setdefault\<close> over the callees of one symbol.\<close>

definition known_callees :: "graph \<Rightarrow> string \<Rightarrow> string \<Rightarrow> string \<Rightarrow> stored_node list" where
  "known_callees g repo sid nid = filter projectable
     (List.map_filter (\<lambda>c. node_by_id g repo sid (ed_dst_id c)) (calls_from g repo sid nid))"

definition set_default :: "stored_node \<Rightarrow> (string, stored_node) dict \<Rightarrow> (string, stored_node) dict" where
  "set_default n d = (if map_of d (nd_id n) = None then dict_set (nd_id n) n d else d)"

definition or_name :: "string option \<Rightarrow> string \<Rightarrow> string" where
  "or_name name other = (case name of Some (c # cs) \<Rightarrow> c # cs | _ \<Rightarrow> other)"

definition from_symbol :: "flow_env \<Rightarrow> evidence_env \<Rightarrow> string \<Rightarrow> string option \<Rightarrow> string \<Rightarrow> string option \<Rightarrow> bool \<Rightarrow>
    string option \<Rightarrow> string option \<Rightarrow> string flow_run" where
  "from_symbol e v repo revision symbol name callees workspace arch =
     (case revision of None \<Rightarrow> reading (\<lambda>_. Inl (FlowError ''symbol_not_found''))
      | Some sid \<Rightarrow>
          run_then (reading (\<lambda>_. resolve_node (ve_graph v) repo sid symbol)) (\<lambda>n.
          run_then (check (projectable n) ''symbol_not_projectable'') (\<lambda>_.
            build_flow e v repo sid (fold set_default (if callees then known_callees (ve_graph v) repo sid (nd_id n) else [])
                [(nd_id n, n)])
              (or_name name (nd_name n @ '' Flow'')) workspace arch (Some (nd_id n)))))"

definition mapped_nodes :: "evidence_env \<Rightarrow> string \<Rightarrow> string \<Rightarrow> string \<Rightarrow> string \<Rightarrow> (string, stored_node) dict" where
  "mapped_nodes v repo sid ws c = fold set_default (filter projectable (List.map_filter (\<lambda>x. if mp_entity_type x = ''node''
     then node_by_id (ve_graph v) repo sid (mp_entity_id x) else None) (arch_mappings_for_component (ve_arch v) ws c))) []"

definition from_component :: "flow_env \<Rightarrow> evidence_env \<Rightarrow> string \<Rightarrow> string \<Rightarrow> string \<Rightarrow> string option \<Rightarrow> string flow_run" where
  "from_component e v ws m c name = (case arch_workspace_row (ve_arch v) ws of
     None \<Rightarrow> reading (\<lambda>_. Inl (FlowError ''workspace_not_found''))
   | Some w \<Rightarrow> (case arch_component_in (ve_arch v) ws m c of
       None \<Rightarrow> reading (\<lambda>_. Inl (FlowError ''component_not_found''))
     | Some row \<Rightarrow> (case current_snapshot (ws_repo_id w) (ve_graph v) of
         None \<Rightarrow> reading (\<lambda>_. Inl (FlowError ''repo_not_indexed''))
       | Some sid \<Rightarrow>
           let repo = ws_repo_id w; nodes = mapped_nodes v repo sid ws c;
             extra = fold set_default (concat (map (\<lambda>(i, n). known_callees (ve_graph v) repo sid i) nodes)) []
           in run_then (check (sid \<noteq> []) ''repo_not_indexed'') (\<lambda>_.
              run_then (check (nodes \<noteq> []) ''component_no_mapped_functions'') (\<lambda>_.
                build_flow e v repo sid (fold (\<lambda>(i, n). dict_set i n) extra nodes)
                  (or_name name (co_name row @ '' Flow'')) (Some ws) (Some m) (Some (co_id row)))))))"

text \<open>The callees of the bound blocks that are not in the flow yet.\<close>

definition first_binding :: "flows \<Rightarrow> string \<Rightarrow> string \<Rightarrow> flow_binding_row option" where
  "first_binding st f b = find (\<lambda>x. fx_block_id x = b) (flow_bindings st f)"

definition shown_symbol :: "evidence_env \<Rightarrow> string \<Rightarrow> flows \<Rightarrow> string \<Rightarrow> flow_block_row \<Rightarrow> stored_node option" where
  "shown_symbol v repo st f b = (case first_binding st f (fb_id b) of None \<Rightarrow> None
     | Some x \<Rightarrow> node_by_id (ve_graph v) repo (fx_snapshot_id x) (fx_symbol_id x))"

definition new_neighbours :: "evidence_env \<Rightarrow> string \<Rightarrow> flows \<Rightarrow> string \<Rightarrow> (string, stored_node) dict" where
  "new_neighbours v repo st f =
     (let have = nd_id ` set (List.map_filter (shown_symbol v repo st f) (flow_blocks st f));
          calls = concat (map (\<lambda>b. case map_of (bindings_by_block st f) (fb_id b) of None \<Rightarrow> []
            | Some x \<Rightarrow> map (\<lambda>c. (fx_snapshot_id x, ed_dst_id c))
                (calls_from (ve_graph v) repo (fx_snapshot_id x) (fx_symbol_id x))) (flow_blocks st f))
      in fold (\<lambda>(sid, i) d. if i \<in> have \<or> map_of d i \<noteq> None then d
           else case node_by_id (ve_graph v) repo sid i of
             None \<Rightarrow> d | Some n \<Rightarrow> if projectable n then dict_set (nd_id n) n d else d) calls [])"

definition expand_flow :: "flow_env \<Rightarrow> evidence_env \<Rightarrow> string \<Rightarrow> unit flow_run" where
  "expand_flow e v f =
     run_then (reading (\<lambda>st. require_flow st f)) (\<lambda>m.
     run_then (check (fe_repo e (fm_repo_id m)) ''repo_not_found'') (\<lambda>_.
     run_then (reading (\<lambda>st. Inr (new_neighbours v (fm_repo_id m) st f))) (\<lambda>nodes.
       if nodes = [] then finish ()
       else run_then (add_nodes_to_flow e v m 0 nodes) (\<lambda>_.
         link_control_nets e v f (draws v nodes) (fm_repo_id m)))))"

end
