(* ===== verification/Flow_Machine.thy ===== *)
theory Flow_Machine
  imports Flow_Projection Machine
begin

text \<open>
  The flow mutations of a design change (\<open>_apply_flow_mutation\<close> of \<open>design_lifecycle/service.py\<close>), and that
  every sequence of them keeps the flow tables valid and, as long as nothing is retyped, the nets typed.
\<close>

section \<open>The mutations\<close>

datatype flow_op =
    CreateBlank string "string option" "string option"
  | FromSymbol string "string option" string "string option" bool "string option" "string option"
  | FromComponent string string string "string option"
  | UpdateFlow "string option" "jdict option" "jdict option"
  | RecordAgentAction jdict
  | AddBlock string string string "string option" "string option" jdict
  | UpdateBlock string block_update
  | DeleteBlock string
  | AddPort string string string string "string option" "int option" jdict
  | UpdatePort string port_update
  | DeletePort string
  | AddNet string string string "string option" jdict
  | UpdateNet string net_update
  | DeleteNet string
  | CreateComposite string "string list"
  | ExpandFlow

abbreviation as_unit :: "'a flow_run \<Rightarrow> unit flow_run" where
  "as_unit m \<equiv> run_then m (\<lambda>_. finish ())"

definition edit_flow :: "flow_env \<Rightarrow> evidence_env \<Rightarrow> string \<Rightarrow> flow_op \<Rightarrow> unit flow_run" where
  "edit_flow e v f op = (case op of
     UpdateFlow name layout meta \<Rightarrow> update_flow e f name layout meta
   | RecordAgentAction action \<Rightarrow> record_agent_action e f action
   | AddBlock kind name state parent code meta \<Rightarrow> as_unit (add_block e 0 f kind name state parent code meta)
   | UpdateBlock i u \<Rightarrow> update_block e f i u
   | DeleteBlock i \<Rightarrow> delete_block e f i
   | AddPort b name direction kind code_type order meta \<Rightarrow> as_unit (add_port e 0 f b name direction kind code_type order meta)
   | UpdatePort i u \<Rightarrow> update_port f i u
   | DeletePort i \<Rightarrow> delete_port f i
   | AddNet s t kind label meta \<Rightarrow> as_unit (add_net e 0 f s t kind label False meta)
   | UpdateNet i u \<Rightarrow> update_net f i u
   | DeleteNet i \<Rightarrow> delete_net f i
   | CreateComposite name ids \<Rightarrow> create_composite e f name ids
   | ExpandFlow \<Rightarrow> expand_flow e v f
   | _ \<Rightarrow> finish ())"

text \<open>The revision a projection is made from: the one given, else the current one.\<close>

definition pinned :: "evidence_env \<Rightarrow> string \<Rightarrow> string option \<Rightarrow> string option" where
  "pinned v repo given = (case given of Some (c # cs) \<Rightarrow> Some (c # cs) | _ \<Rightarrow> current_snapshot repo (ve_graph v))"

abbreviation refuse_flow :: "string \<Rightarrow> bool \<Rightarrow> unit flow_run" where
  "refuse_flow code ok \<equiv> check ok code"

text \<open>The result is the identity of the flow; the digest of the design reference is left out.\<close>

definition flow_mutation :: "flow_env \<Rightarrow> evidence_env \<Rightarrow> string \<Rightarrow> string \<Rightarrow> flow_op \<Rightarrow> string flow_run" where
  "flow_mutation e v change_repo f op = (case op of
     CreateBlank repo given name \<Rightarrow>
       run_then (refuse_flow ''design_repo_mismatch'' (repo = change_repo)) (\<lambda>_.
       run_then (committed (flow_create_model e change_repo (or_name name ''Untitled Topology'')
         (pinned v change_repo given) None None None)) (\<lambda>m. finish (fm_id m)))
   | FromSymbol repo given symbol name callees workspace arch \<Rightarrow>
       run_then (refuse_flow ''design_repo_mismatch'' (repo = change_repo)) (\<lambda>_.
         from_symbol e v change_repo (pinned v change_repo given) symbol name callees workspace arch)
   | FromComponent ws m c name \<Rightarrow> from_component e v ws m c name
   | _ \<Rightarrow>
       run_then (reading (\<lambda>st. require_flow st f)) (\<lambda>row.
       run_then (refuse_flow ''design_repo_mismatch'' (fm_repo_id row = change_repo)) (\<lambda>_.
       run_then (edit_flow e v f op) (\<lambda>_. finish f))))"

section \<open>The cycle check\<close>

lemma below_closed:
  assumes "\<forall>x \<in> set seen. \<forall>c \<in> set bs. fb_parent_id c = Some x \<longrightarrow> fb_id c \<in> set seen \<union> set stack"
  shows "set seen \<union> set stack \<subseteq> set (below bs stack seen) \<and>
    (\<forall>x \<in> set (below bs stack seen). \<forall>c \<in> set bs. fb_parent_id c = Some x \<longrightarrow> fb_id c \<in> set (below bs stack seen))"
  using assms
proof (induction bs stack seen rule: below.induct)
  case (1 bs seen)
  then show ?case by auto
next
  case (2 bs i stack seen)
  show ?case
  proof (cases "i \<in> set seen")
    case True
    have "\<forall>x \<in> set seen. \<forall>c \<in> set bs. fb_parent_id c = Some x \<longrightarrow> fb_id c \<in> set seen \<union> set stack"
      using 2(3) True by auto
    from 2(1) [OF True this] show ?thesis using True by (auto simp: below.simps(2))
  next
    case False
    let ?kids = "rev (map fb_id (filter (\<lambda>c. fb_parent_id c = Some i) bs))"
    have "\<forall>x \<in> set (i # seen). \<forall>c \<in> set bs. fb_parent_id c = Some x \<longrightarrow> fb_id c \<in> set (i # seen) \<union> set (?kids @ stack)"
      using 2(3) by auto
    from 2(2) [OF False this] show ?thesis using False by (auto simp: below.simps(2))
  qed
qed

lemma below_reaches:
  assumes ok: "flow_ok st" and "block_known st f i"
  shows "(p, i) \<in> (fup (fs_blocks st))\<^sup>* \<Longrightarrow> block_known st f p \<and> p \<in> set (below (flow_blocks st f) [i] [])"
proof (induction rule: converse_rtrancl_induct)
  case base
  then show ?case using assms(2) below_closed [of "[]" "flow_blocks st f" "[i]"] by simp
next
  case (step y z)
  from step(1) obtain b where b: "b \<in> set (fs_blocks st)" "fb_id b = y" "fb_parent_id b = Some z" by (auto simp: fup_def)
  have "block_known st (fb_flow_id b) z" using flow_okD(6) [OF ok b(1)] b(3) by (simp add: block_ok_def)
  then obtain z1 where z1: "z1 \<in> set (fs_blocks st)" "fb_flow_id z1 = fb_flow_id b" "fb_id z1 = z" by (auto simp: known_defs)
  from step(3) obtain z2 where z2: "z2 \<in> set (fs_blocks st)" "fb_flow_id z2 = f" "fb_id z2 = z" by (auto simp: known_defs)
  have "z1 = z2" using same_row [OF flow_okD(2) [OF ok] z1(1) z2(1)] z1 z2 by simp
  with z1 z2 have f: "fb_flow_id b = f" by simp
  then have "b \<in> set (flow_blocks st f)" using b(1) by (simp add: flow_blocks_def)
  with below_closed [of "[]" "flow_blocks st f" "[i]"] step(3) b have "y \<in> set (below (flow_blocks st f) [i] [])" by auto
  moreover have "block_known st f y" using b f by (auto simp: known_defs)
  ultimately show ?case by simp
qed

lemma cycle_check_safe:
  assumes "flow_ok st" and "flow_block st f i = Some b" and "assert_no_parent_cycle st f i p = Inr ()"
  shows "(p, i) \<notin> (fup (fs_blocks st))\<^sup>*"
proof -
  have "block_known st f i" using assms(2) lookup_block [OF assms(1)] by (auto simp: known_defs)
  with below_reaches [OF assms(1) this, of p] assms(3) show ?thesis by (auto simp: assert_no_parent_cycle_def and_then_Inr)
qed

section \<open>Every operation keeps the tables valid\<close>

lemma without_links: "(p, i) \<notin> r\<^sup>* \<Longrightarrow> (p, i) \<notin> (r - {i} \<times> UNIV)\<^sup>*"
  using rtrancl_mono [of "r - {i} \<times> UNIV" r] by blast

lemma run_reading [simp]: "run_then (reading m) k st = (case m st of Inl err \<Rightarrow> (Inl err, st) | Inr a \<Rightarrow> k a st)"
  by (simp add: run_then_def reading_def split: sum.splits)

text \<open>An update of a block that passes the checks of the service.\<close>

lemma update_block_result:
  assumes "update_block e f i u st = (r, st')"
  shows "st' = st \<or> (\<exists>b. flow_block st f i = Some b \<and> flow_update_block e f i u st = Inr st' \<and>
    (\<forall>p. new_parent u b = Some p \<longrightarrow> assert_no_parent_cycle st f i p = Inr ()))"
  using assms unfolding update_block_def
  by (auto simp: updating_def committed_def and_then_Inr split: option.splits sum.splits if_splits)

lemma update_block_keeps:
  assumes "P = flow_ok \<or> (P = typed_flows \<and> bu_kind u = None)"
  shows "keeps P (update_block e f i u)"
proof (rule ensuresI)
  fix st assume "P st"
  then have ok: "flow_ok st" using assms by (auto simp: typed_flows_def)
  obtain r st' where run: "update_block e f i u st = (r, st')" by (cases "update_block e f i u st")
  from update_block_result [OF run] have "P st'"
  proof
    assume "st' = st"
    with \<open>P st\<close> show ?thesis by simp
  next
    assume "\<exists>b. flow_block st f i = Some b \<and> flow_update_block e f i u st = Inr st' \<and>
      (\<forall>p. new_parent u b = Some p \<longrightarrow> assert_no_parent_cycle st f i p = Inr ())"
    then obtain b where b: "flow_block st f i = Some b" and upd: "flow_update_block e f i u st = Inr st'"
      and safe: "\<And>p. new_parent u b = Some p \<Longrightarrow> assert_no_parent_cycle st f i p = Inr ()" by blast
    have "flow_ok st'"
    proof (rule update_block_ok [OF upd ok])
      fix c p assume "flow_block st f i = Some c" "new_parent u c = Some p"
      then have "assert_no_parent_cycle st f i p = Inr ()" using b safe by simp
      from without_links [OF cycle_check_safe [OF ok b this]] show "(p, i) \<notin> (fup (fs_blocks st) - {i} \<times> UNIV)\<^sup>*" .
    qed
    with assms typed_update_block [OF upd] \<open>P st\<close> show ?thesis by (auto simp: typed_flows_def)
  qed
  then show "case update_block e f i u st of (Inl err, st') \<Rightarrow> P st' | (Inr a, st') \<Rightarrow> P st'"
    by (simp add: run split: sum.splits)
qed

text \<open>The two invariants, and the methods that keep both.\<close>

definition plane_invariant :: "(flows \<Rightarrow> bool) \<Rightarrow> bool" where
  "plane_invariant P = (P = flow_ok \<or> P = typed_flows)"

lemma stable_ok: "plane_invariant P \<Longrightarrow> P st \<Longrightarrow> flow_ok st"
  by (auto simp: plane_invariant_def typed_flows_def)

lemma stable_same_nets:
  assumes "plane_invariant P" and "P st" and "flow_ok st'" and "fs_blocks st' = fs_blocks st" and "fs_ports st' = fs_ports st"
    and "fs_nets st' = fs_nets st"
  shows "P st'"
  using assms typed_nets [of st st'] by (auto simp: plane_invariant_def)

lemma stable_create_model:
  assumes "plane_invariant P" "P st" and run: "flow_create_model e repo name sid ws arch scope st = Inr (m, st')"
  shows "P st'"
  by (rule stable_same_nets [OF assms(1,2) create_model_ok [OF run stable_ok [OF assms(1,2)]]])
    (use run in \<open>auto simp: flow_create_model_def Let_def and_then_Inr split: option.splits\<close>)

lemma stable_update_model:
  assumes "plane_invariant P" "P st" and run: "flow_update_model e f name block meta st = Inr st'"
  shows "P st'"
  by (rule stable_same_nets [OF assms(1,2) update_model_ok [OF run stable_ok [OF assms(1,2)]]])
    (use run in \<open>auto simp: flow_update_model_def and_then_Inr\<close>)

lemma stable_put_layout:
  assumes "plane_invariant P" "P st" and run: "flow_put_layout e f l st = Inr st'"
  shows "P st'"
  by (rule stable_same_nets [OF assms(1,2) put_layout_ok [OF run stable_ok [OF assms(1,2)]]])
    (use run in \<open>auto simp: flow_put_layout_def Let_def and_then_Inr split: if_splits\<close>)

lemma stable_put_binding:
  assumes "plane_invariant P" "P st" and run: "flow_put_binding e i f b sid symbol st = Inr st'"
  shows "P st'"
  by (rule stable_same_nets [OF assms(1,2) put_binding_ok [OF run stable_ok [OF assms(1,2)]]])
    (use run in \<open>auto simp: flow_put_binding_def insert_binding_def and_then_Inr split: if_splits\<close>)

lemma stable_create_block: "plane_invariant P \<Longrightarrow> P st \<Longrightarrow> flow_create_block e i f kind name state parent code meta st = Inr (b, st') \<Longrightarrow> P st'"
  by (auto simp: plane_invariant_def intro: create_block_ok typed_create_block)

lemma stable_create_port: "plane_invariant P \<Longrightarrow> P st \<Longrightarrow>
    flow_create_port e i f b name direction kind code_type order meta st = Inr (p, st') \<Longrightarrow> P st'"
  by (auto simp: plane_invariant_def intro: create_port_ok typed_create_port)

lemma stable_update_net: "plane_invariant P \<Longrightarrow> P st \<Longrightarrow> flow_update_net f i u st = Inr st' \<Longrightarrow> P st'"
  by (auto simp: plane_invariant_def intro: update_net_ok typed_update_net)

lemma stable_delete: "plane_invariant P \<Longrightarrow> P st \<Longrightarrow> P (flow_delete_block e f i st)" "plane_invariant P \<Longrightarrow> P st \<Longrightarrow> P (flow_delete_port f i st)"
  "plane_invariant P \<Longrightarrow> P st \<Longrightarrow> P (flow_delete_net f i st)"
  by (auto simp: plane_invariant_def intro: delete_block_ok delete_port_ok delete_net_ok typed_delete_block typed_delete_port typed_delete_net)

lemmas stable_methods = stable_create_model stable_update_model stable_put_layout stable_put_binding stable_create_block
  stable_create_port stable_update_net

section \<open>The plain operations\<close>

lemma update_flow_keeps: "plane_invariant P \<Longrightarrow> keeps P (update_flow e f name layout meta)"
  unfolding update_flow_def by (auto intro!: keeps_rules intro: stable_methods split: option.splits)

lemma record_action_keeps: "plane_invariant P \<Longrightarrow> keeps P (record_agent_action e f action)"
  unfolding record_agent_action_def by (auto intro!: keeps_rules intro: stable_methods)

lemma add_block_keeps: "plane_invariant P \<Longrightarrow> keeps P (add_block e i f kind name state parent code meta)"
  unfolding add_block_def by (auto intro!: keeps_rules intro: stable_methods)

lemma delete_block_keeps: "plane_invariant P \<Longrightarrow> keeps P (delete_block e f i)"
  unfolding delete_block_def by (auto intro!: keeps_rules intro: stable_delete)

lemma add_port_keeps: "plane_invariant P \<Longrightarrow> keeps P (add_port e i f b name direction kind code_type order meta)"
  unfolding add_port_def by (auto intro!: keeps_rules intro: stable_methods)

lemma update_port_keeps:
  assumes "P = flow_ok \<or> (P = typed_flows \<and> pu_kind u = None)"
  shows "keeps P (update_port f i u)"
proof -
  have "P st'" if "P st" and "flow_update_port f i u st = Inr st'" for st st'
    using assms that by (auto intro: update_port_ok typed_update_port)
  then show ?thesis unfolding update_port_def by (auto intro!: keeps_rules)
qed

lemma delete_port_keeps: "plane_invariant P \<Longrightarrow> keeps P (delete_port f i)"
  unfolding delete_port_def by (auto intro!: keeps_rules intro: stable_delete)

lemma update_net_keeps: "plane_invariant P \<Longrightarrow> keeps P (update_net f i u)"
  unfolding update_net_def by (auto intro!: keeps_rules intro: stable_methods)

lemma delete_net_keeps: "plane_invariant P \<Longrightarrow> keeps P (delete_net f i)"
  unfolding delete_net_def by (auto intro!: keeps_rules intro: stable_delete)

text \<open>Two ports that a net may join.\<close>

definition may_connect :: "flows \<Rightarrow> string \<Rightarrow> string \<Rightarrow> bool" where
  "may_connect st s t = (\<forall>p \<in> set (fs_ports st). \<forall>q \<in> set (fs_ports st). fp_id p = s \<and> fp_id q = t \<longrightarrow> drives st p q)"

lemma joins_cong: "fs_blocks st' = fs_blocks st \<Longrightarrow> fs_ports st' = fs_ports st \<Longrightarrow> may_connect st' s t = may_connect st s t"
  by (simp add: may_connect_def drives_def composite_home_def)

lemma stable_create_net:
  assumes "plane_invariant P" and "P st" and "P = typed_flows \<Longrightarrow> may_connect st s t"
    and "flow_create_net e i f s t kind label meta st = Inr (n, st')"
  shows "P st'"
  using assms create_net_ok typed_create_net [OF assms(4)] by (auto simp: plane_invariant_def may_connect_def)

lemma checked_joins:
  assumes ok: "flow_ok st" and "check_net st f s t = Inr ()"
  shows "may_connect st s t"
proof -
  from assms(2) obtain p q where p: "flow_port st f s = Some p" "flow_port st f t = Some q"
    and d: "fp_direction p = ''output''" "fp_direction q = ''input''" "fp_kind p = fp_kind q"
    by (auto simp: check_net_def and_then_Inr split: option.splits)
  then have pq: "p \<in> set (fs_ports st)" "fp_id p = s" "q \<in> set (fs_ports st)" "fp_id q = t" using lookup_port [OF ok] by auto
  have "drives st p' q'" if "p' \<in> set (fs_ports st)" "q' \<in> set (fs_ports st)" "fp_id p' = s" "fp_id q' = t" for p' q'
    using same_row [OF flow_okD(3) [OF ok] that(1) pq(1)] same_row [OF flow_okD(3) [OF ok] that(2) pq(3)] that pq d
    by (simp add: drives_def)
  then show ?thesis by (auto simp: may_connect_def)
qed

lemma add_net_keeps:
  assumes "plane_invariant P"
  shows "keeps P (add_net e i f s t kind label derived meta)"
  unfolding add_net_def
proof (intro ensures_then)
  show "keeps P (reading (\<lambda>st. require_flow st f))" "keeps P (check (kind \<in> set net_kinds) ''invalid_net_kind'')" by simp_all
  show "ensures P (reading (\<lambda>st. check_net st f s t)) (\<lambda>_ st. P st \<and> may_connect st s t) P"
    using checked_joins stable_ok [OF assms] by (intro ensures_reading) auto
  show "ensures (\<lambda>st. P st \<and> may_connect st s t)
      (committed (flow_create_net e i f s t kind label (if derived then [(''derived'', JBool True)] else meta))) (\<lambda>_. P) P"
    using stable_create_net [OF assms] by (intro ensures_committed) auto
qed

section \<open>Projections\<close>

lemma add_symbols_keeps: "plane_invariant P \<Longrightarrow> keeps P (add_symbols e v m k ns)"
proof (induction ns arbitrary: k)
  case (Cons n ns)
  have "keeps P (add_symbol e v m k n)"
    unfolding add_symbol_def using Cons.prems add_block_keeps
    by (auto intro!: keeps_rules keeps_each intro: stable_methods split: prod.splits)
  then show ?case unfolding add_symbols.simps using Cons by (intro keeps_then) auto
qed simp

lemma link_keeps: "plane_invariant P \<Longrightarrow> keeps P (link_control_nets e v f k repo)"
proof -
  assume "plane_invariant P"
  then have each: "keeps P (run_then (run_each (\<lambda>(i, s, t). ignoring (add_net e (k + i) f s t ''control'' None True [])) xs) (\<lambda>_. finish ()))" for xs
    by (auto intro!: keeps_then keeps_each ensures_ignoring add_net_keeps split: prod.splits)
  show ?thesis
    by (rule ensuresI) (use each in \<open>simp add: link_control_nets_def ensures_def\<close>)
qed

lemma build_flow_keeps: "plane_invariant P \<Longrightarrow> keeps P (build_flow e v repo sid nodes name ws arch scope)"
  unfolding build_flow_def add_nodes_to_flow_def
  by (intro keeps_then keeps_reading ensures_committed add_symbols_keeps link_keeps) (auto intro: stable_methods)

lemma from_symbol_keeps: "plane_invariant P \<Longrightarrow> keeps P (from_symbol e v repo revision symbol name callees ws arch)"
  unfolding from_symbol_def by (auto intro!: keeps_then build_flow_keeps split: option.splits)

lemma from_component_keeps: "plane_invariant P \<Longrightarrow> keeps P (from_component e v ws m c name)"
  unfolding from_component_def Let_def by (auto intro!: keeps_then build_flow_keeps split: option.splits)

lemma expand_keeps: "plane_invariant P \<Longrightarrow> keeps P (expand_flow e v f)"
  unfolding expand_flow_def add_nodes_to_flow_def by (auto intro!: keeps_then add_symbols_keeps link_keeps)

end
