(* ===== verification/Flow_Composite.thy ===== *)
theory Flow_Composite
  imports Flow_Machine
begin

text \<open>
  Folding blocks into a composite (\<open>create_composite\<close> of \<open>flow/service.py\<close>): the hierarchy stays acyclic, since
  the new composite has no parent, and the redirected nets stay typed, since the members are not composites.
\<close>

lemma ensures_at: "(\<And>st. P st \<Longrightarrow> ensures (\<lambda>s. s = st) m Q E) \<Longrightarrow> ensures P m Q E"
  by (auto simp: ensures_def)

lemma ensures_finish: "(\<And>st. P st \<Longrightarrow> Q st) \<Longrightarrow> ensures P (finish ()) (\<lambda>_. Q) Q"
  by (rule ensures_reading) auto

lemma flow_block_id: "flow_block st f i = Some b \<Longrightarrow> fb_id b = i"
  by (auto simp: flow_block_def dest: find_SomeD)

lemma updated_block_fields [simp]: "fb_id (updated_block e u b) = fb_id b" "fb_parent_id (updated_block e u b) = new_parent u b"
  by (simp_all add: updated_block_def)

section \<open>The composite and its members\<close>

definition parentless :: "string \<Rightarrow> flows \<Rightarrow> bool" where
  "parentless c st = (\<forall>b \<in> set (fs_blocks st). fb_id b = c \<longrightarrow> fb_parent_id b = None)"

lemma parentless_safe:
  assumes "parentless c st" and "c \<noteq> i"
  shows "(c, i) \<notin> (fup (fs_blocks st) - {i} \<times> UNIV)\<^sup>*"
proof
  assume "(c, i) \<in> (fup (fs_blocks st) - {i} \<times> UNIV)\<^sup>*"
  then show False
  proof (cases rule: converse_rtranclE)
    case base
    with assms(2) show False by simp
  next
    case (step y)
    from step(1) assms(1) show False by (auto simp: fup_def parentless_def)
  qed
qed

lemma stable_update_block:
  assumes "plane_invariant P" and P: "P st" and upd: "flow_update_block e f i u st = Inr st'" and "bu_kind u = None"
    and "\<And>b p. flow_block st f i = Some b \<Longrightarrow> new_parent u b = Some p \<Longrightarrow> (p, i) \<notin> (fup (fs_blocks st) - {i} \<times> UNIV)\<^sup>*"
  shows "P st'"
proof -
  have "flow_ok st'" by (rule update_block_ok [OF upd stable_ok [OF assms(1) P] assms(5)])
  with assms(1) typed_update_block [OF upd _ assms(4)] P show ?thesis by (auto simp: plane_invariant_def typed_flows_def)
qed

lemma updated_blocks:
  assumes "flow_update_block e f i u st = Inr st'" and "b' \<in> set (fs_blocks st')"
  shows "b' \<in> set (fs_blocks st) \<or> (\<exists>b. flow_block st f i = Some b \<and> b' = updated_block e u b)"
  using assms by (auto simp: flow_update_block_def and_then_Inr split: option.splits if_splits)

lemma describe_keeps:
  assumes P: "plane_invariant P"
  shows "keeps (\<lambda>st. P st \<and> parentless c st) (updating (flow_update_block e f c (no_update\<lparr>bu_meta := m\<rparr>)))"
proof (rule ensures_updating)
  fix st st' assume st: "P st \<and> parentless c st" and upd: "flow_update_block e f c (no_update\<lparr>bu_meta := m\<rparr>) st = Inr st'"
  have none: "new_parent (no_update\<lparr>bu_meta := m\<rparr>) b = None" if "flow_block st f c = Some b" for b
    using st that lookup_block [OF stable_ok [OF P, of st]] by (auto simp: new_parent_def no_update_def parentless_def)
  have "P st'" by (rule stable_update_block [OF P _ upd]) (use st none in \<open>auto simp: no_update_def\<close>)
  moreover have "parentless c st'"
    unfolding parentless_def
  proof (intro ballI impI)
    fix b' assume b': "b' \<in> set (fs_blocks st')" "fb_id b' = c"
    from updated_blocks [OF upd b'(1)] show "fb_parent_id b' = None"
      using b'(2) st none by (auto simp: parentless_def)
  qed
  ultimately show "P st' \<and> parentless c st'" by simp
qed

lemma adopt_keeps:
  assumes P: "plane_invariant P" and "c \<noteq> i"
  shows "keeps (\<lambda>st. P st \<and> parentless c st) (updating (flow_update_block e f i (no_update\<lparr>bu_parent := Some c\<rparr>)))"
proof (rule ensures_updating)
  fix st st' assume st: "P st \<and> parentless c st" and upd: "flow_update_block e f i (no_update\<lparr>bu_parent := Some c\<rparr>) st = Inr st'"
  have "P st'"
    by (rule stable_update_block [OF P _ upd])
      (use st parentless_safe assms(2) in \<open>auto simp: no_update_def new_parent_def\<close>)
  moreover have "parentless c st'"
    unfolding parentless_def
  proof (intro ballI impI)
    fix b' assume b': "b' \<in> set (fs_blocks st')" "fb_id b' = c"
    have "fb_id b' = i" if "flow_block st f i = Some b" "b' = updated_block e (no_update\<lparr>bu_parent := Some c\<rparr>) b" for b
      unfolding that(2) updated_block_fields using that(1) by (rule flow_block_id)
    then have "b' \<in> set (fs_blocks st)"
      using updated_blocks [OF upd b'(1)] unfolding b'(2) using assms(2)
      by (elim disjE exE conjE) (assumption, metis b'(2))
    with b'(2) st show "fb_parent_id b' = None" by (auto simp: parentless_def)
  qed
  ultimately show "P st' \<and> parentless c st'" by simp
qed simp

section \<open>The redirected nets\<close>

text \<open>The blocks and the ports are fixed while nets are redirected.\<close>

definition pinned_to :: "(flows \<Rightarrow> bool) \<Rightarrow> flow_block_row list \<Rightarrow> flow_port_row list \<Rightarrow> flows \<Rightarrow> bool" where
  "pinned_to P B Q st = (P st \<and> fs_blocks st = B \<and> fs_ports st = Q)"

definition may_join :: "(flows \<Rightarrow> bool) \<Rightarrow> flow_block_row list \<Rightarrow> flow_port_row list \<Rightarrow> string \<Rightarrow> string \<Rightarrow> bool" where
  "may_join P B Q s t = (P = typed_flows \<longrightarrow> (\<forall>st. fs_blocks st = B \<and> fs_ports st = Q \<longrightarrow> may_connect st s t))"

lemma create_missing_keeps:
  assumes P: "plane_invariant P" and "may_join P B Q s t"
  shows "keeps (pinned_to P B Q) (create_net_missing e i f s t kind label)"
proof -
  have "keeps (pinned_to P B Q) (committed (flow_create_net e i f s t kind label meta))" for meta
  proof (rule ensures_committed)
    fix st n st' assume st: "pinned_to P B Q st" and run: "flow_create_net e i f s t kind label meta st = Inr (n, st')"
    have "P st'" by (rule stable_create_net [OF P _ _ run]) (use st assms(2) in \<open>auto simp: pinned_to_def may_join_def\<close>)
    moreover have "fs_blocks st' = fs_blocks st" "fs_ports st' = fs_ports st"
      using run unfolding flow_create_net_def Let_def and_then_Inr by auto
    ultimately show "pinned_to P B Q st'" using st by (simp add: pinned_to_def)
  qed
  then show ?thesis unfolding create_net_missing_def by (intro keeps_then) (auto intro!: ensures_ignoring)
qed

lemma drop_net_keeps: "plane_invariant P \<Longrightarrow> keeps (pinned_to P B Q) (updating (\<lambda>st. Inr (flow_delete_net f i st)))"
  by (rule ensures_updating) (auto simp: pinned_to_def flow_delete_net_def dest: stable_delete(3) [of P _ f i])

lemma redirect_keeps:
  assumes P: "plane_invariant P"
    and dst: "\<And>dst c. find (\<lambda>p. fp_id p = fn_target_id n) own = Some dst \<Longrightarrow>
      map_of cports (fp_name dst, ''input'', fp_kind dst) = Some c \<Longrightarrow>
      may_join P B Q (fn_source_id n) c \<and> may_join P B Q c (fp_id dst)"
    and src: "\<And>src c. find (\<lambda>p. fp_id p = fn_target_id n) own = None \<Longrightarrow>
      find (\<lambda>p. fp_id p = fn_source_id n) own = Some src \<Longrightarrow>
      map_of cports (fp_name src, ''output'', fp_kind src) = Some c \<Longrightarrow>
      may_join P B Q c (fn_target_id n) \<and> may_join P B Q (fp_id src) c"
  shows "keeps (pinned_to P B Q) (redirect_net e f own cports k (i, n))"
  using dst src create_missing_keeps [OF P] drop_net_keeps [OF P]
  by (auto simp: redirect_net_def intro!: keeps_then split: option.splits)

section \<open>Why the redirected nets are typed\<close>

lemma member_rows:
  assumes "check_members bs ids = Inr ()" and "i \<in> set ids"
  obtains b where "b \<in> set bs" "fb_id b = i" "fb_kind b \<noteq> ''composite''"
  using assms
proof (induction "ids")
  case (Cons j js)
  from Cons.prems(2) obtain b where b: "map_of (dict_of fb_id (\<lambda>b. b) bs) j = Some b" "fb_kind b \<noteq> ''composite''"
    and rest: "check_members bs js = Inr ()"
    by (auto simp: and_then_Inr split: option.splits)
  from dict_of_member [OF map_of_SomeD [OF b(1)]] have "b \<in> set bs" "fb_id b = j" by auto
  then show ?case using Cons b rest by (cases "i = j") auto
qed simp

lemma member_port_iff: "p \<in> set (member_ports st f ids) \<longleftrightarrow> p \<in> set (fs_ports st) \<and> fp_flow_id p = f \<and> fp_block_id p \<in> set ids"
  by (auto simp: member_ports_def flow_ports_def)

lemma members_plain:
  assumes ok: "flow_ok st" and "check_members (flow_blocks st f) ids = Inr ()" and "p \<in> set (member_ports st f ids)"
  shows "\<not> composite_home st p"
proof
  assume "composite_home st p"
  then obtain b where b: "b \<in> set (fs_blocks st)" "fb_id b = fp_block_id p" "fb_kind b = ''composite''"
    by (auto simp: composite_home_def)
  from assms(3) have "fp_block_id p \<in> set ids" by (simp add: member_port_iff)
  from member_rows [OF assms(2) this] obtain b' where "b' \<in> set (fs_blocks st)" "fb_id b' = fp_block_id p" "fb_kind b' \<noteq> ''composite''"
    by (auto simp: flow_blocks_def)
  with b same_row [OF flow_okD(2) [OF ok], of b b'] show False by simp
qed

lemma joins_rows:
  assumes "distinct (map fp_id (fs_ports st))" and "p \<in> set (fs_ports st)" "q \<in> set (fs_ports st)" and "drives st p q"
  shows "may_connect st (fp_id p) (fp_id q)"
  unfolding may_connect_def using assms same_row [OF assms(1)] by blast

lemma drives_more:
  assumes "drives st0 p q" and "set (fs_blocks st0) \<subseteq> set (fs_blocks st)"
  shows "drives st p q"
  using assms by (auto simp: drives_def composite_home_def)

lemma outer_net_row:
  assumes ok: "flow_ok st" and "n \<in> set (external_nets st f ids)"
  obtains p q where "p \<in> set (fs_ports st)" "q \<in> set (fs_ports st)" "fp_id p = fn_source_id n" "fp_id q = fn_target_id n"
    "n \<in> set (fs_nets st)"
proof -
  from assms(2) have n: "n \<in> set (fs_nets st)" by (auto simp: external_nets_def Let_def flow_nets_def)
  from flow_okD(8) [OF ok this] have "net_ok st n" .
  then show ?thesis using that n by (auto simp: net_ok_def known_defs)
qed

text \<open>A net into a member, and a net out of a member.\<close>

lemma redirect_in:
  assumes st0: "typed_flows st0" "check_members (flow_blocks st0 f) ids = Inr ()" and n: "n \<in> set (external_nets st0 f ids)"
    and dst: "dst \<in> set (member_ports st0 f ids)" "fp_id dst = fn_target_id n"
    and more: "set (fs_blocks st0) \<subseteq> set (fs_blocks st)" "set (fs_ports st0) \<subseteq> set (fs_ports st)" "distinct (map fp_id (fs_ports st))"
    and c: "c \<in> set (fs_ports st)" "fp_direction c = ''input''" "fp_kind c = fp_kind dst" "composite_home st c"
  shows "may_connect st (fn_source_id n) (fp_id c)" "may_connect st (fp_id c) (fp_id dst)"
proof -
  have ok: "flow_ok st0" "well_typed st0" using st0(1) by (simp_all add: typed_flows_def)
  obtain p where p: "p \<in> set (fs_ports st0)" "fp_id p = fn_source_id n" "n \<in> set (fs_nets st0)" using outer_net_row [OF ok(1) n] by metis
  have d: "dst \<in> set (fs_ports st0)" using dst(1) by (simp add: member_port_iff)
  have "drives st0 p dst" using ok(2) p d dst(2) by (auto simp: well_typed_def)
  with members_plain [OF ok(1) st0(2) dst(1)] have shape: "fp_direction dst = ''input''" and "fp_kind p = fp_kind dst"
    and "fp_direction p = ''output'' \<or> fp_direction p = ''input'' \<and> composite_home st0 p"
    by (auto simp: drives_def)
  then have "drives st p c" using c more(1) by (auto simp: drives_def composite_home_def)
  then show "may_connect st (fn_source_id n) (fp_id c)" using joins_rows [OF more(3) _ c(1), of p] p more(2) by auto
  have "drives st c dst" using c shape by (simp add: drives_def)
  then show "may_connect st (fp_id c) (fp_id dst)" using joins_rows [OF more(3) c(1), of dst] d more(2) by auto
qed

lemma redirect_out:
  assumes st0: "typed_flows st0" "check_members (flow_blocks st0 f) ids = Inr ()" and n: "n \<in> set (external_nets st0 f ids)"
    and src: "src \<in> set (member_ports st0 f ids)" "fp_id src = fn_source_id n"
    and more: "set (fs_blocks st0) \<subseteq> set (fs_blocks st)" "set (fs_ports st0) \<subseteq> set (fs_ports st)" "distinct (map fp_id (fs_ports st))"
    and c: "c \<in> set (fs_ports st)" "fp_direction c = ''output''" "fp_kind c = fp_kind src" "composite_home st c"
  shows "may_connect st (fp_id c) (fn_target_id n)" "may_connect st (fp_id src) (fp_id c)"
proof -
  have ok: "flow_ok st0" "well_typed st0" using st0(1) by (simp_all add: typed_flows_def)
  obtain q where q: "q \<in> set (fs_ports st0)" "fp_id q = fn_target_id n" "n \<in> set (fs_nets st0)" using outer_net_row [OF ok(1) n] by metis
  have d: "src \<in> set (fs_ports st0)" using src(1) by (simp add: member_port_iff)
  have "drives st0 src q" using ok(2) q d src(2) by (auto simp: well_typed_def)
  with members_plain [OF ok(1) st0(2) src(1)] have shape: "fp_direction src = ''output''" and "fp_kind q = fp_kind src"
    and "fp_direction q = ''input'' \<or> fp_direction q = ''output'' \<and> composite_home st0 q"
    by (auto simp: drives_def)
  then have "drives st c q" using c more(1) by (auto simp: drives_def composite_home_def)
  then show "may_connect st (fp_id c) (fn_target_id n)" using joins_rows [OF more(3) c(1), of q] q more(2) by auto
  have "drives st src c" using c shape by (simp add: drives_def)
  then show "may_connect st (fp_id src) (fp_id c)" using joins_rows [OF more(3) _ c(1), of src] d more(2) by auto
qed

section \<open>The whole operation\<close>

text \<open>The new composite, and the ports it exposes.\<close>

definition folded :: "(flows \<Rightarrow> bool) \<Rightarrow> string \<Rightarrow> flows \<Rightarrow> flow_block_row \<Rightarrow> flows \<Rightarrow> bool" where
  "folded P f st0 c st = (P st \<and> fs_blocks st = fs_blocks st0 @ [c] \<and> fs_nets st = fs_nets st0 \<and> fs_bindings st = fs_bindings st0 \<and>
     set (fs_ports st0) \<subseteq> set (fs_ports st) \<and>
     fb_kind c = ''composite'' \<and> fb_flow_id c = f \<and> fb_parent_id c = None \<and> fb_id c \<notin> fb_id ` set (fs_blocks st0))"

lemma folded_parentless:
  assumes "folded P f st0 c st" and "fs_blocks st' = fs_blocks st"
  shows "parentless (fb_id c) st'"
  unfolding parentless_def
proof (intro ballI impI)
  fix b assume b: "b \<in> set (fs_blocks st')" "fb_id b = fb_id c"
  have new: "fb_id c \<notin> fb_id ` set (fs_blocks st0)" and blocks: "fs_blocks st' = fs_blocks st0 @ [c]" and top: "fb_parent_id c = None"
    using assms by (simp_all add: folded_def)
  have "b \<notin> set (fs_blocks st0)" using new b(2) by (metis imageI)
  with b(1) blocks top show "fb_parent_id b = None" by auto
qed

definition stands_for :: "flow_block_row \<Rightarrow> (port_key \<times> string \<times> flow_port_row list) set \<Rightarrow> flows \<Rightarrow> bool" where
  "stands_for c D st = (\<forall>(k, i, ps) \<in> D. \<exists>p \<in> set (fs_ports st). fp_id p = i \<and> fp_block_id p = fb_id c \<and>
     fp_direction p = fst (snd k) \<and> fp_kind p = snd (snd k))"

lemma folded_block:
  assumes P: "plane_invariant P" and "P st0"
  shows "ensures (\<lambda>st. st = st0) (committed (flow_create_block e i f ''composite'' name ''existing'' None None [])) (folded P f st0) P"
proof (rule ensures_committed)
  fix st c st' assume st: "st = st0" and run: "flow_create_block e i f ''composite'' name ''existing'' None None [] st = Inr (c, st')"
  have "P st'" by (rule stable_create_block [OF P _ run]) (use assms st in simp)
  moreover have "insert_block c st = Inr st'" "fb_kind c = ''composite''" "fb_flow_id c = f" "fb_parent_id c = None"
    using run unfolding flow_create_block_def Let_def and_then_Inr by auto
  ultimately show "folded P f st0 c st'" using st by (auto simp: folded_def insert_block_def and_then_Inr)
qed (use assms in simp)

lemma expose_stands:
  assumes P: "plane_invariant P"
  shows "ensures (\<lambda>st. folded P f st0 c st \<and> stands_for c D st) (expose_port e f (fb_id c) (i, (name, direction, kind), ps))
    (\<lambda>y st. folded P f st0 c st \<and> stands_for c (insert y D) st) P"
  unfolding expose_port_def prod.case add_port_def
proof (intro ensures_then)
  let ?I = "\<lambda>st. folded P f st0 c st \<and> stands_for c D st"
  have I: "P st" if "?I st" for st using that by (simp add: folded_def)
  show "ensures ?I (reading (\<lambda>st. require_flow st f)) (\<lambda>_. ?I) P" by (rule ensures_reading) (use I in auto)
  show "ensures ?I (check (direction \<in> set port_directions) ''invalid_port_direction'') (\<lambda>_. ?I) P" by (rule ensures_reading) (use I in auto)
  show "ensures ?I (check (kind \<in> set semantic_kinds) ''invalid_port_kind'') (\<lambda>_. ?I) P" by (rule ensures_reading) (use I in auto)
  let ?N = "\<lambda>p st. folded P f st0 c st \<and> stands_for c (insert ((name, direction, kind), fp_id p, ps) D) st"
  show "ensures ?I (committed (flow_create_port e (Suc i) f (fb_id c) (strip name) direction kind
      (case ps of [] \<Rightarrow> None | p # _ \<Rightarrow> fp_code_type p) (Some (int i)) [])) ?N P"
  proof (rule ensures_committed)
    fix st p st' assume st: "?I st" and run: "flow_create_port e (Suc i) f (fb_id c) (strip name) direction kind
      (case ps of [] \<Rightarrow> None | p # _ \<Rightarrow> fp_code_type p) (Some (int i)) [] st = Inr (p, st')"
    have "P st'" by (rule stable_create_port [OF P _ run]) (use I st in auto)
    moreover have st': "st' = st\<lparr>fs_ports := fs_ports st @ [p]\<rparr>" "fp_block_id p = fb_id c" "fp_direction p = direction" "fp_kind p = kind"
      using run unfolding flow_create_port_def Let_def and_then_Inr by auto
    moreover have "stands_for c D st'" using st st'(1) by (fastforce simp: stands_for_def)
    ultimately show "?N p st'" using st by (auto simp: folded_def stands_for_def)
  qed (use I in auto)
  show "ensures (?N p) (finish ((name, direction, kind), fp_id p, ps))
    (\<lambda>y st. folded P f st0 c st \<and> stands_for c (insert y D) st) P" for p
    by (rule ensures_reading) (auto simp: folded_def)
qed

lemma exposed_stand:
  assumes "plane_invariant P"
  shows "ensures (folded P f st0 c) (run_each (expose_port e f (fb_id c)) needs) (\<lambda>created st. folded P f st0 c st \<and> stands_for c (set created) st) P"
proof -
  have "ensures (\<lambda>st. folded P f st0 c st \<and> stands_for c {} st) (run_each (expose_port e f (fb_id c)) needs)
    (\<lambda>ys st. folded P f st0 c st \<and> stands_for c ({} \<union> set ys) st) P"
    by (rule ensures_each [where I = "\<lambda>D st. folded P f st0 c st \<and> stands_for c D st"])
      (use expose_stands [OF assms] in \<open>auto simp: folded_def split: prod.splits\<close>)
  then show ?thesis by (simp add: stands_for_def)
qed

lemma redirected:
  assumes P: "plane_invariant P" and st0: "P st0" "check_members (flow_blocks st0 f) ids = Inr ()"
    and st: "folded P f st0 c st" "stands_for c (set created) st"
  shows "keeps (pinned_to P (fs_blocks st) (fs_ports st))
    (run_each (redirect_net e f (member_ports st0 f ids) (map (\<lambda>(k, i, ps). (k, i)) created) k)
      (List.enumerate 0 (external_nets st0 f ids)))"
proof (rule keeps_each, clarify)
  fix i n assume "(i, n) \<in> set (List.enumerate 0 (external_nets st0 f ids))"
  then have n: "n \<in> set (external_nets st0 f ids)" unfolding enumerate_eq_zip by (rule set_zip_rightD)
  let ?J = "may_join P (fs_blocks st) (fs_ports st)" and ?cp = "map (\<lambda>(k, i, ps). (k, i)) created"
  have port: "\<exists>p \<in> set (fs_ports st). fp_id p = cid \<and> fp_direction p = d \<and> fp_kind p = kd \<and> fp_block_id p = fb_id c"
    if "map_of ?cp (nm, d, kd) = Some cid" for nm d kd cid
  proof -
    from map_of_SomeD [OF that] obtain ps where ps: "((nm, d, kd), cid, ps) \<in> set created" by auto
    from bspec [OF st(2) [unfolded stands_for_def] ps] show ?thesis by auto
  qed
  have home: "composite_home s p" if "fs_blocks s = fs_blocks st" "fp_block_id p = fb_id c" for s p
    using that st(1) by (auto simp: composite_home_def folded_def)
  have typed: "typed_flows st0" if "P = typed_flows" using that st0(1) by simp
  have dist: "distinct (map fp_id (fs_ports st))" using st(1) stable_ok [OF P, of st] flow_okD(3) by (simp add: folded_def)
  show "keeps (pinned_to P (fs_blocks st) (fs_ports st)) (redirect_net e f (member_ports st0 f ids) ?cp k (i, n))"
  proof (rule redirect_keeps [OF P])
    fix dst cid assume dst: "find (\<lambda>p. fp_id p = fn_target_id n) (member_ports st0 f ids) = Some dst"
      and cid: "map_of ?cp (fp_name dst, ''input'', fp_kind dst) = Some cid"
    obtain p where p: "p \<in> set (fs_ports st)" "fp_id p = cid" "fp_direction p = ''input''" "fp_kind p = fp_kind dst" "fp_block_id p = fb_id c"
      using port [OF cid] by blast
    have d: "dst \<in> set (member_ports st0 f ids)" "fp_id dst = fn_target_id n" using dst by (auto dest: find_SomeD)
    have "may_connect s (fn_source_id n) cid \<and> may_connect s cid (fp_id dst)"
      if "P = typed_flows" "fs_blocks s = fs_blocks st" "fs_ports s = fs_ports st" for s
      using redirect_in [OF typed [OF that(1)] st0(2) n d, of s p] that p st(1) dist home by (auto simp: folded_def)
    then show "?J (fn_source_id n) cid \<and> ?J cid (fp_id dst)" by (simp add: may_join_def)
  next
    fix src cid assume src: "find (\<lambda>p. fp_id p = fn_source_id n) (member_ports st0 f ids) = Some src"
      and cid: "map_of ?cp (fp_name src, ''output'', fp_kind src) = Some cid"
    obtain p where p: "p \<in> set (fs_ports st)" "fp_id p = cid" "fp_direction p = ''output''" "fp_kind p = fp_kind src" "fp_block_id p = fb_id c"
      using port [OF cid] by blast
    have d: "src \<in> set (member_ports st0 f ids)" "fp_id src = fn_source_id n" using src by (auto dest: find_SomeD)
    have "may_connect s cid (fn_target_id n) \<and> may_connect s (fp_id src) cid"
      if "P = typed_flows" "fs_blocks s = fs_blocks st" "fs_ports s = fs_ports st" for s
      using redirect_out [OF typed [OF that(1)] st0(2) n d, of s p] that p st(1) dist home by (auto simp: folded_def)
    then show "?J cid (fn_target_id n) \<and> ?J (fp_id src) cid" by (simp add: may_join_def)
  qed
qed

lemma build_composite_keeps:
  assumes P: "plane_invariant P" and st0: "P st0" "check_members (flow_blocks st0 f) ids = Inr ()"
  shows "P (snd (build_composite e f name ids st0))"
proof -
  let ?own = "member_ports st0 f ids" and ?outer = "external_nets st0 f ids" and ?needs = "port_needs st0 f ids"
  have member: "i \<in> fb_id ` set (fs_blocks st0)" if "i \<in> set ids" for i
    using member_rows [OF st0(2) that] by (auto simp: flow_blocks_def)
  have rest: "ensures (\<lambda>st. P st \<and> parentless (fb_id c) st)
     (run_then (updating (flow_update_block e f (fb_id c) (no_update\<lparr>bu_meta := Some (composite_meta ids created)\<rparr>))) (\<lambda>_.
      run_then (run_each (\<lambda>i. updating (flow_update_block e f i (no_update\<lparr>bu_parent := Some (fb_id c)\<rparr>))) ids) (\<lambda>_. finish ())))
     (\<lambda>_ st. P st \<and> parentless (fb_id c) st) (\<lambda>st. P st \<and> parentless (fb_id c) st)"
    if "fb_id c \<notin> fb_id ` set (fs_blocks st0)" for c created
    using that member by (intro keeps_then describe_keeps [OF P] keeps_each adopt_keeps [OF P]) auto
  have redirect: "ensures (\<lambda>st. folded P f st0 c st \<and> stands_for c (set created) st)
     (run_then (run_each (redirect_net e f ?own (map (\<lambda>(k, i, ps). (k, i)) created) (Suc (length ?needs)))
        (List.enumerate 0 ?outer)) (\<lambda>_.
      run_then (updating (flow_update_block e f (fb_id c) (no_update\<lparr>bu_meta := Some (composite_meta ids created)\<rparr>))) (\<lambda>_.
      run_then (run_each (\<lambda>i. updating (flow_update_block e f i (no_update\<lparr>bu_parent := Some (fb_id c)\<rparr>))) ids) (\<lambda>_. finish ()))))
     (\<lambda>_. P) P" for c created
  proof (rule ensures_at, rule ensures_then)
    fix st assume st: "folded P f st0 c st \<and> stands_for c (set created) st"
    show "ensures (\<lambda>s. s = st) (run_each (redirect_net e f ?own (map (\<lambda>(k, i, ps). (k, i)) created) (Suc (length ?needs)))
        (List.enumerate 0 ?outer)) (\<lambda>_ s. P s \<and> parentless (fb_id c) s) P"
      by (rule ensures_weaken [OF redirected [OF P st0, of c st created]])
        (use st folded_parentless [of P f st0 c st] in \<open>auto simp: pinned_to_def folded_def\<close>)
    show "ensures (\<lambda>st. P st \<and> parentless (fb_id c) st)
     (run_then (updating (flow_update_block e f (fb_id c) (no_update\<lparr>bu_meta := Some (composite_meta ids created)\<rparr>))) (\<lambda>_.
      run_then (run_each (\<lambda>i. updating (flow_update_block e f i (no_update\<lparr>bu_parent := Some (fb_id c)\<rparr>))) ids) (\<lambda>_. finish ())))
     (\<lambda>_. P) P"
      by (rule ensures_weaken [OF rest]) (use st in \<open>auto simp: folded_def\<close>)
  qed
  have "ensures (\<lambda>st. st = st0) (\<lambda>_. build_composite e f name ids st0) (\<lambda>_. P) P"
  proof -
    have "ensures (\<lambda>st. st = st0)
     (run_then (committed (flow_create_block e 0 f ''composite'' name ''existing'' None None [])) (\<lambda>c.
      run_then (run_each (expose_port e f (fb_id c)) (List.enumerate 0 ?needs)) (\<lambda>created.
      run_then (run_each (redirect_net e f ?own (map (\<lambda>(k, i, ps). (k, i)) created) (Suc (length ?needs)))
        (List.enumerate 0 ?outer)) (\<lambda>_.
      run_then (updating (flow_update_block e f (fb_id c) (no_update\<lparr>bu_meta := Some (composite_meta ids created)\<rparr>))) (\<lambda>_.
      run_then (run_each (\<lambda>i. updating (flow_update_block e f i (no_update\<lparr>bu_parent := Some (fb_id c)\<rparr>))) ids) (\<lambda>_.
        finish ())))))) (\<lambda>_. P) P"
      by (rule ensures_then [OF folded_block [OF P st0(1)]], rule ensures_then [OF exposed_stand [OF P]], rule redirect)
    then show ?thesis unfolding ensures_def build_composite_def Let_def by simp
  qed
  then show ?thesis by (auto simp: ensures_def split: prod.splits sum.splits)
qed

lemma create_composite_keeps:
  assumes P: "plane_invariant P"
  shows "keeps P (create_composite e f name ids)"
  unfolding create_composite_def
proof (intro ensures_then)
  show "keeps P (reading (\<lambda>st. require_flow st f))" "keeps P (check (ids \<noteq> []) ''composite_empty'')"
    "keeps P (check (2 \<le> length ids) ''composite_small'')" by simp_all
  show "ensures P (reading (\<lambda>st. check_members (flow_blocks st f) ids)) (\<lambda>_ st. P st \<and> check_members (flow_blocks st f) ids = Inr ()) P"
    by (rule ensures_reading) auto
  show "ensures (\<lambda>st. P st \<and> check_members (flow_blocks st f) ids = Inr ()) (build_composite e f nm ids) (\<lambda>_. P) P" for nm
  proof (rule ensuresI)
    fix st assume "P st \<and> check_members (flow_blocks st f) ids = Inr ()"
    with build_composite_keeps [OF P, of st f ids e nm] have "P (snd (build_composite e f nm ids st))" by simp
    then show "case build_composite e f nm ids st of (Inl err, st') \<Rightarrow> P st' | (Inr a, st') \<Rightarrow> P st'"
      by (cases "build_composite e f nm ids st") (simp split: sum.splits)
  qed
qed

end
