(* ===== verification/Flow_Steps.thy ===== *)
theory Flow_Steps
  imports Flow_Composite
begin

text \<open>
  The machine of the flow plane: every mutation of a design change keeps the tables valid, and every
  mutation that retypes nothing keeps the nets typed.
\<close>

section \<open>Every mutation\<close>

text \<open>The mutations that change the semantic kind of a port or the kind of a block.\<close>

definition retypes :: "flow_op \<Rightarrow> bool" where
  "retypes op = (case op of UpdateBlock i u \<Rightarrow> bu_kind u \<noteq> None | UpdatePort i u \<Rightarrow> pu_kind u \<noteq> None | _ \<Rightarrow> False)"

lemma edit_flow_keeps:
  assumes P: "plane_invariant P" and typed: "P = flow_ok \<or> \<not> retypes op"
  shows "keeps P (edit_flow e v f op)"
proof (cases op)
  case (UpdateBlock i u)
  have "P = flow_ok \<or> (P = typed_flows \<and> bu_kind u = None)" using assms UpdateBlock by (auto simp: plane_invariant_def retypes_def)
  with UpdateBlock show ?thesis by (simp add: edit_flow_def update_block_keeps)
next
  case (UpdatePort i u)
  have "P = flow_ok \<or> (P = typed_flows \<and> pu_kind u = None)" using assms UpdatePort by (auto simp: plane_invariant_def retypes_def)
  with UpdatePort show ?thesis by (simp add: edit_flow_def update_port_keeps)
qed (simp_all add: edit_flow_def P update_flow_keeps record_action_keeps add_block_keeps delete_block_keeps add_port_keeps
  delete_port_keeps add_net_keeps update_net_keeps delete_net_keeps create_composite_keeps expand_keeps keeps_then)

lemma mutation_keeps:
  assumes P: "plane_invariant P" and typed: "P = flow_ok \<or> \<not> retypes op"
  shows "keeps P (flow_mutation e v repo f op)"
proof -
  have edit: "keeps P (run_then (reading (\<lambda>st. require_flow st f)) (\<lambda>row.
       run_then (refuse_flow ''design_repo_mismatch'' (fm_repo_id row = repo)) (\<lambda>_.
       run_then (edit_flow e v f op) (\<lambda>_. finish f))))"
    by (intro keeps_then edit_flow_keeps [OF assms]) simp_all
  have create: "keeps P (committed (flow_create_model e r n s None None None))" for r n s
    by (rule ensures_committed) (auto intro: stable_create_model [OF P])
  show ?thesis
  proof (cases op)
    case (CreateBlank r s n)
    show ?thesis unfolding CreateBlank flow_mutation_def flow_op.case by (intro keeps_then create) simp_all
  next
    case (FromSymbol r s y n c w a)
    show ?thesis unfolding FromSymbol flow_mutation_def flow_op.case by (intro keeps_then from_symbol_keeps [OF P]) simp_all
  next
    case (FromComponent w m c n)
    show ?thesis unfolding FromComponent flow_mutation_def flow_op.case by (rule from_component_keeps [OF P])
  qed (use edit in \<open>simp_all add: flow_mutation_def\<close>)
qed

section \<open>The machines\<close>

inductive flow_step :: "flows \<Rightarrow> flows \<Rightarrow> bool" where
  mutate: "flow_mutation e v repo f op st = (r, st') \<Longrightarrow> flow_step st st'"

inductive typed_step :: "flows \<Rightarrow> flows \<Rightarrow> bool" where
  mutate: "flow_mutation e v repo f op st = (r, st') \<Longrightarrow> \<not> retypes op \<Longrightarrow> typed_step st st'"

lemma mutation_result:
  assumes "plane_invariant P" "P = flow_ok \<or> \<not> retypes op" "flow_mutation e v repo f op st = (r, st')" "P st"
  shows "P st'"
  using keeps_result [OF mutation_keeps [OF assms(1,2), of e v repo f] assms(4)] assms(3) by simp

interpretation flow_plane: safe_machine flow_step flow_ok
  by unfold_locales (auto elim!: flow_step.cases intro: mutation_result simp: plane_invariant_def)

interpretation typed_plane: safe_machine typed_step typed_flows
  by unfold_locales (auto elim!: typed_step.cases intro: mutation_result simp: plane_invariant_def)

abbreviation flows_reachable :: "flows \<Rightarrow> bool" where
  "flows_reachable st \<equiv> flow_step\<^sup>*\<^sup>* empty_flows st"

abbreviation typed_reachable :: "flows \<Rightarrow> bool" where
  "typed_reachable st \<equiv> typed_step\<^sup>*\<^sup>* empty_flows st"

lemma flows_reachable_ok: "flows_reachable st \<Longrightarrow> flow_ok st"
  using flow_plane.run_good empty_flow_ok by blast

lemma typed_reachable_ok: "typed_reachable st \<Longrightarrow> typed_flows st"
proof -
  have "typed_flows empty_flows" using empty_flow_ok by (simp add: typed_flows_def well_typed_def housed_def empty_flows_def)
  then show "typed_reachable st \<Longrightarrow> typed_flows st" using typed_plane.run_good by blast
qed

end
