(* ===== verification/Flow_Sample.thy ===== *)
theory Flow_Sample
  imports Flow_Steps Flow_Compare
begin

text \<open>
  A small run of the flow plane, on which the properties of it are instantiated: a component that maps two
  functions, each calling one other function, projected into a flow.
\<close>

definition flow_sample_env :: "string \<Rightarrow> flow_env" where
  "flow_sample_env p = \<lparr>fe_now = 1, fe_fresh = (\<lambda>i. p @ replicate i (CHR ''x'')), fe_repo = (\<lambda>r. r = ''r'')\<rparr>"

definition function_node :: "string \<Rightarrow> stored_node" where
  "function_node i = \<lparr>nd_repo_id = ''r'', nd_snapshot_id = ''s'', nd_id = i, nd_kind = ''FUNCTION'', nd_name = i, nd_qname = i,
     nd_language = ''python'', nd_schema_version = [], nd_path = ''m'', nd_start_line = None, nd_start_col = None,
     nd_end_line = None, nd_end_col = None, nd_meta = []\<rparr>"

definition sample_call :: "string \<Rightarrow> string \<Rightarrow> stored_edge" where
  "sample_call a b = \<lparr>ed_repo_id = ''r'', ed_snapshot_id = ''s'', ed_id = a @ b, ed_kind = ''CALLS'', ed_src_id = a, ed_dst_id = b,
     ed_confidence = [], ed_meta = []\<rparr>"

definition calls_graph :: graph where
  "calls_graph = \<lparr>gr_snapshots = [\<lparr>ss_id = ''s'', ss_repo_id = ''r'', ss_parent_id = None, ss_commit = None,
       ss_status = ''published'', ss_created_at = 1, ss_meta = []\<rparr>],
     gr_nodes = map function_node [''a'', ''b'', ''f'', ''g''],
     gr_edges = [sample_call ''a'' ''f'', sample_call ''b'' ''g''], gr_supports = []\<rparr>"

definition maps_to :: "string \<Rightarrow> arch_mapping" where
  "maps_to i = \<lparr>mp_id = i, mp_workspace_id = ''w'', mp_component_id = ''c'', mp_entity_type = ''node'', mp_entity_id = i,
     mp_snapshot_id = None, mp_note = [], mp_created_at = 1, mp_updated_at = 1\<rparr>"

definition mapped_arch :: arch where
  "mapped_arch = \<lparr>az_workspaces = [\<lparr>ws_id = ''w'', ws_repo_id = ''r'', ws_name = ''N'', ws_description = [],
       ws_created_at = 1, ws_updated_at = 1\<rparr>],
     az_models = [], az_components = [\<lparr>co_id = ''c'', co_workspace_id = ''w'', co_model_id = ''m'', co_origin_id = None, co_kind = ''service'',
       co_name = ''C'', co_description = [], co_parent_id = None, co_sort_order = 0, co_created_at = 1, co_updated_at = 1\<rparr>],
     az_relations = [], az_mappings = [maps_to ''a'', maps_to ''b''], az_layouts = []\<rparr>"

definition sample_evidence :: evidence_env where
  "sample_evidence = \<lparr>ve_graph = calls_graph, ve_arch = mapped_arch,
     ve_signature = (\<lambda>_. \<lparr>sg_params = [], sg_returns = False, sg_return_type = None\<rparr>)\<rparr>"

definition flows_after :: "string \<Rightarrow> flow_op \<Rightarrow> flows \<Rightarrow> flows" where
  "flows_after p op st = snd (flow_mutation (flow_sample_env p) sample_evidence ''r'' ''t'' op st)"

lemma flows_after_step: "flow_step st (flows_after p op st)" "\<not> retypes op \<Longrightarrow> typed_step st (flows_after p op st)"
  unfolding flows_after_def by (rule flow_step.mutate typed_step.mutate, rule surjective_pairing, simp?)+

definition projected_flow :: flows where
  "projected_flow = flows_after ''t'' (FromComponent ''w'' ''m'' ''c'' None) empty_flows"

definition callees_of :: "flows \<Rightarrow> string list" where
  "callees_of st = map fb_id (drop 2 (flow_blocks st ''t''))"

definition composed_flow :: flows where
  "composed_flow = flows_after ''q'' (CreateComposite ''g'' (callees_of projected_flow)) projected_flow"

text \<open>The rows of these two states.\<close>

definition row_id :: "nat \<Rightarrow> string" where
  "row_id k = ''t'' @ replicate k (CHR ''x'')"

definition block_row :: "string \<Rightarrow> string \<Rightarrow> string \<Rightarrow> string option \<Rightarrow> jdict \<Rightarrow> flow_block_row" where
  "block_row i kind name parent meta = \<lparr>fb_id = i, fb_flow_id = ''t'', fb_parent_id = parent, fb_kind = kind, fb_name = name,
     fb_state = ''existing'', fb_code = None, fb_meta = meta, fb_created_at = 1, fb_updated_at = 1\<rparr>"

definition port_row :: "string \<Rightarrow> string \<Rightarrow> bool \<Rightarrow> int \<Rightarrow> flow_port_row" where
  "port_row i b output order = \<lparr>fp_id = i, fp_flow_id = ''t'', fp_block_id = b,
     fp_name = (if output then ''control_out'' else ''control_in''), fp_direction = (if output then ''output'' else ''input''),
     fp_kind = ''control'', fp_code_type = None, fp_order = order, fp_meta = [], fp_created_at = 1\<rparr>"

definition net_row :: "string \<Rightarrow> string \<Rightarrow> string \<Rightarrow> jdict \<Rightarrow> flow_net_row" where
  "net_row i s t meta = \<lparr>fn_id = i, fn_flow_id = ''t'', fn_source_id = s, fn_target_id = t, fn_kind = ''control'',
     fn_label = None, fn_meta = meta, fn_created_at = 1\<rparr>"

definition binding_row :: "nat \<Rightarrow> string \<Rightarrow> flow_binding_row" where
  "binding_row k symbol = \<lparr>fx_id = row_id (Suc k), fx_flow_id = ''t'', fx_block_id = row_id k, fx_snapshot_id = ''s'',
     fx_symbol_id = symbol, fx_kind = ''implementation'', fx_created_at = 1, fx_updated_at = 1\<rparr>"

definition sample_flows :: "flow_block_row list \<Rightarrow> flow_port_row list \<Rightarrow> flow_net_row list \<Rightarrow> flows" where
  "sample_flows blocks ports nets = \<lparr>fs_models = [\<lparr>fm_id = ''t'', fm_workspace_id = Some ''w'', fm_arch_model_id = Some ''m'',
       fm_repo_id = ''r'', fm_name = ''C Flow'', fm_scope_symbol_id = Some ''c'', fm_root_block_id = None, fm_snapshot_id = ''s'',
       fm_status = ''active'', fm_version = 1, fm_created_at = 1, fm_updated_at = 1, fm_meta = []\<rparr>],
     fs_blocks = blocks, fs_ports = ports, fs_nets = nets,
     fs_bindings = map (\<lambda>(k, s). binding_row k s) [(1, ''a''), (5, ''b''), (9, ''f''), (13, ''g'')], fs_layouts = []\<rparr>"

definition member_rows_of :: "string option \<Rightarrow> flow_block_row list" where
  "member_rows_of parent = [block_row (row_id 1) ''function'' ''a'' None [], block_row (row_id 5) ''function'' ''b'' None [],
     block_row (row_id 9) ''function'' ''f'' parent [], block_row (row_id 13) ''function'' ''g'' parent []]"

definition function_ports :: "flow_port_row list" where
  "function_ports = concat (map (\<lambda>k. [port_row (row_id (k + 2)) (row_id k) False 100, port_row (row_id (k + 3)) (row_id k) True 300])
     [1, 5, 9, 13])"

definition projected_rows :: flows where
  "projected_rows = sample_flows (member_rows_of None) function_ports
     [net_row (row_id 17) (row_id 4) (row_id 11) [(''derived'', JBool True)],
      net_row (row_id 18) (row_id 8) (row_id 15) [(''derived'', JBool True)]]"

definition exposed_to :: "nat list \<Rightarrow> json" where
  "exposed_to ks = JList (map (\<lambda>(k, b). JObj [(''child_port_id'', JStr (row_id k)), (''child_block_id'', JStr (row_id b))])
     (zip ks [9, 13]))"

definition composed_rows :: flows where
  "composed_rows = sample_flows (member_rows_of (Some ''q'') @ [block_row ''q'' ''composite'' ''G'' None
       [(''children'', jstrs [row_id 9, row_id 13]), (''exposed_ports'', JObj [(''qx'', exposed_to [11, 15]), (''qxx'', exposed_to [12, 16])])]])
     (function_ports @ [port_row ''qx'' ''q'' False 0, port_row ''qxx'' ''q'' True 1])
     (let meta = [(''derived'', JBool True), (''redirected'', JBool True)] in
      [net_row ''qxxx'' (row_id 4) ''qx'' meta, net_row ''qxxxx'' ''qx'' (row_id 11) meta,
       net_row ''qxxxxx'' (row_id 8) ''qx'' meta, net_row ''qxxxxxx'' ''qx'' (row_id 15) meta])"

lemma projected_state: "projected_flow = projected_rows"
  by code_simp

lemma composed_state: "composed_flow = composed_rows"
  unfolding composed_flow_def projected_state by code_simp

lemma sample_flows_reachable: "flows_reachable projected_flow" "flows_reachable composed_flow"
proof -
  show first: "flows_reachable projected_flow" unfolding projected_flow_def by (rule r_into_rtranclp) (rule flows_after_step)
  show "flows_reachable composed_flow" unfolding composed_flow_def by (rule rtranclp.rtrancl_into_rtrancl [OF first]) (rule flows_after_step)
qed

lemma sample_flows_typed: "typed_reachable composed_flow"
proof -
  have "typed_reachable projected_flow"
    unfolding projected_flow_def by (rule r_into_rtranclp) (rule flows_after_step, simp add: retypes_def)
  then show ?thesis
    unfolding composed_flow_def by (rule rtranclp.rtrancl_into_rtrancl) (rule flows_after_step, simp add: retypes_def)
qed

end
