(* ===== verification/Flow_Merge.thy ===== *)
theory Flow_Merge
  imports Flow_Steps Flow_Compare
begin

text \<open>
  What folding blocks into a composite does to the calls a flow stands for: the members that share a port
  name share a port of the composite, so every caller of one of them becomes a caller of all of them.
\<close>

section \<open>While nets are redirected\<close>

definition net_between :: "flows \<Rightarrow> string \<Rightarrow> string \<Rightarrow> string \<Rightarrow> bool" where
  "net_between st f s t = (\<exists>n \<in> set (fs_nets st). fn_flow_id n = f \<and> fn_source_id n = s \<and> fn_target_id n = t)"

definition control_from :: "flows \<Rightarrow> string \<Rightarrow> string \<Rightarrow> bool" where
  "control_from st f s = (\<forall>n \<in> set (fs_nets st). fn_flow_id n = f \<and> fn_source_id n = s \<longrightarrow> fn_kind n = ''control'')"

text \<open>
  The nets that are still to be redirected do not touch the port \<open>c\<close>, and the pairs made so far are there.
  The caller's port \<open>s1\<close> has control nets only.
\<close>

definition redirecting :: "string \<Rightarrow> flow_block_row list \<Rightarrow> flow_port_row list \<Rightarrow> flow_binding_row list \<Rightarrow> string \<Rightarrow> string \<Rightarrow>
    flow_net_row list \<Rightarrow> (string \<times> string) set \<Rightarrow> flows \<Rightarrow> bool" where
  "redirecting f B Q X s1 c rest D st = (pinned_to flow_ok B Q st \<and> fs_bindings st = X \<and> distinct (map fn_id rest) \<and>
     set rest \<subseteq> set (fs_nets st) \<and> (\<forall>n \<in> set rest. fn_source_id n \<noteq> c \<and> fn_target_id n \<noteq> c) \<and> control_from st f s1 \<and>
     (\<forall>(s, t) \<in> D. (s = c \<or> t = c) \<and> net_between st f s t))"

lemma plain_invariant: "plane_invariant flow_ok"
  by (simp add: plane_invariant_def)

lemma redirecting_ok: "redirecting f B Q X s1 c rest D st \<Longrightarrow> flow_ok st"
  by (simp add: redirecting_def pinned_to_def)

lemma redirecting_less:
  assumes "redirecting f B Q X s1 c (n # rest) D st"
  shows "redirecting f B Q X s1 c rest D st"
  using assms by (auto simp: redirecting_def)

lemma redirecting_delete:
  "ensures (redirecting f B Q X s1 c (n # rest) D) (updating (\<lambda>st. Inr (flow_delete_net f (fn_id n) st)))
     (\<lambda>_. redirecting f B Q X s1 c rest D) (\<lambda>_. True)"
proof (rule ensures_updating)
  fix st st' assume I: "redirecting f B Q X s1 c (n # rest) D st" and "Inr (flow_delete_net f (fn_id n) st) = (Inr st' :: flow_error + flows)"
  then have st': "st' = flow_delete_net f (fn_id n) st" by simp
  have ok: "flow_ok st" by (rule redirecting_ok [OF I])
  have same: "m = n" if "m \<in> set (fs_nets st)" "fn_id m = fn_id n" for m
    using same_row [OF flow_okD(4) [OF ok], of m n] that I by (auto simp: redirecting_def)
  have nets: "m \<in> set (fs_nets st') \<longleftrightarrow> m \<in> set (fs_nets st) \<and> \<not> (fn_flow_id m = f \<and> fn_id m = fn_id n)" for m
    by (auto simp: st' flow_delete_net_def)
  have "set rest \<subseteq> set (fs_nets st')"
  proof
    fix r assume r: "r \<in> set rest"
    have "fn_id n \<notin> fn_id ` set rest" "r \<in> set (fs_nets st)" using I r by (auto simp: redirecting_def)
    with r show "r \<in> set (fs_nets st')" unfolding nets by (metis imageI)
  qed
  moreover have "net_between st' f s t" if "(s, t) \<in> D" for s t
  proof -
    from I that have "s = c \<or> t = c" and "net_between st f s t" by (auto simp: redirecting_def)
    then obtain m where m: "m \<in> set (fs_nets st)" "fn_flow_id m = f" "fn_source_id m = s" "fn_target_id m = t"
      by (auto simp: net_between_def)
    have "m \<noteq> n" using I m \<open>s = c \<or> t = c\<close> by (auto simp: redirecting_def)
    with same m(1) have "m \<in> set (fs_nets st')" by (auto simp: nets)
    with m show ?thesis by (auto simp: net_between_def)
  qed
  moreover have "flow_ok st'" "fs_blocks st' = fs_blocks st" "fs_ports st' = fs_ports st" "fs_bindings st' = fs_bindings st"
    unfolding st' using delete_net_ok [OF ok] by (simp_all add: flow_delete_net_def)
  moreover have "control_from st' f s1" using I by (auto simp: redirecting_def control_from_def nets)
  ultimately show "redirecting f B Q X s1 c rest D st'" using I by (auto simp: redirecting_def pinned_to_def)
qed simp

text \<open>A net that is added keeps what is there.\<close>

lemma redirecting_add:
  assumes I: "redirecting f B Q X s1 c rest D st" and run: "flow_create_net e i f s t kind label meta st = Inr (n, st')"
    and kind: "s = s1 \<Longrightarrow> kind = ''control''"
  shows "redirecting f B Q X s1 c rest D st'" and "net_between st' f s t"
proof -
  have st': "st' = st\<lparr>fs_nets := fs_nets st @ [n]\<rparr>" and n: "fn_flow_id n = f" "fn_source_id n = s" "fn_target_id n = t" "fn_kind n = kind"
    using run unfolding flow_create_net_def Let_def and_then_Inr by auto
  show "net_between st' f s t" using n by (auto simp: net_between_def st')
  have "flow_ok st'" by (rule create_net_ok [OF run redirecting_ok [OF I]])
  moreover have "control_from st' f s1" using I kind n by (auto simp: redirecting_def control_from_def st')
  moreover have "net_between st' f a b" if "net_between st f a b" for a b
    using that by (auto simp: net_between_def st')
  ultimately show "redirecting f B Q X s1 c rest D st'" using I by (auto simp: redirecting_def pinned_to_def st')
qed

lemma create_net_refused:
  assumes "flow_create_net e i f s t kind label meta st = Inl (FlowError code)" and "flow_port st f s \<noteq> None" "flow_port st f t \<noteq> None"
  shows "list_ex (\<lambda>x. fn_source_id x = s \<and> fn_target_id x = t) (flow_nets st f)"
  using assms by (auto simp: flow_create_net_def Let_def and_then_Inl flow_demand_def split: if_splits)

lemma missing_result:
  assumes run: "create_net_missing e i f s t kind label st = (Inr u, st')" and I: "redirecting f B Q X s1 c rest D st"
    and kind: "s = s1 \<Longrightarrow> kind = ''control''"
  shows "redirecting f B Q X s1 c rest D st'"
    and "flow_port st f s \<noteq> None \<Longrightarrow> flow_port st f t \<noteq> None \<Longrightarrow> net_between st' f s t"
proof -
  let ?present = "list_ex (\<lambda>n. fn_source_id n = s \<and> fn_target_id n = t) (flow_nets st f)"
  let ?create = "flow_create_net e i f s t kind label [(''derived'', JBool True), (''redirected'', JBool True)] st"
  have present: "net_between st f s t" if ?present
    using that by (auto simp: list_ex_iff net_between_def flow_nets_def)
  have "redirecting f B Q X s1 c rest D st' \<and>
    (flow_port st f s \<noteq> None \<longrightarrow> flow_port st f t \<noteq> None \<longrightarrow> net_between st' f s t)"
  proof (cases ?present)
    case True
    then have "st' = st" using run by (simp add: create_net_missing_def reading_def)
    with I present [OF True] show ?thesis by simp
  next
    case False
    then have run': "ignoring (committed (flow_create_net e i f s t kind label [(''derived'', JBool True), (''redirected'', JBool True)])) st = (Inr u, st')"
      using run by (simp add: create_net_missing_def)
    show ?thesis
    proof (cases ?create)
      case (Inl err)
      then obtain code where "err = FlowError code" "st' = st"
        using run' by (cases err) (auto simp: ignoring_def committed_def)
      with create_net_refused [of e i f s t] Inl False I show ?thesis by auto
    next
      case (Inr x)
      then obtain n s' where x: "?create = Inr (n, s')" by (cases x) auto
      then have "st' = s'" using run' by (simp add: ignoring_def committed_def)
      with redirecting_add [OF I x kind] show ?thesis by simp
    qed
  qed
  then show "redirecting f B Q X s1 c rest D st'"
    and "flow_port st f s \<noteq> None \<Longrightarrow> flow_port st f t \<noteq> None \<Longrightarrow> net_between st' f s t" by blast+
qed

definition listed_port :: "flow_port_row list \<Rightarrow> string \<Rightarrow> string \<Rightarrow> bool" where
  "listed_port Q f i = (\<exists>p \<in> set Q. fp_flow_id p = f \<and> fp_id p = i)"

lemma listed_known:
  assumes "redirecting f B Q X s1 c rest D st" and "listed_port Q f i"
  shows "flow_port st f i \<noteq> None"
proof -
  from assms(2) obtain p where "p \<in> set Q" "fp_flow_id p = f" "fp_id p = i" by (auto simp: listed_port_def)
  moreover have "fs_ports st = Q" using assms(1) by (simp add: redirecting_def pinned_to_def)
  ultimately have "flow_port st f i = Some p" using lookup_port [OF redirecting_ok [OF assms(1)]] by simp
  then show ?thesis by simp
qed

lemma missing_keeps:
  assumes "s = s1 \<Longrightarrow> kind = ''control''"
  shows "ensures (redirecting f B Q X s1 c rest D) (create_net_missing e i f s t kind label)
    (\<lambda>_. redirecting f B Q X s1 c rest D) (\<lambda>_. True)"
  by (rule ensuresI) (use missing_result(1) [OF _ _ assms] in \<open>auto split: sum.splits prod.splits\<close>)

lemma missing_adds:
  assumes "s = s1 \<Longrightarrow> kind = ''control''" and "s = c \<or> t = c" and "listed_port Q f s" "listed_port Q f t"
  shows "ensures (redirecting f B Q X s1 c rest D) (create_net_missing e i f s t kind label)
    (\<lambda>_. redirecting f B Q X s1 c rest (insert (s, t) D)) (\<lambda>_. True)"
proof (rule ensuresI)
  fix st assume I: "redirecting f B Q X s1 c rest D st"
  have "redirecting f B Q X s1 c rest (insert (s, t) D) st'" if "create_net_missing e i f s t kind label st = (Inr u, st')" for u st'
    using missing_result [OF that I assms(1)] listed_known [OF I assms(3)] listed_known [OF I assms(4)] assms(2)
    by (simp add: redirecting_def)
  then show "case create_net_missing e i f s t kind label st of (Inl err, st') \<Rightarrow> True
     | (Inr a, st') \<Rightarrow> redirecting f B Q X s1 c rest (insert (s, t) D) st'"
    by (auto split: sum.splits prod.splits)
qed

text \<open>The pairs that one redirection adds at the port \<open>c\<close>.\<close>

definition gained :: "flow_port_row list \<Rightarrow> (port_key, string) dict \<Rightarrow> string \<Rightarrow> flow_net_row \<Rightarrow> (string \<times> string) set" where
  "gained own cports c n = (case find (\<lambda>p. fp_id p = fn_target_id n) own of
     Some dst \<Rightarrow> if map_of cports (fp_name dst, ''input'', fp_kind dst) = Some c
       then {(fn_source_id n, c), (c, fp_id dst)} else {}
   | None \<Rightarrow> {})"

lemma redirecting_net:
  assumes caller: "s1 \<notin> fp_id ` set own" "s1 \<notin> snd ` set cports" and n: "fn_source_id n = s1 \<Longrightarrow> fn_kind n = ''control''"
    and ports: "listed_port Q f (fn_source_id n)" "listed_port Q f c" "\<And>p. p \<in> set own \<Longrightarrow> listed_port Q f (fp_id p)"
  shows "ensures (redirecting f B Q X s1 c (n # rest) D) (redirect_net e f own cports k (i, n))
    (\<lambda>_. redirecting f B Q X s1 c rest (D \<union> gained own cports c n)) (\<lambda>_. True)"
proof -
  let ?R = "redirecting f B Q X s1 c"
  have skip: "ensures (?R (n # rest) D) (finish ()) (\<lambda>_. ?R rest D) (\<lambda>_. True)"
    by (rule ensures_reading) (auto intro: redirecting_less)
  have cport: "c' \<noteq> s1" if "map_of cports key = Some c'" for c' key
    using map_of_SomeD [OF that] caller(2) by force
  have member: "p \<in> set own" if "find P own = Some p" for P p using that by (auto dest: find_SomeD)
  show ?thesis
  proof (cases "find (\<lambda>p. fp_id p = fn_target_id n) own")
    case (Some dst)
    show ?thesis
    proof (cases "map_of cports (fp_name dst, ''input'', fp_kind dst)")
      case None
      with Some skip show ?thesis by (simp add: redirect_net_def gained_def)
    next
      case c': (Some c')
      have "c' \<noteq> s1" by (rule cport [OF c'])
      show ?thesis
      proof (cases "c' = c")
        case True
        have new: "D \<union> gained own cports c n = insert (c, fp_id dst) (insert (fn_source_id n, c) D)"
          using Some c' True by (auto simp: gained_def)
        have dst: "listed_port Q f (fp_id dst)" using ports(3) member [OF Some] .
        show ?thesis
          unfolding redirect_net_def prod.case Some c' option.case True new
          by (intro ensures_then [OF redirecting_delete] ensures_then [OF missing_adds] missing_adds)
            (use n ports dst \<open>c' \<noteq> s1\<close> True in auto)
      next
        case False
        then have "gained own cports c n = {}" using Some c' by (auto simp: gained_def)
        then show ?thesis
          unfolding redirect_net_def prod.case Some c' option.case
          using n \<open>c' \<noteq> s1\<close>
          by (auto intro!: ensures_then [OF redirecting_delete] ensures_then [OF missing_keeps] missing_keeps)
      qed
    qed
  next
    case None
    then have none: "gained own cports c n = {}" by (simp add: gained_def)
    show ?thesis
    proof (cases "find (\<lambda>p. fp_id p = fn_source_id n) own")
      case None2: None
      with None none skip show ?thesis by (simp add: redirect_net_def)
    next
      case src: (Some src)
      have "fp_id src \<noteq> s1" using caller(1) member [OF src] by auto
      show ?thesis
      proof (cases "map_of cports (fp_name src, ''output'', fp_kind src)")
        case None2: None
        with None none src skip show ?thesis by (simp add: redirect_net_def)
      next
        case c': (Some c')
        have "c' \<noteq> s1" by (rule cport [OF c'])
        then show ?thesis
          unfolding redirect_net_def prod.case None src c' option.case none Un_empty_right
          using \<open>fp_id src \<noteq> s1\<close>
          by (auto intro!: ensures_then [OF redirecting_delete] ensures_then [OF missing_keeps] missing_keeps)
      qed
    qed
  qed
qed

lemma redirecting_all:
  assumes caller: "s1 \<notin> fp_id ` set own" "s1 \<notin> snd ` set cports" and c: "listed_port Q f c"
    and own: "\<And>p. p \<in> set own \<Longrightarrow> listed_port Q f (fp_id p)"
  shows "(\<And>i n. (i, n) \<in> set xs \<Longrightarrow> listed_port Q f (fn_source_id n) \<and> (fn_source_id n = s1 \<longrightarrow> fn_kind n = ''control'')) \<Longrightarrow>
    ensures (redirecting f B Q X s1 c (map snd xs) D) (run_each (redirect_net e f own cports k) xs)
      (\<lambda>_. redirecting f B Q X s1 c [] (D \<union> \<Union> (gained own cports c ` set (map snd xs)))) (\<lambda>_. True)"
proof (induction xs arbitrary: D)
  case Nil
  then show ?case by (auto intro!: ensures_reading)
next
  case (Cons x xs)
  obtain i n where x: "x = (i, n)" by (cases x)
  have n: "listed_port Q f (fn_source_id n)" "fn_source_id n = s1 \<Longrightarrow> fn_kind n = ''control''" using Cons.prems [of i n] x by auto
  have one: "ensures (redirecting f B Q X s1 c (n # map snd xs) D) (redirect_net e f own cports k (i, n))
      (\<lambda>_. redirecting f B Q X s1 c (map snd xs) (D \<union> gained own cports c n)) (\<lambda>_. True)"
    by (rule redirecting_net [OF caller]) (use n c own in auto)
  have rest: "ensures (redirecting f B Q X s1 c (map snd xs) (D \<union> gained own cports c n)) (run_each (redirect_net e f own cports k) xs)
      (\<lambda>_. redirecting f B Q X s1 c [] ((D \<union> gained own cports c n) \<union> \<Union> (gained own cports c ` set (map snd xs)))) (\<lambda>_. True)"
    by (rule Cons.IH) (use Cons.prems in auto)
  have all: "(D \<union> gained own cports c n) \<union> \<Union> (gained own cports c ` set (map snd xs)) =
      D \<union> \<Union> (gained own cports c ` set (map snd (x # xs)))" by (auto simp: x)
  show ?case
    unfolding run_each.simps x list.map snd_conv
    by (rule ensures_then [OF one], rule ensures_then [OF rest], rule ensures_reading) (use all x in auto)
qed

section \<open>The ports of the composite\<close>

lemma run_each_map:
  assumes "\<And>x st y st'. f x st = (Inr y, st') \<Longrightarrow> g y = h x"
  shows "run_each f xs st = (Inr ys, st') \<Longrightarrow> map g ys = map h xs"
proof (induction xs arbitrary: st ys)
  case Nil
  then show ?case by (simp add: reading_def)
next
  case (Cons x xs)
  from Cons.prems obtain y s zs where y: "f x st = (Inr y, s)" and zs: "run_each f xs s = (Inr zs, st')" and "ys = y # zs"
    by (auto simp: run_then_def reading_def split: prod.splits sum.splits)
  with assms [OF y] Cons.IH [OF zs] show ?case by simp
qed

lemma exposed_keys:
  assumes "run_each (expose_port e f c) (List.enumerate 0 needs) st = (Inr created, st')"
  shows "map fst created = map fst needs"
proof -
  have "fst y = fst (snd x)" if "expose_port e f c x s = (Inr y, s')" for x s y s'
    using that by (cases x) (auto simp: expose_port_def run_then_def reading_def split: prod.splits sum.splits)
  then have "map fst created = map (\<lambda>x. fst (snd x)) (List.enumerate 0 needs)" by (rule run_each_map [OF _ assms])
  also have "\<dots> = map fst (map snd (List.enumerate 0 needs))" by (simp only: map_map comp_def)
  finally show ?thesis by (simp only: map_snd_enumerate)
qed

lemma composite_port_row:
  assumes "folded flow_ok f st0 c st" "stands_for c (set created) st" and "map_of (map (\<lambda>(k, i, ps). (k, i)) created) key = Some i"
  obtains p where "p \<in> set (fs_ports st)" "fp_id p = i" "fp_block_id p = fb_id c" "fp_flow_id p = f"
proof -
  from map_of_SomeD [OF assms(3)] obtain ps where ps: "(key, i, ps) \<in> set created" by auto
  from bspec [OF assms(2) [unfolded stands_for_def] ps] obtain p where p: "p \<in> set (fs_ports st)" "fp_id p = i" "fp_block_id p = fb_id c" by auto
  have ok: "flow_ok st" and c: "c \<in> set (fs_blocks st)" "fb_flow_id c = f" using assms(1) by (simp_all add: folded_def)
  from flow_okD(7) [OF ok p(1)] obtain b where b: "b \<in> set (fs_blocks st)" "fb_flow_id b = fp_flow_id p" "fb_id b = fp_block_id p"
    by (auto simp: port_ok_def known_defs)
  with same_row [OF flow_okD(2) [OF ok] b(1) c(1)] p(3) c(2) have "fp_flow_id p = f" by simp
  with p that show thesis by blast
qed

lemma old_port_block:
  assumes "flow_ok st0" and "p \<in> set (fs_ports st0)"
  shows "fp_block_id p \<in> fb_id ` set (fs_blocks st0)"
  using flow_okD(7) [OF assms] known_id by (auto simp: port_ok_def)

lemma composite_port_new:
  assumes ok: "flow_ok st0" and st: "folded flow_ok f st0 c st" and p: "p \<in> set (fs_ports st)" "fp_block_id p = fb_id c"
  shows "fp_id p \<notin> fp_id ` set (fs_ports st0)"
proof
  assume "fp_id p \<in> fp_id ` set (fs_ports st0)"
  then obtain q where q: "q \<in> set (fs_ports st0)" "fp_id q = fp_id p" by auto
  have "q \<in> set (fs_ports st)" "flow_ok st" using st q(1) by (auto simp: folded_def)
  with same_row [OF flow_okD(3) _ p(1) q(2)] have "q = p" by blast
  with old_port_block [OF ok q(1)] p(2) st show False by (simp add: folded_def)
qed

section \<open>Describing and adopting\<close>

definition block_shape :: "flow_block_row \<Rightarrow> string \<times> string \<times> string" where
  "block_shape b = (fb_id b, fb_flow_id b, fb_kind b)"

definition same_rows :: "flows \<Rightarrow> flows \<Rightarrow> bool" where
  "same_rows st st' = (fs_nets st' = fs_nets st \<and> fs_ports st' = fs_ports st \<and> fs_bindings st' = fs_bindings st \<and>
     map block_shape (fs_blocks st') = map block_shape (fs_blocks st))"

lemma update_block_rows:
  assumes "flow_ok st" and upd: "flow_update_block e f i u st = Inr st'" and "bu_kind u = None"
  shows "same_rows st st'"
proof -
  from update_block_blocks [OF upd assms(1)] obtain b where b: "b \<in> set (fs_blocks st)" "fb_id b = i"
    and st': "st' = st\<lparr>fs_blocks := map (\<lambda>x. if fb_id x = i then updated_block e u b else x) (fs_blocks st)\<rparr>" .
  have "block_shape (if fb_id x = i then updated_block e u b else x) = block_shape x" if "x \<in> set (fs_blocks st)" for x
    using same_row [OF flow_okD(2) [OF assms(1)] that b(1)] b(2) assms(3) by (auto simp: block_shape_def updated_block_def or_old_def)
  then show ?thesis by (simp add: same_rows_def st' comp_def)
qed

lemma keeps_rows:
  assumes "keeps (\<lambda>st. flow_ok st \<and> parentless c st) (updating (flow_update_block e f i u))" and "bu_kind u = None"
  shows "keeps (\<lambda>st. (flow_ok st \<and> parentless c st) \<and> same_rows st1 st) (updating (flow_update_block e f i u))"
proof (rule ensures_updating)
  fix st st' assume st: "(flow_ok st \<and> parentless c st) \<and> same_rows st1 st" and upd: "flow_update_block e f i u st = Inr st'"
  have "updating (flow_update_block e f i u) st = (Inr (), st')" using upd by (simp add: updating_def committed_def)
  with ensuresD(1) [OF assms(1)] st have "flow_ok st' \<and> parentless c st'" by blast
  moreover have "same_rows st st'" by (rule update_block_rows [OF _ upd assms(2)]) (use st in simp)
  ultimately show "(flow_ok st' \<and> parentless c st') \<and> same_rows st1 st'" using st by (simp add: same_rows_def)
qed simp

section \<open>After the composition\<close>

definition merged :: "flows \<Rightarrow> string \<Rightarrow> string \<Rightarrow> string \<Rightarrow> string \<Rightarrow> flows \<Rightarrow> bool" where
  "merged st0 f cb s1 t2 st = (flow_ok st \<and> fs_bindings st = fs_bindings st0 \<and> set (fs_ports st0) \<subseteq> set (fs_ports st) \<and>
     cb \<notin> fb_id ` set (fs_blocks st0) \<and> map block_shape (fs_blocks st) = map block_shape (fs_blocks st0) @ [(cb, f, ''composite'')] \<and>
     control_from st f s1 \<and> (\<exists>p \<in> set (fs_ports st). fp_flow_id p = f \<and> fp_block_id p = cb \<and>
       net_between st f s1 (fp_id p) \<and> net_between st f (fp_id p) t2))"

lemma merged_rows: "merged st0 f cb s1 t2 st \<Longrightarrow> flow_ok st' \<Longrightarrow> same_rows st st' \<Longrightarrow> merged st0 f cb s1 t2 st'"
  by (simp add: merged_def same_rows_def control_from_def net_between_def)

lemma build_merges:
  assumes ok: "flow_ok st0" and members: "check_members (flow_blocks st0 f) ids = Inr ()"
    and n1: "n1 \<in> set (external_nets st0 f ids)" "control_from st0 f (fn_source_id n1)"
    and q1: "q1 \<in> set (member_ports st0 f ids)" "fp_id q1 = fn_target_id n1" "fp_direction q1 = ''input''"
    and n2: "n2 \<in> set (external_nets st0 f ids)" and q2: "q2 \<in> set (member_ports st0 f ids)" "fp_id q2 = fn_target_id n2"
    and key: "fp_name q2 = fp_name q1" "fp_kind q2 = fp_kind q1"
    and run: "build_composite e f name ids st0 = (Inr (), st')"
  shows "merged st0 f (fe_fresh e 0) (fn_source_id n1) (fp_id q2) st'"
proof -
  let ?own = "member_ports st0 f ids" and ?outer = "external_nets st0 f ids" and ?needs = "port_needs st0 f ids"
  let ?s1 = "fn_source_id n1"
  from run obtain cb s1 created s2 u s3 where
    block: "committed (flow_create_block e 0 f ''composite'' name ''existing'' None None []) st0 = (Inr cb, s1)"
    and ports: "run_each (expose_port e f (fb_id cb)) (List.enumerate 0 ?needs) s1 = (Inr created, s2)"
    and nets: "run_each (redirect_net e f ?own (map (\<lambda>(k, i, ps). (k, i)) created) (Suc (length ?needs))) (List.enumerate 0 ?outer) s2 = (Inr u, s3)"
    and rest: "run_then (updating (flow_update_block e f (fb_id cb) (no_update\<lparr>bu_meta := Some (composite_meta ids created)\<rparr>))) (\<lambda>_.
      run_then (run_each (\<lambda>i. updating (flow_update_block e f i (no_update\<lparr>bu_parent := Some (fb_id cb)\<rparr>))) ids) (\<lambda>_. finish ())) s3 = (Inr (), st')"
    unfolding build_composite_def Let_def run_then_def by (auto split: prod.splits sum.splits)
  have cb: "fb_id cb = fe_fresh e 0"
    using block by (auto simp: committed_def flow_create_block_def Let_def and_then_Inr split: sum.splits)
  have f1: "folded flow_ok f st0 cb s1" by (rule ensuresD(1) [OF folded_block [OF plain_invariant ok] refl block])
  have f2: "folded flow_ok f st0 cb s2" "stands_for cb (set created) s2"
    using ensuresD(1) [OF exposed_stand [OF plain_invariant] f1 ports] by simp_all
  let ?cports = "map (\<lambda>(k, i, ps). (k, i)) created"
  have ok2: "flow_ok s2" and same2: "fs_nets s2 = fs_nets st0" "fs_bindings s2 = fs_bindings st0" "set (fs_ports st0) \<subseteq> set (fs_ports s2)"
    and blocks2: "fs_blocks s2 = fs_blocks st0 @ [cb]" and shape: "block_shape cb = (fe_fresh e 0, f, ''composite'')"
    and new: "fb_id cb \<notin> fb_id ` set (fs_blocks st0)"
    using f2(1) cb by (simp_all add: folded_def block_shape_def)
  \<comment> \<open>the port of the composite\<close>
  have "q1 \<in> set (sort_key (\<lambda>p. (fp_block_id p, fp_order p)) ?own)" using q1(1) by simp
  moreover have "exposed (internal_nets st0 f ids) ?outer q1" using n1(1) q1(2,3) by (auto simp: exposed_def)
  ultimately have "(fp_name q1, ''input'', fp_kind q1) \<in> fst ` set ?needs"
    unfolding port_needs_def group_by_keys using q1(3) by (force simp: key_of_port_def)
  then have "(fp_name q1, ''input'', fp_kind q1) \<in> set (map fst created)" unfolding exposed_keys [OF ports] by simp
  moreover have "map fst ?cports = map fst created" by (simp add: comp_def split_beta)
  ultimately have "map_of ?cports (fp_name q1, ''input'', fp_kind q1) \<noteq> None" unfolding map_of_eq_None_iff by (metis set_map)
  then obtain c where c: "map_of ?cports (fp_name q1, ''input'', fp_kind q1) = Some c" by blast
  have fresh: "i \<notin> fp_id ` set (fs_ports st0)" if "map_of ?cports k = Some i" for i k
    using composite_port_row [OF f2 that] composite_port_new [OF ok f2(1)] by metis
  from composite_port_row [OF f2 c] obtain p where p: "p \<in> set (fs_ports s2)" "fp_id p = c" "fp_block_id p = fb_id cb" "fp_flow_id p = f" .
  \<comment> \<open>the ends of the nets\<close>
  have outer: "n \<in> set (fs_nets st0)" "fn_flow_id n = f" if "n \<in> set ?outer" for n
    using that by (auto simp: external_nets_def Let_def flow_nets_def)
  have ends: "fn_source_id n \<in> fp_id ` set (fs_ports st0)" "fn_target_id n \<in> fp_id ` set (fs_ports st0)"
    "listed_port (fs_ports s2) f (fn_source_id n)" if "n \<in> set ?outer" for n
    using net_ends_known [OF ok outer(1) [OF that]] flow_okD(8) [OF ok outer(1) [OF that]] outer(2) [OF that] same2(3)
    by (auto simp: net_ok_def known_defs listed_port_def)
  have own: "listed_port (fs_ports s2) f (fp_id q)" "fp_id q \<in> fp_id ` set (fs_ports st0)" if "q \<in> set ?own" for q
    using that same2(3) by (auto simp: member_port_iff listed_port_def)
  have caller: "?s1 \<notin> fp_id ` set ?own"
    using n1(1) q1(1,2) by (auto simp: external_nets_def Let_def) (metis imageI)+
  have cported: "?s1 \<notin> snd ` set ?cports"
  proof
    assume "?s1 \<in> snd ` set ?cports"
    then obtain k ps where ps: "(k, ?s1, ps) \<in> set created" by auto
    from bspec [OF f2(2) [unfolded stands_for_def] ps] obtain r where "r \<in> set (fs_ports s2)" "fp_id r = ?s1" "fp_block_id r = fb_id cb" by auto
    with composite_port_new [OF ok f2(1)] ends(1) [OF n1(1)] show False by metis
  qed
  have "distinct (map fn_id ?outer)"
    using flow_okD(4) [OF ok] by (simp add: external_nets_def Let_def flow_nets_def distinct_map inj_on_def)
  then have start: "redirecting f (fs_blocks s2) (fs_ports s2) (fs_bindings st0) ?s1 c (map snd (List.enumerate 0 ?outer)) {} s2"
    using ok2 same2 n1(2) outer(1) ends(1,2) fresh [OF c]
    by (auto simp: redirecting_def pinned_to_def control_from_def)
  have "ensures (redirecting f (fs_blocks s2) (fs_ports s2) (fs_bindings st0) ?s1 c (map snd (List.enumerate 0 ?outer)) {})
      (run_each (redirect_net e f ?own ?cports (Suc (length ?needs))) (List.enumerate 0 ?outer))
      (\<lambda>_. redirecting f (fs_blocks s2) (fs_ports s2) (fs_bindings st0) ?s1 c []
        ({} \<union> \<Union> (gained ?own ?cports c ` set (map snd (List.enumerate 0 ?outer))))) (\<lambda>_. True)"
  proof (rule redirecting_all [OF caller cported])
    show "listed_port (fs_ports s2) f c" using p by (auto simp: listed_port_def)
    show "\<And>q. q \<in> set ?own \<Longrightarrow> listed_port (fs_ports s2) f (fp_id q)" by (rule own)
    fix i n assume "(i, n) \<in> set (List.enumerate 0 ?outer)"
    then have n: "n \<in> set ?outer" unfolding enumerate_eq_zip by (rule set_zip_rightD)
    show "listed_port (fs_ports s2) f (fn_source_id n) \<and> (fn_source_id n = ?s1 \<longrightarrow> fn_kind n = ''control'')"
      using ends(3) [OF n] outer [OF n] n1(2) by (auto simp: control_from_def)
  qed
  from ensuresD(1) [OF this start nets]
  have after: "redirecting f (fs_blocks s2) (fs_ports s2) (fs_bindings st0) ?s1 c [] (\<Union> (gained ?own ?cports c ` set ?outer)) s3"
    by simp
  have found: "find (\<lambda>r. fp_id r = fp_id q) ?own = Some q" if "q \<in> set ?own" for q
  proof (cases "find (\<lambda>r. fp_id r = fp_id q) ?own")
    case None
    with that show ?thesis by (auto simp: find_None_iff)
  next
    case (Some r)
    then have "r \<in> set ?own" "fp_id r = fp_id q" by (auto dest: find_SomeD)
    with that same_row [OF flow_okD(3) [OF ok], of r q] Some show ?thesis by (simp add: member_port_iff)
  qed
  have made: "net_between s3 f s t" if "(s, t) \<in> gained ?own ?cports c n" "n \<in> set ?outer" for s t n
    using after that unfolding redirecting_def by (elim conjE) (drule bspec [of _ _ "(s, t)"], auto)
  have "(?s1, c) \<in> gained ?own ?cports c n1" using found [OF q1(1)] c q1(2) by (simp add: gained_def)
  moreover have "(c, fp_id q2) \<in> gained ?own ?cports c n2" using found [OF q2(1)] c q2(2) key by (simp add: gained_def)
  ultimately have links: "net_between s3 f ?s1 c" "net_between s3 f c (fp_id q2)" using made n1(1) n2 by simp_all
  have s3: "flow_ok s3" "fs_blocks s3 = fs_blocks s2" "fs_ports s3 = fs_ports s2" "fs_bindings s3 = fs_bindings st0" "control_from s3 f ?s1"
    using after by (simp_all add: redirecting_def pinned_to_def)
  have "merged st0 f (fe_fresh e 0) ?s1 (fp_id q2) s3"
    unfolding merged_def
  proof (intro conjI)
    show "flow_ok s3" "fs_bindings s3 = fs_bindings st0" "control_from s3 f ?s1" by (rule s3)+
    show "set (fs_ports st0) \<subseteq> set (fs_ports s3)" unfolding s3(3) by (rule same2(3))
    show "fe_fresh e 0 \<notin> fb_id ` set (fs_blocks st0)" using new unfolding cb .
    show "map block_shape (fs_blocks s3) = map block_shape (fs_blocks st0) @ [(fe_fresh e 0, f, ''composite'')]"
      unfolding s3(2) blocks2 using shape by simp
    show "\<exists>p \<in> set (fs_ports s3). fp_flow_id p = f \<and> fp_block_id p = fe_fresh e 0 \<and>
        net_between s3 f ?s1 (fp_id p) \<and> net_between s3 f (fp_id p) (fp_id q2)"
      unfolding s3(3) using p(1) by (rule bexI [rotated]) (use p links cb in simp)
  qed
  moreover have "flow_ok st' \<and> same_rows s3 st'"
  proof -
    have unlisted: "fb_id cb \<noteq> i" if "i \<in> set ids" for i
    proof -
      from member_rows [OF members that] obtain b where "b \<in> set (flow_blocks st0 f)" "fb_id b = i" .
      then have "i \<in> fb_id ` set (fs_blocks st0)" by (auto simp: flow_blocks_def)
      with new show ?thesis by metis
    qed
    have kept: "keeps (\<lambda>st. (flow_ok st \<and> parentless (fb_id cb) st) \<and> same_rows s3 st)
      (run_then (updating (flow_update_block e f (fb_id cb) (no_update\<lparr>bu_meta := Some (composite_meta ids created)\<rparr>))) (\<lambda>_.
       run_then (run_each (\<lambda>i. updating (flow_update_block e f i (no_update\<lparr>bu_parent := Some (fb_id cb)\<rparr>))) ids) (\<lambda>_. finish ())))"
      by (intro keeps_then keeps_each keeps_rows describe_keeps [OF plain_invariant] adopt_keeps [OF plain_invariant] keeps_finish unlisted)
        (simp_all add: no_update_def)
    have "(flow_ok s3 \<and> parentless (fb_id cb) s3) \<and> same_rows s3 s3"
      using s3(1) folded_parentless [OF f2(1) s3(2)] by (simp add: same_rows_def)
    from ensuresD(1) [OF kept this rest] show ?thesis by blast
  qed
  ultimately show ?thesis using merged_rows by blast
qed

section \<open>What the flow then stands for\<close>

lemma continuations_links: "onward_links (continuations key item ns) = {(key n, item n) | n. n \<in> set ns}"
proof -
  have push: "get_or (dict_push k v d) k' [] = (if k = k' then get_or d k' [] @ [v] else get_or d k' [])"
    for k k' v :: string and d
    by (auto simp: get_or_def map_of_dict_push split: option.splits)
  have "set (get_or (fold (\<lambda>n. dict_push (key n) (item n)) ns d) p []) =
      set (get_or d p []) \<union> {item n | n. n \<in> set ns \<and> key n = p}" for p d
    by (induction ns arbitrary: d) (auto simp: push)
  then show ?thesis by (auto simp: onward_links_def continuations_def get_or_def)
qed

lemma continued_from:
  "onward_links (port_children st f) = {(fn_source_id n, fn_target_id n) | n. n \<in> set (flow_nets st f) \<and> on_composite st f (fn_source_id n)}"
  "onward_links (port_parents st f) = {(fn_target_id n, fn_source_id n) | n. n \<in> set (flow_nets st f) \<and> on_composite st f (fn_target_id n)}"
  unfolding port_children_def port_parents_def continuations_links by auto

lemma not_continued:
  assumes "\<not> on_composite st f i"
  shows "get_or (port_children st f) i [] = []" "get_or (port_parents st f) i [] = []"
proof -
  have "(i, j) \<notin> onward_links (port_children st f)" "(i, j) \<notin> onward_links (port_parents st f)" for j
    using assms unfolding continued_from by auto
  then show "get_or (port_children st f) i [] = []" "get_or (port_parents st f) i [] = []"
    unfolding onward_links_def by (metis (no_types, lifting) case_prodI list.set_intros(1) list.exhaust mem_Collect_eq)+
qed

lemma home_of:
  assumes "flow_ok st" and "p \<in> set (fs_ports st)" and "fp_flow_id p = f"
  shows "map_of (port_home st f) (fp_id p) = Some (fp_block_id p)"
  unfolding port_home_def
  by (rule dict_of_lookup_inj) (use assms flow_okD(3) [OF assms(1)] in \<open>auto simp: flow_ports_def distinct_map inj_on_def\<close>)

lemma block_by_id:
  assumes "flow_ok st" and "b \<in> set (fs_blocks st)" and "fb_flow_id b = f"
  shows "map_of (blocks_by_id st f) (fb_id b) = Some b"
  unfolding blocks_by_id_def
  by (rule dict_of_lookup_inj [where g = "\<lambda>b. b"])
    (use assms flow_okD(2) [OF assms(1)] in \<open>auto simp: flow_blocks_def distinct_map inj_on_def\<close>)

lemma on_composite_row:
  assumes ok: "flow_ok st" and p: "p \<in> set (fs_ports st)" "fp_flow_id p = f"
    and b: "b \<in> set (fs_blocks st)" "fb_id b = fp_block_id p" "fb_flow_id b = f"
  shows "on_composite st f (fp_id p) \<longleftrightarrow> fb_id b \<noteq> [] \<and> fb_kind b = ''composite''"
proof -
  have "map_of (blocks_by_id st f) (fp_block_id p) = Some b" using block_by_id [OF ok b(1,3)] b(2) by simp
  then show ?thesis using home_of [OF ok p] b(2) by (simp add: on_composite_def)
qed

text \<open>A port seen at once, and a port seen through one continuation.\<close>

lemma seen_here:
  assumes "flow_ok st" and "p \<in> set (fs_ports st)" "fp_flow_id p = f" and "\<not> on_composite st f (fp_id p)"
  shows "fp_block_id p \<in> unroll unroll_levels (port_parents st f) (port_home st f) (fp_id p)"
  unfolding unroll_bound ends_at_def
  by (intro exI [of _ 0] exI [of _ "fp_id p"])
    (use home_of [OF assms(1-3)] not_continued [OF assms(4)] in \<open>simp add: unroll_levels_def\<close>)

lemma seen_through:
  assumes "flow_ok st" and "p \<in> set (fs_ports st)" "fp_flow_id p = f" and "\<not> on_composite st f (fp_id p)"
    and "on_composite st f c" and "net_between st f c (fp_id p)"
  shows "fp_block_id p \<in> unroll unroll_levels (port_children st f) (port_home st f) c"
proof -
  from assms(6) obtain n where n: "n \<in> set (flow_nets st f)" "fn_source_id n = c" "fn_target_id n = fp_id p"
    by (auto simp: net_between_def flow_nets_def)
  then have "(fn_source_id n, fn_target_id n) \<in> onward_links (port_children st f)"
    unfolding continued_from(1) using assms(5) by auto
  then have "(c, fp_id p) \<in> onward_links (port_children st f)" by (simp only: n)
  then have "(c, fp_id p) \<in> onward_links (port_children st f) ^^ 1" by simp
  then have "1 < unroll_levels \<and> (c, fp_id p) \<in> onward_links (port_children st f) ^^ 1 \<and>
      ends_at (port_children st f) (port_home st f) (fp_id p) (fp_block_id p)"
    using home_of [OF assms(1-3)] not_continued [OF assms(4)] unfolding ends_at_def unroll_levels_def by (intro conjI) simp_all
  then show ?thesis unfolding unroll_bound by blast
qed

lemma expected_pair:
  assumes n: "n \<in> set (flow_nets st f)" "fn_kind n = ''control''"
    and s: "b1 \<in> unroll unroll_levels (port_parents st f) (port_home st f) (fn_source_id n)" "map_of bs b1 = Some x1"
    and t: "b2 \<in> unroll unroll_levels (port_children st f) (port_home st f) (fn_target_id n)" "map_of bs b2 = Some x2"
  shows "(fx_symbol_id x1, fx_symbol_id x2) \<in> expected_pairs bs (port_home st f) (flow_nets st f) (port_children st f) (port_parents st f)"
proof -
  have symbol: "fx_symbol_id x \<in> symbols_of bs B" if "b \<in> B" "map_of bs b = Some x" for b x B
    unfolding symbols_of_def by (rule UN_I [OF that(1)]) (simp add: that(2))
  from symbol [OF s] symbol [OF t] show ?thesis unfolding expected_pairs_def net_pairs_def using n by blast
qed

lemma shape_of:
  assumes "merged st0 f cb s1 t2 st" and "b \<in> set (fs_blocks st)"
  shows "(\<exists>b0 \<in> set (fs_blocks st0). block_shape b0 = block_shape b) \<or> block_shape b = (cb, f, ''composite'')"
proof -
  have "map block_shape (fs_blocks st) = map block_shape (fs_blocks st0) @ [(cb, f, ''composite'')]"
    using assms(1) unfolding merged_def by blast
  moreover have "block_shape b \<in> set (map block_shape (fs_blocks st))" using assms(2) by simp
  ultimately have "block_shape b \<in> set (map block_shape (fs_blocks st0) @ [(cb, f, ''composite'')])" by simp
  then show ?thesis by auto
qed

lemma merged_plain:
  assumes ok: "flow_ok st0" and m: "merged st0 f cb s1 t2 st" and p: "p \<in> set (fs_ports st0)" "fp_flow_id p = f"
    and "\<not> composite_home st0 p"
  shows "\<not> on_composite st f (fp_id p)"
proof -
  have st: "flow_ok st" "p \<in> set (fs_ports st)" using m p(1) by (auto simp: merged_def)
  from flow_okD(7) [OF st] obtain b where b: "b \<in> set (fs_blocks st)" "fb_flow_id b = f" "fb_id b = fp_block_id p"
    using p(2) by (auto simp: port_ok_def known_defs)
  have "fb_id b \<noteq> cb" using old_port_block [OF ok p(1)] m b(3) by (auto simp: merged_def)
  with shape_of [OF m b(1)] obtain b0 where b0: "b0 \<in> set (fs_blocks st0)" "fb_id b0 = fb_id b" "fb_kind b0 = fb_kind b"
    by (auto simp: block_shape_def)
  then have "fb_kind b \<noteq> ''composite''" using assms(5) b(3) by (auto simp: composite_home_def)
  then show ?thesis using on_composite_row [OF st p(2) b(1,3,2)] by simp
qed

lemma merged_expected:
  assumes ok: "flow_ok st0" and m: "merged st0 f cb (fp_id p1) (fp_id p2) st" and "cb \<noteq> []"
    and p1: "p1 \<in> set (fs_ports st0)" "fp_flow_id p1 = f" "\<not> composite_home st0 p1"
    and p2: "p2 \<in> set (fs_ports st0)" "fp_flow_id p2 = f" "\<not> composite_home st0 p2"
    and x: "map_of (bindings_by_block st0 f) (fp_block_id p1) = Some x1" "map_of (bindings_by_block st0 f) (fp_block_id p2) = Some x2"
  shows "(fx_symbol_id x1, fx_symbol_id x2) \<in> expected_pairs (bindings_by_block st f) (port_home st f) (flow_nets st f)
    (port_children st f) (port_parents st f)"
proof -
  have st: "flow_ok st" "fs_bindings st = fs_bindings st0" "set (fs_ports st0) \<subseteq> set (fs_ports st)" "control_from st f (fp_id p1)"
    and shapes: "map block_shape (fs_blocks st) = map block_shape (fs_blocks st0) @ [(cb, f, ''composite'')]"
    using m by (simp_all add: merged_def)
  from m obtain c where c: "c \<in> set (fs_ports st)" "fp_flow_id c = f" "fp_block_id c = cb"
    "net_between st f (fp_id p1) (fp_id c)" "net_between st f (fp_id c) (fp_id p2)" by (auto simp: merged_def)
  have "(cb, f, ''composite'') \<in> set (map block_shape (fs_blocks st))" unfolding shapes by simp
  then obtain b where b: "b \<in> set (fs_blocks st)" "fb_id b = cb" "fb_flow_id b = f" "fb_kind b = ''composite''"
    by (auto simp: block_shape_def)
  have on: "on_composite st f (fp_id c)" using on_composite_row [OF st(1) c(1,2) b(1) _ b(3)] b c(3) assms(3) by simp
  from c(4) obtain n where n: "n \<in> set (flow_nets st f)" "fn_source_id n = fp_id p1" "fn_target_id n = fp_id c"
    by (auto simp: net_between_def flow_nets_def)
  then have kind: "fn_kind n = ''control''" using st(4) by (auto simp: control_from_def flow_nets_def)
  have bs: "bindings_by_block st f = bindings_by_block st0 f" by (simp add: bindings_by_block_def flow_bindings_def st(2))
  have p: "p1 \<in> set (fs_ports st)" "p2 \<in> set (fs_ports st)" using p1(1) p2(1) st(3) by auto
  show ?thesis
  proof (rule expected_pair [OF n(1) kind])
    show "fp_block_id p1 \<in> unroll unroll_levels (port_parents st f) (port_home st f) (fn_source_id n)"
      unfolding n(2) by (rule seen_here [OF st(1) p(1) p1(2) merged_plain [OF ok m p1]])
    show "fp_block_id p2 \<in> unroll unroll_levels (port_children st f) (port_home st f) (fn_target_id n)"
      unfolding n(3) by (rule seen_through [OF st(1) p(2) p2(2) merged_plain [OF ok m p2] on c(5)])
  qed (use x bs in simp_all)
qed

end
