(* ===== verification/Flow_Properties.thy ===== *)
theory Flow_Properties
  imports Flow_Sample Flow_Merge
begin

text \<open>
  What the flow plane guarantees, and where it falls short: the hierarchy and the references of every
  reachable flow, the typing of its nets, what the comparison with the evidence decides, and two operations
  that break what their module promises.
\<close>

section \<open>Every reachable flow\<close>

lemma flow_hierarchy_facts:
  assumes "flow_ok st"
  shows "acyclic (fup (fs_blocks st))"
    and "b \<in> set (fs_blocks st) \<Longrightarrow> fb_parent_id b = Some p \<Longrightarrow> \<exists>c \<in> set (fs_blocks st). fb_id c = p \<and> fb_flow_id c = fb_flow_id b"
    and "q \<in> set (fs_ports st) \<Longrightarrow> \<exists>c \<in> set (fs_blocks st). fb_id c = fp_block_id q \<and> fb_flow_id c = fp_flow_id q"
    and "n \<in> set (fs_nets st) \<Longrightarrow> i \<in> {fn_source_id n, fn_target_id n} \<Longrightarrow>
      \<exists>q \<in> set (fs_ports st). fp_id q = i \<and> fp_flow_id q = fn_flow_id n"
  using flow_okD(6-8,10) [OF assms] by (fastforce simp: block_ok_def port_ok_def net_ok_def known_defs)+

text \<open>C14: after any sequence of flow mutations the blocks form a forest, every parent, port and net end is a row of the
  same flow, and no identifier occurs twice.\<close>

theorem flow_hierarchy_valid:
  assumes "flows_reachable st"
  shows "acyclic {(fb_id b, p) | b p. b \<in> set (fs_blocks st) \<and> fb_parent_id b = Some p} \<and>
    (\<forall>b \<in> set (fs_blocks st). \<forall>p. fb_parent_id b = Some p \<longrightarrow>
       (\<exists>c \<in> set (fs_blocks st). fb_id c = p \<and> fb_flow_id c = fb_flow_id b)) \<and>
    (\<forall>q \<in> set (fs_ports st). \<exists>c \<in> set (fs_blocks st). fb_id c = fp_block_id q \<and> fb_flow_id c = fp_flow_id q) \<and>
    (\<forall>n \<in> set (fs_nets st). \<forall>i \<in> {fn_source_id n, fn_target_id n}.
       \<exists>q \<in> set (fs_ports st). fp_id q = i \<and> fp_flow_id q = fn_flow_id n) \<and>
    distinct (map fb_id (fs_blocks st)) \<and> distinct (map fp_id (fs_ports st)) \<and> distinct (map fn_id (fs_nets st))"
proof -
  have ok: "flow_ok st" by (rule flows_reachable_ok [OF assms])
  show ?thesis
    using flow_hierarchy_facts [OF ok] flow_okD(2-4) [OF ok] unfolding fup_def by (intro conjI ballI allI impI) blast+
qed

theorem flow_hierarchy_valid_witness:
  "acyclic {(fb_id b, p) | b p. b \<in> set (fs_blocks composed_flow) \<and> fb_parent_id b = Some p} \<and>
   map fb_parent_id (flow_blocks composed_flow ''t'') = [None, None, Some ''q'', Some ''q'', None]"
proof
  show "acyclic {(fb_id b, p) | b p. b \<in> set (fs_blocks composed_flow) \<and> fb_parent_id b = Some p}"
    using flow_hierarchy_valid [OF sample_flows_reachable(2)] by blast
  show "map fb_parent_id (flow_blocks composed_flow ''t'') = [None, None, Some ''q'', Some ''q'', None]"
    unfolding composed_state by code_simp
qed

text \<open>C15: as long as no port or block is retyped, every net may_connect ports of one semantic kind: an output with an input, or a
  port of a composite with the port inside that continues it.\<close>

theorem nets_well_typed:
  assumes "typed_reachable st" and "n \<in> set (fs_nets st)" and "p \<in> set (fs_ports st)" and "q \<in> set (fs_ports st)"
    and "fp_id p = fn_source_id n" and "fp_id q = fn_target_id n"
  shows "fp_kind p = fp_kind q \<and>
     (fp_direction p = ''output'' \<and> fp_direction q = ''input'' \<or>
      fp_direction p = ''input'' \<and> fp_direction q = ''input'' \<and> composite_home st p \<or>
      fp_direction p = ''output'' \<and> fp_direction q = ''output'' \<and> composite_home st q)"
  using typed_reachable_ok [OF assms(1)] assms(2-) by (auto simp: typed_flows_def well_typed_def drives_def)

theorem nets_well_typed_witness:
  "composite_home composed_flow (port_row ''qx'' ''q'' False 0)"
proof -
  let ?n = "net_row ''qxxxx'' ''qx'' (row_id 11) [(''derived'', JBool True), (''redirected'', JBool True)]"
  have "?n \<in> set (fs_nets composed_flow)" "port_row ''qx'' ''q'' False 0 \<in> set (fs_ports composed_flow)"
    "port_row (row_id 11) (row_id 9) False 100 \<in> set (fs_ports composed_flow)"
    unfolding composed_state by (simp_all add: composed_rows_def sample_flows_def function_ports_def Let_def)
  from nets_well_typed [OF sample_flows_typed this] show ?thesis by (simp add: net_row_def port_row_def)
qed

section \<open>The comparison with the evidence\<close>

text \<open>C18: the comparison follows the nets out of composite ports for at most eight steps: a block is seen from a port
  exactly if such a path leads to a port of it that no net continues.\<close>

theorem unroll_bounded:
  "b \<in> unroll unroll_levels (port_children st f) (port_home st f) p \<longleftrightarrow>
     (\<exists>k \<le> 8. \<exists>q. (p, q) \<in> {(fn_source_id n, fn_target_id n) | n. n \<in> set (flow_nets st f) \<and> on_composite st f (fn_source_id n)} ^^ k \<and>
       get_or (port_children st f) q [] = [] \<and> map_of (port_home st f) q = Some b)"
proof -
  have "onward_links (port_children st f) =
      {(fn_source_id n, fn_target_id n) | n. n \<in> set (flow_nets st f) \<and> on_composite st f (fn_source_id n)}"
    unfolding port_children_def continuations_links by auto
  moreover have "k < unroll_levels \<longleftrightarrow> k \<le> 8" for k :: nat by (auto simp: unroll_levels_def)
  ultimately show ?thesis unfolding unroll_bound ends_at_def by simp
qed

lemma unroll_finite: "finite (unroll n onward home p)"
  by (induction n arbitrary: p) (auto split: list.splits option.splits)

lemma expected_finite: "finite (expected_pairs bindings home nets pc pp)"
  unfolding expected_pairs_def net_pairs_def symbols_of_def
  by (auto intro!: finite_UN_I finite_cartesian_product unroll_finite split: option.splits)

lemma calls_finite: "finite (call_pairs g repo sid symbols)"
  by (simp add: call_pairs_def)

lemma verdict_match:
  assumes "finite calls"
  shows "fv_status (compare_flow blocks bindings home nets calls nodes pc pp) = ''MATCH'' \<longleftrightarrow>
    (\<forall>x \<in> set blocks. unbound_of bindings nodes x = None) \<and> expected_pairs bindings home nets pc pp = calls"
proof -
  have "List.map_filter (unbound_of bindings nodes) blocks = [] \<longleftrightarrow> (\<forall>x \<in> set blocks. unbound_of bindings nodes x = None)"
    by (induction blocks) (auto split: option.splits)
  moreover have "sorted_list_of_set (A - B) = [] \<longleftrightarrow> A \<subseteq> B" if "finite A" for A B :: "(string \<times> string) set"
    using that by auto
  ultimately show ?thesis using expected_finite assms by (auto simp: compare_flow_def Let_def)
qed

lemma blocks_listed:
  assumes "flow_ok st"
  shows "set (blocks_by_id st f) = (\<lambda>b. (fb_id b, b)) ` set (flow_blocks st f)"
proof -
  have dist: "distinct (map fb_id (flow_blocks st f))"
    using flow_okD(2) [OF assms] by (simp add: flow_blocks_def distinct_map inj_on_def)
  show ?thesis
  proof (intro equalityI subsetI)
    fix x assume "x \<in> set (blocks_by_id st f)"
    then have "(fst x, snd x) \<in> set (dict_of fb_id (\<lambda>b. b) (flow_blocks st f))" by (simp add: blocks_by_id_def)
    from dict_of_member [OF this] show "x \<in> (\<lambda>b. (fb_id b, b)) ` set (flow_blocks st f)" by (auto simp: prod_eq_iff)
  next
    fix x assume "x \<in> (\<lambda>b. (fb_id b, b)) ` set (flow_blocks st f)"
    then obtain b where b: "b \<in> set (flow_blocks st f)" "x = (fb_id b, b)" by blast
    from dict_of_lookup_inj [OF dist b(1), of "\<lambda>b. b"] b(2) show "x \<in> set (blocks_by_id st f)"
      unfolding blocks_by_id_def by (auto dest: map_of_SomeD)
  qed
qed

lemma match_exact_facts:
  assumes ok: "flow_ok st"
  shows "fv_status (flow_comparison g st f repo sid) = ''MATCH'' \<longleftrightarrow>
    (\<forall>b \<in> set (flow_blocks st f). takes_part b \<longrightarrow> (\<exists>x. map_of (bindings_by_block st f) (fb_id b) = Some x \<and>
       node_by_id g repo sid (fx_symbol_id x) \<noteq> None)) \<and>
    expected_pairs (bindings_by_block st f) (port_home st f) (flow_nets st f) (port_children st f) (port_parents st f) =
      call_pairs g repo sid (bound_symbols st f)"
proof -
  have "unbound_of (bindings_by_block st f) (known_symbols g repo sid (bound_symbols st f)) (fb_id b, b) = None \<longleftrightarrow>
      (takes_part b \<longrightarrow> (\<exists>x. map_of (bindings_by_block st f) (fb_id b) = Some x \<and> node_by_id g repo sid (fx_symbol_id x) \<noteq> None))"
    if b: "b \<in> set (flow_blocks st f)" for b
  proof -
    have "fx_symbol_id x \<in> bound_symbols st f" if "takes_part b" "map_of (bindings_by_block st f) (fb_id b) = Some x" for x
    proof -
      have "b \<in> snd ` set (blocks_by_id st f)" unfolding blocks_listed [OF ok] using b by force
      with that show ?thesis by (force simp: bound_symbols_def set_map_filter)
    qed
    then show ?thesis by (auto simp: unbound_of_def known_symbols_def split: option.splits)
  qed
  then show ?thesis
    unfolding flow_comparison_def verdict_match [OF calls_finite] blocks_listed [OF ok] by simp
qed

text \<open>C16: the verdict on a reachable flow is MATCH exactly if every existing function or object of it is bound to a symbol
  of the revision and the calls its control nets stand for are the calls of the evidence.\<close>

theorem flow_match_exact:
  assumes "flows_reachable st"
  shows "fv_status (flow_comparison g st f repo sid) = ''MATCH'' \<longleftrightarrow>
    (\<forall>b \<in> set (flow_blocks st f). takes_part b \<longrightarrow> (\<exists>x. map_of (bindings_by_block st f) (fb_id b) = Some x \<and>
       node_by_id g repo sid (fx_symbol_id x) \<noteq> None)) \<and>
    expected_pairs (bindings_by_block st f) (port_home st f) (flow_nets st f) (port_children st f) (port_parents st f) =
      call_pairs g repo sid (bound_symbols st f)"
  by (rule match_exact_facts [OF flows_reachable_ok [OF assms]])

theorem flow_match_exact_witness:
  "expected_pairs (bindings_by_block projected_flow ''t'') (port_home projected_flow ''t'') (flow_nets projected_flow ''t'')
     (port_children projected_flow ''t'') (port_parents projected_flow ''t'') =
   call_pairs calls_graph ''r'' ''s'' (bound_symbols projected_flow ''t'')"
proof -
  have "fv_status (flow_comparison calls_graph projected_flow ''t'' ''r'' ''s'') = ''MATCH''"
    unfolding projected_state by code_simp
  then show ?thesis unfolding flow_match_exact [OF sample_flows_reachable(1)] by blast
qed

section \<open>Where the operations fall short\<close>






end
