(* ===== verification/Spec2Isabelle.thy ===== *)
theory Spec2Isabelle
  imports Query_Wire Source_Span Lvs_Properties Drc_Properties Lifecycle_Properties Issuer_Properties Graph_Properties Arch_Properties Flow_Properties
begin

text \<open>
  Verification of the core of rintel, a repository-intelligence kernel in Python
  (\<open>src/src/rintel\<close>). The program indexes source code, collects claims of several evidence
  providers about it, decides which of them become canonical evidence, compares a design with the
  code, and takes design changes through a gated lifecycle. Its promise is that nothing is stated
  more strongly than the evidence behind it: unknown stays unknown, a conflict has no winner, absence
  needs a certificate, and a change is closed only when its gates have been passed. The theorems
  below are this promise, component by component.

  \<^bold>\<open>Shared ground.\<close> \<open>Py\<close> is the prelude: strings and their order, dictionaries as association lists,
  stable sorting, exceptions as the left of a sum with \<open>and_then\<close> and \<open>map_err\<close>, and the generic lemmas
  and collections (\<open>dict_simps\<close>, \<open>err_elims\<close>). \<open>Json\<close> models JSON values and \<open>json.dumps\<close> as the
  repository calls it, and proves that the text determines the value up to the order of keys, on which
  all digests rest. \<open>Contract\<close> holds the four truth dimensions (\<open>analysis/contract.py\<close>) and the
  candidate and result records of providers (\<open>provider_arch/contract.py\<close>).

  \<^bold>\<open>Evidence authority\<close> (\<open>evidence_authority/*.py\<close>). \<open>Evidence_Model\<close>: claims, annotations, envelopes
  (\<open>model.py\<close>), the lane registry (\<open>registry.py\<close>) and bridges (\<open>bridge.py\<close>). \<open>Authority\<close>: admission
  through a lane, support receipts and publication batches (\<open>engine.py\<close>, \<open>support.py\<close>, and
  \<open>provider_arch/_publication_batch.py\<close>). \<open>Alignment\<close>: alignment of canonical and reference evidence.
  \<open>Query_Wire\<close>: the query projection (\<open>query.py\<close>) and the reader of wire envelopes
  (\<open>serialization.py\<close>). The lemmas show what admission requires, that alignment promotes nothing, that
  reference evidence never closes a canonical unknown, and that the wire form round trips.

  \<^bold>\<open>Canonical identity and reconciliation\<close> (\<open>identity.py\<close>, \<open>provider_arch/canonical.py\<close>,
  \<open>differential.py\<close>). \<open>Canonical\<close> is the model; \<open>Reconcile\<close> proves conservation of the candidates,
  agreement of every settled slot, reality of every conflict and independence of the order.

  \<^bold>\<open>Source spans\<close> (\<open>source_span/*.py\<close>). \<open>Source_Text\<close>: the maskers and the position index; \<open>Source_Span\<close>:
  span shapes and resolvers. Masking keeps offsets (locale \<open>offset_masker\<close>, interpreted on all
  maskers), a C block comment is blanked up to its closer, positions round trip, and EXACT is said only of a
  range that is.

  \<^bold>\<open>LVS engine\<close> (\<open>lvs/model.py\<close>, \<open>code_side.py\<close>, \<open>compare/_impl.py\<close>, \<open>engine.py\<close>). \<open>Lvs_Model\<close>,
  \<open>Lvs_Compare\<close> and \<open>Lvs_Engine\<close> hold the records, the eight comparators and the engine;
  \<open>Lvs_Properties\<close> the contract of a comparator (locale \<open>lvs_comparator\<close>, interpreted on all eight) and
  the evidence each verdict needs.

  \<^bold>\<open>DRC engine\<close> (\<open>drc/model.py\<close>, \<open>drc/engine.py\<close>): theory \<open>Drc\<close>. A rule is its id and its function; the
  engine's run is complete and in a fixed order, and a crash is a finding.

  \<^bold>\<open>Design lifecycle\<close> (\<open>design_lifecycle/*.py\<close>), the state machine of a design change:
    \<^item> \<open>Design_Drc\<close> (\<open>design_drc.py\<close>): the design rule with its depth-first search, run by the engine;
      \<open>Drc_Properties\<close>: the search decides acyclicity, and when a design is acceptable.
    \<^item> \<open>Lifecycle_Model\<close> (\<open>models.py\<close>): the aggregate \<open>design_change\<close>, the commands, and the writing and
      reading of the stored form.
    \<^item> \<open>Lifecycle_Store\<close> (\<open>repository.py\<close>): the tables as the record \<open>repo_state\<close>; a transaction is a function
      that gives the new tables or an error. The locale \<open>versioned_store\<close> is the optimistic locking
      interface, interpreted on it.
    \<^item> \<open>Lifecycle_Brief\<close> (\<open>source_projection.py\<close>, \<open>_build_brief\<close>, \<open>_active_revision\<close> of \<open>service.py\<close>): the
      record \<open>lc_env\<close> of what a call reads from outside, the evidence brief, the active revision.
    \<^item> \<open>Lifecycle_Gates\<close>: \<open>preflight\<close>, \<open>evaluate_command\<close> and the checks; \<open>Lifecycle_Evaluate\<close>: \<open>_evaluate\<close> and
      the adoption of actual evidence; \<open>Lifecycle_Service\<close>: \<open>open_change\<close>, \<open>apply_command\<close> with one definition
      for each command, \<open>record_test_run\<close>, \<open>record_approval\<close>.
    \<^item> \<open>Lifecycle_Steps\<close>: the abstract machine \<open>moves\<close> over the seven states and what the success of each
      command says; \<open>Lifecycle_Invariant\<close>: the step relation \<open>lc_step\<close> (any command, any environment, any
      order), reachable states and their invariant; \<open>Lifecycle_Sample\<close>: one run from opening to closing;
      \<open>Lifecycle_Properties\<close>: closed means proved, the ledger has no gaps, ended changes are immutable,
      the service refines \<open>moves\<close>, a stale writer loses, every live change can be abandoned.

  \<^bold>\<open>Graph store\<close> (the graph tables of \<open>db.py\<close>, \<open>_copy_previous\<close> and the publication of \<open>indexer.py\<close>):
    \<^item> \<open>Graph_Store\<close>: the tables of snapshots, nodes, edges and support receipts as the record \<open>graph\<close>, one
      definition for each operation. A database constraint is a \<open>graph_error\<close>.
    \<^item> \<open>Graph_Steps\<close>: the operations as the step function \<open>graph_step\<close>; the locale \<open>graph_invariant\<close>,
      interpreted on the order of revisions, the freezing of published support and the keys of the tables.
    \<^item> \<open>Graph_Properties\<close>: the current revision is the newest published one, published support is frozen,
      a publication is supported, a copy inherits facts and receipts, indexing again changes nothing.

  \<^bold>\<open>Coverage authority\<close> (\<open>coverage_authority/*.py\<close>, \<open>clang_provider/compile_context.py\<close>): the only source
  of statements of absence.
    \<^item> \<open>Coverage_Audit\<close> (\<open>audit.py\<close>): the audit of one function body in the compiler's tree.
    \<^item> \<open>Clang_Context\<close>: compile commands, the translation unit and its digests.
    \<^item> \<open>Coverage_Certificate\<close> (\<open>model.py\<close>, \<open>validation.py\<close>, the certificate table of \<open>repository.py\<close>): the
      sealed certificate, the chain of checks \<open>applicable_complete\<close>, the two writers of the table.
    \<^item> \<open>Coverage_Properties\<close>: an applicable certificate is checked against everything it was issued for, pins
      its inputs, cannot be altered, is the only one of its domain, and carries the verdict MISSING.
    \<^item> \<open>Coverage_Issuer\<close> (\<open>issuer.py\<close>): the issuing run over the graph store, with the support overlay that
      it publishes; \<open>Issuer_Properties\<close>: COMPLETE needs an exhaustive audit of inputs that did not change.

  \<^bold>\<open>Architecture plane\<close> (\<open>archmodel.py\<close>, the tables \<open>arch_*\<close> of \<open>schema.py\<close> and their methods in \<open>db.py\<close>,
  \<open>_apply_architecture_mutation\<close> of \<open>design_lifecycle/service.py\<close>): the design that a change edits.
    \<^item> \<open>Arch_Store\<close>: the tables as the record \<open>arch\<close>, the queries, and the statements with the constraints
      of the schema; \<open>Arch_Baseline\<close>: the frozen baseline and the diff against it; \<open>Arch_Methods\<close>: the methods
      of the store, the fork and the subtree deletion among them.
    \<^item> \<open>Arch_Service\<close>: the validators and the mutations; \<open>None\<close> is a call that does not return.
    \<^item> \<open>Arch_Invariant\<close>, \<open>Arch_Subtree\<close>, \<open>Arch_Steps\<close>, \<open>Arch_Fork\<close>: the invariant \<open>arch_ok\<close> (keys, references inside
      one model, a hierarchy without cycles) and that every statement and method keeps it;
      \<open>Arch_Machine\<close>: the step relation of all mutations, the locale \<open>safe_machine\<close> interpreted on it.
    \<^item> \<open>Arch_Diff\<close>, \<open>Arch_Sample\<close>, \<open>Arch_Properties\<close>: every mutation returns, the cycle check is exact, a
      subtree deletion removes what lies below, a fork does not differ from its baseline.

  \<^bold>\<open>How the parts meet.\<close> Providers report candidates (\<open>Contract\<close>), reconciliation turns them into canonical
  evidence or conflicts (\<open>Canonical\<close>), the authority admits and publishes it (\<open>Authority\<close>), the graph store
  keeps its receipts beside the facts (\<open>Graph_Store\<close>), queries read it back (\<open>Query_Wire\<close>). The issuer of
  certificates audits a published revision, publishes a support overlay through the same store and
  authority, and writes the certificate. The lifecycle takes the published graph as the readers of its
  environment, runs the design rule through the DRC engine, takes its LVS verdict from a runner and its
  statements of absence from the certificates (\<open>with_coverage\<close>).

  \<^bold>\<open>Flow plane\<close> (\<open>flow/*.py\<close>, the tables \<open>flow_*\<close> of \<open>schema.py\<close> and their methods in \<open>db.py\<close>,
  \<open>_apply_flow_mutation\<close> of \<open>design_lifecycle/service.py\<close>): netlists of blocks, ports and nets over the evidence.
    \<^item> \<open>Flow_Store\<close>: the tables as the record \<open>flows\<close> and the methods of the store; \<open>Flow_Service\<close>: the
      operations of the service as runs that commit method by method, composites included;
      \<open>Flow_Projection\<close>: blocks, ports and control nets made from symbols and calls.
    \<^item> \<open>Flow_Compare\<close>: the comparison of a flow with the calls of the evidence, through composites.
    \<^item> \<open>Flow_Invariant\<close> and \<open>Flow_Typing\<close>: the invariants \<open>flow_ok\<close> and \<open>typed_flows\<close> and that every method keeps
      them, with the rules \<open>ensures\<close> for runs; \<open>Flow_Machine\<close>, \<open>Flow_Composite\<close> and \<open>Flow_Steps\<close>: the mutations, that
      each keeps both (the second, in which only composites have members, as long as nothing is retyped), and
      \<open>safe_machine\<close> interpreted twice.
    \<^item> \<open>Flow_Merge\<close>: how a composite redirects the nets from outside, and which calls it gains;
      \<open>Flow_Sample\<close> is a small run; \<open>Flow_Properties\<close> states the hierarchy, the typing of nets, what \<open>MATCH\<close>
      means, how far composites are seen through, and two operations that break what the module promises:
      a composite merges the calls of members that share a port name, a connected port can be retyped.

  \<^bold>\<open>Parameters.\<close> SHA-256 is a function of the text (\<open>H\<close>, \<open>en_hash\<close>, \<open>cv_hash\<close>), collision-free only where a
  theorem says so. The architecture plane reads the clock, the identifiers it draws and the evidence graph
  from \<open>arch_env\<close>, the flow plane from \<open>flow_env\<close> and \<open>evidence_env\<close>, where the signature of a symbol is a
  function of its row. Clocks, fresh identifiers, the readers of the graph store, job, test and authorization
  lookups, the LVS runner, the writers behind a design mutation and the certificate check are fields of
  \<open>lc_env\<close>; the file system, the compiler's identity, tree, diagnostics and dependencies and the provider
  run are fields of \<open>cov_env\<close> and \<open>issue_env\<close>; the theorems hold for all of them, and a call may meet a
  different environment each time.

  \<^bold>\<open>Bounds and limits.\<close> Characters are the code points below 256. Integers are unbounded as in Python. A
  float is carried as its text in JSON and as an exact number elsewhere. Loops are structural
  recursions or have a termination proof; no fuel is used. Composites are seen through for eight levels,
  the limit of the code, which is the first argument of \<open>unroll\<close>. The limit of the Python stack is not modelled.
  Rows of the store have the types of their columns. A transaction is atomic, as the database promises.
  A query without an order gives its rows as they were inserted (SQL promises no order), and an update of a
  component may carry a sort order, which the lifecycle never sends.

  \<^bold>\<open>Not modelled.\<close> File, process and network I/O, SQL text and schema, the PostgreSQL store (\<open>pg/\<close>), front
  ends (\<open>cli.py\<close>, \<open>mcp/\<close>, \<open>harness.py\<close>), drivers of external compilers and parsers (\<open>clang_provider\<close>
  beyond the compile context, \<open>flang_provider\<close>, \<open>kernel/\<close>, \<open>adapters/\<close>), the analysis contract that the
  issuer sends to the provider host, the file-backed publication store and the provider host process.
  The architecture plane leaves out the JSON text of its columns, the rows of the API and the user
  interface state; the flow plane the EDA addresses, the writeback into source files and the parsing of
  signatures. The rules of \<open>drc/rules\<close> and the provider protocol are not modelled.
\<close>

end
